(* ===== verification/Prelude.thy ===== *)
theory Prelude
  imports Main
begin

text \<open>
  Shared ground of the development: the text operations of the TypeScript sources
  (\<open>trim\<close>, \<open>toUpperCase\<close>, \<open>padEnd\<close>, number printing), the errors the code throws, the
  state-and-exception reading of code that runs inside one PostgreSQL transaction, a small
  Hoare calculus for it, and the SQL row operations (first matching row, \<open>UPDATE ... WHERE\<close>,
  sums and counts over a filtered table) with the lemmas the component theories share.
  Text is a list of 8-bit characters, read as the code units below 256 of a JavaScript
  string; letter case is that of the ASCII letters.
\<close>

named_theorems tx_simps "one-step execution of transaction combinators"
named_theorems tx_defs "definitions of operations on the database"
named_theorems hoare_intros "syntax-directed rules for transaction triples"
named_theorems table_simps "row operations on tables"

section \<open>Text\<close>

type_synonym uuid = string

definition code_of :: "char \<Rightarrow> int" where
  "code_of c = of_char c"

definition is_space :: "char \<Rightarrow> bool" where
  "is_space c \<longleftrightarrow> (9 \<le> code_of c \<and> code_of c \<le> 13) \<or> code_of c = 32 \<or> code_of c = 160"

definition is_digit :: "char \<Rightarrow> bool" where
  "is_digit c \<longleftrightarrow> 48 \<le> code_of c \<and> code_of c \<le> 57"

definition is_upper :: "char \<Rightarrow> bool" where
  "is_upper c \<longleftrightarrow> 65 \<le> code_of c \<and> code_of c \<le> 90"

definition is_lower :: "char \<Rightarrow> bool" where
  "is_lower c \<longleftrightarrow> 97 \<le> code_of c \<and> code_of c \<le> 122"

definition is_hex_lower :: "char \<Rightarrow> bool" where
  "is_hex_lower c \<longleftrightarrow> is_digit c \<or> (97 \<le> code_of c \<and> code_of c \<le> 102)"

definition is_hex_upper :: "char \<Rightarrow> bool" where
  "is_hex_upper c \<longleftrightarrow> is_digit c \<or> (65 \<le> code_of c \<and> code_of c \<le> 70)"

definition to_upper :: "char \<Rightarrow> char" where
  "to_upper c = (if is_lower c then char_of (code_of c - 32) else c)"

definition to_lower :: "char \<Rightarrow> char" where
  "to_lower c = (if is_upper c then char_of (code_of c + 32) else c)"

definition toUpperCase :: "string \<Rightarrow> string" where
  "toUpperCase = map to_upper"

definition toLowerCase :: "string \<Rightarrow> string" where
  "toLowerCase = map to_lower"

definition trim :: "string \<Rightarrow> string" where
  "trim s = rev (dropWhile is_space (rev (dropWhile is_space s)))"

text \<open>The code-unit order of JavaScript's default \<open>sort\<close>, and of PostgreSQL's order on
  lower-case UUID text.\<close>

fun str_le :: "string \<Rightarrow> string \<Rightarrow> bool" where
  "str_le [] ys = True"
| "str_le (x # xs) [] = False"
| "str_le (x # xs) (y # ys) =
     (code_of x < code_of y \<or> (code_of x = code_of y \<and> str_le xs ys))"

fun insert_by :: "('a \<Rightarrow> 'a \<Rightarrow> bool) \<Rightarrow> 'a \<Rightarrow> 'a list \<Rightarrow> 'a list" where
  "insert_by le x [] = [x]"
| "insert_by le x (y # ys) = (if le x y then x # y # ys else y # insert_by le x ys)"

definition sort_by :: "('a \<Rightarrow> 'a \<Rightarrow> bool) \<Rightarrow> 'a list \<Rightarrow> 'a list" where
  "sort_by le xs = foldr (insert_by le) xs []"

text \<open>\<open>[...new Set(xs)]\<close>: the distinct values in order of first occurrence.\<close>

fun unique_values :: "'a list \<Rightarrow> 'a list" where
  "unique_values [] = []"
| "unique_values (x # xs) = x # filter (\<lambda>y. y \<noteq> x) (unique_values xs)"

fun join_with :: "string \<Rightarrow> string list \<Rightarrow> string" where
  "join_with sep [] = []"
| "join_with sep [x] = x"
| "join_with sep (x # y # xs) = x @ sep @ join_with sep (y # xs)"

definition digit_char :: "int \<Rightarrow> char" where
  "digit_char d = char_of (48 + d)"

text \<open>Decimal digits of a non-negative integer, and \<open>String\<close> or \<open>toString\<close> of an integer.\<close>

function show_digits :: "int \<Rightarrow> string" where
  "show_digits n =
     (if n < 10 then [digit_char n] else show_digits (n div 10) @ [digit_char (n mod 10)])"
  by pat_completeness auto
termination
  by (relation "measure nat") auto

declare show_digits.simps [simp del]

definition show_int :: "int \<Rightarrow> string" where
  "show_int i = (if i < 0 then CHR ''-'' # show_digits (- i) else show_digits i)"

definition padStart :: "nat \<Rightarrow> char \<Rightarrow> string \<Rightarrow> string" where
  "padStart n c s = replicate (n - length s) c @ s"

definition padEnd :: "nat \<Rightarrow> char \<Rightarrow> string \<Rightarrow> string" where
  "padEnd n c s = s @ replicate (n - length s) c"

definition digit_value :: "char \<Rightarrow> int" where
  "digit_value c = code_of c - 48"

text \<open>\<open>BigInt(s)\<close> and \<open>Number(s)\<close> on a string of decimal digits.\<close>

definition read_digits :: "string \<Rightarrow> int" where
  "read_digits s = foldl (\<lambda>n c. 10 * n + digit_value c) 0 s"

text \<open>The pattern the sources use for UUID text: eight, four, four, four and twelve hexadecimal
  digits, a version digit from 1 to 8 and a variant digit 8, 9, a or b, in either letter case.\<close>

definition uuidPattern :: "string \<Rightarrow> bool" where
  "uuidPattern s \<longleftrightarrow>
     (let t = toLowerCase s in
      length t = 36
      \<and> t ! 8 = CHR ''-'' \<and> t ! 13 = CHR ''-'' \<and> t ! 18 = CHR ''-'' \<and> t ! 23 = CHR ''-''
      \<and> list_all is_hex_lower (take 8 t @ take 4 (drop 9 t) @ take 4 (drop 14 t) @ take 4 (drop 19 t) @ drop 24 t)
      \<and> t ! 14 \<in> set ''12345678'' \<and> t ! 19 \<in> set ''89ab'')"

text \<open>A JavaScript number is an integral value or not (a fraction, NaN, an infinity).
  The sources test \<open>Number.isSafeInteger\<close> before they use one as an amount.\<close>

datatype js_number = Integral int | NonIntegral

datatype js_amount = BigIntAmount int | NumberAmount js_number

definition MAX_SAFE_INTEGER :: int where
  "MAX_SAFE_INTEGER = 9007199254740991"

definition PG_BIGINT_MAX :: int where
  "PG_BIGINT_MAX = 9223372036854775807"

fun isSafeInteger :: "js_number \<Rightarrow> bool" where
  "isSafeInteger (Integral i) \<longleftrightarrow> - MAX_SAFE_INTEGER \<le> i \<and> i \<le> MAX_SAFE_INTEGER"
| "isSafeInteger NonIntegral \<longleftrightarrow> False"

text \<open>\<open>typeof value === "bigint" ? value : BigInt(value)\<close>, read after the safe-integer test.\<close>

fun amount_value :: "js_amount \<Rightarrow> int" where
  "amount_value (BigIntAmount i) = i"
| "amount_value (NumberAmount (Integral i)) = i"
| "amount_value (NumberAmount NonIntegral) = 0"

fun is_unsafe_number :: "js_amount \<Rightarrow> bool" where
  "is_unsafe_number (BigIntAmount i) \<longleftrightarrow> False"
| "is_unsafe_number (NumberAmount n) \<longleftrightarrow> \<not> isSafeInteger n"

section \<open>Errors\<close>

text \<open>One constructor per error class of the sources, with its message (and before it the \<open>code\<close> of the classes that carry one); the violations,
  \<open>TriggerException\<close> and \<open>NumericValueOutOfRange\<close> are what PostgreSQL raises for a violated constraint or a trigger's \<open>RAISE EXCEPTION\<close>.\<close>

datatype error =
    GenericError string
  | HttpError int string
  | JournalValidationError string
  | JournalIdempotencyConflictError string
  | PaymentStateError string
  | PaymentIntentNotFoundError string
  | PaymentReceiptConflictError string
  | CheckoutPolicyError string
  | InboxPayloadConflictError string
  | PostgresIdempotencyConflictError string
  | PostgresAuditVerificationError string
  | InvestmentAllocationError string
  | GovernanceEvidenceError string
  | OfferingIssuanceTermsError string
  | OfferingChainDeploymentError string
  | InvestorWalletLinkError string
  | TenantAccessError string
  | AuthSessionError string
  | StepUpRequiredError string
  | TotpFactorError string
  | UniqueViolation string
  | CheckViolation string
  | ForeignKeyViolation string
  | TriggerException string
  | NumericValueOutOfRange string
  | PaystackRequestError string bool
  | PaystackInboxPayloadError string
  | SumsubInboxPayloadError string
  | DistributionAuthorityError string string
  | DistributionLifecyclePolicyError string
  | DistributionPayoutError string string

text \<open>\<open>error.message\<close>.\<close>

fun error_message :: "error \<Rightarrow> string" where
  "error_message (GenericError m) = m"
| "error_message (HttpError c m) = m"
| "error_message (JournalValidationError m) = m"
| "error_message (JournalIdempotencyConflictError m) = m"
| "error_message (PaymentStateError m) = m"
| "error_message (PaymentIntentNotFoundError m) = m"
| "error_message (PaymentReceiptConflictError m) = m"
| "error_message (CheckoutPolicyError m) = m"
| "error_message (InboxPayloadConflictError m) = m"
| "error_message (PostgresIdempotencyConflictError m) = m"
| "error_message (PostgresAuditVerificationError m) = m"
| "error_message (InvestmentAllocationError m) = m"
| "error_message (GovernanceEvidenceError m) = m"
| "error_message (OfferingIssuanceTermsError m) = m"
| "error_message (OfferingChainDeploymentError m) = m"
| "error_message (InvestorWalletLinkError m) = m"
| "error_message (TenantAccessError m) = m"
| "error_message (AuthSessionError m) = m"
| "error_message (StepUpRequiredError m) = m"
| "error_message (TotpFactorError m) = m"
| "error_message (UniqueViolation m) = m"
| "error_message (CheckViolation m) = m"
| "error_message (ForeignKeyViolation m) = m"
| "error_message (TriggerException m) = m"
| "error_message (NumericValueOutOfRange m) = m"
| "error_message (PaystackRequestError m retryable) = m"
| "error_message (PaystackInboxPayloadError m) = m"
| "error_message (SumsubInboxPayloadError m) = m"
| "error_message (DistributionAuthorityError c m) = m"
| "error_message (DistributionLifecyclePolicyError m) = m"
| "error_message (DistributionPayoutError c m) = m"

section \<open>Configuration\<close>

text \<open>The settings of \<^verbatim>\<open>src/config/env.ts\<close> that the workers read.\<close>

record env_config =
  OUTBOX_DISPATCH_BATCH_SIZE :: nat
  OUTBOX_CLAIM_TIMEOUT_SECONDS :: int
  OUTBOX_RETRY_BASE_SECONDS :: int
  INBOX_DISPATCH_BATCH_SIZE :: nat
  INBOX_CLAIM_TIMEOUT_SECONDS :: int
  INBOX_RETRY_BASE_SECONDS :: int
  INBOX_MAX_ATTEMPTS :: int
  PAYMENT_INSTRUCTION_CLAIM_TIMEOUT_SECONDS :: int
  PAYMENT_INSTRUCTION_RETRY_BASE_SECONDS :: int
  PAYMENT_INSTRUCTION_MAX_ATTEMPTS :: int
  PAYMENT_EXPIRY_BATCH_SIZE :: nat

text \<open>The defaults of the schema.\<close>

definition default_env :: env_config where
  "default_env = \<lparr>OUTBOX_DISPATCH_BATCH_SIZE = 50, OUTBOX_CLAIM_TIMEOUT_SECONDS = 300,
     OUTBOX_RETRY_BASE_SECONDS = 10, INBOX_DISPATCH_BATCH_SIZE = 50, INBOX_CLAIM_TIMEOUT_SECONDS = 300,
     INBOX_RETRY_BASE_SECONDS = 10, INBOX_MAX_ATTEMPTS = 12,
     PAYMENT_INSTRUCTION_CLAIM_TIMEOUT_SECONDS = 300, PAYMENT_INSTRUCTION_RETRY_BASE_SECONDS = 10,
     PAYMENT_INSTRUCTION_MAX_ATTEMPTS = 12, PAYMENT_EXPIRY_BATCH_SIZE = 100\<rparr>"

section \<open>Transactions\<close>

text \<open>Code that receives a \<open>PoolClient\<close> reads and writes the database and may throw. A throw
  abandons the changes: \<open>withPostgresTransaction\<close> of \<^verbatim>\<open>src/db/postgres.ts\<close> rolls back.\<close>

type_synonym ('s, 'a) tx = "'s \<Rightarrow> error + 'a \<times> 's"

definition ret :: "'a \<Rightarrow> ('s, 'a) tx" where
  "ret a = (\<lambda>s. Inr (a, s))"

definition throw :: "error \<Rightarrow> ('s, 'a) tx" where
  "throw e = (\<lambda>s. Inl e)"

definition bnd :: "('s, 'a) tx \<Rightarrow> ('a \<Rightarrow> ('s, 'b) tx) \<Rightarrow> ('s, 'b) tx" where
  "bnd m f = (\<lambda>s. case m s of Inl e \<Rightarrow> Inl e | Inr (a, s') \<Rightarrow> f a s')"

definition andThen :: "('s, 'a) tx \<Rightarrow> ('s, 'b) tx \<Rightarrow> ('s, 'b) tx" where
  "andThen m k = bnd m (\<lambda>_. k)"

definition query :: "('s \<Rightarrow> 'a) \<Rightarrow> ('s, 'a) tx" where
  "query f = (\<lambda>s. Inr (f s, s))"

definition modify :: "('s \<Rightarrow> 's) \<Rightarrow> ('s, unit) tx" where
  "modify f = (\<lambda>s. Inr ((), f s))"

definition require :: "bool \<Rightarrow> error \<Rightarrow> ('s, unit) tx" where
  "require b e = (if b then ret () else throw e)"

definition lift_sum :: "error + 'a \<Rightarrow> ('s, 'a) tx" where
  "lift_sum r = (\<lambda>s. case r of Inl e \<Rightarrow> Inl e | Inr a \<Rightarrow> Inr (a, s))"

primrec for_each :: "'a list \<Rightarrow> ('a \<Rightarrow> ('s, unit) tx) \<Rightarrow> ('s, unit) tx" where
  "for_each [] f = ret ()"
| "for_each (x # xs) f = andThen (f x) (for_each xs f)"

text \<open>\<open>postgres.ts: withPostgresTransaction\<close>. The first argument is the schema's deferred
  constraint check, run at \<open>COMMIT\<close> on the state before and after the transaction; any error
  leaves the state as it was and is rethrown.\<close>

definition withPostgresTransaction ::
    "('s \<Rightarrow> 's \<Rightarrow> error option) \<Rightarrow> ('s, 'a) tx \<Rightarrow> 's \<Rightarrow> (error + 'a) \<times> 's" where
  "withPostgresTransaction deferred fn s =
     (case fn s of
        Inl e \<Rightarrow> (Inl e, s)
      | Inr (a, s') \<Rightarrow>
          (case deferred s s' of Some e \<Rightarrow> (Inl e, s) | None \<Rightarrow> (Inr a, s')))"

definition no_deferred :: "'s \<Rightarrow> 's \<Rightarrow> error option" where
  "no_deferred s s' = None"

section \<open>Tables\<close>

text \<open>A table is the list of its rows, newest last. \<open>UPDATE ... WHERE\<close> maps the rows that
  match; \<open>rows[0]\<close> of a \<open>SELECT\<close> is the first row that matches.\<close>

definition update_where :: "('r \<Rightarrow> bool) \<Rightarrow> ('r \<Rightarrow> 'r) \<Rightarrow> 'r list \<Rightarrow> 'r list" where
  "update_where p f t = map (\<lambda>r. if p r then f r else r) t"

definition first_row :: "('r \<Rightarrow> bool) \<Rightarrow> 'r list \<Rightarrow> 'r option" where
  "first_row p t = List.find p t"

definition exists_row :: "('r \<Rightarrow> bool) \<Rightarrow> 'r list \<Rightarrow> bool" where
  "exists_row p t = list_ex p t"

definition count_rows :: "('r \<Rightarrow> bool) \<Rightarrow> 'r list \<Rightarrow> nat" where
  "count_rows p t = length (filter p t)"

definition sum_rows :: "('r \<Rightarrow> bool) \<Rightarrow> ('r \<Rightarrow> int) \<Rightarrow> 'r list \<Rightarrow> int" where
  "sum_rows p f t = sum_list (map f (filter p t))"

section \<open>Lemmas on text\<close>

lemma set_insert_by [simp]: "set (insert_by le x xs) = insert x (set xs)"
  by (induction xs) auto

lemma length_insert_by [simp]: "length (insert_by le x xs) = Suc (length xs)"
  by (induction xs) auto

lemma sort_by_Nil [simp]: "sort_by le [] = []"
  by (simp add: sort_by_def)

lemma sort_by_Cons [simp]: "sort_by le (x # xs) = insert_by le x (sort_by le xs)"
  by (simp add: sort_by_def)

lemma set_sort_by [simp]: "set (sort_by le xs) = set xs"
  by (induction xs) auto

lemma length_sort_by [simp]: "length (sort_by le xs) = length xs"
  by (induction xs) auto

lemma distinct_insert_by [simp]: "distinct (insert_by le x xs) \<longleftrightarrow> x \<notin> set xs \<and> distinct xs"
  by (induction xs) auto

lemma distinct_sort_by [simp]: "distinct (sort_by le xs) = distinct xs"
  by (induction xs) auto

lemma set_unique_values [simp]: "set (unique_values xs) = set xs"
  by (induction xs) auto

lemma distinct_unique_values [simp]: "distinct (unique_values xs)"
  by (induction xs) auto

lemma unique_values_distinct: "distinct xs \<Longrightarrow> unique_values xs = xs"
  by (induction xs) (auto simp: filter_id_conv)

lemma length_unique_values_le: "length (unique_values xs) \<le> length xs"
  by (induction xs) (auto intro: le_trans [OF length_filter_le])

lemma unique_values_length_eq: "length (unique_values xs) = length xs \<Longrightarrow> distinct xs"
  by (metis card_distinct distinct_card distinct_unique_values set_unique_values)

lemma code_of_inject [simp]: "code_of c = code_of d \<longleftrightarrow> c = d"
  by (simp add: code_of_def)

lemma str_le_refl [simp]: "str_le xs xs"
  by (induction xs) auto

lemma str_le_total: "str_le xs ys \<or> str_le ys xs"
  by (induction xs ys rule: str_le.induct) auto

lemma str_le_antisym: "str_le xs ys \<Longrightarrow> str_le ys xs \<Longrightarrow> xs = ys"
  by (induction xs ys rule: str_le.induct) (auto elim: str_le.elims)

lemma str_le_trans: "str_le xs ys \<Longrightarrow> str_le ys zs \<Longrightarrow> str_le xs zs"
proof (induction xs ys arbitrary: zs rule: str_le.induct)
  case (3 x xs y ys)
  then show ?case by (cases zs) auto
qed auto

lemma insert_by_str_le_sorted: "sorted_wrt str_le xs \<Longrightarrow> sorted_wrt str_le (insert_by str_le x xs)"
proof (induction xs)
  case (Cons y ys)
  then show ?case using str_le_total [of x y] str_le_trans [of x y] by auto
qed simp

lemma sort_by_str_le_sorted: "sorted_wrt str_le (sort_by str_le xs)"
  by (induction xs) (simp_all add: insert_by_str_le_sorted)

lemma insert_by_front: "(\<And>y. y \<in> set xs \<Longrightarrow> le x y) \<Longrightarrow> insert_by le x xs = x # xs"
  by (cases xs) auto

lemma sort_by_sorted: "sorted_wrt le xs \<Longrightarrow> sort_by le xs = xs"
  by (induction xs) (simp_all add: insert_by_front)

lemma code_of_char_of [simp]: "0 \<le> n \<Longrightarrow> n < 256 \<Longrightarrow> code_of (char_of n) = n"
  by (simp add: code_of_def)

lemma char_of_code_of [simp]: "char_of (code_of c) = c"
  by (simp add: code_of_def)

lemma is_space_to_lower [simp]: "is_space (to_lower c) = is_space c"
  by (auto simp: to_lower_def is_space_def is_upper_def)

lemma to_lower_idem [simp]: "to_lower (to_lower c) = to_lower c"
  by (auto simp: to_lower_def is_upper_def)

lemma toLowerCase_idem [simp]: "toLowerCase (toLowerCase s) = toLowerCase s"
  by (simp add: toLowerCase_def)

lemma trim_toLowerCase: "trim (toLowerCase s) = toLowerCase (trim s)"
  by (simp add: trim_def toLowerCase_def dropWhile_map rev_map comp_def)

lemma is_space_to_upper [simp]: "is_space (to_upper c) = is_space c"
  by (auto simp: to_upper_def is_space_def is_lower_def)

lemma to_upper_idem [simp]: "to_upper (to_upper c) = to_upper c"
  by (auto simp: to_upper_def is_lower_def)

lemma toUpperCase_idem [simp]: "toUpperCase (toUpperCase s) = toUpperCase s"
  by (simp add: toUpperCase_def)

lemma trim_toUpperCase: "trim (toUpperCase s) = toUpperCase (trim s)"
  by (simp add: trim_def toUpperCase_def dropWhile_map rev_map comp_def)

lemma dropWhile_rev_idem:
  "dropWhile p (rev (dropWhile p (rev (dropWhile p xs)))) = rev (dropWhile p (rev (dropWhile p xs)))"
proof (cases "dropWhile p xs")
  case (Cons y ys)
  then have "\<not> p y" using hd_dropWhile [of p xs] by (metis list.distinct(1) list.sel(1))
  then have "dropWhile p (rev ys @ [y]) = dropWhile p (rev ys) @ [y]"
    by (induction ys rule: rev_induct) (auto simp: dropWhile_append)
  with Cons \<open>\<not> p y\<close> show ?thesis by simp
next
  case Nil
  show ?thesis unfolding Nil by simp
qed

lemma trim_idem [simp]: "trim (trim s) = trim s"
  by (simp add: trim_def dropWhile_rev_idem)

lemma is_digit_digit_char [simp]: "0 \<le> d \<Longrightarrow> d < 10 \<Longrightarrow> is_digit (digit_char d)"
  by (simp add: is_digit_def digit_char_def)

lemma digit_value_digit_char [simp]: "0 \<le> d \<Longrightarrow> d < 10 \<Longrightarrow> digit_value (digit_char d) = d"
  by (simp add: digit_value_def digit_char_def)

lemma digit_char_digit_value [simp]: "digit_char (digit_value c) = c"
  by (simp add: digit_char_def digit_value_def)

lemma digit_value_bounds: "is_digit c \<Longrightarrow> 0 \<le> digit_value c \<and> digit_value c < 10"
  by (simp add: is_digit_def digit_value_def)

lemma show_digits_digits: "0 \<le> n \<Longrightarrow> c \<in> set (show_digits n) \<Longrightarrow> is_digit c"
proof (induction n rule: show_digits.induct)
  case (1 n)
  then show ?case by (cases "n < 10") (auto simp: show_digits.simps [of n])
qed

lemma show_digits_not_Nil [simp]: "show_digits n \<noteq> []"
  by (subst show_digits.simps) simp

lemma read_digits_Nil [simp]: "read_digits [] = 0"
  by (simp add: read_digits_def)

lemma read_digits_append: "read_digits (xs @ [c]) = 10 * read_digits xs + digit_value c"
  by (simp add: read_digits_def)

lemma read_show_digits [simp]: "0 \<le> n \<Longrightarrow> read_digits (show_digits n) = n"
proof (induction n rule: show_digits.induct)
  case (1 n)
  show ?case
  proof (cases "n < 10")
    case True
    then show ?thesis using 1 by (simp add: show_digits.simps [of n] read_digits_def)
  next
    case False
    then show ?thesis using 1 by (simp add: show_digits.simps [of n] read_digits_append)
  qed
qed

lemma read_digits_nonneg: "list_all is_digit s \<Longrightarrow> 0 \<le> read_digits s"
proof (induction s rule: rev_induct)
  case (snoc c s)
  then show ?case by (auto simp: read_digits_append dest: digit_value_bounds)
qed simp

lemma show_digits_inject: "0 \<le> m \<Longrightarrow> 0 \<le> n \<Longrightarrow> show_digits m = show_digits n \<longleftrightarrow> m = n"
  by (metis read_show_digits)

section \<open>Lemmas on transactions\<close>

lemma ret_run [tx_simps]: "ret a s = Inr (a, s)"
  by (simp add: ret_def)

lemma throw_run [tx_simps]: "throw e s = Inl e"
  by (simp add: throw_def)

lemma bnd_run [tx_simps]: "bnd m f s = (case m s of Inl e \<Rightarrow> Inl e | Inr (a, s') \<Rightarrow> f a s')"
  by (simp add: bnd_def)

lemma andThen_run [tx_simps]: "andThen m k s = (case m s of Inl e \<Rightarrow> Inl e | Inr (a, s') \<Rightarrow> k s')"
  by (simp add: andThen_def bnd_def)

lemma query_run [tx_simps]: "query f s = Inr (f s, s)"
  by (simp add: query_def)

lemma modify_run [tx_simps]: "modify f s = Inr ((), f s)"
  by (simp add: modify_def)

lemma require_run [tx_simps]: "require b e s = (if b then Inr ((), s) else Inl e)"
  by (simp add: require_def ret_def throw_def)

lemma lift_sum_run [tx_simps]:
  "lift_sum r s = (case r of Inl e \<Rightarrow> Inl e | Inr a \<Rightarrow> Inr (a, s))"
  by (simp add: lift_sum_def)

text \<open>The same steps by projections, and pushed through the control structures: unfolding with
  \<open>tx_defs\<close> (the operations) and \<open>tx_eval\<close> leaves a nest of \<open>case\<close> expressions in which
  evaluation never enters a continuation before its state is known.\<close>

lemma bnd_proj: "bnd m f s = (case m s of Inl e \<Rightarrow> Inl e | Inr r \<Rightarrow> f (fst r) (snd r))"
  by (simp add: bnd_def split: sum.splits)

lemma andThen_proj: "andThen m k s = (case m s of Inl e \<Rightarrow> Inl e | Inr r \<Rightarrow> k (snd r))"
  by (simp add: andThen_def bnd_def split: sum.splits)

lemma transaction_proj:
  "withPostgresTransaction d fn s =
     (case fn s of
        Inl e \<Rightarrow> (Inl e, s)
      | Inr r \<Rightarrow> (case d s (snd r) of Some e \<Rightarrow> (Inl e, s) | None \<Rightarrow> (Inr (fst r), snd r)))"
  by (simp add: withPostgresTransaction_def split: sum.splits option.splits)

lemma let_run: "Let x f s = Let x (\<lambda>y. f y s)"
  by simp

lemma if_run: "(if b then m else k) s = (if b then m s else k s)"
  by simp

lemma case_option_run:
  "(case x of None \<Rightarrow> m | Some y \<Rightarrow> k y) s = (case x of None \<Rightarrow> m s | Some y \<Rightarrow> k y s)"
  by (simp split: option.splits)

lemma case_prod_run: "(case p of (a, b) \<Rightarrow> f a b) s = f (fst p) (snd p) s"
  by (simp split: prod.splits)

lemmas tx_eval = ret_run throw_run query_run modify_run require_run lift_sum_run bnd_proj
  andThen_proj transaction_proj let_run if_run case_option_run case_prod_run

lemma not_isl: "\<not> isl x \<longleftrightarrow> (\<exists>r. x = Inr r)"
  by (cases x) auto

lemma bnd_Inr:
  assumes "bnd m f s = Inr (b, s'')"
  obtains a s' where "m s = Inr (a, s')" and "f a s' = Inr (b, s'')"
  using assms by (auto simp: bnd_def split: sum.splits)

lemma andThen_Inr:
  assumes "andThen m k s = Inr (b, s'')"
  obtains a s' where "m s = Inr (a, s')" and "k s' = Inr (b, s'')"
  using assms by (auto simp: andThen_def bnd_def split: sum.splits)

lemma require_Inr: "require b e s = Inr (u, s') \<longleftrightarrow> b \<and> s' = s"
  by (auto simp: require_def ret_def throw_def)

lemma query_Inr: "query f s = Inr (a, s') \<longleftrightarrow> a = f s \<and> s' = s"
  by (auto simp: query_def)

lemma modify_Inr: "modify f s = Inr (u, s') \<longleftrightarrow> s' = f s"
  by (auto simp: modify_def)

lemma ret_Inr: "ret a s = Inr (b, s') \<longleftrightarrow> b = a \<and> s' = s"
  by (auto simp: ret_def)

lemma throw_Inr: "throw e s \<noteq> Inr r"
  by (simp add: throw_def)

lemma lift_sum_Inr: "lift_sum r s = Inr (a, s') \<longleftrightarrow> r = Inr a \<and> s' = s"
  by (auto simp: lift_sum_def split: sum.splits)

lemmas tx_Inr = require_Inr query_Inr modify_Inr ret_Inr throw_Inr lift_sum_Inr

lemmas tx_elims = bnd_Inr andThen_Inr

lemma withPostgresTransaction_rollback:
  "withPostgresTransaction d fn s = (Inl e, s') \<Longrightarrow> s' = s"
  by (auto simp: withPostgresTransaction_def split: sum.splits option.splits prod.splits)

lemma withPostgresTransaction_commit:
  "withPostgresTransaction d fn s = (Inr a, s') \<longleftrightarrow> fn s = Inr (a, s') \<and> d s s' = None"
  by (auto simp: withPostgresTransaction_def split: sum.splits option.splits)

subsection \<open>Triples\<close>

text \<open>\<open>hoare P m Q\<close>: from a state with \<open>P\<close>, if \<open>m\<close> does not throw then its result and final
  state satisfy \<open>Q\<close>. A throw needs no postcondition: the transaction is rolled back.\<close>

definition hoare :: "('s \<Rightarrow> bool) \<Rightarrow> ('s, 'a) tx \<Rightarrow> ('a \<Rightarrow> 's \<Rightarrow> bool) \<Rightarrow> bool" where
  "hoare P m Q \<longleftrightarrow> (\<forall>s a s'. P s \<longrightarrow> m s = Inr (a, s') \<longrightarrow> Q a s')"

abbreviation preserves :: "('s \<Rightarrow> bool) \<Rightarrow> ('s, 'a) tx \<Rightarrow> bool" where
  "preserves P m \<equiv> hoare P m (\<lambda>_. P)"

lemma hoareI: "(\<And>s a s'. P s \<Longrightarrow> m s = Inr (a, s') \<Longrightarrow> Q a s') \<Longrightarrow> hoare P m Q"
  by (simp add: hoare_def)

lemma hoareD: "hoare P m Q \<Longrightarrow> P s \<Longrightarrow> m s = Inr (a, s') \<Longrightarrow> Q a s'"
  by (simp add: hoare_def)

lemma hoare_weaken: "hoare P m Q \<Longrightarrow> (\<And>a s. Q a s \<Longrightarrow> Q' a s) \<Longrightarrow> hoare P m Q'"
  by (fastforce simp: hoare_def)

lemma hoare_ret [hoare_intros]: "(\<And>s. P s \<Longrightarrow> Q a s) \<Longrightarrow> hoare P (ret a) Q"
  by (simp add: hoare_def ret_def)

lemma hoare_throw [hoare_intros]: "hoare P (throw e) Q"
  by (simp add: hoare_def throw_def)

lemma preserves_bnd [hoare_intros]:
  "preserves P m \<Longrightarrow> (\<And>a. hoare P (f a) Q) \<Longrightarrow> hoare P (bnd m f) Q"
  by (auto simp: hoare_def elim!: bnd_Inr)

lemma preserves_andThen [hoare_intros]:
  "preserves P m \<Longrightarrow> hoare P k Q \<Longrightarrow> hoare P (andThen m k) Q"
  by (auto simp: hoare_def elim!: andThen_Inr)

lemma hoare_bnd: "hoare P m R \<Longrightarrow> (\<And>a. hoare (R a) (f a) Q) \<Longrightarrow> hoare P (bnd m f) Q"
  unfolding hoare_def by (blast elim: bnd_Inr)

lemma hoare_query [hoare_intros]: "(\<And>s. P s \<Longrightarrow> Q (f s) s) \<Longrightarrow> hoare P (query f) Q"
  by (simp add: hoare_def query_def)

lemma hoare_modify [hoare_intros]: "(\<And>s. P s \<Longrightarrow> Q () (f s)) \<Longrightarrow> hoare P (modify f) Q"
  by (simp add: hoare_def modify_def)

lemma hoare_require [hoare_intros]: "(\<And>s. P s \<Longrightarrow> b \<Longrightarrow> Q () s) \<Longrightarrow> hoare P (require b e) Q"
  by (simp add: hoare_def require_Inr)

lemma hoare_lift_sum [hoare_intros]: "(\<And>a s. P s \<Longrightarrow> Q a s) \<Longrightarrow> hoare P (lift_sum r) Q"
  by (simp add: hoare_def lift_sum_Inr)

lemma hoare_if [hoare_intros]:
  "(b \<Longrightarrow> hoare P m Q) \<Longrightarrow> (\<not> b \<Longrightarrow> hoare P k Q) \<Longrightarrow> hoare P (if b then m else k) Q"
  by simp

lemma hoare_case_option [hoare_intros]:
  "(x = None \<Longrightarrow> hoare P m Q) \<Longrightarrow> (\<And>y. x = Some y \<Longrightarrow> hoare P (k y) Q)
   \<Longrightarrow> hoare P (case x of None \<Rightarrow> m | Some y \<Rightarrow> k y) Q"
  by (cases x) simp_all

lemma hoare_case_prod [hoare_intros]: "(\<And>a b. x = (a, b) \<Longrightarrow> hoare P (f a b) Q) \<Longrightarrow> hoare P (case x of (a, b) \<Rightarrow> f a b) Q"
  by (cases x) simp

lemma hoare_Let [hoare_intros]: "(\<And>y. y = x \<Longrightarrow> hoare P (f y) Q) \<Longrightarrow> hoare P (Let x f) Q"
  by simp

lemma hoare_for_each [hoare_intros]:
  "(\<And>x. x \<in> set xs \<Longrightarrow> preserves P (f x)) \<Longrightarrow> (\<And>s. P s \<Longrightarrow> Q () s) \<Longrightarrow> hoare P (for_each xs f) Q"
proof (induction xs)
  case Nil
  then show ?case by (simp add: hoare_ret)
next
  case (Cons x xs)
  then show ?case by (simp add: preserves_andThen)
qed

lemma transaction_preserves:
  assumes "preserves P m" and "P s"
  shows "P (snd (withPostgresTransaction d m s))"
  using assms
  by (auto simp: withPostgresTransaction_def hoare_def split: sum.splits option.splits prod.splits)

section \<open>Lemmas on tables\<close>

lemma update_where_Nil [simp]: "update_where p f [] = []"
  by (simp add: update_where_def)

lemma update_where_Cons [simp]:
  "update_where p f (r # t) = (if p r then f r else r) # update_where p f t"
  by (simp add: update_where_def)

lemma update_where_append [simp]: "update_where p f (t @ u) = update_where p f t @ update_where p f u"
  by (simp add: update_where_def)

lemma length_update_where [simp]: "length (update_where p f t) = length t"
  by (simp add: update_where_def)

lemma set_update_where: "set (update_where p f t) = (\<lambda>r. if p r then f r else r) ` set t"
  by (simp add: update_where_def)

lemma update_where_none: "(\<And>r. r \<in> set t \<Longrightarrow> \<not> p r) \<Longrightarrow> update_where p f t = t"
  by (simp add: update_where_def map_idI)

lemma map_update_where [table_simps]:
  "(\<And>r. g (f r) = g r) \<Longrightarrow> map g (update_where p f t) = map g t"
  by (simp add: update_where_def)

lemma first_row_Some: "first_row p t = Some r \<Longrightarrow> r \<in> set t \<and> p r"
  by (metis find_Some_iff first_row_def nth_mem)

lemma first_row_None: "first_row p t = None \<longleftrightarrow> (\<forall>r \<in> set t. \<not> p r)"
  by (auto simp: first_row_def find_None_iff)

lemma first_row_Nil [simp]: "first_row p [] = None"
  by (simp add: first_row_def)

lemma first_row_Cons [simp]: "first_row p (r # t) = (if p r then Some r else first_row p t)"
  by (simp add: first_row_def)

lemma first_row_append:
  "first_row p (t @ u) = (case first_row p t of None \<Rightarrow> first_row p u | Some r \<Rightarrow> Some r)"
  by (induction t) auto

lemma exists_row_iff [simp]: "exists_row p t \<longleftrightarrow> (\<exists>r \<in> set t. p r)"
  by (simp add: exists_row_def list_ex_iff)

lemma count_rows_Nil [simp]: "count_rows p [] = 0"
  by (simp add: count_rows_def)

lemma count_rows_Cons [simp]: "count_rows p (r # t) = (if p r then 1 else 0) + count_rows p t"
  by (simp add: count_rows_def)

lemma count_rows_append [simp]: "count_rows p (t @ u) = count_rows p t + count_rows p u"
  by (simp add: count_rows_def)

lemma sum_rows_Nil [simp]: "sum_rows p f [] = 0"
  by (simp add: sum_rows_def)

lemma sum_rows_Cons [simp]: "sum_rows p f (r # t) = (if p r then f r else 0) + sum_rows p f t"
  by (simp add: sum_rows_def)

lemma sum_rows_append [simp]: "sum_rows p f (t @ u) = sum_rows p f t + sum_rows p f u"
  by (simp add: sum_rows_def)

lemma sum_rows_nonneg: "(\<And>r. r \<in> set t \<Longrightarrow> p r \<Longrightarrow> 0 \<le> f r) \<Longrightarrow> 0 \<le> sum_rows p f t"
  by (induction t) auto

lemma sum_rows_mono:
  "(\<And>r. r \<in> set t \<Longrightarrow> p r \<Longrightarrow> q r) \<Longrightarrow> (\<And>r. r \<in> set t \<Longrightarrow> 0 \<le> f r) \<Longrightarrow> sum_rows p f t \<le> sum_rows q f t"
  by (induction t) force+

lemma sum_rows_cong:
  "(\<And>r. r \<in> set t \<Longrightarrow> p r = q r) \<Longrightarrow> (\<And>r. r \<in> set t \<Longrightarrow> q r \<Longrightarrow> f r = g r) \<Longrightarrow> sum_rows p f t = sum_rows q g t"
  by (induction t) auto

lemma sum_rows_insert_by: "sum_rows p f (insert_by le x xs) = sum_rows p f (x # xs)"
  by (induction xs) auto

lemma sum_rows_sort_by [simp]: "sum_rows p f (sort_by le xs) = sum_rows p f xs"
  by (induction xs) (simp_all add: sum_rows_insert_by)

lemma sum_list_point:
  "distinct ks \<Longrightarrow> sum_list (map (\<lambda>i. if k = i then x else 0) ks) = (if k \<in> set ks then x else (0 :: int))"
  by (induction ks) auto

lemma distinct_map_key_eq:
  "distinct (map k t) \<Longrightarrow> r \<in> set t \<Longrightarrow> r' \<in> set t \<Longrightarrow> k r = k r' \<Longrightarrow> r = r'"
  by (simp add: distinct_map inj_on_def)

lemma first_row_unique:
  assumes "distinct (map k t)" and "r \<in> set t" and "\<And>r'. p r' \<longleftrightarrow> k r' = k r"
  shows "first_row p t = Some r"
proof -
  have "first_row p t \<noteq> None" using assms(2,3) by (auto simp: first_row_None)
  then obtain r' where r': "first_row p t = Some r'" by auto
  then have "r' \<in> set t" and "k r' = k r" using assms(3) by (auto dest: first_row_Some)
  then have "r' = r" using assms(1,2) by (metis distinct_map_key_eq)
  with r' show ?thesis by simp
qed

end
