(* ===== verification/State_Machine.thy ===== *)
theory State_Machine
  imports Prelude
begin

text \<open>
  The entity lifecycles of \<^verbatim>\<open>src/utils/state-machine.ts\<close>, over the status enumerations of
  \<^verbatim>\<open>src/utils/constants.ts\<close>: the seven transition tables, the evidence contexts and
  \<open>assertTransition\<close> with its 409 (no such edge) and 422 (missing evidence) errors; the 500 error
  for an unknown entity type is left out, since the typed calls have no other entity type. The
  locale \<open>lifecycle\<close> states what a lifecycle's clients rely on (an accepted step is an edge
  of the table); its lemmas on runs of accepted steps are used through one interpretation
  per entity.
\<close>

section \<open>Statuses\<close>

datatype applicationStatus =
    App_draft
  | App_submitted
  | App_in_review
  | App_needs_info
  | App_approved
  | App_rejected
  | App_withdrawn

datatype offeringStatus =
    Off_draft
  | Off_pending_review
  | Off_needs_revision
  | Off_open
  | Off_paused
  | Off_closed
  | Off_servicing
  | Off_exited
  | Off_cancelled

datatype subscriptionStatus =
    Sub_draft
  | Sub_committed
  | Sub_payment_pending
  | Sub_paid
  | Sub_allocation_confirmed
  | Sub_refund_pending
  | Sub_cancelled
  | Sub_refunded

datatype distributionStatus =
    Dist_draft
  | Dist_pending_approval
  | Dist_approved
  | Dist_scheduled
  | Dist_paying
  | Dist_paid
  | Dist_failed
  | Dist_reversed

datatype milestoneStatus =
    Mil_not_started
  | Mil_evidence_submitted
  | Mil_in_review
  | Mil_verified
  | Mil_rejected

datatype trancheStatus =
    Tr_locked
  | Tr_eligible
  | Tr_processing
  | Tr_released
  | Tr_failed
  | Tr_reversed

datatype distributionLineStatus =
    Line_pending
  | Line_processing
  | Line_paid
  | Line_failed
  | Line_skipped
  | Line_reversed

fun applicationStatus_text :: "applicationStatus \<Rightarrow> string" where
  "applicationStatus_text App_draft = ''draft''"
| "applicationStatus_text App_submitted = ''submitted''"
| "applicationStatus_text App_in_review = ''in_review''"
| "applicationStatus_text App_needs_info = ''needs_info''"
| "applicationStatus_text App_approved = ''approved''"
| "applicationStatus_text App_rejected = ''rejected''"
| "applicationStatus_text App_withdrawn = ''withdrawn''"

fun offeringStatus_text :: "offeringStatus \<Rightarrow> string" where
  "offeringStatus_text Off_draft = ''draft''"
| "offeringStatus_text Off_pending_review = ''pending_review''"
| "offeringStatus_text Off_needs_revision = ''needs_revision''"
| "offeringStatus_text Off_open = ''open''"
| "offeringStatus_text Off_paused = ''paused''"
| "offeringStatus_text Off_closed = ''closed''"
| "offeringStatus_text Off_servicing = ''servicing''"
| "offeringStatus_text Off_exited = ''exited''"
| "offeringStatus_text Off_cancelled = ''cancelled''"

fun subscriptionStatus_text :: "subscriptionStatus \<Rightarrow> string" where
  "subscriptionStatus_text Sub_draft = ''draft''"
| "subscriptionStatus_text Sub_committed = ''committed''"
| "subscriptionStatus_text Sub_payment_pending = ''payment_pending''"
| "subscriptionStatus_text Sub_paid = ''paid''"
| "subscriptionStatus_text Sub_allocation_confirmed = ''allocation_confirmed''"
| "subscriptionStatus_text Sub_refund_pending = ''refund_pending''"
| "subscriptionStatus_text Sub_cancelled = ''cancelled''"
| "subscriptionStatus_text Sub_refunded = ''refunded''"

fun distributionStatus_text :: "distributionStatus \<Rightarrow> string" where
  "distributionStatus_text Dist_draft = ''draft''"
| "distributionStatus_text Dist_pending_approval = ''pending_approval''"
| "distributionStatus_text Dist_approved = ''approved''"
| "distributionStatus_text Dist_scheduled = ''scheduled''"
| "distributionStatus_text Dist_paying = ''paying''"
| "distributionStatus_text Dist_paid = ''paid''"
| "distributionStatus_text Dist_failed = ''failed''"
| "distributionStatus_text Dist_reversed = ''reversed''"

fun milestoneStatus_text :: "milestoneStatus \<Rightarrow> string" where
  "milestoneStatus_text Mil_not_started = ''not_started''"
| "milestoneStatus_text Mil_evidence_submitted = ''evidence_submitted''"
| "milestoneStatus_text Mil_in_review = ''in_review''"
| "milestoneStatus_text Mil_verified = ''verified''"
| "milestoneStatus_text Mil_rejected = ''rejected''"

fun trancheStatus_text :: "trancheStatus \<Rightarrow> string" where
  "trancheStatus_text Tr_locked = ''locked''"
| "trancheStatus_text Tr_eligible = ''eligible''"
| "trancheStatus_text Tr_processing = ''processing''"
| "trancheStatus_text Tr_released = ''released''"
| "trancheStatus_text Tr_failed = ''failed''"
| "trancheStatus_text Tr_reversed = ''reversed''"

fun distributionLineStatus_text :: "distributionLineStatus \<Rightarrow> string" where
  "distributionLineStatus_text Line_pending = ''pending''"
| "distributionLineStatus_text Line_processing = ''processing''"
| "distributionLineStatus_text Line_paid = ''paid''"
| "distributionLineStatus_text Line_failed = ''failed''"
| "distributionLineStatus_text Line_skipped = ''skipped''"
| "distributionLineStatus_text Line_reversed = ''reversed''"

section \<open>Evidence contexts\<close>

text \<open>Every field of a context is an optional boolean and the context itself is optional;
  \<open>context?.field\<close> is then true only if it is present and true.\<close>

record applicationContext =
  minimumDocsSatisfied :: "bool option"
  tasksComplete :: "bool option"
  evidenceVerified :: "bool option"
  legalChecklistSatisfied :: "bool option"

record offeringContext =
  applicationApproved :: "bool option"
  economicPolicyValid :: "bool option"
  disclosurePackPresent :: "bool option"
  feesConfigured :: "bool option"
  hasPendingReconciliation :: "bool option"
  overrideRequested :: "bool option"
  allocationSnapshotAnchored :: "bool option"

record subscriptionContext =
  kycApproved :: "bool option"
  eligibilitySatisfied :: "bool option"
  hasVerifiedReceipt :: "bool option"
  hasReversalRecord :: "bool option"
  approvalPolicySatisfied :: "bool option"

record distributionContext =
  dist_hasPayoutReceipts :: "bool option"
  dist_trusteeProcessCompleted :: "bool option"

record distributionLineContext =
  line_hasOutboundTransfer :: "bool option"

record milestoneContext =
  hasEvidence :: "bool option"

record trancheContext =
  tr_hasPayoutReceipts :: "bool option"
  tr_hasOutboundTransfer :: "bool option"
  tr_trusteeProcessCompleted :: "bool option"

definition given :: "'c option \<Rightarrow> ('c \<Rightarrow> bool option) \<Rightarrow> bool" where
  "given ctx field = (case ctx of None \<Rightarrow> False | Some c \<Rightarrow> field c = Some True)"

section \<open>Transition tables\<close>

fun applicationTransitions :: "applicationStatus \<Rightarrow> applicationStatus list" where
  "applicationTransitions App_draft = [App_submitted, App_withdrawn]"
| "applicationTransitions App_submitted = [App_in_review, App_withdrawn]"
| "applicationTransitions App_in_review = [App_needs_info, App_approved, App_rejected, App_withdrawn]"
| "applicationTransitions App_needs_info = [App_submitted, App_withdrawn]"
| "applicationTransitions App_approved = []"
| "applicationTransitions App_rejected = []"
| "applicationTransitions App_withdrawn = []"

fun offeringTransitions :: "offeringStatus \<Rightarrow> offeringStatus list" where
  "offeringTransitions Off_draft = [Off_pending_review, Off_cancelled]"
| "offeringTransitions Off_pending_review = [Off_needs_revision, Off_open, Off_cancelled]"
| "offeringTransitions Off_needs_revision = [Off_pending_review, Off_cancelled]"
| "offeringTransitions Off_open = [Off_paused, Off_closed]"
| "offeringTransitions Off_paused = [Off_open]"
| "offeringTransitions Off_closed = [Off_servicing]"
| "offeringTransitions Off_servicing = [Off_exited]"
| "offeringTransitions Off_exited = []"
| "offeringTransitions Off_cancelled = []"

fun subscriptionTransitions :: "subscriptionStatus \<Rightarrow> subscriptionStatus list" where
  "subscriptionTransitions Sub_draft = [Sub_committed, Sub_cancelled]"
| "subscriptionTransitions Sub_committed = [Sub_payment_pending, Sub_cancelled]"
| "subscriptionTransitions Sub_payment_pending = [Sub_paid, Sub_cancelled]"
| "subscriptionTransitions Sub_paid = [Sub_allocation_confirmed, Sub_refund_pending, Sub_refunded]"
| "subscriptionTransitions Sub_allocation_confirmed = [Sub_refund_pending, Sub_refunded]"
| "subscriptionTransitions Sub_refund_pending = [Sub_refunded, Sub_paid]"
| "subscriptionTransitions Sub_cancelled = []"
| "subscriptionTransitions Sub_refunded = []"

fun distributionTransitions :: "distributionStatus \<Rightarrow> distributionStatus list" where
  "distributionTransitions Dist_draft = [Dist_pending_approval]"
| "distributionTransitions Dist_pending_approval = [Dist_approved]"
| "distributionTransitions Dist_approved = [Dist_scheduled]"
| "distributionTransitions Dist_scheduled = [Dist_paying, Dist_failed]"
| "distributionTransitions Dist_paying = [Dist_paid, Dist_failed]"
| "distributionTransitions Dist_paid = [Dist_reversed]"
| "distributionTransitions Dist_failed = []"
| "distributionTransitions Dist_reversed = []"

fun milestoneTransitions :: "milestoneStatus \<Rightarrow> milestoneStatus list" where
  "milestoneTransitions Mil_not_started = [Mil_evidence_submitted]"
| "milestoneTransitions Mil_evidence_submitted = [Mil_in_review]"
| "milestoneTransitions Mil_in_review = [Mil_verified, Mil_rejected]"
| "milestoneTransitions Mil_verified = []"
| "milestoneTransitions Mil_rejected = [Mil_evidence_submitted]"

fun trancheTransitions :: "trancheStatus \<Rightarrow> trancheStatus list" where
  "trancheTransitions Tr_locked = [Tr_eligible]"
| "trancheTransitions Tr_eligible = [Tr_processing, Tr_released]"
| "trancheTransitions Tr_processing = [Tr_released, Tr_failed]"
| "trancheTransitions Tr_released = [Tr_failed, Tr_reversed]"
| "trancheTransitions Tr_failed = []"
| "trancheTransitions Tr_reversed = []"

fun distributionLineTransitions :: "distributionLineStatus \<Rightarrow> distributionLineStatus list" where
  "distributionLineTransitions Line_pending = [Line_processing, Line_paid, Line_failed, Line_skipped]"
| "distributionLineTransitions Line_processing = [Line_paid, Line_failed]"
| "distributionLineTransitions Line_paid = [Line_reversed]"
| "distributionLineTransitions Line_failed = [Line_pending]"
| "distributionLineTransitions Line_skipped = []"
| "distributionLineTransitions Line_reversed = []"

section \<open>assertTransition\<close>

definition invalidTransition :: "string \<Rightarrow> string \<Rightarrow> string \<Rightarrow> error + unit" where
  "invalidTransition entityType fromStatus toStatus =
     Inl (HttpError 409 (''Invalid '' @ entityType @ '' transition: '' @ fromStatus @ '' -> '' @ toStatus))"

definition unprocessable :: "string \<Rightarrow> error + unit" where
  "unprocessable msg = Inl (HttpError 422 msg)"

definition assertApplicationTransition ::
    "applicationStatus \<Rightarrow> applicationStatus \<Rightarrow> applicationContext option \<Rightarrow> error + unit" where
  "assertApplicationTransition frm to ctx =
     (if to \<notin> set (applicationTransitions frm)
      then invalidTransition ''application'' (applicationStatus_text frm) (applicationStatus_text to)
      else if frm = App_draft \<and> to = App_submitted \<and> \<not> given ctx minimumDocsSatisfied
      then unprocessable ''Cannot submit application: required intake documents/checklist are incomplete''
      else if frm = App_in_review \<and> to = App_approved then
        (if \<not> given ctx tasksComplete then unprocessable ''Cannot approve application: tasks not complete''
         else if \<not> given ctx evidenceVerified
         then unprocessable ''Cannot approve application: required evidence not fully verified''
         else if \<not> given ctx legalChecklistSatisfied
         then unprocessable ''Cannot approve application: legal checklist not satisfied''
         else Inr ())
      else Inr ())"

definition assertOfferingTransition ::
    "offeringStatus \<Rightarrow> offeringStatus \<Rightarrow> offeringContext option \<Rightarrow> error + unit" where
  "assertOfferingTransition frm to ctx =
     (if to \<notin> set (offeringTransitions frm)
      then invalidTransition ''offering'' (offeringStatus_text frm) (offeringStatus_text to)
      else if frm = Off_pending_review \<and> to = Off_open \<and> \<not> given ctx applicationApproved
      then unprocessable ''Cannot open offering: application not approved''
      else if frm = Off_pending_review \<and> to = Off_open \<and> \<not> given ctx economicPolicyValid
      then unprocessable ''Cannot open offering: economic policy is invalid''
      else if frm = Off_pending_review \<and> to = Off_open \<and> \<not> given ctx disclosurePackPresent
      then unprocessable ''Cannot open offering: disclosure pack missing''
      else if frm = Off_pending_review \<and> to = Off_open \<and> \<not> given ctx feesConfigured
      then unprocessable ''Cannot open offering: fee schedule not configured''
      else if frm = Off_open \<and> to = Off_closed \<and> given ctx hasPendingReconciliation
                \<and> \<not> given ctx overrideRequested
      then unprocessable ''Cannot close offering while payment reconciliations are pending''
      else if frm = Off_closed \<and> to = Off_servicing \<and> \<not> given ctx allocationSnapshotAnchored
      then unprocessable ''Cannot enter servicing: allocation snapshot not anchored''
      else Inr ())"

definition assertSubscriptionTransition ::
    "subscriptionStatus \<Rightarrow> subscriptionStatus \<Rightarrow> subscriptionContext option \<Rightarrow> error + unit" where
  "assertSubscriptionTransition frm to ctx =
     (if to \<notin> set (subscriptionTransitions frm)
      then invalidTransition ''subscription'' (subscriptionStatus_text frm) (subscriptionStatus_text to)
      else if to = Sub_committed \<and> \<not> given ctx kycApproved
      then unprocessable ''Cannot commit: KYC not approved''
      else if to = Sub_committed \<and> \<not> given ctx eligibilitySatisfied
      then unprocessable ''Cannot commit: eligibility not satisfied''
      else if frm = Sub_payment_pending \<and> to = Sub_paid \<and> \<not> given ctx hasVerifiedReceipt
      then unprocessable ''Cannot mark paid: verified receipt is required''
      else if to = Sub_refunded \<and> \<not> given ctx hasReversalRecord
      then unprocessable ''Cannot refund: reversal record missing''
      else if to = Sub_refunded \<and> \<not> given ctx approvalPolicySatisfied
      then unprocessable ''Cannot refund: approval policy requirements not met''
      else Inr ())"

definition assertDistributionTransition ::
    "distributionStatus \<Rightarrow> distributionStatus \<Rightarrow> distributionContext option \<Rightarrow> error + unit" where
  "assertDistributionTransition frm to ctx =
     (if to \<notin> set (distributionTransitions frm)
      then invalidTransition ''distribution'' (distributionStatus_text frm) (distributionStatus_text to)
      else if (frm = Dist_scheduled \<or> frm = Dist_paying) \<and> to = Dist_paid
                \<and> \<not> given ctx dist_hasPayoutReceipts
      then unprocessable ''Cannot mark distribution paid: payout receipts required''
      else if frm = Dist_paid \<and> to = Dist_reversed \<and> \<not> given ctx dist_trusteeProcessCompleted
      then unprocessable ''Cannot reverse distribution: trustee process not completed''
      else Inr ())"

definition assertMilestoneTransition ::
    "milestoneStatus \<Rightarrow> milestoneStatus \<Rightarrow> milestoneContext option \<Rightarrow> error + unit" where
  "assertMilestoneTransition frm to ctx =
     (if to \<notin> set (milestoneTransitions frm)
      then invalidTransition ''milestone'' (milestoneStatus_text frm) (milestoneStatus_text to)
      else if frm = Mil_in_review \<and> to = Mil_verified \<and> \<not> given ctx hasEvidence
      then unprocessable ''Cannot verify milestone without evidence docs''
      else Inr ())"

definition assertTrancheTransition ::
    "trancheStatus \<Rightarrow> trancheStatus \<Rightarrow> trancheContext option \<Rightarrow> error + unit" where
  "assertTrancheTransition frm to ctx =
     (if to \<notin> set (trancheTransitions frm)
      then invalidTransition ''tranche'' (trancheStatus_text frm) (trancheStatus_text to)
      else if frm = Tr_eligible \<and> to = Tr_processing \<and> \<not> given ctx tr_hasOutboundTransfer
      then unprocessable ''Cannot process tranche: outbound transfer not created''
      else if (frm = Tr_eligible \<or> frm = Tr_processing) \<and> to = Tr_released
                \<and> \<not> given ctx tr_hasPayoutReceipts
      then unprocessable ''Cannot release tranche without payout receipts''
      else if frm = Tr_released \<and> to = Tr_reversed \<and> \<not> given ctx tr_trusteeProcessCompleted
      then unprocessable ''Cannot reverse tranche: trustee process not completed''
      else Inr ())"

definition assertDistributionLineTransition ::
    "distributionLineStatus \<Rightarrow> distributionLineStatus \<Rightarrow> distributionLineContext option \<Rightarrow> error + unit" where
  "assertDistributionLineTransition frm to ctx =
     (if to \<notin> set (distributionLineTransitions frm)
      then invalidTransition ''distributionLine'' (distributionLineStatus_text frm) (distributionLineStatus_text to)
      else if frm = Line_pending \<and> to = Line_processing \<and> \<not> given ctx line_hasOutboundTransfer
      then unprocessable ''Cannot process distribution line: outbound transfer not created''
      else Inr ())"

text \<open>The exported function: its overloads tie the entity name to the status and context
  types, so a call is one of seven shapes.\<close>

datatype transitionCall =
    ApplicationCall applicationStatus applicationStatus "applicationContext option"
  | OfferingCall offeringStatus offeringStatus "offeringContext option"
  | SubscriptionCall subscriptionStatus subscriptionStatus "subscriptionContext option"
  | DistributionCall distributionStatus distributionStatus "distributionContext option"
  | MilestoneCall milestoneStatus milestoneStatus "milestoneContext option"
  | TrancheCall trancheStatus trancheStatus "trancheContext option"
  | DistributionLineCall distributionLineStatus distributionLineStatus "distributionLineContext option"

fun assertTransition :: "transitionCall \<Rightarrow> error + unit" where
  "assertTransition (ApplicationCall a b c) = assertApplicationTransition a b c"
| "assertTransition (OfferingCall a b c) = assertOfferingTransition a b c"
| "assertTransition (SubscriptionCall a b c) = assertSubscriptionTransition a b c"
| "assertTransition (DistributionCall a b c) = assertDistributionTransition a b c"
| "assertTransition (MilestoneCall a b c) = assertMilestoneTransition a b c"
| "assertTransition (TrancheCall a b c) = assertTrancheTransition a b c"
| "assertTransition (DistributionLineCall a b c) = assertDistributionLineTransition a b c"

section \<open>Runs of accepted transitions\<close>

text \<open>A run performs steps (target status, context) one after the other, each accepted by the
  entity's check.\<close>

fun accepted_run :: "('s \<Rightarrow> 's \<Rightarrow> 'c option \<Rightarrow> error + unit) \<Rightarrow> 's \<Rightarrow> ('s \<times> 'c option) list \<Rightarrow> bool" where
  "accepted_run chk a [] \<longleftrightarrow> True"
| "accepted_run chk a ((b, c) # steps) \<longleftrightarrow> chk a b c = Inr () \<and> accepted_run chk b steps"

fun final_status :: "'s \<Rightarrow> ('s \<times> 'c option) list \<Rightarrow> 's" where
  "final_status a [] = a"
| "final_status a ((b, c) # steps) = final_status b steps"

text \<open>The steps of a run with the status each one leaves.\<close>

fun run_edges :: "'s \<Rightarrow> ('s \<times> 'c option) list \<Rightarrow> ('s \<times> 's \<times> 'c option) list" where
  "run_edges a [] = []"
| "run_edges a ((b, c) # steps) = (a, b, c) # run_edges b steps"

locale lifecycle =
  fixes table :: "'s \<Rightarrow> 's list"
    and chk :: "'s \<Rightarrow> 's \<Rightarrow> 'c option \<Rightarrow> error + unit"
  assumes accepted_in_table: "chk a b c = Inr () \<Longrightarrow> b \<in> set (table a)"
begin

lemma terminal_absorbs:
  assumes "table a = []" and "accepted_run chk a steps"
  shows "steps = []"
proof (cases steps)
  case Nil
  then show ?thesis .
next
  case (Cons st rest)
  then obtain b c where "st = (b, c)" by (cases st)
  with assms Cons have "b \<in> set (table a)" by (auto dest: accepted_in_table)
  with assms(1) show ?thesis by simp
qed

text \<open>A run from outside a set of statuses to inside it contains an accepted edge that
  enters the set.\<close>

lemma crossing:
  assumes "accepted_run chk a steps" and "a \<notin> S" and "final_status a steps \<in> S"
  shows "\<exists>x y c. (x, y, c) \<in> set (run_edges a steps) \<and> x \<notin> S \<and> y \<in> S
           \<and> y \<in> set (table x) \<and> chk x y c = Inr ()"
  using assms
proof (induction steps arbitrary: a)
  case Nil
  then show ?case by simp
next
  case (Cons st rest)
  obtain b c where st: "st = (b, c)" by (cases st)
  with Cons.prems have acc: "chk a b c = Inr ()" and rest: "accepted_run chk b rest"
    and fin: "final_status b rest \<in> S" by auto
  show ?case
  proof (cases "b \<in> S")
    case True
    then show ?thesis
      using st acc Cons.prems(2) accepted_in_table [OF acc] by auto
  next
    case False
    then show ?thesis using Cons.IH [OF rest False fin] st by auto
  qed
qed

lemma rank_bounds_run:
  assumes "\<And>a b. b \<in> set (table a) \<Longrightarrow> rank b < rank a" and "accepted_run chk a steps"
  shows "length steps \<le> (rank a :: nat)"
  using assms(2)
proof (induction steps arbitrary: a)
  case Nil
  then show ?case by simp
next
  case (Cons st rest)
  obtain b c where st: "st = (b, c)" by (cases st)
  with Cons.prems have acc: "chk a b c = Inr ()" and run: "accepted_run chk b rest" by auto
  from assms(1) [OF accepted_in_table [OF acc]] Cons.IH [OF run] show ?case by simp
qed

end

lemmas assert_defs =
  assertApplicationTransition_def assertOfferingTransition_def assertSubscriptionTransition_def
  assertDistributionTransition_def assertMilestoneTransition_def assertTrancheTransition_def
  assertDistributionLineTransition_def invalidTransition_def unprocessable_def

interpretation application_flow: lifecycle applicationTransitions assertApplicationTransition
  by unfold_locales (auto simp: assert_defs split: if_splits)

interpretation offering_flow: lifecycle offeringTransitions assertOfferingTransition
  by unfold_locales (auto simp: assert_defs split: if_splits)

interpretation subscription_flow: lifecycle subscriptionTransitions assertSubscriptionTransition
  by unfold_locales (auto simp: assert_defs split: if_splits)

interpretation distribution_flow: lifecycle distributionTransitions assertDistributionTransition
  by unfold_locales (auto simp: assert_defs split: if_splits)

interpretation milestone_flow: lifecycle milestoneTransitions assertMilestoneTransition
  by unfold_locales (auto simp: assert_defs split: if_splits)

interpretation tranche_flow: lifecycle trancheTransitions assertTrancheTransition
  by unfold_locales (auto simp: assert_defs split: if_splits)

interpretation distributionLine_flow: lifecycle distributionLineTransitions assertDistributionLineTransition
  by unfold_locales (auto simp: assert_defs split: if_splits)

section \<open>What the gates guarantee\<close>

text \<open>The edge a call asks for is in the entity's table.\<close>

fun edge_in_table :: "transitionCall \<Rightarrow> bool" where
  "edge_in_table (ApplicationCall a b c) \<longleftrightarrow> b \<in> set (applicationTransitions a)"
| "edge_in_table (OfferingCall a b c) \<longleftrightarrow> b \<in> set (offeringTransitions a)"
| "edge_in_table (SubscriptionCall a b c) \<longleftrightarrow> b \<in> set (subscriptionTransitions a)"
| "edge_in_table (DistributionCall a b c) \<longleftrightarrow> b \<in> set (distributionTransitions a)"
| "edge_in_table (MilestoneCall a b c) \<longleftrightarrow> b \<in> set (milestoneTransitions a)"
| "edge_in_table (TrancheCall a b c) \<longleftrightarrow> b \<in> set (trancheTransitions a)"
| "edge_in_table (DistributionLineCall a b c) \<longleftrightarrow> b \<in> set (distributionLineTransitions a)"

text \<open>AssertTransition answers a call in one of three ways: a 409 exactly when the
  requested edge is not in the entity's transition table, otherwise acceptance or a 422 for
  missing evidence.\<close>

theorem assertTransition_outcomes:
  "if edge_in_table call
   then assertTransition call = Inr () \<or> (\<exists>msg. assertTransition call = Inl (HttpError 422 msg))
   else \<exists>msg. assertTransition call = Inl (HttpError 409 msg)"
  by (cases call) (auto simp: assert_defs)

text \<open>An offering that a run of accepted transitions takes from draft into servicing or
  exited was opened from review with an approved application, a valid economic policy, a
  disclosure pack and a fee schedule, and entered servicing with an anchored allocation
  snapshot.\<close>

theorem offering_servicing_gates:
  assumes run: "accepted_run assertOfferingTransition Off_draft steps"
    and final: "final_status Off_draft steps \<in> {Off_servicing, Off_exited}"
  shows "(\<exists>c. (Off_pending_review, Off_open, c) \<in> set (run_edges Off_draft steps)
             \<and> given c applicationApproved \<and> given c economicPolicyValid
             \<and> given c disclosurePackPresent \<and> given c feesConfigured)
       \<and> (\<exists>c. (Off_closed, Off_servicing, c) \<in> set (run_edges Off_draft steps)
             \<and> given c allocationSnapshotAnchored)"
proof
  have "final_status Off_draft steps \<in> {Off_open, Off_paused, Off_closed, Off_servicing, Off_exited}"
    using final by auto
  from offering_flow.crossing [OF run _ this]
  obtain x y c where e: "(x, y, c) \<in> set (run_edges Off_draft steps)"
    "x \<notin> {Off_open, Off_paused, Off_closed, Off_servicing, Off_exited}"
    "y \<in> {Off_open, Off_paused, Off_closed, Off_servicing, Off_exited}"
    "y \<in> set (offeringTransitions x)" "assertOfferingTransition x y c = Inr ()"
    by auto
  then have "x = Off_pending_review" "y = Off_open" by (cases x; auto)+
  with e show "\<exists>c. (Off_pending_review, Off_open, c) \<in> set (run_edges Off_draft steps)
             \<and> given c applicationApproved \<and> given c economicPolicyValid
             \<and> given c disclosurePackPresent \<and> given c feesConfigured"
    by (auto simp: assert_defs split: if_splits)
next
  from offering_flow.crossing [OF run _ final]
  obtain x y c where e: "(x, y, c) \<in> set (run_edges Off_draft steps)"
    "x \<notin> {Off_servicing, Off_exited}" "y \<in> {Off_servicing, Off_exited}"
    "y \<in> set (offeringTransitions x)" "assertOfferingTransition x y c = Inr ()"
    by auto
  then have "x = Off_closed" "y = Off_servicing" by (cases x; auto)+
  with e show "\<exists>c. (Off_closed, Off_servicing, c) \<in> set (run_edges Off_draft steps)
             \<and> given c allocationSnapshotAnchored"
    by (auto simp: assert_defs split: if_splits)
qed

definition open_evidence :: offeringContext where
  "open_evidence = \<lparr>applicationApproved = Some True, economicPolicyValid = Some True,
     disclosurePackPresent = Some True, feesConfigured = Some True, hasPendingReconciliation = None,
     overrideRequested = None, allocationSnapshotAnchored = Some True\<rparr>"

definition servicing_run :: "(offeringStatus \<times> offeringContext option) list" where
  "servicing_run = [(Off_pending_review, None), (Off_open, Some open_evidence), (Off_paused, None),
     (Off_open, None), (Off_closed, None), (Off_servicing, Some open_evidence)]"

theorem offering_servicing_gates_witness:
  "accepted_run assertOfferingTransition Off_draft servicing_run
   \<and> final_status Off_draft servicing_run = Off_servicing
   \<and> (\<exists>c. (Off_closed, Off_servicing, c) \<in> set (run_edges Off_draft servicing_run)
        \<and> given c allocationSnapshotAnchored)"
proof -
  have run: "accepted_run assertOfferingTransition Off_draft servicing_run"
    by (simp add: servicing_run_def open_evidence_def assert_defs given_def)
  have final: "final_status Off_draft servicing_run = Off_servicing"
    by (simp add: servicing_run_def)
  show ?thesis using run final offering_servicing_gates [OF run] by simp
qed

text \<open>A subscription that a run of accepted transitions takes from draft to refunded was
  committed with KYC approved and eligibility satisfied, was marked paid from payment_pending
  with a verified receipt, and was refunded with a reversal record and a satisfied approval
  policy.\<close>

theorem subscription_refund_gates:
  assumes run: "accepted_run assertSubscriptionTransition Sub_draft steps"
    and final: "final_status Sub_draft steps = Sub_refunded"
  shows "(\<exists>c. (Sub_draft, Sub_committed, c) \<in> set (run_edges Sub_draft steps)
             \<and> given c kycApproved \<and> given c eligibilitySatisfied)
       \<and> (\<exists>c. (Sub_payment_pending, Sub_paid, c) \<in> set (run_edges Sub_draft steps)
             \<and> given c hasVerifiedReceipt)
       \<and> (\<exists>x c. (x, Sub_refunded, c) \<in> set (run_edges Sub_draft steps)
             \<and> given c hasReversalRecord \<and> given c approvalPolicySatisfied)"
proof (intro conjI)
  let ?C = "UNIV - {Sub_draft, Sub_cancelled}"
  have "final_status Sub_draft steps \<in> ?C" using final by simp
  from subscription_flow.crossing [OF run _ this]
  obtain x y c where e: "(x, y, c) \<in> set (run_edges Sub_draft steps)" "x \<notin> ?C" "y \<in> ?C"
    "y \<in> set (subscriptionTransitions x)" "assertSubscriptionTransition x y c = Inr ()"
    by blast
  then have "x = Sub_draft" "y = Sub_committed" by (cases x; auto)+
  with e show "\<exists>c. (Sub_draft, Sub_committed, c) \<in> set (run_edges Sub_draft steps)
             \<and> given c kycApproved \<and> given c eligibilitySatisfied"
    by (auto simp: assert_defs split: if_splits)
next
  let ?P = "{Sub_paid, Sub_allocation_confirmed, Sub_refund_pending, Sub_refunded}"
  have "final_status Sub_draft steps \<in> ?P" using final by simp
  from subscription_flow.crossing [OF run _ this]
  obtain x y c where e: "(x, y, c) \<in> set (run_edges Sub_draft steps)" "x \<notin> ?P" "y \<in> ?P"
    "y \<in> set (subscriptionTransitions x)" "assertSubscriptionTransition x y c = Inr ()"
    by blast
  then have "x = Sub_payment_pending" "y = Sub_paid" by (cases x; auto)+
  with e show "\<exists>c. (Sub_payment_pending, Sub_paid, c) \<in> set (run_edges Sub_draft steps)
             \<and> given c hasVerifiedReceipt"
    by (auto simp: assert_defs split: if_splits)
next
  have "final_status Sub_draft steps \<in> {Sub_refunded}" using final by simp
  from subscription_flow.crossing [OF run _ this]
  obtain x y c where e: "(x, y, c) \<in> set (run_edges Sub_draft steps)" "y = Sub_refunded"
    "assertSubscriptionTransition x y c = Inr ()"
    by auto
  then show "\<exists>x c. (x, Sub_refunded, c) \<in> set (run_edges Sub_draft steps)
             \<and> given c hasReversalRecord \<and> given c approvalPolicySatisfied"
    by (auto simp: assert_defs split: if_splits)
qed

definition refund_evidence :: subscriptionContext where
  "refund_evidence = \<lparr>kycApproved = Some True, eligibilitySatisfied = Some True,
     hasVerifiedReceipt = Some True, hasReversalRecord = Some True, approvalPolicySatisfied = Some True\<rparr>"

definition refund_run :: "(subscriptionStatus \<times> subscriptionContext option) list" where
  "refund_run = [(Sub_committed, Some refund_evidence), (Sub_payment_pending, None),
     (Sub_paid, Some refund_evidence), (Sub_refund_pending, None), (Sub_paid, None),
     (Sub_refunded, Some refund_evidence)]"

theorem subscription_refund_gates_witness:
  "accepted_run assertSubscriptionTransition Sub_draft refund_run
   \<and> final_status Sub_draft refund_run = Sub_refunded
   \<and> (\<exists>c. (Sub_payment_pending, Sub_paid, c) \<in> set (run_edges Sub_draft refund_run)
        \<and> given c hasVerifiedReceipt)"
proof -
  have run: "accepted_run assertSubscriptionTransition Sub_draft refund_run"
    by (simp add: refund_run_def refund_evidence_def assert_defs given_def)
  have final: "final_status Sub_draft refund_run = Sub_refunded"
    by (simp add: refund_run_def)
  show ?thesis using run final subscription_refund_gates [OF run final] by simp
qed

fun distribution_rank :: "distributionStatus \<Rightarrow> nat" where
  "distribution_rank Dist_draft = 6"
| "distribution_rank Dist_pending_approval = 5"
| "distribution_rank Dist_approved = 4"
| "distribution_rank Dist_scheduled = 3"
| "distribution_rank Dist_paying = 2"
| "distribution_rank Dist_paid = 1"
| "distribution_rank Dist_failed = 0"
| "distribution_rank Dist_reversed = 0"

text \<open>C40: a distribution's lifecycle ends: a run of accepted transitions from draft has at most
  six steps; and if it ends in paid or reversed, the distribution moved from paying to paid
  with payout receipts (a scheduled distribution is never marked paid directly).\<close>

theorem distribution_lifecycle_ends:
  assumes run: "accepted_run assertDistributionTransition Dist_draft steps"
  shows "length steps \<le> 6 \<and>
    (final_status Dist_draft steps \<in> {Dist_paid, Dist_reversed} \<longrightarrow>
      (\<exists>c. (Dist_paying, Dist_paid, c) \<in> set (run_edges Dist_draft steps)
         \<and> given c dist_hasPayoutReceipts))"
proof (intro conjI impI)
  have "b \<in> set (distributionTransitions a) \<Longrightarrow> distribution_rank b < distribution_rank a" for a b
    by (cases a) auto
  from distribution_flow.rank_bounds_run [of distribution_rank, OF this run]
  show "length steps \<le> 6" by simp
next
  assume final: "final_status Dist_draft steps \<in> {Dist_paid, Dist_reversed}"
  from distribution_flow.crossing [OF run _ final]
  obtain x y c where e: "(x, y, c) \<in> set (run_edges Dist_draft steps)"
    "x \<notin> {Dist_paid, Dist_reversed}" "y \<in> {Dist_paid, Dist_reversed}"
    "y \<in> set (distributionTransitions x)" "assertDistributionTransition x y c = Inr ()"
    by auto
  then have "x = Dist_paying" "y = Dist_paid" by (cases x; auto)+
  with e show "\<exists>c. (Dist_paying, Dist_paid, c) \<in> set (run_edges Dist_draft steps)
         \<and> given c dist_hasPayoutReceipts"
    by (auto simp: assert_defs split: if_splits)
qed

definition paid_evidence :: distributionContext where
  "paid_evidence = \<lparr>dist_hasPayoutReceipts = Some True, dist_trusteeProcessCompleted = None\<rparr>"

definition paid_run :: "(distributionStatus \<times> distributionContext option) list" where
  "paid_run = [(Dist_pending_approval, None), (Dist_approved, None), (Dist_scheduled, None),
     (Dist_paying, None), (Dist_paid, Some paid_evidence)]"

theorem distribution_lifecycle_ends_witness:
  "accepted_run assertDistributionTransition Dist_draft paid_run \<and> length paid_run \<le> 6
   \<and> (\<exists>c. (Dist_paying, Dist_paid, c) \<in> set (run_edges Dist_draft paid_run)
        \<and> given c dist_hasPayoutReceipts)"
proof -
  have run: "accepted_run assertDistributionTransition Dist_draft paid_run"
    by (simp add: paid_run_def paid_evidence_def assert_defs given_def)
  have final: "final_status Dist_draft paid_run = Dist_paid"
    by (simp add: paid_run_def)
  show ?thesis using run final distribution_lifecycle_ends [OF run] by simp
qed

end
