(* ===== verification/Json.thy ===== *)
theory Json
  imports Prelude "HOL-Library.Multiset"
begin

text \<open>
  JSON values, the canonical form and hash of \<^verbatim>\<open>src/utils/idempotency.ts\<close>
  (\<open>sortValue\<close>, \<open>stableJsonStringify\<close>, \<open>hashPayload\<close>), ISO timestamps, and the record of
  what the sources take from the Node runtime: random UUIDs, SHA-256, HMAC-SHA-256 and the
  collation behind \<open>localeCompare\<close>. The runtime is an argument of every definition that uses
  it; nothing is assumed of it except where a lemma says so.
\<close>

section \<open>Values\<close>

datatype json =
    JNull
  | JBool bool
  | JNum int
  | JStr string
  | JArr "json list"
  | JObj "(string \<times> json) list"

type_synonym json_object = "(string \<times> json) list"

definition json_opt :: "string option \<Rightarrow> json" where
  "json_opt x = (case x of None \<Rightarrow> JNull | Some t \<Rightarrow> JStr t)"

definition get_field :: "string \<Rightarrow> json_object \<Rightarrow> json option" where
  "get_field k es = map_of es k"

section \<open>The runtime\<close>

record runtime =
  rt_uuid :: "nat \<Rightarrow> uuid"
  rt_sha256 :: "string \<Rightarrow> string"
  rt_hmac256 :: "string \<Rightarrow> string \<Rightarrow> string"
  rt_locale_le :: "string \<Rightarrow> string \<Rightarrow> bool"

section \<open>Canonical text\<close>

text \<open>JavaScript enumerates array-index keys first, in ascending order, then the other keys
  in insertion order.\<close>

definition is_index_key :: "string \<Rightarrow> bool" where
  "is_index_key k \<longleftrightarrow> k \<noteq> [] \<and> list_all is_digit k \<and> (k = ''0'' \<or> hd k \<noteq> CHR ''0'')
     \<and> read_digits k < 4294967295"

definition own_key_order :: "(string \<times> 'v) list \<Rightarrow> (string \<times> 'v) list" where
  "own_key_order es =
     sort_by (\<lambda>a b. read_digits (fst a) \<le> read_digits (fst b)) (filter (\<lambda>e. is_index_key (fst e)) es)
     @ filter (\<lambda>e. \<not> is_index_key (fst e)) es"

fun sortValue :: "runtime \<Rightarrow> json \<Rightarrow> json" where
  "sortValue rt (JArr xs) = JArr (map (sortValue rt) xs)"
| "sortValue rt (JObj es) =
     JObj (own_key_order
       (sort_by (\<lambda>a b. rt_locale_le rt (fst a) (fst b)) (map (\<lambda>(k, v). (k, sortValue rt v)) es)))"
| "sortValue rt JNull = JNull"
| "sortValue rt (JBool b) = JBool b"
| "sortValue rt (JNum n) = JNum n"
| "sortValue rt (JStr s) = JStr s"

definition hex_digit :: "int \<Rightarrow> char" where
  "hex_digit d = char_of (if d < 10 then 48 + d else 87 + d)"

definition escape_char :: "char \<Rightarrow> string" where
  "escape_char c =
     (if c = CHR 0x22 then [CHR 0x5C, CHR 0x22]
      else if c = CHR 0x5C then [CHR 0x5C, CHR 0x5C]
      else if code_of c = 8 then [CHR 0x5C, CHR ''b'']
      else if code_of c = 9 then [CHR 0x5C, CHR ''t'']
      else if code_of c = 10 then [CHR 0x5C, CHR ''n'']
      else if code_of c = 12 then [CHR 0x5C, CHR ''f'']
      else if code_of c = 13 then [CHR 0x5C, CHR ''r'']
      else if code_of c < 32
      then [CHR 0x5C, CHR ''u'', CHR ''0'', CHR ''0'', hex_digit (code_of c div 16), hex_digit (code_of c mod 16)]
      else [c])"

definition quote_json :: "string \<Rightarrow> string" where
  "quote_json s = CHR 0x22 # concat (map escape_char s) @ [CHR 0x22]"

fun stringify :: "json \<Rightarrow> string" where
  "stringify JNull = ''null''"
| "stringify (JBool b) = (if b then ''true'' else ''false'')"
| "stringify (JNum n) = show_int n"
| "stringify (JStr s) = quote_json s"
| "stringify (JArr xs) = ''['' @ join_with '','' (map stringify xs) @ '']''"
| "stringify (JObj es) =
     CHR 0x7B # join_with '','' (map (\<lambda>(k, v). quote_json k @ '':'' @ stringify v) es) @ [CHR 0x7D]"

definition stableJsonStringify :: "runtime \<Rightarrow> json \<Rightarrow> string" where
  "stableJsonStringify rt input = stringify (sortValue rt input)"

definition hashPayload :: "runtime \<Rightarrow> json \<Rightarrow> string" where
  "hashPayload rt payload = rt_sha256 rt (stableJsonStringify rt payload)"

section \<open>Timestamps\<close>

text \<open>\<open>Date.prototype.toISOString\<close> of a millisecond count, by the proleptic Gregorian
  calendar (days counted in eras of 400 years from 1 March of year 0).\<close>

definition civil_from_days :: "int \<Rightarrow> int \<times> int \<times> int" where
  "civil_from_days days =
     (let z = days + 719468;
          era = z div 146097;
          doe = z mod 146097;
          yoe = (doe - doe div 1460 + doe div 36524 - doe div 146096) div 365;
          doy = doe - (365 * yoe + yoe div 4 - yoe div 100);
          mp = (5 * doy + 2) div 153;
          d = doy - (153 * mp + 2) div 5 + 1;
          m = (if mp < 10 then mp + 3 else mp - 9);
          y = yoe + era * 400 + (if m \<le> 2 then 1 else 0)
      in (y, m, d))"

definition pad_int :: "nat \<Rightarrow> int \<Rightarrow> string" where
  "pad_int n i = padStart n (CHR ''0'') (show_digits i)"

definition toISOString :: "int \<Rightarrow> string" where
  "toISOString t =
     (let days = t div 86400000; ms = t mod 86400000;
          (y, m, d) = civil_from_days days;
          year = (if 0 \<le> y \<and> y \<le> 9999 then pad_int 4 y
                  else if y < 0 then CHR ''-'' # pad_int 6 (- y) else CHR ''+'' # pad_int 6 y)
      in year @ ''-'' @ pad_int 2 m @ ''-'' @ pad_int 2 d @ ''T''
         @ pad_int 2 (ms div 3600000) @ '':'' @ pad_int 2 (ms div 60000 mod 60) @ '':''
         @ pad_int 2 (ms div 1000 mod 60) @ ''.'' @ pad_int 3 (ms mod 1000) @ ''Z'')"

section \<open>The canonical form does not depend on key order\<close>

text \<open>Two values that differ only in the order of object keys, at any depth.\<close>

inductive same_value :: "json \<Rightarrow> json \<Rightarrow> bool" where
  same_refl: "same_value j j"
| same_arr: "list_all2 same_value xs ys \<Longrightarrow> same_value (JArr xs) (JArr ys)"
| same_obj: "list_all2 (rel_prod (=) same_value) es fs \<Longrightarrow> mset fs = mset gs \<Longrightarrow>
    distinct (map fst fs) \<Longrightarrow> same_value (JObj es) (JObj gs)"

text \<open>A collation that orders all keys.\<close>

definition key_order :: "(string \<Rightarrow> string \<Rightarrow> bool) \<Rightarrow> bool" where
  "key_order le \<longleftrightarrow> (\<forall>a b. le a b \<or> le b a) \<and> (\<forall>a b. le a b \<longrightarrow> le b a \<longrightarrow> a = b)
     \<and> (\<forall>a b c. le a b \<longrightarrow> le b c \<longrightarrow> le a c)"

lemma key_order_str_le: "key_order str_le"
  unfolding key_order_def using str_le_total str_le_antisym str_le_trans by blast

lemma insert_by_commute:
  assumes "key_order le" and "fst x \<noteq> fst y"
  shows "insert_by (\<lambda>a b. le (fst a) (fst b)) x (insert_by (\<lambda>a b. le (fst a) (fst b)) y xs)
       = insert_by (\<lambda>a b. le (fst a) (fst b)) y (insert_by (\<lambda>a b. le (fst a) (fst b)) x xs)"
proof (induction xs)
  case Nil
  show ?case using assms unfolding key_order_def by auto
next
  case (Cons z zs)
  have tot: "le (fst a) (fst b) \<or> le (fst b) (fst a)" and
    anti: "le (fst a) (fst b) \<Longrightarrow> le (fst b) (fst a) \<Longrightarrow> fst a = fst b" and
    tra: "le (fst a) (fst b) \<Longrightarrow> le (fst b) (fst c) \<Longrightarrow> le (fst a) (fst c)"
    for a b c :: "string \<times> 'a"
    using assms(1) unfolding key_order_def by blast+
  show ?case
    using Cons assms(2) tot [of x y] tot [of x z] tot [of y z] anti [of x y]
      tra [of x y z] tra [of y x z] tra [of x z y] tra [of y z x]
    by auto
qed

lemma sort_by_mset:
  assumes le: "key_order le" and "mset xs = mset ys" and "distinct (map fst xs)"
  shows "sort_by (\<lambda>a b. le (fst a) (fst b)) xs = sort_by (\<lambda>a b. le (fst a) (fst b)) ys"
  using assms(2,3)
proof (induction xs arbitrary: ys)
  case Nil
  then show ?case by simp
next
  case (Cons x xs)
  let ?ins = "insert_by (\<lambda>a b. le (fst a) (fst b))"
  from Cons.prems(1) have "x \<in> set ys" by (metis list.set_intros(1) set_mset_mset)
  then obtain us vs where ys: "ys = us @ x # vs" by (auto simp: in_set_conv_decomp)
  with Cons.prems(1) have m: "mset xs = mset (us @ vs)" by simp
  with Cons have IH: "sort_by (\<lambda>a b. le (fst a) (fst b)) xs
      = sort_by (\<lambda>a b. le (fst a) (fst b)) (us @ vs)" by simp
  have "fst x \<notin> fst ` set (us @ vs)"
    using Cons.prems(2) m by (metis distinct.simps(2) image_set list.simps(9) mset_eq_setD)
  then have "sort_by (\<lambda>a b. le (fst a) (fst b)) (us @ x # vs)
      = ?ins x (sort_by (\<lambda>a b. le (fst a) (fst b)) (us @ vs))"
  proof (induction us)
    case Nil
    then show ?case by simp
  next
    case (Cons u us)
    then have "fst u \<noteq> fst x" by auto
    with Cons show ?case by (simp add: insert_by_commute [OF le])
  qed
  with IH ys show ?case by simp
qed

lemma sortValue_same:
  assumes "key_order (rt_locale_le rt)" and "same_value j j'"
  shows "sortValue rt j = sortValue rt j'"
  using assms(2)
proof (induction rule: same_value.induct)
  case (same_refl j)
  show ?case by simp
next
  case (same_arr xs ys)
  then have "map (sortValue rt) xs = map (sortValue rt) ys"
    by (induction rule: list_all2_induct) auto
  then show ?case by simp
next
  case (same_obj es fs gs)
  let ?f = "\<lambda>(k, v). (k, sortValue rt v)"
  have "map ?f es = map ?f fs"
    using same_obj(1) by (induction rule: list_all2_induct) (auto simp: rel_prod_sel split: prod.splits)
  moreover have "mset (map ?f fs) = mset (map ?f gs)"
    using same_obj(2) by simp
  moreover have "distinct (map fst (map ?f fs))"
    using same_obj(3) by (simp add: comp_def case_prod_beta')
  ultimately show ?case
    using sort_by_mset [OF assms(1), of "map ?f fs" "map ?f gs"] by simp
qed

text \<open>The request hash is canonical: two payloads that differ only in the order of object
  keys, at any depth, have the same hash, for any collation that orders all keys.\<close>

theorem hashPayload_key_order:
  assumes "key_order (rt_locale_le rt)" and "same_value j j'"
  shows "hashPayload rt j = hashPayload rt j'"
  using sortValue_same [OF assms] by (simp add: hashPayload_def stableJsonStringify_def)

text \<open>A concrete runtime on which the definitions are evaluated: numbered UUIDs, an additive
  checksum in place of the digests, and the code-unit order of keys.\<close>

definition checksum :: "string \<Rightarrow> string" where
  "checksum t = show_digits (foldl (\<lambda>h c. h + code_of c) 0 t)"

definition plain_runtime :: runtime where
  "plain_runtime = \<lparr>rt_uuid = (\<lambda>n. ''00000000-0000-4000-8000-'' @ pad_int 12 (int n)), rt_sha256 = checksum,
     rt_hmac256 = (\<lambda>k t. checksum (k @ t)), rt_locale_le = str_le\<rparr>"

theorem hashPayload_key_order_witness:
  "hashPayload plain_runtime (JObj [(''amount'', JNum 5), (''id'', JStr ''x'')])
     = hashPayload plain_runtime (JObj [(''id'', JStr ''x''), (''amount'', JNum 5)])"
proof (rule hashPayload_key_order)
  show "key_order (rt_locale_le plain_runtime)"
    by (simp add: plain_runtime_def key_order_str_le)
  show "same_value (JObj [(''amount'', JNum 5), (''id'', JStr ''x'')])
     (JObj [(''id'', JStr ''x''), (''amount'', JNum 5)])"
    by (rule same_obj [where fs = "[(''amount'', JNum 5), (''id'', JStr ''x'')]"])
       (auto simp: same_refl)
qed

end
