(* ===== verification/Audit_Chain.thy ===== *)
theory Audit_Chain
  imports Json
begin

text \<open>
  The append-only, hash-chained audit log: \<^verbatim>\<open>src/platform/postgres-audit.ts\<close>
  (\<open>appendPostgresAuditEvent\<close>) and \<^verbatim>\<open>src/platform/postgres-audit-verification.ts\<close>
  (\<open>verifyPostgresAuditScope\<close>, \<open>verifyAllPostgresAuditScopes\<close>), over the tables of the
  migrations 001, 002, 005 and 020. \<open>audit_db\<close> is the bottom layer of the database record:
  it also holds the clock that \<open>now()\<close> and \<open>new Date()\<close> read, the number of random UUIDs
  drawn so far and the identities table. The components above extend it.
\<close>

section \<open>Tables\<close>

record identity_row =
  idn_id :: uuid
  idn_legacy_mongo_id :: "string option"
  idn_email :: string
  idn_active :: bool

record audit_row =
  ae_sequence :: int
  ae_id :: uuid
  ae_scope_key :: "string option"
  ae_organization_id :: "uuid option"
  ae_actor_id :: "uuid option"
  ae_actor_type :: string
  ae_action :: string
  ae_entity_type :: string
  ae_entity_id :: string
  ae_reason :: "string option"
  ae_payload :: json
  ae_parent_hash :: "string option"
  ae_canonical_hash :: string
  ae_occurred_at :: int

record chain_head =
  ch_scope_key :: string
  ch_latest_sequence :: int
  ch_latest_hash :: string
  ch_updated_at :: int

record audit_db =
  clock :: int
  uuids_drawn :: nat
  identities :: "identity_row list"
  audit_sequence :: int
  audit_events :: "audit_row list"
  audit_chain_heads :: "chain_head list"

record audit_input =
  ai_scopeKey :: string
  ai_organizationId :: "uuid option"
  ai_actorId :: "uuid option"
  ai_actorType :: string
  ai_action :: string
  ai_entityType :: string
  ai_entityId :: string
  ai_reason :: "string option"
  ai_payload :: json
  ai_occurredAt :: "int option"

record appended_audit_event =
  aud_id :: uuid
  aud_sequence :: int
  aud_canonicalHash :: string
  aud_parentHash :: "string option"

section \<open>Appending\<close>

definition randomUUID :: "runtime \<Rightarrow> ('z audit_db_scheme, uuid) tx" where
  "randomUUID rt = (\<lambda>s. Inr (rt_uuid rt (uuids_drawn s), s\<lparr>uuids_drawn := Suc (uuids_drawn s)\<rparr>))"

definition initialHash :: string where
  "initialHash = replicate 64 (CHR ''0'')"

text \<open>The object whose canonical text is hashed, both when an event is appended and when it
  is verified.\<close>

definition audit_body ::
    "uuid \<Rightarrow> string \<Rightarrow> uuid option \<Rightarrow> uuid option \<Rightarrow> string \<Rightarrow> string \<Rightarrow> string \<Rightarrow> string \<Rightarrow>
     string option \<Rightarrow> json \<Rightarrow> string \<Rightarrow> int \<Rightarrow> json" where
  "audit_body i scope org actor actorType action entityType entityId reason payload parent at =
     JObj [(''id'', JStr i), (''scopeKey'', JStr scope), (''organizationId'', json_opt org),
       (''actorId'', json_opt actor), (''actorType'', JStr actorType), (''action'', JStr action),
       (''entityType'', JStr entityType), (''entityId'', JStr entityId), (''reason'', json_opt reason),
       (''payload'', payload), (''parentHash'', JStr parent), (''occurredAt'', JStr (toISOString at))]"

definition insert_chain_head :: "string \<Rightarrow> 'z audit_db_scheme \<Rightarrow> 'z audit_db_scheme" where
  "insert_chain_head k s =
     (if exists_row (\<lambda>h. ch_scope_key h = k) (audit_chain_heads s) then s
      else s\<lparr>audit_chain_heads := audit_chain_heads s @
        [\<lparr>ch_scope_key = k, ch_latest_sequence = 0, ch_latest_hash = initialHash, ch_updated_at = clock s\<rparr>]\<rparr>)"

definition insert_audit_row :: "audit_row \<Rightarrow> ('z audit_db_scheme, int) tx" where
  "insert_audit_row row = (\<lambda>s.
     if exists_row (\<lambda>r. ae_id r = ae_id row) (audit_events s) then Inl (UniqueViolation ''audit_events_id_key'')
     else if exists_row (\<lambda>r. ae_canonical_hash r = ae_canonical_hash row) (audit_events s)
     then Inl (UniqueViolation ''audit_events_canonical_hash_key'')
     else let n = audit_sequence s + 1
          in Inr (n, s\<lparr>audit_sequence := n, audit_events := audit_events s @ [row\<lparr>ae_sequence := n\<rparr>]\<rparr>))"

definition advance_chain_head :: "string \<Rightarrow> int \<Rightarrow> string \<Rightarrow> 'z audit_db_scheme \<Rightarrow> 'z audit_db_scheme" where
  "advance_chain_head k n h s =
     s\<lparr>audit_chain_heads := update_where (\<lambda>r. ch_scope_key r = k)
        (\<lambda>r. r\<lparr>ch_latest_sequence := n, ch_latest_hash := h, ch_updated_at := clock s\<rparr>) (audit_chain_heads s)\<rparr>"

definition audit_row_of :: "runtime \<Rightarrow> audit_input \<Rightarrow> uuid \<Rightarrow> string \<Rightarrow> int \<Rightarrow> audit_row" where
  "audit_row_of rt inp i parent at =
     \<lparr>ae_sequence = 0, ae_id = i, ae_scope_key = Some (ai_scopeKey inp),
       ae_organization_id = ai_organizationId inp, ae_actor_id = ai_actorId inp,
       ae_actor_type = ai_actorType inp, ae_action = ai_action inp,
       ae_entity_type = ai_entityType inp, ae_entity_id = ai_entityId inp,
       ae_reason = ai_reason inp, ae_payload = ai_payload inp, ae_parent_hash = Some parent,
       ae_canonical_hash = hashPayload rt (audit_body i (ai_scopeKey inp) (ai_organizationId inp)
         (ai_actorId inp) (ai_actorType inp) (ai_action inp) (ai_entityType inp) (ai_entityId inp)
         (ai_reason inp) (ai_payload inp) parent at),
       ae_occurred_at = at\<rparr>"

definition appendPostgresAuditEvent ::
    "runtime \<Rightarrow> audit_input \<Rightarrow> ('z audit_db_scheme, appended_audit_event) tx" where
  "appendPostgresAuditEvent rt inp =
     andThen (modify (insert_chain_head (ai_scopeKey inp)))
     (bnd (query (\<lambda>s. map_option ch_latest_hash
                   (first_row (\<lambda>h. ch_scope_key h = ai_scopeKey inp) (audit_chain_heads s))))
      (\<lambda>head. case head of
         None \<Rightarrow> throw (GenericError ''Unable to lock audit-chain head'')
       | Some parentHash \<Rightarrow>
           andThen (require (parentHash \<noteq> []) (GenericError ''Unable to lock audit-chain head''))
           (bnd (randomUUID rt) (\<lambda>i.
            bnd (query (\<lambda>s. case ai_occurredAt inp of None \<Rightarrow> clock s | Some t \<Rightarrow> t)) (\<lambda>occurredAt.
            let row = audit_row_of rt inp i parentHash occurredAt in
            bnd (insert_audit_row row) (\<lambda>sequence.
            andThen (require (isSafeInteger (Integral sequence))
                       (GenericError ''Audit event sequence was not returned''))
            (andThen (modify (advance_chain_head (ai_scopeKey inp) sequence (ae_canonical_hash row)))
            (ret \<lparr>aud_id = i, aud_sequence = sequence, aud_canonicalHash = ae_canonical_hash row,
                  aud_parentHash = (if parentHash = initialHash then None else Some parentHash)\<rparr>))))))))"

lemmas [tx_defs] = randomUUID_def insert_audit_row_def appendPostgresAuditEvent_def

section \<open>Verification\<close>

record audit_scope_verification =
  v_scopeKey :: string
  v_events :: nat
  v_latestSequence :: "int option"
  v_latestHash :: "string option"

definition row_body :: "string \<Rightarrow> string \<Rightarrow> audit_row \<Rightarrow> json" where
  "row_body scope parent r =
     audit_body (ae_id r) scope (ae_organization_id r) (ae_actor_id r) (ae_actor_type r) (ae_action r)
       (ae_entity_type r) (ae_entity_id r) (ae_reason r) (ae_payload r) parent (ae_occurred_at r)"

definition at_sequence :: "string \<Rightarrow> int \<Rightarrow> string" where
  "at_sequence msg n = msg @ '' at sequence '' @ show_int n"

fun verify_rows ::
    "runtime \<Rightarrow> string \<Rightarrow> string \<Rightarrow> int option \<Rightarrow> audit_row list \<Rightarrow> error + string \<times> int option" where
  "verify_rows rt scope parent sq [] = Inr (parent, sq)"
| "verify_rows rt scope parent sq (r # rs) =
     (if ae_parent_hash r \<noteq> Some parent
      then Inl (PostgresAuditVerificationError (at_sequence ''Audit parent hash mismatch'' (ae_sequence r)))
      else if ae_canonical_hash r \<noteq> hashPayload rt (row_body scope parent r)
      then Inl (PostgresAuditVerificationError (at_sequence ''Audit canonical hash mismatch'' (ae_sequence r)))
      else verify_rows rt scope (ae_canonical_hash r) (Some (ae_sequence r)) rs)"

definition scope_rows :: "string \<Rightarrow> 'z audit_db_scheme \<Rightarrow> audit_row list" where
  "scope_rows k s =
     sort_by (\<lambda>a b. ae_sequence a \<le> ae_sequence b) (filter (\<lambda>r. ae_scope_key r = Some k) (audit_events s))"

definition verifyPostgresAuditScope ::
    "runtime \<Rightarrow> string \<Rightarrow> 'z audit_db_scheme \<Rightarrow> error + audit_scope_verification" where
  "verifyPostgresAuditScope rt scopeKey s =
     (let normalized = trim scopeKey; rows = scope_rows normalized s in
      if normalized = [] then Inl (PostgresAuditVerificationError ''scopeKey is required'')
      else case verify_rows rt normalized initialHash None rows of
        Inl e \<Rightarrow> Inl e
      | Inr (parent, sequence) \<Rightarrow>
          (let storedHead = first_row (\<lambda>h. ch_scope_key h = normalized) (audit_chain_heads s) in
           if rows = [] then
             (if storedHead \<noteq> None
              then Inl (PostgresAuditVerificationError ''Audit chain head exists without scoped audit events'')
              else Inr \<lparr>v_scopeKey = normalized, v_events = 0, v_latestSequence = None, v_latestHash = None\<rparr>)
           else case storedHead of
             None \<Rightarrow> Inl (PostgresAuditVerificationError ''Audit chain head does not match scoped events'')
           | Some h \<Rightarrow>
               (if Some (ch_latest_sequence h) \<noteq> sequence \<or> ch_latest_hash h \<noteq> parent
                then Inl (PostgresAuditVerificationError ''Audit chain head does not match scoped events'')
                else Inr \<lparr>v_scopeKey = normalized, v_events = length rows, v_latestSequence = sequence,
                          v_latestHash = Some parent\<rparr>)))"

fun verify_each :: "runtime \<Rightarrow> string list \<Rightarrow> 'z audit_db_scheme \<Rightarrow> error + audit_scope_verification list" where
  "verify_each rt [] s = Inr []"
| "verify_each rt (k # ks) s =
     (case verifyPostgresAuditScope rt k s of
        Inl e \<Rightarrow> Inl e
      | Inr v \<Rightarrow> (case verify_each rt ks s of Inl e \<Rightarrow> Inl e | Inr vs \<Rightarrow> Inr (v # vs)))"

definition verifyAllPostgresAuditScopes ::
    "runtime \<Rightarrow> 'z audit_db_scheme \<Rightarrow> error + audit_scope_verification list \<times> nat" where
  "verifyAllPostgresAuditScopes rt s =
     (let scopes = sort_by str_le (unique_values
            (map (\<lambda>r. the (ae_scope_key r)) (filter (\<lambda>r. ae_scope_key r \<noteq> None) (audit_events s))))
      in case verify_each rt scopes s of
           Inl e \<Rightarrow> Inl e
         | Inr vs \<Rightarrow> Inr (vs, count_rows (\<lambda>r. ae_scope_key r = None) (audit_events s)))"

lemma verify_scope_frame:
  "audit_events t = audit_events s \<Longrightarrow> audit_chain_heads t = audit_chain_heads s
   \<Longrightarrow> verifyPostgresAuditScope rt k t = verifyPostgresAuditScope rt k s"
  unfolding verifyPostgresAuditScope_def scope_rows_def by (simp only:)

section \<open>Effects of appending\<close>

lemma append_audit_effect:
  assumes "appendPostgresAuditEvent rt inp s = Inr (a, s')"
  obtains parent at n row where
    "n = audit_sequence s + 1"
    and "row = (audit_row_of rt inp (rt_uuid rt (uuids_drawn s)) parent at)\<lparr>ae_sequence := n\<rparr>"
    and "map_option ch_latest_hash (first_row (\<lambda>h. ch_scope_key h = ai_scopeKey inp)
           (audit_chain_heads (insert_chain_head (ai_scopeKey inp) s))) = Some parent"
    and "\<forall>r \<in> set (audit_events s). ae_id r \<noteq> ae_id row"
    and "s' = s\<lparr>uuids_drawn := Suc (uuids_drawn s), audit_sequence := n,
           audit_events := audit_events s @ [row],
           audit_chain_heads := update_where (\<lambda>r. ch_scope_key r = ai_scopeKey inp)
             (\<lambda>r. r\<lparr>ch_latest_sequence := n, ch_latest_hash := ae_canonical_hash row, ch_updated_at := clock s\<rparr>)
             (audit_chain_heads (insert_chain_head (ai_scopeKey inp) s))\<rparr>"
    and "aud_id a = ae_id row"
  using assms
  by (auto simp: appendPostgresAuditEvent_def tx_simps randomUUID_def insert_audit_row_def Let_def
        advance_chain_head_def insert_chain_head_def audit_row_of_def
        split: option.splits if_splits)

text \<open>Appending touches only the audit tables, the sequence and the UUID supply: the frame
  every component above relies on.\<close>

lemma append_audit_frame:
  assumes "appendPostgresAuditEvent rt inp s = Inr (a, s')"
  shows "\<exists>u n ev hs. s' = s\<lparr>uuids_drawn := u, audit_sequence := n,
           audit_events := audit_events s @ [ev], audit_chain_heads := hs\<rparr> \<and> ae_id ev = aud_id a"
  using assms by (elim append_audit_effect) (metis)

lemma hoare_append_audit [hoare_intros]:
  assumes "\<And>s u n ev hs i. P s \<Longrightarrow>
      Q i (s\<lparr>uuids_drawn := u, audit_sequence := n, audit_events := audit_events s @ [ev], audit_chain_heads := hs\<rparr>)"
  shows "hoare P (appendPostgresAuditEvent rt inp) Q"
proof (rule hoareI)
  fix s a s' assume "P s" and "appendPostgresAuditEvent rt inp s = Inr (a, s')"
  then show "Q a s'" using assms append_audit_frame [of rt inp s a s'] by blast
qed

lemma hoare_randomUUID [hoare_intros]:
  assumes "\<And>s i. P s \<Longrightarrow> Q i (s\<lparr>uuids_drawn := Suc (uuids_drawn s)\<rparr>)"
  shows "hoare P (randomUUID rt) Q"
  using assms by (auto simp: hoare_def randomUUID_def)

lemma randomUUID_Inr:
  "randomUUID rt s = Inr (i, s') \<longleftrightarrow>
     i = rt_uuid rt (uuids_drawn s) \<and> s' = s\<lparr>uuids_drawn := Suc (uuids_drawn s)\<rparr>"
  by (auto simp: randomUUID_def)

section \<open>The chain invariant\<close>

definition events_of :: "string \<Rightarrow> audit_row list \<Rightarrow> audit_row list" where
  "events_of k rows = filter (\<lambda>r. ae_scope_key r = Some k) rows"

definition chain_ok :: "runtime \<Rightarrow> audit_row list \<Rightarrow> chain_head list \<Rightarrow> string \<Rightarrow> bool" where
  "chain_ok rt rows heads k \<longleftrightarrow>
     (case first_row (\<lambda>h. ch_scope_key h = k) heads of
        None \<Rightarrow> events_of k rows = []
      | Some h \<Rightarrow> events_of k rows \<noteq> [] \<and>
          verify_rows rt k initialHash None (events_of k rows)
            = Inr (ch_latest_hash h, Some (ch_latest_sequence h)))"

definition audit_inv :: "runtime \<Rightarrow> 'z audit_db_scheme \<Rightarrow> bool" where
  "audit_inv rt s \<longleftrightarrow>
     sorted_wrt (<) (map ae_sequence (audit_events s)) \<and>
     (\<forall>r \<in> set (audit_events s). ae_sequence r \<le> audit_sequence s) \<and>
     (\<forall>k. chain_ok rt (audit_events s) (audit_chain_heads s) k)"

lemma verify_rows_append:
  "verify_rows rt k p q (xs @ ys) =
     (case verify_rows rt k p q xs of Inl e \<Rightarrow> Inl e | Inr (p', q') \<Rightarrow> verify_rows rt k p' q' ys)"
  by (induction xs arbitrary: p q) auto

lemma events_of_append [simp]: "events_of k (xs @ ys) = events_of k xs @ events_of k ys"
  by (simp add: events_of_def)

lemma first_head_update:
  "first_row (\<lambda>h. ch_scope_key h = k) (update_where (\<lambda>r. ch_scope_key r = k')
     (\<lambda>r. r\<lparr>ch_latest_sequence := n, ch_latest_hash := h, ch_updated_at := c\<rparr>) hs) =
   map_option (\<lambda>r. if k = k' then r\<lparr>ch_latest_sequence := n, ch_latest_hash := h, ch_updated_at := c\<rparr> else r)
     (first_row (\<lambda>h. ch_scope_key h = k) hs)"
  by (induction hs) auto

lemma first_head_insert:
  "first_row (\<lambda>h. ch_scope_key h = k) (audit_chain_heads (insert_chain_head k' s)) =
   (case first_row (\<lambda>h. ch_scope_key h = k) (audit_chain_heads s) of
      Some h \<Rightarrow> Some h
    | None \<Rightarrow> if k = k' then Some \<lparr>ch_scope_key = k, ch_latest_sequence = 0,
                 ch_latest_hash = initialHash, ch_updated_at = clock s\<rparr> else None)"
  by (auto simp: insert_chain_head_def first_row_append first_row_None split: option.splits
        dest: first_row_Some)

lemma verify_new_row:
  assumes "row = (audit_row_of rt inp i parent at)\<lparr>ae_sequence := n\<rparr>"
  shows "verify_rows rt (ai_scopeKey inp) parent q [row] = Inr (ae_canonical_hash row, Some n)"
  using assms by (simp add: audit_row_of_def row_body_def)

lemma append_audit_inv: "preserves (audit_inv rt) (appendPostgresAuditEvent rt inp)"
proof (rule hoareI)
  fix s :: "'z audit_db_scheme" and a s'
  assume inv: "audit_inv rt s" and run: "appendPostgresAuditEvent rt inp s = Inr (a, s')"
  let ?k = "ai_scopeKey inp"
  from run obtain parent at n row where n: "n = audit_sequence s + 1"
    and row: "row = (audit_row_of rt inp (rt_uuid rt (uuids_drawn s)) parent at)\<lparr>ae_sequence := n\<rparr>"
    and parent: "map_option ch_latest_hash (first_row (\<lambda>h. ch_scope_key h = ?k)
           (audit_chain_heads (insert_chain_head ?k s))) = Some parent"
    and s': "s' = s\<lparr>uuids_drawn := Suc (uuids_drawn s), audit_sequence := n,
           audit_events := audit_events s @ [row],
           audit_chain_heads := update_where (\<lambda>r. ch_scope_key r = ?k)
             (\<lambda>r. r\<lparr>ch_latest_sequence := n, ch_latest_hash := ae_canonical_hash row, ch_updated_at := clock s\<rparr>)
             (audit_chain_heads (insert_chain_head ?k s))\<rparr>"
    by (rule append_audit_effect)
  have scope: "events_of k [row] = (if k = ?k then [row] else [])" for k
    by (simp add: events_of_def row audit_row_of_def)
  have "chain_ok rt (audit_events s') (audit_chain_heads s') k" for k
  proof (cases "k = ?k")
    case False
    have "chain_ok rt (audit_events s) (audit_chain_heads s) k"
      using inv by (simp add: audit_inv_def)
    then show ?thesis using False
      by (simp add: chain_ok_def s' first_head_update first_head_insert scope split: option.splits)
  next
    case True
    have old: "chain_ok rt (audit_events s) (audit_chain_heads s) ?k"
      using inv by (simp add: audit_inv_def)
    have chain: "\<exists>q. verify_rows rt ?k initialHash None (events_of ?k (audit_events s)) = Inr (parent, q)"
      using old parent by (auto simp: chain_ok_def first_head_insert split: option.splits)
    then show ?thesis
      using True parent verify_new_row [OF row]
      by (auto simp: chain_ok_def s' first_head_update scope verify_rows_append split: option.splits)
  qed
  then show "audit_inv rt s'"
    using inv n by (auto simp: audit_inv_def s' sorted_wrt_append row)
qed

lemma sort_by_sequence_id:
  "sorted_wrt (<) (map ae_sequence rows) \<Longrightarrow>
   sort_by (\<lambda>a b. ae_sequence a \<le> ae_sequence b) rows = rows"
proof (induction rows)
  case (Cons r rs)
  then show ?case by (cases rs) auto
qed simp

lemma scope_rows_inv:
  assumes "audit_inv rt s"
  shows "scope_rows k s = events_of k (audit_events s)"
proof -
  have "sorted_wrt (<) (map ae_sequence (audit_events s))" using assms by (simp add: audit_inv_def)
  then have "sorted_wrt (<) (map ae_sequence (events_of k (audit_events s)))"
    by (induction "audit_events s" arbitrary: s rule: list.induct)
       (auto simp: events_of_def sorted_wrt_map sorted_wrt_filter)
  then show ?thesis by (simp add: scope_rows_def events_of_def sort_by_sequence_id)
qed

lemma audit_inv_verifies:
  assumes inv: "audit_inv rt s" and k: "trim k = k" "k \<noteq> []"
  shows "\<exists>v. verifyPostgresAuditScope rt k s = Inr v \<and> v_events v = length (events_of k (audit_events s))"
proof -
  have "chain_ok rt (audit_events s) (audit_chain_heads s) k"
    using inv by (simp add: audit_inv_def)
  then show ?thesis
    using k by (auto simp: chain_ok_def verifyPostgresAuditScope_def Let_def scope_rows_inv [OF inv]
        split: option.splits)
qed

section \<open>Histories\<close>

text \<open>The databases reached by appending audit events, interleaved with any other operation
  (none of which writes the audit tables: they are append-only by the trigger
  \<open>audit_events_immutable\<close> of migration 001, and only this component inserts).\<close>

inductive audit_history :: "runtime \<Rightarrow> 'z audit_db_scheme \<Rightarrow> bool" for rt where
  start: "audit_events s = [] \<Longrightarrow> audit_chain_heads s = [] \<Longrightarrow> audit_history rt s"
| append: "audit_history rt s \<Longrightarrow> appendPostgresAuditEvent rt inp s = Inr (a, s') \<Longrightarrow> audit_history rt s'"
| other: "audit_history rt s \<Longrightarrow> audit_events s' = audit_events s \<Longrightarrow>
    audit_chain_heads s' = audit_chain_heads s \<Longrightarrow> audit_sequence s' = audit_sequence s \<Longrightarrow> audit_history rt s'"

lemma audit_history_inv: "audit_history rt s \<Longrightarrow> audit_inv rt s"
proof (induction rule: audit_history.induct)
  case (start s)
  then show ?case by (simp add: audit_inv_def chain_ok_def events_of_def)
next
  case (append s inp a s')
  then show ?case using append_audit_inv by (blast dest: hoareD)
next
  case (other s s')
  then show ?case by (simp add: audit_inv_def)
qed

text \<open>C30: whatever sequence of audit events was appended, to whatever scopes, the stored chain
  of every scope verifies: verification reports the number of events of the scope and never an
  error.\<close>

theorem audit_chain_verifies:
  assumes "audit_history rt s" and "trim k = k" and "k \<noteq> []"
  shows "\<exists>v. verifyPostgresAuditScope rt k s = Inr v
           \<and> v_events v = length (filter (\<lambda>r. ae_scope_key r = Some k) (audit_events s))"
  using audit_inv_verifies [OF audit_history_inv [OF assms(1)] assms(2,3)]
  by (simp add: events_of_def)

definition empty_audit_db :: audit_db where
  "empty_audit_db = \<lparr>clock = 1700000000000, uuids_drawn = 0, identities = [], audit_sequence = 0,
     audit_events = [], audit_chain_heads = []\<rparr>"

definition sample_audit_input :: audit_input where
  "sample_audit_input = \<lparr>ai_scopeKey = ''organization:7'', ai_organizationId = Some ''7'',
     ai_actorId = None, ai_actorType = ''system'', ai_action = ''x'', ai_entityType = ''e'',
     ai_entityId = ''1'', ai_reason = None, ai_payload = JObj [], ai_occurredAt = None\<rparr>"

definition audited_db :: audit_db where
  "audited_db = (case appendPostgresAuditEvent plain_runtime sample_audit_input empty_audit_db of
      Inl e \<Rightarrow> empty_audit_db | Inr (a, s) \<Rightarrow> s)"

lemma audited_db_run:
  "\<exists>a. appendPostgresAuditEvent plain_runtime sample_audit_input empty_audit_db = Inr (a, audited_db)"
proof -
  have "isl (appendPostgresAuditEvent plain_runtime sample_audit_input empty_audit_db) = False"
    unfolding tx_defs tx_eval by code_simp
  then show ?thesis by (auto simp: audited_db_def split: sum.splits)
qed

lemma audited_db_history: "audit_history plain_runtime audited_db"
proof -
  have "audit_history plain_runtime empty_audit_db"
    by (rule audit_history.start) (simp_all add: empty_audit_db_def)
  then show ?thesis using audited_db_run audit_history.append by blast
qed

lemma sample_scope_trimmed: "trim ''organization:7'' = ''organization:7''" "''organization:7'' \<noteq> []"
  by (code_simp, simp)

theorem audit_chain_verifies_witness:
  "\<exists>v. verifyPostgresAuditScope plain_runtime ''organization:7'' audited_db = Inr v
     \<and> v_events v = length (filter (\<lambda>r. ae_scope_key r = Some ''organization:7'') (audit_events audited_db))"
  by (rule audit_chain_verifies [OF audited_db_history sample_scope_trimmed])

section \<open>Tamper evidence\<close>

text \<open>The hashed content of the rows of a scope, in chain order.\<close>

fun chain_bodies :: "string \<Rightarrow> string \<Rightarrow> audit_row list \<Rightarrow> json list" where
  "chain_bodies k parent [] = []"
| "chain_bodies k parent (r # rs) = row_body k parent r # chain_bodies k (ae_canonical_hash r) rs"

text \<open>An actual collision: two different hashed objects, one from each of two given lists, with
  the same digest.\<close>

definition digest_collision :: "runtime \<Rightarrow> json list \<Rightarrow> json list \<Rightarrow> bool" where
  "digest_collision rt xs ys \<longleftrightarrow> list_ex (\<lambda>x. list_ex (\<lambda>y. x \<noteq> y \<and> hashPayload rt x = hashPayload rt y) ys) xs"

lemma chain_bodies_append:
  "verify_rows rt k p q xs = Inr (p', q') \<Longrightarrow>
   chain_bodies k p (xs @ [r]) = chain_bodies k p xs @ [row_body k p' r]"
  by (induction xs arbitrary: p q) (auto split: if_splits)

lemma row_body_parent: "row_body k p r = row_body k p' r' \<Longrightarrow> p = p'"
  by (simp add: row_body_def audit_body_def)

lemma digest_collision_iff:
  "digest_collision rt xs ys \<longleftrightarrow> (\<exists>x \<in> set xs. \<exists>y \<in> set ys. x \<noteq> y \<and> hashPayload rt x = hashPayload rt y)"
  by (simp add: digest_collision_def list_ex_iff)

lemma verified_bodies_equal:
  assumes "verify_rows rt k initialHash None xs = Inr (h, q)"
    and "verify_rows rt k initialHash None ys = Inr (h, q')" and "length xs = length ys"
    and "\<not> digest_collision rt (chain_bodies k initialHash xs) (chain_bodies k initialHash ys)"
  shows "chain_bodies k initialHash xs = chain_bodies k initialHash ys"
  using assms(3,1,2,4)
proof (induction xs arbitrary: ys h q q' rule: rev_induct)
  case Nil
  then show ?case by simp
next
  case (snoc x xs)
  then obtain y ys0 where ys: "ys = ys0 @ [y]" and len: "length xs = length ys0"
    by (metis length_append_singleton length_0_conv length_Suc_conv_rev nat.simps(3))
  from snoc.prems(2) obtain p1 q1 where x: "verify_rows rt k initialHash None xs = Inr (p1, q1)"
    "h = hashPayload rt (row_body k p1 x)"
    by (auto simp: verify_rows_append split: sum.splits if_splits)
  from snoc.prems(3) ys obtain p2 q2 where y: "verify_rows rt k initialHash None ys0 = Inr (p2, q2)"
    "h = hashPayload rt (row_body k p2 y)"
    by (auto simp: verify_rows_append split: sum.splits if_splits)
  have free: "\<not> digest_collision rt (chain_bodies k initialHash xs @ [row_body k p1 x])
      (chain_bodies k initialHash ys0 @ [row_body k p2 y])"
    using snoc.prems(4) chain_bodies_append [OF x(1)] chain_bodies_append [OF y(1)] ys by simp
  then have body: "row_body k p1 x = row_body k p2 y"
    using x(2) y(2) by (auto simp: digest_collision_iff)
  moreover have "\<not> digest_collision rt (chain_bodies k initialHash xs) (chain_bodies k initialHash ys0)"
    using free by (auto simp: digest_collision_iff)
  ultimately have "chain_bodies k initialHash xs = chain_bodies k initialHash ys0"
    using snoc.IH [OF len] x(1) y(1) row_body_parent by metis
  with body show ?case
    using chain_bodies_append [OF x(1)] chain_bodies_append [OF y(1)] ys by simp
qed

lemma verify_scope_rows:
  assumes "verifyPostgresAuditScope rt k s = Inr v"
  shows "(\<exists>q h. verify_rows rt (trim k) initialHash None (scope_rows (trim k) s) = Inr (h, q)
            \<and> (scope_rows (trim k) s \<noteq> [] \<longrightarrow> v_latestHash v = Some h))
         \<and> length (scope_rows (trim k) s) = v_events v"
  using assms by (auto simp: verifyPostgresAuditScope_def Let_def split: sum.splits if_splits option.splits)

text \<open>C31: tamper evidence. If two databases verify for a scope with the same report (number of
  events and latest hash), then they hold the same audit content for that scope, event by
  event, unless the two contents themselves exhibit a digest collision: some event of one and a
  different event of the other with the same hash.\<close>

theorem audit_tamper_evident:
  assumes "verifyPostgresAuditScope rt k s = Inr v" and "verifyPostgresAuditScope rt k t = Inr v"
  shows "chain_bodies (trim k) initialHash (scope_rows (trim k) s)
           = chain_bodies (trim k) initialHash (scope_rows (trim k) t)
         \<or> digest_collision rt (chain_bodies (trim k) initialHash (scope_rows (trim k) s))
             (chain_bodies (trim k) initialHash (scope_rows (trim k) t))"
proof -
  from verify_scope_rows [OF assms(1)] verify_scope_rows [OF assms(2)]
  obtain q h q' h' where
    s: "verify_rows rt (trim k) initialHash None (scope_rows (trim k) s) = Inr (h, q)"
      "scope_rows (trim k) s \<noteq> [] \<Longrightarrow> v_latestHash v = Some h"
    and t: "verify_rows rt (trim k) initialHash None (scope_rows (trim k) t) = Inr (h', q')"
      "scope_rows (trim k) t \<noteq> [] \<Longrightarrow> v_latestHash v = Some h'"
    and len: "length (scope_rows (trim k) s) = length (scope_rows (trim k) t)"
    by auto
  show ?thesis
  proof (cases "scope_rows (trim k) s = []")
    case True
    with len show ?thesis by simp
  next
    case False
    with len have "scope_rows (trim k) t \<noteq> []" by auto
    with False s(2) t(2) have "h = h'" by auto
    with s(1) t(1) len show ?thesis using verified_bodies_equal by blast
  qed
qed

theorem audit_tamper_evident_witness:
  "\<exists>v. verifyPostgresAuditScope plain_runtime ''organization:7'' audited_db = Inr v
     \<and> verifyPostgresAuditScope plain_runtime ''organization:7'' (audited_db\<lparr>clock := 0\<rparr>) = Inr v
     \<and> (chain_bodies (trim ''organization:7'') initialHash (scope_rows (trim ''organization:7'') audited_db)
          = chain_bodies (trim ''organization:7'') initialHash
              (scope_rows (trim ''organization:7'') (audited_db\<lparr>clock := 0\<rparr>))
        \<or> digest_collision plain_runtime
            (chain_bodies (trim ''organization:7'') initialHash (scope_rows (trim ''organization:7'') audited_db))
            (chain_bodies (trim ''organization:7'') initialHash
              (scope_rows (trim ''organization:7'') (audited_db\<lparr>clock := 0\<rparr>))))"
proof -
  obtain v where v: "verifyPostgresAuditScope plain_runtime ''organization:7'' audited_db = Inr v"
    using audit_inv_verifies [OF audit_history_inv [OF audited_db_history] sample_scope_trimmed]
    by auto
  moreover have "verifyPostgresAuditScope plain_runtime ''organization:7'' (audited_db\<lparr>clock := 0\<rparr>) = Inr v"
    using v verify_scope_frame [of "audited_db\<lparr>clock := 0\<rparr>" audited_db] by simp
  ultimately show ?thesis using audit_tamper_evident by blast
qed

end
