(* ===== verification/Lease_Queue.thy ===== *)
theory Lease_Queue
  imports Prelude
begin

text \<open>
  The contract shared by the claimable tables of the platform (outbox events, inbox events,
  payment instructions): a worker claims due rows for a limited time, and only the worker that
  holds the lease may complete a row or hand it back. The locale \<open>leased_queue\<close> states the
  contract; its lemmas hold for every sequence of such operations by any workers, and the
  component theories interpret it on their own definitions.
\<close>

section \<open>Steps of a queue\<close>

text \<open>A step names the worker, the instant at which it runs (milliseconds) and its parameters:
  for a claim \<open>'c\<close> (event types and limit) and the claim timeout in seconds, for a completion
  \<open>'g\<close> (what the worker obtained), for a release \<open>'f\<close>
  (when to retry and why).\<close>

datatype ('c, 'g, 'f) queue_step =
    Claim 'c string int int
  | Complete 'g string int uuid
  | Release 'f string int uuid

fun step_worker :: "('c, 'g, 'f) queue_step \<Rightarrow> string" where
  "step_worker (Claim c w now timeout) = w"
| "step_worker (Complete g w now i) = w"
| "step_worker (Release f w now i) = w"

text \<open>The lease recorded by the columns \<open>claimed_by\<close> and \<open>claimed_at\<close>.\<close>

fun held_lease :: "string option \<Rightarrow> int option \<Rightarrow> (string \<times> int) option" where
  "held_lease (Some w) (Some t) = Some (w, t)"
| "held_lease by at = None"

lemma held_lease_Some [simp]: "held_lease by at = Some (w, t) \<longleftrightarrow> by = Some w \<and> at = Some t"
  by (cases "(by, at)" rule: held_lease.cases) auto

text \<open>A claim made at \<open>now\<close> that takes over leases older than its timeout leaves the leases
  granted at \<open>from\<close> or later alone.\<close>

fun respects_lease :: "int \<Rightarrow> ('c, 'g, 'f) queue_step \<Rightarrow> bool" where
  "respects_lease from (Claim c w now timeout) \<longleftrightarrow> now - timeout * 1000 \<le> from"
| "respects_lease from (Complete g w now i) \<longleftrightarrow> True"
| "respects_lease from (Release f w now i) \<longleftrightarrow> True"

fun completes :: "uuid \<Rightarrow> ('c, 'g, 'f) queue_step \<Rightarrow> bool" where
  "completes i (Claim c w now timeout) \<longleftrightarrow> False"
| "completes i (Complete g w now j) \<longleftrightarrow> j = i"
| "completes i (Release f w now j) \<longleftrightarrow> False"

section \<open>The contract\<close>

locale leased_queue =
  fixes inv :: "'r list \<Rightarrow> bool"
    and key :: "'r \<Rightarrow> uuid"
    and finished :: "'r \<Rightarrow> bool"
    and lease :: "'r \<Rightarrow> (string \<times> int) option"
    and attempts :: "'r \<Rightarrow> int"
    and claim :: "'c \<Rightarrow> string \<Rightarrow> int \<Rightarrow> int \<Rightarrow> 'r list \<Rightarrow> uuid list \<times> 'r list"
    and complete :: "'g \<Rightarrow> string \<Rightarrow> int \<Rightarrow> uuid \<Rightarrow> 'r list \<Rightarrow> 'r list option"
    and release :: "'f \<Rightarrow> string \<Rightarrow> int \<Rightarrow> uuid \<Rightarrow> 'r list \<Rightarrow> 'r list option"
  assumes inv_keys: "inv t \<Longrightarrow> distinct (map key t)"
    and claim_inv: "inv t \<Longrightarrow> inv (snd (claim c w now timeout t))"
    and complete_inv: "inv t \<Longrightarrow> complete g w now i t = Some t' \<Longrightarrow> inv t'"
    and release_inv: "inv t \<Longrightarrow> release f w now i t = Some t' \<Longrightarrow> inv t'"
    and claim_law: "inv t \<Longrightarrow> claim c w now timeout t = (ids, t') \<Longrightarrow>
      list_all2 (\<lambda>r r'. if key r \<in> set ids
        then \<not> finished r \<and> (\<forall>v at. lease r = Some (v, at) \<longrightarrow> at < now - timeout * 1000)
          \<and> key r' = key r \<and> \<not> finished r' \<and> lease r' = Some (w, now) \<and> attempts r' = attempts r + 1
        else r' = r) t t'"
    and claim_present: "inv t \<Longrightarrow> claim c w now timeout t = (ids, t') \<Longrightarrow> set ids \<subseteq> key ` set t"
    and complete_law: "inv t \<Longrightarrow> complete g w now i t = Some t' \<Longrightarrow>
      list_all2 (\<lambda>r r'. if key r = i \<and> map_option fst (lease r) = Some w \<and> \<not> finished r
        then key r' = key r \<and> finished r' \<and> lease r' = None \<and> attempts r' = attempts r else r' = r) t t'"
    and complete_defined: "inv t \<Longrightarrow> complete g w now i t \<noteq> None \<longleftrightarrow>
      (\<exists>r \<in> set t. key r = i \<and> map_option fst (lease r) = Some w \<and> \<not> finished r)"
    and release_law: "inv t \<Longrightarrow> release f w now i t = Some t' \<Longrightarrow>
      list_all2 (\<lambda>r r'. if key r = i \<and> map_option fst (lease r) = Some w \<and> \<not> finished r
        then key r' = key r \<and> \<not> finished r' \<and> lease r' = None \<and> attempts r' = attempts r else r' = r) t t'"
begin

text \<open>One step; a refused step is rolled back.\<close>

fun run_step :: "('c, 'g, 'f) queue_step \<Rightarrow> 'r list \<Rightarrow> 'r list" where
  "run_step (Claim c w now timeout) t = snd (claim c w now timeout t)"
| "run_step (Complete g w now i) t = (case complete g w now i t of None \<Rightarrow> t | Some t' \<Rightarrow> t')"
| "run_step (Release f w now i) t = (case release f w now i t of None \<Rightarrow> t | Some t' \<Rightarrow> t')"

definition run_steps :: "('c, 'g, 'f) queue_step list \<Rightarrow> 'r list \<Rightarrow> 'r list" where
  "run_steps ss t = fold run_step ss t"

fun succeeds :: "('c, 'g, 'f) queue_step \<Rightarrow> 'r list \<Rightarrow> bool" where
  "succeeds (Claim c w now timeout) t \<longleftrightarrow> True"
| "succeeds (Complete g w now i) t \<longleftrightarrow> complete g w now i t \<noteq> None"
| "succeeds (Release f w now i) t \<longleftrightarrow> release f w now i t \<noteq> None"

text \<open>How many of the completions of \<open>i\<close> in a run are accepted.\<close>

fun completions :: "uuid \<Rightarrow> ('c, 'g, 'f) queue_step list \<Rightarrow> 'r list \<Rightarrow> nat" where
  "completions i [] t = 0"
| "completions i (s # ss) t =
     (if completes i s \<and> succeeds s t then 1 else 0) + completions i ss (run_step s t)"

text \<open>What one step does to one row.\<close>

lemma run_step_rows:
  assumes d: "inv t"
  shows "list_all2 (\<lambda>r r'. key r' = key r \<and> attempts r \<le> attempts r'
      \<and> (finished r \<longrightarrow> r' = r)
      \<and> (\<forall>v at. lease r = Some (v, at) \<longrightarrow> step_worker s \<noteq> v \<longrightarrow> respects_lease at s \<longrightarrow> r' = r)) t (run_step s t)"
proof (cases s)
  case (Claim c w now timeout)
  obtain ids t' where c: "claim c w now timeout t = (ids, t')" by (cases "claim c w now timeout t")
  have "list_all2 (\<lambda>r r'. key r' = key r \<and> attempts r \<le> attempts r' \<and> (finished r \<longrightarrow> r' = r)
      \<and> (\<forall>v at. lease r = Some (v, at) \<longrightarrow> w \<noteq> v \<longrightarrow> now - timeout * 1000 \<le> at \<longrightarrow> r' = r)) t t'"
    by (rule list_all2_mono [OF claim_law [OF d c]]) (fastforce split: if_splits)
  then show ?thesis using Claim c by simp
next
  case (Complete g w now i)
  show ?thesis
  proof (cases "complete g w now i t")
    case None
    then show ?thesis using Complete by (simp add: list_all2_same)
  next
    case (Some t')
    have "list_all2 (\<lambda>r r'. key r' = key r \<and> attempts r \<le> attempts r' \<and> (finished r \<longrightarrow> r' = r)
        \<and> (\<forall>v at. lease r = Some (v, at) \<longrightarrow> w \<noteq> v \<longrightarrow> r' = r)) t t'"
      by (rule list_all2_mono [OF complete_law [OF d Some]]) (auto split: if_splits)
    then show ?thesis using Complete Some by simp
  qed
next
  case (Release f w now i)
  show ?thesis
  proof (cases "release f w now i t")
    case None
    then show ?thesis using Release by (simp add: list_all2_same)
  next
    case (Some t')
    have "list_all2 (\<lambda>r r'. key r' = key r \<and> attempts r \<le> attempts r' \<and> (finished r \<longrightarrow> r' = r)
        \<and> (\<forall>v at. lease r = Some (v, at) \<longrightarrow> w \<noteq> v \<longrightarrow> r' = r)) t t'"
      by (rule list_all2_mono [OF release_law [OF d Some]]) (auto split: if_splits)
    then show ?thesis using Release Some by simp
  qed
qed

lemma run_step_inv: "inv t \<Longrightarrow> inv (run_step s t)"
  by (cases "(s, t)" rule: run_step.cases)
     (simp_all add: claim_inv split: option.split, blast intro: complete_inv, blast intro: release_inv)

lemma run_step_row:
  assumes d: "inv t" and "r \<in> set t"
  obtains r' where "r' \<in> set (run_step s t)" and "key r' = key r" and "attempts r \<le> attempts r'"
    and "finished r \<Longrightarrow> r' = r"
    and "\<And>v at. lease r = Some (v, at) \<Longrightarrow> step_worker s \<noteq> v \<Longrightarrow> respects_lease at s \<Longrightarrow> r' = r"
proof -
  from assms(2) obtain k where k: "k < length t" "r = t ! k" by (auto simp: in_set_conv_nth)
  with list_all2_lengthD [OF run_step_rows [OF d]]
  have "run_step s t ! k \<in> set (run_step s t)" by simp
  with k list_all2_nthD [OF run_step_rows [OF d] k(1)] show thesis
    using that by simp
qed

text \<open>A finished row never changes again, and the attempt counter of a row never decreases.\<close>

lemma finished_stays:
  assumes "inv t" and "r \<in> set t" and "finished r"
  shows "r \<in> set (run_steps ss t)"
  using assms
proof (induction ss arbitrary: t)
  case Nil
  then show ?case by (simp add: run_steps_def)
next
  case (Cons s ss)
  from Cons.prems have "r \<in> set (run_step s t)" by (metis run_step_row)
  with Cons.IH [of "run_step s t"] Cons.prems show ?case by (simp add: run_steps_def run_step_inv)
qed

lemma attempts_monotone:
  assumes "inv t" and "r \<in> set t"
  shows "\<exists>r' \<in> set (run_steps ss t). key r' = key r \<and> attempts r \<le> attempts r'"
  using assms
proof (induction ss arbitrary: t r)
  case Nil
  then show ?case by (auto simp: run_steps_def)
next
  case (Cons s ss)
  obtain r1 where r1: "r1 \<in> set (run_step s t)" "key r1 = key r" "attempts r \<le> attempts r1"
    using run_step_row [OF Cons.prems, of s] by metis
  have "inv (run_step s t)" using Cons.prems(1) by (rule run_step_inv)
  with Cons.IH r1 show ?case by (fastforce simp: run_steps_def)
qed

text \<open>Lease exclusion: while a lease is respected, no other worker changes the row, so its
  holder can complete it.\<close>

lemma lease_exclusive:
  assumes "inv t" and "r \<in> set t" and "lease r = Some (w, at)"
    and "\<forall>s \<in> set ss. step_worker s \<noteq> w \<and> respects_lease at s"
  shows "r \<in> set (run_steps ss t)"
  using assms
proof (induction ss arbitrary: t)
  case Nil
  then show ?case by (simp add: run_steps_def)
next
  case (Cons s ss)
  from Cons.prems have "r \<in> set (run_step s t)"
    by (metis list.set_intros(1) run_step_row)
  with Cons.IH [of "run_step s t"] Cons.prems show ?case by (simp add: run_steps_def run_step_inv)
qed

lemma run_steps_inv: "inv t \<Longrightarrow> inv (run_steps ss t)"
  by (induction ss arbitrary: t) (simp_all add: run_steps_def run_step_inv)

text \<open>A claimed row, seen after any steps of other workers that respect the lease.\<close>

lemma claimed_row:
  assumes d: "inv t" and c: "claim c w now timeout t = (ids, t')" and i: "i \<in> set ids"
    and ss: "\<forall>s \<in> set ss. step_worker s \<noteq> w \<and> respects_lease now s"
  obtains r where "r \<in> set (run_steps ss t')" and "key r = i" and "\<not> finished r"
    and "lease r = Some (w, now)" and "inv (run_steps ss t')"
proof -
  from claim_present [OF d c] i obtain r0 where "r0 \<in> set t" "key r0 = i" by auto
  then obtain k where k: "k < length t" "key (t ! k) = i" by (auto simp: in_set_conv_nth)
  from list_all2_nthD [OF claim_law [OF d c] k(1)] k(2) i
  have row: "key (t' ! k) = i" "\<not> finished (t' ! k)" "lease (t' ! k) = Some (w, now)" by auto
  have "t' ! k \<in> set t'" using k(1) list_all2_lengthD [OF claim_law [OF d c]] by simp
  moreover have d': "inv t'"
    using claim_inv [OF d] c by (metis snd_conv)
  ultimately have "t' ! k \<in> set (run_steps ss t')" using lease_exclusive row(3) ss by blast
  with row d' show thesis using that by (simp add: run_steps_inv)
qed

lemma claim_then_complete:
  assumes "inv t" and "claim c w now timeout t = (ids, t')" and "i \<in> set ids"
    and "\<forall>s \<in> set ss. step_worker s \<noteq> w \<and> respects_lease now s"
  shows "complete g w later i (run_steps ss t') \<noteq> None"
proof -
  obtain r where "r \<in> set (run_steps ss t')" "key r = i" "\<not> finished r" "lease r = Some (w, now)"
    and d: "inv (run_steps ss t')"
    using claimed_row [OF assms] by metis
  then show ?thesis unfolding complete_defined [OF d] by auto
qed

lemma claimed_not_reclaimed:
  assumes "inv t" and "claim c w now timeout t = (ids, t')" and "i \<in> set ids"
    and "\<forall>s \<in> set ss. step_worker s \<noteq> w \<and> respects_lease now s"
    and "now2 - timeout2 * 1000 \<le> now"
    and c2: "claim c2 w2 now2 timeout2 (run_steps ss t') = (ids2, t2)"
  shows "i \<notin> set ids2"
proof
  assume i2: "i \<in> set ids2"
  obtain r where r: "r \<in> set (run_steps ss t')" "key r = i" "lease r = Some (w, now)"
    and d: "inv (run_steps ss t')"
    using claimed_row [OF assms(1-4)] by metis
  then obtain j where j: "j < length (run_steps ss t')" "run_steps ss t' ! j = r"
    by (auto simp: in_set_conv_nth)
  from list_all2_nthD [OF claim_law [OF d c2] j(1)] j(2) r i2 have "now < now2 - timeout2 * 1000" by auto
  with assms(5) show False by simp
qed

text \<open>A key is completed at most once, whatever the interleaving.\<close>

lemma completions_finished:
  assumes "inv t" and "r \<in> set t" and "key r = i" and "finished r"
  shows "completions i ss t = 0"
  using assms
proof (induction ss arbitrary: t)
  case Nil
  then show ?case by simp
next
  case (Cons s ss)
  have refused: "\<not> (completes i s \<and> succeeds s t)"
  proof
    assume a: "completes i s \<and> succeeds s t"
    then obtain g w now where s: "s = Complete g w now i" by (cases s) auto
    with a complete_defined [OF Cons.prems(1)] obtain r' where "r' \<in> set t" "key r' = i" "\<not> finished r'"
      by auto
    with Cons.prems inv_keys show False by (metis distinct_map_key_eq)
  qed
  have "r \<in> set (run_step s t)"
    using Cons.prems(1,2,4) by (metis run_step_row)
  with Cons.IH [of "run_step s t"] Cons.prems refused show ?case by (simp add: run_step_inv)
qed

lemma complete_finishes:
  assumes d: "inv t" and c: "complete g w now i t = Some t'"
  shows "\<exists>r' \<in> set t'. key r' = i \<and> finished r'"
proof -
  from c complete_defined [OF d] have "\<exists>r \<in> set t. key r = i \<and> map_option fst (lease r) = Some w \<and> \<not> finished r"
    by (metis option.distinct(1))
  then obtain k where k: "k < length t" "key (t ! k) = i"
    "map_option fst (lease (t ! k)) = Some w" "\<not> finished (t ! k)"
    by (auto simp: in_set_conv_nth)
  from list_all2_nthD [OF complete_law [OF d c] k(1)] k have "key (t' ! k) = i" "finished (t' ! k)" by auto
  moreover have "t' ! k \<in> set t'" using k(1) list_all2_lengthD [OF complete_law [OF d c]] by simp
  ultimately show ?thesis by blast
qed

lemma completed_at_most_once:
  assumes "inv t"
  shows "completions i ss t \<le> 1"
  using assms
proof (induction ss arbitrary: t)
  case Nil
  then show ?case by simp
next
  case (Cons s ss)
  have keys: "inv (run_step s t)" using Cons.prems by (rule run_step_inv)
  show ?case
  proof (cases "completes i s \<and> succeeds s t")
    case True
    then obtain g w now t' where s: "s = Complete g w now i" "complete g w now i t = Some t'" by (cases s) auto
    obtain r' where "r' \<in> set (run_step s t)" "key r' = i" "finished r'"
      using complete_finishes [OF Cons.prems s(2)] s by auto
    then have "completions i ss (run_step s t) = 0" by (rule completions_finished [OF keys])
    with True show ?thesis by simp
  next
    case False
    with Cons.IH [OF keys] show ?thesis by auto
  qed
qed

end

section \<open>Claiming by SQL\<close>

text \<open>The common shape of the claim statements: the due rows in order, at most \<open>limit\<close> of them,
  are updated in place; the rows returned are the updated ones, here in candidate order (the
  statement leaves the order of \<open>RETURNING\<close> open).\<close>

definition claim_rows ::
    "('r \<Rightarrow> uuid) \<Rightarrow> ('r \<Rightarrow> bool) \<Rightarrow> ('r \<Rightarrow> 'r \<Rightarrow> bool) \<Rightarrow> nat \<Rightarrow> ('r \<Rightarrow> 'r) \<Rightarrow> 'r list \<Rightarrow> 'r list \<times> 'r list" where
  "claim_rows key due le limit grab t =
     (let candidates = take limit (sort_by le (filter due t)) in
      (map grab candidates, update_where (\<lambda>r. key r \<in> set (map key candidates)) grab t))"

lemma claim_rows_sets:
  assumes "claim_rows key due le limit grab t = (out, t')"
  shows "\<exists>cs. out = map grab cs \<and> set cs \<subseteq> set t \<and> (\<forall>r \<in> set cs. due r)
     \<and> t' = update_where (\<lambda>r. key r \<in> set (map key cs)) grab t"
proof -
  let ?cs = "take limit (sort_by le (filter due t))"
  have "set ?cs \<subseteq> {r \<in> set t. due r}" using set_take_subset [of limit "sort_by le (filter due t)"] by auto
  with assms show ?thesis by (intro exI [of _ ?cs]) (auto simp: claim_rows_def Let_def)
qed

text \<open>With unique keys every updated row was due.\<close>

lemma claim_rows_law:
  assumes c: "claim_rows key due le limit grab t = (out, t')" and d: "distinct (map key t)"
    and k: "\<And>r. key (grab r) = key r"
  shows "list_all2 (\<lambda>r r'. if key r \<in> set (map key out) then due r \<and> r' = grab r else r' = r) t t'"
    and "set (map key out) \<subseteq> key ` set t"
proof -
  obtain cs where cs: "out = map grab cs" "set cs \<subseteq> set t" "\<forall>r \<in> set cs. due r"
    "t' = update_where (\<lambda>r. key r \<in> set (map key cs)) grab t"
    using claim_rows_sets [OF c] by blast
  have keys: "set (map key out) = set (map key cs)" by (simp add: cs(1) k image_image)
  have due: "due r" if "r \<in> set t" "key r \<in> set (map key cs)" for r
  proof -
    from that(2) obtain r' where "r' \<in> set cs" "key r' = key r" by auto
    with cs(2,3) that(1) d show ?thesis by (metis distinct_map_key_eq subsetD)
  qed
  show "list_all2 (\<lambda>r r'. if key r \<in> set (map key out) then due r \<and> r' = grab r else r' = r) t t'"
    unfolding keys cs(4) update_where_def list_all2_conv_all_nth using due by auto
  show "set (map key out) \<subseteq> key ` set t" unfolding keys using cs(2) by auto
qed

text \<open>The rows returned are rows of the updated table, each once, and no more than the limit.\<close>

lemma claim_rows_out:
  assumes c: "claim_rows key due le limit grab t = (out, t')" and d: "distinct (map key t)"
    and k: "\<And>r. key (grab r) = key r"
  shows "distinct (map key out)" and "set out \<subseteq> set t'" and "length out \<le> limit"
proof -
  let ?cs = "take limit (sort_by le (filter due t))"
  have out: "out = map grab ?cs" and t': "t' = update_where (\<lambda>r. key r \<in> set (map key ?cs)) grab t"
    using c by (auto simp: claim_rows_def Let_def)
  have sub: "set ?cs \<subseteq> set t" using set_take_subset [of limit "sort_by le (filter due t)"] by auto
  have "distinct t" using d by (simp add: distinct_map)
  then have "distinct ?cs" by simp
  moreover have "inj_on key (set ?cs)" using d sub by (auto simp: distinct_map intro: inj_on_subset)
  ultimately show "distinct (map key out)" by (simp add: out k distinct_map inj_on_def)
  show "set out \<subseteq> set t'" using sub by (auto simp: out t' set_update_where)
  show "length out \<le> limit" by (simp add: out)
qed

section \<open>Queues given by row operations\<close>

lemma update_where_pointwise:
  "(\<And>r. r \<in> set t \<Longrightarrow> P r (if p r then f r else r)) \<Longrightarrow> list_all2 P t (update_where p f t)"
  by (simp add: update_where_def list_all2_conv_all_nth)

lemma count_rows_distinct:
  assumes "distinct (map k t)" and "\<And>r. r \<in> set t \<Longrightarrow> p r \<Longrightarrow> k r = i"
  shows "count_rows p t = 1 \<longleftrightarrow> (\<exists>r \<in> set t. p r)"
  using assms
proof (induction t)
  case (Cons r t)
  have "\<not> p r'" if "p r" "r' \<in> set t" for r'
    using Cons.prems that by (metis distinct.simps(2) image_eqI list.set_intros(1,2) list.set_map list.simps(9))
  then have "count_rows p t = 0" if "p r"
    using that by (simp add: count_rows_def filter_empty_conv)
  with Cons show ?case by auto
qed simp

text \<open>The tables only differ in their rows: which rows are due, what claiming, completing and
  releasing write, and whether a release of a lost lease is an error (\<open>strict\<close>). The laws about
  single rows give the queue contract.\<close>

locale row_queue =
  fixes wf :: "'r \<Rightarrow> bool"
    and key :: "'r \<Rightarrow> uuid"
    and finished :: "'r \<Rightarrow> bool"
    and holder :: "'r \<Rightarrow> string option"
    and since :: "'r \<Rightarrow> int option"
    and attempts :: "'r \<Rightarrow> int"
    and due :: "'c \<Rightarrow> int \<Rightarrow> int \<Rightarrow> 'r \<Rightarrow> bool"
    and order :: "'r \<Rightarrow> 'r \<Rightarrow> bool"
    and limit :: "'c \<Rightarrow> nat"
    and grab :: "string \<Rightarrow> int \<Rightarrow> 'r \<Rightarrow> 'r"
    and held :: "uuid \<Rightarrow> string \<Rightarrow> 'r \<Rightarrow> bool"
    and settle :: "'g \<Rightarrow> int \<Rightarrow> 'r \<Rightarrow> 'r"
    and postpone :: "'f \<Rightarrow> int \<Rightarrow> 'r \<Rightarrow> 'r"
    and strict :: bool
  assumes wf_lease: "wf r \<Longrightarrow> holder r = None \<longleftrightarrow> since r = None"
    and due_open: "due c now timeout r \<Longrightarrow> \<not> finished r"
    and due_expired: "due c now timeout r \<Longrightarrow> since r = Some at \<Longrightarrow> at < now - timeout * 1000"
    and grab_key: "key (grab w now r) = key r"
    and grab_row: "wf r \<Longrightarrow> due c now timeout r \<Longrightarrow> wf (grab w now r) \<and> \<not> finished (grab w now r)
      \<and> holder (grab w now r) = Some w \<and> since (grab w now r) = Some now \<and> attempts (grab w now r) = attempts r + 1"
    and held_iff: "wf r \<Longrightarrow> held i w r \<longleftrightarrow> key r = i \<and> holder r = Some w \<and> \<not> finished r"
    and settle_row: "wf r \<Longrightarrow> held i w r \<Longrightarrow> wf (settle g now r) \<and> key (settle g now r) = key r \<and> finished (settle g now r)
      \<and> holder (settle g now r) = None \<and> since (settle g now r) = None \<and> attempts (settle g now r) = attempts r"
    and postpone_row: "wf r \<Longrightarrow> held i w r \<Longrightarrow> wf (postpone f now r) \<and> key (postpone f now r) = key r
      \<and> \<not> finished (postpone f now r) \<and> holder (postpone f now r) = None \<and> since (postpone f now r) = None
      \<and> attempts (postpone f now r) = attempts r"
begin

definition rows_ok :: "'r list \<Rightarrow> bool" where
  "rows_ok t \<longleftrightarrow> distinct (map key t) \<and> (\<forall>r \<in> set t. wf r)"

definition claim_table :: "'c \<Rightarrow> string \<Rightarrow> int \<Rightarrow> int \<Rightarrow> 'r list \<Rightarrow> uuid list \<times> 'r list" where
  "claim_table c w now timeout t =
     (case claim_rows key (due c now timeout) order (limit c) (grab w now) t of (out, t') \<Rightarrow> (map key out, t'))"

definition complete_table :: "'g \<Rightarrow> string \<Rightarrow> int \<Rightarrow> uuid \<Rightarrow> 'r list \<Rightarrow> 'r list option" where
  "complete_table g w now i t =
     (if count_rows (held i w) t = 1 then Some (update_where (held i w) (settle g now) t) else None)"

definition release_table :: "'f \<Rightarrow> string \<Rightarrow> int \<Rightarrow> uuid \<Rightarrow> 'r list \<Rightarrow> 'r list option" where
  "release_table f w now i t =
     (if strict \<and> count_rows (held i w) t \<noteq> 1 then None else Some (update_where (held i w) (postpone f now) t))"

lemma rows_ok_pointwise:
  assumes "rows_ok t" and "list_all2 (\<lambda>r r'. key r' = key r \<and> wf r') t t'"
  shows "rows_ok t'"
proof -
  have "map key t' = map key t" using assms(2) by (induction rule: list_all2_induct) auto
  moreover have "\<forall>r' \<in> set t'. wf r'"
    using assms(2) by (auto simp: list_all2_conv_all_nth in_set_conv_nth)
  ultimately show ?thesis using assms(1) by (simp add: rows_ok_def)
qed

lemma claim_table_rows:
  assumes ok: "rows_ok t" and c: "claim_table c w now timeout t = (ids, t')"
  shows "list_all2 (\<lambda>r r'. wf r \<and> (if key r \<in> set ids then due c now timeout r \<and> r' = grab w now r else r' = r)) t t'"
    and "set ids \<subseteq> key ` set t"
proof -
  obtain out where out: "claim_rows key (due c now timeout) order (limit c) (grab w now) t = (out, t')"
    and ids: "ids = map key out"
    using c by (auto simp: claim_table_def split: prod.splits)
  have d: "distinct (map key t)" using ok by (simp add: rows_ok_def)
  have rows: "list_all2 (\<lambda>r r'. if key r \<in> set (map key out) then due c now timeout r \<and> r' = grab w now r else r' = r) t t'"
    by (rule claim_rows_law(1) [OF out d]) (rule grab_key)
  have "set (map key out) \<subseteq> key ` set t"
    by (rule claim_rows_law(2) [OF out d]) (rule grab_key)
  then show "set ids \<subseteq> key ` set t" by (simp add: ids)
  show "list_all2 (\<lambda>r r'. wf r \<and> (if key r \<in> set ids then due c now timeout r \<and> r' = grab w now r else r' = r)) t t'"
    using rows ok by (simp add: ids rows_ok_def list_all2_conv_all_nth)
qed

lemma lease_holder: "wf r \<Longrightarrow> map_option fst (held_lease (holder r) (since r)) = holder r"
  using wf_lease [of r] by (cases "holder r"; cases "since r") auto

lemma held_rows:
  assumes "rows_ok t"
  shows "count_rows (held i w) t = 1 \<longleftrightarrow> (\<exists>r \<in> set t. held i w r)"
  using assms by (intro count_rows_distinct [where k = key and i = i]) (auto simp: rows_ok_def held_iff)

end

sublocale row_queue < leased_queue rows_ok key finished "\<lambda>r. held_lease (holder r) (since r)" attempts
  claim_table complete_table release_table
proof
  fix t assume "rows_ok t"
  then show "distinct (map key t)" by (simp add: rows_ok_def)
next
  fix t c w now timeout assume ok: "rows_ok t"
  obtain ids t' where c: "claim_table c w now timeout t = (ids, t')" by fastforce
  have "list_all2 (\<lambda>r r'. key r' = key r \<and> wf r') t t'"
    by (rule list_all2_mono [OF claim_table_rows(1) [OF ok c]]) (auto simp: grab_key grab_row split: if_splits)
  then show "rows_ok (snd (claim_table c w now timeout t))" using ok c by (simp add: rows_ok_pointwise)
next
  fix t g w now i t' assume ok: "rows_ok t" and c: "complete_table g w now i t = Some t'"
  have "rows_ok (update_where (held i w) (settle g now) t)"
    by (rule rows_ok_pointwise [OF ok], rule update_where_pointwise)
       (use ok settle_row in \<open>auto simp: rows_ok_def\<close>)
  then show "rows_ok t'" using c by (auto simp: complete_table_def split: if_splits)
next
  fix t f w now i t' assume ok: "rows_ok t" and c: "release_table f w now i t = Some t'"
  have "rows_ok (update_where (held i w) (postpone f now) t)"
    by (rule rows_ok_pointwise [OF ok], rule update_where_pointwise)
       (use ok postpone_row in \<open>auto simp: rows_ok_def\<close>)
  then show "rows_ok t'" using c by (auto simp: release_table_def split: if_splits)
next
  fix t c w now timeout ids t'
  assume ok: "rows_ok t" and c: "claim_table c w now timeout t = (ids, t')"
  show "set ids \<subseteq> key ` set t" by (rule claim_table_rows(2) [OF ok c])
  show "list_all2 (\<lambda>r r'. if key r \<in> set ids
        then \<not> finished r \<and> (\<forall>v at. held_lease (holder r) (since r) = Some (v, at) \<longrightarrow> at < now - timeout * 1000)
          \<and> key r' = key r \<and> \<not> finished r' \<and> held_lease (holder r') (since r') = Some (w, now)
          \<and> attempts r' = attempts r + 1
        else r' = r) t t'"
    by (rule list_all2_mono [OF claim_table_rows(1) [OF ok c]])
       (auto simp: grab_key grab_row due_open due_expired split: if_splits)
next
  fix t g w now i t' assume ok: "rows_ok t" and c: "complete_table g w now i t = Some t'"
  have t': "t' = update_where (held i w) (settle g now) t"
    using c by (auto simp: complete_table_def split: if_splits)
  show "list_all2 (\<lambda>r r'. if key r = i \<and> map_option fst (held_lease (holder r) (since r)) = Some w \<and> \<not> finished r
        then key r' = key r \<and> finished r' \<and> held_lease (holder r') (since r') = None \<and> attempts r' = attempts r
        else r' = r) t t'"
    unfolding t'
  proof (rule update_where_pointwise)
    fix r assume "r \<in> set t"
    then have wf: "wf r" using ok by (simp add: rows_ok_def)
    show "if key r = i \<and> map_option fst (held_lease (holder r) (since r)) = Some w \<and> \<not> finished r
       then key (if held i w r then settle g now r else r) = key r
         \<and> finished (if held i w r then settle g now r else r)
         \<and> held_lease (holder (if held i w r then settle g now r else r)) (since (if held i w r then settle g now r else r)) = None
         \<and> attempts (if held i w r then settle g now r else r) = attempts r
       else (if held i w r then settle g now r else r) = r"
      using settle_row [OF wf, of i w g] by (simp add: lease_holder [OF wf] held_iff [OF wf])
  qed
next
  fix t g w now i assume ok: "rows_ok t"
  show "complete_table g w now i t \<noteq> None \<longleftrightarrow>
      (\<exists>r \<in> set t. key r = i \<and> map_option fst (held_lease (holder r) (since r)) = Some w \<and> \<not> finished r)"
    using ok held_rows [OF ok]
    by (auto simp: lease_holder complete_table_def rows_ok_def held_iff)
next
  fix f t w now i t' assume ok: "rows_ok t" and c: "release_table f w now i t = Some t'"
  have t': "t' = update_where (held i w) (postpone f now) t"
    using c by (auto simp: release_table_def split: if_splits)
  show "list_all2 (\<lambda>r r'. if key r = i \<and> map_option fst (held_lease (holder r) (since r)) = Some w \<and> \<not> finished r
        then key r' = key r \<and> \<not> finished r' \<and> held_lease (holder r') (since r') = None \<and> attempts r' = attempts r
        else r' = r) t t'"
    unfolding t'
  proof (rule update_where_pointwise)
    fix r assume "r \<in> set t"
    then have wf: "wf r" using ok by (simp add: rows_ok_def)
    show "if key r = i \<and> map_option fst (held_lease (holder r) (since r)) = Some w \<and> \<not> finished r
       then key (if held i w r then postpone f now r else r) = key r
         \<and> \<not> finished (if held i w r then postpone f now r else r)
         \<and> held_lease (holder (if held i w r then postpone f now r else r)) (since (if held i w r then postpone f now r else r)) = None
         \<and> attempts (if held i w r then postpone f now r else r) = attempts r
       else (if held i w r then postpone f now r else r) = r"
      using postpone_row [OF wf, of i w] by (simp add: lease_holder [OF wf] held_iff [OF wf])
  qed
qed

section \<open>Rounds of a dispatcher\<close>

text \<open>The loop of a dispatcher over the rows it claimed; an error that escapes the handling of one
  row abandons the rest.\<close>

fun settle_all :: "('r \<Rightarrow> 's \<Rightarrow> (error + unit) \<times> 's) \<Rightarrow> 'r list \<Rightarrow> 's \<Rightarrow> (error + unit) \<times> 's" where
  "settle_all handle [] s = (Inr (), s)"
| "settle_all handle (e # es) s =
     (case handle e s of (Inl err, s') \<Rightarrow> (Inl err, s') | (Inr _, s') \<Rightarrow> settle_all handle es s')"

text \<open>\<open>settles\<close>: handling a row that the worker holds succeeds, keeps the state predicate \<open>I\<close>, changes no
  other row and turns the row into a free one related to it by \<open>settled\<close>.\<close>

context row_queue
begin

definition settles ::
    "('s \<Rightarrow> bool) \<Rightarrow> ('s \<Rightarrow> 'r list) \<Rightarrow> string \<Rightarrow> ('r \<Rightarrow> 'r \<Rightarrow> bool) \<Rightarrow> ('r \<Rightarrow> 's \<Rightarrow> (error + unit) \<times> 's) \<Rightarrow> bool" where
  "settles I table w settled handle \<longleftrightarrow>
     (\<forall>e s. I s \<longrightarrow> count_rows (held (key e) w) (table s) = 1 \<longrightarrow>
        (\<exists>h s'. handle e s = (Inr (), s') \<and> I s' \<and> settled e (h e)
           \<and> table s' = update_where (held (key e) w) h (table s)))
     \<and> (\<forall>r r'. settled r r' \<longrightarrow> key r' = key r \<and> (wf r \<longrightarrow> wf r') \<and> holder r' = None)"

lemma settle_all_rows:
  assumes "settles I table w settled handle" and "I s" and "rows_ok (table s)" and "distinct (map key es)"
    and "set es \<subseteq> set (table s)" and "\<forall>e \<in> set es. holder e = Some w \<and> \<not> finished e"
  shows "\<exists>s'. settle_all handle es s = (Inr (), s') \<and> I s'
     \<and> list_all2 (\<lambda>r r'. if r \<in> set es then settled r r' else r' = r) (table s) (table s')"
  using assms
proof (induction es arbitrary: s)
  case Nil
  then show ?case by (simp add: list_all2_same)
next
  case (Cons e es)
  let ?t = "table s" and ?held = "held (key e) w"
  have d: "distinct (map key ?t)" and wf: "\<And>r. r \<in> set ?t \<Longrightarrow> wf r" using Cons.prems(3) by (auto simp: rows_ok_def)
  have one: "?held r \<longleftrightarrow> r = e" if "r \<in> set ?t" for r
    using that Cons.prems wf distinct_map_key_eq [OF d, of r e] by (auto simp: held_iff)
  have "count_rows ?held ?t = 1"
    unfolding held_rows [OF Cons.prems(3)] using Cons.prems(5) one by auto
  then obtain h s1 where h: "settled e (h e)" and s1: "handle e s = (Inr (), s1)" "I s1"
    and t1: "table s1 = update_where ?held h ?t"
    using Cons.prems(1,2) unfolding settles_def by blast
  have free: "key (h e) = key e" "holder (h e) = None" "wf (h e)"
    using Cons.prems(1,5) wf h unfolding settles_def by auto
  have u: "table s1 = map (\<lambda>r. if r = e then h e else r) ?t" using one by (auto simp: t1 update_where_def)
  have ne: "e \<notin> set es" "h e \<notin> set es" using Cons.prems(4,6) free(2) by auto
  have "map key (table s1) = map key ?t" using free(1) by (simp add: u)
  then have "distinct (map key (table s1))" using d by metis
  moreover have "\<forall>r \<in> set (table s1). wf r" using wf free(3) by (auto simp: u)
  ultimately have "rows_ok (table s1)" by (simp add: rows_ok_def)
  moreover have "set es \<subseteq> set (table s1)" using Cons.prems(5) ne by (auto simp: u image_iff)
  ultimately obtain s' where run: "settle_all handle es s1 = (Inr (), s')" "I s'"
    and rows: "list_all2 (\<lambda>r r'. if r \<in> set es then settled r r' else r' = r) (table s1) (table s')"
    using Cons.IH [OF Cons.prems(1) s1(2)] Cons.prems(4,6) by auto
  have "list_all2 (\<lambda>r r'. if r \<in> set (e # es) then settled r r' else r' = r) ?t (table s')"
    using rows ne h by (auto simp: u list_all2_map1 elim!: list_all2_mono split: if_splits)
  then show ?case using run s1(1) by auto
qed

text \<open>A round: claim, then settle every claimed row.\<close>

lemma round_settles:
  assumes ok: "rows_ok t" and free: "\<forall>r \<in> set t. holder r \<noteq> Some w"
    and c: "claim_rows key (due c now timeout) order n (grab w now) t = (out, table s)"
    and st: "settles I table w settled handle" and i: "I s"
  shows "\<exists>s'. settle_all handle out s = (Inr (), s') \<and> I s' \<and> length out \<le> n
     \<and> (\<forall>r \<in> set (table s'). holder r \<noteq> Some w)
     \<and> list_all2 (\<lambda>r r'. r' = r \<or> (due c now timeout r \<and> settled (grab w now r) r')) t (table s')"
proof -
  let ?due = "due c now timeout" and ?grab = "grab w now" and ?u = "table s"
  have d: "distinct (map key t)" and wf: "\<And>r. r \<in> set t \<Longrightarrow> wf r" using ok by (auto simp: rows_ok_def)
  have k: "\<And>r. key (?grab r) = key r" by (rule grab_key)
  note rows = claim_rows_law(1) [OF c d k] and out = claim_rows_out [OF c d k]
  have "list_all2 (\<lambda>r r'. r \<in> set t \<and> (if key r \<in> set (map key out) then ?due r \<and> r' = ?grab r else r' = r)) t ?u"
    using rows by (simp add: list_all2_conv_all_nth)
  then have "list_all2 (\<lambda>r r'. key r' = key r \<and> wf r') t ?u"
    by (rule list_all2_mono) (auto simp: k wf grab_row split: if_splits)
  then have oku: "rows_ok ?u" by (rule rows_ok_pointwise [OF ok])
  then have du: "distinct (map key ?u)" by (simp add: rows_ok_def)
  have "\<forall>e \<in> set out. holder e = Some w \<and> \<not> finished e"
    using claim_rows_sets [OF c] wf by (force simp: grab_row)
  from settle_all_rows [OF st i oku out(1,2) this] obtain s' where
    run: "settle_all handle out s = (Inr (), s')" "I s'"
    and settled: "list_all2 (\<lambda>r r'. if r \<in> set out then settled r r' else r' = r) ?u (table s')" by blast
  have mem: "r' \<in> set out \<longleftrightarrow> key r' \<in> key ` set out" if "r' \<in> set ?u" for r'
    using that out(2) distinct_map_key_eq [OF du] by (auto simp: image_iff)
  have "list_all2 (\<lambda>r r'. r' \<in> set ?u \<and> (if key r \<in> set (map key out) then ?due r \<and> r' = ?grab r else r' = r)) t ?u"
    using rows by (simp add: list_all2_conv_all_nth)
  then have grabbed: "list_all2 (\<lambda>r r'. if r' \<in> set out then ?due r \<and> r' = ?grab r else r' = r) t ?u"
    by (rule list_all2_mono) (auto simp: mem k split: if_splits)
  have all: "list_all2 (\<lambda>r r'. r' = r \<or> (?due r \<and> settled (?grab r) r')) t (table s')"
    by (rule list_all2_trans [OF _ grabbed settled]) (auto split: if_splits)
  have "holder r' \<noteq> Some w" if r': "r' \<in> set (table s')" for r'
  proof -
    from all r' obtain r where "r \<in> set t" "r' = r \<or> settled (?grab r) r'"
      unfolding list_all2_conv_all_nth in_set_conv_nth by metis
    then show ?thesis using free st unfolding settles_def by auto
  qed
  with run all out(3) show ?thesis by blast
qed

end

end
