(* ===== verification/Outbox.thy ===== *)
theory Outbox
  imports Audit_Chain Lease_Queue
begin

text \<open>
  The transactional outbox: \<^verbatim>\<open>src/platform/postgres-outbox.ts\<close> (appending an event with its
  privacy attribution, claiming, publishing, retrying) and the dispatcher loop of
  \<^verbatim>\<open>src/services/postgres-outbox-dispatcher.ts\<close>, over the table of the migrations 001, 004 and
  138 with its constraints and its attribution trigger. The SQL function
  \<open>resolve_outbox_privacy_subjects\<close> reads tables of many components; it is the argument
  \<open>resolve\<close> here, and each component that appends events supplies its clauses.
\<close>

section \<open>Table\<close>

record outbox_row =
  ob_id :: uuid
  ob_aggregate_type :: string
  ob_aggregate_id :: string
  ob_event_type :: string
  ob_payload :: json_object
  ob_occurred_at :: int
  ob_published_at :: "int option"
  ob_claimed_at :: "int option"
  ob_claimed_by :: "string option"
  ob_attempts :: int
  ob_next_attempt_at :: int
  ob_last_error :: "string option"
  ob_privacy_classification :: string
  ob_privacy_subject_identity_ids :: "uuid list"
  ob_privacy_attribution_basis :: string

record outbox_db = audit_db +
  outbox_events :: "outbox_row list"

section \<open>Privacy attribution\<close>

datatype outbox_privacy =
    AuditEventPrivacy "string list"
  | SubjectsPrivacy "string list"
  | TechnicalNoSubject

record outbox_input =
  oi_aggregateType :: string
  oi_aggregateId :: string
  oi_eventType :: string
  oi_payload :: json_object
  oi_privacy :: "outbox_privacy option"
  oi_occurredAt :: "int option"

record privacy_attribution =
  pa_classification :: string
  pa_subjectIdentityIds :: "uuid list"
  pa_basis :: string

definition canonicalIdentityIds :: "string list \<Rightarrow> error + uuid list" where
  "canonicalIdentityIds values =
     (if length values > 25
      then Inl (GenericError ''Outbox privacy attribution cannot contain more than 25 identities'')
      else let ids = sort_by str_le (unique_values (map (\<lambda>v. toLowerCase (trim v)) values)) in
        if length ids \<noteq> length values \<or> list_ex (\<lambda>v. \<not> uuidPattern v) ids
        then Inl (GenericError ''Outbox privacy subject identities must be unique UUIDs'')
        else Inr ids)"

definition audit_basis :: "bool \<Rightarrow> bool \<Rightarrow> bool \<Rightarrow> string" where
  "audit_basis hasActor hasExplicit hasAuthoritative =
     (if hasActor \<and> hasExplicit \<and> hasAuthoritative then ''audit_event_actor_explicit_and_authoritative_subjects''
      else if hasActor \<and> hasAuthoritative then ''audit_event_actor_and_authoritative_subjects''
      else if \<not> hasActor \<and> hasAuthoritative then ''audit_event_authoritative_subjects''
      else if hasActor \<and> hasExplicit then ''audit_event_actor_and_explicit_subjects''
      else ''audit_event_actor'')"

definition actor_ids :: "audit_row \<Rightarrow> uuid list" where
  "actor_ids event = (case ae_actor_id event of None \<Rightarrow> [] | Some a \<Rightarrow> [a])"

definition additional_ids :: "outbox_input \<Rightarrow> string list" where
  "additional_ids inp = (case oi_privacy inp of Some (AuditEventPrivacy xs) \<Rightarrow> xs | _ \<Rightarrow> [])"

definition resolveAuditAttribution ::
    "uuid list \<Rightarrow> outbox_input \<Rightarrow> ('z outbox_db_scheme, privacy_attribution) tx" where
  "resolveAuditAttribution authoritative inp =
     (case get_field ''auditEventId'' (oi_payload inp) of
        Some (JStr raw) \<Rightarrow>
          (let auditEventId = toLowerCase (trim raw) in
           andThen (require (uuidPattern auditEventId)
                      (GenericError ''Audited outbox events require a valid audit event UUID''))
           (bnd (query (\<lambda>s. first_row (\<lambda>r. ae_id r = auditEventId) (audit_events s))) (\<lambda>row.
            case row of
              None \<Rightarrow> throw (GenericError ''Outbox privacy attribution requires an existing immutable audit event'')
            | Some event \<Rightarrow>
                bnd (lift_sum (canonicalIdentityIds (additional_ids inp))) (\<lambda>additional.
                bnd (lift_sum (canonicalIdentityIds (unique_values (actor_ids event @ additional @ authoritative))))
                (\<lambda>ids.
                 if ids \<noteq> [] then ret
                   \<lparr>pa_classification = ''subject_attributed'', pa_subjectIdentityIds = ids,
                    pa_basis = audit_basis (ae_actor_id event \<noteq> None) (additional \<noteq> []) (authoritative \<noteq> [])\<rparr>
                 else if ae_actor_type event = ''user''
                 then throw (GenericError ''A user-authored audit event cannot omit its actor identity'')
                 else ret \<lparr>pa_classification = ''technical_no_subject'', pa_subjectIdentityIds = [],
                           pa_basis = ''audit_event_nonhuman''\<rparr>)))))
      | _ \<Rightarrow> throw (GenericError ''Audited outbox events require an audit event UUID''))"

definition resolvePrivacyAttribution ::
    "('z outbox_db_scheme \<Rightarrow> string \<Rightarrow> string \<Rightarrow> uuid list) \<Rightarrow> outbox_input \<Rightarrow>
     ('z outbox_db_scheme, privacy_attribution) tx" where
  "resolvePrivacyAttribution resolve inp =
     bnd (query (\<lambda>s. resolve s (oi_aggregateType inp) (oi_aggregateId inp))) (\<lambda>found.
     bnd (lift_sum (canonicalIdentityIds found)) (\<lambda>authoritative.
     (case oi_privacy inp of
        Some (SubjectsPrivacy subjects) \<Rightarrow>
          bnd (lift_sum (canonicalIdentityIds subjects)) (\<lambda>explicit.
          bnd (lift_sum (canonicalIdentityIds (unique_values (explicit @ authoritative)))) (\<lambda>ids.
          andThen (require (ids \<noteq> [])
                     (GenericError ''Subject-attributed outbox events require at least one identity''))
          (ret \<lparr>pa_classification = ''subject_attributed'', pa_subjectIdentityIds = ids,
                pa_basis = (if authoritative \<noteq> [] then ''explicit_and_authoritative_subjects''
                            else ''explicit_subjects'')\<rparr>)))
      | Some TechnicalNoSubject \<Rightarrow>
          if authoritative \<noteq> []
          then ret \<lparr>pa_classification = ''subject_attributed'', pa_subjectIdentityIds = authoritative,
                    pa_basis = ''authoritative_subjects''\<rparr>
          else ret \<lparr>pa_classification = ''technical_no_subject'', pa_subjectIdentityIds = [],
                    pa_basis = ''explicit_technical''\<rparr>
      | _ \<Rightarrow> resolveAuditAttribution authoritative inp)))"

section \<open>Appending\<close>

text \<open>The trigger \<open>validate_event_privacy_attribution\<close> on insert, shared with the inbox.\<close>

definition validate_event_privacy_attribution :: "uuid list \<Rightarrow> ('z audit_db_scheme, unit) tx" where
  "validate_event_privacy_attribution ids =
     andThen (require (sort_by str_le (unique_values ids) = ids)
                (TriggerException ''event privacy subject identities must be sorted and unique''))
     (bnd (query (\<lambda>s. list_all (\<lambda>i. exists_row (\<lambda>r. idn_id r = i) (identities s)) ids)) (\<lambda>known.
      require known (TriggerException ''event privacy attribution references an unknown identity'')))"

definition outbox_privacy_shape :: "outbox_row \<Rightarrow> bool" where
  "outbox_privacy_shape r \<longleftrightarrow>
     (ob_privacy_classification r = ''subject_attributed''
        \<and> 1 \<le> length (ob_privacy_subject_identity_ids r) \<and> length (ob_privacy_subject_identity_ids r) \<le> 25)
     \<or> (ob_privacy_classification r \<in> {''technical_no_subject'', ''legacy_unresolved''}
        \<and> ob_privacy_subject_identity_ids r = [])"

definition insert_outbox_row :: "outbox_row \<Rightarrow> ('z outbox_db_scheme, unit) tx" where
  "insert_outbox_row row =
     andThen (validate_event_privacy_attribution (ob_privacy_subject_identity_ids row))
     (andThen (require (outbox_privacy_shape row) (CheckViolation ''outbox_events_privacy_attribution_shape''))
     (bnd (query (\<lambda>s. exists_row (\<lambda>r. ob_id r = ob_id row) (outbox_events s))) (\<lambda>taken.
      andThen (require (\<not> taken) (UniqueViolation ''outbox_events_pkey''))
      (modify (\<lambda>s. s\<lparr>outbox_events := outbox_events s @ [row]\<rparr>)))))"

definition outbox_row_of :: "outbox_input \<Rightarrow> uuid \<Rightarrow> privacy_attribution \<Rightarrow> int \<Rightarrow> outbox_row" where
  "outbox_row_of inp i privacy now =
     \<lparr>ob_id = i, ob_aggregate_type = oi_aggregateType inp, ob_aggregate_id = oi_aggregateId inp,
      ob_event_type = oi_eventType inp, ob_payload = oi_payload inp,
      ob_occurred_at = (case oi_occurredAt inp of None \<Rightarrow> now | Some t \<Rightarrow> t),
      ob_published_at = None, ob_claimed_at = None, ob_claimed_by = None, ob_attempts = 0,
      ob_next_attempt_at = now, ob_last_error = None,
      ob_privacy_classification = pa_classification privacy,
      ob_privacy_subject_identity_ids = pa_subjectIdentityIds privacy,
      ob_privacy_attribution_basis = pa_basis privacy\<rparr>"

definition appendOutboxEvent ::
    "runtime \<Rightarrow> ('z outbox_db_scheme \<Rightarrow> string \<Rightarrow> string \<Rightarrow> uuid list) \<Rightarrow> outbox_input \<Rightarrow>
     ('z outbox_db_scheme, uuid) tx" where
  "appendOutboxEvent rt resolve inp =
     bnd (randomUUID rt) (\<lambda>i.
     bnd (resolvePrivacyAttribution resolve inp) (\<lambda>privacy.
     bnd (query clock) (\<lambda>now.
     andThen (insert_outbox_row (outbox_row_of inp i privacy now)) (ret i))))"

section \<open>Claiming and settling\<close>

definition outbox_due :: "string list \<Rightarrow> int \<Rightarrow> int \<Rightarrow> outbox_row \<Rightarrow> bool" where
  "outbox_due eventTypes now claimTimeoutSeconds r \<longleftrightarrow>
     ob_published_at r = None \<and> ob_event_type r \<in> set eventTypes \<and> ob_next_attempt_at r \<le> now
     \<and> (case ob_claimed_at r of None \<Rightarrow> True | Some t \<Rightarrow> t < now - claimTimeoutSeconds * 1000)"

definition outbox_order :: "outbox_row \<Rightarrow> outbox_row \<Rightarrow> bool" where
  "outbox_order a b \<longleftrightarrow> ob_occurred_at a < ob_occurred_at b
     \<or> (ob_occurred_at a = ob_occurred_at b \<and> str_le (ob_id a) (ob_id b))"

definition outbox_grab :: "string \<Rightarrow> int \<Rightarrow> outbox_row \<Rightarrow> outbox_row" where
  "outbox_grab workerId now r =
     r\<lparr>ob_claimed_at := Some now, ob_claimed_by := Some workerId, ob_attempts := ob_attempts r + 1\<rparr>"

definition claimOutboxEvents ::
    "string \<Rightarrow> string list \<Rightarrow> nat \<Rightarrow> int \<Rightarrow> 'z outbox_db_scheme \<Rightarrow> (error + outbox_row list) \<times> 'z outbox_db_scheme" where
  "claimOutboxEvents workerId eventTypes limit claimTimeoutSeconds s =
     (if eventTypes = [] then (Inr [], s)
      else withPostgresTransaction no_deferred (\<lambda>s.
        let (out, t) = claim_rows ob_id (outbox_due eventTypes (clock s) claimTimeoutSeconds)
              outbox_order limit (outbox_grab workerId (clock s)) (outbox_events s)
        in Inr (out, s\<lparr>outbox_events := t\<rparr>)) s)"

definition outbox_held :: "uuid \<Rightarrow> string \<Rightarrow> outbox_row \<Rightarrow> bool" where
  "outbox_held eventId workerId r \<longleftrightarrow>
     ob_id r = eventId \<and> ob_claimed_by r = Some workerId \<and> ob_published_at r = None"

definition outbox_publish :: "int \<Rightarrow> outbox_row \<Rightarrow> outbox_row" where
  "outbox_publish now r =
     r\<lparr>ob_published_at := Some now, ob_claimed_at := None, ob_claimed_by := None, ob_last_error := None\<rparr>"

definition no_longer_claimed :: "string \<Rightarrow> uuid \<Rightarrow> string" where
  "no_longer_claimed what i = what @ '' '' @ i @ '' is no longer claimed by this worker''"

definition markOutboxEventPublished :: "uuid \<Rightarrow> string \<Rightarrow> ('z outbox_db_scheme, unit) tx" where
  "markOutboxEventPublished eventId workerId =
     bnd (query (\<lambda>s. count_rows (outbox_held eventId workerId) (outbox_events s))) (\<lambda>rowCount.
     andThen (modify (\<lambda>s. s\<lparr>outbox_events :=
                update_where (outbox_held eventId workerId) (outbox_publish (clock s)) (outbox_events s)\<rparr>))
     (require (rowCount = 1) (GenericError (no_longer_claimed ''Outbox event'' eventId))))"

definition outbox_postpone :: "int \<Rightarrow> string \<Rightarrow> outbox_row \<Rightarrow> outbox_row" where
  "outbox_postpone retryAt message r =
     r\<lparr>ob_claimed_at := None, ob_claimed_by := None, ob_next_attempt_at := retryAt, ob_last_error := Some message\<rparr>"

definition markOutboxEventForRetry ::
    "uuid \<Rightarrow> string \<Rightarrow> int \<Rightarrow> error \<Rightarrow> 'z outbox_db_scheme \<Rightarrow> (error + unit) \<times> 'z outbox_db_scheme" where
  "markOutboxEventForRetry eventId workerId retryAt err =
     withPostgresTransaction no_deferred (modify (\<lambda>s. s\<lparr>outbox_events :=
       update_where (outbox_held eventId workerId)
         (outbox_postpone retryAt (take 2000 (error_message err))) (outbox_events s)\<rparr>))"

section \<open>Dispatching\<close>

text \<open>\<open>Math.min(60 * 60, base * 2 ** Math.max(0, attempts - 1))\<close>, the back-off of all three
  dispatchers.\<close>

definition delaySeconds :: "int \<Rightarrow> int \<Rightarrow> int" where
  "delaySeconds base attempts = min (60 * 60) (base * 2 ^ nat (max 0 (attempts - 1)))"

text \<open>The loop over the claimed events. \<open>deferred\<close> is the schema's deferred constraint check at
  \<open>COMMIT\<close> and \<open>project\<close> the projection given to the dispatcher.\<close>

fun dispatch_outbox_events ::
    "('z outbox_db_scheme \<Rightarrow> 'z outbox_db_scheme \<Rightarrow> error option) \<Rightarrow> env_config \<Rightarrow>
     (outbox_row \<Rightarrow> ('z outbox_db_scheme, unit) tx) \<Rightarrow> string \<Rightarrow> outbox_row list \<Rightarrow> 'z outbox_db_scheme \<Rightarrow>
     (error + unit) \<times> 'z outbox_db_scheme" where
  "dispatch_outbox_events deferred env project workerId [] s = (Inr (), s)"
| "dispatch_outbox_events deferred env project workerId (event # events) s =
     (case withPostgresTransaction deferred
             (andThen (project event) (markOutboxEventPublished (ob_id event) workerId)) s of
        (Inr _, s') \<Rightarrow> dispatch_outbox_events deferred env project workerId events s'
      | (Inl err, s') \<Rightarrow>
          (case markOutboxEventForRetry (ob_id event) workerId
                  (clock s' + delaySeconds (OUTBOX_RETRY_BASE_SECONDS env) (ob_attempts event) * 1000) err s' of
             (Inl err', s'') \<Rightarrow> (Inl err', s'')
           | (Inr _, s'') \<Rightarrow> dispatch_outbox_events deferred env project workerId events s''))"

definition dispatchPendingOutboxEvents ::
    "('z outbox_db_scheme \<Rightarrow> 'z outbox_db_scheme \<Rightarrow> error option) \<Rightarrow> env_config \<Rightarrow>
     (outbox_row \<Rightarrow> ('z outbox_db_scheme, unit) tx) \<Rightarrow> string \<Rightarrow> string list \<Rightarrow> 'z outbox_db_scheme \<Rightarrow>
     (error + nat) \<times> 'z outbox_db_scheme" where
  "dispatchPendingOutboxEvents deferred env project workerId eventTypes s =
     (case claimOutboxEvents workerId eventTypes (OUTBOX_DISPATCH_BATCH_SIZE env)
             (OUTBOX_CLAIM_TIMEOUT_SECONDS env) s of
        (Inl e, s') \<Rightarrow> (Inl e, s')
      | (Inr events, s') \<Rightarrow>
          (case dispatch_outbox_events deferred env project workerId events s' of
             (Inl e, s'') \<Rightarrow> (Inl e, s'')
           | (Inr _, s'') \<Rightarrow> (Inr (length events), s'')))"

lemmas [tx_defs] = resolveAuditAttribution_def resolvePrivacyAttribution_def
  validate_event_privacy_attribution_def insert_outbox_row_def appendOutboxEvent_def
  markOutboxEventPublished_def markOutboxEventForRetry_def

section \<open>Effects of appending\<close>

text \<open>Canonical identity lists. The function accepts exactly the lists of at most 25 values
  that are pairwise different UUIDs once trimmed and lower-cased, and returns those UUIDs sorted;
  the trigger on the table can never reject an accepted list as unsorted.\<close>

theorem canonicalIdentityIds_sound:
  "case canonicalIdentityIds vs of
     Inl e \<Rightarrow> \<not> (length vs \<le> 25 \<and> distinct (map (\<lambda>v. toLowerCase (trim v)) vs)
                 \<and> list_all (\<lambda>v. uuidPattern (toLowerCase (trim v))) vs)
   | Inr ids \<Rightarrow> length vs \<le> 25 \<and> distinct (map (\<lambda>v. toLowerCase (trim v)) vs)
               \<and> list_all uuidPattern ids \<and> set ids = (\<lambda>v. toLowerCase (trim v)) ` set vs
               \<and> distinct ids \<and> sorted_wrt str_le ids \<and> sort_by str_le (unique_values ids) = ids"
proof -
  let ?n = "\<lambda>v. toLowerCase (trim v)"
  have len: "length (unique_values (map ?n vs)) = length vs \<longleftrightarrow> distinct (map ?n vs)"
    using unique_values_length_eq [of "map ?n vs"] unique_values_distinct [of "map ?n vs"] by auto
  have srt: "sorted_wrt str_le (sort_by str_le xs)" for xs by (rule sort_by_str_le_sorted)
  have "sort_by str_le (unique_values (sort_by str_le (unique_values xs))) = sort_by str_le (unique_values xs)" for xs
    by (simp add: unique_values_distinct sort_by_sorted srt)
  with len srt show ?thesis
    by (auto simp: canonicalIdentityIds_def Let_def list_ex_iff list_all_iff)
qed

lemma resolveAuditAttribution_state:
  "resolveAuditAttribution auth inp s = Inr (p, s') \<Longrightarrow> s' = s"
  by (auto simp: resolveAuditAttribution_def Let_def tx_Inr elim!: tx_elims
        split: option.splits json.splits if_splits)

lemma resolvePrivacyAttribution_state:
  "resolvePrivacyAttribution resolve inp s = Inr (p, s') \<Longrightarrow> s' = s"
  by (auto simp: resolvePrivacyAttribution_def tx_Inr dest: resolveAuditAttribution_state elim!: tx_elims
        split: option.splits outbox_privacy.splits if_splits)

lemma outbox_row_of_sels:
  "ob_id (outbox_row_of inp i p now) = i"
  "ob_privacy_subject_identity_ids (outbox_row_of inp i p now) = pa_subjectIdentityIds p"
  "ob_published_at (outbox_row_of inp i p now) = None"
  "ob_claimed_at (outbox_row_of inp i p now) = None"
  "ob_claimed_by (outbox_row_of inp i p now) = None"
  by (simp_all add: outbox_row_of_def)

lemma insert_outbox_row_Inr:
  "insert_outbox_row row s = Inr (u, s') \<longleftrightarrow>
     sort_by str_le (unique_values (ob_privacy_subject_identity_ids row)) = ob_privacy_subject_identity_ids row
     \<and> (\<forall>k \<in> set (ob_privacy_subject_identity_ids row). \<exists>r \<in> set (identities s). idn_id r = k)
     \<and> outbox_privacy_shape row \<and> (\<forall>r \<in> set (outbox_events s). ob_id r \<noteq> ob_id row)
     \<and> s' = s\<lparr>outbox_events := outbox_events s @ [row]\<rparr>"
  unfolding insert_outbox_row_def validate_event_privacy_attribution_def tx_simps
  by (auto simp: list_all_iff)

lemma append_outbox_effect:
  assumes "appendOutboxEvent rt resolve inp s = Inr (i, s')"
  obtains p where
    "i = rt_uuid rt (uuids_drawn s)"
    and "resolvePrivacyAttribution resolve inp (s\<lparr>uuids_drawn := Suc (uuids_drawn s)\<rparr>)
           = Inr (p, s\<lparr>uuids_drawn := Suc (uuids_drawn s)\<rparr>)"
    and "outbox_privacy_shape (outbox_row_of inp i p (clock s))"
    and "\<forall>k \<in> set (pa_subjectIdentityIds p). \<exists>r \<in> set (identities s). idn_id r = k"
    and "\<forall>r \<in> set (outbox_events s). ob_id r \<noteq> i"
    and "s' = s\<lparr>uuids_drawn := Suc (uuids_drawn s), outbox_events := outbox_events s @ [outbox_row_of inp i p (clock s)]\<rparr>"
proof -
  let ?s = "s\<lparr>uuids_drawn := Suc (uuids_drawn s)\<rparr>"
  from assms obtain p s1 where i: "i = rt_uuid rt (uuids_drawn s)"
    and p: "resolvePrivacyAttribution resolve inp ?s = Inr (p, s1)"
    and ins: "insert_outbox_row (outbox_row_of inp i p (clock s1)) s1 = Inr ((), s')"
    by (auto simp: appendOutboxEvent_def tx_Inr randomUUID_Inr elim!: tx_elims)
  from resolvePrivacyAttribution_state [OF p] have s1: "s1 = ?s" .
  from ins show thesis
    unfolding insert_outbox_row_Inr s1 using that [of p] i p s1 by (simp add: outbox_row_of_def)
qed

lemma append_outbox_frame:
  "appendOutboxEvent rt resolve inp s = Inr (i, s') \<Longrightarrow>
     \<exists>u ob. s' = s\<lparr>uuids_drawn := u, outbox_events := ob\<rparr>"
  by (elim append_outbox_effect) blast

lemma hoare_append_outbox [hoare_intros]:
  assumes "\<And>s u row i. P s \<Longrightarrow> (\<forall>r \<in> set (outbox_events s). ob_id r \<noteq> ob_id row) \<Longrightarrow> ob_published_at row = None \<Longrightarrow>
      ob_claimed_at row = None \<Longrightarrow> ob_claimed_by row = None \<Longrightarrow> i = ob_id row \<Longrightarrow> u = Suc (uuids_drawn s) \<Longrightarrow>
      Q i (s\<lparr>uuids_drawn := u, outbox_events := outbox_events s @ [row]\<rparr>)"
  shows "hoare P (appendOutboxEvent rt resolve inp) Q"
proof (rule hoareI)
  fix s a s' assume P: "P s" and "appendOutboxEvent rt resolve inp s = Inr (a, s')"
  then obtain p where a: "\<forall>r \<in> set (outbox_events s). ob_id r \<noteq> a"
    and s': "s' = s\<lparr>uuids_drawn := Suc (uuids_drawn s), outbox_events := outbox_events s @ [outbox_row_of inp a p (clock s)]\<rparr>"
    by (elim append_outbox_effect) blast
  show "Q a s'" unfolding s' by (rule assms [OF P]) (simp_all add: outbox_row_of_sels a)
qed

lemma canonicalIdentityIds_set:
  "canonicalIdentityIds vs = Inr ids \<Longrightarrow> set ids = (\<lambda>v. toLowerCase (trim v)) ` set vs"
  by (auto simp: canonicalIdentityIds_def Let_def split: if_splits)

lemma normalised_twice: "toLowerCase (trim (toLowerCase (trim v))) = toLowerCase (trim v)"
  by (simp add: trim_toLowerCase)

lemma canonicalIdentityIds_fixed:
  "canonicalIdentityIds vs = Inr ids \<Longrightarrow> i \<in> set ids \<Longrightarrow> toLowerCase (trim i) = i"
  by (auto simp: canonicalIdentityIds_set normalised_twice)

lemma canonical_union:
  assumes "canonicalIdentityIds vs = Inr ids" and "canonicalIdentityIds (unique_values (xs @ ids @ ys)) = Inr all"
  shows "set ids \<subseteq> set all"
proof
  fix i assume i: "i \<in> set ids"
  then have "toLowerCase (trim i) \<in> set all"
    unfolding canonicalIdentityIds_set [OF assms(2)] by auto
  with canonicalIdentityIds_fixed [OF assms(1) i] show "i \<in> set all" by simp
qed

text \<open>Who an audited event is attributed to: the audit row, its actor and its classification.\<close>

definition audited_by :: "outbox_input \<Rightarrow> audit_row list \<Rightarrow> uuid list \<Rightarrow> bool" where
  "audited_by inp events subjects \<longleftrightarrow>
     (\<exists>raw ev. get_field ''auditEventId'' (oi_payload inp) = Some (JStr raw) \<and> ev \<in> set events
        \<and> ae_id ev = toLowerCase (trim raw)
        \<and> (case ae_actor_id ev of Some a \<Rightarrow> toLowerCase (trim a) \<in> set subjects
            | None \<Rightarrow> ae_actor_type ev = ''user'' \<longrightarrow> subjects \<noteq> []))"

lemma resolveAuditAttribution_subjects:
  assumes "resolveAuditAttribution auth inp s = Inr (p, s')" and "canonicalIdentityIds found = Inr auth"
  shows "audited_by inp (audit_events s) (pa_subjectIdentityIds p) \<and> set auth \<subseteq> set (pa_subjectIdentityIds p)"
proof -
  from assms(1) obtain raw ev additional ids where
    raw: "get_field ''auditEventId'' (oi_payload inp) = Some (JStr raw)"
    and ev: "first_row (\<lambda>r. ae_id r = toLowerCase (trim raw)) (audit_events s) = Some ev"
    and ids: "canonicalIdentityIds (unique_values (actor_ids ev @ additional @ auth)) = Inr ids"
    and p: "pa_subjectIdentityIds p = ids" and user: "ids = [] \<longrightarrow> ae_actor_type ev \<noteq> ''user''"
    unfolding resolveAuditAttribution_def Let_def
    by (auto simp: tx_Inr elim!: tx_elims split: option.splits json.splits if_splits)
  have "set auth \<subseteq> set ids"
    using canonical_union [OF assms(2), of "actor_ids ev @ additional" "[]"] ids by simp
  moreover have "toLowerCase (trim a) \<in> set ids" if "ae_actor_id ev = Some a" for a
    unfolding canonicalIdentityIds_set [OF ids] using that by (simp add: actor_ids_def)
  ultimately show ?thesis
    using raw first_row_Some [OF ev] user p by (auto simp: audited_by_def split: option.splits)
qed

lemma resolvePrivacyAttribution_subjects:
  assumes "resolvePrivacyAttribution resolve inp s = Inr (p, s')"
  shows "(\<lambda>v. toLowerCase (trim v)) ` set (resolve s (oi_aggregateType inp) (oi_aggregateId inp))
           \<subseteq> set (pa_subjectIdentityIds p)"
    and "(case oi_privacy inp of
            Some (SubjectsPrivacy subjects) \<Rightarrow>
              (\<lambda>v. toLowerCase (trim v)) ` set subjects \<subseteq> set (pa_subjectIdentityIds p)
          | Some TechnicalNoSubject \<Rightarrow> True
          | _ \<Rightarrow> audited_by inp (audit_events s) (pa_subjectIdentityIds p))"
proof -
  from assms obtain auth where
    auth: "canonicalIdentityIds (resolve s (oi_aggregateType inp) (oi_aggregateId inp)) = Inr auth"
    and rest: "(case oi_privacy inp of
        Some (SubjectsPrivacy subjects) \<Rightarrow>
          (\<exists>explicit. canonicalIdentityIds subjects = Inr explicit
             \<and> canonicalIdentityIds (unique_values (explicit @ auth)) = Inr (pa_subjectIdentityIds p))
      | Some TechnicalNoSubject \<Rightarrow> pa_subjectIdentityIds p = auth
      | _ \<Rightarrow> resolveAuditAttribution auth inp s = Inr (p, s'))"
    by (auto simp: resolvePrivacyAttribution_def tx_Inr elim!: tx_elims
        split: option.splits outbox_privacy.splits if_splits)
  have "set auth \<subseteq> set (pa_subjectIdentityIds p) \<and>
    (case oi_privacy inp of
            Some (SubjectsPrivacy subjects) \<Rightarrow>
              (\<lambda>v. toLowerCase (trim v)) ` set subjects \<subseteq> set (pa_subjectIdentityIds p)
          | Some TechnicalNoSubject \<Rightarrow> True
          | _ \<Rightarrow> audited_by inp (audit_events s) (pa_subjectIdentityIds p))"
  proof (cases "oi_privacy inp")
    case None
    then show ?thesis using rest resolveAuditAttribution_subjects [of auth inp s p s', OF _ auth] by auto
  next
    case (Some k)
    show ?thesis
    proof (cases k)
      case (AuditEventPrivacy xs)
      then show ?thesis using Some rest resolveAuditAttribution_subjects [of auth inp s p s', OF _ auth] by auto
    next
      case (SubjectsPrivacy subjects)
      with Some rest obtain explicit where ex: "canonicalIdentityIds subjects = Inr explicit"
        and all: "canonicalIdentityIds (unique_values (explicit @ auth)) = Inr (pa_subjectIdentityIds p)" by auto
      have "set explicit \<subseteq> set (pa_subjectIdentityIds p)"
        using canonical_union [OF ex, of "[]" auth] all by simp
      moreover have "set auth \<subseteq> set (pa_subjectIdentityIds p)"
        using canonical_union [OF auth, of explicit "[]"] all by simp
      ultimately show ?thesis using Some SubjectsPrivacy canonicalIdentityIds_set [OF ex] by simp
    next
      case TechnicalNoSubject
      then show ?thesis using Some rest by simp
    qed
  qed
  then show "(\<lambda>v. toLowerCase (trim v)) ` set (resolve s (oi_aggregateType inp) (oi_aggregateId inp))
           \<subseteq> set (pa_subjectIdentityIds p)"
    and "(case oi_privacy inp of
            Some (SubjectsPrivacy subjects) \<Rightarrow>
              (\<lambda>v. toLowerCase (trim v)) ` set subjects \<subseteq> set (pa_subjectIdentityIds p)
          | Some TechnicalNoSubject \<Rightarrow> True
          | _ \<Rightarrow> audited_by inp (audit_events s) (pa_subjectIdentityIds p))"
    using auth by (simp_all add: canonicalIdentityIds_set)
qed

text \<open>Privacy attribution of the outbox. When an event is appended, the new row names every
  subject the aggregate's own records give, every subject named explicitly, and the actor of the
  audit event it refers to; every subject it names is a known identity; and an event whose audit
  row was written by a user always names somebody.\<close>

theorem appendOutboxEvent_attribution:
  "case appendOutboxEvent rt resolve inp s of
     Inl e \<Rightarrow> True
   | Inr (i, s') \<Rightarrow> \<exists>row. outbox_events s' = outbox_events s @ [row] \<and> ob_id row = i
       \<and> set (ob_privacy_subject_identity_ids row) \<subseteq> idn_id ` set (identities s)
       \<and> (\<lambda>v. toLowerCase (trim v)) ` set (resolve (s\<lparr>uuids_drawn := Suc (uuids_drawn s)\<rparr>)
             (oi_aggregateType inp) (oi_aggregateId inp)) \<subseteq> set (ob_privacy_subject_identity_ids row)
       \<and> (case oi_privacy inp of
            Some (SubjectsPrivacy subjects) \<Rightarrow>
              (\<lambda>v. toLowerCase (trim v)) ` set subjects \<subseteq> set (ob_privacy_subject_identity_ids row)
          | Some TechnicalNoSubject \<Rightarrow> True
          | _ \<Rightarrow> audited_by inp (audit_events s) (ob_privacy_subject_identity_ids row))"
proof (cases "appendOutboxEvent rt resolve inp s")
  case (Inr q)
  obtain i s' where q: "q = (i, s')" by fastforce
  let ?s = "s\<lparr>uuids_drawn := Suc (uuids_drawn s)\<rparr>"
  obtain p where p: "resolvePrivacyAttribution resolve inp ?s = Inr (p, ?s)"
    and known: "\<forall>k \<in> set (pa_subjectIdentityIds p). \<exists>r \<in> set (identities s). idn_id r = k"
    and s': "s' = s\<lparr>uuids_drawn := Suc (uuids_drawn s), outbox_events := outbox_events s @ [outbox_row_of inp i p (clock s)]\<rparr>"
    using append_outbox_effect [OF Inr [unfolded q]] by metis
  have known: "set (pa_subjectIdentityIds p) \<subseteq> idn_id ` set (identities s)" using known by auto
  have new: "outbox_events s' = outbox_events s @ [outbox_row_of inp i p (clock s)]" by (simp add: s')
  show ?thesis
    unfolding Inr q sum.case prod.case
    by (rule exI [of _ "outbox_row_of inp i p (clock s)"], unfold outbox_row_of_sels)
       (use new known resolvePrivacyAttribution_subjects [OF p] in \<open>simp split: option.splits outbox_privacy.splits\<close>)
qed simp

section \<open>The outbox as a leased queue\<close>

definition outbox_lease_wf :: "outbox_row \<Rightarrow> bool" where
  "outbox_lease_wf r \<longleftrightarrow> (ob_claimed_by r = None \<longleftrightarrow> ob_claimed_at r = None)"

interpretation oq: row_queue outbox_lease_wf ob_id "\<lambda>r. ob_published_at r \<noteq> None" ob_claimed_by ob_claimed_at
  ob_attempts "\<lambda>c. outbox_due (fst c)" outbox_order "\<lambda>c. snd c" outbox_grab outbox_held "\<lambda>_. outbox_publish"
  "\<lambda>f now. outbox_postpone (fst f) (take 2000 (error_message (snd f)))" False
  by unfold_locales
     (auto simp: outbox_lease_wf_def outbox_due_def outbox_grab_def outbox_held_def outbox_publish_def
        outbox_postpone_def split: option.splits)

text \<open>The operations of the code, each run at the instant its step names.\<close>

fun outbox_step ::
    "(string list \<times> nat, unit, int \<times> error) queue_step \<Rightarrow> 'z outbox_db_scheme \<Rightarrow> 'z outbox_db_scheme" where
  "outbox_step (Claim c w now timeout) s =
     snd (claimOutboxEvents w (fst c) (snd c) timeout (s\<lparr>clock := now\<rparr>))"
| "outbox_step (Complete g w now i) s =
     snd (withPostgresTransaction no_deferred (markOutboxEventPublished i w) (s\<lparr>clock := now\<rparr>))"
| "outbox_step (Release f w now i) s = snd (markOutboxEventForRetry i w (fst f) (snd f) (s\<lparr>clock := now\<rparr>))"

definition outbox_run ::
    "(string list \<times> nat, unit, int \<times> error) queue_step list \<Rightarrow> 'z outbox_db_scheme \<Rightarrow> 'z outbox_db_scheme" where
  "outbox_run ss s = fold outbox_step ss s"

text \<open>How many attempts to publish an event are accepted in a run.\<close>

fun outbox_publications ::
    "uuid \<Rightarrow> (string list \<times> nat, unit, int \<times> error) queue_step list \<Rightarrow> 'z outbox_db_scheme \<Rightarrow> nat" where
  "outbox_publications i [] s = 0"
| "outbox_publications i (st # ss) s =
     (case st of
        Complete g w now j \<Rightarrow>
          (if j = i \<and> \<not> isl (markOutboxEventPublished j w (s\<lparr>clock := now\<rparr>)) then 1 else 0)
      | _ \<Rightarrow> 0) + outbox_publications i ss (outbox_step st s)"

definition outbox_table_ok :: "outbox_row list \<Rightarrow> bool" where
  "outbox_table_ok t \<longleftrightarrow> distinct (map ob_id t) \<and> (\<forall>r \<in> set t. outbox_lease_wf r)"

lemma outbox_table_ok_iff: "outbox_table_ok t = oq.rows_ok t"
  by (simp add: outbox_table_ok_def oq.rows_ok_def)

lemma claimOutboxEvents_table:
  assumes "claimOutboxEvents w types limit timeout s = (r, s')"
  shows "\<exists>out. r = Inr out \<and> s' = s\<lparr>outbox_events := snd (oq.claim_table (types, limit) w (clock s) timeout (outbox_events s))\<rparr>
     \<and> map ob_id out = fst (oq.claim_table (types, limit) w (clock s) timeout (outbox_events s))"
proof (cases "types = []")
  case True
  then have "filter (outbox_due types (clock s) timeout) t = []" for t
    by (simp add: outbox_due_def filter_empty_conv)
  with assms True show ?thesis
    by (simp add: claimOutboxEvents_def oq.claim_table_def claim_rows_def update_where_none)
next
  case False
  with assms show ?thesis
    by (auto simp: claimOutboxEvents_def oq.claim_table_def withPostgresTransaction_def no_deferred_def
        split: prod.splits)
qed

lemma markOutboxEventPublished_table:
  "markOutboxEventPublished i w s =
     (case oq.complete_table () w (clock s) i (outbox_events s) of
        None \<Rightarrow> Inl (GenericError (no_longer_claimed ''Outbox event'' i))
      | Some t \<Rightarrow> Inr ((), s\<lparr>outbox_events := t\<rparr>))"
  by (simp add: markOutboxEventPublished_def oq.complete_table_def tx_simps)

lemma markOutboxEventForRetry_table:
  "markOutboxEventForRetry i w retryAt err s =
     (Inr (), s\<lparr>outbox_events := the (oq.release_table (retryAt, err) w (clock s) i (outbox_events s))\<rparr>)"
  by (simp add: markOutboxEventForRetry_def oq.release_table_def withPostgresTransaction_def no_deferred_def modify_def)

lemma outbox_step_table: "outbox_events (outbox_step st s) = oq.run_step st (outbox_events s)"
proof (cases st)
  case (Claim c w now timeout)
  obtain r s' where "claimOutboxEvents w (fst c) (snd c) timeout (s\<lparr>clock := now\<rparr>) = (r, s')" by fastforce
  with claimOutboxEvents_table [OF this] Claim show ?thesis by auto
next
  case (Complete g w now i)
  then show ?thesis
    by (simp add: markOutboxEventPublished_table withPostgresTransaction_def no_deferred_def split: option.splits)
next
  case (Release f w now i)
  then show ?thesis by (simp add: markOutboxEventForRetry_table oq.release_table_def)
qed

lemma outbox_run_table: "outbox_events (outbox_run ss s) = oq.run_steps ss (outbox_events s)"
  by (induction ss arbitrary: s) (simp_all add: outbox_run_def oq.run_steps_def outbox_step_table)

lemma outbox_publications_table: "outbox_publications i ss s = oq.completions i ss (outbox_events s)"
proof (induction ss arbitrary: s)
  case (Cons st ss)
  have "outbox_publications i ss (outbox_step st s) = oq.completions i ss (oq.run_step st (outbox_events s))"
    by (simp only: Cons outbox_step_table)
  then show ?case
    by (cases st)
       (auto simp: markOutboxEventPublished_table simp del: outbox_step.simps oq.run_step.simps split: option.split)
qed simp

text \<open>Lease exclusion in the outbox. A worker that has claimed an event can publish it as
  long as every other claim since then was made within its own timeout of the lease, whatever
  claims, publications and retries other workers attempted in between, and in whatever order.\<close>

theorem outbox_claim_exclusive:
  assumes "outbox_table_ok (outbox_events s)"
    and "claimOutboxEvents w types limit timeout s = (Inr out, s')" and "e \<in> set out"
    and "\<forall>st \<in> set ss. step_worker st \<noteq> w \<and> respects_lease (clock s) st"
  shows "\<exists>s''. markOutboxEventPublished (ob_id e) w (outbox_run ss s') = Inr ((), s'')"
proof -
  let ?c = "oq.claim_table (types, limit) w (clock s) timeout (outbox_events s)"
  have s': "s' = s\<lparr>outbox_events := snd ?c\<rparr>" and ids: "map ob_id out = fst ?c"
    using claimOutboxEvents_table [OF assms(2)] by auto
  have "oq.complete_table () w (clock (outbox_run ss s')) (ob_id e) (oq.run_steps ss (snd ?c)) \<noteq> None"
  proof (rule oq.claim_then_complete)
    show "oq.rows_ok (outbox_events s)" using assms(1) by (simp add: outbox_table_ok_iff)
    show "?c = (map ob_id out, snd ?c)" by (simp add: ids)
  qed (use assms(3,4) in auto)
  then show ?thesis by (auto simp: markOutboxEventPublished_table outbox_run_table s')
qed

text \<open>A concrete outbox with one pending event, for evaluating the operations.\<close>

definition sample_outbox_row :: outbox_row where
  "sample_outbox_row = \<lparr>ob_id = ''e1'', ob_aggregate_type = ''payment_intent'', ob_aggregate_id = ''p1'',
     ob_event_type = ''payment.intent.created'', ob_payload = [], ob_occurred_at = 0, ob_published_at = None,
     ob_claimed_at = None, ob_claimed_by = None, ob_attempts = 0, ob_next_attempt_at = 0, ob_last_error = None,
     ob_privacy_classification = ''technical_no_subject'', ob_privacy_subject_identity_ids = [],
     ob_privacy_attribution_basis = ''explicit_technical''\<rparr>"

definition sample_outbox_db :: outbox_db where
  "sample_outbox_db = \<lparr>clock = 1000, uuids_drawn = 0, identities = [], audit_sequence = 0, audit_events = [],
     audit_chain_heads = [], outbox_events = [sample_outbox_row]\<rparr>"

lemma sample_outbox_ok: "outbox_table_ok (outbox_events sample_outbox_db)"
  by (simp add: outbox_table_ok_def sample_outbox_db_def outbox_lease_wf_def sample_outbox_row_def)

theorem outbox_claim_exclusive_witness:
  "\<exists>s''. markOutboxEventPublished ''e1'' ''w''
     (outbox_run [Claim ([''payment.intent.created''], 10) ''v'' 2000 300, Complete () ''v'' 2000 ''e1'']
       (snd (claimOutboxEvents ''w'' [''payment.intent.created''] 10 300 sample_outbox_db))) = Inr ((), s'')"
proof -
  have claim: "claimOutboxEvents ''w'' [''payment.intent.created''] 10 300 sample_outbox_db
      = (Inr [outbox_grab ''w'' 1000 sample_outbox_row],
         sample_outbox_db\<lparr>outbox_events := [outbox_grab ''w'' 1000 sample_outbox_row]\<rparr>)"
    by code_simp
  have i: "ob_id (outbox_grab ''w'' 1000 sample_outbox_row) = ''e1''"
    by (simp add: outbox_grab_def sample_outbox_row_def)
  show ?thesis
    using outbox_claim_exclusive [OF sample_outbox_ok claim, of "outbox_grab ''w'' 1000 sample_outbox_row"
        "[Claim ([''payment.intent.created''], 10) ''v'' 2000 300, Complete () ''v'' 2000 ''e1'']"] i claim
    by (simp add: sample_outbox_db_def)
qed

text \<open>An outbox event is published at most once, whatever the interleaving of claims,
  publications and retries of any number of workers.\<close>

theorem outbox_published_once:
  assumes "outbox_table_ok (outbox_events s)"
  shows "outbox_publications i ss s \<le> 1"
  using oq.completed_at_most_once [of "outbox_events s"] assms
  by (simp add: outbox_publications_table outbox_table_ok_iff)

theorem outbox_published_once_witness:
  "outbox_publications ''e1'' [Claim ([''payment.intent.created''], 10) ''w'' 1000 300,
     Complete () ''w'' 1000 ''e1'', Complete () ''w'' 1000 ''e1''] sample_outbox_db \<le> 1"
  by (rule outbox_published_once [OF sample_outbox_ok])

section \<open>The dispatcher settles what it claims\<close>

text \<open>What the dispatcher needs of a projection: it leaves the outbox table and the clock alone.\<close>

definition keeps_outbox :: "(outbox_row \<Rightarrow> ('z outbox_db_scheme, unit) tx) \<Rightarrow> bool" where
  "keeps_outbox project \<longleftrightarrow>
     (\<forall>e s u s'. project e s = Inr (u, s') \<longrightarrow> outbox_events s' = outbox_events s \<and> clock s' = clock s)"

text \<open>A claimed row that has been dealt with: published now, or handed back with its back-off.\<close>

definition outbox_settled :: "env_config \<Rightarrow> int \<Rightarrow> outbox_row \<Rightarrow> outbox_row \<Rightarrow> bool" where
  "outbox_settled env now r r' \<longleftrightarrow>
     r' = outbox_publish now r
     \<or> (\<exists>msg. r' = outbox_postpone (now + delaySeconds (OUTBOX_RETRY_BASE_SECONDS env) (ob_attempts r) * 1000) msg r)"

lemma dispatch_outbox_settle_all:
  "dispatch_outbox_events deferred env project w es s =
     settle_all (\<lambda>e. dispatch_outbox_events deferred env project w [e]) es s"
  by (induction es arbitrary: s) (auto split: prod.splits sum.splits)

lemma outbox_handler_settles:
  assumes "keeps_outbox project"
  shows "oq.settles (\<lambda>s. clock s = now) outbox_events w (outbox_settled env now)
     (\<lambda>e. dispatch_outbox_events deferred env project w [e])"
  unfolding oq.settles_def
proof (intro conjI allI impI)
  fix e :: outbox_row and s :: "'a outbox_db_scheme"
  assume now: "clock s = now"
  obtain res s1 where run: "withPostgresTransaction deferred (andThen (project e) (markOutboxEventPublished (ob_id e) w)) s = (res, s1)"
    by fastforce
  show "\<exists>h s'. dispatch_outbox_events deferred env project w [e] s = (Inr (), s') \<and> clock s' = now
      \<and> outbox_settled env now e (h e) \<and> outbox_events s' = update_where (outbox_held (ob_id e) w) h (outbox_events s)"
  proof (cases res)
    case (Inr u)
    with run obtain u' s0 where p: "project e s = Inr (u', s0)"
      and m: "markOutboxEventPublished (ob_id e) w s0 = Inr ((), s1)"
      by (auto simp: withPostgresTransaction_commit elim!: andThen_Inr)
    have "outbox_events s0 = outbox_events s" "clock s0 = now"
      using assms p now by (auto simp: keeps_outbox_def)
    then have "s1 = s0\<lparr>outbox_events := update_where (outbox_held (ob_id e) w) (outbox_publish now) (outbox_events s)\<rparr>"
      using m by (simp add: markOutboxEventPublished_def tx_simps split: if_splits)
    then show ?thesis using run Inr \<open>clock s0 = now\<close>
      by (intro exI [of _ "outbox_publish now"] exI [of _ s1]) (simp add: outbox_settled_def)
  next
    case (Inl err)
    with run have s1: "s1 = s" by (auto dest: withPostgresTransaction_rollback)
    let ?g = "outbox_postpone (now + delaySeconds (OUTBOX_RETRY_BASE_SECONDS env) (ob_attempts e) * 1000)
        (take 2000 (error_message err))"
    show ?thesis
      by (intro exI [of _ ?g] exI [of _ "s\<lparr>outbox_events := update_where (outbox_held (ob_id e) w) ?g (outbox_events s)\<rparr>"])
         (auto simp: run Inl s1 now markOutboxEventForRetry_table oq.release_table_def outbox_settled_def)
  qed
qed (auto simp: outbox_settled_def outbox_publish_def outbox_postpone_def outbox_lease_wf_def)

text \<open>The dispatcher settles what it claims. A round that starts with no event held by its
  worker ends with no event held by its worker: every row is untouched, or was due and is now
  published, or was due and is postponed by the back-off of its attempt count. The round itself
  never fails, however often the projection or the commit does.\<close>

theorem dispatch_outbox_settles:
  assumes project: "keeps_outbox project" and ok: "outbox_table_ok (outbox_events s)"
    and free: "\<forall>r \<in> set (outbox_events s). ob_claimed_by r \<noteq> Some w"
  shows "\<exists>n s'. dispatchPendingOutboxEvents deferred env project w types s = (Inr n, s')
     \<and> n \<le> OUTBOX_DISPATCH_BATCH_SIZE env
     \<and> (\<forall>r \<in> set (outbox_events s'). ob_claimed_by r \<noteq> Some w)
     \<and> list_all2 (\<lambda>r r'. r' = r \<or> (outbox_due types (clock s) (OUTBOX_CLAIM_TIMEOUT_SECONDS env) r
           \<and> outbox_settled env (clock s) (outbox_grab w (clock s) r) r')) (outbox_events s) (outbox_events s')"
proof (cases "types = []")
  case True
  then show ?thesis using free
    by (simp add: dispatchPendingOutboxEvents_def claimOutboxEvents_def list_all2_same)
next
  case False
  obtain out t where c: "claim_rows ob_id (outbox_due types (clock s) (OUTBOX_CLAIM_TIMEOUT_SECONDS env)) outbox_order
      (OUTBOX_DISPATCH_BATCH_SIZE env) (outbox_grab w (clock s)) (outbox_events s) = (out, t)"
    by fastforce
  let ?s = "s\<lparr>outbox_events := t\<rparr>"
  have claim: "claimOutboxEvents w types (OUTBOX_DISPATCH_BATCH_SIZE env) (OUTBOX_CLAIM_TIMEOUT_SECONDS env) s = (Inr out, ?s)"
    using False c by (simp add: claimOutboxEvents_def withPostgresTransaction_def no_deferred_def)
  let ?c = "(types, OUTBOX_DISPATCH_BATCH_SIZE env)"
  have rows: "oq.rows_ok (outbox_events s)" using ok by (simp add: outbox_table_ok_iff)
  have c': "claim_rows ob_id (outbox_due (fst ?c) (clock s) (OUTBOX_CLAIM_TIMEOUT_SECONDS env)) outbox_order
      (OUTBOX_DISPATCH_BATCH_SIZE env) (outbox_grab w (clock s)) (outbox_events s) = (out, outbox_events ?s)"
    using c by simp
  have clk: "clock ?s = clock s" by simp
  note round = oq.round_settles [OF rows free c' outbox_handler_settles [OF project, where env = env and deferred = deferred] clk]
  then obtain s' where "settle_all (\<lambda>e. dispatch_outbox_events deferred env project w [e]) out ?s = (Inr (), s')"
    and "length out \<le> OUTBOX_DISPATCH_BATCH_SIZE env" and "\<forall>r \<in> set (outbox_events s'). ob_claimed_by r \<noteq> Some w"
    and "list_all2 (\<lambda>r r'. r' = r \<or> (outbox_due types (clock s) (OUTBOX_CLAIM_TIMEOUT_SECONDS env) r
           \<and> outbox_settled env (clock s) (outbox_grab w (clock s) r) r')) (outbox_events s) (outbox_events s')"
    unfolding fst_conv by blast
  then show ?thesis
    by (intro exI [of _ "length out"] exI [of _ s'])
       (simp add: dispatchPendingOutboxEvents_def claim dispatch_outbox_settle_all [of deferred env project w out])
qed

theorem dispatch_outbox_settles_witness:
  "\<exists>n s'. dispatchPendingOutboxEvents no_deferred default_env (\<lambda>e. throw (GenericError ''down'')) ''w''
        [''payment.intent.created''] sample_outbox_db = (Inr n, s')
     \<and> n \<le> OUTBOX_DISPATCH_BATCH_SIZE default_env
     \<and> (\<forall>r \<in> set (outbox_events s'). ob_claimed_by r \<noteq> Some ''w'')
     \<and> list_all2 (\<lambda>r r'. r' = r \<or> (outbox_due [''payment.intent.created''] (clock sample_outbox_db)
           (OUTBOX_CLAIM_TIMEOUT_SECONDS default_env) r
           \<and> outbox_settled default_env (clock sample_outbox_db) (outbox_grab ''w'' (clock sample_outbox_db) r) r'))
         (outbox_events sample_outbox_db) (outbox_events s')"
  by (rule dispatch_outbox_settles [OF _ sample_outbox_ok])
     (simp_all add: keeps_outbox_def throw_def sample_outbox_db_def sample_outbox_row_def)

end
