(* ===== verification/Journal.thy ===== *)
theory Journal
  imports Outbox
begin

text \<open>
  The accounting ledger: \<^verbatim>\<open>src/platform/postgres-journal.ts\<close> over the tables, constraints and
  deferred balance triggers of the migrations 009 and 011. Amounts are integers in minor
  units; a posting keeps the range of a PostgreSQL \<open>BIGINT\<close>, and the sums the trigger stores
  in \<open>BIGINT\<close> variables fail outside it. \<open>organizations\<close> is the set of organization ids that
  foreign keys refer to.
\<close>

section \<open>Tables\<close>

datatype journalDirection = Debit | Credit

datatype ledgerAccountType = Asset | Liability | Equity | Revenue | Expense

record ledger_account =
  la_id :: uuid
  la_organization_id :: "uuid option"
  la_code :: string
  la_name :: string
  la_account_type :: ledgerAccountType
  la_normal_balance :: journalDirection
  la_active :: bool

record journal_entry =
  je_id :: uuid
  je_scope_key :: string
  je_organization_id :: "uuid option"
  je_idempotency_key :: string
  je_request_hash :: string
  je_status :: string
  je_currency :: string
  je_effective_at :: int
  je_narrative :: string
  je_external_ref :: "string option"
  je_reversal_of :: "uuid option"
  je_metadata :: json_object

record journal_posting =
  jp_journal_id :: uuid
  jp_line_number :: int
  jp_account_id :: uuid
  jp_direction :: journalDirection
  jp_amount_minor :: int
  jp_currency :: string
  jp_metadata :: json_object

record journal_db = outbox_db +
  organizations :: "uuid list"
  ledger_accounts :: "ledger_account list"
  journal_entries :: "journal_entry list"
  journal_postings :: "journal_posting list"

section \<open>Inputs\<close>

record ledger_account_input =
  lai_organizationId :: "uuid option"
  lai_code :: string
  lai_name :: string
  lai_accountType :: ledgerAccountType
  lai_normalBalance :: journalDirection

record journal_posting_input =
  pi_accountCode :: string
  pi_direction :: journalDirection
  pi_amountMinor :: js_amount
  pi_metadata :: "json_object option"

record post_journal_input =
  ji_scopeKey :: string
  ji_organizationId :: "uuid option"
  ji_idempotencyKey :: string
  ji_currency :: string
  ji_narrative :: string
  ji_externalRef :: "string option"
  ji_effectiveAt :: "int option"
  ji_reversalOf :: "uuid option"
  ji_metadata :: "json_object option"
  ji_postings :: "journal_posting_input list"

record posted_journal =
  pj_journalId :: uuid
  pj_replayed :: bool

text \<open>A posting after normalisation.\<close>

record normal_posting =
  np_accountCode :: string
  np_direction :: journalDirection
  np_amountMinor :: int
  np_metadata :: json_object

section \<open>Validation\<close>

definition normalizeCurrency :: "string \<Rightarrow> error + string" where
  "normalizeCurrency v =
     (let currency = toUpperCase (trim v) in
      if length currency = 3 \<and> list_all is_upper currency then Inr currency
      else Inl (JournalValidationError ''Journal currency must be an ISO 4217 alpha-3 code''))"

definition account_code_head :: "char \<Rightarrow> bool" where
  "account_code_head c \<longleftrightarrow> is_upper c \<or> is_digit c"

definition account_code_char :: "char \<Rightarrow> bool" where
  "account_code_char c \<longleftrightarrow> account_code_head c \<or> c \<in> set ''._:-''"

definition normalizeAccountCode :: "string \<Rightarrow> error + string" where
  "normalizeAccountCode v =
     (let code = toUpperCase (trim v) in
      if 2 \<le> length code \<and> length code \<le> 64 \<and> account_code_head (hd code) \<and> list_all account_code_char (tl code)
      then Inr code
      else Inl (JournalValidationError ''Ledger account code must be 2-64 uppercase alphanumeric characters''))"

definition normalizeMinor :: "js_amount \<Rightarrow> error + int" where
  "normalizeMinor v =
     (if (case v of NumberAmount n \<Rightarrow> \<not> isSafeInteger n \<or> amount_value v \<le> 0 | BigIntAmount i \<Rightarrow> False)
      then Inl (JournalValidationError ''Posting amountMinor must be a positive safe integer'')
      else let minor = amount_value v in
        if minor \<le> 0 \<or> minor > PG_BIGINT_MAX
        then Inl (JournalValidationError ''Posting amountMinor is outside the PostgreSQL BIGINT range'')
        else Inr minor)"

text \<open>The map over the postings; the direction test of the source cannot fail on the typed
  input.\<close>

fun normalize_postings :: "journal_posting_input list \<Rightarrow> error + normal_posting list" where
  "normalize_postings [] = Inr []"
| "normalize_postings (p # ps) =
     (case normalizeMinor (pi_amountMinor p) of
        Inl e \<Rightarrow> Inl e
      | Inr amountMinor \<Rightarrow>
          (case normalizeAccountCode (pi_accountCode p) of
             Inl e \<Rightarrow> Inl e
           | Inr code \<Rightarrow>
               (case normalize_postings ps of
                  Inl e \<Rightarrow> Inl e
                | Inr rest \<Rightarrow> Inr (\<lparr>np_accountCode = code, np_direction = pi_direction p,
                    np_amountMinor = amountMinor,
                    np_metadata = (case pi_metadata p of None \<Rightarrow> [] | Some m \<Rightarrow> m)\<rparr> # rest))))"

definition side_total :: "journalDirection \<Rightarrow> normal_posting list \<Rightarrow> int" where
  "side_total d ps = sum_rows (\<lambda>p. np_direction p = d) np_amountMinor ps"

definition validateJournal :: "post_journal_input \<Rightarrow> error + string \<times> normal_posting list" where
  "validateJournal inp =
     (if trim (ji_scopeKey inp) = [] then Inl (JournalValidationError ''Journal scopeKey is required'')
      else if trim (ji_idempotencyKey inp) = [] then Inl (JournalValidationError ''Journal idempotencyKey is required'')
      else if trim (ji_narrative inp) = [] then Inl (JournalValidationError ''Journal narrative is required'')
      else if length (ji_postings inp) < 2
      then Inl (JournalValidationError ''A journal requires at least two postings'')
      else case normalizeCurrency (ji_currency inp) of
        Inl e \<Rightarrow> Inl e
      | Inr currency \<Rightarrow>
          (case normalize_postings (ji_postings inp) of
             Inl e \<Rightarrow> Inl e
           | Inr postings \<Rightarrow>
               if side_total Debit postings \<noteq> side_total Credit postings
               then Inl (JournalValidationError ''Journal debits must equal credits'')
               else Inr (currency, postings)))"

section \<open>Accounts\<close>

definition insert_ledger_account :: "ledger_account \<Rightarrow> ('z journal_db_scheme, unit) tx" where
  "insert_ledger_account row =
     bnd (query (\<lambda>s. exists_row (\<lambda>a. la_id a = la_id row) (ledger_accounts s))) (\<lambda>taken.
     andThen (require (\<not> taken) (UniqueViolation ''ledger_accounts_pkey''))
     (bnd (query (\<lambda>s. case la_organization_id row of None \<Rightarrow> True | Some i \<Rightarrow> i \<in> set (organizations s))) (\<lambda>known.
      andThen (require known (ForeignKeyViolation ''ledger_accounts_organization_id_fkey''))
      (modify (\<lambda>s. s\<lparr>ledger_accounts := ledger_accounts s @ [row]\<rparr>)))))"

text \<open>On a conflict the row is updated to itself and its id is returned.\<close>

definition ensureLedgerAccount :: "runtime \<Rightarrow> ledger_account_input \<Rightarrow> ('z journal_db_scheme, uuid) tx" where
  "ensureLedgerAccount rt inp =
     bnd (lift_sum (normalizeAccountCode (lai_code inp))) (\<lambda>code.
     andThen (require (trim (lai_name inp) \<noteq> []) (JournalValidationError ''Ledger account name is required''))
     (bnd (randomUUID rt) (\<lambda>i.
      bnd (query (\<lambda>s. first_row (\<lambda>a. la_organization_id a = lai_organizationId inp \<and> la_code a = code)
                    (ledger_accounts s))) (\<lambda>existing.
      case existing of
        Some a \<Rightarrow> ret (la_id a)
      | None \<Rightarrow>
          andThen (insert_ledger_account
            \<lparr>la_id = i, la_organization_id = lai_organizationId inp, la_code = code, la_name = trim (lai_name inp),
             la_account_type = lai_accountType inp, la_normal_balance = lai_normalBalance inp, la_active = True\<rparr>)
          (ret i)))))"

section \<open>Posting\<close>

definition direction_text :: "journalDirection \<Rightarrow> string" where
  "direction_text d = (case d of Debit \<Rightarrow> ''debit'' | Credit \<Rightarrow> ''credit'')"

definition journal_request :: "post_journal_input \<Rightarrow> string \<Rightarrow> normal_posting list \<Rightarrow> json" where
  "journal_request inp currency postings =
     JObj [(''scopeKey'', JStr (ji_scopeKey inp)), (''organizationId'', json_opt (ji_organizationId inp)),
       (''idempotencyKey'', JStr (ji_idempotencyKey inp)), (''currency'', JStr currency),
       (''narrative'', JStr (ji_narrative inp)), (''externalRef'', json_opt (ji_externalRef inp)),
       (''effectiveAt'', json_opt (map_option toISOString (ji_effectiveAt inp))),
       (''reversalOf'', json_opt (ji_reversalOf inp)),
       (''metadata'', JObj (case ji_metadata inp of None \<Rightarrow> [] | Some m \<Rightarrow> m)),
       (''postings'', JArr (map (\<lambda>p. JObj [(''accountCode'', JStr (np_accountCode p)),
          (''direction'', JStr (direction_text (np_direction p))),
          (''amountMinor'', JStr (show_int (np_amountMinor p))), (''metadata'', JObj (np_metadata p))]) postings))]"

text \<open>\<open>INSERT ... ON CONFLICT (scope_key, idempotency_key) DO NOTHING\<close>: whether the row was
  inserted.\<close>

definition insert_journal_entry :: "journal_entry \<Rightarrow> ('z journal_db_scheme, bool) tx" where
  "insert_journal_entry row = (\<lambda>s.
     if exists_row (\<lambda>e. je_scope_key e = je_scope_key row \<and> je_idempotency_key e = je_idempotency_key row)
          (journal_entries s)
     then Inr (False, s)
     else if exists_row (\<lambda>e. je_id e = je_id row) (journal_entries s)
     then Inl (UniqueViolation ''journal_entries_pkey'')
     else if je_reversal_of row \<noteq> None \<and> exists_row (\<lambda>e. je_reversal_of e = je_reversal_of row) (journal_entries s)
     then Inl (UniqueViolation ''journal_entries_reversal_of_key'')
     else if (case je_organization_id row of None \<Rightarrow> False | Some i \<Rightarrow> i \<notin> set (organizations s))
     then Inl (ForeignKeyViolation ''journal_entries_organization_id_fkey'')
     else if (case je_reversal_of row of None \<Rightarrow> False
              | Some i \<Rightarrow> i \<noteq> je_id row \<and> \<not> exists_row (\<lambda>e. je_id e = i) (journal_entries s))
     then Inl (ForeignKeyViolation ''journal_entries_reversal_of_fkey'')
     else Inr (True, s\<lparr>journal_entries := journal_entries s @ [row]\<rparr>))"

definition insert_journal_posting :: "journal_posting \<Rightarrow> ('z journal_db_scheme, unit) tx" where
  "insert_journal_posting row = (\<lambda>s.
     if \<not> (0 < jp_amount_minor row) then Inl (CheckViolation ''journal_postings_amount_minor_check'')
     else if exists_row (\<lambda>p. jp_journal_id p = jp_journal_id row \<and> jp_line_number p = jp_line_number row)
               (journal_postings s)
     then Inl (UniqueViolation ''journal_postings_pkey'')
     else if \<not> exists_row (\<lambda>e. je_id e = jp_journal_id row) (journal_entries s)
     then Inl (ForeignKeyViolation ''journal_postings_journal_id_fkey'')
     else if \<not> exists_row (\<lambda>a. la_id a = jp_account_id row) (ledger_accounts s)
     then Inl (ForeignKeyViolation ''journal_postings_account_id_fkey'')
     else Inr ((), s\<lparr>journal_postings := journal_postings s @ [row]\<rparr>))"

text \<open>\<open>new Map(rows)\<close>: the last row wins for a repeated key.\<close>

definition accounts_by_code :: "'z journal_db_scheme \<Rightarrow> uuid option \<Rightarrow> string \<Rightarrow> uuid option" where
  "accounts_by_code s org code =
     map_option la_id (first_row (\<lambda>a. la_code a = code \<and> la_organization_id a = org \<and> la_active a)
       (rev (ledger_accounts s)))"

fun insert_postings ::
    "uuid \<Rightarrow> string \<Rightarrow> (string \<Rightarrow> uuid option) \<Rightarrow> int \<Rightarrow> normal_posting list \<Rightarrow> ('z journal_db_scheme, unit) tx" where
  "insert_postings journalId currency accountByCode n [] = ret ()"
| "insert_postings journalId currency accountByCode n (p # ps) =
     andThen (case accountByCode (np_accountCode p) of
         None \<Rightarrow> throw (CheckViolation ''journal_postings.account_id'')
       | Some account \<Rightarrow> insert_journal_posting \<lparr>jp_journal_id = journalId, jp_line_number = n,
           jp_account_id = account, jp_direction = np_direction p, jp_amount_minor = np_amountMinor p,
           jp_currency = currency, jp_metadata = np_metadata p\<rparr>)
     (insert_postings journalId currency accountByCode (n + 1) ps)"

definition entry_of :: "post_journal_input \<Rightarrow> uuid \<Rightarrow> string \<Rightarrow> string \<Rightarrow> int \<Rightarrow> journal_entry" where
  "entry_of inp journalId requestHash currency now =
     \<lparr>je_id = journalId, je_scope_key = ji_scopeKey inp, je_organization_id = ji_organizationId inp,
      je_idempotency_key = ji_idempotencyKey inp, je_request_hash = requestHash, je_status = ''posted'',
      je_currency = currency, je_effective_at = (case ji_effectiveAt inp of None \<Rightarrow> now | Some t \<Rightarrow> t),
      je_narrative = trim (ji_narrative inp), je_external_ref = ji_externalRef inp,
      je_reversal_of = ji_reversalOf inp, je_metadata = (case ji_metadata inp of None \<Rightarrow> [] | Some m \<Rightarrow> m)\<rparr>"

definition replay_journal ::
    "post_journal_input \<Rightarrow> string \<Rightarrow> ('z journal_db_scheme, posted_journal) tx" where
  "replay_journal inp requestHash =
     bnd (query (\<lambda>s. first_row (\<lambda>e. je_scope_key e = ji_scopeKey inp
                          \<and> je_idempotency_key e = ji_idempotencyKey inp) (journal_entries s))) (\<lambda>existing.
     case existing of
       None \<Rightarrow> throw (GenericError ''Journal disappeared during idempotency resolution'')
     | Some row \<Rightarrow>
         andThen (require (je_request_hash row = requestHash)
           (JournalIdempotencyConflictError ''Journal idempotency key has already been used with a different payload''))
         (ret \<lparr>pj_journalId = je_id row, pj_replayed = True\<rparr>))"

definition post_lines ::
    "post_journal_input \<Rightarrow> uuid \<Rightarrow> string \<Rightarrow> normal_posting list \<Rightarrow> ('z journal_db_scheme, posted_journal) tx" where
  "post_lines inp journalId currency postings =
     bnd (query (\<lambda>s. accounts_by_code s (ji_organizationId inp))) (\<lambda>accountByCode.
     let unresolved = filter (\<lambda>c. accountByCode c = None) (unique_values (map np_accountCode postings)) in
     andThen (require (unresolved = [])
       (JournalValidationError (''Unknown or inactive ledger account: '' @ join_with '', '' unresolved)))
     (andThen (insert_postings journalId currency accountByCode 1 postings)
     (ret \<lparr>pj_journalId = journalId, pj_replayed = False\<rparr>)))"

definition postJournalInTransaction ::
    "runtime \<Rightarrow> post_journal_input \<Rightarrow> ('z journal_db_scheme, posted_journal) tx" where
  "postJournalInTransaction rt inp =
     bnd (lift_sum (validateJournal inp)) (\<lambda>validated.
     let currency = fst validated; postings = snd validated;
         requestHash = hashPayload rt (journal_request inp currency postings) in
     bnd (randomUUID rt) (\<lambda>journalId.
     bnd (query clock) (\<lambda>now.
     bnd (insert_journal_entry (entry_of inp journalId requestHash currency now)) (\<lambda>inserted.
     if \<not> inserted then replay_journal inp requestHash
     else post_lines inp journalId currency postings))))"

section \<open>The deferred balance check\<close>

definition postings_of :: "uuid \<Rightarrow> journal_posting list \<Rightarrow> journal_posting list" where
  "postings_of j ps = filter (\<lambda>p. jp_journal_id p = j) ps"

definition posting_total :: "journalDirection \<Rightarrow> journal_posting list \<Rightarrow> int" where
  "posting_total d ps = sum_rows (\<lambda>p. jp_direction p = d) jp_amount_minor ps"

definition account_organization :: "'z journal_db_scheme \<Rightarrow> uuid \<Rightarrow> uuid option option" where
  "account_organization s a = map_option la_organization_id (first_row (\<lambda>r. la_id r = a) (ledger_accounts s))"

definition assert_journal_is_balanced :: "'z journal_db_scheme \<Rightarrow> uuid \<Rightarrow> error option" where
  "assert_journal_is_balanced s j =
     (case first_row (\<lambda>e. je_id e = j) (journal_entries s) of
        None \<Rightarrow> None
      | Some e \<Rightarrow>
          if je_status e \<noteq> ''posted'' then None
          else let ps = filter (\<lambda>p. account_organization s (jp_account_id p) \<noteq> None)
                     (postings_of j (journal_postings s));
                   debits = posting_total Debit ps; credits = posting_total Credit ps in
            if debits > PG_BIGINT_MAX \<or> credits > PG_BIGINT_MAX
            then Some (GenericError ''bigint out of range'')
            else if length ps < 2
            then Some (CheckViolation (''journal '' @ j @ '' must have at least two postings''))
            else if debits \<noteq> credits
            then Some (CheckViolation (''journal '' @ j @ '' is unbalanced: debits='' @ show_int debits
                    @ '' credits='' @ show_int credits))
            else if list_ex (\<lambda>p. jp_currency p \<noteq> je_currency e) ps
            then Some (CheckViolation (''journal '' @ j @ '' contains posting currency different from journal currency''))
            else if list_ex (\<lambda>p. account_organization s (jp_account_id p) \<noteq> Some (je_organization_id e)) ps
            then Some (CheckViolation (''journal '' @ j @ '' contains an account owned by a different organization''))
            else None)"

text \<open>At \<open>COMMIT\<close> the constraint triggers run for every entry and every posting the transaction
  inserted; the tables are append-only, so these are the rows behind the old length.\<close>

fun first_error :: "('a \<Rightarrow> error option) \<Rightarrow> 'a list \<Rightarrow> error option" where
  "first_error f [] = None"
| "first_error f (x # xs) = (case f x of None \<Rightarrow> first_error f xs | Some e \<Rightarrow> Some e)"

definition deferred_constraints :: "'z journal_db_scheme \<Rightarrow> 'z journal_db_scheme \<Rightarrow> error option" where
  "deferred_constraints s s' =
     first_error (assert_journal_is_balanced s')
       (map je_id (drop (length (journal_entries s)) (journal_entries s'))
        @ map jp_journal_id (drop (length (journal_postings s)) (journal_postings s')))"

definition postJournal ::
    "runtime \<Rightarrow> post_journal_input \<Rightarrow> 'z journal_db_scheme \<Rightarrow> (error + posted_journal) \<times> 'z journal_db_scheme" where
  "postJournal rt inp = withPostgresTransaction deferred_constraints (postJournalInTransaction rt inp)"

section \<open>Reversal\<close>

definition opposite :: "journalDirection \<Rightarrow> journalDirection" where
  "opposite d = (case d of Debit \<Rightarrow> Credit | Credit \<Rightarrow> Debit)"

text \<open>The join with the accounts, ordered by line number.\<close>

definition reversal_postings :: "'z journal_db_scheme \<Rightarrow> uuid \<Rightarrow> journal_posting_input list" where
  "reversal_postings s j =
     concat (map (\<lambda>p. case first_row (\<lambda>a. la_id a = jp_account_id p) (ledger_accounts s) of
         None \<Rightarrow> []
       | Some a \<Rightarrow> [\<lparr>pi_accountCode = la_code a, pi_direction = opposite (jp_direction p),
           pi_amountMinor = BigIntAmount (jp_amount_minor p), pi_metadata = Some (jp_metadata p)\<rparr>])
       (sort_by (\<lambda>p q. jp_line_number p \<le> jp_line_number q) (postings_of j (journal_postings s))))"

text \<open>The fields of the input other than \<open>currency\<close>, \<open>postings\<close> and \<open>reversalOf\<close>, which are
  ignored, are those of a posting.\<close>

definition reverseJournalInTransaction ::
    "runtime \<Rightarrow> post_journal_input \<Rightarrow> uuid \<Rightarrow> ('z journal_db_scheme, posted_journal) tx" where
  "reverseJournalInTransaction rt inp originalJournalId =
     bnd (query (\<lambda>s. first_row (\<lambda>e. je_id e = originalJournalId) (journal_entries s))) (\<lambda>original.
     case original of
       None \<Rightarrow> throw (JournalValidationError ''Original journal was not found'')
     | Some e \<Rightarrow>
         bnd (query (\<lambda>s. reversal_postings s originalJournalId)) (\<lambda>postings.
         andThen (require (\<not> length postings < 2)
                    (JournalValidationError ''Original journal has no reversible postings''))
         (postJournalInTransaction rt
            (inp\<lparr>ji_currency := je_currency e, ji_reversalOf := Some originalJournalId,
                 ji_narrative := (if trim (ji_narrative inp) \<noteq> [] then trim (ji_narrative inp)
                                  else ''Reversal of '' @ originalJournalId),
                 ji_postings := postings\<rparr>))))"

definition reverseJournal ::
    "runtime \<Rightarrow> post_journal_input \<Rightarrow> uuid \<Rightarrow> 'z journal_db_scheme \<Rightarrow> (error + posted_journal) \<times> 'z journal_db_scheme" where
  "reverseJournal rt inp originalJournalId =
     withPostgresTransaction deferred_constraints (reverseJournalInTransaction rt inp originalJournalId)"

lemmas [tx_defs] = insert_ledger_account_def ensureLedgerAccount_def insert_journal_entry_def
  insert_journal_posting_def replay_journal_def post_lines_def postJournalInTransaction_def postJournal_def reverseJournalInTransaction_def
  reverseJournal_def

section \<open>Effects of posting\<close>

fun posting_rows ::
    "uuid \<Rightarrow> string \<Rightarrow> (string \<Rightarrow> uuid option) \<Rightarrow> int \<Rightarrow> normal_posting list \<Rightarrow> journal_posting list" where
  "posting_rows j currency acc n [] = []"
| "posting_rows j currency acc n (p # ps) =
     \<lparr>jp_journal_id = j, jp_line_number = n, jp_account_id = the (acc (np_accountCode p)),
      jp_direction = np_direction p, jp_amount_minor = np_amountMinor p, jp_currency = currency,
      jp_metadata = np_metadata p\<rparr> # posting_rows j currency acc (n + 1) ps"

lemma insert_journal_posting_Inr:
  "insert_journal_posting row s = Inr (u, s') \<longleftrightarrow>
     0 < jp_amount_minor row
     \<and> (\<forall>p \<in> set (journal_postings s). jp_journal_id p = jp_journal_id row \<longrightarrow> jp_line_number p \<noteq> jp_line_number row)
     \<and> (\<exists>e \<in> set (journal_entries s). je_id e = jp_journal_id row)
     \<and> (\<exists>a \<in> set (ledger_accounts s). la_id a = jp_account_id row)
     \<and> s' = s\<lparr>journal_postings := journal_postings s @ [row]\<rparr>"
  unfolding insert_journal_posting_def by auto

lemma insert_postings_effect:
  assumes "insert_postings j c acc n ps s = Inr (u, s')"
  shows "s' = s\<lparr>journal_postings := journal_postings s @ posting_rows j c acc n ps\<rparr>
    \<and> (\<forall>p \<in> set ps. acc (np_accountCode p) \<noteq> None)"
  using assms
proof (induction ps arbitrary: n s)
  case Nil
  then show ?case by (simp add: ret_def)
next
  case (Cons p ps)
  from Cons.prems obtain a s1 where a: "acc (np_accountCode p) = Some a"
    and s1: "s1 = s\<lparr>journal_postings := journal_postings s @ [\<lparr>jp_journal_id = j, jp_line_number = n, jp_account_id = a,
        jp_direction = np_direction p, jp_amount_minor = np_amountMinor p, jp_currency = c,
        jp_metadata = np_metadata p\<rparr>]\<rparr>"
    and rest: "insert_postings j c acc (n + 1) ps s1 = Inr (u, s')"
    by (auto simp: insert_journal_posting_Inr tx_Inr elim!: andThen_Inr split: option.splits)
  from Cons.IH [OF rest] a s1 show ?case by simp
qed

text \<open>A successful posting either replays a stored journal, or inserts one entry and its lines.\<close>

definition journal_replay :: "runtime \<Rightarrow> post_journal_input \<Rightarrow> 'z journal_db_scheme \<Rightarrow> posted_journal \<Rightarrow> bool" where
  "journal_replay rt inp s r \<longleftrightarrow> pj_replayed r \<and>
     (\<exists>currency ps e. validateJournal inp = Inr (currency, ps) \<and> e \<in> set (journal_entries s)
        \<and> je_scope_key e = ji_scopeKey inp \<and> je_idempotency_key e = ji_idempotencyKey inp
        \<and> je_request_hash e = hashPayload rt (journal_request inp currency ps) \<and> pj_journalId r = je_id e)"

lemma insert_journal_entry_Inr:
  "insert_journal_entry row s = Inr (b, s') \<longleftrightarrow>
     (if \<exists>e \<in> set (journal_entries s). je_scope_key e = je_scope_key row \<and> je_idempotency_key e = je_idempotency_key row
      then b = False \<and> s' = s
      else b = True \<and> s' = s\<lparr>journal_entries := journal_entries s @ [row]\<rparr>
        \<and> (\<forall>e \<in> set (journal_entries s). je_id e \<noteq> je_id row)
        \<and> (je_reversal_of row \<noteq> None \<longrightarrow> (\<forall>e \<in> set (journal_entries s). je_reversal_of e \<noteq> je_reversal_of row))
        \<and> (case je_organization_id row of None \<Rightarrow> True | Some i \<Rightarrow> i \<in> set (organizations s))
        \<and> (case je_reversal_of row of None \<Rightarrow> True
            | Some i \<Rightarrow> i = je_id row \<or> (\<exists>e \<in> set (journal_entries s). je_id e = i)))"
  unfolding insert_journal_entry_def by (auto split: option.splits)

lemma post_journal_effect:
  assumes "postJournalInTransaction rt inp s = Inr (r, s')"
  obtains (replay) "journal_replay rt inp s r" and "s' = s\<lparr>uuids_drawn := Suc (uuids_drawn s)\<rparr>"
  | (fresh) currency ps j e acc where
      "validateJournal inp = Inr (currency, ps)"
      and "j = rt_uuid rt (uuids_drawn s)"
      and "e = entry_of inp j (hashPayload rt (journal_request inp currency ps)) currency (clock s)"
      and "acc = accounts_by_code s (ji_organizationId inp)"
      and "\<forall>p \<in> set ps. acc (np_accountCode p) \<noteq> None"
      and "\<forall>x \<in> set (journal_entries s). je_id x \<noteq> j
             \<and> (je_scope_key x \<noteq> ji_scopeKey inp \<or> je_idempotency_key x \<noteq> ji_idempotencyKey inp)"
      and "ji_reversalOf inp \<noteq> None \<longrightarrow> (\<forall>x \<in> set (journal_entries s). je_reversal_of x \<noteq> ji_reversalOf inp)"
      and "r = \<lparr>pj_journalId = j, pj_replayed = False\<rparr>"
      and "s' = s\<lparr>uuids_drawn := Suc (uuids_drawn s), journal_entries := journal_entries s @ [e],
             journal_postings := journal_postings s @ posting_rows j currency acc 1 ps\<rparr>"
proof -
  let ?s = "s\<lparr>uuids_drawn := Suc (uuids_drawn s)\<rparr>" and ?j = "rt_uuid rt (uuids_drawn s)"
  obtain currency ps where v: "validateJournal inp = Inr (currency, ps)"
    using assms by (auto simp: postJournalInTransaction_def tx_Inr elim!: bnd_Inr)
  let ?h = "hashPayload rt (journal_request inp currency ps)"
  let ?e = "entry_of inp ?j ?h currency (clock s)" and ?acc = "accounts_by_code s (ji_organizationId inp)"
  from assms v obtain b s1 where ins: "insert_journal_entry ?e ?s = Inr (b, s1)"
    and rest: "\<not> b \<longrightarrow> replay_journal inp ?h s1 = Inr (r, s')"
      "b \<longrightarrow> post_lines inp ?j currency ps s1 = Inr (r, s')"
    by (auto simp: postJournalInTransaction_def Let_def tx_Inr randomUUID_Inr elim!: bnd_Inr split: if_splits)
  show thesis
  proof (cases b)
    case False
    with ins have s1: "s1 = ?s" by (auto simp: insert_journal_entry_Inr split: if_splits)
    from rest False obtain row where
      row: "first_row (\<lambda>e. je_scope_key e = ji_scopeKey inp \<and> je_idempotency_key e = ji_idempotencyKey inp)
          (journal_entries s) = Some row"
      and r: "je_request_hash row = ?h" "r = \<lparr>pj_journalId = je_id row, pj_replayed = True\<rparr>" "s' = s1"
      by (auto simp: replay_journal_def s1 tx_Inr elim!: tx_elims split: option.splits)
    show thesis
      using replay first_row_Some [OF row] r s1 v by (auto simp: journal_replay_def)
  next
    case True
    with ins have s1: "s1 = ?s\<lparr>journal_entries := journal_entries s @ [?e]\<rparr>"
      and new: "\<forall>x \<in> set (journal_entries s). je_id x \<noteq> ?j
             \<and> (je_scope_key x \<noteq> ji_scopeKey inp \<or> je_idempotency_key x \<noteq> ji_idempotencyKey inp)"
        "ji_reversalOf inp \<noteq> None \<longrightarrow> (\<forall>x \<in> set (journal_entries s). je_reversal_of x \<noteq> ji_reversalOf inp)"
      by (auto simp: insert_journal_entry_Inr entry_of_def split: if_splits)
    have acc: "accounts_by_code s1 (ji_organizationId inp) = ?acc"
      by (simp add: s1 accounts_by_code_def fun_eq_iff)
    from rest True obtain u where post: "insert_postings ?j currency ?acc 1 ps s1 = Inr (u, s')"
      and r: "r = \<lparr>pj_journalId = ?j, pj_replayed = False\<rparr>"
      by (auto simp: post_lines_def Let_def acc tx_Inr elim!: tx_elims)
    from insert_postings_effect [OF post] have s': "s' = s1\<lparr>journal_postings := journal_postings s @ posting_rows ?j currency ?acc 1 ps\<rparr>"
      and known: "\<forall>p \<in> set ps. ?acc (np_accountCode p) \<noteq> None" by (auto simp: s1)
    show thesis
      by (rule fresh [OF v refl refl refl known new r]) (simp add: s' s1)
  qed
qed

section \<open>Validated postings\<close>

lemma normalizeMinor_range: "normalizeMinor v = Inr m \<Longrightarrow> 0 < m \<and> m \<le> PG_BIGINT_MAX"
  by (auto simp: normalizeMinor_def Let_def split: if_splits js_amount.splits)

lemma normalize_postings_ok:
  "normalize_postings xs = Inr ps \<Longrightarrow>
     length ps = length xs \<and> (\<forall>p \<in> set ps. 0 < np_amountMinor p \<and> np_amountMinor p \<le> PG_BIGINT_MAX)"
  by (induction xs arbitrary: ps) (auto dest!: normalizeMinor_range split: sum.splits)

lemma validateJournal_ok:
  assumes "validateJournal inp = Inr (currency, ps)"
  shows "2 \<le> length ps" and "side_total Debit ps = side_total Credit ps"
    and "\<forall>p \<in> set ps. 0 < np_amountMinor p \<and> np_amountMinor p \<le> PG_BIGINT_MAX"
  using assms by (auto simp: validateJournal_def dest!: normalize_postings_ok split: if_splits sum.splits)

lemma length_posting_rows [simp]: "length (posting_rows j c acc n ps) = length ps"
  by (induction ps arbitrary: n) auto

lemma posting_rows_journal: "p \<in> set (posting_rows j c acc n ps) \<Longrightarrow> jp_journal_id p = j \<and> jp_currency p = c"
  by (induction ps arbitrary: n) auto

lemma posting_rows_line:
  "p \<in> set (posting_rows j c acc n ps) \<Longrightarrow>
     \<exists>q \<in> set ps. jp_account_id p = the (acc (np_accountCode q)) \<and> jp_amount_minor p = np_amountMinor q"
  by (induction ps arbitrary: n) auto

lemma posting_rows_total [simp]: "posting_total d (posting_rows j c acc n ps) = side_total d ps"
  unfolding posting_total_def side_total_def by (induction ps arbitrary: n) auto

lemma postings_of_append [simp]: "postings_of j (ps @ qs) = postings_of j ps @ postings_of j qs"
  by (simp add: postings_of_def)

lemma postings_of_rows [simp]: "postings_of i (posting_rows j c acc n ps) = (if i = j then posting_rows j c acc n ps else [])"
  using posting_rows_journal by (fastforce simp: postings_of_def filter_id_conv filter_empty_conv)

section \<open>The ledger invariant\<close>

definition account_known :: "'z journal_db_scheme \<Rightarrow> uuid option \<Rightarrow> uuid \<Rightarrow> bool" where
  "account_known s org a \<longleftrightarrow> (\<exists>r \<in> set (ledger_accounts s). la_id r = a \<and> la_organization_id r = org)"

definition balanced_entry :: "'z journal_db_scheme \<Rightarrow> journal_entry \<Rightarrow> bool" where
  "balanced_entry s e \<longleftrightarrow>
     (let ps = postings_of (je_id e) (journal_postings s) in
      2 \<le> length ps \<and> posting_total Debit ps = posting_total Credit ps
      \<and> (\<forall>p \<in> set ps. jp_currency p = je_currency e \<and> 0 < jp_amount_minor p \<and> jp_amount_minor p \<le> PG_BIGINT_MAX
           \<and> account_known s (je_organization_id e) (jp_account_id p)))"

definition ledger_ok :: "'z journal_db_scheme \<Rightarrow> bool" where
  "ledger_ok s \<longleftrightarrow>
     distinct (map je_id (journal_entries s)) \<and> distinct (map la_id (ledger_accounts s))
     \<and> distinct (map (\<lambda>a. (la_organization_id a, la_code a)) (ledger_accounts s))
     \<and> (\<forall>a \<in> set (ledger_accounts s). normalizeAccountCode (la_code a) = Inr (la_code a))
     \<and> distinct (map (\<lambda>e. (je_scope_key e, je_idempotency_key e)) (journal_entries s))
     \<and> distinct (map je_reversal_of (filter (\<lambda>e. je_reversal_of e \<noteq> None) (journal_entries s)))
     \<and> (\<forall>p \<in> set (journal_postings s). \<exists>e \<in> set (journal_entries s). je_id e = jp_journal_id p)
     \<and> (\<forall>e \<in> set (journal_entries s). je_status e = ''posted'' \<and> balanced_entry s e)"

text \<open>The invariant only reads the ledger tables.\<close>

lemma ledger_ok_frame:
  assumes "ledger_ok s" and "journal_entries t = journal_entries s" and "journal_postings t = journal_postings s"
    and "ledger_accounts t = ledger_accounts s"
  shows "ledger_ok t"
  using assms(1) unfolding ledger_ok_def balanced_entry_def account_known_def assms(2-4) .

lemma accounts_by_code_known:
  "accounts_by_code s org c = Some a \<Longrightarrow> account_known s org a"
  by (auto simp: accounts_by_code_def account_known_def dest!: first_row_Some)

lemma post_journal_ledger_ok:
  assumes "postJournalInTransaction rt inp s = Inr (r, s')" and ok: "ledger_ok s"
  shows "ledger_ok s'"
  using assms(1)
proof (cases rule: post_journal_effect)
  case replay
  then show ?thesis using ledger_ok_frame [OF ok, of s'] by simp
next
  case (fresh currency ps j e acc)
  have e: "je_id e = j" "je_scope_key e = ji_scopeKey inp" "je_idempotency_key e = ji_idempotencyKey inp"
    "je_reversal_of e = ji_reversalOf inp" "je_status e = ''posted''" "je_currency e = currency"
    "je_organization_id e = ji_organizationId inp"
    by (simp_all add: fresh(3) entry_of_def)
  note v = validateJournal_ok [OF fresh(1)]
  have none: "postings_of j (journal_postings s) = []"
    using ok fresh(6) by (auto simp: ledger_ok_def postings_of_def filter_empty_conv)
  have known: "account_known s org a = account_known s' org a" for org a
    by (simp add: fresh(9) account_known_def)
  have lines: "jp_currency p = currency \<and> 0 < jp_amount_minor p \<and> jp_amount_minor p \<le> PG_BIGINT_MAX
      \<and> account_known s' (ji_organizationId inp) (jp_account_id p)" if p: "p \<in> set (posting_rows j currency acc 1 ps)" for p
  proof -
    obtain q where q: "q \<in> set ps" "jp_account_id p = the (acc (np_accountCode q))" "jp_amount_minor p = np_amountMinor q"
      using posting_rows_line [OF p] by blast
    with fresh(5) obtain a where a: "acc (np_accountCode q) = Some a" by auto
    then have "account_known s' (ji_organizationId inp) a"
      unfolding known [symmetric] fresh(4) by (rule accounts_by_code_known)
    with q a v(3) posting_rows_journal [OF p] show ?thesis by simp
  qed
  have new: "balanced_entry s' e"
    using v none lines by (auto simp: balanced_entry_def fresh(9) e Let_def)
  have old: "balanced_entry s' x" if "x \<in> set (journal_entries s)" for x
    using that ok fresh(6) by (auto simp: ledger_ok_def balanced_entry_def fresh(9) Let_def account_known_def)
  show ?thesis
    using ok new old fresh(6,7) e unfolding ledger_ok_def
    by (auto simp: fresh(9) dest: posting_rows_journal)
qed

lemma normalizeAccountCode_idem: "normalizeAccountCode v = Inr c \<Longrightarrow> normalizeAccountCode c = Inr c"
  by (auto simp: normalizeAccountCode_def Let_def trim_toUpperCase split: if_splits)

lemma ensure_account_effect:
  assumes "ensureLedgerAccount rt inp s = Inr (i, s')"
  shows "\<exists>rows. s' = s\<lparr>uuids_drawn := Suc (uuids_drawn s), ledger_accounts := ledger_accounts s @ rows\<rparr>
     \<and> (rows = [] \<or> (\<exists>a. rows = [a] \<and> normalizeAccountCode (la_code a) = Inr (la_code a)
          \<and> (\<forall>r \<in> set (ledger_accounts s). la_id r \<noteq> la_id a
               \<and> (la_organization_id r, la_code r) \<noteq> (la_organization_id a, la_code a))))"
proof -
  from assms obtain code ex where code: "normalizeAccountCode (lai_code inp) = Inr code"
    and ex: "ex = first_row (\<lambda>a. la_organization_id a = lai_organizationId inp \<and> la_code a = code) (ledger_accounts s)"
    and rest: "(case ex of Some a \<Rightarrow> ret (la_id a) | None \<Rightarrow>
          andThen (insert_ledger_account
            \<lparr>la_id = rt_uuid rt (uuids_drawn s), la_organization_id = lai_organizationId inp, la_code = code, la_name = trim (lai_name inp),
             la_account_type = lai_accountType inp, la_normal_balance = lai_normalBalance inp, la_active = True\<rparr>)
          (ret (rt_uuid rt (uuids_drawn s)))) (s\<lparr>uuids_drawn := Suc (uuids_drawn s)\<rparr>) = Inr (i, s')"
    by (auto simp: ensureLedgerAccount_def tx_Inr randomUUID_Inr elim!: tx_elims)
  show ?thesis
  proof (cases ex)
    case None
    let ?row = "\<lparr>la_id = rt_uuid rt (uuids_drawn s), la_organization_id = lai_organizationId inp, la_code = code,
        la_name = trim (lai_name inp), la_account_type = lai_accountType inp,
        la_normal_balance = lai_normalBalance inp, la_active = True\<rparr>"
    from None rest have "s' = s\<lparr>uuids_drawn := Suc (uuids_drawn s), ledger_accounts := ledger_accounts s @ [?row]\<rparr>"
      "\<forall>r \<in> set (ledger_accounts s). la_id r \<noteq> rt_uuid rt (uuids_drawn s)"
      by (auto simp: insert_ledger_account_def tx_Inr elim!: tx_elims)
    with None ex normalizeAccountCode_idem [OF code] show ?thesis
      by (intro exI [of _ "[?row]"]) (auto simp: first_row_None)
  next
    case (Some a)
    with rest show ?thesis by (intro exI [of _ "[]"]) (simp add: tx_Inr)
  qed
qed

lemma ensure_account_ledger_ok:
  assumes "ensureLedgerAccount rt inp s = Inr (i, s')" and ok: "ledger_ok s"
  shows "ledger_ok s'"
proof -
  obtain rows where s': "s' = s\<lparr>uuids_drawn := Suc (uuids_drawn s), ledger_accounts := ledger_accounts s @ rows\<rparr>"
    and rows: "rows = [] \<or> (\<exists>a. rows = [a] \<and> normalizeAccountCode (la_code a) = Inr (la_code a)
          \<and> (\<forall>r \<in> set (ledger_accounts s). la_id r \<noteq> la_id a
               \<and> (la_organization_id r, la_code r) \<noteq> (la_organization_id a, la_code a)))"
    using ensure_account_effect [OF assms(1)] by blast
  have known: "account_known s org x \<Longrightarrow> account_known s' org x" for org x
    by (auto simp: account_known_def s')
  have old: "balanced_entry s' e" if "e \<in> set (journal_entries s)" for e
    using that ok known by (auto simp: ledger_ok_def balanced_entry_def Let_def s')
  show ?thesis using ok rows old unfolding ledger_ok_def by (auto simp: s')
qed

lemma reverse_journal_ledger_ok:
  assumes "reverseJournalInTransaction rt inp j s = Inr (r, s')" and "ledger_ok s"
  shows "ledger_ok s'"
  using assms by (auto simp: reverseJournalInTransaction_def tx_Inr post_journal_ledger_ok elim!: tx_elims
      split: option.splits)

text \<open>The commands of the module, in any order.\<close>

datatype ledger_command =
    EnsureAccount ledger_account_input
  | PostJournal post_journal_input
  | ReverseJournal post_journal_input uuid

fun run_ledger_command :: "runtime \<Rightarrow> ledger_command \<Rightarrow> 'z journal_db_scheme \<Rightarrow> 'z journal_db_scheme" where
  "run_ledger_command rt (EnsureAccount inp) s =
     snd (withPostgresTransaction deferred_constraints (ensureLedgerAccount rt inp) s)"
| "run_ledger_command rt (PostJournal inp) s = snd (postJournal rt inp s)"
| "run_ledger_command rt (ReverseJournal inp j) s = snd (reverseJournal rt inp j s)"

definition run_ledger :: "runtime \<Rightarrow> ledger_command list \<Rightarrow> 'z journal_db_scheme \<Rightarrow> 'z journal_db_scheme" where
  "run_ledger rt cs s = fold (run_ledger_command rt) cs s"

lemma run_ledger_command_ok: "ledger_ok s \<Longrightarrow> ledger_ok (run_ledger_command rt c s)"
  by (cases c)
     (auto simp: postJournal_def reverseJournal_def hoare_def
        intro!: transaction_preserves [where P = ledger_ok] intro: post_journal_ledger_ok
          ensure_account_ledger_ok reverse_journal_ledger_ok)

lemma run_ledger_ok: "ledger_ok s \<Longrightarrow> ledger_ok (run_ledger rt cs s)"
  by (induction cs arbitrary: s) (simp_all add: run_ledger_def run_ledger_command_ok)

text \<open>Summing a column over all postings is summing it entry by entry.\<close>

lemma sum_by_entry:
  assumes "distinct ids" and "\<forall>p \<in> set ps. jp_journal_id p \<in> set ids"
  shows "sum_rows q f ps = sum_list (map (\<lambda>i. sum_rows q f (postings_of i ps)) ids)"
  using assms(2)
proof (induction ps)
  case Nil
  then show ?case by (simp add: postings_of_def sum_list_0)
next
  case (Cons p ps)
  have one: "sum_list (map (\<lambda>i. if jp_journal_id p = i then x else 0) ids) = (x :: int)" for x
    using Cons.prems by (simp add: sum_list_point [OF assms(1)])
  have "sum_list (map (\<lambda>i. sum_rows q f (postings_of i (p # ps))) ids)
    = sum_list (map (\<lambda>i. (if jp_journal_id p = i then if q p then f p else 0 else 0) + sum_rows q f (postings_of i ps)) ids)"
    by (rule arg_cong [where f = sum_list]) (simp add: postings_of_def)
  also have "\<dots> = (if q p then f p else 0) + sum_list (map (\<lambda>i. sum_rows q f (postings_of i ps)) ids)"
    by (simp only: sum_list_addf one)
  finally show ?case using Cons by simp
qed

definition currency_total :: "journalDirection \<Rightarrow> string \<Rightarrow> 'z journal_db_scheme \<Rightarrow> int" where
  "currency_total d c s = sum_rows (\<lambda>p. jp_direction p = d \<and> jp_currency p = c) jp_amount_minor (journal_postings s)"

lemma ledger_ok_trial_balance:
  assumes ok: "ledger_ok s"
  shows "currency_total Debit c s = currency_total Credit c s"
proof -
  let ?ids = "map je_id (journal_entries s)"
  have split: "currency_total d c s = sum_list (map (\<lambda>i. sum_rows (\<lambda>p. jp_direction p = d \<and> jp_currency p = c)
      jp_amount_minor (postings_of i (journal_postings s))) ?ids)" for d
    unfolding currency_total_def
    by (rule sum_by_entry) (use ok in \<open>simp add: ledger_ok_def\<close>, use ok in \<open>auto simp: ledger_ok_def image_iff; metis\<close>)
  have one: "sum_rows (\<lambda>p. jp_direction p = d \<and> jp_currency p = c) jp_amount_minor (postings_of (je_id e) (journal_postings s))
      = (if je_currency e = c then posting_total d (postings_of (je_id e) (journal_postings s)) else 0)"
    if "e \<in> set (journal_entries s)" for d e
  proof -
    have "\<forall>p \<in> set (postings_of (je_id e) (journal_postings s)). jp_currency p = je_currency e"
      using ok that by (auto simp: ledger_ok_def balanced_entry_def Let_def)
    then show ?thesis unfolding posting_total_def
      by (induction "postings_of (je_id e) (journal_postings s)") (auto simp: sum_rows_def filter_empty_conv
          intro!: arg_cong [where f = sum_list] map_cong filter_cong)
  qed
  have "posting_total Debit (postings_of (je_id e) (journal_postings s))
      = posting_total Credit (postings_of (je_id e) (journal_postings s))" if "e \<in> set (journal_entries s)" for e
    using ok that by (auto simp: ledger_ok_def balanced_entry_def Let_def)
  then show ?thesis unfolding split map_map
    by (intro arg_cong [where f = sum_list] map_cong) (simp_all add: one)
qed

section \<open>The ledger stays balanced\<close>

text \<open>C29: whatever accounts are created and whatever journals are posted, replayed, refused and
  reversed, in any order: every journal in the ledger has at least two postings in its own
  currency, on accounts of its own organization, with equal debits and credits, no journal is
  reversed twice, and the trial balance of every currency is zero.\<close>

theorem ledger_always_balanced:
  assumes "ledger_accounts s = []" and "journal_entries s = []" and "journal_postings s = []"
  shows "ledger_ok (run_ledger rt cs s)
     \<and> currency_total Debit c (run_ledger rt cs s) = currency_total Credit c (run_ledger rt cs s)"
proof -
  have "ledger_ok s" using assms by (simp add: ledger_ok_def)
  then have "ledger_ok (run_ledger rt cs s)" by (rule run_ledger_ok)
  with ledger_ok_trial_balance show ?thesis by blast
qed

definition sample_journal_db :: journal_db where
  "sample_journal_db = \<lparr>clock = 1700000000000, uuids_drawn = 0, identities = [], audit_sequence = 0, audit_events = [],
     audit_chain_heads = [], outbox_events = [], organizations = [''org''], ledger_accounts = [],
     journal_entries = [], journal_postings = []\<rparr>"

definition sample_account :: "string \<Rightarrow> ledger_account_input" where
  "sample_account code = \<lparr>lai_organizationId = Some ''org'', lai_code = code, lai_name = code,
     lai_accountType = Asset, lai_normalBalance = Debit\<rparr>"

definition sample_line :: "string \<Rightarrow> journalDirection \<Rightarrow> journal_posting_input" where
  "sample_line code d = \<lparr>pi_accountCode = code, pi_direction = d, pi_amountMinor = BigIntAmount 500, pi_metadata = None\<rparr>"

definition sample_journal :: post_journal_input where
  "sample_journal = \<lparr>ji_scopeKey = ''s'', ji_organizationId = Some ''org'', ji_idempotencyKey = ''k'',
     ji_currency = ''ngn'', ji_narrative = ''n'', ji_externalRef = None, ji_effectiveAt = None,
     ji_reversalOf = None, ji_metadata = None, ji_postings = [sample_line ''CASH'' Debit, sample_line ''ESCROW'' Credit]\<rparr>"

definition sample_reversal :: post_journal_input where
  "sample_reversal = sample_journal\<lparr>ji_idempotencyKey := ''k2''\<rparr>"

definition sample_ledger :: journal_db where
  "sample_ledger = run_ledger plain_runtime [EnsureAccount (sample_account ''CASH''), EnsureAccount (sample_account ''ESCROW'')]
     sample_journal_db"

definition sample_posted :: journal_db where
  "sample_posted = run_ledger_command plain_runtime (PostJournal sample_journal) sample_ledger"

lemmas sample_ledger_eval = sample_posted_def sample_ledger_def run_ledger_def fold_simps id_apply
  run_ledger_command.simps

theorem ledger_always_balanced_witness:
  "ledger_ok (run_ledger plain_runtime [EnsureAccount (sample_account ''CASH''), EnsureAccount (sample_account ''ESCROW''),
        PostJournal sample_journal] sample_journal_db)
     \<and> currency_total Debit ''NGN'' (run_ledger plain_runtime [EnsureAccount (sample_account ''CASH''),
          EnsureAccount (sample_account ''ESCROW''), PostJournal sample_journal] sample_journal_db)
       = currency_total Credit ''NGN'' (run_ledger plain_runtime [EnsureAccount (sample_account ''CASH''),
          EnsureAccount (sample_account ''ESCROW''), PostJournal sample_journal] sample_journal_db)"
  by (rule ledger_always_balanced) (simp_all add: sample_journal_db_def)

section \<open>The deferred check agrees with validation\<close>

lemma account_organization_known:
  assumes "distinct (map la_id (ledger_accounts s))"
  shows "account_organization s a = Some org \<longleftrightarrow> account_known s org a"
proof
  assume "account_organization s a = Some org"
  then show "account_known s org a"
    by (auto simp: account_organization_def account_known_def dest!: first_row_Some)
next
  assume "account_known s org a"
  then obtain r where r: "r \<in> set (ledger_accounts s)" "la_id r = a" "la_organization_id r = org"
    by (auto simp: account_known_def)
  then have "first_row (\<lambda>x. la_id x = a) (ledger_accounts s) = Some r"
    using assms by (intro first_row_unique [where k = la_id]) auto
  with r show "account_organization s a = Some org" by (simp add: account_organization_def)
qed

lemma balanced_entry_passes:
  assumes ok: "ledger_ok s" and e: "e \<in> set (journal_entries s)"
    and fits: "posting_total Debit (postings_of (je_id e) (journal_postings s)) \<le> PG_BIGINT_MAX"
  shows "assert_journal_is_balanced s (je_id e) = None"
proof -
  let ?ps = "postings_of (je_id e) (journal_postings s)"
  have b: "balanced_entry s e" and d: "distinct (map la_id (ledger_accounts s))"
    using ok e by (auto simp: ledger_ok_def)
  have org: "account_organization s (jp_account_id p) = Some (je_organization_id e)" if "p \<in> set ?ps" for p
    using b that by (simp add: balanced_entry_def Let_def account_organization_known [OF d])
  then have ps: "filter (\<lambda>p. account_organization s (jp_account_id p) \<noteq> None) ?ps = ?ps"
    by (simp add: filter_id_conv)
  have "first_row (\<lambda>x. je_id x = je_id e) (journal_entries s) = Some e"
    using ok e by (intro first_row_unique [where k = je_id]) (auto simp: ledger_ok_def)
  then show ?thesis
    using b fits org unfolding assert_journal_is_balanced_def ps Let_def balanced_entry_def
    by (auto simp: list_ex_iff)
qed

lemma first_error_None: "first_error f xs = None \<longleftrightarrow> (\<forall>x \<in> set xs. f x = None)"
  by (induction xs) (auto split: option.splits)

lemma post_journal_passes_deferred:
  assumes "postJournalInTransaction rt inp s = Inr (r, s')" and ok: "ledger_ok s"
    and v: "validateJournal inp = Inr (currency, ps)" and fits: "side_total Debit ps \<le> PG_BIGINT_MAX"
  shows "deferred_constraints s s' = None"
  using assms(1)
proof (cases rule: post_journal_effect)
  case replay
  then show ?thesis by (simp add: deferred_constraints_def)
next
  case (fresh currency' ps' j e acc)
  have ok': "ledger_ok s'" using post_journal_ledger_ok [OF assms(1) ok] .
  have eq: "ps' = ps" "currency' = currency" using fresh(1) v by auto
  have e: "je_id e = j" by (simp add: fresh(3) entry_of_def)
  have none: "postings_of j (journal_postings s) = []"
    using ok fresh(6) by (auto simp: ledger_ok_def postings_of_def filter_empty_conv)
  have "assert_journal_is_balanced s' (je_id e) = None"
    by (rule balanced_entry_passes [OF ok']) (simp_all add: fresh(9) e none fits eq)
  moreover have "jp_journal_id p = j" if "p \<in> set (posting_rows j currency' acc 1 ps')" for p
    using posting_rows_journal [OF that] by simp
  ultimately show ?thesis by (auto simp: deferred_constraints_def first_error_None fresh(9) e)
qed

text \<open>The database's deferred balance check and the code's validation agree: in a balanced
  ledger a journal that the code has accepted and whose total fits a \<open>BIGINT\<close> always commits,
  so the trigger only ever stops callers that bypass the module.\<close>

theorem postJournal_commits:
  assumes "ledger_ok s" and "postJournalInTransaction rt inp s = Inr (r, s')"
    and "validateJournal inp = Inr (currency, ps)" and "side_total Debit ps \<le> PG_BIGINT_MAX"
  shows "postJournal rt inp s = (Inr r, s')"
  using post_journal_passes_deferred [OF assms(2,1,3,4)] assms(2)
  by (simp add: postJournal_def withPostgresTransaction_commit)

lemma sample_ledger_ok: "ledger_ok sample_ledger"
  unfolding sample_ledger_def by (rule run_ledger_ok) (simp add: ledger_ok_def sample_journal_db_def)

theorem postJournal_commits_witness:
  "\<exists>r s'. postJournalInTransaction plain_runtime sample_journal sample_ledger = Inr (r, s')
     \<and> postJournal plain_runtime sample_journal sample_ledger = (Inr r, s')"
proof -
  have "isl (postJournalInTransaction plain_runtime sample_journal sample_ledger) = False"
    unfolding sample_ledger_eval tx_defs tx_eval by code_simp
  then obtain r s' where r: "postJournalInTransaction plain_runtime sample_journal sample_ledger = Inr (r, s')"
    by (auto simp: not_isl)
  have v: "validateJournal sample_journal = Inr (''NGN'',
      [\<lparr>np_accountCode = ''CASH'', np_direction = Debit, np_amountMinor = 500, np_metadata = []\<rparr>,
       \<lparr>np_accountCode = ''ESCROW'', np_direction = Credit, np_amountMinor = 500, np_metadata = []\<rparr>])"
    by code_simp
  show ?thesis
    using postJournal_commits [OF sample_ledger_ok r v] r by (simp add: side_total_def PG_BIGINT_MAX_def)
qed

section \<open>Idempotency\<close>

text \<open>Once a journal has been posted, its entry stays in the ledger.\<close>

lemma posted_entry:
  assumes "postJournalInTransaction rt inp s = Inr (r, s')"
  shows "\<exists>currency ps e. validateJournal inp = Inr (currency, ps) \<and> e \<in> set (journal_entries s')
     \<and> je_scope_key e = ji_scopeKey inp \<and> je_idempotency_key e = ji_idempotencyKey inp
     \<and> je_request_hash e = hashPayload rt (journal_request inp currency ps) \<and> je_id e = pj_journalId r"
  using assms
proof (cases rule: post_journal_effect)
  case replay
  then show ?thesis by (auto simp: journal_replay_def)
next
  case (fresh currency ps j e acc)
  show ?thesis
    by (intro exI [of _ currency] exI [of _ ps] exI [of _ e]) (simp add: fresh(1,8,9), simp add: fresh(3) entry_of_def)
qed

lemma post_journal_existing:
  assumes ok: "ledger_ok s" and e: "e \<in> set (journal_entries s)"
    and key: "je_scope_key e = ji_scopeKey inp" "je_idempotency_key e = ji_idempotencyKey inp"
    and v: "validateJournal inp = Inr (currency, ps)"
  shows "postJournalInTransaction rt inp s =
     (if je_request_hash e = hashPayload rt (journal_request inp currency ps)
      then Inr (\<lparr>pj_journalId = je_id e, pj_replayed = True\<rparr>, s\<lparr>uuids_drawn := Suc (uuids_drawn s)\<rparr>)
      else Inl (JournalIdempotencyConflictError ''Journal idempotency key has already been used with a different payload''))"
proof -
  have first: "first_row (\<lambda>x. je_scope_key x = ji_scopeKey inp \<and> je_idempotency_key x = ji_idempotencyKey inp)
      (journal_entries s) = Some e"
    by (rule first_row_unique [where k = "\<lambda>x. (je_scope_key x, je_idempotency_key x)"])
       (use ok e key in \<open>auto simp: ledger_ok_def\<close>)
  have dup: "\<exists>x \<in> set (journal_entries s). je_scope_key x = ji_scopeKey inp \<and> je_idempotency_key x = ji_idempotencyKey inp"
    using e key by blast
  show ?thesis
    using dup first
    by (simp add: postJournalInTransaction_def replay_journal_def tx_simps v Let_def randomUUID_def
        insert_journal_entry_def entry_of_def)
qed

text \<open>Posting is idempotent. After a journal was posted, posting the same request again, at any
  later time and whatever else happened to the ledger in between, returns the same journal id,
  marked as replayed, and leaves all tables as they are; posting any other valid request under
  the same scope and key is refused as a conflict and changes nothing.\<close>

theorem postJournal_idempotent:
  assumes "postJournal rt inp s = (Inr r, s1)"
    and "ledger_ok t" and "set (journal_entries s1) \<subseteq> set (journal_entries t)"
    and "validateJournal inp = Inr (currency, ps)" and "validateJournal other = Inr (currency', ps')"
    and "ji_scopeKey other = ji_scopeKey inp" and "ji_idempotencyKey other = ji_idempotencyKey inp"
  shows "postJournal rt inp t
           = (Inr \<lparr>pj_journalId = pj_journalId r, pj_replayed = True\<rparr>, t\<lparr>uuids_drawn := Suc (uuids_drawn t)\<rparr>)
     \<and> (hashPayload rt (journal_request other currency' ps') \<noteq> hashPayload rt (journal_request inp currency ps)
        \<longrightarrow> postJournal rt other t = (Inl (JournalIdempotencyConflictError
              ''Journal idempotency key has already been used with a different payload''), t))"
proof -
  from assms(1) have "postJournalInTransaction rt inp s = Inr (r, s1)"
    by (simp add: postJournal_def withPostgresTransaction_commit)
  from posted_entry [OF this] assms(3,4) obtain e where e: "e \<in> set (journal_entries t)"
    "je_scope_key e = ji_scopeKey inp" "je_idempotency_key e = ji_idempotencyKey inp"
    "je_request_hash e = hashPayload rt (journal_request inp currency ps)" "je_id e = pj_journalId r"
    by auto
  have "deferred_constraints t (t\<lparr>uuids_drawn := Suc (uuids_drawn t)\<rparr>) = None"
    by (simp add: deferred_constraints_def)
  with post_journal_existing [OF assms(2) e(1-3) assms(4), of rt]
    post_journal_existing [OF assms(2) e(1) _ _ assms(5), of rt] e assms(6,7)
  show ?thesis by (simp add: postJournal_def withPostgresTransaction_def)
qed

theorem postJournal_idempotent_witness:
  "\<exists>r. postJournal plain_runtime sample_journal (snd (postJournal plain_runtime sample_journal sample_ledger))
     = (Inr \<lparr>pj_journalId = r, pj_replayed = True\<rparr>,
        (snd (postJournal plain_runtime sample_journal sample_ledger))\<lparr>uuids_drawn := 4\<rparr>)"
proof -
  have run: "\<not> isl (fst (postJournal plain_runtime sample_journal sample_ledger))
      \<and> uuids_drawn (snd (postJournal plain_runtime sample_journal sample_ledger)) = 3"
    unfolding sample_ledger_eval tx_defs tx_eval by code_simp
  then obtain r s1 where r: "postJournal plain_runtime sample_journal sample_ledger = (Inr r, s1)"
    and u: "uuids_drawn s1 = 3"
    by (cases "postJournal plain_runtime sample_journal sample_ledger") (auto simp: not_isl)
  have "ledger_ok s1"
    using run_ledger_command_ok [OF sample_ledger_ok, of plain_runtime "PostJournal sample_journal"] r by simp
  moreover have v: "validateJournal sample_journal = Inr (''NGN'',
      [\<lparr>np_accountCode = ''CASH'', np_direction = Debit, np_amountMinor = 500, np_metadata = []\<rparr>,
       \<lparr>np_accountCode = ''ESCROW'', np_direction = Credit, np_amountMinor = 500, np_metadata = []\<rparr>])"
    by code_simp
  ultimately show ?thesis
    using postJournal_idempotent [OF r _ order_refl v v refl refl] r u by auto
qed

section \<open>Reversal\<close>

definition signed_amount :: "journal_posting \<Rightarrow> int" where
  "signed_amount p = (case jp_direction p of Debit \<Rightarrow> jp_amount_minor p | Credit \<Rightarrow> - jp_amount_minor p)"

text \<open>What a journal does to an account: debits minus credits.\<close>

definition account_net :: "uuid \<Rightarrow> uuid \<Rightarrow> 'z journal_db_scheme \<Rightarrow> int" where
  "account_net a j s = sum_rows (\<lambda>p. jp_account_id p = a) signed_amount (postings_of j (journal_postings s))"

text \<open>The posting that undoes a posting, given the code of its account.\<close>

definition undo_posting :: "(uuid \<Rightarrow> string) \<Rightarrow> journal_posting \<Rightarrow> normal_posting" where
  "undo_posting code p = \<lparr>np_accountCode = code (jp_account_id p), np_direction = opposite (jp_direction p),
     np_amountMinor = jp_amount_minor p, np_metadata = jp_metadata p\<rparr>"

lemma sum_undo_rows:
  assumes "\<forall>p \<in> set qs. acc (code (jp_account_id p)) = Some (jp_account_id p)"
  shows "sum_rows (\<lambda>p. jp_account_id p = a) signed_amount (posting_rows j c acc n (map (undo_posting code) qs))
     = - sum_rows (\<lambda>p. jp_account_id p = a) signed_amount qs"
  using assms
  by (induction qs arbitrary: n)
     (auto simp: undo_posting_def signed_amount_def opposite_def split: journalDirection.splits)

lemma normalize_undo:
  assumes "\<forall>p \<in> set qs. 0 < jp_amount_minor p \<and> jp_amount_minor p \<le> PG_BIGINT_MAX
      \<and> normalizeAccountCode (code (jp_account_id p)) = Inr (code (jp_account_id p))
      \<and> f p = [\<lparr>pi_accountCode = code (jp_account_id p), pi_direction = opposite (jp_direction p),
           pi_amountMinor = BigIntAmount (jp_amount_minor p), pi_metadata = Some (jp_metadata p)\<rparr>]"
  shows "normalize_postings (concat (map f qs)) = Inr (map (undo_posting code) qs)"
  using assms
  by (induction qs) (auto simp: normalizeMinor_def undo_posting_def)

text \<open>The code of an account, as the reversal's join finds it.\<close>

definition code_of_account :: "'z journal_db_scheme \<Rightarrow> uuid \<Rightarrow> string" where
  "code_of_account s a = (case first_row (\<lambda>r. la_id r = a) (ledger_accounts s) of None \<Rightarrow> [] | Some r \<Rightarrow> la_code r)"

lemma account_round_trip:
  assumes ok: "ledger_ok s" and known: "account_known s org a"
  shows "normalizeAccountCode (code_of_account s a) = Inr (code_of_account s a)"
    and "accounts_by_code s org (code_of_account s a) \<noteq> None \<Longrightarrow> accounts_by_code s org (code_of_account s a) = Some a"
    and "\<exists>r. first_row (\<lambda>r. la_id r = a) (ledger_accounts s) = Some r \<and> la_code r = code_of_account s a"
proof -
  from known obtain r where r: "r \<in> set (ledger_accounts s)" "la_id r = a" "la_organization_id r = org"
    by (auto simp: account_known_def)
  have row: "first_row (\<lambda>x. la_id x = a) (ledger_accounts s) = Some r"
    by (rule first_row_unique [where k = la_id]) (use ok r in \<open>auto simp: ledger_ok_def\<close>)
  then have code: "code_of_account s a = la_code r" by (simp add: code_of_account_def)
  show "normalizeAccountCode (code_of_account s a) = Inr (code_of_account s a)"
    using ok r(1) by (simp add: code ledger_ok_def)
  show "\<exists>r. first_row (\<lambda>r. la_id r = a) (ledger_accounts s) = Some r \<and> la_code r = code_of_account s a"
    using row code by simp
  assume "accounts_by_code s org (code_of_account s a) \<noteq> None"
  then obtain x where x: "first_row (\<lambda>y. la_code y = la_code r \<and> la_organization_id y = org \<and> la_active y) (rev (ledger_accounts s)) = Some x"
    by (auto simp: accounts_by_code_def code)
  from first_row_Some [OF x] have "x \<in> set (ledger_accounts s)" "la_code x = la_code r" "la_organization_id x = org" by auto
  then have "x = r" using ok r by (auto simp: ledger_ok_def dest: distinct_map_key_eq)
  with x r show "accounts_by_code s org (code_of_account s a) = Some a" by (simp add: accounts_by_code_def code)
qed

text \<open>A reversal undoes its original exactly. When a journal is reversed for its own
  organization, every account is debited by the reversal what the original credited it and the
  other way round, so the two journals together leave every account where it was.\<close>

theorem reversal_nets_to_zero:
  assumes ok: "ledger_ok s" and run: "reverseJournal rt inp j s = (Inr r, s')" and new: "\<not> pj_replayed r"
    and org: "\<exists>e \<in> set (journal_entries s). je_id e = j \<and> je_organization_id e = ji_organizationId inp"
  shows "account_net a j s' + account_net a (pj_journalId r) s' = 0"
proof -
  from org obtain e where e: "e \<in> set (journal_entries s)" "je_id e = j" "je_organization_id e = ji_organizationId inp" by auto
  let ?qs = "sort_by (\<lambda>p q. jp_line_number p \<le> jp_line_number q) (postings_of j (journal_postings s))"
  let ?code = "code_of_account s"
  from run obtain inp' where post: "postJournalInTransaction rt inp' s = Inr (r, s')"
    and inp': "ji_organizationId inp' = ji_organizationId inp" "ji_postings inp' = reversal_postings s j"
    by (auto simp: reverseJournal_def reverseJournalInTransaction_def withPostgresTransaction_commit tx_Inr
        elim!: tx_elims split: option.splits)
  have lines: "0 < jp_amount_minor p \<and> jp_amount_minor p \<le> PG_BIGINT_MAX \<and> account_known s (ji_organizationId inp) (jp_account_id p)"
    if "p \<in> set ?qs" for p
    using ok e that by (auto simp: ledger_ok_def balanced_entry_def Let_def)
  have norm: "normalize_postings (reversal_postings s j) = Inr (map (undo_posting ?code) ?qs)"
    unfolding reversal_postings_def
    by (rule normalize_undo) (use lines account_round_trip [OF ok] in \<open>fastforce simp: code_of_account_def split: option.splits\<close>)
  from post show ?thesis
  proof (cases rule: post_journal_effect)
    case replay
    then show ?thesis using new by (simp add: journal_replay_def)
  next
    case (fresh currency ps j' e' acc)
    have ps: "ps = map (undo_posting ?code) ?qs"
      using fresh(1) norm by (auto simp: validateJournal_def inp' split: if_splits sum.splits)
    have acc: "\<forall>p \<in> set ?qs. acc (?code (jp_account_id p)) = Some (jp_account_id p)"
    proof
      fix p assume p: "p \<in> set ?qs"
      then have "undo_posting ?code p \<in> set ps" by (simp add: ps)
      with fresh(5) have "acc (?code (jp_account_id p)) \<noteq> None" by (auto simp: undo_posting_def)
      then show "acc (?code (jp_account_id p)) = Some (jp_account_id p)"
        using account_round_trip(2) [OF ok] lines [OF p] by (simp add: fresh(4) inp')
    qed
    have jj: "j \<noteq> j'" and none: "postings_of j' (journal_postings s) = []"
      using ok e fresh(6) by (auto simp: ledger_ok_def postings_of_def filter_empty_conv)
    have "account_net a j' s' = sum_rows (\<lambda>p. jp_account_id p = a) signed_amount (posting_rows j' currency acc 1 ps)"
      by (simp add: account_net_def fresh(9) none)
    also have "\<dots> = - sum_rows (\<lambda>p. jp_account_id p = a) signed_amount ?qs"
      unfolding ps by (rule sum_undo_rows) (rule acc)
    also have "\<dots> = - account_net a j s'"
      using jj by (simp add: account_net_def fresh(9))
    finally show ?thesis by (simp add: fresh(8))
  qed
qed

lemma sample_reversal_run:
  "fst (reverseJournal plain_runtime sample_reversal ''00000000-0000-4000-8000-000000000002'' sample_posted)
     = Inr \<lparr>pj_journalId = ''00000000-0000-4000-8000-000000000003'', pj_replayed = False\<rparr>"
  "list_ex (\<lambda>e. je_id e = ''00000000-0000-4000-8000-000000000002''
       \<and> je_organization_id e = ji_organizationId sample_reversal) (journal_entries sample_posted)"
  unfolding sample_ledger_eval tx_defs tx_eval by code_simp+

theorem reversal_nets_to_zero_witness:
  "\<exists>r s'. reverseJournal plain_runtime sample_reversal ''00000000-0000-4000-8000-000000000002'' sample_posted = (Inr r, s')
     \<and> account_net ''00000000-0000-4000-8000-000000000000'' ''00000000-0000-4000-8000-000000000002'' s'
       + account_net ''00000000-0000-4000-8000-000000000000'' (pj_journalId r) s' = 0"
proof -
  obtain r s' where run: "reverseJournal plain_runtime sample_reversal ''00000000-0000-4000-8000-000000000002'' sample_posted
      = (Inr r, s')" and new: "\<not> pj_replayed r"
    using sample_reversal_run(1)
    by (cases "reverseJournal plain_runtime sample_reversal ''00000000-0000-4000-8000-000000000002'' sample_posted") auto
  have "ledger_ok sample_posted"
    unfolding sample_posted_def by (rule run_ledger_command_ok [OF sample_ledger_ok])
  then show ?thesis
    using reversal_nets_to_zero [OF _ run new] run sample_reversal_run(2) by (auto simp: list_ex_iff)
qed

end
