(* ===== verification/Market.thy ===== *)
theory Market
  imports Journal
begin

text \<open>
  The tables of the primary market (migrations 012 to 018) as the next layer of the database
  record: commitments, payment intents, receipts and reconciliation cases; offerings, their
  published versions, investor compliance profiles, eligibility snapshots, agreement
  acceptances, capacity reservations and payment-provider instructions. The status triggers of
  migration 012 and the row insertions with their constraints are here, and so are the clauses
  of \<open>resolve_outbox_privacy_subjects\<close> (migration 138) that read these tables.
\<close>

section \<open>Rows\<close>

datatype intentStatus =
    Intent_pending
  | Intent_receipt_matched
  | Intent_amount_mismatch
  | Intent_cancelled
  | Intent_expired

datatype commitmentStatus =
    Commitment_payment_pending
  | Commitment_payment_received
  | Commitment_cancelled
  | Commitment_expired
  | Commitment_refunded

datatype reservationStatus =
    Reservation_pending_payment
  | Reservation_confirmed
  | Reservation_released
  | Reservation_expired

datatype receiptStatus = Matched | Amount_mismatch

datatype caseType = Case_amount_mismatch | Case_currency_mismatch | Case_late_payment

datatype offeringProductStatus =
    Offering_draft
  | Offering_published
  | Offering_paused
  | Offering_closed
  | Offering_cancelled

datatype investorClass = Retail | Sophisticated | Institutional

datatype kycStatus = Kyc_pending | Kyc_approved | Kyc_rejected | Kyc_expired

datatype accreditationStatus =
    Accreditation_not_required
  | Accreditation_pending
  | Accreditation_verified
  | Accreditation_expired

datatype instructionStatus =
    Instruction_pending
  | Instruction_initialized
  | Instruction_failed
  | Instruction_cancelled

record commitment_row =
  cm_id :: uuid
  cm_organization_id :: uuid
  cm_investor_identity_id :: uuid
  cm_offering_reference :: string
  cm_currency :: string
  cm_committed_minor :: int
  cm_status :: commitmentStatus

record intent_row =
  in_id :: uuid
  in_commitment_id :: uuid
  in_provider :: string
  in_provider_reference :: string
  in_expected_minor :: int
  in_currency :: string
  in_status :: intentStatus
  in_expires_at :: int
  in_metadata :: json_object

record receipt_row =
  rc_id :: uuid
  rc_payment_intent_id :: uuid
  rc_provider :: string
  rc_provider_event_id :: string
  rc_payload_hash :: string
  rc_amount_minor :: int
  rc_currency :: string
  rc_status :: receiptStatus
  rc_journal_id :: "uuid option"
  rc_received_at :: int
  rc_metadata :: json_object

record reconciliation_case =
  rk_id :: uuid
  rk_receipt_id :: uuid
  rk_organization_id :: uuid
  rk_case_type :: caseType
  rk_expected_minor :: int
  rk_actual_minor :: int
  rk_currency :: string
  rk_details :: json_object

record eligibility_policy =
  ep_allowedInvestorClasses :: "string list"
  ep_allowedJurisdictions :: "string list option"
  ep_requiresAccreditation :: "bool option"

record offering_row =
  of_id :: uuid
  of_organization_id :: uuid
  of_public_reference :: string
  of_status :: offeringProductStatus
  of_currency :: string
  of_capacity_minor :: int
  of_opens_at :: int
  of_closes_at :: int

record version_row =
  ov_id :: uuid
  ov_offering_id :: uuid
  ov_version :: int
  ov_terms :: json_object
  ov_eligibility_policy :: eligibility_policy
  ov_agreement_document_hash :: string
  ov_disclosure_bundle_hash :: string
  ov_published_by_identity_id :: uuid

record profile_row =
  pr_identity_id :: uuid
  pr_kyc_status :: kycStatus
  pr_investor_class :: investorClass
  pr_accreditation_status :: accreditationStatus
  pr_jurisdiction_code :: string
  pr_reviewed_at :: int
  pr_expires_at :: "int option"
  pr_evidence :: json_object

record snapshot_row =
  sn_id :: uuid
  sn_offering_version_id :: uuid
  sn_investor_identity_id :: uuid
  sn_eligible :: bool
  sn_reason_codes :: "string list"
  sn_policy_snapshot :: eligibility_policy
  sn_evidence_snapshot :: "profile_row option"
  sn_evaluated_at :: int
  sn_expires_at :: int

record acceptance_row =
  ac_id :: uuid
  ac_offering_version_id :: uuid
  ac_investor_identity_id :: uuid
  ac_agreement_document_hash :: string
  ac_signature_name :: string
  ac_execution_hash :: string
  ac_accepted_at :: int
  ac_ip_hash :: "string option"
  ac_user_agent_hash :: "string option"

record reservation_row =
  rv_id :: uuid
  rv_offering_id :: uuid
  rv_offering_version_id :: uuid
  rv_investor_identity_id :: uuid
  rv_amount_minor :: int
  rv_currency :: string
  rv_status :: reservationStatus
  rv_expires_at :: int
  rv_commitment_id :: "uuid option"
  rv_command_key :: "string option"
  rv_eligibility_snapshot_id :: "uuid option"
  rv_agreement_acceptance_id :: "uuid option"

record instruction_row =
  ins_id :: uuid
  ins_payment_intent_id :: uuid
  ins_outbox_event_id :: uuid
  ins_provider :: string
  ins_status :: instructionStatus
  ins_checkout_url :: "string option"
  ins_provider_access_code :: "string option"
  ins_initialized_at :: "int option"
  ins_claimed_at :: "int option"
  ins_claimed_by :: "string option"
  ins_attempts :: int
  ins_next_attempt_at :: int
  ins_terminal_at :: "int option"
  ins_last_error :: "string option"
  ins_created_at :: int

record market_db = journal_db +
  investment_commitments :: "commitment_row list"
  payment_intents :: "intent_row list"
  payment_receipts :: "receipt_row list"
  payment_reconciliation_cases :: "reconciliation_case list"
  offering_products :: "offering_row list"
  offering_publication_versions :: "version_row list"
  investor_compliance_profiles :: "profile_row list"
  investment_eligibility_snapshots :: "snapshot_row list"
  agreement_acceptances :: "acceptance_row list"
  investment_reservations :: "reservation_row list"
  payment_provider_instructions :: "instruction_row list"

section \<open>Insertions\<close>

text \<open>An insertion with its primary key, unique and foreign keys: \<open>taken\<close> and \<open>known\<close> read the
  database.\<close>

definition checked_insert ::
    "('s \<Rightarrow> bool) \<Rightarrow> string \<Rightarrow> ('s \<Rightarrow> bool) \<Rightarrow> string \<Rightarrow> ('s \<Rightarrow> 's) \<Rightarrow> ('s, unit) tx" where
  "checked_insert taken key known fkey ins = (\<lambda>s.
     if taken s then Inl (UniqueViolation key)
     else if \<not> known s then Inl (ForeignKeyViolation fkey)
     else Inr ((), ins s))"

definition identity_known :: "uuid \<Rightarrow> 'z audit_db_scheme \<Rightarrow> bool" where
  "identity_known i s \<longleftrightarrow> exists_row (\<lambda>r. idn_id r = i) (identities s)"

definition insert_commitment :: "commitment_row \<Rightarrow> ('z market_db_scheme, unit) tx" where
  "insert_commitment row =
     andThen (require (1 \<le> length (cm_offering_reference row) \<and> length (cm_offering_reference row) \<le> 200)
                (CheckViolation ''investment_commitments_offering_reference_check''))
     (checked_insert (\<lambda>s. exists_row (\<lambda>r. cm_id r = cm_id row) (investment_commitments s)) ''investment_commitments_pkey''
        (\<lambda>s. cm_organization_id row \<in> set (organizations s) \<and> identity_known (cm_investor_identity_id row) s)
        ''investment_commitments_fkey''
        (\<lambda>s. s\<lparr>investment_commitments := investment_commitments s @ [row]\<rparr>))"

definition insert_intent :: "intent_row \<Rightarrow> ('z market_db_scheme, unit) tx" where
  "insert_intent row =
     checked_insert (\<lambda>s. exists_row (\<lambda>r. in_id r = in_id row
         \<or> (in_provider r = in_provider row \<and> in_provider_reference r = in_provider_reference row)) (payment_intents s))
       ''payment_intents_provider_provider_reference_key''
       (\<lambda>s. exists_row (\<lambda>c. cm_id c = in_commitment_id row) (investment_commitments s))
       ''payment_intents_commitment_id_fkey''
       (\<lambda>s. s\<lparr>payment_intents := payment_intents s @ [row]\<rparr>)"

definition insert_receipt :: "receipt_row \<Rightarrow> ('z market_db_scheme, unit) tx" where
  "insert_receipt row =
     checked_insert (\<lambda>s. exists_row (\<lambda>r. rc_id r = rc_id row
         \<or> (rc_provider r = rc_provider row \<and> rc_provider_event_id r = rc_provider_event_id row)
         \<or> (rc_journal_id row \<noteq> None \<and> rc_journal_id r = rc_journal_id row)) (payment_receipts s))
       ''payment_receipts_key''
       (\<lambda>s. exists_row (\<lambda>i. in_id i = rc_payment_intent_id row) (payment_intents s)
          \<and> (case rc_journal_id row of None \<Rightarrow> True | Some j \<Rightarrow> exists_row (\<lambda>e. je_id e = j) (journal_entries s)))
       ''payment_receipts_fkey''
       (\<lambda>s. s\<lparr>payment_receipts := payment_receipts s @ [row]\<rparr>)"

definition insert_case :: "reconciliation_case \<Rightarrow> ('z market_db_scheme, unit) tx" where
  "insert_case row =
     checked_insert (\<lambda>s. exists_row (\<lambda>r. rk_id r = rk_id row \<or> rk_receipt_id r = rk_receipt_id row)
         (payment_reconciliation_cases s)) ''payment_reconciliation_cases_key''
       (\<lambda>s. exists_row (\<lambda>r. rc_id r = rk_receipt_id row) (payment_receipts s)
          \<and> rk_organization_id row \<in> set (organizations s)) ''payment_reconciliation_cases_fkey''
       (\<lambda>s. s\<lparr>payment_reconciliation_cases := payment_reconciliation_cases s @ [row]\<rparr>)"

section \<open>Status updates\<close>

text \<open>\<open>UPDATE ... SET status\<close> under the triggers \<open>enforce_payment_intent_transition\<close> and
  \<open>enforce_commitment_transition\<close>, which stop the statement when any matching row may not move.\<close>

fun enforce_payment_intent_transition :: "intentStatus \<Rightarrow> intentStatus \<Rightarrow> bool" where
  "enforce_payment_intent_transition old new \<longleftrightarrow>
     old = Intent_pending
     \<and> new \<in> {Intent_receipt_matched, Intent_amount_mismatch, Intent_cancelled, Intent_expired}"

fun enforce_commitment_transition :: "commitmentStatus \<Rightarrow> commitmentStatus \<Rightarrow> bool" where
  "enforce_commitment_transition old new \<longleftrightarrow>
     (old = Commitment_payment_pending
        \<and> new \<in> {Commitment_payment_received, Commitment_cancelled, Commitment_expired})
     \<or> (old = Commitment_payment_received \<and> new = Commitment_refunded)"

definition set_intent_status :: "uuid \<Rightarrow> intentStatus \<Rightarrow> ('z market_db_scheme, unit) tx" where
  "set_intent_status i new =
     bnd (query (\<lambda>s. exists_row (\<lambda>r. in_id r = i \<and> \<not> enforce_payment_intent_transition (in_status r) new)
                   (payment_intents s))) (\<lambda>bad.
     andThen (require (\<not> bad) (CheckViolation (''payment intent '' @ i @ '' is terminal'')))
     (modify (\<lambda>s. s\<lparr>payment_intents :=
        update_where (\<lambda>r. in_id r = i) (\<lambda>r. r\<lparr>in_status := new\<rparr>) (payment_intents s)\<rparr>)))"

definition set_commitment_status :: "uuid \<Rightarrow> commitmentStatus \<Rightarrow> ('z market_db_scheme, unit) tx" where
  "set_commitment_status i new =
     bnd (query (\<lambda>s. exists_row (\<lambda>r. cm_id r = i \<and> \<not> enforce_commitment_transition (cm_status r) new)
                   (investment_commitments s))) (\<lambda>bad.
     andThen (require (\<not> bad) (CheckViolation ''invalid commitment transition''))
     (modify (\<lambda>s. s\<lparr>investment_commitments :=
        update_where (\<lambda>r. cm_id r = i) (\<lambda>r. r\<lparr>cm_status := new\<rparr>) (investment_commitments s)\<rparr>)))"

text \<open>\<open>UPDATE investment_reservations SET status WHERE commitment_id = $1 AND status =
  'pending_payment'\<close>.\<close>

definition settle_reservations :: "uuid \<Rightarrow> reservationStatus \<Rightarrow> ('z market_db_scheme, unit) tx" where
  "settle_reservations commitmentId new =
     modify (\<lambda>s. s\<lparr>investment_reservations :=
       update_where (\<lambda>r. rv_commitment_id r = Some commitmentId \<and> rv_status r = Reservation_pending_payment)
         (\<lambda>r. r\<lparr>rv_status := new\<rparr>) (investment_reservations s)\<rparr>)"

section \<open>Data subjects of the market's events\<close>

definition commitment_investor :: "'z market_db_scheme \<Rightarrow> uuid \<Rightarrow> uuid list" where
  "commitment_investor s c = map cm_investor_identity_id (filter (\<lambda>r. cm_id r = c) (investment_commitments s))"

definition intent_investor :: "'z market_db_scheme \<Rightarrow> uuid \<Rightarrow> uuid list" where
  "intent_investor s i =
     concat (map (\<lambda>r. commitment_investor s (in_commitment_id r)) (filter (\<lambda>r. in_id r = i) (payment_intents s)))"

definition receipt_investor :: "'z market_db_scheme \<Rightarrow> uuid \<Rightarrow> uuid list" where
  "receipt_investor s i =
     concat (map (\<lambda>r. intent_investor s (rc_payment_intent_id r)) (filter (\<lambda>r. rc_id r = i) (payment_receipts s)))"

definition resolve_market_privacy_subjects :: "'z market_db_scheme \<Rightarrow> string \<Rightarrow> string \<Rightarrow> uuid list" where
  "resolve_market_privacy_subjects s aggregateType aggregateId =
     (if \<not> uuidPattern aggregateId then []
      else let key = toLowerCase aggregateId in
        sort_by str_le (unique_values
          (if aggregateType = ''identity''
           then map idn_id (filter (\<lambda>r. idn_id r = key) (identities s))
           else if aggregateType = ''investment_reservation''
           then map rv_investor_identity_id (filter (\<lambda>r. rv_id r = key) (investment_reservations s))
           else if aggregateType = ''payment_intent'' then intent_investor s key
           else if aggregateType = ''payment_receipt'' then receipt_investor s key
           else if aggregateType = ''payment_reconciliation_case''
           then concat (map (\<lambda>r. receipt_investor s (rk_receipt_id r))
                  (filter (\<lambda>r. rk_id r = key) (payment_reconciliation_cases s)))
           else [])))"

lemmas [tx_defs] = checked_insert_def insert_commitment_def insert_intent_def insert_receipt_def insert_case_def
  set_intent_status_def set_commitment_status_def settle_reservations_def

section \<open>Rules\<close>

lemma checked_insert_Inr:
  "checked_insert taken key known fkey ins s = Inr (u, s') \<longleftrightarrow> \<not> taken s \<and> known s \<and> s' = ins s"
  by (auto simp: checked_insert_def)

lemma set_intent_status_Inr:
  "set_intent_status i new s = Inr (u, s') \<longleftrightarrow>
     (\<forall>r \<in> set (payment_intents s). in_id r = i \<longrightarrow> enforce_payment_intent_transition (in_status r) new)
     \<and> s' = s\<lparr>payment_intents := update_where (\<lambda>r. in_id r = i) (\<lambda>r. r\<lparr>in_status := new\<rparr>) (payment_intents s)\<rparr>"
  unfolding set_intent_status_def tx_simps by auto

lemma set_commitment_status_Inr:
  "set_commitment_status i new s = Inr (u, s') \<longleftrightarrow>
     (\<forall>r \<in> set (investment_commitments s). cm_id r = i \<longrightarrow> enforce_commitment_transition (cm_status r) new)
     \<and> s' = s\<lparr>investment_commitments := update_where (\<lambda>r. cm_id r = i) (\<lambda>r. r\<lparr>cm_status := new\<rparr>) (investment_commitments s)\<rparr>"
  unfolding set_commitment_status_def tx_simps by auto

lemma settle_reservations_Inr:
  "settle_reservations c new s = Inr (u, s') \<longleftrightarrow>
     s' = s\<lparr>investment_reservations :=
       update_where (\<lambda>r. rv_commitment_id r = Some c \<and> rv_status r = Reservation_pending_payment)
         (\<lambda>r. r\<lparr>rv_status := new\<rparr>) (investment_reservations s)\<rparr>"
  by (simp add: settle_reservations_def modify_Inr)

lemmas market_Inr = checked_insert_Inr set_intent_status_Inr set_commitment_status_Inr settle_reservations_Inr

end
