(* ===== verification/Payments.thy ===== *)
theory Payments
  imports Market
begin

text \<open>
  Commitments, payment intents and provider receipts: \<^verbatim>\<open>src/platform/postgres-payments.ts\<close>.
  A receipt that is timely, exact and in the right currency posts one journal and settles the
  intent, its commitment and its reservation in one transaction; any other receipt opens a
  reconciliation case and releases the reservation.
\<close>

section \<open>Inputs\<close>

record payment_commitment_input =
  pc_organizationId :: uuid
  pc_investorIdentityId :: uuid
  pc_offeringReference :: string
  pc_currency :: string
  pc_committedMinor :: js_amount
  pc_provider :: string
  pc_providerReference :: string
  pc_expiresAt :: int
  pc_metadata :: "json_object option"

record created_payment_intent =
  cp_commitmentId :: uuid
  cp_paymentIntentId :: uuid

record provider_receipt_input =
  rp_provider :: string
  rp_providerReference :: string
  rp_providerEventId :: string
  rp_amountMinor :: js_amount
  rp_currency :: string
  rp_receivedAt :: int
  rp_metadata :: "json_object option"

record recorded_receipt =
  rr_receiptId :: uuid
  rr_paymentIntentId :: uuid
  rr_commitmentId :: uuid
  rr_status :: receiptStatus
  rr_journalId :: "uuid option"
  rr_reconciliationCaseId :: "uuid option"
  rr_replayed :: bool

definition payment_text :: "string \<Rightarrow> string \<Rightarrow> error + string" where
  "payment_text v field =
     (let result = trim v in
      if result = [] then Inl (JournalValidationError (field @ '' is required'')) else Inr result)"

definition payment_currency :: "string \<Rightarrow> error + string" where
  "payment_currency v =
     (let result = toUpperCase (trim v) in
      if length result = 3 \<and> list_all is_upper result then Inr result
      else Inl (JournalValidationError ''Payment currency must be ISO 4217 alpha-3''))"

definition payment_minor :: "js_amount \<Rightarrow> error + int" where
  "payment_minor v =
     (if is_unsafe_number v then Inl (JournalValidationError ''Payment amount must be a safe integer minor unit'')
      else let result = amount_value v in
        if result \<le> 0 \<or> result > PG_BIGINT_MAX
        then Inl (JournalValidationError ''Payment amount is outside BIGINT range'')
        else Inr result)"

definition accountCode :: "string \<Rightarrow> string \<Rightarrow> string" where
  "accountCode prefix v = prefix @ ''.'' @ v"

definition clearing_code :: "string \<Rightarrow> string" where
  "clearing_code v = accountCode ''ASSET.PAYSTACK_CLEARING'' v"

definition escrow_code :: "string \<Rightarrow> string" where
  "escrow_code v = accountCode ''LIABILITY.INVESTOR_ESCROW'' v"

definition ensureCollectionAccounts ::
    "runtime \<Rightarrow> uuid \<Rightarrow> string \<Rightarrow> ('z journal_db_scheme, unit) tx" where
  "ensureCollectionAccounts rt organizationId inputCurrency =
     bnd (lift_sum (payment_currency inputCurrency)) (\<lambda>v.
     andThen (ensureLedgerAccount rt \<lparr>lai_organizationId = Some organizationId, lai_code = clearing_code v,
       lai_name = ''Paystack clearing ('' @ v @ '')'', lai_accountType = Asset, lai_normalBalance = Debit\<rparr>)
     (andThen (ensureLedgerAccount rt \<lparr>lai_organizationId = Some organizationId, lai_code = escrow_code v,
       lai_name = ''Investor escrow ('' @ v @ '')'', lai_accountType = Liability, lai_normalBalance = Credit\<rparr>)
     (ret ())))"

section \<open>Creating a commitment\<close>

definition organization_scope :: "uuid \<Rightarrow> string" where
  "organization_scope org = ''organization:'' @ org"

text \<open>The audit record of an action on an entity of an organization.\<close>

definition audit_of :: "uuid \<Rightarrow> uuid option \<Rightarrow> string \<Rightarrow> string \<Rightarrow> string \<Rightarrow> string \<Rightarrow> json_object \<Rightarrow> audit_input" where
  "audit_of org actor actorType action entityType entityId payload =
     \<lparr>ai_scopeKey = organization_scope org, ai_organizationId = Some org, ai_actorId = actor,
      ai_actorType = actorType, ai_action = action, ai_entityType = entityType, ai_entityId = entityId,
      ai_reason = None, ai_payload = JObj payload, ai_occurredAt = None\<rparr>"

definition outbox_of :: "string \<Rightarrow> string \<Rightarrow> string \<Rightarrow> json_object \<Rightarrow> outbox_input" where
  "outbox_of aggregateType aggregateId eventType payload =
     \<lparr>oi_aggregateType = aggregateType, oi_aggregateId = aggregateId, oi_eventType = eventType,
      oi_payload = payload, oi_privacy = None, oi_occurredAt = None\<rparr>"

definition createPaymentCommitmentInTransaction ::
    "runtime \<Rightarrow> payment_commitment_input \<Rightarrow> ('z market_db_scheme, created_payment_intent) tx" where
  "createPaymentCommitmentInTransaction rt inp =
     bnd (lift_sum (payment_minor (pc_committedMinor inp))) (\<lambda>committedMinor.
     bnd (lift_sum (payment_currency (pc_currency inp))) (\<lambda>inputCurrency.
     bnd (query clock) (\<lambda>now.
     andThen (require (\<not> pc_expiresAt inp \<le> now) (PaymentStateError ''Payment intent expiry must be in the future''))
     (bnd (randomUUID rt) (\<lambda>commitmentId.
      bnd (randomUUID rt) (\<lambda>paymentIntentId.
      bnd (lift_sum (payment_text (pc_offeringReference inp) ''offeringReference'')) (\<lambda>offeringReference.
      andThen (insert_commitment \<lparr>cm_id = commitmentId, cm_organization_id = pc_organizationId inp,
        cm_investor_identity_id = pc_investorIdentityId inp, cm_offering_reference = offeringReference,
        cm_currency = inputCurrency, cm_committed_minor = committedMinor, cm_status = Commitment_payment_pending\<rparr>)
      (bnd (lift_sum (payment_text (pc_provider inp) ''provider'')) (\<lambda>provider.
       bnd (lift_sum (payment_text (pc_providerReference inp) ''providerReference'')) (\<lambda>providerReference.
       andThen (insert_intent \<lparr>in_id = paymentIntentId, in_commitment_id = commitmentId, in_provider = provider,
         in_provider_reference = providerReference, in_expected_minor = committedMinor, in_currency = inputCurrency,
         in_status = Intent_pending, in_expires_at = pc_expiresAt inp,
         in_metadata = (case pc_metadata inp of None \<Rightarrow> [] | Some m \<Rightarrow> m)\<rparr>)
       (bnd (appendPostgresAuditEvent rt (audit_of (pc_organizationId inp) (Some (pc_investorIdentityId inp)) ''user''
          ''payment.intent.created'' ''payment_intent'' paymentIntentId
          [(''commitmentId'', JStr commitmentId), (''offeringReference'', JStr (pc_offeringReference inp)),
           (''provider'', JStr (pc_provider inp)), (''amountMinor'', JStr (show_int committedMinor)),
           (''currency'', JStr inputCurrency)])) (\<lambda>audit.
        andThen (appendOutboxEvent rt resolve_market_privacy_subjects (outbox_of ''payment_intent'' paymentIntentId
          ''payment.intent.created'' [(''organizationId'', JStr (pc_organizationId inp)),
            (''commitmentId'', JStr commitmentId), (''auditEventId'', JStr (aud_id audit))]))
        (ret \<lparr>cp_commitmentId = commitmentId, cp_paymentIntentId = paymentIntentId\<rparr>)))))))))))))"

definition createPaymentCommitment ::
    "runtime \<Rightarrow> payment_commitment_input \<Rightarrow> 'z market_db_scheme \<Rightarrow> (error + created_payment_intent) \<times> 'z market_db_scheme" where
  "createPaymentCommitment rt inp =
     withPostgresTransaction deferred_constraints (createPaymentCommitmentInTransaction rt inp)"

section \<open>Recording a receipt\<close>

text \<open>A receipt input after the checks that precede the transaction.\<close>

record normal_receipt =
  nr_provider :: string
  nr_providerReference :: string
  nr_providerEventId :: string
  nr_amountMinor :: int
  nr_currency :: string
  nr_receivedAt :: int
  nr_metadata :: json_object

definition receipt_payload :: "normal_receipt \<Rightarrow> json" where
  "receipt_payload r =
     JObj [(''provider'', JStr (nr_provider r)), (''providerReference'', JStr (nr_providerReference r)),
       (''providerEventId'', JStr (nr_providerEventId r)), (''amountMinor'', JStr (show_int (nr_amountMinor r))),
       (''currency'', JStr (nr_currency r)), (''receivedAt'', JStr (toISOString (nr_receivedAt r))),
       (''metadata'', JObj (nr_metadata r))]"

definition normalize_receipt :: "provider_receipt_input \<Rightarrow> error + normal_receipt" where
  "normalize_receipt inp =
     (case payment_text (rp_provider inp) ''provider'' of
        Inl e \<Rightarrow> Inl e
      | Inr provider \<Rightarrow>
     (case payment_text (rp_providerReference inp) ''providerReference'' of
        Inl e \<Rightarrow> Inl e
      | Inr providerReference \<Rightarrow>
     (case payment_text (rp_providerEventId inp) ''providerEventId'' of
        Inl e \<Rightarrow> Inl e
      | Inr providerEventId \<Rightarrow>
     (case payment_minor (rp_amountMinor inp) of
        Inl e \<Rightarrow> Inl e
      | Inr amountMinor \<Rightarrow>
     (case payment_currency (rp_currency inp) of
        Inl e \<Rightarrow> Inl e
      | Inr receiptCurrency \<Rightarrow>
          Inr \<lparr>nr_provider = provider, nr_providerReference = providerReference, nr_providerEventId = providerEventId,
               nr_amountMinor = amountMinor, nr_currency = receiptCurrency, nr_receivedAt = rp_receivedAt inp,
               nr_metadata = (case rp_metadata inp of None \<Rightarrow> [] | Some m \<Rightarrow> m)\<rparr>)))))"

text \<open>The join of intents with their commitments.\<close>

definition find_intent :: "normal_receipt \<Rightarrow> 'z market_db_scheme \<Rightarrow> (intent_row \<times> commitment_row) option" where
  "find_intent r s =
     (case first_row (\<lambda>i. in_provider i = nr_provider r \<and> in_provider_reference i = nr_providerReference r
               \<and> exists_row (\<lambda>c. cm_id c = in_commitment_id i) (investment_commitments s)) (payment_intents s) of
        None \<Rightarrow> None
      | Some i \<Rightarrow> map_option (\<lambda>c. (i, c))
          (first_row (\<lambda>c. cm_id c = in_commitment_id i) (investment_commitments s)))"

definition receipt_journal :: "normal_receipt \<Rightarrow> intent_row \<Rightarrow> commitment_row \<Rightarrow> post_journal_input" where
  "receipt_journal r intent commitment =
     \<lparr>ji_scopeKey = organization_scope (cm_organization_id commitment),
      ji_organizationId = Some (cm_organization_id commitment),
      ji_idempotencyKey = ''payment-receipt:'' @ nr_provider r @ '':'' @ nr_providerEventId r,
      ji_currency = in_currency intent,
      ji_narrative = ''Provider payment receipt '' @ nr_providerEventId r,
      ji_externalRef = Some (nr_provider r @ '':'' @ nr_providerReference r),
      ji_effectiveAt = Some (nr_receivedAt r), ji_reversalOf = None,
      ji_metadata = Some [(''paymentIntentId'', JStr (in_id intent)), (''commitmentId'', JStr (in_commitment_id intent)),
        (''providerEventId'', JStr (nr_providerEventId r))],
      ji_postings =
        [\<lparr>pi_accountCode = clearing_code (in_currency intent), pi_direction = Debit,
          pi_amountMinor = BigIntAmount (nr_amountMinor r), pi_metadata = None\<rparr>,
         \<lparr>pi_accountCode = escrow_code (in_currency intent), pi_direction = Credit,
          pi_amountMinor = BigIntAmount (nr_amountMinor r), pi_metadata = None\<rparr>]\<rparr>"

definition receipt_row_of :: "normal_receipt \<Rightarrow> uuid \<Rightarrow> uuid \<Rightarrow> string \<Rightarrow> receiptStatus \<Rightarrow> uuid option \<Rightarrow> receipt_row" where
  "receipt_row_of r receiptId intentId payloadHash status journalId =
     \<lparr>rc_id = receiptId, rc_payment_intent_id = intentId, rc_provider = nr_provider r,
      rc_provider_event_id = nr_providerEventId r, rc_payload_hash = payloadHash, rc_amount_minor = nr_amountMinor r,
      rc_currency = nr_currency r, rc_status = status, rc_journal_id = journalId, rc_received_at = nr_receivedAt r,
      rc_metadata = nr_metadata r\<rparr>"

definition record_matched ::
    "runtime \<Rightarrow> normal_receipt \<Rightarrow> string \<Rightarrow> intent_row \<Rightarrow> commitment_row \<Rightarrow> uuid \<Rightarrow> ('z market_db_scheme, recorded_receipt) tx" where
  "record_matched rt r payloadHash intent commitment receiptId =
     andThen (ensureCollectionAccounts rt (cm_organization_id commitment) (in_currency intent))
     (bnd (postJournalInTransaction rt (receipt_journal r intent commitment)) (\<lambda>journal.
      andThen (insert_receipt (receipt_row_of r receiptId (in_id intent) payloadHash Matched (Some (pj_journalId journal))))
      (andThen (set_intent_status (in_id intent) Intent_receipt_matched)
      (andThen (set_commitment_status (in_commitment_id intent) Commitment_payment_received)
      (andThen (settle_reservations (in_commitment_id intent) Reservation_confirmed)
      (bnd (appendPostgresAuditEvent rt (audit_of (cm_organization_id commitment) None ''provider''
         ''payment.receipt.matched'' ''payment_receipt'' receiptId
         [(''paymentIntentId'', JStr (in_id intent)), (''commitmentId'', JStr (in_commitment_id intent)),
          (''journalId'', JStr (pj_journalId journal)), (''provider'', JStr (nr_provider r)),
          (''providerEventId'', JStr (nr_providerEventId r)), (''amountMinor'', JStr (show_int (nr_amountMinor r))),
          (''currency'', JStr (nr_currency r))])) (\<lambda>audit.
       andThen (appendOutboxEvent rt resolve_market_privacy_subjects (outbox_of ''payment_receipt'' receiptId
         ''payment.receipt.matched'' [(''organizationId'', JStr (cm_organization_id commitment)),
           (''paymentIntentId'', JStr (in_id intent)), (''commitmentId'', JStr (in_commitment_id intent)),
           (''journalId'', JStr (pj_journalId journal)), (''auditEventId'', JStr (aud_id audit))]))
       (ret \<lparr>rr_receiptId = receiptId, rr_paymentIntentId = in_id intent, rr_commitmentId = in_commitment_id intent,
             rr_status = Matched, rr_journalId = Some (pj_journalId journal), rr_reconciliationCaseId = None,
             rr_replayed = False\<rparr>))))))))"

fun caseType_text :: "caseType \<Rightarrow> string" where
  "caseType_text Case_amount_mismatch = ''amount_mismatch''"
| "caseType_text Case_currency_mismatch = ''currency_mismatch''"
| "caseType_text Case_late_payment = ''late_payment''"

definition record_mismatch ::
    "runtime \<Rightarrow> normal_receipt \<Rightarrow> string \<Rightarrow> intent_row \<Rightarrow> commitment_row \<Rightarrow> uuid \<Rightarrow> bool \<Rightarrow> caseType \<Rightarrow>
     ('z market_db_scheme, recorded_receipt) tx" where
  "record_mismatch rt r payloadHash intent commitment receiptId isExpired caseType =
     andThen (insert_receipt (receipt_row_of r receiptId (in_id intent) payloadHash Amount_mismatch None))
     (bnd (randomUUID rt) (\<lambda>caseId.
      andThen (insert_case \<lparr>rk_id = caseId, rk_receipt_id = receiptId, rk_organization_id = cm_organization_id commitment,
        rk_case_type = caseType, rk_expected_minor = in_expected_minor intent, rk_actual_minor = nr_amountMinor r,
        rk_currency = in_currency intent, rk_details = [(''receivedCurrency'', JStr (nr_currency r)),
          (''provider'', JStr (nr_provider r)), (''providerEventId'', JStr (nr_providerEventId r))]\<rparr>)
      (andThen (set_intent_status (in_id intent) (if isExpired then Intent_expired else Intent_amount_mismatch))
      (andThen (settle_reservations (in_commitment_id intent) Reservation_released)
      (bnd (appendPostgresAuditEvent rt (audit_of (cm_organization_id commitment) None ''provider''
         ''payment.receipt.reconciliation_required'' ''payment_reconciliation_case'' caseId
         [(''paymentIntentId'', JStr (in_id intent)), (''commitmentId'', JStr (in_commitment_id intent)),
          (''receiptId'', JStr receiptId), (''caseType'', JStr (caseType_text caseType)),
          (''expectedMinor'', JStr (show_int (in_expected_minor intent))),
          (''actualMinor'', JStr (show_int (nr_amountMinor r))), (''currency'', JStr (in_currency intent))])) (\<lambda>audit.
       andThen (appendOutboxEvent rt resolve_market_privacy_subjects (outbox_of ''payment_reconciliation_case'' caseId
         ''payment.receipt.reconciliation_required'' [(''organizationId'', JStr (cm_organization_id commitment)),
           (''paymentIntentId'', JStr (in_id intent)), (''receiptId'', JStr receiptId),
           (''auditEventId'', JStr (aud_id audit))]))
       (ret \<lparr>rr_receiptId = receiptId, rr_paymentIntentId = in_id intent, rr_commitmentId = in_commitment_id intent,
             rr_status = Amount_mismatch, rr_journalId = None, rr_reconciliationCaseId = Some caseId,
             rr_replayed = False\<rparr>)))))))"

fun intentStatus_text :: "intentStatus \<Rightarrow> string" where
  "intentStatus_text Intent_pending = ''pending''"
| "intentStatus_text Intent_receipt_matched = ''receipt_matched''"
| "intentStatus_text Intent_amount_mismatch = ''amount_mismatch''"
| "intentStatus_text Intent_cancelled = ''cancelled''"
| "intentStatus_text Intent_expired = ''expired''"

definition receipt_exact :: "normal_receipt \<Rightarrow> intent_row \<Rightarrow> bool" where
  "receipt_exact r intent \<longleftrightarrow>
     \<not> in_expires_at intent \<le> nr_receivedAt r \<and> in_expected_minor intent = nr_amountMinor r
     \<and> in_currency intent = nr_currency r"

definition receipt_case_type :: "normal_receipt \<Rightarrow> intent_row \<Rightarrow> caseType" where
  "receipt_case_type r intent =
     (if in_expires_at intent \<le> nr_receivedAt r then Case_late_payment
      else if in_currency intent = nr_currency r then Case_amount_mismatch else Case_currency_mismatch)"

definition record_receipt_tx :: "runtime \<Rightarrow> normal_receipt \<Rightarrow> ('z market_db_scheme, recorded_receipt) tx" where
  "record_receipt_tx rt r =
     (let payloadHash = hashPayload rt (receipt_payload r) in
      bnd (query (find_intent r)) (\<lambda>found.
      case found of
        None \<Rightarrow> throw (PaymentIntentNotFoundError ''Payment intent was not found'')
      | Some (intent, commitment) \<Rightarrow>
          bnd (query (\<lambda>s. first_row (\<lambda>x. rc_provider x = nr_provider r
                              \<and> rc_provider_event_id x = nr_providerEventId r) (payment_receipts s))) (\<lambda>existing.
          case existing of
            Some prior \<Rightarrow>
              andThen (require (rc_payload_hash prior = payloadHash)
                (PaymentReceiptConflictError ''Provider receipt event was reused with a different payload''))
              (ret \<lparr>rr_receiptId = rc_id prior, rr_paymentIntentId = in_id intent,
                    rr_commitmentId = in_commitment_id intent, rr_status = rc_status prior,
                    rr_journalId = rc_journal_id prior, rr_reconciliationCaseId = None, rr_replayed = True\<rparr>)
          | None \<Rightarrow>
              andThen (require (in_status intent = Intent_pending)
                (PaymentStateError (''Payment intent is '' @ intentStatus_text (in_status intent))))
              (bnd (randomUUID rt) (\<lambda>receiptId.
               if receipt_exact r intent
               then record_matched rt r payloadHash intent commitment receiptId
               else record_mismatch rt r payloadHash intent commitment receiptId
                      (in_expires_at intent \<le> nr_receivedAt r) (receipt_case_type r intent))))))"

definition recordProviderPaymentReceipt ::
    "runtime \<Rightarrow> provider_receipt_input \<Rightarrow> 'z market_db_scheme \<Rightarrow> (error + recorded_receipt) \<times> 'z market_db_scheme" where
  "recordProviderPaymentReceipt rt inp s =
     (case normalize_receipt inp of
        Inl e \<Rightarrow> (Inl e, s)
      | Inr r \<Rightarrow> withPostgresTransaction deferred_constraints (record_receipt_tx rt r) s)"

lemmas [tx_defs] = ensureCollectionAccounts_def createPaymentCommitmentInTransaction_def createPaymentCommitment_def
  record_matched_def record_mismatch_def record_receipt_tx_def recordProviderPaymentReceipt_def

section \<open>Effects\<close>

definition same_ledger :: "'z journal_db_scheme \<Rightarrow> 'z journal_db_scheme \<Rightarrow> bool" where
  "same_ledger s s' \<longleftrightarrow> ledger_accounts s' = ledger_accounts s \<and> journal_entries s' = journal_entries s
     \<and> journal_postings s' = journal_postings s"

definition same_offerings :: "'z market_db_scheme \<Rightarrow> 'z market_db_scheme \<Rightarrow> bool" where
  "same_offerings s s' \<longleftrightarrow> offering_products s' = offering_products s
     \<and> offering_publication_versions s' = offering_publication_versions s
     \<and> investor_compliance_profiles s' = investor_compliance_profiles s
     \<and> investment_eligibility_snapshots s' = investment_eligibility_snapshots s
     \<and> agreement_acceptances s' = agreement_acceptances s
     \<and> payment_provider_instructions s' = payment_provider_instructions s
     \<and> organizations s' = organizations s \<and> identities s' = identities s \<and> clock s' = clock s"

lemmas frame_defs = same_ledger_def same_offerings_def

lemma create_commitment_effect:
  assumes "createPaymentCommitmentInTransaction rt inp s = Inr (out, s')"
  obtains cm i where
    "investment_commitments s' = investment_commitments s @ [cm]" and "payment_intents s' = payment_intents s @ [i]"
    and "same_ledger s s'" and "same_offerings s s'" and "payment_receipts s' = payment_receipts s"
    and "payment_reconciliation_cases s' = payment_reconciliation_cases s"
    and "investment_reservations s' = investment_reservations s"
    and "cm_id cm = cp_commitmentId out" and "in_id i = cp_paymentIntentId out" and "in_commitment_id i = cm_id cm"
    and "cm_status cm = Commitment_payment_pending" and "in_status i = Intent_pending"
    and "payment_minor (pc_committedMinor inp) = Inr (cm_committed_minor cm)" and "in_expected_minor i = cm_committed_minor cm"
    and "payment_currency (pc_currency inp) = Inr (cm_currency cm)" and "in_currency i = cm_currency cm"
    and "cm_organization_id cm = pc_organizationId inp" and "cm_investor_identity_id cm = pc_investorIdentityId inp"
    and "in_expires_at i = pc_expiresAt inp" and "clock s < pc_expiresAt inp"
    and "\<forall>r \<in> set (investment_commitments s). cm_id r \<noteq> cm_id cm"
    and "\<forall>r \<in> set (payment_intents s). in_id r \<noteq> in_id i
           \<and> (in_provider r, in_provider_reference r) \<noteq> (in_provider i, in_provider_reference i)"
  using assms
  by (fastforce simp: createPaymentCommitmentInTransaction_def insert_commitment_def insert_intent_def market_Inr
      tx_Inr randomUUID_Inr frame_defs elim!: tx_elims dest!: append_audit_frame append_outbox_frame)

lemma ensure_account_frame:
  "ensureLedgerAccount rt inp s = Inr (i, s') \<Longrightarrow>
     \<exists>k rows. s' = s\<lparr>uuids_drawn := k, ledger_accounts := ledger_accounts s @ rows\<rparr>"
  by (drule ensure_account_effect) blast

lemma ensure_collection_steps:
  assumes "ensureCollectionAccounts rt org cur s = Inr (u, s')"
  obtains v i s1 w j where "ensureLedgerAccount rt v s = Inr (i, s1)" and "ensureLedgerAccount rt w s1 = Inr (j, s')"
  using assms unfolding ensureCollectionAccounts_def
  by (elim bnd_Inr andThen_Inr) (unfold tx_Inr, blast)

lemma ensure_collection_frame:
  assumes "ensureCollectionAccounts rt org cur s = Inr (u, s')"
  shows "\<exists>k rows. s' = s\<lparr>uuids_drawn := k, ledger_accounts := ledger_accounts s @ rows\<rparr>"
proof -
  obtain v i s1 w j where "ensureLedgerAccount rt v s = Inr (i, s1)" and "ensureLedgerAccount rt w s1 = Inr (j, s')"
    by (rule ensure_collection_steps [OF assms])
  then obtain k rows k' rows' where "s1 = s\<lparr>uuids_drawn := k, ledger_accounts := ledger_accounts s @ rows\<rparr>"
    and "s' = s1\<lparr>uuids_drawn := k', ledger_accounts := ledger_accounts s1 @ rows'\<rparr>"
    by (auto dest!: ensure_account_frame)
  then have "s' = s\<lparr>uuids_drawn := k', ledger_accounts := ledger_accounts s @ (rows @ rows')\<rparr>" by simp
  then show ?thesis by blast
qed

lemma ensure_collection_ledger_ok:
  assumes "ensureCollectionAccounts rt org cur s = Inr (u, s')" and "ledger_ok s"
  shows "ledger_ok s'"
  by (rule ensure_collection_steps [OF assms(1)]) (blast intro: ensure_account_ledger_ok assms(2))

text \<open>The outcome of a receipt that settles its intent. The journal is either the one stored under
  the receipt's idempotency key, or a new one: a debit of the clearing account and a credit of
  the escrow account by the amount received.\<close>

definition escrow_postings :: "normal_receipt \<Rightarrow> intent_row \<Rightarrow> commitment_row \<Rightarrow> uuid \<Rightarrow> 'z market_db_scheme \<Rightarrow> journal_posting list \<Rightarrow> bool" where
  "escrow_postings r intent commitment j s ps \<longleftrightarrow>
     (\<exists>debit credit. ps = [debit, credit]
        \<and> jp_journal_id debit = j \<and> jp_direction debit = Debit \<and> jp_amount_minor debit = nr_amountMinor r
        \<and> accounts_by_code s (Some (cm_organization_id commitment)) (toUpperCase (trim (clearing_code (in_currency intent))))
            = Some (jp_account_id debit)
        \<and> jp_journal_id credit = j \<and> jp_direction credit = Credit \<and> jp_amount_minor credit = nr_amountMinor r
        \<and> accounts_by_code s (Some (cm_organization_id commitment)) (toUpperCase (trim (escrow_code (in_currency intent))))
            = Some (jp_account_id credit))"

definition matched_outcome ::
    "runtime \<Rightarrow> normal_receipt \<Rightarrow> intent_row \<Rightarrow> commitment_row \<Rightarrow> recorded_receipt \<Rightarrow> 'z market_db_scheme \<Rightarrow> 'z market_db_scheme \<Rightarrow> bool" where
  "matched_outcome rt r intent commitment out s s' \<longleftrightarrow>
     in_status intent = Intent_pending \<and> rr_status out = Matched \<and> same_offerings s s'
     \<and> payment_receipts s' = payment_receipts s @ [receipt_row_of r (rr_receiptId out) (in_id intent)
         (hashPayload rt (receipt_payload r)) Matched (rr_journalId out)]
     \<and> payment_intents s' = update_where (\<lambda>x. in_id x = in_id intent) (\<lambda>x. x\<lparr>in_status := Intent_receipt_matched\<rparr>) (payment_intents s)
     \<and> investment_commitments s' = update_where (\<lambda>x. cm_id x = in_commitment_id intent)
         (\<lambda>x. x\<lparr>cm_status := Commitment_payment_received\<rparr>) (investment_commitments s)
     \<and> investment_reservations s' = update_where
         (\<lambda>x. rv_commitment_id x = Some (in_commitment_id intent) \<and> rv_status x = Reservation_pending_payment)
         (\<lambda>x. x\<lparr>rv_status := Reservation_confirmed\<rparr>) (investment_reservations s)
     \<and> payment_reconciliation_cases s' = payment_reconciliation_cases s
     \<and> rr_journalId out \<notin> rc_journal_id ` set (payment_receipts s)
     \<and> (\<forall>x \<in> set (investment_commitments s). cm_id x = in_commitment_id intent \<longrightarrow> cm_status x = Commitment_payment_pending)
     \<and> (\<exists>j rows es ps. rr_journalId out = Some j \<and> ledger_accounts s' = ledger_accounts s @ rows
         \<and> journal_entries s' = journal_entries s @ es \<and> journal_postings s' = journal_postings s @ ps
         \<and> (if es = [] then ps = [] \<and> j \<in> je_id ` set (journal_entries s)
            else map je_id es = [j] \<and> escrow_postings r intent commitment j s' ps))"

definition mismatch_outcome ::
    "runtime \<Rightarrow> normal_receipt \<Rightarrow> intent_row \<Rightarrow> commitment_row \<Rightarrow> recorded_receipt \<Rightarrow> 'z market_db_scheme \<Rightarrow> 'z market_db_scheme \<Rightarrow> bool" where
  "mismatch_outcome rt r intent commitment out s s' \<longleftrightarrow>
     in_status intent = Intent_pending \<and> rr_status out = Amount_mismatch \<and> rr_journalId out = None
     \<and> same_offerings s s' \<and> same_ledger s s' \<and> investment_commitments s' = investment_commitments s
     \<and> payment_receipts s' = payment_receipts s @ [receipt_row_of r (rr_receiptId out) (in_id intent)
         (hashPayload rt (receipt_payload r)) Amount_mismatch None]
     \<and> payment_intents s' = update_where (\<lambda>x. in_id x = in_id intent)
         (\<lambda>x. x\<lparr>in_status := if in_expires_at intent \<le> nr_receivedAt r then Intent_expired else Intent_amount_mismatch\<rparr>) (payment_intents s)
     \<and> investment_reservations s' = update_where
         (\<lambda>x. rv_commitment_id x = Some (in_commitment_id intent) \<and> rv_status x = Reservation_pending_payment)
         (\<lambda>x. x\<lparr>rv_status := Reservation_released\<rparr>) (investment_reservations s)
     \<and> (\<exists>k. payment_reconciliation_cases s' = payment_reconciliation_cases s @ [k]
         \<and> rr_reconciliationCaseId out = Some (rk_id k) \<and> rk_receipt_id k = rr_receiptId out
         \<and> rk_case_type k = receipt_case_type r intent \<and> rk_expected_minor k = in_expected_minor intent
         \<and> rk_actual_minor k = nr_amountMinor r)"

lemma record_mismatch_outcome:
  assumes "record_mismatch rt r (hashPayload rt (receipt_payload r)) intent commitment receiptId
      (in_expires_at intent \<le> nr_receivedAt r) (receipt_case_type r intent) s = Inr (out, s')"
    and "in_status intent = Intent_pending"
  shows "mismatch_outcome rt r intent commitment out s s'" and "rr_replayed out = False"
  using assms unfolding record_mismatch_def insert_receipt_def insert_case_def
  by (auto simp: mismatch_outcome_def market_Inr tx_Inr randomUUID_Inr frame_defs
      elim!: tx_elims dest!: append_audit_frame append_outbox_frame)

lemma receipt_journal_postings:
  assumes "validateJournal (receipt_journal r intent commitment) = Inr (currency, ps)"
  shows "ps = [\<lparr>np_accountCode = toUpperCase (trim (clearing_code (in_currency intent))), np_direction = Debit,
       np_amountMinor = nr_amountMinor r, np_metadata = []\<rparr>,
     \<lparr>np_accountCode = toUpperCase (trim (escrow_code (in_currency intent))), np_direction = Credit,
       np_amountMinor = nr_amountMinor r, np_metadata = []\<rparr>]"
  using assms
  by (auto simp: validateJournal_def receipt_journal_def normalizeMinor_def normalizeAccountCode_def Let_def
      split: if_splits sum.splits)

lemma post_receipt_journal:
  assumes "postJournalInTransaction rt (receipt_journal r intent commitment) s = Inr (journal, s')"
  shows "\<exists>k es ps. s' = s\<lparr>uuids_drawn := k, journal_entries := journal_entries s @ es, journal_postings := journal_postings s @ ps\<rparr>
     \<and> (if es = [] then ps = [] \<and> pj_journalId journal \<in> je_id ` set (journal_entries s)
        else map je_id es = [pj_journalId journal]
          \<and> escrow_postings r intent commitment (pj_journalId journal) s' ps)"
  using assms
proof (cases rule: post_journal_effect)
  case replay
  then show ?thesis
    by (intro exI [of _ "Suc (uuids_drawn s)"] exI [of _ "[]"]) (auto simp: journal_replay_def)
next
  case (fresh currency ps j e acc)
  note ps = receipt_journal_postings [OF fresh(1)]
  have acc: "accounts_by_code s' o' c = accounts_by_code s o' c" for o' c
    by (simp add: accounts_by_code_def fresh(9))
  have org: "ji_organizationId (receipt_journal r intent commitment) = Some (cm_organization_id commitment)"
    by (simp add: receipt_journal_def)
  have "escrow_postings r intent commitment j s' (posting_rows j currency acc 1 ps)"
    using fresh(5) by (auto simp: escrow_postings_def acc ps fresh(4) org)
  moreover have "je_id e = j" by (simp add: fresh(3) entry_of_def)
  ultimately show ?thesis
    by (intro exI [of _ "Suc (uuids_drawn s)"] exI [of _ "[e]"] exI [of _ "posting_rows j currency acc 1 ps"])
       (simp add: fresh(8,9))
qed

lemma escrow_postings_frame:
  "ledger_accounts t = ledger_accounts s \<Longrightarrow> escrow_postings r intent commitment j t ps = escrow_postings r intent commitment j s ps"
  by (simp add: escrow_postings_def accounts_by_code_def)

lemma record_matched_outcome:
  assumes "record_matched rt r (hashPayload rt (receipt_payload r)) intent commitment receiptId s = Inr (out, s')"
    and pending: "in_status intent = Intent_pending"
  shows "matched_outcome rt r intent commitment out s s' \<and> rr_replayed out = False"
proof -
  from assms(1) obtain s1 s2 s3 s4 s5 s6 s7 journal audit i where
    acc: "ensureCollectionAccounts rt (cm_organization_id commitment) (in_currency intent) s = Inr ((), s1)"
    and post: "postJournalInTransaction rt (receipt_journal r intent commitment) s1 = Inr (journal, s2)"
    and rcpt: "insert_receipt (receipt_row_of r receiptId (in_id intent) (hashPayload rt (receipt_payload r)) Matched
        (Some (pj_journalId journal))) s2 = Inr ((), s3)"
    and intent: "set_intent_status (in_id intent) Intent_receipt_matched s3 = Inr ((), s4)"
    and comm: "set_commitment_status (in_commitment_id intent) Commitment_payment_received s4 = Inr ((), s5)"
    and resv: "settle_reservations (in_commitment_id intent) Reservation_confirmed s5 = Inr ((), s6)"
    and audit: "\<exists>inp. appendPostgresAuditEvent rt inp s6 = Inr (audit, s7)"
    and outbox: "\<exists>inp. appendOutboxEvent rt resolve_market_privacy_subjects inp s7 = Inr (i, s')"
    and out: "out = \<lparr>rr_receiptId = receiptId, rr_paymentIntentId = in_id intent, rr_commitmentId = in_commitment_id intent,
             rr_status = Matched, rr_journalId = Some (pj_journalId journal), rr_reconciliationCaseId = None,
             rr_replayed = False\<rparr>"
    unfolding record_matched_def by (elim bnd_Inr andThen_Inr) (clarsimp simp: ret_Inr, blast)
  obtain k rows where s1: "s1 = s\<lparr>uuids_drawn := k, ledger_accounts := ledger_accounts s @ rows\<rparr>"
    using ensure_collection_frame [OF acc] by blast
  obtain k' es ps where s2: "s2 = s1\<lparr>uuids_drawn := k', journal_entries := journal_entries s1 @ es,
        journal_postings := journal_postings s1 @ ps\<rparr>"
    and j: "if es = [] then ps = [] \<and> pj_journalId journal \<in> je_id ` set (journal_entries s1)
        else map je_id es = [pj_journalId journal] \<and> escrow_postings r intent commitment (pj_journalId journal) s2 ps"
    using post_receipt_journal [OF post] by blast
  obtain u n ev hs where s7: "s7 = s6\<lparr>uuids_drawn := u, audit_sequence := n,
        audit_events := audit_events s6 @ [ev], audit_chain_heads := hs\<rparr>"
    using audit append_audit_frame by blast
  obtain u' ob where s': "s' = s7\<lparr>uuids_drawn := u', outbox_events := ob\<rparr>"
    using outbox append_outbox_frame by blast
  note steps = rcpt [unfolded insert_receipt_def] intent comm resv
  have tables: "ledger_accounts s' = ledger_accounts s @ rows" "journal_entries s' = journal_entries s @ es"
    "journal_postings s' = journal_postings s @ ps" "ledger_accounts s' = ledger_accounts s2"
    using steps by (auto simp: s' s7 s2 s1 market_Inr)
  have "if es = [] then ps = [] \<and> pj_journalId journal \<in> je_id ` set (journal_entries s)
        else map je_id es = [pj_journalId journal] \<and> escrow_postings r intent commitment (pj_journalId journal) s' ps"
    using j escrow_postings_frame [OF tables(4)] by (simp add: s1 split: if_splits)
  then have journal: "\<exists>j rows es ps. rr_journalId out = Some j \<and> ledger_accounts s' = ledger_accounts s @ rows
         \<and> journal_entries s' = journal_entries s @ es \<and> journal_postings s' = journal_postings s @ ps
         \<and> (if es = [] then ps = [] \<and> j \<in> je_id ` set (journal_entries s)
            else map je_id es = [j] \<and> escrow_postings r intent commitment j s' ps)"
    using tables(1-3) by (intro exI [of _ "pj_journalId journal"] exI [of _ rows] exI [of _ es] exI [of _ ps]) (simp add: out)
  show ?thesis
    unfolding matched_outcome_def
    using steps pending journal by (auto simp: out s' s7 s2 s1 market_Inr frame_defs receipt_row_of_def)
qed

text \<open>The ledger invariant reads no table of the market.\<close>

lemma ledger_ok_market [simp]:
  "ledger_ok (s\<lparr>payment_receipts := rs\<rparr>) = ledger_ok s" "ledger_ok (s\<lparr>payment_intents := is'\<rparr>) = ledger_ok s"
  "ledger_ok (s\<lparr>investment_commitments := cs\<rparr>) = ledger_ok s" "ledger_ok (s\<lparr>investment_reservations := vs\<rparr>) = ledger_ok s"
  "ledger_ok (s\<lparr>payment_reconciliation_cases := ks\<rparr>) = ledger_ok s" "ledger_ok (t\<lparr>uuids_drawn := k\<rparr>) = ledger_ok t"
  by (simp_all add: ledger_ok_def balanced_entry_def account_known_def)

lemma preserves_market [hoare_intros]:
  "preserves ledger_ok (insert_receipt row)" "preserves ledger_ok (insert_case k)" "preserves ledger_ok (set_intent_status i st)"
  "preserves ledger_ok (set_commitment_status i ct)" "preserves ledger_ok (settle_reservations i vt)" "preserves ledger_ok (randomUUID rt)"
  "preserves ledger_ok (ensureCollectionAccounts rt org cur)" "preserves ledger_ok (postJournalInTransaction rt j)"
  by (auto simp: hoare_def insert_receipt_def insert_case_def market_Inr randomUUID_Inr
      intro: ensure_collection_ledger_ok post_journal_ledger_ok)

lemma record_receipt_ledger_ok: "preserves ledger_ok (record_receipt_tx rt r)"
  unfolding record_receipt_tx_def record_matched_def record_mismatch_def
  by (intro hoare_intros) (auto simp: ledger_ok_def balanced_entry_def account_known_def)

lemma receipt_outcome_cases:
  "case recordProviderPaymentReceipt rt inp s of
     (Inl e, s') \<Rightarrow> s' = s
   | (Inr out, s') \<Rightarrow> \<exists>r intent commitment. normalize_receipt inp = Inr r
       \<and> find_intent r s = Some (intent, commitment)
       \<and> (if rr_replayed out
          then s' = s \<and> (\<exists>prior \<in> set (payment_receipts s). rc_provider prior = nr_provider r
                 \<and> rc_provider_event_id prior = nr_providerEventId r \<and> rc_id prior = rr_receiptId out
                 \<and> rc_payload_hash prior = hashPayload rt (receipt_payload r) \<and> rc_status prior = rr_status out)
          else if receipt_exact r intent then matched_outcome rt r intent commitment out s s'
          else mismatch_outcome rt r intent commitment out s s')"
proof -
  obtain res s' where run: "recordProviderPaymentReceipt rt inp s = (res, s')" by fastforce
  show ?thesis
  proof (cases res)
    case (Inl e)
    with run show ?thesis
      by (auto simp: recordProviderPaymentReceipt_def dest: withPostgresTransaction_rollback split: sum.splits)
  next
    case (Inr out)
    with run obtain r where r: "normalize_receipt inp = Inr r" and tx: "record_receipt_tx rt r s = Inr (out, s')"
      by (auto simp: recordProviderPaymentReceipt_def withPostgresTransaction_commit split: sum.splits)
    from tx obtain intent commitment ex where f: "find_intent r s = Some (intent, commitment)"
      and ex: "first_row (\<lambda>x. rc_provider x = nr_provider r \<and> rc_provider_event_id x = nr_providerEventId r) (payment_receipts s) = ex"
      unfolding record_receipt_tx_def Let_def by (auto simp: tx_Inr elim!: bnd_Inr split: option.splits)
    show ?thesis
    proof (cases ex)
      case (Some prior)
      from first_row_Some [of _ "payment_receipts s" prior] Some ex
      have "prior \<in> set (payment_receipts s) \<and> rc_provider prior = nr_provider r \<and> rc_provider_event_id prior = nr_providerEventId r"
        by auto
      with tx f ex Some Inr run r show ?thesis
        unfolding record_receipt_tx_def Let_def by (auto simp: tx_simps split: if_splits)
    next
      case None
      let ?s = "s\<lparr>uuids_drawn := Suc (uuids_drawn s)\<rparr>"
      let ?h = "hashPayload rt (receipt_payload r)" and ?i = "rt_uuid rt (uuids_drawn s)"
      from tx f ex None have pending: "in_status intent = Intent_pending"
        and rest: "(if receipt_exact r intent then record_matched rt r ?h intent commitment ?i
            else record_mismatch rt r ?h intent commitment ?i (in_expires_at intent \<le> nr_receivedAt r)
              (receipt_case_type r intent)) ?s = Inr (out, s')"
        unfolding record_receipt_tx_def Let_def by (auto simp: tx_simps randomUUID_def split: if_splits)
      have "rr_replayed out = False \<and> (if receipt_exact r intent then matched_outcome rt r intent commitment out ?s s'
          else mismatch_outcome rt r intent commitment out ?s s')"
        using rest by (auto dest: record_matched_outcome [OF _ pending] record_mismatch_outcome [OF _ pending] split: if_splits)
      then have "rr_replayed out = False \<and> (if receipt_exact r intent then matched_outcome rt r intent commitment out s s'
          else mismatch_outcome rt r intent commitment out s s')"
        by (auto simp: matched_outcome_def mismatch_outcome_def frame_defs split: if_splits)
      with Inr run r f show ?thesis by auto
    qed
  qed
qed

lemma receipt_commitment:
  assumes "recordProviderPaymentReceipt rt inp s = (Inr out, s')" and "normalize_receipt inp = Inr r"
    and "find_intent r s = Some (i, c)" and "\<not> rr_replayed out"
  shows "rr_commitmentId out = in_commitment_id i"
proof -
  have "record_receipt_tx rt r s = Inr (out, s')"
    using assms(1,2) by (simp add: recordProviderPaymentReceipt_def withPostgresTransaction_commit)
  then show ?thesis
    using assms(3,4) unfolding record_receipt_tx_def record_matched_def record_mismatch_def
    by (auto simp: tx_Inr Let_def elim!: tx_elims split: option.splits if_splits)
qed

text \<open>C24: what a provider receipt does, in every case. An error changes nothing. A replay (the same
  provider event again) changes nothing and returns the stored receipt. A first receipt that is
  timely, exact and in the intent's currency is recorded as matched, posts at most one journal (a
  debit of clearing and a credit of escrow by the amount received) and settles the intent, the
  commitment and the reservation together. Any other first receipt never touches the ledger or
  the commitment: it opens a reconciliation case of the right kind and releases the reservation.\<close>

theorem receipt_outcomes:
  "case recordProviderPaymentReceipt rt inp s of
     (Inl e, s') \<Rightarrow> s' = s
   | (Inr out, s') \<Rightarrow> \<exists>r intent commitment. normalize_receipt inp = Inr r
       \<and> find_intent r s = Some (intent, commitment)
       \<and> (if rr_replayed out
          then s' = s \<and> (\<exists>prior \<in> set (payment_receipts s). rc_provider prior = nr_provider r
                 \<and> rc_provider_event_id prior = nr_providerEventId r \<and> rc_id prior = rr_receiptId out
                 \<and> rc_payload_hash prior = hashPayload rt (receipt_payload r) \<and> rc_status prior = rr_status out)
          else if receipt_exact r intent then matched_outcome rt r intent commitment out s s'
          else mismatch_outcome rt r intent commitment out s s')"
  by (rule receipt_outcome_cases)

end
