(* ===== verification/Escrow.thy ===== *)
theory Escrow
  imports Payments
begin

text \<open>
  The money invariant of the primary market: every journal of the market belongs to a matched
  receipt, an intent is settled by at most one receipt, and for each organization and currency
  the credit balance of the escrow account and the debit balance of the clearing account both
  equal the amount of the commitments whose payment was received.
\<close>

section \<open>Balances\<close>

text \<open>The join of a posting with the account of an organization that has a code.\<close>

definition posted_to :: "'z journal_db_scheme \<Rightarrow> uuid option \<Rightarrow> string \<Rightarrow> journal_posting \<Rightarrow> bool" where
  "posted_to s org code p \<longleftrightarrow>
     exists_row (\<lambda>a. la_id a = jp_account_id p \<and> la_organization_id a = org \<and> la_code a = code) (ledger_accounts s)"

definition account_balance :: "uuid option \<Rightarrow> string \<Rightarrow> 'z journal_db_scheme \<Rightarrow> int" where
  "account_balance org code s = sum_rows (posted_to s org code) signed_amount (journal_postings s)"

definition received_total :: "uuid \<Rightarrow> string \<Rightarrow> 'z market_db_scheme \<Rightarrow> int" where
  "received_total org currency s =
     sum_rows (\<lambda>c. cm_status c = Commitment_payment_received \<and> cm_organization_id c = org \<and> cm_currency c = currency)
       cm_committed_minor (investment_commitments s)"

section \<open>The invariant\<close>

definition intents_ok :: "'z market_db_scheme \<Rightarrow> bool" where
  "intents_ok s \<longleftrightarrow> distinct (map cm_id (investment_commitments s)) \<and> distinct (map in_id (payment_intents s))
     \<and> in_commitment_id ` set (payment_intents s) \<subseteq> cm_id ` set (investment_commitments s)
     \<and> (\<forall>i \<in> set (payment_intents s). payment_currency (in_currency i) = Inr (in_currency i)
          \<and> (\<forall>c \<in> set (investment_commitments s). cm_id c = in_commitment_id i \<longrightarrow>
               in_currency i = cm_currency c \<and> in_expected_minor i = cm_committed_minor c))"

definition receipt_settles :: "'z market_db_scheme \<Rightarrow> receipt_row \<Rightarrow> bool" where
  "receipt_settles s x \<longleftrightarrow> (\<exists>i \<in> set (payment_intents s). in_id i = rc_payment_intent_id x \<and> in_status i \<noteq> Intent_pending
     \<and> (rc_status x = Matched \<longrightarrow> in_status i = Intent_receipt_matched \<and> rc_amount_minor x = in_expected_minor i
          \<and> rc_currency x = in_currency i \<and> rc_received_at x < in_expires_at i))"

definition receipts_ok :: "'z market_db_scheme \<Rightarrow> bool" where
  "receipts_ok s \<longleftrightarrow> distinct (map rc_payment_intent_id (payment_receipts s))
     \<and> (\<forall>x \<in> set (payment_receipts s). receipt_settles s x)
     \<and> (\<forall>e \<in> set (journal_entries s). Some (je_id e) \<in> rc_journal_id ` set (payment_receipts s))"

definition escrow_ok :: "'z market_db_scheme \<Rightarrow> bool" where
  "escrow_ok s \<longleftrightarrow> (\<forall>org currency.
     account_balance (Some org) (escrow_code currency) s = - received_total org currency s
     \<and> account_balance (Some org) (clearing_code currency) s = received_total org currency s)"

definition money_ok :: "'z market_db_scheme \<Rightarrow> bool" where
  "money_ok s \<longleftrightarrow> ledger_ok s \<and> intents_ok s \<and> receipts_ok s \<and> escrow_ok s"

lemmas money_defs = money_ok_def intents_ok_def receipts_ok_def receipt_settles_def escrow_ok_def

section \<open>Codes\<close>

lemma payment_currency_shape: "payment_currency v = Inr c \<Longrightarrow> length c = 3 \<and> list_all is_upper c"
  by (auto simp: payment_currency_def Let_def split: if_splits)

lemma upper_fixed [simp]: "is_upper c \<Longrightarrow> to_upper c = c" "is_upper c \<Longrightarrow> \<not> is_space c"
  by (auto simp: to_upper_def is_upper_def is_lower_def is_space_def)

lemma length_3: "length c = 3 \<longleftrightarrow> (\<exists>x y z. c = [x, y, z])"
  by (auto simp: numeral_3_eq_3 length_Suc_conv)

lemma currency_suffix:
  assumes "payment_currency v = Inr c" and "p \<noteq> []" and "list_all (\<lambda>x. to_upper x = x) p" and "\<not> is_space (hd p)"
  shows "toUpperCase (trim (p @ c)) = p @ c"
proof -
  obtain x y z where c: "c = [x, y, z]" "is_upper x" "is_upper y" "is_upper z"
    using payment_currency_shape [OF assms(1)] by (auto simp: length_3)
  obtain h r where p: "p = h # r" using assms(2) by (cases p) auto
  have "dropWhile is_space (p @ c) = p @ c" using assms(4) by (simp add: p)
  then have "trim (p @ c) = p @ c" by (simp add: trim_def c)
  then show ?thesis using assms(3) c by (simp add: toUpperCase_def list.map_id0 map_idI list_all_iff)
qed

lemma collection_code:
  assumes "payment_currency v = Inr c"
  shows "toUpperCase (trim (escrow_code c)) = escrow_code c" and "toUpperCase (trim (clearing_code c)) = clearing_code c"
proof -
  have "''LIABILITY.INVESTOR_ESCROW.'' \<noteq> [] \<and> list_all (\<lambda>x. to_upper x = x) ''LIABILITY.INVESTOR_ESCROW.''
      \<and> \<not> is_space (hd ''LIABILITY.INVESTOR_ESCROW.'')"
    and "''ASSET.PAYSTACK_CLEARING.'' \<noteq> [] \<and> list_all (\<lambda>x. to_upper x = x) ''ASSET.PAYSTACK_CLEARING.''
      \<and> \<not> is_space (hd ''ASSET.PAYSTACK_CLEARING.'')"
    by code_simp+
  then show "toUpperCase (trim (escrow_code c)) = escrow_code c" and "toUpperCase (trim (clearing_code c)) = clearing_code c"
    using currency_suffix [OF assms, of "''LIABILITY.INVESTOR_ESCROW.''"] currency_suffix [OF assms, of "''ASSET.PAYSTACK_CLEARING.''"]
    by (simp_all add: escrow_code_def clearing_code_def accountCode_def)
qed

lemma payment_currency_idem: "payment_currency v = Inr c \<Longrightarrow> payment_currency c = Inr c"
  by (auto simp: payment_currency_def Let_def trim_toUpperCase split: if_splits)

lemma code_distinct [simp]: "escrow_code c \<noteq> clearing_code d" "clearing_code d \<noteq> escrow_code c"
  "escrow_code c = escrow_code d \<longleftrightarrow> c = d" "clearing_code c = clearing_code d \<longleftrightarrow> c = d"
  by (auto simp: escrow_code_def clearing_code_def accountCode_def)

section \<open>Balances under the steps\<close>

lemma posting_account_known:
  assumes "ledger_ok s" and "p \<in> set (journal_postings s)"
  shows "jp_account_id p \<in> la_id ` set (ledger_accounts s)"
proof -
  obtain e where e: "e \<in> set (journal_entries s)" "je_id e = jp_journal_id p" using assms by (auto simp: ledger_ok_def)
  then have "p \<in> set (postings_of (je_id e) (journal_postings s))" using assms(2) by (simp add: postings_of_def)
  then have "account_known s (je_organization_id e) (jp_account_id p)"
    using e assms(1) by (auto simp: ledger_ok_def balanced_entry_def Let_def)
  then show ?thesis by (force simp: account_known_def)
qed

lemma account_balance_grow:
  assumes "ledger_ok s" and "ledger_ok s'" and "ledger_accounts s' = ledger_accounts s @ rows"
    and "journal_postings s' = journal_postings s @ ps"
  shows "account_balance org code s' = account_balance org code s + sum_rows (posted_to s' org code) signed_amount ps"
proof -
  have "posted_to s' org code p = posted_to s org code p" if "p \<in> set (journal_postings s)" for p
  proof -
    have "distinct (map la_id (ledger_accounts s @ rows))" using assms(2,3) by (simp add: ledger_ok_def)
    then have "\<forall>a \<in> set rows. la_id a \<noteq> jp_account_id p"
      using posting_account_known [OF assms(1) that] by (metis UnI1 distinct_append disjoint_iff image_eqI list.set_map map_append)
    then show ?thesis by (auto simp: posted_to_def assms(3))
  qed
  then have "sum_rows (posted_to s' org code) signed_amount (journal_postings s) = account_balance org code s"
    unfolding account_balance_def by (intro sum_rows_cong) auto
  then show ?thesis by (simp add: account_balance_def assms(4))
qed

lemma posted_to_code:
  assumes "ledger_ok s" and "accounts_by_code s o' c' = Some (jp_account_id p)"
  shows "posted_to s org code p \<longleftrightarrow> org = o' \<and> code = c'"
proof -
  obtain a where a: "a \<in> set (ledger_accounts s)" "la_organization_id a = o'" "la_code a = c'" "la_id a = jp_account_id p"
    using assms(2) by (auto simp: accounts_by_code_def dest!: first_row_Some)
  have "b = a" if "b \<in> set (ledger_accounts s)" "la_id b = jp_account_id p" for b
    using distinct_map_key_eq [of la_id "ledger_accounts s" b a] assms(1) a(1,4) that by (simp add: ledger_ok_def)
  with a show ?thesis unfolding posted_to_def exists_row_iff by blast
qed

lemma received_total_settle:
  assumes "distinct (map cm_id cs)" and "c \<in> set cs" and "cm_status c = Commitment_payment_pending"
  shows "sum_rows (\<lambda>c. cm_status c = Commitment_payment_received \<and> q c) cm_committed_minor
      (update_where (\<lambda>x. cm_id x = cm_id c) (\<lambda>x. x\<lparr>cm_status := Commitment_payment_received\<rparr>) cs)
    = sum_rows (\<lambda>c. cm_status c = Commitment_payment_received \<and> q c) cm_committed_minor cs
      + (if q (c\<lparr>cm_status := Commitment_payment_received\<rparr>) then cm_committed_minor c else 0)"
  using assms
proof (induction cs)
  case (Cons d cs)
  show ?case
  proof (cases "d = c")
    case True
    with Cons.prems have "update_where (\<lambda>x. cm_id x = cm_id c) (\<lambda>x. x\<lparr>cm_status := Commitment_payment_received\<rparr>) cs = cs"
      by (intro update_where_none) (auto simp: image_iff)
    with True Cons.prems show ?thesis by simp
  next
    case False
    with Cons.prems have "cm_id d \<noteq> cm_id c" by auto
    with False Cons show ?thesis by simp
  qed
qed simp

section \<open>Preservation\<close>

text \<open>What the invariant reads.\<close>

lemma money_ok_frame:
  assumes "money_ok s" and "same_ledger s s'" and "investment_commitments s' = investment_commitments s"
    and "payment_intents s' = payment_intents s" and "payment_receipts s' = payment_receipts s"
  shows "money_ok s'"
  using assms unfolding money_defs same_ledger_def account_balance_def posted_to_def received_total_def
    ledger_ok_def balanced_entry_def account_known_def
  by simp

lemma same_ledger_ok: "same_ledger s s' \<Longrightarrow> ledger_ok s \<Longrightarrow> ledger_ok s'"
  unfolding same_ledger_def using ledger_ok_frame by blast

lemma same_ledger_balance: "same_ledger s s' \<Longrightarrow> account_balance org code s' = account_balance org code s"
  by (simp add: same_ledger_def account_balance_def posted_to_def [abs_def])

text \<open>A new commitment awaits its payment, so no total moves.\<close>

lemma money_ok_commitment:
  assumes ok: "money_ok s" and led: "same_ledger s s'"
    and cs: "investment_commitments s' = investment_commitments s @ [cm]" and ins: "payment_intents s' = payment_intents s @ [i]"
    and rs: "payment_receipts s' = payment_receipts s"
    and new: "in_commitment_id i = cm_id cm" "cm_status cm = Commitment_payment_pending" "in_expected_minor i = cm_committed_minor cm"
      "payment_currency v = Inr (cm_currency cm)" "in_currency i = cm_currency cm"
    and fresh: "\<forall>r \<in> set (investment_commitments s). cm_id r \<noteq> cm_id cm" "\<forall>r \<in> set (payment_intents s). in_id r \<noteq> in_id i"
  shows "money_ok s'"
proof -
  have "intents_ok s'"
    using ok new fresh payment_currency_idem [OF new(4)] unfolding money_ok_def intents_ok_def cs ins by auto
  moreover have "receipts_ok s'"
    using ok led unfolding money_ok_def receipts_ok_def receipt_settles_def rs ins same_ledger_def by auto
  moreover have "escrow_ok s'"
    using ok new(2) unfolding money_ok_def escrow_ok_def same_ledger_balance [OF led] by (simp add: received_total_def cs)
  ultimately show ?thesis using ok led same_ledger_ok unfolding money_ok_def by blast
qed

text \<open>Intents leave the pending state one at a time; a receipt that settles one keeps its place.\<close>

lemma intents_ok_status:
  assumes "intents_ok s"
    and ins: "payment_intents s' = update_where p (\<lambda>x. x\<lparr>in_status := st\<rparr>) (payment_intents s)"
    and cs: "investment_commitments s' = update_where q (\<lambda>x. x\<lparr>cm_status := ct\<rparr>) (investment_commitments s)"
  shows "intents_ok s'"
proof -
  have "map in_id (payment_intents s') = map in_id (payment_intents s)" "map cm_id (investment_commitments s') = map cm_id (investment_commitments s)"
    "map in_commitment_id (payment_intents s') = map in_commitment_id (payment_intents s)"
    unfolding ins cs by (simp_all add: table_simps)
  then have keys: "in_commitment_id ` set (payment_intents s') = in_commitment_id ` set (payment_intents s)"
    "cm_id ` set (investment_commitments s') = cm_id ` set (investment_commitments s)"
    "distinct (map cm_id (investment_commitments s'))" "distinct (map in_id (payment_intents s'))"
    using assms(1) by (metis set_map, metis set_map, simp_all add: intents_ok_def)
  show ?thesis
    using assms(1) keys unfolding intents_ok_def by (auto simp: ins cs set_update_where split: if_splits)
qed

lemma receipts_ok_settle:
  assumes "receipts_ok s" and "intents_ok s" and i: "i \<in> set (payment_intents s)" "in_status i = Intent_pending"
    and ins: "payment_intents s' = update_where (\<lambda>x. in_id x = in_id i) (\<lambda>x. x\<lparr>in_status := st\<rparr>) (payment_intents s)"
    and rs: "payment_receipts s' = payment_receipts s @ [x]" and x: "rc_payment_intent_id x = in_id i" "st \<noteq> Intent_pending"
      "rc_status x = Matched \<Longrightarrow> st = Intent_receipt_matched \<and> rc_amount_minor x = in_expected_minor i
          \<and> rc_currency x = in_currency i \<and> rc_received_at x < in_expires_at i"
    and es: "\<forall>e \<in> set (journal_entries s') - set (journal_entries s). Some (je_id e) = rc_journal_id x"
  shows "receipts_ok s'"
proof -
  have old: "receipt_settles s' y \<and> rc_payment_intent_id y \<noteq> in_id i" if "y \<in> set (payment_receipts s)" for y
  proof -
    have "receipt_settles s y" using that assms(1) by (simp add: receipts_ok_def)
    then obtain k where k: "k \<in> set (payment_intents s)" "in_id k = rc_payment_intent_id y" "in_status k \<noteq> Intent_pending"
      "rc_status y = Matched \<longrightarrow> in_status k = Intent_receipt_matched \<and> rc_amount_minor y = in_expected_minor k
          \<and> rc_currency y = in_currency k \<and> rc_received_at y < in_expires_at k"
      unfolding receipt_settles_def by blast
    have "in_id k \<noteq> in_id i"
      using distinct_map_key_eq [of in_id "payment_intents s" k i] assms(2) i k by (auto simp: intents_ok_def)
    with k show ?thesis unfolding receipt_settles_def ins by (auto simp: set_update_where intro!: bexI [of _ k])
  qed
  have "receipt_settles s' x"
    using x i(1) unfolding receipt_settles_def ins
    by (intro bexI [of _ "i\<lparr>in_status := st\<rparr>"]) (auto simp: set_update_where intro!: image_eqI [of _ _ i])
  moreover have "distinct (map rc_payment_intent_id (payment_receipts s @ [x]))"
  proof -
    have "in_id i \<notin> rc_payment_intent_id ` set (payment_receipts s)"
    proof
      assume "in_id i \<in> rc_payment_intent_id ` set (payment_receipts s)"
      then obtain y where "in_id i = rc_payment_intent_id y" "y \<in> set (payment_receipts s)" by (rule imageE)
      then show False using old [of y] by simp
    qed
    then show ?thesis using assms(1) x(1) by (simp add: receipts_ok_def)
  qed
  moreover have "Some (je_id e) \<in> rc_journal_id ` set (payment_receipts s @ [x])" if "e \<in> set (journal_entries s')" for e
    using that assms(1) es by (cases "e \<in> set (journal_entries s)") (auto simp: receipts_ok_def)
  ultimately show ?thesis using old unfolding receipts_ok_def rs by auto
qed

lemma find_intent_Some:
  assumes "find_intent r s = Some (i, c)"
  shows "i \<in> set (payment_intents s)" and "c \<in> set (investment_commitments s)" and "cm_id c = in_commitment_id i"
  using assms by (auto simp: find_intent_def dest!: first_row_Some split: option.splits)

lemma money_ok_matched:
  assumes ok: "money_ok s" and led: "ledger_ok s'" and f: "find_intent r s = Some (i, c)" and ex: "receipt_exact r i"
    and m: "matched_outcome rt r i c out s s'" and pend: "cm_status c = Commitment_payment_pending"
  shows "money_ok s'"
proof -
  note m = m [unfolded matched_outcome_def]
  note fi = find_intent_Some [OF f]
  have parts: "ledger_ok s" "intents_ok s" "receipts_ok s" "escrow_ok s" using ok by (simp_all add: money_ok_def)
  obtain j rows es ps where j: "rr_journalId out = Some j" and acc: "ledger_accounts s' = ledger_accounts s @ rows"
    and es: "journal_entries s' = journal_entries s @ es" and ps: "journal_postings s' = journal_postings s @ ps"
    and new: "if es = [] then ps = [] \<and> j \<in> je_id ` set (journal_entries s)
            else map je_id es = [j] \<and> escrow_postings r i c j s' ps"
    using m by blast
  have "j \<notin> je_id ` set (journal_entries s)"
  proof
    assume "j \<in> je_id ` set (journal_entries s)"
    then have "Some j \<in> rc_journal_id ` set (payment_receipts s)" using parts(3) by (auto simp: receipts_ok_def)
    with m j show False by simp
  qed
  with new have es1: "map je_id es = [j]" and post: "escrow_postings r i c j s' ps" by (auto split: if_splits)
  have cur: "payment_currency (in_currency i) = Inr (in_currency i)" "in_currency i = cm_currency c" "in_expected_minor i = cm_committed_minor c"
    using parts(2) fi unfolding intents_ok_def by auto
  have bal: "account_balance (Some org) code s' = account_balance (Some org) code s
      + (if org = cm_organization_id c \<and> code = clearing_code (cm_currency c) then cm_committed_minor c else 0)
      - (if org = cm_organization_id c \<and> code = escrow_code (cm_currency c) then cm_committed_minor c else 0)" for org code
  proof -
    obtain debit credit where pc: "ps = [debit, credit]" "jp_direction debit = Debit" "jp_amount_minor debit = cm_committed_minor c"
        "jp_direction credit = Credit" "jp_amount_minor credit = cm_committed_minor c"
        "accounts_by_code s' (Some (cm_organization_id c)) (clearing_code (cm_currency c)) = Some (jp_account_id debit)"
        "accounts_by_code s' (Some (cm_organization_id c)) (escrow_code (cm_currency c)) = Some (jp_account_id credit)"
      using post ex cur collection_code [OF cur(1)] by (auto simp: escrow_postings_def receipt_exact_def)
    show ?thesis
      unfolding account_balance_grow [OF parts(1) led acc ps]
      by (auto simp: pc signed_amount_def posted_to_code [OF led pc(6)] posted_to_code [OF led pc(7)])
  qed
  have tot: "received_total org cur s' = received_total org cur s
      + (if cm_organization_id c = org \<and> cm_currency c = cur then cm_committed_minor c else 0)" for org cur
    using received_total_settle [OF _ fi(2) pend, of "\<lambda>c. cm_organization_id c = org \<and> cm_currency c = cur"] m fi(3) parts(2)
    by (simp add: received_total_def intents_ok_def)
  have "escrow_ok s'" using parts(4) unfolding escrow_ok_def bal tot by simp
  moreover have "receipts_ok s'"
    by (rule receipts_ok_settle [OF parts(3,2) fi(1), where st = Intent_receipt_matched and
          x = "receipt_row_of r (rr_receiptId out) (in_id i) (hashPayload rt (receipt_payload r)) Matched (rr_journalId out)"])
       (use m ex es es1 j in \<open>auto simp: receipt_row_of_def receipt_exact_def\<close>)
  moreover have "intents_ok s'"
    by (rule intents_ok_status [OF parts(2)]) (use m in blast)+
  ultimately show ?thesis using led by (simp add: money_ok_def)
qed

lemma money_ok_mismatch:
  assumes ok: "money_ok s" and f: "find_intent r s = Some (i, c)" and m: "mismatch_outcome rt r i c out s s'"
  shows "money_ok s'"
proof -
  note m = m [unfolded mismatch_outcome_def]
  have led: "same_ledger s s'" using m by blast
  have parts: "intents_ok s" "receipts_ok s" "escrow_ok s" using ok by (simp_all add: money_ok_def)
  let ?st = "if in_expires_at i \<le> nr_receivedAt r then Intent_expired else Intent_amount_mismatch"
  have "investment_commitments s' = update_where (\<lambda>_. False) (\<lambda>x. x\<lparr>cm_status := Commitment_expired\<rparr>) (investment_commitments s)"
    using m by (simp add: update_where_none)
  with m have "intents_ok s'" by (intro intents_ok_status [OF parts(1), of s' _ ?st]) blast+
  moreover have "receipts_ok s'"
    by (rule receipts_ok_settle [OF parts(2,1) find_intent_Some(1) [OF f], where st = ?st and
          x = "receipt_row_of r (rr_receiptId out) (in_id i) (hashPayload rt (receipt_payload r)) Amount_mismatch None"])
       (use m led in \<open>auto simp: receipt_row_of_def same_ledger_def\<close>)
  moreover have "escrow_ok s'"
    using parts(3) m unfolding escrow_ok_def same_ledger_balance [OF led] by (simp add: received_total_def)
  ultimately show ?thesis using same_ledger_ok [OF led] ok by (simp add: money_ok_def)
qed

section \<open>Histories\<close>

lemma createPaymentCommitment_money_ok:
  assumes "createPaymentCommitmentInTransaction rt inp s = Inr (out, s')" and "money_ok s"
  shows "money_ok s'"
  using assms(1) by (rule create_commitment_effect) (rule money_ok_commitment [OF assms(2)], auto)

lemma recordProviderPaymentReceipt_money_ok:
  assumes "money_ok s"
  shows "money_ok (snd (recordProviderPaymentReceipt rt inp s))"
proof -
  obtain res s' where run: "recordProviderPaymentReceipt rt inp s = (res, s')" by fastforce
  have "ledger_ok (snd (recordProviderPaymentReceipt rt inp s))"
    using assms record_receipt_ledger_ok [THEN transaction_preserves]
    by (auto simp: recordProviderPaymentReceipt_def money_ok_def split: sum.splits)
  then have led: "ledger_ok s'" by (simp add: run)
  show ?thesis
  proof (cases res)
    case (Inl e)
    with receipt_outcome_cases [where rt = rt and inp = inp and s = s] assms run show ?thesis by simp
  next
    case (Inr out)
    with receipt_outcome_cases [where rt = rt and inp = inp and s = s] run obtain r i c where f: "find_intent r s = Some (i, c)"
      and "s' = s \<or> (receipt_exact r i \<and> matched_outcome rt r i c out s s') \<or> mismatch_outcome rt r i c out s s'"
      by (auto split: if_splits)
    then consider "s' = s" | "receipt_exact r i" "matched_outcome rt r i c out s s'" | "mismatch_outcome rt r i c out s s'" by blast
    then show ?thesis
    proof cases
      case 2
      then have "cm_status c = Commitment_payment_pending"
        using find_intent_Some [OF f] by (auto simp: matched_outcome_def)
      with money_ok_matched [OF assms led f 2] show ?thesis by (simp add: run)
    qed (use assms run money_ok_mismatch [OF assms f] in auto)
  qed
qed

end
