(* ===== verification/Ledger_Spec.thy ===== *)
theory Ledger_Spec
  imports Escrow
begin

text \<open>
  The accounting journal against an abstract specification: a book of balances by organization and account
  code, with the idempotency keys it has seen. Every command of \<^verbatim>\<open>src/platform/postgres-journal.ts\<close> on the
  tables is a step of the book, and posting answers what the book answers.
\<close>

section \<open>Simulation of a specification\<close>

locale simulation =
  fixes ok :: "'s \<Rightarrow> bool" and step :: "'c \<Rightarrow> 's \<Rightarrow> 's" and abs :: "'s \<Rightarrow> 'a" and spec :: "'a \<Rightarrow> 'a \<Rightarrow> bool"
  assumes step_ok: "ok s \<Longrightarrow> ok (step c s)"
    and step_simulates: "ok s \<Longrightarrow> spec (abs s) (abs (step c s))"
begin

lemma history_simulates: "ok s \<Longrightarrow> spec\<^sup>*\<^sup>* (abs s) (abs (fold step cs s)) \<and> ok (fold step cs s)"
proof (induction cs arbitrary: s)
  case (Cons c cs)
  have "spec\<^sup>*\<^sup>* (abs (step c s)) (abs (fold step cs (step c s))) \<and> ok (fold step cs (step c s))"
    by (rule Cons.IH [OF step_ok [OF Cons.prems]])
  then show ?case using step_simulates [OF Cons.prems, of c] by (simp add: converse_rtranclp_into_rtranclp)
qed simp

end

section \<open>The book\<close>

record book =
  bk_balance :: "uuid option \<Rightarrow> string \<Rightarrow> int"
  bk_seen :: "string \<times> string \<Rightarrow> string option"

fun line_amount :: "normal_posting \<Rightarrow> int" where
  "line_amount p = (case np_direction p of Debit \<Rightarrow> np_amountMinor p | Credit \<Rightarrow> - np_amountMinor p)"

definition lines_total :: "string \<Rightarrow> normal_posting list \<Rightarrow> int" where
  "lines_total acct ps = sum_list (map line_amount (filter (\<lambda>p. np_accountCode p = acct) ps))"

definition enter :: "uuid option \<Rightarrow> string \<times> string \<Rightarrow> string \<Rightarrow> normal_posting list \<Rightarrow> book \<Rightarrow> book" where
  "enter org key h ps b =
     b\<lparr>bk_balance := (\<lambda>o' acct. bk_balance b o' acct + (if o' = org then lines_total acct ps else 0)),
       bk_seen := (bk_seen b)(key := Some h)\<rparr>"

text \<open>Posting to the book: a key that was seen with the same request is a replay, with another request a
  conflict, and a new key enters the lines.\<close>

definition post_spec :: "uuid option \<Rightarrow> string \<times> string \<Rightarrow> string \<Rightarrow> normal_posting list \<Rightarrow> book \<Rightarrow> (bool \<times> book) option" where
  "post_spec org key h ps b =
     (case bk_seen b key of
        Some h' \<Rightarrow> if h' = h then Some (True, b) else None
      | None \<Rightarrow> Some (False, enter org key h ps b))"

inductive book_step :: "book \<Rightarrow> book \<Rightarrow> bool" where
  stutter: "book_step b b"
| entry: "bk_seen b key = None \<Longrightarrow> 2 \<le> length ps \<Longrightarrow> side_total Debit ps = side_total Credit ps \<Longrightarrow>
     book_step b (enter org key h ps b)"

definition book_of :: "'z journal_db_scheme \<Rightarrow> book" where
  "book_of s = \<lparr>bk_balance = (\<lambda>org acct. account_balance org acct s),
     bk_seen = (\<lambda>(scope, key). map_option je_request_hash
       (first_row (\<lambda>e. je_scope_key e = scope \<and> je_idempotency_key e = key) (journal_entries s)))\<rparr>"

section \<open>Refinement\<close>

lemma book_of_cong:
  "ledger_accounts t = ledger_accounts s \<Longrightarrow> journal_postings t = journal_postings s \<Longrightarrow> journal_entries t = journal_entries s
   \<Longrightarrow> book_of t = book_of s"
  by (simp add: book_of_def account_balance_def posted_to_def [abs_def])

lemma posting_rows_balance:
  assumes "ledger_ok s" and "\<forall>p \<in> set ps. accounts_by_code s org (np_accountCode p) \<noteq> None"
  shows "sum_rows (posted_to s o' acct) signed_amount (posting_rows j c (accounts_by_code s org) n ps)
     = (if o' = org then lines_total acct ps else 0)"
  using assms(2)
proof (induction ps arbitrary: n)
  case (Cons p ps)
  then obtain a where a: "accounts_by_code s org (np_accountCode p) = Some a" by auto
  have "posted_to s o' acct \<lparr>jp_journal_id = j, jp_line_number = n, jp_account_id = a, jp_direction = np_direction p,
      jp_amount_minor = np_amountMinor p, jp_currency = c, jp_metadata = np_metadata p\<rparr> \<longleftrightarrow> o' = org \<and> acct = np_accountCode p"
    using posted_to_code [OF assms(1)] a by simp
  then show ?case using Cons a by (auto simp: lines_total_def signed_amount_def split: journalDirection.splits)
qed (simp add: lines_total_def)

lemma post_journal_book:
  assumes "postJournalInTransaction rt inp s = Inr (out, s')" and ok: "ledger_ok s"
  obtains currency ps where "validateJournal inp = Inr (currency, ps)"
    and "post_spec (ji_organizationId inp) (ji_scopeKey inp, ji_idempotencyKey inp)
           (hashPayload rt (journal_request inp currency ps)) ps (book_of s) = Some (pj_replayed out, book_of s')"
    and "book_step (book_of s) (book_of s')"
  using assms(1)
proof (cases rule: post_journal_effect)
  case replay
  then obtain currency ps e where v: "validateJournal inp = Inr (currency, ps)" and e: "e \<in> set (journal_entries s)"
    "je_scope_key e = ji_scopeKey inp" "je_idempotency_key e = ji_idempotencyKey inp"
    "je_request_hash e = hashPayload rt (journal_request inp currency ps)" and out: "pj_replayed out"
    by (auto simp: journal_replay_def)
  have "first_row (\<lambda>x. je_scope_key x = ji_scopeKey inp \<and> je_idempotency_key x = ji_idempotencyKey inp) (journal_entries s) = Some e"
    using ok e(1-3) by (intro first_row_unique [where k = "\<lambda>x. (je_scope_key x, je_idempotency_key x)"]) (auto simp: ledger_ok_def)
  moreover have "book_of s' = book_of s" using replay by (intro book_of_cong) auto
  ultimately show thesis using that [OF v] e(4) out by (simp add: post_spec_def book_of_def book_step.stutter)
next
  case (fresh currency ps j e acc)
  let ?key = "(ji_scopeKey inp, ji_idempotencyKey inp)" and ?h = "hashPayload rt (journal_request inp currency ps)"
  have s'_ok: "ledger_ok s'" by (rule post_journal_ledger_ok [OF assms])
  have acc: "acc = accounts_by_code s' (ji_organizationId inp)"
    by (simp add: fresh(4,9) accounts_by_code_def fun_eq_iff)
  have "account_balance o' acct s' = account_balance o' acct s + (if o' = ji_organizationId inp then lines_total acct ps else 0)" for o' acct
  proof -
    have "account_balance o' acct s' = account_balance o' acct s
        + sum_rows (posted_to s' o' acct) signed_amount (posting_rows j currency acc 1 ps)"
      by (rule account_balance_grow [OF ok s'_ok, where rows = "[]"]) (simp_all add: fresh(9))
    then show ?thesis using posting_rows_balance [OF s'_ok, of ps "ji_organizationId inp" o' acct] fresh(5) by (simp add: acc)
  qed
  moreover have none: "bk_seen (book_of s) ?key = None"
    using fresh(6) by (auto simp: book_of_def first_row_None)
  moreover have "bk_seen (book_of s') = (bk_seen (book_of s))(?key := Some ?h)"
  proof
    fix k show "bk_seen (book_of s') k = ((bk_seen (book_of s))(?key := Some ?h)) k"
    proof (cases "k = ?key")
      case True
      have "first_row (\<lambda>x. je_scope_key x = ji_scopeKey inp \<and> je_idempotency_key x = ji_idempotencyKey inp) (journal_entries s) = None"
        using fresh(6) by (auto simp: first_row_None)
      then show ?thesis using True by (simp add: book_of_def fresh(3,9) entry_of_def first_row_append)
    next
      case False
      then show ?thesis
        by (cases k) (auto simp: book_of_def fresh(3,9) entry_of_def first_row_append split: option.splits)
    qed
  qed
  ultimately have b: "book_of s' = enter (ji_organizationId inp) ?key ?h ps (book_of s)"
    by (simp add: enter_def book_of_def fun_eq_iff)
  show thesis using that [OF fresh(1)] none fresh(8) validateJournal_ok(1,2) [OF fresh(1)]
    by (simp add: post_spec_def b book_step.entry)
qed

lemma post_journal_step:
  "postJournalInTransaction rt inp s = Inr (out, s') \<Longrightarrow> ledger_ok s \<Longrightarrow> book_step (book_of s) (book_of s')"
  by (rule post_journal_book)

lemma reverse_journal_step:
  assumes "reverseJournalInTransaction rt inp j s = Inr (out, s')" and "ledger_ok s"
  shows "book_step (book_of s) (book_of s')"
  using assms by (auto simp: reverseJournalInTransaction_def tx_Inr post_journal_step elim!: tx_elims split: option.splits)

lemma ensure_account_book:
  assumes "ensureLedgerAccount rt inp s = Inr (i, s')" and ok: "ledger_ok s"
  shows "book_of s' = book_of s"
proof -
  obtain rows where s': "s' = s\<lparr>uuids_drawn := Suc (uuids_drawn s), ledger_accounts := ledger_accounts s @ rows\<rparr>"
    using ensure_account_effect [OF assms(1)] by blast
  have "account_balance o' acct s' = account_balance o' acct s" for o' acct
    using account_balance_grow [OF ok ensure_account_ledger_ok [OF assms], of rows "[]" o' acct] by (simp add: s')
  then show ?thesis by (simp add: book_of_def s' fun_eq_iff)
qed

lemma transaction_book:
  assumes "\<And>a s'. m s = Inr (a, s') \<Longrightarrow> book_step (book_of s) (book_of s')"
  shows "book_step (book_of s) (book_of (snd (withPostgresTransaction d m s)))"
  using assms by (auto simp: withPostgresTransaction_def book_step.stutter split: sum.splits option.splits)

interpretation journal_book: simulation ledger_ok "run_ledger_command rt" book_of book_step for rt
proof
  fix s :: "'a journal_db_scheme" and c
  assume ok: "ledger_ok s"
  show "ledger_ok (run_ledger_command rt c s)" by (rule run_ledger_command_ok [OF ok])
  show "book_step (book_of s) (book_of (run_ledger_command rt c s))"
  proof (cases c)
    case (EnsureAccount inp)
    then show ?thesis using ensure_account_book [OF _ ok] by (auto simp: book_step.stutter intro!: transaction_book)
  next
    case (PostJournal inp)
    then show ?thesis by (auto simp: postJournal_def intro!: transaction_book intro: post_journal_step [OF _ ok])
  next
    case (ReverseJournal inp j)
    show ?thesis unfolding ReverseJournal run_ledger_command.simps reverseJournal_def
      by (rule transaction_book) (rule reverse_journal_step [OF _ ok])
  qed
qed

text \<open>C3: the journal refines the book. From an empty ledger, any history of accounts created and journals
  posted, replayed, refused and reversed is a history of the abstract book, in which the only change is
  that the balanced lines of a new key are entered; and whenever posting succeeds after such a history, it answers
  what the book answers (replayed or not), its tables hold the book's new balances, and the book would have
  refused the key for a different request.\<close>

theorem journal_refines_book:
  assumes "ledger_accounts s0 = []" and "journal_entries s0 = []" and "journal_postings s0 = []"
  shows "let s = run_ledger rt cs s0 in
     book_step\<^sup>*\<^sup>* (book_of s0) (book_of s)
     \<and> (\<forall>inp out s'. postJournal rt inp s = (Inr out, s') \<longrightarrow>
          (\<exists>currency ps. validateJournal inp = Inr (currency, ps)
             \<and> post_spec (ji_organizationId inp) (ji_scopeKey inp, ji_idempotencyKey inp)
                 (hashPayload rt (journal_request inp currency ps)) ps (book_of s) = Some (pj_replayed out, book_of s')))"
proof -
  let ?s = "run_ledger rt cs s0"
  have "ledger_ok s0" using assms by (simp add: ledger_ok_def)
  then have "book_step\<^sup>*\<^sup>* (book_of s0) (book_of ?s)" and ok: "ledger_ok ?s"
    unfolding run_ledger_def using journal_book.history_simulates by blast+
  moreover have "\<exists>currency ps. validateJournal inp = Inr (currency, ps)
       \<and> post_spec (ji_organizationId inp) (ji_scopeKey inp, ji_idempotencyKey inp)
           (hashPayload rt (journal_request inp currency ps)) ps (book_of ?s) = Some (pj_replayed out, book_of s')"
    if "postJournal rt inp ?s = (Inr out, s')" for inp out s'
    using that by (auto simp: postJournal_def withPostgresTransaction_commit elim: post_journal_book [OF _ ok])
  ultimately show ?thesis by (simp add: Let_def)
qed

theorem journal_refines_book_witness:
  "book_step\<^sup>*\<^sup>* (book_of sample_journal_db)
     (book_of (run_ledger plain_runtime [EnsureAccount (sample_account ''CASH''), EnsureAccount (sample_account ''ESCROW''),
        PostJournal sample_journal] sample_journal_db))"
  using journal_refines_book [of sample_journal_db plain_runtime
      "[EnsureAccount (sample_account ''CASH''), EnsureAccount (sample_account ''ESCROW''), PostJournal sample_journal]"]
  by (simp add: Let_def sample_journal_db_def)

end
