(* ===== verification/Inbox.thy ===== *)
theory Inbox
  imports Market
begin

text \<open>
  The durable inbox of provider events: \<^verbatim>\<open>src/platform/postgres-inbox.ts\<close> (receipt with privacy
  attribution and duplicate detection, claiming, completion, retry) and the dispatcher loop of
  \<^verbatim>\<open>src/services/postgres-inbox-dispatcher.ts\<close>, over the table of the migrations 001, 010 and 138.
  The effect of an event is the argument \<open>process\<close> of the dispatcher.
\<close>

section \<open>Tables\<close>

record inbox_row =
  ib_id :: uuid
  ib_provider :: string
  ib_external_event_id :: string
  ib_payload :: json_object
  ib_payload_hash :: string
  ib_received_at :: int
  ib_claimed_at :: "int option"
  ib_claimed_by :: "string option"
  ib_processed_at :: "int option"
  ib_failed_at :: "int option"
  ib_attempts :: int
  ib_next_attempt_at :: int
  ib_last_error :: "string option"
  ib_privacy_classification :: string
  ib_privacy_subject_identity_ids :: "uuid list"
  ib_privacy_attribution_basis :: string

text \<open>The columns the attribution reads of the verification applications and of the payout tables.\<close>

record verification_application =
  va_identity_id :: uuid
  va_provider :: string
  va_external_user_id :: string
  va_applicant_id :: "string option"

record distribution_payout =
  dp_investor_identity_id :: uuid
  dp_provider :: string
  dp_provider_transfer_code :: "string option"

record professional_payout =
  pp_invoice_id :: uuid
  pp_provider :: string
  pp_provider_transfer_code :: "string option"

record professional_invoice =
  pv_id :: uuid
  pv_submitted_by_identity_id :: uuid

record inbox_db = market_db +
  inbox_events :: "inbox_row list"
  provider_identity_verification_applications :: "verification_application list"
  distribution_payout_instructions :: "distribution_payout list"
  professional_payout_instructions :: "professional_payout list"
  professional_invoices :: "professional_invoice list"

section \<open>Privacy attribution\<close>

datatype inbox_provider = Paystack | Sumsub

fun provider_text :: "inbox_provider \<Rightarrow> string" where
  "provider_text Paystack = ''paystack''"
| "provider_text Sumsub = ''sumsub''"

record inbox_input =
  ii_provider :: inbox_provider
  ii_externalEventId :: string
  ii_payload :: json_object
  ii_receivedAt :: "int option"

text \<open>\<open>value && typeof value === "object" ? value : {}\<close>; an array has none of the fields read.\<close>

definition object_field :: "string \<Rightarrow> json_object \<Rightarrow> json_object" where
  "object_field k payload = (case get_field k payload of Some (JObj es) \<Rightarrow> es | _ \<Rightarrow> [])"

text \<open>\<open>typeof value === "string" ? value.trim() : ""\<close>.\<close>

definition text_field :: "string \<Rightarrow> json_object \<Rightarrow> string" where
  "text_field k es = (case get_field k es of Some (JStr t) \<Rightarrow> trim t | _ \<Rightarrow> [])"

definition unlinked :: privacy_attribution where
  "unlinked = \<lparr>pa_classification = ''external_subject_unlinked'', pa_subjectIdentityIds = [],
     pa_basis = ''known_provider_unlinked''\<rparr>"

definition attributed_to :: "uuid \<Rightarrow> string \<Rightarrow> privacy_attribution" where
  "attributed_to identityId basis = \<lparr>pa_classification = ''subject_attributed'',
     pa_subjectIdentityIds = [identityId], pa_basis = basis\<rparr>"

definition ambiguous_identity :: error where
  "ambiguous_identity = InboxPayloadConflictError ''Provider event references more than one internal identity''"

definition sumsub_matches :: "json_object \<Rightarrow> 'z inbox_db_scheme \<Rightarrow> uuid list" where
  "sumsub_matches payload s =
     (let event = object_field ''event'' payload;
          externalUserId = text_field ''externalUserId'' event;
          applicantId = text_field ''applicantId'' event
      in unique_values (map va_identity_id (filter (\<lambda>r. va_provider r = ''sumsub''
           \<and> ((externalUserId \<noteq> [] \<and> va_external_user_id r = externalUserId)
              \<or> (applicantId \<noteq> [] \<and> va_applicant_id r = Some applicantId)))
           (provider_identity_verification_applications s))))"

text \<open>The three lookups of a Paystack event, each \<open>LIMIT 1\<close>.\<close>

definition payment_match :: "string \<Rightarrow> 'z inbox_db_scheme \<Rightarrow> (uuid \<times> string) list" where
  "payment_match reference s =
     (if reference = [] then []
      else map (\<lambda>i. (i, ''paystack_payment_reference'')) (take 1
        (concat (map (\<lambda>i. commitment_investor s (in_commitment_id i))
           (filter (\<lambda>i. in_provider i = ''paystack'' \<and> in_provider_reference i = reference) (payment_intents s))))))"

definition distribution_match :: "string \<Rightarrow> 'z inbox_db_scheme \<Rightarrow> (uuid \<times> string) list" where
  "distribution_match transferCode s =
     (if transferCode = [] then []
      else map (\<lambda>r. (dp_investor_identity_id r, ''paystack_distribution_transfer'')) (take 1
        (filter (\<lambda>r. dp_provider r = ''paystack'' \<and> dp_provider_transfer_code r = Some transferCode)
           (distribution_payout_instructions s))))"

definition professional_match :: "string \<Rightarrow> 'z inbox_db_scheme \<Rightarrow> (uuid \<times> string) list" where
  "professional_match transferCode s =
     (if transferCode = [] then []
      else map (\<lambda>i. (i, ''paystack_professional_transfer'')) (take 1
        (concat (map (\<lambda>p. map pv_submitted_by_identity_id
             (filter (\<lambda>v. pv_id v = pp_invoice_id p) (professional_invoices s)))
           (filter (\<lambda>p. pp_provider p = ''paystack'' \<and> pp_provider_transfer_code p = Some transferCode)
             (professional_payout_instructions s))))))"

definition paystack_matches :: "json_object \<Rightarrow> 'z inbox_db_scheme \<Rightarrow> (uuid \<times> string) list" where
  "paystack_matches payload s =
     (let d = object_field ''data'' payload;
          transferCode = text_field ''transfer_code'' d
      in payment_match (text_field ''reference'' d) s @ distribution_match transferCode s
         @ professional_match transferCode s)"

definition resolveInboxPrivacyAttribution ::
    "inbox_provider \<Rightarrow> json_object \<Rightarrow> 'z inbox_db_scheme \<Rightarrow> error + privacy_attribution" where
  "resolveInboxPrivacyAttribution provider payload s =
     (case provider of
        Sumsub \<Rightarrow>
          (case sumsub_matches payload s of
             [] \<Rightarrow> Inr unlinked
           | [i] \<Rightarrow> Inr (attributed_to i ''sumsub_application'')
           | _ \<Rightarrow> Inl ambiguous_identity)
      | Paystack \<Rightarrow>
          (let matches = paystack_matches payload s in
           if length (unique_values (map fst matches)) > 1 then Inl ambiguous_identity
           else case matches of
               [] \<Rightarrow> Inr unlinked
             | (i, basis) # _ \<Rightarrow> Inr (attributed_to i basis)))"

section \<open>Receiving\<close>

record received_inbox_event =
  ri_id :: uuid
  ri_duplicate :: bool
  ri_processed :: bool

definition requiredText :: "string \<Rightarrow> string \<Rightarrow> error + string" where
  "requiredText v field =
     (let normalized = trim v in
      if normalized = [] then Inl (GenericError (field @ '' is required'')) else Inr normalized)"

definition inbox_row_of ::
    "runtime \<Rightarrow> inbox_input \<Rightarrow> string \<Rightarrow> string \<Rightarrow> uuid \<Rightarrow> privacy_attribution \<Rightarrow> int \<Rightarrow> inbox_row" where
  "inbox_row_of rt inp provider externalEventId i privacy now =
     \<lparr>ib_id = i, ib_provider = provider, ib_external_event_id = externalEventId, ib_payload = ii_payload inp,
      ib_payload_hash = hashPayload rt (JObj (ii_payload inp)),
      ib_received_at = (case ii_receivedAt inp of None \<Rightarrow> now | Some t \<Rightarrow> t),
      ib_claimed_at = None, ib_claimed_by = None, ib_processed_at = None, ib_failed_at = None, ib_attempts = 0,
      ib_next_attempt_at = now, ib_last_error = None, ib_privacy_classification = pa_classification privacy,
      ib_privacy_subject_identity_ids = pa_subjectIdentityIds privacy, ib_privacy_attribution_basis = pa_basis privacy\<rparr>"

definition inbox_key :: "string \<Rightarrow> string \<Rightarrow> inbox_row \<Rightarrow> bool" where
  "inbox_key provider externalEventId r \<longleftrightarrow> ib_provider r = provider \<and> ib_external_event_id r = externalEventId"

text \<open>\<open>INSERT ... ON CONFLICT (provider, external_event_id) DO NOTHING RETURNING\<close>: the row trigger
  runs before the conflict is seen. The result says whether a row was inserted.\<close>

definition insert_inbox_row :: "inbox_row \<Rightarrow> ('z inbox_db_scheme, bool) tx" where
  "insert_inbox_row row =
     andThen (validate_event_privacy_attribution (ib_privacy_subject_identity_ids row))
     (bnd (query (\<lambda>s. exists_row (inbox_key (ib_provider row) (ib_external_event_id row)) (inbox_events s))) (\<lambda>known.
      if known then ret False
      else bnd (query (\<lambda>s. exists_row (\<lambda>r. ib_id r = ib_id row) (inbox_events s))) (\<lambda>taken.
        andThen (require (\<not> taken) (UniqueViolation ''inbox_events_pkey''))
        (andThen (modify (\<lambda>s. s\<lparr>inbox_events := inbox_events s @ [row]\<rparr>)) (ret True)))))"

definition same_attribution :: "inbox_row \<Rightarrow> privacy_attribution \<Rightarrow> bool" where
  "same_attribution row privacy \<longleftrightarrow>
     ib_privacy_classification row = pa_classification privacy
     \<and> ib_privacy_attribution_basis row = pa_basis privacy
     \<and> join_with '','' (ib_privacy_subject_identity_ids row) = join_with '','' (pa_subjectIdentityIds privacy)"

text \<open>What an already stored event makes of a second delivery.\<close>

definition duplicate_of :: "runtime \<Rightarrow> inbox_input \<Rightarrow> privacy_attribution \<Rightarrow> inbox_row \<Rightarrow> error + received_inbox_event" where
  "duplicate_of rt inp privacy row =
     (if ib_payload_hash row \<noteq> hashPayload rt (JObj (ii_payload inp))
      then Inl (InboxPayloadConflictError ''Provider event ID was reused with a different payload'')
      else if \<not> same_attribution row privacy
      then Inl (InboxPayloadConflictError ''Provider event attribution changed after immutable receipt'')
      else Inr \<lparr>ri_id = ib_id row, ri_duplicate = True, ri_processed = (ib_processed_at row \<noteq> None)\<rparr>)"

definition receive_tx ::
    "runtime \<Rightarrow> inbox_input \<Rightarrow> string \<Rightarrow> string \<Rightarrow> ('z inbox_db_scheme, received_inbox_event) tx" where
  "receive_tx rt inp provider externalEventId =
     bnd (query (resolveInboxPrivacyAttribution (ii_provider inp) (ii_payload inp))) (\<lambda>resolved.
     bnd (lift_sum resolved) (\<lambda>privacy.
     bnd (randomUUID rt) (\<lambda>i.
     bnd (query clock) (\<lambda>now.
     bnd (insert_inbox_row (inbox_row_of rt inp provider externalEventId i privacy now)) (\<lambda>inserted.
     if inserted then ret \<lparr>ri_id = i, ri_duplicate = False, ri_processed = False\<rparr>
     else bnd (query (\<lambda>s. first_row (inbox_key provider externalEventId) (inbox_events s))) (\<lambda>existing.
       case existing of
         None \<Rightarrow> throw (GenericError ''Inbox event disappeared during duplicate resolution'')
       | Some row \<Rightarrow> lift_sum (duplicate_of rt inp privacy row)))))))"

definition receiveInboxEvent ::
    "runtime \<Rightarrow> inbox_input \<Rightarrow> 'z inbox_db_scheme \<Rightarrow> (error + received_inbox_event) \<times> 'z inbox_db_scheme" where
  "receiveInboxEvent rt inp s =
     (case requiredText (provider_text (ii_provider inp)) ''provider'' of
        Inl e \<Rightarrow> (Inl e, s)
      | Inr provider \<Rightarrow>
     (case requiredText (ii_externalEventId inp) ''externalEventId'' of
        Inl e \<Rightarrow> (Inl e, s)
      | Inr externalEventId \<Rightarrow> withPostgresTransaction no_deferred (receive_tx rt inp provider externalEventId) s))"

section \<open>The queue\<close>

definition inbox_due :: "string list \<Rightarrow> int \<Rightarrow> int \<Rightarrow> inbox_row \<Rightarrow> bool" where
  "inbox_due providers now claimTimeoutSeconds r \<longleftrightarrow>
     ib_provider r \<in> set providers \<and> ib_processed_at r = None \<and> ib_failed_at r = None \<and> ib_next_attempt_at r \<le> now
     \<and> (case ib_claimed_at r of None \<Rightarrow> True | Some t \<Rightarrow> t < now - claimTimeoutSeconds * 1000)"

definition inbox_order :: "inbox_row \<Rightarrow> inbox_row \<Rightarrow> bool" where
  "inbox_order a b \<longleftrightarrow> ib_received_at a < ib_received_at b
     \<or> (ib_received_at a = ib_received_at b \<and> str_le (ib_id a) (ib_id b))"

definition inbox_grab :: "string \<Rightarrow> int \<Rightarrow> inbox_row \<Rightarrow> inbox_row" where
  "inbox_grab workerId now r =
     r\<lparr>ib_claimed_at := Some now, ib_claimed_by := Some workerId, ib_attempts := ib_attempts r + 1\<rparr>"

definition claimInboxEvents ::
    "string \<Rightarrow> string list \<Rightarrow> nat \<Rightarrow> int \<Rightarrow> 'z inbox_db_scheme \<Rightarrow> (error + inbox_row list) \<times> 'z inbox_db_scheme" where
  "claimInboxEvents workerId providers limit claimTimeoutSeconds s =
     (if providers = [] \<or> limit = 0 then (Inr [], s)
      else withPostgresTransaction no_deferred (\<lambda>s.
        let (out, t) = claim_rows ib_id (inbox_due providers (clock s) claimTimeoutSeconds)
              inbox_order limit (inbox_grab workerId (clock s)) (inbox_events s)
        in Inr (out, s\<lparr>inbox_events := t\<rparr>)) s)"

definition inbox_held :: "uuid \<Rightarrow> string \<Rightarrow> inbox_row \<Rightarrow> bool" where
  "inbox_held eventId workerId r \<longleftrightarrow>
     ib_id r = eventId \<and> ib_claimed_by r = Some workerId \<and> ib_processed_at r = None"

definition inbox_process :: "int \<Rightarrow> inbox_row \<Rightarrow> inbox_row" where
  "inbox_process now r =
     r\<lparr>ib_processed_at := Some now, ib_claimed_at := None, ib_claimed_by := None, ib_last_error := None\<rparr>"

definition inbox_postpone :: "int \<times> string \<times> bool \<Rightarrow> int \<Rightarrow> inbox_row \<Rightarrow> inbox_row" where
  "inbox_postpone f now r =
     (case f of (retryAt, message, terminal) \<Rightarrow>
        r\<lparr>ib_claimed_at := None, ib_claimed_by := None,
          ib_next_attempt_at := (if terminal then ib_next_attempt_at r else retryAt),
          ib_failed_at := (if terminal then Some now else None), ib_last_error := Some (take 2000 message)\<rparr>)"

text \<open>Both updates of a claimed row throw when it is not claimed any more.\<close>

definition update_inbox :: "uuid \<Rightarrow> string \<Rightarrow> (int \<Rightarrow> inbox_row \<Rightarrow> inbox_row) \<Rightarrow> ('z inbox_db_scheme, unit) tx" where
  "update_inbox eventId workerId change =
     bnd (query (\<lambda>s. count_rows (inbox_held eventId workerId) (inbox_events s))) (\<lambda>rowCount.
     andThen (modify (\<lambda>s. s\<lparr>inbox_events :=
                update_where (inbox_held eventId workerId) (change (clock s)) (inbox_events s)\<rparr>))
     (require (rowCount = 1) (GenericError (no_longer_claimed ''Inbox event'' eventId))))"

definition markInboxEventProcessed :: "uuid \<Rightarrow> string \<Rightarrow> ('z inbox_db_scheme, unit) tx" where
  "markInboxEventProcessed eventId workerId = update_inbox eventId workerId inbox_process"

definition markInboxEventForRetry ::
    "uuid \<Rightarrow> string \<Rightarrow> int \<times> string \<times> bool \<Rightarrow> 'z inbox_db_scheme \<Rightarrow> (error + unit) \<times> 'z inbox_db_scheme" where
  "markInboxEventForRetry eventId workerId f =
     withPostgresTransaction no_deferred (update_inbox eventId workerId (inbox_postpone f))"

section \<open>Dispatching\<close>

definition inbox_retry :: "env_config \<Rightarrow> (error \<Rightarrow> bool) \<Rightarrow> int \<Rightarrow> inbox_row \<Rightarrow> error \<Rightarrow> int \<times> string \<times> bool" where
  "inbox_retry env isTerminalError now event err =
     (now + delaySeconds (INBOX_RETRY_BASE_SECONDS env) (ib_attempts event) * 1000, error_message err,
      isTerminalError err \<or> INBOX_MAX_ATTEMPTS env \<le> ib_attempts event)"

text \<open>The body of the \<open>try\<close>: the effect, then, in a transaction of its own, the completion.\<close>

definition process_and_mark ::
    "(inbox_row \<Rightarrow> 'z inbox_db_scheme \<Rightarrow> (error + unit) \<times> 'z inbox_db_scheme) \<Rightarrow> string \<Rightarrow> inbox_row \<Rightarrow>
     'z inbox_db_scheme \<Rightarrow> (error + unit) \<times> 'z inbox_db_scheme" where
  "process_and_mark process workerId event s =
     (case process event s of
        (Inl e, s') \<Rightarrow> (Inl e, s')
      | (Inr _, s') \<Rightarrow> withPostgresTransaction no_deferred (markInboxEventProcessed (ib_id event) workerId) s')"

fun dispatch_inbox_events ::
    "env_config \<Rightarrow> (inbox_row \<Rightarrow> 'z inbox_db_scheme \<Rightarrow> (error + unit) \<times> 'z inbox_db_scheme) \<Rightarrow> (error \<Rightarrow> bool) \<Rightarrow>
     string \<Rightarrow> inbox_row list \<Rightarrow> 'z inbox_db_scheme \<Rightarrow> (error + unit) \<times> 'z inbox_db_scheme" where
  "dispatch_inbox_events env process isTerminalError workerId [] s = (Inr (), s)"
| "dispatch_inbox_events env process isTerminalError workerId (event # events) s =
     (case process_and_mark process workerId event s of
        (Inr _, s') \<Rightarrow> dispatch_inbox_events env process isTerminalError workerId events s'
      | (Inl err, s') \<Rightarrow>
          (case markInboxEventForRetry (ib_id event) workerId
                  (inbox_retry env isTerminalError (clock s') event err) s' of
             (Inl err', s'') \<Rightarrow> (Inl err', s'')
           | (Inr _, s'') \<Rightarrow> dispatch_inbox_events env process isTerminalError workerId events s''))"

definition dispatchPendingInboxEvents ::
    "env_config \<Rightarrow> (inbox_row \<Rightarrow> 'z inbox_db_scheme \<Rightarrow> (error + unit) \<times> 'z inbox_db_scheme) \<Rightarrow> (error \<Rightarrow> bool) \<Rightarrow>
     string \<Rightarrow> string list \<Rightarrow> 'z inbox_db_scheme \<Rightarrow> (error + nat) \<times> 'z inbox_db_scheme" where
  "dispatchPendingInboxEvents env process isTerminalError workerId providers s =
     (case claimInboxEvents workerId providers (INBOX_DISPATCH_BATCH_SIZE env)
             (INBOX_CLAIM_TIMEOUT_SECONDS env) s of
        (Inl e, s') \<Rightarrow> (Inl e, s')
      | (Inr events, s') \<Rightarrow>
          (case dispatch_inbox_events env process isTerminalError workerId events s' of
             (Inl e, s'') \<Rightarrow> (Inl e, s'')
           | (Inr _, s'') \<Rightarrow> (Inr (length events), s'')))"

lemmas [tx_defs] = insert_inbox_row_def receive_tx_def receiveInboxEvent_def update_inbox_def
  markInboxEventProcessed_def markInboxEventForRetry_def

section \<open>Receiving, case by case\<close>

lemma requiredText_provider [simp]: "requiredText (provider_text p) f = Inr (provider_text p)"
  by (cases p) (simp_all add: requiredText_def Let_def trim_def is_space_def code_of_def)

lemma insert_inbox_row_Inr:
  "insert_inbox_row row s = Inr (b, s') \<longleftrightarrow>
     sort_by str_le (unique_values (ib_privacy_subject_identity_ids row)) = ib_privacy_subject_identity_ids row
     \<and> (\<forall>k \<in> set (ib_privacy_subject_identity_ids row). \<exists>r \<in> set (identities s). idn_id r = k)
     \<and> (if \<exists>r \<in> set (inbox_events s). inbox_key (ib_provider row) (ib_external_event_id row) r
        then \<not> b \<and> s' = s
        else b \<and> (\<forall>r \<in> set (inbox_events s). ib_id r \<noteq> ib_id row) \<and> s' = s\<lparr>inbox_events := inbox_events s @ [row]\<rparr>)"
  unfolding insert_inbox_row_def validate_event_privacy_attribution_def tx_simps
  by (auto simp: list_all_iff tx_simps)

lemma inbox_row_of_sels [simp]:
  "ib_id (inbox_row_of rt inp p x i privacy now) = i" "ib_provider (inbox_row_of rt inp p x i privacy now) = p"
  "ib_external_event_id (inbox_row_of rt inp p x i privacy now) = x"
  "ib_payload_hash (inbox_row_of rt inp p x i privacy now) = hashPayload rt (JObj (ii_payload inp))"
  "ib_privacy_subject_identity_ids (inbox_row_of rt inp p x i privacy now) = pa_subjectIdentityIds privacy"
  "same_attribution (inbox_row_of rt inp p x i privacy now) privacy"
  "ib_processed_at (inbox_row_of rt inp p x i privacy now) = None"
  "ib_claimed_at (inbox_row_of rt inp p x i privacy now) = None" "ib_claimed_by (inbox_row_of rt inp p x i privacy now) = None"
  by (simp_all add: inbox_row_of_def same_attribution_def)

text \<open>What an accepted delivery did.\<close>

definition accepted_delivery ::
    "runtime \<Rightarrow> inbox_input \<Rightarrow> received_inbox_event \<Rightarrow> 'z inbox_db_scheme \<Rightarrow> 'z inbox_db_scheme \<Rightarrow> bool" where
  "accepted_delivery rt inp out s s' \<longleftrightarrow>
     (\<exists>privacy. resolveInboxPrivacyAttribution (ii_provider inp) (ii_payload inp) s = Inr privacy
       \<and> trim (ii_externalEventId inp) \<noteq> []
       \<and> (if ri_duplicate out
          then s' = s\<lparr>uuids_drawn := Suc (uuids_drawn s)\<rparr>
            \<and> (\<exists>row \<in> set (inbox_events s). inbox_key (provider_text (ii_provider inp)) (trim (ii_externalEventId inp)) row
                 \<and> ib_id row = ri_id out \<and> ib_payload_hash row = hashPayload rt (JObj (ii_payload inp))
                 \<and> same_attribution row privacy \<and> ri_processed out = (ib_processed_at row \<noteq> None))
          else \<not> ri_processed out \<and> ri_id out = rt_uuid rt (uuids_drawn s)
            \<and> (\<forall>row \<in> set (inbox_events s). ib_id row \<noteq> ri_id out
                 \<and> \<not> inbox_key (provider_text (ii_provider inp)) (trim (ii_externalEventId inp)) row)
            \<and> s' = s\<lparr>uuids_drawn := Suc (uuids_drawn s), inbox_events := inbox_events s
                 @ [inbox_row_of rt inp (provider_text (ii_provider inp)) (trim (ii_externalEventId inp)) (ri_id out) privacy (clock s)]\<rparr>))"

lemma receive_run:
  "receiveInboxEvent rt inp s =
     (if trim (ii_externalEventId inp) = [] then (Inl (GenericError ''externalEventId is required''), s)
      else withPostgresTransaction no_deferred
        (receive_tx rt inp (provider_text (ii_provider inp)) (trim (ii_externalEventId inp))) s)"
  by (simp add: receiveInboxEvent_def) (simp add: requiredText_def Let_def)

lemma receive_accepted:
  assumes "receiveInboxEvent rt inp s = (Inr out, s')"
  shows "accepted_delivery rt inp out s s'"
proof -
  let ?p = "provider_text (ii_provider inp)" and ?x = "trim (ii_externalEventId inp)"
  let ?s = "s\<lparr>uuids_drawn := Suc (uuids_drawn s)\<rparr>" and ?i = "rt_uuid rt (uuids_drawn s)"
  have x: "?x \<noteq> []" and tx: "receive_tx rt inp ?p ?x s = Inr (out, s')"
    using assms by (auto simp: receive_run withPostgresTransaction_commit split: if_splits)
  from tx obtain privacy inserted s1 where
    privacy: "resolveInboxPrivacyAttribution (ii_provider inp) (ii_payload inp) s = Inr privacy"
    and ins: "insert_inbox_row (inbox_row_of rt inp ?p ?x ?i privacy (clock s)) ?s = Inr (inserted, s1)"
    and rest: "(if inserted then ret \<lparr>ri_id = ?i, ri_duplicate = False, ri_processed = False\<rparr>
       else bnd (query (\<lambda>s. first_row (inbox_key ?p ?x) (inbox_events s))) (\<lambda>existing.
         case existing of None \<Rightarrow> throw (GenericError ''Inbox event disappeared during duplicate resolution'')
         | Some row \<Rightarrow> lift_sum (duplicate_of rt inp privacy row))) s1 = Inr (out, s')"
    unfolding receive_tx_def by (auto simp: tx_Inr randomUUID_def elim!: tx_elims)
  show ?thesis
  proof (cases inserted)
    case True
    with ins rest privacy x show ?thesis
      unfolding accepted_delivery_def by (auto simp: insert_inbox_row_Inr tx_Inr split: if_splits)
  next
    case False
    with ins have s1: "s1 = ?s" by (auto simp: insert_inbox_row_Inr split: if_splits)
    from False rest obtain row where row: "first_row (inbox_key ?p ?x) (inbox_events s) = Some row"
      and dup: "duplicate_of rt inp privacy row = Inr out" and s': "s' = ?s"
      by (auto simp: s1 tx_Inr elim!: tx_elims split: option.splits)
    from dup have "ib_id row = ri_id out \<and> ri_duplicate out \<and> ib_payload_hash row = hashPayload rt (JObj (ii_payload inp))
        \<and> same_attribution row privacy \<and> ri_processed out = (ib_processed_at row \<noteq> None)"
      by (auto simp: duplicate_of_def split: if_splits)
    with row s' privacy x show ?thesis unfolding accepted_delivery_def by (auto dest: first_row_Some)
  qed
qed

text \<open>What the receipt of a provider event does, in every case. A refused delivery changes
  nothing. An accepted one is either the first with its event id, and then exactly one row is
  appended (unclaimed, unprocessed, attributed as resolved), or a duplicate: then the table is
  unchanged and the answer is the id and the processing state of the stored row, whose payload hash
  and attribution agree with the delivery.\<close>

theorem receive_outcomes:
  "case receiveInboxEvent rt inp s of
     (Inl e, s') \<Rightarrow> s' = s
   | (Inr out, s') \<Rightarrow> accepted_delivery rt inp out s s'"
proof (cases "receiveInboxEvent rt inp s")
  case (Pair res s')
  show ?thesis
  proof (cases res)
    case (Inl e)
    with Pair show ?thesis
      by (auto simp: receive_run dest: withPostgresTransaction_rollback split: if_splits)
  next
    case (Inr out)
    with Pair show ?thesis by (auto intro: receive_accepted)
  qed
qed

section \<open>The inbox as a leased queue\<close>

definition inbox_lease_wf :: "inbox_row \<Rightarrow> bool" where
  "inbox_lease_wf r \<longleftrightarrow> (ib_claimed_by r = None \<longleftrightarrow> ib_claimed_at r = None)"

lemmas inbox_row_defs = inbox_lease_wf_def inbox_due_def inbox_grab_def inbox_held_def inbox_process_def inbox_postpone_def

interpretation iq: row_queue inbox_lease_wf ib_id "\<lambda>r. ib_processed_at r \<noteq> None" ib_claimed_by ib_claimed_at
  ib_attempts "\<lambda>c. inbox_due (fst c)" inbox_order "\<lambda>c. snd c" inbox_grab inbox_held
  "\<lambda>_ :: unit. inbox_process" inbox_postpone True
  by unfold_locales (auto simp: inbox_row_defs split: option.splits prod.splits)

type_synonym inbox_step = "(string list \<times> nat, unit, int \<times> string \<times> bool) queue_step"

fun inbox_queue_step :: "inbox_step \<Rightarrow> 'z inbox_db_scheme \<Rightarrow> 'z inbox_db_scheme" where
  "inbox_queue_step (Claim c w now timeout) s = snd (claimInboxEvents w (fst c) (snd c) timeout (s\<lparr>clock := now\<rparr>))"
| "inbox_queue_step (Complete g w now i) s =
     snd (withPostgresTransaction no_deferred (markInboxEventProcessed i w) (s\<lparr>clock := now\<rparr>))"
| "inbox_queue_step (Release f w now i) s = snd (markInboxEventForRetry i w f (s\<lparr>clock := now\<rparr>))"

definition inbox_run :: "inbox_step list \<Rightarrow> 'z inbox_db_scheme \<Rightarrow> 'z inbox_db_scheme" where
  "inbox_run ss s = fold inbox_queue_step ss s"

text \<open>The invariant of the table: unique ids, unique events, well-formed leases.\<close>

definition inbox_event :: "inbox_row \<Rightarrow> string \<times> string" where
  "inbox_event r = (ib_provider r, ib_external_event_id r)"

definition inbox_ok :: "inbox_row list \<Rightarrow> bool" where
  "inbox_ok t \<longleftrightarrow> distinct (map ib_id t) \<and> distinct (map inbox_event t) \<and> (\<forall>r \<in> set t. inbox_lease_wf r)"

lemma inbox_ok_rows: "inbox_ok t \<Longrightarrow> iq.rows_ok t"
  by (simp add: inbox_ok_def iq.rows_ok_def)

lemma inbox_key_event: "inbox_key p x r \<longleftrightarrow> inbox_event r = (p, x)"
  by (simp add: inbox_key_def inbox_event_def)

lemma claimInboxEvents_table:
  "claimInboxEvents w providers limit timeout s =
     (case claim_rows ib_id (inbox_due providers (clock s) timeout) inbox_order limit (inbox_grab w (clock s)) (inbox_events s) of
        (out, t) \<Rightarrow> (Inr out, s\<lparr>inbox_events := t\<rparr>))"
  by (auto simp: claimInboxEvents_def claim_rows_def Let_def update_where_none inbox_due_def
      withPostgresTransaction_def no_deferred_def)

lemma update_inbox_run:
  "withPostgresTransaction no_deferred (update_inbox i w change) s =
     (if count_rows (inbox_held i w) (inbox_events s) = 1
      then (Inr (), s\<lparr>inbox_events := update_where (inbox_held i w) (change (clock s)) (inbox_events s)\<rparr>)
      else (Inl (GenericError (no_longer_claimed ''Inbox event'' i)), s))"
  by (simp add: update_inbox_def tx_simps withPostgresTransaction_def no_deferred_def)

lemmas mark_inbox_run = markInboxEventProcessed_def markInboxEventForRetry_def update_inbox_run

lemma inbox_queue_step_table: "inbox_events (inbox_queue_step st s) = iq.run_step st (inbox_events s)"
  by (cases st)
     (simp_all add: claimInboxEvents_table mark_inbox_run iq.claim_table_def iq.complete_table_def
        iq.release_table_def split: prod.splits)

lemma inbox_run_table: "inbox_events (inbox_run ss s) = iq.run_steps ss (inbox_events s)"
  by (induction ss arbitrary: s) (simp_all add: inbox_run_def iq.run_steps_def inbox_queue_step_table)

text \<open>The columns that receipt writes once and for all.\<close>

definition evidence :: "inbox_row \<Rightarrow> uuid \<times> (string \<times> string) \<times> string \<times> string \<times> uuid list \<times> string" where
  "evidence r = (ib_id r, inbox_event r, ib_payload_hash r, ib_privacy_classification r,
     ib_privacy_subject_identity_ids r, ib_privacy_attribution_basis r)"

lemma evidence_changes [simp]:
  "evidence (inbox_grab w now r) = evidence r" "evidence (inbox_process now r) = evidence r"
  "evidence (inbox_postpone f now r) = evidence r"
  by (cases f; simp add: evidence_def inbox_event_def inbox_row_defs)+

lemma claim_rows_snd: "snd (claim_rows key due le n grab t) =
    update_where (\<lambda>r. key r \<in> set (map key (take n (sort_by le (filter due t))))) grab t"
  by (simp add: claim_rows_def Let_def)

lemma run_step_evidence: "map evidence (iq.run_step st t) = map evidence t"
  by (cases st)
     (simp_all add: iq.claim_table_def iq.complete_table_def iq.release_table_def case_prod_beta claim_rows_snd map_update_where)

lemma run_steps_evidence: "map evidence (iq.run_steps ss t) = map evidence t"
  by (induction ss arbitrary: t) (simp_all add: iq.run_steps_def run_step_evidence)

lemma same_attribution_evidence: "evidence r = evidence r' \<Longrightarrow> same_attribution r p = same_attribution r' p"
  by (simp add: evidence_def same_attribution_def)

section \<open>Redelivery\<close>

lemma inbox_event_row_of [simp]: "inbox_event (inbox_row_of rt inp p x i privacy now) = (p, x)"
  by (simp add: inbox_event_def)

lemma map_evidence_row:
  assumes "map evidence t' = map evidence t" and "r \<in> set t"
  obtains r' where "r' \<in> set t'" and "evidence r' = evidence r"
proof -
  have "evidence r \<in> set (map evidence t')" using assms by auto
  then show thesis using that by auto
qed

lemma map_evidence_ok:
  assumes "map evidence t' = map evidence t"
  shows "map inbox_event t' = map inbox_event t" and "map ib_id t' = map ib_id t"
proof -
  have "map (\<lambda>e. fst (snd e)) (map evidence t') = map (\<lambda>e. fst (snd e)) (map evidence t)" using assms by simp
  then show "map inbox_event t' = map inbox_event t" by (simp add: evidence_def comp_def)
  have "map fst (map evidence t') = map fst (map evidence t)" using assms by simp
  then show "map ib_id t' = map ib_id t" by (simp add: evidence_def comp_def)
qed

lemma accepted_row:
  assumes "accepted_delivery rt inp out s s'" and "inbox_ok (inbox_events s)"
  obtains row privacy where "row \<in> set (inbox_events s')" and "ib_id row = ri_id out"
    and "inbox_event row = (provider_text (ii_provider inp), trim (ii_externalEventId inp))"
    and "ib_payload_hash row = hashPayload rt (JObj (ii_payload inp))" and "same_attribution row privacy"
    and "resolveInboxPrivacyAttribution (ii_provider inp) (ii_payload inp) s = Inr privacy"
    and "inbox_ok (inbox_events s')"
proof -
  from assms(1) obtain privacy where r: "resolveInboxPrivacyAttribution (ii_provider inp) (ii_payload inp) s = Inr privacy"
    by (auto simp: accepted_delivery_def)
  let ?new = "inbox_row_of rt inp (provider_text (ii_provider inp)) (trim (ii_externalEventId inp)) (ri_id out) privacy (clock s)"
  have new: "inbox_event ?new = (provider_text (ii_provider inp), trim (ii_externalEventId inp))" "inbox_lease_wf ?new"
    by (simp_all add: inbox_lease_wf_def)
  show thesis
  proof (cases "ri_duplicate out")
    case True
    with assms r show thesis by (auto simp: accepted_delivery_def inbox_key_event intro!: that)
  next
    case False
    with assms(1) r have "inbox_events s' = inbox_events s @ [?new]"
      and "\<forall>row \<in> set (inbox_events s). ib_id row \<noteq> ri_id out \<and> inbox_event row \<noteq> inbox_event ?new"
      by (auto simp: accepted_delivery_def inbox_key_event new)
    with assms(2) new r show thesis by (intro that [of ?new privacy]) (auto simp: inbox_ok_def)
  qed
qed

text \<open>A second delivery of a stored event, in a database where the table holds its row and the
  trigger knows its subjects.\<close>

lemma receive_stored:
  assumes ok: "inbox_ok (inbox_events s)" and row: "row \<in> set (inbox_events s)"
    and key: "inbox_event row = (provider_text (ii_provider inp), trim (ii_externalEventId inp))"
    and x: "trim (ii_externalEventId inp) \<noteq> []"
    and r: "resolveInboxPrivacyAttribution (ii_provider inp) (ii_payload inp) s = Inr privacy"
    and known: "\<forall>k \<in> set (pa_subjectIdentityIds privacy). \<exists>r \<in> set (identities s). idn_id r = k"
  shows "receiveInboxEvent rt inp s =
     (case duplicate_of rt inp privacy row of
        Inl e \<Rightarrow> (Inl e, s) | Inr out \<Rightarrow> (Inr out, s\<lparr>uuids_drawn := Suc (uuids_drawn s)\<rparr>))"
proof -
  let ?p = "provider_text (ii_provider inp)" and ?x = "trim (ii_externalEventId inp)"
  let ?s = "s\<lparr>uuids_drawn := Suc (uuids_drawn s)\<rparr>"
  let ?new = "inbox_row_of rt inp ?p ?x (rt_uuid rt (uuids_drawn s)) privacy (clock s)"
  have first: "first_row (inbox_key ?p ?x) (inbox_events s) = Some row"
    using ok row key by (intro first_row_unique [where k = inbox_event]) (auto simp: inbox_ok_def inbox_key_event)
  have "sort_by str_le (unique_values (pa_subjectIdentityIds privacy)) = pa_subjectIdentityIds privacy"
    using r by (auto simp: resolveInboxPrivacyAttribution_def Let_def unlinked_def attributed_to_def
        split: inbox_provider.splits list.splits if_splits)
  then have "insert_inbox_row ?new ?s = Inr (False, ?s)"
    using row key known by (auto simp: insert_inbox_row_Inr inbox_key_event)
  then have "receive_tx rt inp ?p ?x s = (case duplicate_of rt inp privacy row of Inl e \<Rightarrow> Inl e | Inr out \<Rightarrow> Inr (out, ?s))"
    by (simp add: receive_tx_def tx_simps randomUUID_def r first)
  then show ?thesis using x
    by (simp add: receive_run withPostgresTransaction_def no_deferred_def split: sum.splits)
qed

lemma attribution_known:
  assumes "receiveInboxEvent rt inp s = (Inr out, s')"
    and "resolveInboxPrivacyAttribution (ii_provider inp) (ii_payload inp) s = Inr privacy"
  shows "\<forall>k \<in> set (pa_subjectIdentityIds privacy). \<exists>r \<in> set (identities s). idn_id r = k"
  using assms by (auto simp: receive_run withPostgresTransaction_commit receive_tx_def tx_Inr insert_inbox_row_Inr
      randomUUID_def elim!: tx_elims split: if_splits)

text \<open>C32: redelivery. Once an event has been accepted, whatever any workers then do with the queue
  (claims, completions, retries, in any order), the same delivery is accepted again as long as its
  reference still resolves to the same identity: it is answered as a duplicate with the id of the first
  receipt, and no row is added or changed.\<close>

theorem inbox_redelivery:
  assumes "inbox_ok (inbox_events s)" and "receiveInboxEvent rt inp s = (Inr out, s1)"
    and "inbox_events s2 = inbox_events (inbox_run ss s1)" and "set (identities s) \<subseteq> set (identities s2)"
    and "resolveInboxPrivacyAttribution (ii_provider inp) (ii_payload inp) s2
       = resolveInboxPrivacyAttribution (ii_provider inp) (ii_payload inp) s"
  shows "\<exists>out2. receiveInboxEvent rt inp s2 = (Inr out2, s2\<lparr>uuids_drawn := Suc (uuids_drawn s2)\<rparr>)
     \<and> ri_id out2 = ri_id out \<and> ri_duplicate out2"
proof -
  obtain row privacy where row: "row \<in> set (inbox_events s1)" "ib_id row = ri_id out"
      "inbox_event row = (provider_text (ii_provider inp), trim (ii_externalEventId inp))"
      "ib_payload_hash row = hashPayload rt (JObj (ii_payload inp))" "same_attribution row privacy"
    and r: "resolveInboxPrivacyAttribution (ii_provider inp) (ii_payload inp) s = Inr privacy"
    and ok1: "inbox_ok (inbox_events s1)"
    using accepted_row [OF receive_accepted [OF assms(2)] assms(1)] by metis
  have ev: "map evidence (inbox_events s2) = map evidence (inbox_events s1)"
    by (simp add: assms(3) inbox_run_table run_steps_evidence)
  obtain row2 where row2: "row2 \<in> set (inbox_events s2)" "evidence row2 = evidence row"
    using map_evidence_row [OF ev row(1)] by blast
  have "iq.rows_ok (inbox_events s2)"
    unfolding assms(3) inbox_run_table by (rule iq.run_steps_inv) (rule inbox_ok_rows [OF ok1])
  then have ok2: "inbox_ok (inbox_events s2)"
    using map_evidence_ok(1) [OF ev] ok1 by (simp add: inbox_ok_def iq.rows_ok_def)
  have known: "\<forall>k \<in> set (pa_subjectIdentityIds privacy). \<exists>r \<in> set (identities s2). idn_id r = k"
    using attribution_known [OF assms(2) r] assms(4) by blast
  have x: "trim (ii_externalEventId inp) \<noteq> []"
    using receive_accepted [OF assms(2)] by (auto simp: accepted_delivery_def)
  have same: "inbox_event row2 = inbox_event row" "ib_id row2 = ib_id row" "ib_payload_hash row2 = ib_payload_hash row"
    using row2(2) by (simp_all add: evidence_def)
  show ?thesis
    using receive_stored [OF ok2 row2(1), of inp privacy rt] row same x known assms(5) r
      same_attribution_evidence [OF row2(2)] by (simp add: duplicate_of_def)
qed

text \<open>C37: the exception to redelivery. An event that was stored unlinked and is delivered again,
  byte for byte the same, after its reference has been linked to an identity is refused as a
  conflicting replay, although nothing about the event has changed.\<close>

theorem redelivery_after_linking_refused:
  assumes "inbox_ok (inbox_events s)" and "receiveInboxEvent rt inp s = (Inr out, s1)"
    and "resolveInboxPrivacyAttribution (ii_provider inp) (ii_payload inp) s = Inr unlinked"
    and "inbox_events s2 = inbox_events s1" and "identity_known i s2"
    and "resolveInboxPrivacyAttribution (ii_provider inp) (ii_payload inp) s2 = Inr (attributed_to i basis)"
  shows "receiveInboxEvent rt inp s2
     = (Inl (InboxPayloadConflictError ''Provider event attribution changed after immutable receipt''), s2)"
proof -
  obtain row privacy where row: "row \<in> set (inbox_events s1)"
      "inbox_event row = (provider_text (ii_provider inp), trim (ii_externalEventId inp))"
      "ib_payload_hash row = hashPayload rt (JObj (ii_payload inp))" "same_attribution row privacy"
    and r: "resolveInboxPrivacyAttribution (ii_provider inp) (ii_payload inp) s = Inr privacy"
    and ok1: "inbox_ok (inbox_events s1)"
    using accepted_row [OF receive_accepted [OF assms(2)] assms(1)] by metis
  have "\<not> same_attribution row (attributed_to i basis)"
    using row(4) r [unfolded assms(3)] by (auto simp: same_attribution_def unlinked_def attributed_to_def)
  then have "duplicate_of rt inp (attributed_to i basis) row
      = Inl (InboxPayloadConflictError ''Provider event attribution changed after immutable receipt'')"
    using row(3) by (simp add: duplicate_of_def)
  moreover have "trim (ii_externalEventId inp) \<noteq> []"
    using receive_accepted [OF assms(2)] by (auto simp: accepted_delivery_def)
  moreover have "\<forall>k \<in> set (pa_subjectIdentityIds (attributed_to i basis)). \<exists>r \<in> set (identities s2). idn_id r = k"
    using assms(5) by (auto simp: attributed_to_def identity_known_def)
  ultimately show ?thesis
    using receive_stored [of s2 row inp "attributed_to i basis" rt] row ok1 assms(4,6) by simp
qed

section \<open>Leases and rounds\<close>

text \<open>How many of the completions of an event in a run are accepted.\<close>

fun inbox_completions :: "uuid \<Rightarrow> inbox_step list \<Rightarrow> 'z inbox_db_scheme \<Rightarrow> nat" where
  "inbox_completions i [] s = 0"
| "inbox_completions i (st # ss) s =
     (case st of
        Complete g w now j \<Rightarrow>
          (if j = i \<and> fst (withPostgresTransaction no_deferred (markInboxEventProcessed j w) (s\<lparr>clock := now\<rparr>)) = Inr ()
           then 1 else 0)
      | _ \<Rightarrow> 0) + inbox_completions i ss (inbox_queue_step st s)"

lemma inbox_completions_table: "inbox_completions i ss s = iq.completions i ss (inbox_events s)"
  by (induction ss arbitrary: s)
     (auto simp: inbox_queue_step_table mark_inbox_run iq.complete_table_def split: queue_step.splits)

text \<open>An inbox event is completed once and by its lease holder. Under any interleaving of claims,
  completions and retries by any workers at most one completion of an event is accepted; and a worker
  that claimed an event can complete it, as long as every other claim since then was made within its
  own timeout of the lease.\<close>

theorem inbox_processed_once:
  assumes "inbox_ok (inbox_events s)"
    and "claimInboxEvents w providers limit timeout s = (Inr out, s')" and "e \<in> set out"
    and "\<forall>st \<in> set ss. step_worker st \<noteq> w \<and> respects_lease (clock s) st"
  shows "fst (withPostgresTransaction no_deferred (markInboxEventProcessed (ib_id e) w) (inbox_run ss s')) = Inr ()
     \<and> (\<forall>i qs. inbox_completions i qs s' \<le> 1)"
proof
  let ?c = "iq.claim_table (providers, limit) w (clock s) timeout (inbox_events s)"
  have s': "inbox_events s' = snd ?c" and ids: "?c = (map ib_id out, snd ?c)"
    using assms(2) by (auto simp: claimInboxEvents_table iq.claim_table_def split: prod.splits)
  note ok = inbox_ok_rows [OF assms(1)]
  have e: "ib_id e \<in> set (map ib_id out)" using assms(3) by simp
  have "iq.complete_table () w (clock (inbox_run ss s')) (ib_id e) (iq.run_steps ss (snd ?c)) \<noteq> None"
    by (rule iq.claim_then_complete [OF ok ids e assms(4)])
  then show "fst (withPostgresTransaction no_deferred (markInboxEventProcessed (ib_id e) w) (inbox_run ss s')) = Inr ()"
    by (simp add: mark_inbox_run iq.complete_table_def inbox_run_table s' split: if_splits)
  have "iq.rows_ok (inbox_events s')" unfolding s' by (rule iq.claim_inv [OF ok])
  then show "\<forall>i qs. inbox_completions i qs s' \<le> 1"
    unfolding inbox_completions_table by (intro allI iq.completed_at_most_once)
qed

definition keeps_inbox :: "(inbox_row \<Rightarrow> 'z inbox_db_scheme \<Rightarrow> (error + unit) \<times> 'z inbox_db_scheme) \<Rightarrow> bool" where
  "keeps_inbox process \<longleftrightarrow>
     (\<forall>e s. inbox_events (snd (process e s)) = inbox_events s \<and> clock (snd (process e s)) = clock s)"

text \<open>What a round makes of a claimed event.\<close>

definition inbox_settled :: "env_config \<Rightarrow> (error \<Rightarrow> bool) \<Rightarrow> int \<Rightarrow> inbox_row \<Rightarrow> inbox_row \<Rightarrow> bool" where
  "inbox_settled env isTerminalError now r r' \<longleftrightarrow>
     r' = inbox_process now r \<or> (\<exists>err. r' = inbox_postpone (inbox_retry env isTerminalError now r err) now r)"

lemma inbox_settled_free:
  "inbox_settled env isTerminalError now r r' \<Longrightarrow> ib_id r' = ib_id r \<and> inbox_lease_wf r' \<and> ib_claimed_by r' = None"
  by (auto simp: inbox_settled_def inbox_retry_def inbox_row_defs)

lemma dispatch_inbox_settle_all:
  "dispatch_inbox_events env process isTerminalError w es s =
     settle_all (\<lambda>e. dispatch_inbox_events env process isTerminalError w [e]) es s"
  by (induction es arbitrary: s) (auto split: prod.splits sum.splits)

lemma inbox_handler_settles:
  assumes "keeps_inbox process"
  shows "iq.settles (\<lambda>s. clock s = now) inbox_events w (inbox_settled env isTerminalError now)
     (\<lambda>e. dispatch_inbox_events env process isTerminalError w [e])"
  unfolding iq.settles_def
proof (intro conjI allI impI)
  fix e :: inbox_row and s :: "'a inbox_db_scheme"
  assume now: "clock s = now" and one: "count_rows (inbox_held (ib_id e) w) (inbox_events s) = 1"
  obtain res s0 where run: "process e s = (res, s0)" by fastforce
  with assms now have s0: "inbox_events s0 = inbox_events s" "clock s0 = now"
    unfolding keeps_inbox_def by (metis snd_conv)+
  let ?set = "\<lambda>h. s0\<lparr>inbox_events := update_where (inbox_held (ib_id e) w) h (inbox_events s)\<rparr>"
  show "\<exists>h s'. dispatch_inbox_events env process isTerminalError w [e] s = (Inr (), s') \<and> clock s' = now
      \<and> inbox_settled env isTerminalError now e (h e)
      \<and> inbox_events s' = update_where (inbox_held (ib_id e) w) h (inbox_events s)"
  proof (cases res)
    case (Inr u)
    then show ?thesis using run one s0
      by (intro exI [of _ "inbox_process now"] exI [of _ "?set (inbox_process now)"])
         (simp add: process_and_mark_def mark_inbox_run inbox_settled_def)
  next
    case (Inl err)
    let ?h = "inbox_postpone (inbox_retry env isTerminalError now e err) now"
    show ?thesis using run one s0 Inl
      by (intro exI [of _ ?h] exI [of _ "?set ?h"])
         (auto simp: process_and_mark_def mark_inbox_run inbox_settled_def)
  qed
qed (simp_all add: inbox_settled_free)

text \<open>C33: a round of the inbox dispatcher settles what it claims, whatever the effects do as long as
  they leave the inbox table alone. When its worker holds no event at the start, it holds none at the
  end and the round does not fail; every row is untouched, or was due and is now processed, or was due
  and is now released with the back-off of its attempt count, for good exactly when the error is
  terminal or the attempts are used up.\<close>

theorem dispatch_inbox_settles:
  assumes process: "keeps_inbox process" and ok: "inbox_ok (inbox_events s)"
    and free: "\<forall>r \<in> set (inbox_events s). ib_claimed_by r \<noteq> Some w"
  shows "\<exists>n s'. dispatchPendingInboxEvents env process isTerminalError w providers s = (Inr n, s')
     \<and> n \<le> INBOX_DISPATCH_BATCH_SIZE env
     \<and> (\<forall>r \<in> set (inbox_events s'). ib_claimed_by r \<noteq> Some w)
     \<and> list_all2 (\<lambda>r r'. r' = r \<or> (inbox_due providers (clock s) (INBOX_CLAIM_TIMEOUT_SECONDS env) r
           \<and> inbox_settled env isTerminalError (clock s) (inbox_grab w (clock s) r) r')) (inbox_events s) (inbox_events s')"
proof -
  obtain out t where c: "claim_rows ib_id (inbox_due providers (clock s) (INBOX_CLAIM_TIMEOUT_SECONDS env)) inbox_order
      (INBOX_DISPATCH_BATCH_SIZE env) (inbox_grab w (clock s)) (inbox_events s) = (out, t)" by fastforce
  let ?s = "s\<lparr>inbox_events := t\<rparr>" and ?c = "(providers, INBOX_DISPATCH_BATCH_SIZE env)"
  have c': "claim_rows ib_id (inbox_due (fst ?c) (clock s) (INBOX_CLAIM_TIMEOUT_SECONDS env)) inbox_order
      (INBOX_DISPATCH_BATCH_SIZE env) (inbox_grab w (clock s)) (inbox_events s) = (out, inbox_events ?s)" using c by simp
  have clk: "clock ?s = clock s" by simp
  from iq.round_settles [OF inbox_ok_rows [OF ok] free c'
      inbox_handler_settles [OF process, where env = env and isTerminalError = isTerminalError] clk]
  obtain s' where "settle_all (\<lambda>e. dispatch_inbox_events env process isTerminalError w [e]) out ?s = (Inr (), s')"
    and "length out \<le> INBOX_DISPATCH_BATCH_SIZE env" and "\<forall>r \<in> set (inbox_events s'). ib_claimed_by r \<noteq> Some w"
    and "list_all2 (\<lambda>r r'. r' = r \<or> (inbox_due providers (clock s) (INBOX_CLAIM_TIMEOUT_SECONDS env) r
           \<and> inbox_settled env isTerminalError (clock s) (inbox_grab w (clock s) r) r')) (inbox_events s) (inbox_events s')"
    unfolding fst_conv by blast
  then show ?thesis
    by (intro exI [of _ "length out"] exI [of _ s'])
       (simp add: dispatchPendingInboxEvents_def claimInboxEvents_table c
         dispatch_inbox_settle_all [of env process isTerminalError w out])
qed

section \<open>Concrete deliveries\<close>

definition sample_delivery :: inbox_input where
  "sample_delivery = \<lparr>ii_provider = Paystack, ii_externalEventId = ''charge.success:REF-1'',
     ii_payload = [(''eventType'', JStr ''charge.success''), (''data'', JObj [(''reference'', JStr ''REF-1''), (''amount'', JNum 5000)])],
     ii_receivedAt = None\<rparr>"

definition sample_inbox_db :: inbox_db where
  "sample_inbox_db = \<lparr>clock = 1000, uuids_drawn = 0,
     identities = [\<lparr>idn_id = ''p1'', idn_legacy_mongo_id = None, idn_email = ''a@b.c'', idn_active = True\<rparr>],
     audit_sequence = 0, audit_events = [], audit_chain_heads = [], outbox_events = [], organizations = [],
     ledger_accounts = [], journal_entries = [], journal_postings = [], investment_commitments = [],
     payment_intents = [], payment_receipts = [], payment_reconciliation_cases = [], offering_products = [],
     offering_publication_versions = [], investor_compliance_profiles = [], investment_eligibility_snapshots = [],
     agreement_acceptances = [], investment_reservations = [], payment_provider_instructions = [],
     inbox_events = [], provider_identity_verification_applications = [], distribution_payout_instructions = [],
     professional_payout_instructions = [], professional_invoices = []\<rparr>"

text \<open>The same database after a first delivery, and then with the payment that the event refers to.\<close>

definition sample_stored_db :: inbox_db where
  "sample_stored_db = snd (receiveInboxEvent plain_runtime sample_delivery sample_inbox_db)"

definition sample_linked_db :: inbox_db where
  "sample_linked_db = sample_stored_db\<lparr>
     investment_commitments := [\<lparr>cm_id = ''c1'', cm_organization_id = ''o1'', cm_investor_identity_id = ''p1'',
       cm_offering_reference = ''OFF-1'', cm_currency = ''NGN'', cm_committed_minor = 5000, cm_status = Commitment_payment_pending\<rparr>],
     payment_intents := [\<lparr>in_id = ''i1'', in_commitment_id = ''c1'', in_provider = ''paystack'', in_provider_reference = ''REF-1'',
       in_expected_minor = 5000, in_currency = ''NGN'', in_status = Intent_pending, in_expires_at = 9000, in_metadata = []\<rparr>]\<rparr>"

lemma sample_stored: "\<exists>out. receiveInboxEvent plain_runtime sample_delivery sample_inbox_db = (Inr out, sample_stored_db)"
proof -
  have "isl (fst (receiveInboxEvent plain_runtime sample_delivery sample_inbox_db)) = False"
    unfolding tx_defs tx_eval by code_simp
  then show ?thesis unfolding sample_stored_db_def by (metis isl_def prod.collapse sum.collapse(2))
qed

lemma sample_stored_events:
  "inbox_events sample_stored_db = [inbox_row_of plain_runtime sample_delivery ''paystack'' ''charge.success:REF-1''
     (rt_uuid plain_runtime 0) unlinked 1000]"
  unfolding sample_stored_db_def tx_defs tx_eval by code_simp

lemma sample_inbox_ok: "inbox_ok (inbox_events sample_inbox_db)" "inbox_ok (inbox_events sample_stored_db)"
  by (simp_all add: inbox_ok_def sample_stored_events inbox_lease_wf_def) (simp add: sample_inbox_db_def)+

lemma sample_attribution:
  "resolveInboxPrivacyAttribution Paystack (ii_payload sample_delivery) sample_inbox_db = Inr unlinked"
  "resolveInboxPrivacyAttribution Paystack (ii_payload sample_delivery) sample_stored_db = Inr unlinked"
  "resolveInboxPrivacyAttribution Paystack (ii_payload sample_delivery) sample_linked_db
     = Inr (attributed_to ''p1'' ''paystack_payment_reference'')"
  by code_simp+

theorem inbox_redelivery_witness:
  "\<exists>out2. receiveInboxEvent plain_runtime sample_delivery (inbox_run [Claim ([''paystack''], 10) ''w'' 2000 300] sample_stored_db)
     = (Inr out2, (inbox_run [Claim ([''paystack''], 10) ''w'' 2000 300] sample_stored_db)\<lparr>uuids_drawn := 2\<rparr>) \<and> ri_duplicate out2"
proof -
  let ?s2 = "inbox_run [Claim ([''paystack''], 10) ''w'' 2000 300] sample_stored_db"
  obtain out where out: "receiveInboxEvent plain_runtime sample_delivery sample_inbox_db = (Inr out, sample_stored_db)"
    using sample_stored by blast
  have ids: "identities ?s2 = identities sample_inbox_db" and n: "uuids_drawn ?s2 = 1"
    and r: "resolveInboxPrivacyAttribution Paystack (ii_payload sample_delivery) ?s2 = Inr unlinked"
    by code_simp+
  have p: "ii_provider sample_delivery = Paystack" by (simp add: sample_delivery_def)
  show ?thesis
    using inbox_redelivery [OF sample_inbox_ok(1) out, of ?s2 "[Claim ([''paystack''], 10) ''w'' 2000 300]"]
    by (auto simp: ids n r p sample_attribution numeral_2_eq_2)
qed

theorem redelivery_after_linking_refused_witness:
  "receiveInboxEvent plain_runtime sample_delivery sample_linked_db
     = (Inl (InboxPayloadConflictError ''Provider event attribution changed after immutable receipt''), sample_linked_db)"
proof -
  obtain out where out: "receiveInboxEvent plain_runtime sample_delivery sample_inbox_db = (Inr out, sample_stored_db)"
    using sample_stored by blast
  have p: "ii_provider sample_delivery = Paystack" by (simp add: sample_delivery_def)
  have e: "inbox_events sample_linked_db = inbox_events sample_stored_db" by (simp add: sample_linked_db_def)
  have k: "identity_known ''p1'' sample_linked_db" by code_simp
  show ?thesis
    by (rule redelivery_after_linking_refused [OF sample_inbox_ok(1) out _ e k]) (simp_all add: p sample_attribution)
qed

theorem inbox_processed_once_witness:
  "fst (withPostgresTransaction no_deferred (markInboxEventProcessed (rt_uuid plain_runtime 0) ''w'')
     (inbox_run [Claim ([''paystack''], 10) ''v'' 2000 300]
       (snd (claimInboxEvents ''w'' [''paystack''] 10 300 sample_stored_db)))) = Inr ()"
proof -
  let ?e = "inbox_grab ''w'' 1000 (inbox_row_of plain_runtime sample_delivery ''paystack'' ''charge.success:REF-1''
     (rt_uuid plain_runtime 0) unlinked 1000)"
  have clk: "clock sample_stored_db = 1000" by code_simp
  have claim: "claimInboxEvents ''w'' [''paystack''] 10 300 sample_stored_db
      = (Inr [?e], sample_stored_db\<lparr>inbox_events := [?e]\<rparr>)"
    by (simp add: claimInboxEvents_table sample_stored_events claim_rows_def clk inbox_due_def inbox_row_of_def)
  show ?thesis
    using inbox_processed_once [OF sample_inbox_ok(2) claim, of ?e "[Claim ([''paystack''], 10) ''v'' 2000 300]"]
    by (simp add: claim clk inbox_grab_def inbox_row_of_def)
qed

theorem dispatch_inbox_settles_witness:
  "\<exists>n s'. dispatchPendingInboxEvents default_env (\<lambda>e s. (Inl (GenericError ''down''), s)) (\<lambda>_. False) ''w'' [''paystack'']
       sample_stored_db = (Inr n, s')
     \<and> n \<le> INBOX_DISPATCH_BATCH_SIZE default_env \<and> (\<forall>r \<in> set (inbox_events s'). ib_claimed_by r \<noteq> Some ''w'')"
proof -
  have "\<forall>r \<in> set (inbox_events sample_stored_db). ib_claimed_by r \<noteq> Some ''w''"
    by (simp add: sample_stored_events)
  moreover have "keeps_inbox (\<lambda>e s. (Inl (GenericError ''down''), s))" by (simp add: keeps_inbox_def)
  ultimately show ?thesis using dispatch_inbox_settles [OF _ sample_inbox_ok(2)] by blast
qed

end
