(* ===== verification/Checkout.thy ===== *)
theory Checkout
  imports Escrow
begin

text \<open>
  Offerings, investor compliance profiles and the checkout command:
  \<^verbatim>\<open>src/platform/postgres-offering-checkout.ts\<close> over the tables of migrations 013, 014 and
  016. The checkout locks the offering, evaluates eligibility, records the decision, checks the
  capacity and creates the acceptance, the commitment with its payment intent and the capacity
  reservation in one transaction; an ineligible attempt commits its decision and is refused
  afterwards.
\<close>

section \<open>Inputs\<close>

record publish_offering_input =
  po_organizationId :: uuid
  po_publishedByIdentityId :: uuid
  po_publicReference :: string
  po_currency :: string
  po_capacityMinor :: js_amount
  po_opensAt :: int
  po_closesAt :: int
  po_terms :: json_object
  po_eligibilityPolicy :: eligibility_policy
  po_agreementDocumentHash :: string
  po_disclosureBundleHash :: string

record published_offering =
  pd_offeringId :: uuid
  pd_offeringVersionId :: uuid
  pd_version :: int

record compliance_profile_input =
  cpi_identityId :: uuid
  cpi_kycStatus :: kycStatus
  cpi_investorClass :: investorClass
  cpi_accreditationStatus :: accreditationStatus
  cpi_jurisdictionCode :: string
  cpi_reviewedAt :: int
  cpi_expiresAt :: "int option"
  cpi_evidence :: "json_object option"

record create_checkout_input =
  ci_publicReference :: string
  ci_investorIdentityId :: uuid
  ci_amountMinor :: js_amount
  ci_signatureName :: string
  ci_agreementDocumentHash :: string
  ci_provider :: string
  ci_providerReference :: string
  ci_paymentExpiresAt :: int
  ci_acceptedAt :: "int option"
  ci_ipHash :: "string option"
  ci_userAgentHash :: "string option"
  ci_commandKey :: "string option"

record created_checkout =
  cc_commitmentId :: uuid
  cc_paymentIntentId :: uuid
  cc_offeringId :: uuid
  cc_offeringVersionId :: uuid
  cc_eligibilitySnapshotId :: uuid
  cc_agreementAcceptanceId :: uuid
  cc_reservationId :: uuid

datatype checkout_result = Created created_checkout | Ineligible "string list"

section \<open>Validation\<close>

definition required :: "string \<Rightarrow> string \<Rightarrow> error + string" where
  "required v field =
     (let output = trim v in if output = [] then Inl (CheckoutPolicyError (field @ '' is required'')) else Inr output)"

definition code :: "string \<Rightarrow> string \<Rightarrow> (string \<Rightarrow> bool) \<Rightarrow> error + string" where
  "code v field expression =
     (let output = toUpperCase (trim v) in
      if \<not> expression output then Inl (CheckoutPolicyError (field @ '' is invalid'')) else Inr output)"

definition currency :: "string \<Rightarrow> error + string" where
  "currency v = code v ''currency'' (\<lambda>t. length t = 3 \<and> list_all is_upper t)"

definition sha256 :: "string \<Rightarrow> string \<Rightarrow> error + string" where
  "sha256 v field = code v field (\<lambda>t. length t = 64 \<and> list_all is_hex_upper t)"

definition jurisdiction_pattern :: "string \<Rightarrow> bool" where
  "jurisdiction_pattern t \<longleftrightarrow> (length t = 2 \<or> length t = 3) \<and> list_all is_upper t"

definition amount :: "js_amount \<Rightarrow> error + int" where
  "amount v =
     (if is_unsafe_number v then Inl (CheckoutPolicyError ''amountMinor must be a safe integer'')
      else let output = amount_value v in
        if output \<le> 0 then Inl (CheckoutPolicyError ''amountMinor must be positive'') else Inr output)"

fun map_sum :: "('a \<Rightarrow> error + 'b) \<Rightarrow> 'a list \<Rightarrow> error + 'b list" where
  "map_sum f [] = Inr []"
| "map_sum f (x # xs) =
     (case f x of Inl e \<Rightarrow> Inl e
      | Inr y \<Rightarrow> (case map_sum f xs of Inl e \<Rightarrow> Inl e | Inr ys \<Rightarrow> Inr (y # ys)))"

definition policy :: "eligibility_policy \<Rightarrow> error + eligibility_policy" where
  "policy inp =
     (if ep_allowedInvestorClasses inp = []
         \<or> list_ex (\<lambda>item. item \<notin> set [''retail'', ''sophisticated'', ''institutional'']) (ep_allowedInvestorClasses inp)
      then Inl (CheckoutPolicyError ''Eligibility policy requires one or more valid investor classes'')
      else case (case ep_allowedJurisdictions inp of
               None \<Rightarrow> Inr None
             | Some js \<Rightarrow> (case map_sum (\<lambda>item. code item ''allowedJurisdiction'' jurisdiction_pattern) js of
                   Inl e \<Rightarrow> Inl e | Inr ks \<Rightarrow> Inr (Some ks))) of
          Inl e \<Rightarrow> Inl e
        | Inr js \<Rightarrow> Inr \<lparr>ep_allowedInvestorClasses = unique_values (ep_allowedInvestorClasses inp),
                        ep_allowedJurisdictions = js,
                        ep_requiresAccreditation = Some (ep_requiresAccreditation inp = Some True)\<rparr>)"

section \<open>Insertions\<close>

definition insert_offering :: "offering_row \<Rightarrow> ('z market_db_scheme, unit) tx" where
  "insert_offering row =
     andThen (require (of_capacity_minor row \<le> PG_BIGINT_MAX) (NumericValueOutOfRange ''capacity_minor''))
     (andThen (require (1 \<le> length (of_public_reference row) \<and> length (of_public_reference row) \<le> 200
                  \<and> 0 < of_capacity_minor row \<and> of_opens_at row < of_closes_at row)
                (CheckViolation ''offering_products_check''))
     (checked_insert (\<lambda>s. exists_row (\<lambda>r. of_id r = of_id row \<or> of_public_reference r = of_public_reference row) (offering_products s))
        ''offering_products_public_reference_key''
        (\<lambda>s. of_organization_id row \<in> set (organizations s)) ''offering_products_organization_id_fkey''
        (\<lambda>s. s\<lparr>offering_products := offering_products s @ [row]\<rparr>)))"

definition insert_version :: "version_row \<Rightarrow> ('z market_db_scheme, unit) tx" where
  "insert_version row =
     andThen (require (0 < ov_version row) (CheckViolation ''offering_publication_versions_version_check''))
     (checked_insert (\<lambda>s. exists_row (\<lambda>r. ov_id r = ov_id row
          \<or> (ov_offering_id r = ov_offering_id row \<and> ov_version r = ov_version row)) (offering_publication_versions s))
        ''offering_publication_versions_offering_id_version_key''
        (\<lambda>s. exists_row (\<lambda>r. of_id r = ov_offering_id row) (offering_products s)
           \<and> identity_known (ov_published_by_identity_id row) s) ''offering_publication_versions_fkey''
        (\<lambda>s. s\<lparr>offering_publication_versions := offering_publication_versions s @ [row]\<rparr>))"

text \<open>\<open>INSERT ... ON CONFLICT (identity_id) DO UPDATE\<close>.\<close>

definition upsert_profile :: "profile_row \<Rightarrow> ('z market_db_scheme, unit) tx" where
  "upsert_profile row =
     andThen (require (jurisdiction_pattern (pr_jurisdiction_code row)) (CheckViolation ''investor_compliance_profiles_jurisdiction_code_check''))
     (bnd (query (\<lambda>s. exists_row (\<lambda>r. pr_identity_id r = pr_identity_id row) (investor_compliance_profiles s))) (\<lambda>known.
      if known
      then modify (\<lambda>s. s\<lparr>investor_compliance_profiles :=
             update_where (\<lambda>r. pr_identity_id r = pr_identity_id row) (\<lambda>_. row) (investor_compliance_profiles s)\<rparr>)
      else checked_insert (\<lambda>s. False) ''investor_compliance_profiles_pkey''
             (identity_known (pr_identity_id row)) ''investor_compliance_profiles_identity_id_fkey''
             (\<lambda>s. s\<lparr>investor_compliance_profiles := investor_compliance_profiles s @ [row]\<rparr>)))"

definition insert_snapshot :: "snapshot_row \<Rightarrow> ('z market_db_scheme, unit) tx" where
  "insert_snapshot row =
     andThen (require (sn_evaluated_at row \<le> sn_expires_at row) (CheckViolation ''investment_eligibility_snapshots_check''))
     (checked_insert (\<lambda>s. exists_row (\<lambda>r. sn_id r = sn_id row) (investment_eligibility_snapshots s))
        ''investment_eligibility_snapshots_pkey''
        (\<lambda>s. exists_row (\<lambda>r. ov_id r = sn_offering_version_id row) (offering_publication_versions s)
           \<and> identity_known (sn_investor_identity_id row) s) ''investment_eligibility_snapshots_fkey''
        (\<lambda>s. s\<lparr>investment_eligibility_snapshots := investment_eligibility_snapshots s @ [row]\<rparr>))"

definition insert_acceptance :: "acceptance_row \<Rightarrow> ('z market_db_scheme, unit) tx" where
  "insert_acceptance row =
     andThen (require (1 \<le> length (ac_signature_name row) \<and> length (ac_signature_name row) \<le> 200)
                (CheckViolation ''agreement_acceptances_signature_name_check''))
     (checked_insert (\<lambda>s. exists_row (\<lambda>r. ac_id r = ac_id row) (agreement_acceptances s)) ''agreement_acceptances_pkey''
        (\<lambda>s. exists_row (\<lambda>r. ov_id r = ac_offering_version_id row) (offering_publication_versions s)
           \<and> identity_known (ac_investor_identity_id row) s) ''agreement_acceptances_fkey''
        (\<lambda>s. s\<lparr>agreement_acceptances := agreement_acceptances s @ [row]\<rparr>))"

definition insert_reservation :: "reservation_row \<Rightarrow> ('z market_db_scheme, unit) tx" where
  "insert_reservation row =
     bnd (query clock) (\<lambda>now.
     andThen (require (0 < rv_amount_minor row \<and> now \<le> rv_expires_at row) (CheckViolation ''investment_reservations_check''))
     (checked_insert (\<lambda>s. exists_row (\<lambda>r. rv_id r = rv_id row
          \<or> (rv_commitment_id row \<noteq> None \<and> rv_commitment_id r = rv_commitment_id row)
          \<or> (rv_command_key row \<noteq> None \<and> rv_offering_id r = rv_offering_id row
               \<and> rv_investor_identity_id r = rv_investor_identity_id row \<and> rv_command_key r = rv_command_key row))
          (investment_reservations s)) ''investment_reservations_checkout_command_key''
        (\<lambda>s. exists_row (\<lambda>r. of_id r = rv_offering_id row) (offering_products s)
           \<and> exists_row (\<lambda>r. ov_id r = rv_offering_version_id row) (offering_publication_versions s)
           \<and> identity_known (rv_investor_identity_id row) s
           \<and> (case rv_commitment_id row of None \<Rightarrow> True
              | Some c \<Rightarrow> exists_row (\<lambda>r. cm_id r = c) (investment_commitments s))
           \<and> (case rv_eligibility_snapshot_id row of None \<Rightarrow> True
              | Some c \<Rightarrow> exists_row (\<lambda>r. sn_id r = c) (investment_eligibility_snapshots s))
           \<and> (case rv_agreement_acceptance_id row of None \<Rightarrow> True
              | Some c \<Rightarrow> exists_row (\<lambda>r. ac_id r = c) (agreement_acceptances s))) ''investment_reservations_fkey''
        (\<lambda>s. s\<lparr>investment_reservations := investment_reservations s @ [row]\<rparr>)))"

section \<open>Publication and profiles\<close>

definition publishOfferingInTransaction ::
    "runtime \<Rightarrow> publish_offering_input \<Rightarrow> ('z market_db_scheme, published_offering) tx" where
  "publishOfferingInTransaction rt inp =
     bnd (lift_sum (currency (po_currency inp))) (\<lambda>inputCurrency.
     bnd (lift_sum (amount (po_capacityMinor inp))) (\<lambda>capacityMinor.
     bnd (lift_sum (policy (po_eligibilityPolicy inp))) (\<lambda>eligibility.
     bnd (lift_sum (required (po_publicReference inp) ''publicReference'')) (\<lambda>publicReference.
     andThen (require (\<not> po_closesAt inp \<le> po_opensAt inp) (CheckoutPolicyError ''Offering close must follow open''))
     (bnd (randomUUID rt) (\<lambda>offeringId.
      bnd (randomUUID rt) (\<lambda>versionId.
      andThen (insert_offering \<lparr>of_id = offeringId, of_organization_id = po_organizationId inp,
        of_public_reference = publicReference, of_status = Offering_published, of_currency = inputCurrency,
        of_capacity_minor = capacityMinor, of_opens_at = po_opensAt inp, of_closes_at = po_closesAt inp\<rparr>)
      (bnd (lift_sum (sha256 (po_agreementDocumentHash inp) ''agreementDocumentHash'')) (\<lambda>agreementHash.
       bnd (lift_sum (sha256 (po_disclosureBundleHash inp) ''disclosureBundleHash'')) (\<lambda>disclosureHash.
       andThen (insert_version \<lparr>ov_id = versionId, ov_offering_id = offeringId, ov_version = 1, ov_terms = po_terms inp,
         ov_eligibility_policy = eligibility, ov_agreement_document_hash = agreementHash,
         ov_disclosure_bundle_hash = disclosureHash, ov_published_by_identity_id = po_publishedByIdentityId inp\<rparr>)
       (bnd (appendPostgresAuditEvent rt (audit_of (po_organizationId inp) (Some (po_publishedByIdentityId inp)) ''user''
          ''offering.published'' ''offering_product'' offeringId
          [(''publicReference'', JStr publicReference), (''version'', JNum 1), (''currency'', JStr inputCurrency),
           (''capacityMinor'', JStr (show_int capacityMinor))])) (\<lambda>audit.
        andThen (appendOutboxEvent rt resolve_market_privacy_subjects (outbox_of ''offering_product'' offeringId
          ''offering.published'' [(''organizationId'', JStr (po_organizationId inp)),
            (''offeringVersionId'', JStr versionId), (''auditEventId'', JStr (aud_id audit))]))
        (ret \<lparr>pd_offeringId = offeringId, pd_offeringVersionId = versionId, pd_version = 1\<rparr>)))))))))))))"

definition publishOffering ::
    "runtime \<Rightarrow> publish_offering_input \<Rightarrow> 'z market_db_scheme \<Rightarrow> (error + published_offering) \<times> 'z market_db_scheme" where
  "publishOffering rt inp = withPostgresTransaction deferred_constraints (publishOfferingInTransaction rt inp)"

definition upsertInvestorComplianceProfileInTransaction ::
    "compliance_profile_input \<Rightarrow> ('z market_db_scheme, unit) tx" where
  "upsertInvestorComplianceProfileInTransaction inp =
     bnd (lift_sum (code (cpi_jurisdictionCode inp) ''jurisdictionCode'' jurisdiction_pattern)) (\<lambda>jurisdictionCode.
     upsert_profile \<lparr>pr_identity_id = cpi_identityId inp, pr_kyc_status = cpi_kycStatus inp,
       pr_investor_class = cpi_investorClass inp, pr_accreditation_status = cpi_accreditationStatus inp,
       pr_jurisdiction_code = jurisdictionCode, pr_reviewed_at = cpi_reviewedAt inp, pr_expires_at = cpi_expiresAt inp,
       pr_evidence = (case cpi_evidence inp of None \<Rightarrow> [] | Some e \<Rightarrow> e)\<rparr>)"

definition upsertInvestorComplianceProfile ::
    "compliance_profile_input \<Rightarrow> 'z market_db_scheme \<Rightarrow> (error + unit) \<times> 'z market_db_scheme" where
  "upsertInvestorComplianceProfile inp =
     withPostgresTransaction deferred_constraints (upsertInvestorComplianceProfileInTransaction inp)"

section \<open>Checkout\<close>

definition current_version :: "uuid \<Rightarrow> 'z market_db_scheme \<Rightarrow> version_row option" where
  "current_version offeringId s =
     (case sort_by (\<lambda>a b. ov_version b \<le> ov_version a)
             (filter (\<lambda>v. ov_offering_id v = offeringId) (offering_publication_versions s)) of
        [] \<Rightarrow> None | v # _ \<Rightarrow> Some v)"

text \<open>The join of reservations with payment intents under a command key.\<close>

definition find_replay :: "uuid \<Rightarrow> uuid \<Rightarrow> string \<Rightarrow> 'z market_db_scheme \<Rightarrow> (reservation_row \<times> intent_row) option" where
  "find_replay offeringId investor commandKey s =
     (case concat (map (\<lambda>r. map (\<lambda>i. (r, i)) (filter (\<lambda>i. rv_commitment_id r = Some (in_commitment_id i)) (payment_intents s)))
             (filter (\<lambda>r. rv_offering_id r = offeringId \<and> rv_investor_identity_id r = investor
                        \<and> rv_command_key r = Some commandKey) (investment_reservations s))) of
        [] \<Rightarrow> None | p # _ \<Rightarrow> Some p)"

definition replay_result :: "uuid \<Rightarrow> reservation_row \<Rightarrow> intent_row \<Rightarrow> error + created_checkout" where
  "replay_result offeringId r i =
     (case (rv_eligibility_snapshot_id r, rv_agreement_acceptance_id r) of
        (Some snapshotId, Some acceptanceId) \<Rightarrow>
          Inr \<lparr>cc_commitmentId = in_commitment_id i, cc_paymentIntentId = in_id i, cc_offeringId = offeringId,
               cc_offeringVersionId = rv_offering_version_id r, cc_eligibilitySnapshotId = snapshotId,
               cc_agreementAcceptanceId = acceptanceId, cc_reservationId = rv_id r\<rparr>
      | _ \<Rightarrow> Inl (GenericError ''Checkout idempotency record is incomplete''))"

fun investorClass_text :: "investorClass \<Rightarrow> string" where
  "investorClass_text Retail = ''retail''"
| "investorClass_text Sophisticated = ''sophisticated''"
| "investorClass_text Institutional = ''institutional''"

definition profile_expired :: "int \<Rightarrow> profile_row \<Rightarrow> bool" where
  "profile_expired acceptedAt p \<longleftrightarrow> (case pr_expires_at p of None \<Rightarrow> False | Some t \<Rightarrow> t \<le> acceptedAt)"

definition eligibility_reasons :: "eligibility_policy \<Rightarrow> profile_row option \<Rightarrow> int \<Rightarrow> string list" where
  "eligibility_reasons eligibility profile acceptedAt =
     (case profile of
        None \<Rightarrow> [''kyc_not_approved'']
      | Some p \<Rightarrow>
          (if pr_kyc_status p \<noteq> Kyc_approved then [''kyc_not_approved''] else [])
          @ (if profile_expired acceptedAt p then [''compliance_profile_expired''] else [])
          @ (if investorClass_text (pr_investor_class p) \<notin> set (ep_allowedInvestorClasses eligibility)
             then [''investor_class_not_allowed''] else [])
          @ (case ep_allowedJurisdictions eligibility of
               None \<Rightarrow> []
             | Some js \<Rightarrow> if js \<noteq> [] \<and> pr_jurisdiction_code p \<notin> set js then [''jurisdiction_not_allowed''] else [])
          @ (if ep_requiresAccreditation eligibility = Some True \<and> pr_accreditation_status p \<noteq> Accreditation_verified
             then [''accreditation_not_verified''] else []))"

definition snapshot_expiry :: "profile_row option \<Rightarrow> int \<Rightarrow> int" where
  "snapshot_expiry profile paymentExpiresAt =
     (case profile of
        None \<Rightarrow> paymentExpiresAt
      | Some p \<Rightarrow> (case pr_expires_at p of
            None \<Rightarrow> paymentExpiresAt
          | Some t \<Rightarrow> if t < paymentExpiresAt then t else paymentExpiresAt))"

text \<open>Capacity in use: confirmed reservations, and pending ones that have not expired.\<close>

definition occupies :: "uuid \<Rightarrow> int \<Rightarrow> reservation_row \<Rightarrow> bool" where
  "occupies offeringId t r \<longleftrightarrow> rv_offering_id r = offeringId
     \<and> (rv_status r = Reservation_confirmed \<or> (rv_status r = Reservation_pending_payment \<and> t < rv_expires_at r))"

definition reserved_total :: "uuid \<Rightarrow> int \<Rightarrow> 'z market_db_scheme \<Rightarrow> int" where
  "reserved_total offeringId t s = sum_rows (occupies offeringId t) rv_amount_minor (investment_reservations s)"

definition execution_payload :: "version_row \<Rightarrow> uuid \<Rightarrow> string \<Rightarrow> int \<Rightarrow> json" where
  "execution_payload version investor signatureName acceptedAt =
     JObj [(''offeringVersionId'', JStr (ov_id version)), (''investorIdentityId'', JStr investor),
       (''agreementDocumentHash'', JStr (ov_agreement_document_hash version)), (''signatureName'', JStr signatureName),
       (''acceptedAt'', JStr (toISOString acceptedAt))]"

text \<open>The eligible branch: agreement, capacity, acceptance, commitment and reservation.\<close>

definition accept_agreement ::
    "runtime \<Rightarrow> create_checkout_input \<Rightarrow> int \<Rightarrow> version_row \<Rightarrow> ('z market_db_scheme, uuid) tx" where
  "accept_agreement rt inp acceptedAt version =
     bnd (randomUUID rt) (\<lambda>agreementAcceptanceId.
     bnd (lift_sum (required (ci_signatureName inp) ''signatureName'')) (\<lambda>signatureName.
     andThen (insert_acceptance \<lparr>ac_id = agreementAcceptanceId, ac_offering_version_id = ov_id version,
       ac_investor_identity_id = ci_investorIdentityId inp, ac_agreement_document_hash = ov_agreement_document_hash version,
       ac_signature_name = signatureName,
       ac_execution_hash = rt_sha256 rt (stringify (execution_payload version (ci_investorIdentityId inp) signatureName acceptedAt)),
       ac_accepted_at = acceptedAt, ac_ip_hash = ci_ipHash inp, ac_user_agent_hash = ci_userAgentHash inp\<rparr>)
     (ret agreementAcceptanceId)))"

definition checkout_payment ::
    "create_checkout_input \<Rightarrow> int \<Rightarrow> offering_row \<Rightarrow> version_row \<Rightarrow> uuid \<Rightarrow> uuid \<Rightarrow> string \<Rightarrow> string \<Rightarrow> payment_commitment_input" where
  "checkout_payment inp investmentAmount offering version snapshotId agreementAcceptanceId provider providerReference =
     \<lparr>pc_organizationId = of_organization_id offering,
      pc_investorIdentityId = ci_investorIdentityId inp, pc_offeringReference = ci_publicReference inp,
      pc_currency = of_currency offering, pc_committedMinor = BigIntAmount investmentAmount, pc_provider = provider,
      pc_providerReference = providerReference, pc_expiresAt = ci_paymentExpiresAt inp,
      pc_metadata = Some [(''offeringId'', JStr (of_id offering)), (''offeringVersionId'', JStr (ov_id version)),
        (''eligibilitySnapshotId'', JStr snapshotId), (''agreementAcceptanceId'', JStr agreementAcceptanceId)]\<rparr>"

definition record_reservation ::
    "runtime \<Rightarrow> create_checkout_input \<Rightarrow> int \<Rightarrow> offering_row \<Rightarrow> version_row \<Rightarrow> string option \<Rightarrow> uuid \<Rightarrow> uuid \<Rightarrow>
     created_payment_intent \<Rightarrow> ('z market_db_scheme, created_checkout) tx" where
  "record_reservation rt inp investmentAmount offering version commandKey snapshotId agreementAcceptanceId payment =
     bnd (randomUUID rt) (\<lambda>reservationId.
     andThen (insert_reservation \<lparr>rv_id = reservationId, rv_offering_id = of_id offering, rv_offering_version_id = ov_id version,
       rv_investor_identity_id = ci_investorIdentityId inp, rv_amount_minor = investmentAmount,
       rv_currency = of_currency offering, rv_status = Reservation_pending_payment,
       rv_expires_at = ci_paymentExpiresAt inp, rv_commitment_id = Some (cp_commitmentId payment),
       rv_command_key = commandKey, rv_eligibility_snapshot_id = Some snapshotId,
       rv_agreement_acceptance_id = Some agreementAcceptanceId\<rparr>)
     (bnd (appendPostgresAuditEvent rt (audit_of (of_organization_id offering) (Some (ci_investorIdentityId inp)) ''user''
        ''investment.checkout.created'' ''investment_reservation'' reservationId
        [(''offeringId'', JStr (of_id offering)), (''offeringVersionId'', JStr (ov_id version)),
         (''eligibilitySnapshotId'', JStr snapshotId), (''agreementAcceptanceId'', JStr agreementAcceptanceId),
         (''commitmentId'', JStr (cp_commitmentId payment)), (''paymentIntentId'', JStr (cp_paymentIntentId payment)),
         (''amountMinor'', JStr (show_int investmentAmount)), (''currency'', JStr (of_currency offering))])) (\<lambda>audit.
      andThen (appendOutboxEvent rt resolve_market_privacy_subjects (outbox_of ''investment_reservation'' reservationId
        ''investment.checkout.created'' [(''organizationId'', JStr (of_organization_id offering)),
          (''paymentIntentId'', JStr (cp_paymentIntentId payment)), (''auditEventId'', JStr (aud_id audit))]))
      (ret \<lparr>cc_commitmentId = cp_commitmentId payment, cc_paymentIntentId = cp_paymentIntentId payment,
            cc_offeringId = of_id offering, cc_offeringVersionId = ov_id version,
            cc_eligibilitySnapshotId = snapshotId, cc_agreementAcceptanceId = agreementAcceptanceId,
            cc_reservationId = reservationId\<rparr>))))"

definition reserve ::
    "runtime \<Rightarrow> create_checkout_input \<Rightarrow> int \<Rightarrow> int \<Rightarrow> offering_row \<Rightarrow> version_row \<Rightarrow> string option \<Rightarrow> uuid \<Rightarrow>
     ('z market_db_scheme, created_checkout) tx" where
  "reserve rt inp investmentAmount acceptedAt offering version commandKey snapshotId =
     bnd (lift_sum (sha256 (ci_agreementDocumentHash inp) ''agreementDocumentHash'')) (\<lambda>agreementHash.
     andThen (require (agreementHash = ov_agreement_document_hash version)
       (CheckoutPolicyError ''Agreement document does not match published offering version''))
     (bnd (query (reserved_total (of_id offering) acceptedAt)) (\<lambda>total.
      andThen (require (\<not> total + investmentAmount > of_capacity_minor offering)
        (CheckoutPolicyError ''Offering capacity is unavailable''))
      (bnd (accept_agreement rt inp acceptedAt version) (\<lambda>agreementAcceptanceId.
       bnd (lift_sum (required (ci_provider inp) ''provider'')) (\<lambda>provider.
       bnd (lift_sum (required (ci_providerReference inp) ''providerReference'')) (\<lambda>providerReference.
       bnd (createPaymentCommitmentInTransaction rt (checkout_payment inp investmentAmount offering version snapshotId
              agreementAcceptanceId provider providerReference)) (\<lambda>payment.
       record_reservation rt inp investmentAmount offering version commandKey snapshotId agreementAcceptanceId payment))))))))"

text \<open>The eligibility decision and what follows it.\<close>

definition decide ::
    "runtime \<Rightarrow> create_checkout_input \<Rightarrow> int \<Rightarrow> int \<Rightarrow> offering_row \<Rightarrow> string option \<Rightarrow> ('z market_db_scheme, checkout_result) tx" where
  "decide rt inp investmentAmount acceptedAt offering commandKey =
     bnd (query (current_version (of_id offering))) (\<lambda>found.
     case found of
       None \<Rightarrow> throw (CheckoutPolicyError ''Offering has no publication version'')
     | Some version \<Rightarrow>
         bnd (lift_sum (policy (ov_eligibility_policy version))) (\<lambda>eligibility.
         bnd (query (\<lambda>s. first_row (\<lambda>p. pr_identity_id p = ci_investorIdentityId inp) (investor_compliance_profiles s))) (\<lambda>profile.
         let reasons = eligibility_reasons eligibility profile acceptedAt in
         bnd (randomUUID rt) (\<lambda>snapshotId.
         andThen (insert_snapshot \<lparr>sn_id = snapshotId, sn_offering_version_id = ov_id version,
           sn_investor_identity_id = ci_investorIdentityId inp, sn_eligible = (reasons = []), sn_reason_codes = reasons,
           sn_policy_snapshot = eligibility, sn_evidence_snapshot = profile, sn_evaluated_at = acceptedAt,
           sn_expires_at = snapshot_expiry profile (ci_paymentExpiresAt inp)\<rparr>)
         (if reasons \<noteq> [] then ret (Ineligible reasons)
          else bnd (reserve rt inp investmentAmount acceptedAt offering version commandKey snapshotId)
                 (\<lambda>c. ret (Created c)))))))"

definition offering_open :: "int \<Rightarrow> offering_row \<Rightarrow> bool" where
  "offering_open acceptedAt o' \<longleftrightarrow> of_status o' = Offering_published \<and> \<not> acceptedAt < of_opens_at o' \<and> \<not> of_closes_at o' \<le> acceptedAt"

definition checkout_tx ::
    "runtime \<Rightarrow> create_checkout_input \<Rightarrow> int \<Rightarrow> int \<Rightarrow> ('z market_db_scheme, checkout_result) tx" where
  "checkout_tx rt inp investmentAmount acceptedAt =
     bnd (lift_sum (required (ci_publicReference inp) ''publicReference'')) (\<lambda>publicReference.
     bnd (query (\<lambda>s. first_row (\<lambda>o'. of_public_reference o' = publicReference) (offering_products s))) (\<lambda>found.
     case found of
       None \<Rightarrow> throw (CheckoutPolicyError ''Offering is not open for investment'')
     | Some offering \<Rightarrow>
         andThen (require (offering_open acceptedAt offering) (CheckoutPolicyError ''Offering is not open for investment''))
         (andThen (require (\<not> ci_paymentExpiresAt inp \<le> acceptedAt \<and> \<not> of_closes_at offering < ci_paymentExpiresAt inp)
            (CheckoutPolicyError ''Payment expiry is outside the offering window''))
         (let commandKey = map_option trim (ci_commandKey inp) in
          andThen (require (commandKey \<noteq> Some []) (CheckoutPolicyError ''commandKey must not be blank''))
          (bnd (query (\<lambda>s. case commandKey of None \<Rightarrow> None
                        | Some k \<Rightarrow> find_replay (of_id offering) (ci_investorIdentityId inp) k s)) (\<lambda>replay.
           case replay of
             Some (r, i) \<Rightarrow> bnd (lift_sum (replay_result (of_id offering) r i)) (\<lambda>c. ret (Created c))
           | None \<Rightarrow> decide rt inp investmentAmount acceptedAt offering commandKey))))))"

definition accepted_at :: "create_checkout_input \<Rightarrow> 'z market_db_scheme \<Rightarrow> int" where
  "accepted_at inp s = (case ci_acceptedAt inp of None \<Rightarrow> clock s | Some t \<Rightarrow> t)"

definition createCheckout ::
    "runtime \<Rightarrow> create_checkout_input \<Rightarrow> 'z market_db_scheme \<Rightarrow> (error + created_checkout) \<times> 'z market_db_scheme" where
  "createCheckout rt inp s =
     (case amount (ci_amountMinor inp) of
        Inl e \<Rightarrow> (Inl e, s)
      | Inr investmentAmount \<Rightarrow>
          (case withPostgresTransaction deferred_constraints (checkout_tx rt inp investmentAmount (accepted_at inp s)) s of
             (Inl e, s') \<Rightarrow> (Inl e, s')
           | (Inr (Ineligible reasons), s') \<Rightarrow>
               (Inl (CheckoutPolicyError (''Investor is not eligible: '' @ join_with '', '' reasons)), s')
           | (Inr (Created c), s') \<Rightarrow> (Inr c, s')))"

lemmas [tx_defs] = insert_offering_def insert_version_def upsert_profile_def insert_snapshot_def insert_acceptance_def
  insert_reservation_def publishOfferingInTransaction_def publishOffering_def
  upsertInvestorComplianceProfileInTransaction_def upsertInvestorComplianceProfile_def
  accept_agreement_def record_reservation_def reserve_def decide_def checkout_tx_def createCheckout_def

section \<open>Effects\<close>

definition same_payments :: "'z market_db_scheme \<Rightarrow> 'z market_db_scheme \<Rightarrow> bool" where
  "same_payments s s' \<longleftrightarrow> investment_commitments s' = investment_commitments s \<and> payment_intents s' = payment_intents s
     \<and> payment_receipts s' = payment_receipts s \<and> payment_reconciliation_cases s' = payment_reconciliation_cases s"

lemma accept_agreement_effect:
  "accept_agreement rt inp t version s = Inr (a, s') \<Longrightarrow>
     \<exists>k row. s' = s\<lparr>uuids_drawn := k, agreement_acceptances := agreement_acceptances s @ [row]\<rparr> \<and> ac_id row = a"
  unfolding accept_agreement_def insert_acceptance_def
  by (elim bnd_Inr andThen_Inr) (clarsimp simp: tx_Inr randomUUID_Inr market_Inr, intro exI conjI, rule refl, simp)

definition reservation_of ::
    "create_checkout_input \<Rightarrow> int \<Rightarrow> offering_row \<Rightarrow> string option \<Rightarrow> created_checkout \<Rightarrow> reservation_row" where
  "reservation_of inp m offering key c =
     \<lparr>rv_id = cc_reservationId c, rv_offering_id = of_id offering, rv_offering_version_id = cc_offeringVersionId c,
      rv_investor_identity_id = ci_investorIdentityId inp, rv_amount_minor = m, rv_currency = of_currency offering,
      rv_status = Reservation_pending_payment, rv_expires_at = ci_paymentExpiresAt inp,
      rv_commitment_id = Some (cc_commitmentId c), rv_command_key = key,
      rv_eligibility_snapshot_id = Some (cc_eligibilitySnapshotId c),
      rv_agreement_acceptance_id = Some (cc_agreementAcceptanceId c)\<rparr>"

lemma record_reservation_effect:
  assumes "record_reservation rt inp m offering version key snap acc payment s = Inr (c, s')"
  shows "investment_reservations s' = investment_reservations s @ [reservation_of inp m offering key c]"
    and "same_ledger s s'" and "same_payments s s'" and "same_offerings s s'" and "cc_commitmentId c = cp_commitmentId payment" "cc_paymentIntentId c = cp_paymentIntentId payment"
      "cc_offeringId c = of_id offering" "cc_offeringVersionId c = ov_id version" "cc_eligibilitySnapshotId c = snap"
      "cc_agreementAcceptanceId c = acc"
      "\<forall>x \<in> set (investment_reservations s). rv_id x \<noteq> cc_reservationId c \<and> rv_commitment_id x \<noteq> Some (cp_commitmentId payment)"
  using assms unfolding record_reservation_def insert_reservation_def
  by (auto simp: tx_Inr randomUUID_Inr market_Inr reservation_of_def frame_defs same_payments_def elim!: tx_elims
      dest!: append_audit_frame append_outbox_frame)

lemma reserve_steps:
  assumes "reserve rt inp m t offering version key snap s = Inr (c, s')"
  obtains acc s1 p q payment s2 where "sha256 (ci_agreementDocumentHash inp) ''agreementDocumentHash'' = Inr (ov_agreement_document_hash version)"
    and "reserved_total (of_id offering) t s + m \<le> of_capacity_minor offering"
    and "accept_agreement rt inp t version s = Inr (acc, s1)"
    and "createPaymentCommitmentInTransaction rt (checkout_payment inp m offering version snap acc p q) s1 = Inr (payment, s2)"
    and "record_reservation rt inp m offering version key snap acc payment s2 = Inr (c, s')"
  using assms unfolding reserve_def
  by (elim bnd_Inr andThen_Inr) (auto simp: tx_Inr)

text \<open>The state after a successful checkout.\<close>

definition investor_profile :: "create_checkout_input \<Rightarrow> 'z market_db_scheme \<Rightarrow> profile_row option" where
  "investor_profile inp s = first_row (\<lambda>p. pr_identity_id p = ci_investorIdentityId inp) (investor_compliance_profiles s)"

definition payment_created ::
    "create_checkout_input \<Rightarrow> int \<Rightarrow> offering_row \<Rightarrow> created_checkout \<Rightarrow> 'z market_db_scheme \<Rightarrow> 'z market_db_scheme \<Rightarrow> bool" where
  "payment_created inp m offering c s s' \<longleftrightarrow>
     (\<exists>cm i. investment_commitments s' = investment_commitments s @ [cm] \<and> payment_intents s' = payment_intents s @ [i]
        \<and> cm_id cm = cc_commitmentId c \<and> in_id i = cc_paymentIntentId c \<and> in_commitment_id i = cm_id cm
        \<and> cm_status cm = Commitment_payment_pending \<and> in_status i = Intent_pending
        \<and> cm_committed_minor cm = m \<and> in_expected_minor i = m \<and> in_currency i = cm_currency cm
        \<and> payment_currency (of_currency offering) = Inr (cm_currency cm)
        \<and> cm_organization_id cm = of_organization_id offering \<and> cm_investor_identity_id cm = ci_investorIdentityId inp
        \<and> in_expires_at i = ci_paymentExpiresAt inp
        \<and> cm_id cm \<notin> cm_id ` set (investment_commitments s) \<and> in_id i \<notin> in_id ` set (payment_intents s))
     \<and> payment_receipts s' = payment_receipts s \<and> payment_reconciliation_cases s' = payment_reconciliation_cases s
     \<and> same_ledger s s'"

definition capacity_reserved ::
    "create_checkout_input \<Rightarrow> int \<Rightarrow> int \<Rightarrow> offering_row \<Rightarrow> string option \<Rightarrow> created_checkout \<Rightarrow> 'z market_db_scheme \<Rightarrow> 'z market_db_scheme \<Rightarrow> bool" where
  "capacity_reserved inp m t offering key c s s' \<longleftrightarrow>
     reserved_total (of_id offering) t s + m \<le> of_capacity_minor offering
     \<and> investment_reservations s' = investment_reservations s @ [reservation_of inp m offering key c]
     \<and> cc_reservationId c \<notin> rv_id ` set (investment_reservations s)
     \<and> Some (cc_commitmentId c) \<notin> rv_commitment_id ` set (investment_reservations s)
     \<and> offering_products s' = offering_products s \<and> clock s' = clock s"

definition decision_recorded ::
    "create_checkout_input \<Rightarrow> int \<Rightarrow> offering_row \<Rightarrow> uuid \<Rightarrow> string list \<Rightarrow> 'z market_db_scheme \<Rightarrow> 'z market_db_scheme \<Rightarrow> bool" where
  "decision_recorded inp t offering snap reasons s s' \<longleftrightarrow>
     (\<exists>version eligibility sn. current_version (of_id offering) s = Some version
        \<and> policy (ov_eligibility_policy version) = Inr eligibility
        \<and> reasons = eligibility_reasons eligibility (investor_profile inp s) t
        \<and> investment_eligibility_snapshots s' = investment_eligibility_snapshots s @ [sn]
        \<and> sn_id sn = snap \<and> sn_investor_identity_id sn = ci_investorIdentityId inp \<and> sn_offering_version_id sn = ov_id version
        \<and> sn_reason_codes sn = reasons \<and> sn_eligible sn = (reasons = []) \<and> sn_evaluated_at sn = t
        \<and> sn_evidence_snapshot sn = investor_profile inp s)"

lemma reserve_effect:
  assumes "reserve rt inp m t offering version key snap s = Inr (c, s')"
  shows "payment_created inp m offering c s s'" and "capacity_reserved inp m t offering key c s s'"
    and "cc_offeringId c = of_id offering" and "cc_offeringVersionId c = ov_id version" and "cc_eligibilitySnapshotId c = snap"
    and "sha256 (ci_agreementDocumentHash inp) ''agreementDocumentHash'' = Inr (ov_agreement_document_hash version)"
    and "investment_eligibility_snapshots s' = investment_eligibility_snapshots s"
    and "investor_compliance_profiles s' = investor_compliance_profiles s"
    and "offering_publication_versions s' = offering_publication_versions s" "clock s' = clock s"
proof -
  obtain acc s1 p q payment s2 where hash: "sha256 (ci_agreementDocumentHash inp) ''agreementDocumentHash'' = Inr (ov_agreement_document_hash version)"
    and cap: "reserved_total (of_id offering) t s + m \<le> of_capacity_minor offering"
    and acc: "accept_agreement rt inp t version s = Inr (acc, s1)"
    and pay: "createPaymentCommitmentInTransaction rt (checkout_payment inp m offering version snap acc p q) s1 = Inr (payment, s2)"
    and rec: "record_reservation rt inp m offering version key snap acc payment s2 = Inr (c, s')"
    by (rule reserve_steps [OF assms])
  obtain k row where s1: "s1 = s\<lparr>uuids_drawn := k, agreement_acceptances := agreement_acceptances s @ [row]\<rparr>"
    using accept_agreement_effect [OF acc] by blast
  note rec = record_reservation_effect [OF rec]
  note frames = rec(2-4) [unfolded frame_defs same_payments_def]
  from pay show "payment_created inp m offering c s s'"
    using rec(5,6) frames
    by (elim create_commitment_effect)
       (auto simp: payment_created_def checkout_payment_def payment_minor_def Let_def s1 frame_defs split: if_splits)
  from pay have mid: "investment_reservations s2 = investment_reservations s" "offering_products s2 = offering_products s"
    "investment_eligibility_snapshots s2 = investment_eligibility_snapshots s"
    "investor_compliance_profiles s2 = investor_compliance_profiles s"
    "offering_publication_versions s2 = offering_publication_versions s" "clock s2 = clock s"
    by (auto elim!: create_commitment_effect simp: s1 frame_defs)
  then show "capacity_reserved inp m t offering key c s s'" "investment_eligibility_snapshots s' = investment_eligibility_snapshots s"
    "investor_compliance_profiles s' = investor_compliance_profiles s"
    "offering_publication_versions s' = offering_publication_versions s" "clock s' = clock s"
    using cap rec(1,5,11) frames by (auto simp: capacity_reserved_def)
  show "cc_offeringId c = of_id offering" "cc_offeringVersionId c = ov_id version" "cc_eligibilitySnapshotId c = snap" by (fact rec)+
  show "sha256 (ci_agreementDocumentHash inp) ''agreementDocumentHash'' = Inr (ov_agreement_document_hash version)" by (rule hash)
qed

lemma decide_outcome:
  assumes "decide rt inp m t offering key s = Inr (res, s')"
  shows "case res of
     Ineligible reasons \<Rightarrow> reasons \<noteq> [] \<and> (\<exists>snap. decision_recorded inp t offering snap reasons s s')
       \<and> (\<exists>k sns. s' = s\<lparr>uuids_drawn := k, investment_eligibility_snapshots := sns\<rparr>)
   | Created c \<Rightarrow> decision_recorded inp t offering (cc_eligibilitySnapshotId c) [] s s'
       \<and> payment_created inp m offering c s s' \<and> capacity_reserved inp m t offering key c s s'
       \<and> cc_offeringId c = of_id offering"
proof -
  let ?profile = "investor_profile inp s"
  from assms obtain version eligibility where v: "current_version (of_id offering) s = Some version"
    and e: "policy (ov_eligibility_policy version) = Inr eligibility"
    by (auto simp: decide_def tx_Inr elim!: bnd_Inr split: option.splits)
  let ?reasons = "eligibility_reasons eligibility ?profile t" and ?snap = "rt_uuid rt (uuids_drawn s)"
  let ?sn = "\<lparr>sn_id = ?snap, sn_offering_version_id = ov_id version,
           sn_investor_identity_id = ci_investorIdentityId inp, sn_eligible = (?reasons = []), sn_reason_codes = ?reasons,
           sn_policy_snapshot = eligibility, sn_evidence_snapshot = ?profile, sn_evaluated_at = t,
           sn_expires_at = snapshot_expiry ?profile (ci_paymentExpiresAt inp)\<rparr>"
  let ?s = "s\<lparr>uuids_drawn := Suc (uuids_drawn s), investment_eligibility_snapshots := investment_eligibility_snapshots s @ [?sn]\<rparr>"
  from assms v e have rest: "(if ?reasons \<noteq> [] then ret (Ineligible ?reasons)
      else bnd (reserve rt inp m t offering version key ?snap) (\<lambda>c. ret (Created c))) ?s = Inr (res, s')"
    unfolding decide_def Let_def insert_snapshot_def investor_profile_def
    by (auto simp: tx_Inr randomUUID_Inr market_Inr elim!: tx_elims)
  have recorded: "decision_recorded inp t offering ?snap ?reasons s u"
    if "investment_eligibility_snapshots u = investment_eligibility_snapshots ?s" for u
    using v e that by (auto simp: decision_recorded_def)
  show ?thesis
  proof (cases "?reasons = []")
    case False
    then have res: "res = Ineligible ?reasons" and s': "s' = ?s" using rest by (auto simp: tx_Inr)
    from recorded [of s'] have "decision_recorded inp t offering ?snap ?reasons s s'" by (simp add: s')
    moreover have "\<exists>k sns. s' = s\<lparr>uuids_drawn := k, investment_eligibility_snapshots := sns\<rparr>" unfolding s' by blast
    ultimately show ?thesis using False unfolding res by auto
  next
    case True
    then obtain c where res: "res = Created c" and r: "reserve rt inp m t offering version key ?snap ?s = Inr (c, s')"
      using rest by (auto simp: tx_Inr elim!: bnd_Inr)
    note r = reserve_effect [OF r]
    have "decision_recorded inp t offering (cc_eligibilitySnapshotId c) [] s s'"
      using recorded [of s'] r(7) unfolding r(5) True by simp
    moreover have "payment_created inp m offering c s s'"
      using r(1) by (simp add: payment_created_def same_ledger_def)
    moreover have "capacity_reserved inp m t offering key c s s'"
      using r(2) by (simp add: capacity_reserved_def reserved_total_def)
    ultimately show ?thesis using r(3) by (simp add: res)
  qed
qed

definition checkout_offering :: "create_checkout_input \<Rightarrow> 'z market_db_scheme \<Rightarrow> offering_row option" where
  "checkout_offering inp s = first_row (\<lambda>o'. of_public_reference o' = trim (ci_publicReference inp)) (offering_products s)"

definition checkout_replay :: "create_checkout_input \<Rightarrow> offering_row \<Rightarrow> 'z market_db_scheme \<Rightarrow> (reservation_row \<times> intent_row) option" where
  "checkout_replay inp offering s =
     (case ci_commandKey inp of None \<Rightarrow> None
      | Some k \<Rightarrow> find_replay (of_id offering) (ci_investorIdentityId inp) (trim k) s)"

lemma checkout_tx_cases:
  assumes "checkout_tx rt inp m t s = Inr (res, s')"
  obtains offering where "checkout_offering inp s = Some offering" and "offering_open t offering"
    and "t < ci_paymentExpiresAt inp" and "ci_paymentExpiresAt inp \<le> of_closes_at offering"
    and "case checkout_replay inp offering s of
           Some (r, i) \<Rightarrow> s' = s \<and> (\<exists>c. res = Created c \<and> replay_result (of_id offering) r i = Inr c)
         | None \<Rightarrow> decide rt inp m t offering (map_option trim (ci_commandKey inp)) s = Inr (res, s')"
proof -
  from assms obtain offering where o': "checkout_offering inp s = Some offering"
    and rest: "offering_open t offering" "t < ci_paymentExpiresAt inp" "ci_paymentExpiresAt inp \<le> of_closes_at offering"
      "(case checkout_replay inp offering s of
             Some (r, i) \<Rightarrow> bnd (lift_sum (replay_result (of_id offering) r i)) (\<lambda>c. ret (Created c))
           | None \<Rightarrow> decide rt inp m t offering (map_option trim (ci_commandKey inp))) s = Inr (res, s')"
    unfolding checkout_tx_def checkout_offering_def checkout_replay_def Let_def
    by (auto simp: tx_Inr required_def Let_def elim!: tx_elims split: option.splits if_splits)
  then show thesis
    by (intro that [of offering]) (auto simp: tx_Inr elim!: bnd_Inr split: option.splits)
qed

lemma checkout_outcome_cases:
  "case createCheckout rt inp s of
     (Inl e, s') \<Rightarrow> s' = s \<or> (\<exists>offering snap reasons k sns. checkout_offering inp s = Some offering \<and> reasons \<noteq> []
         \<and> decision_recorded inp (accepted_at inp s) offering snap reasons s s'
         \<and> s' = s\<lparr>uuids_drawn := k, investment_eligibility_snapshots := sns\<rparr>
         \<and> e = CheckoutPolicyError (''Investor is not eligible: '' @ join_with '', '' reasons))
   | (Inr c, s') \<Rightarrow> \<exists>offering m. checkout_offering inp s = Some offering \<and> amount (ci_amountMinor inp) = Inr m
       \<and> offering_open (accepted_at inp s) offering
       \<and> accepted_at inp s < ci_paymentExpiresAt inp \<and> ci_paymentExpiresAt inp \<le> of_closes_at offering
       \<and> (case checkout_replay inp offering s of
            Some (r, i) \<Rightarrow> s' = s \<and> replay_result (of_id offering) r i = Inr c
          | None \<Rightarrow> decision_recorded inp (accepted_at inp s) offering (cc_eligibilitySnapshotId c) [] s s'
              \<and> payment_created inp m offering c s s'
              \<and> capacity_reserved inp m (accepted_at inp s) offering (map_option trim (ci_commandKey inp)) c s s')"
proof -
  let ?t = "accepted_at inp s" and ?key = "map_option trim (ci_commandKey inp)"
  show ?thesis
  proof (cases "amount (ci_amountMinor inp)")
    case (Inl e)
    then show ?thesis by (simp add: createCheckout_def)
  next
    case (Inr m)
    obtain out s' where tx: "withPostgresTransaction deferred_constraints (checkout_tx rt inp m ?t) s = (out, s')" by fastforce
    show ?thesis
    proof (cases out)
      case (Inl e)
      with tx have "s' = s" by (auto dest: withPostgresTransaction_rollback)
      then show ?thesis using Inr Inl tx by (simp add: createCheckout_def)
    next
      case out: (Inr res)
      with tx have "checkout_tx rt inp m ?t s = Inr (res, s')" by (simp add: withPostgresTransaction_commit)
      then obtain offering where o': "checkout_offering inp s = Some offering" and w: "offering_open ?t offering"
          "?t < ci_paymentExpiresAt inp" "ci_paymentExpiresAt inp \<le> of_closes_at offering"
        and r: "case checkout_replay inp offering s of
           Some (r, i) \<Rightarrow> s' = s \<and> (\<exists>c. res = Created c \<and> replay_result (of_id offering) r i = Inr c)
         | None \<Rightarrow> decide rt inp m ?t offering ?key s = Inr (res, s')"
        by (rule checkout_tx_cases)
      show ?thesis
      proof (cases "checkout_replay inp offering s")
        case None
        with r have "decide rt inp m ?t offering ?key s = Inr (res, s')" by simp
        from decide_outcome [OF this] show ?thesis
          using Inr out tx o' w None by (cases res) (auto simp: createCheckout_def)
      next
        case (Some p)
        then show ?thesis using r Inr out tx o' w by (cases p) (auto simp: createCheckout_def)
      qed
    qed
  qed
qed

text \<open>C25: what a checkout does, in every case. It succeeds only while the offering is open and with a
  payment deadline inside the offering window. A repeated command key changes nothing and returns
  the identifiers of the first checkout. Otherwise the decision is recorded with an empty list of
  reasons, the amount fits the capacity left at that instant, and one acceptance of the published
  agreement, one commitment with its pending intent of exactly that amount and one reservation are
  added; the ledger is not touched. A failed checkout leaves the database as it was, except that a
  denial for ineligibility keeps its decision record, and nothing else.\<close>

theorem checkout_outcomes:
  "case createCheckout rt inp s of
     (Inl e, s') \<Rightarrow> s' = s \<or> (\<exists>offering snap reasons k sns. checkout_offering inp s = Some offering \<and> reasons \<noteq> []
         \<and> decision_recorded inp (accepted_at inp s) offering snap reasons s s'
         \<and> s' = s\<lparr>uuids_drawn := k, investment_eligibility_snapshots := sns\<rparr>
         \<and> e = CheckoutPolicyError (''Investor is not eligible: '' @ join_with '', '' reasons))
   | (Inr c, s') \<Rightarrow> \<exists>offering m. checkout_offering inp s = Some offering \<and> amount (ci_amountMinor inp) = Inr m
       \<and> offering_open (accepted_at inp s) offering
       \<and> accepted_at inp s < ci_paymentExpiresAt inp \<and> ci_paymentExpiresAt inp \<le> of_closes_at offering
       \<and> (case checkout_replay inp offering s of
            Some (r, i) \<Rightarrow> s' = s \<and> replay_result (of_id offering) r i = Inr c
          | None \<Rightarrow> decision_recorded inp (accepted_at inp s) offering (cc_eligibilitySnapshotId c) [] s s'
              \<and> payment_created inp m offering c s s'
              \<and> capacity_reserved inp m (accepted_at inp s) offering (map_option trim (ci_commandKey inp)) c s s')"
  by (rule checkout_outcome_cases)

end
