(* ===== verification/Payment_Instructions.thy ===== *)
theory Payment_Instructions
  imports Checkout
begin

text \<open>
  Durable payment-provider calls and payment expiry: \<^verbatim>\<open>src/platform/postgres-payment-instructions.ts\<close>,
  \<^verbatim>\<open>src/services/payment-instruction-dispatcher.ts\<close>, \<^verbatim>\<open>src/services/payment-expiry-worker.ts\<close> and the
  investor-facing projection \<^verbatim>\<open>src/platform/postgres-payment-status.ts\<close>. The instruction table is a
  leased queue; the call to the provider is an argument of the dispatcher.
\<close>

section \<open>Projection of payment events\<close>

text \<open>\<open>INSERT ... ON CONFLICT (outbox_event_id) DO NOTHING\<close>.\<close>

definition insert_instruction :: "instruction_row \<Rightarrow> ('z market_db_scheme, unit) tx" where
  "insert_instruction row =
     bnd (query (\<lambda>s. exists_row (\<lambda>r. ins_outbox_event_id r = ins_outbox_event_id row) (payment_provider_instructions s))) (\<lambda>known.
     if known then ret ()
     else checked_insert (\<lambda>s. exists_row (\<lambda>r. ins_id r = ins_id row \<or> ins_payment_intent_id r = ins_payment_intent_id row)
              (payment_provider_instructions s)) ''payment_provider_instructions_payment_intent_id_key''
            (\<lambda>s. exists_row (\<lambda>i. in_id i = ins_payment_intent_id row) (payment_intents s)
               \<and> exists_row (\<lambda>e. ob_id e = ins_outbox_event_id row) (outbox_events s)) ''payment_provider_instructions_fkey''
            (\<lambda>s. s\<lparr>payment_provider_instructions := payment_provider_instructions s @ [row]\<rparr>))"

definition new_instruction :: "uuid \<Rightarrow> outbox_row \<Rightarrow> string \<Rightarrow> int \<Rightarrow> instruction_row" where
  "new_instruction i event provider now =
     \<lparr>ins_id = i, ins_payment_intent_id = ob_aggregate_id event, ins_outbox_event_id = ob_id event,
      ins_provider = provider, ins_status = Instruction_pending, ins_checkout_url = None, ins_provider_access_code = None,
      ins_initialized_at = None, ins_claimed_at = None, ins_claimed_by = None, ins_attempts = 0,
      ins_next_attempt_at = now, ins_terminal_at = None, ins_last_error = None, ins_created_at = now\<rparr>"

definition projectPaymentIntentCreated :: "runtime \<Rightarrow> outbox_row \<Rightarrow> ('z market_db_scheme, unit) tx" where
  "projectPaymentIntentCreated rt event =
     andThen (require (ob_event_type event = ''payment.intent.created'')
       (GenericError (''Unsupported payment event: '' @ ob_event_type event)))
     (bnd (query (\<lambda>s. first_row (\<lambda>i. in_id i = ob_aggregate_id event) (payment_intents s))) (\<lambda>intent.
      case map_option in_provider intent of
        None \<Rightarrow> throw (GenericError (''Payment intent '' @ ob_aggregate_id event @ '' was not found for outbox projection''))
      | Some provider \<Rightarrow>
          if provider = [] then throw (GenericError (''Payment intent '' @ ob_aggregate_id event @ '' was not found for outbox projection''))
          else bnd (randomUUID rt) (\<lambda>i. bnd (query clock) (\<lambda>now. insert_instruction (new_instruction i event provider now)))))"

section \<open>The queue\<close>

definition instruction_open :: "instruction_row \<Rightarrow> bool" where
  "instruction_open r \<longleftrightarrow> ins_status r \<in> {Instruction_pending, Instruction_failed}"

definition instruction_due :: "int \<Rightarrow> int \<Rightarrow> instruction_row \<Rightarrow> bool" where
  "instruction_due now claimTimeoutSeconds r \<longleftrightarrow>
     instruction_open r \<and> ins_terminal_at r = None \<and> ins_next_attempt_at r \<le> now
     \<and> (case ins_claimed_at r of None \<Rightarrow> True | Some t \<Rightarrow> t < now - claimTimeoutSeconds * 1000)"

definition instruction_order :: "instruction_row \<Rightarrow> instruction_row \<Rightarrow> bool" where
  "instruction_order a b \<longleftrightarrow> ins_created_at a < ins_created_at b
     \<or> (ins_created_at a = ins_created_at b \<and> str_le (ins_id a) (ins_id b))"

definition instruction_grab :: "string \<Rightarrow> int \<Rightarrow> instruction_row \<Rightarrow> instruction_row" where
  "instruction_grab workerId now r =
     r\<lparr>ins_claimed_at := Some now, ins_claimed_by := Some workerId, ins_attempts := ins_attempts r + 1\<rparr>"

definition claimPaymentProviderInstructions ::
    "string \<Rightarrow> nat \<Rightarrow> int \<Rightarrow> 'z market_db_scheme \<Rightarrow> (error + instruction_row list) \<times> 'z market_db_scheme" where
  "claimPaymentProviderInstructions workerId limit claimTimeoutSeconds s =
     (if limit = 0 then (Inr [], s)
      else withPostgresTransaction no_deferred (\<lambda>s.
        let (out, t) = claim_rows ins_id (instruction_due (clock s) claimTimeoutSeconds)
              instruction_order limit (instruction_grab workerId (clock s)) (payment_provider_instructions s)
        in Inr (out, s\<lparr>payment_provider_instructions := t\<rparr>)) s)"

definition instruction_held :: "uuid \<Rightarrow> string \<Rightarrow> instruction_row \<Rightarrow> bool" where
  "instruction_held instructionId workerId r \<longleftrightarrow>
     ins_id r = instructionId \<and> ins_claimed_by r = Some workerId \<and> instruction_open r"

definition instruction_initialize :: "string \<times> string option \<Rightarrow> int \<Rightarrow> instruction_row \<Rightarrow> instruction_row" where
  "instruction_initialize checkout now r =
     r\<lparr>ins_status := Instruction_initialized, ins_checkout_url := Some (fst checkout),
       ins_provider_access_code := snd checkout, ins_initialized_at := Some now,
       ins_claimed_at := None, ins_claimed_by := None, ins_last_error := None\<rparr>"

text \<open>The common shape of the two updates of a claimed row: it must still be claimed.\<close>

definition update_claimed :: "uuid \<Rightarrow> string \<Rightarrow> (int \<Rightarrow> instruction_row \<Rightarrow> instruction_row) \<Rightarrow> ('z market_db_scheme, unit) tx" where
  "update_claimed instructionId workerId change =
     bnd (query (\<lambda>s. count_rows (instruction_held instructionId workerId) (payment_provider_instructions s))) (\<lambda>rowCount.
     andThen (modify (\<lambda>s. s\<lparr>payment_provider_instructions :=
                update_where (instruction_held instructionId workerId) (change (clock s)) (payment_provider_instructions s)\<rparr>))
     (require (rowCount = 1) (GenericError (''Payment instruction '' @ instructionId @ '' is no longer claimed''))))"

definition markPaymentInstructionInitialized ::
    "uuid \<Rightarrow> string \<Rightarrow> string \<times> string option \<Rightarrow> 'z market_db_scheme \<Rightarrow> (error + unit) \<times> 'z market_db_scheme" where
  "markPaymentInstructionInitialized instructionId workerId checkout =
     withPostgresTransaction no_deferred (update_claimed instructionId workerId (instruction_initialize checkout))"

text \<open>What a retry writes: the instant of the next attempt, the message and whether it is the last.\<close>

definition instruction_postpone :: "int \<times> string \<times> bool \<Rightarrow> int \<Rightarrow> instruction_row \<Rightarrow> instruction_row" where
  "instruction_postpone f now r =
     (case f of (retryAt, message, terminal) \<Rightarrow>
        r\<lparr>ins_status := Instruction_failed, ins_claimed_at := None, ins_claimed_by := None,
          ins_next_attempt_at := (if terminal then ins_next_attempt_at r else retryAt),
          ins_terminal_at := (if terminal then Some now else None), ins_last_error := Some (take 2000 message)\<rparr>)"

definition markPaymentInstructionForRetry ::
    "uuid \<Rightarrow> string \<Rightarrow> int \<times> string \<times> bool \<Rightarrow> 'z market_db_scheme \<Rightarrow> (error + unit) \<times> 'z market_db_scheme" where
  "markPaymentInstructionForRetry instructionId workerId f =
     withPostgresTransaction no_deferred (update_claimed instructionId workerId (instruction_postpone f))"

section \<open>The dispatcher\<close>

record paystack_input =
  pst_email :: string
  pst_amountKobo :: int
  pst_reference :: string
  pst_metadata :: json_object

record paystack_checkout =
  pst_authorization_url :: string
  pst_access_code :: string

definition loadPaystackInstruction :: "uuid \<Rightarrow> 'z market_db_scheme \<Rightarrow> error + paystack_input" where
  "loadPaystackInstruction instructionId s =
     (case concat (map (\<lambda>r. concat (map (\<lambda>i. concat (map (\<lambda>c. map (\<lambda>d. (d, i, c))
              (filter (\<lambda>d. idn_id d = cm_investor_identity_id c) (identities s)))
              (filter (\<lambda>c. cm_id c = in_commitment_id i) (investment_commitments s))))
              (filter (\<lambda>i. in_id i = ins_payment_intent_id r) (payment_intents s))))
              (filter (\<lambda>r. ins_id r = instructionId) (payment_provider_instructions s))) of
        [] \<Rightarrow> Inl (GenericError (''Payment instruction '' @ instructionId @ '' was not found''))
      | (d, i, c) # _ \<Rightarrow>
          if in_currency i \<noteq> ''NGN''
          then Inl (GenericError (''Paystack instruction '' @ instructionId @ '' has unsupported currency '' @ in_currency i))
          else Inr \<lparr>pst_email = idn_email d, pst_amountKobo = in_expected_minor i, pst_reference = in_provider_reference i,
                    pst_metadata = [(''paymentIntentId'', JStr (in_id i)), (''commitmentId'', JStr (cm_id c))]\<rparr>)"

text \<open>\<open>Number(amountMinor)\<close> of an integer beyond the safe range is rounded to an unsafe one, so the
  test on the number is this test on the integer.\<close>

definition processPaymentProviderInstruction ::
    "(paystack_input \<Rightarrow> error + paystack_checkout) \<Rightarrow> instruction_row \<Rightarrow> string \<Rightarrow> 'z market_db_scheme \<Rightarrow> (error + unit) \<times> 'z market_db_scheme" where
  "processPaymentProviderInstruction initialize instruction workerId s =
     (if ins_provider instruction \<noteq> ''paystack''
      then (Inl (GenericError (''Unsupported payment provider: '' @ ins_provider instruction)), s)
      else case loadPaystackInstruction (ins_id instruction) s of
          Inl e \<Rightarrow> (Inl e, s)
        | Inr details \<Rightarrow>
            if \<not> isSafeInteger (Integral (pst_amountKobo details)) \<or> pst_amountKobo details \<le> 0
            then (Inl (GenericError (''Invalid Paystack instruction amount: '' @ show_int (pst_amountKobo details))), s)
            else case initialize details of
                Inl e \<Rightarrow> (Inl e, s)
              | Inr checkout \<Rightarrow> markPaymentInstructionInitialized (ins_id instruction) workerId
                    (pst_authorization_url checkout, Some (pst_access_code checkout)) s)"

definition starts_with :: "string \<Rightarrow> string \<Rightarrow> bool" where
  "starts_with prefix t \<longleftrightarrow> take (length prefix) t = prefix"

definition instruction_terminal :: "env_config \<Rightarrow> int \<Rightarrow> error \<Rightarrow> bool" where
  "instruction_terminal env attempts err \<longleftrightarrow>
     PAYMENT_INSTRUCTION_MAX_ATTEMPTS env \<le> attempts
     \<or> starts_with ''Unsupported payment provider'' (error_message err)
     \<or> (case err of PaystackRequestError m retryable \<Rightarrow> \<not> retryable | _ \<Rightarrow> False)"

definition instruction_retry :: "env_config \<Rightarrow> int \<Rightarrow> instruction_row \<Rightarrow> error \<Rightarrow> int \<times> string \<times> bool" where
  "instruction_retry env now instruction err =
     (now + delaySeconds (PAYMENT_INSTRUCTION_RETRY_BASE_SECONDS env) (ins_attempts instruction) * 1000,
      error_message err, instruction_terminal env (ins_attempts instruction) err)"

fun dispatch_instructions ::
    "env_config \<Rightarrow> (paystack_input \<Rightarrow> error + paystack_checkout) \<Rightarrow> string \<Rightarrow> instruction_row list \<Rightarrow> 'z market_db_scheme \<Rightarrow>
     (error + unit) \<times> 'z market_db_scheme" where
  "dispatch_instructions env initialize workerId [] s = (Inr (), s)"
| "dispatch_instructions env initialize workerId (instruction # rest) s =
     (case processPaymentProviderInstruction initialize instruction workerId s of
        (Inr _, s') \<Rightarrow> dispatch_instructions env initialize workerId rest s'
      | (Inl err, s') \<Rightarrow>
          (case markPaymentInstructionForRetry (ins_id instruction) workerId (instruction_retry env (clock s') instruction err) s' of
             (Inl err', s'') \<Rightarrow> (Inl err', s'')
           | (Inr _, s'') \<Rightarrow> dispatch_instructions env initialize workerId rest s''))"

definition dispatchPendingPaymentProviderInstructions ::
    "env_config \<Rightarrow> (paystack_input \<Rightarrow> error + paystack_checkout) \<Rightarrow> string \<Rightarrow> 'z market_db_scheme \<Rightarrow> (error + nat) \<times> 'z market_db_scheme" where
  "dispatchPendingPaymentProviderInstructions env initialize workerId s =
     (case claimPaymentProviderInstructions workerId (OUTBOX_DISPATCH_BATCH_SIZE env)
             (PAYMENT_INSTRUCTION_CLAIM_TIMEOUT_SECONDS env) s of
        (Inl e, s') \<Rightarrow> (Inl e, s')
      | (Inr instructions, s') \<Rightarrow>
          (case dispatch_instructions env initialize workerId instructions s' of
             (Inl e, s'') \<Rightarrow> (Inl e, s'')
           | (Inr _, s'') \<Rightarrow> (Inr (length instructions), s'')))"

section \<open>Expiry\<close>

definition expired_intents :: "int \<Rightarrow> nat \<Rightarrow> 'z market_db_scheme \<Rightarrow> (intent_row \<times> commitment_row) list" where
  "expired_intents now limit s =
     take limit (sort_by (\<lambda>a b. in_expires_at (fst a) < in_expires_at (fst b)
         \<or> (in_expires_at (fst a) = in_expires_at (fst b) \<and> str_le (in_id (fst a)) (in_id (fst b))))
       (concat (map (\<lambda>i. map (Pair i) (filter (\<lambda>c. cm_id c = in_commitment_id i) (investment_commitments s)))
         (filter (\<lambda>i. in_status i = Intent_pending \<and> in_expires_at i \<le> now) (payment_intents s)))))"

definition expire_commitment :: "uuid \<Rightarrow> ('z market_db_scheme, unit) tx" where
  "expire_commitment commitmentId =
     modify (\<lambda>s. s\<lparr>investment_commitments :=
       update_where (\<lambda>c. cm_id c = commitmentId \<and> cm_status c = Commitment_payment_pending)
         (\<lambda>c. c\<lparr>cm_status := Commitment_expired\<rparr>) (investment_commitments s)\<rparr>)"

definition instruction_cancel :: "instruction_row \<Rightarrow> instruction_row" where
  "instruction_cancel r =
     r\<lparr>ins_status := Instruction_cancelled, ins_claimed_at := None, ins_claimed_by := None,
       ins_last_error := Some ''Payment intent expired before provider initialization''\<rparr>"

definition cancel_instructions :: "uuid \<Rightarrow> ('z market_db_scheme, unit) tx" where
  "cancel_instructions intentId =
     modify (\<lambda>s. s\<lparr>payment_provider_instructions :=
       update_where (\<lambda>r. ins_payment_intent_id r = intentId \<and> instruction_open r) instruction_cancel
         (payment_provider_instructions s)\<rparr>)"

definition expire_intent :: "runtime \<Rightarrow> int \<Rightarrow> intent_row \<times> commitment_row \<Rightarrow> ('z market_db_scheme, unit) tx" where
  "expire_intent rt now p =
     andThen (set_intent_status (in_id (fst p)) Intent_expired)
     (andThen (expire_commitment (in_commitment_id (fst p)))
     (andThen (settle_reservations (in_commitment_id (fst p)) Reservation_expired)
     (andThen (cancel_instructions (in_id (fst p)))
     (bnd (appendPostgresAuditEvent rt (audit_of (cm_organization_id (snd p)) None ''system'' ''payment.intent.expired''
        ''payment_intent'' (in_id (fst p))
        [(''commitmentId'', JStr (in_commitment_id (fst p))), (''expiredAt'', JStr (toISOString now))])) (\<lambda>audit.
      andThen (appendOutboxEvent rt resolve_market_privacy_subjects (outbox_of ''payment_intent'' (in_id (fst p))
        ''payment.intent.expired'' [(''organizationId'', JStr (cm_organization_id (snd p))),
          (''commitmentId'', JStr (in_commitment_id (fst p))), (''auditEventId'', JStr (aud_id audit))]))
      (ret ()))))))"

definition expirePendingPaymentIntents ::
    "runtime \<Rightarrow> env_config \<Rightarrow> int \<Rightarrow> 'z market_db_scheme \<Rightarrow> (error + nat) \<times> 'z market_db_scheme" where
  "expirePendingPaymentIntents rt env now =
     withPostgresTransaction deferred_constraints
       (bnd (query (expired_intents now (PAYMENT_EXPIRY_BATCH_SIZE env))) (\<lambda>candidates.
        andThen (for_each candidates (expire_intent rt now)) (ret (length candidates))))"

section \<open>The investor's view\<close>

record payment_status_row =
  ps_id :: uuid
  ps_status :: string
  ps_expiresAt :: int
  ps_currency :: string
  ps_amountMinor :: string
  ps_instructionStatus :: "string option"
  ps_checkoutUrl :: "string option"
  ps_terminalAt :: "int option"

record provider_instruction_view =
  vw_status :: string
  vw_checkoutUrl :: "string option"
  vw_retryable :: bool
  vw_error :: "string option"

record payment_status_view =
  vw_id :: uuid
  vw_intentStatus :: string
  vw_currency :: string
  vw_amountMinor :: string
  vw_expiresAt :: string
  vw_providerInstruction :: provider_instruction_view

definition serializePaymentIntentStatus :: "int \<Rightarrow> payment_status_row \<Rightarrow> payment_status_view" where
  "serializePaymentIntentStatus now payment =
     (let payable = (ps_status payment = ''pending'' \<and> now < ps_expiresAt payment);
          pending = \<lparr>vw_status = ''pending_projection'', vw_checkoutUrl = None, vw_retryable = False, vw_error = None\<rparr>
      in \<lparr>vw_id = ps_id payment, vw_intentStatus = ps_status payment, vw_currency = ps_currency payment,
          vw_amountMinor = ps_amountMinor payment, vw_expiresAt = toISOString (ps_expiresAt payment),
          vw_providerInstruction =
            (case ps_instructionStatus payment of
               None \<Rightarrow> pending
             | Some st \<Rightarrow>
                 if st = [] then pending
                 else \<lparr>vw_status = st,
                       vw_checkoutUrl = (if st = ''initialized'' \<and> payable then ps_checkoutUrl payment else None),
                       vw_retryable = (st = ''failed'' \<and> ps_terminalAt payment = None),
                       vw_error = (if st = ''failed'' then Some ''Payment setup could not be completed.'' else None)\<rparr>)\<rparr>)"

lemmas [tx_defs] = insert_instruction_def projectPaymentIntentCreated_def update_claimed_def
  markPaymentInstructionInitialized_def markPaymentInstructionForRetry_def expire_commitment_def
  cancel_instructions_def expire_intent_def expirePendingPaymentIntents_def

section \<open>The instructions as a leased queue\<close>

definition instruction_lease_wf :: "instruction_row \<Rightarrow> bool" where
  "instruction_lease_wf r \<longleftrightarrow> (ins_claimed_by r = None \<longleftrightarrow> ins_claimed_at r = None)"

lemmas instruction_row_defs = instruction_lease_wf_def instruction_open_def instruction_due_def instruction_grab_def
  instruction_held_def instruction_initialize_def instruction_postpone_def instruction_cancel_def

interpretation pq: row_queue instruction_lease_wf ins_id "\<lambda>r. \<not> instruction_open r" ins_claimed_by ins_claimed_at
  ins_attempts "\<lambda>c :: nat. instruction_due" instruction_order "\<lambda>c. c" instruction_grab instruction_held
  instruction_initialize instruction_postpone True
  by unfold_locales (auto simp: instruction_row_defs split: option.splits prod.splits)

fun instruction_step ::
    "(nat, string \<times> string option, int \<times> string \<times> bool) queue_step \<Rightarrow> 'z market_db_scheme \<Rightarrow> 'z market_db_scheme" where
  "instruction_step (Claim limit w now timeout) s =
     snd (claimPaymentProviderInstructions w limit timeout (s\<lparr>clock := now\<rparr>))"
| "instruction_step (Complete g w now i) s = snd (markPaymentInstructionInitialized i w g (s\<lparr>clock := now\<rparr>))"
| "instruction_step (Release f w now i) s = snd (markPaymentInstructionForRetry i w f (s\<lparr>clock := now\<rparr>))"

definition instruction_run ::
    "(nat, string \<times> string option, int \<times> string \<times> bool) queue_step list \<Rightarrow> 'z market_db_scheme \<Rightarrow> 'z market_db_scheme" where
  "instruction_run ss s = fold instruction_step ss s"

definition instructions_ok :: "instruction_row list \<Rightarrow> bool" where
  "instructions_ok t \<longleftrightarrow> distinct (map ins_id t) \<and> (\<forall>r \<in> set t. instruction_lease_wf r)"

lemma instructions_ok_iff: "instructions_ok t = pq.rows_ok t"
  by (simp add: instructions_ok_def pq.rows_ok_def)

lemma claimPaymentProviderInstructions_table:
  "claimPaymentProviderInstructions w limit timeout s =
     (case claim_rows ins_id (instruction_due (clock s) timeout) instruction_order limit (instruction_grab w (clock s))
             (payment_provider_instructions s) of
        (out, t) \<Rightarrow> (Inr out, s\<lparr>payment_provider_instructions := t\<rparr>))"
  by (simp add: claimPaymentProviderInstructions_def claim_rows_def Let_def update_where_none
      withPostgresTransaction_def no_deferred_def)

lemma update_claimed_run:
  "withPostgresTransaction no_deferred (update_claimed i w change) s =
     (if count_rows (instruction_held i w) (payment_provider_instructions s) = 1
      then (Inr (), s\<lparr>payment_provider_instructions :=
              update_where (instruction_held i w) (change (clock s)) (payment_provider_instructions s)\<rparr>)
      else (Inl (GenericError (''Payment instruction '' @ i @ '' is no longer claimed'')), s))"
  by (simp add: update_claimed_def tx_simps withPostgresTransaction_def no_deferred_def)

lemmas mark_instruction_run = markPaymentInstructionInitialized_def markPaymentInstructionForRetry_def update_claimed_run

lemma instruction_step_table:
  "payment_provider_instructions (instruction_step st s) = pq.run_step st (payment_provider_instructions s)"
  by (cases st)
     (simp_all add: claimPaymentProviderInstructions_table mark_instruction_run pq.claim_table_def pq.complete_table_def
        pq.release_table_def split: prod.splits)

lemma instruction_run_table:
  "payment_provider_instructions (instruction_run ss s) = pq.run_steps ss (payment_provider_instructions s)"
  by (induction ss arbitrary: s) (simp_all add: instruction_run_def pq.run_steps_def instruction_step_table)

lemma claimed_instruction_stays:
  assumes "instructions_ok (payment_provider_instructions s)"
    and "claimPaymentProviderInstructions w limit timeout s = (Inr out, s')" and "e \<in> set out"
    and "\<forall>st \<in> set ss. step_worker st \<noteq> w \<and> respects_lease (clock s) st"
  shows "fst (markPaymentInstructionInitialized (ins_id e) w checkout (instruction_run ss s')) = Inr ()"
    and "clock (instruction_run ss s') - timeout2 * 1000 \<le> clock s \<Longrightarrow>
      claimPaymentProviderInstructions v limit2 timeout2 (instruction_run ss s') = (Inr out2, s2) \<Longrightarrow>
      ins_id e \<notin> ins_id ` set out2"
proof -
  let ?c = "pq.claim_table limit w (clock s) timeout (payment_provider_instructions s)"
  have s': "payment_provider_instructions s' = snd ?c" and ids: "?c = (map ins_id out, snd ?c)"
    using assms(2) by (auto simp: claimPaymentProviderInstructions_table pq.claim_table_def split: prod.splits)
  have ok: "pq.rows_ok (payment_provider_instructions s)" using assms(1) by (simp add: instructions_ok_iff)
  have e: "ins_id e \<in> set (map ins_id out)" using assms(3) by simp
  have "pq.complete_table checkout w (clock (instruction_run ss s')) (ins_id e) (pq.run_steps ss (snd ?c)) \<noteq> None"
    by (rule pq.claim_then_complete [OF ok ids e assms(4)])
  then show "fst (markPaymentInstructionInitialized (ins_id e) w checkout (instruction_run ss s')) = Inr ()"
    by (simp add: mark_instruction_run pq.complete_table_def instruction_run_table s' split: if_splits)
  assume prompt: "clock (instruction_run ss s') - timeout2 * 1000 \<le> clock s"
    and c2: "claimPaymentProviderInstructions v limit2 timeout2 (instruction_run ss s') = (Inr out2, s2)"
  have "pq.claim_table limit2 v (clock (instruction_run ss s')) timeout2 (pq.run_steps ss (snd ?c))
      = (map ins_id out2, payment_provider_instructions s2)"
    using c2 by (auto simp: claimPaymentProviderInstructions_table pq.claim_table_def instruction_run_table s' split: prod.splits)
  from pq.claimed_not_reclaimed [OF ok ids e assms(4) prompt this] show "ins_id e \<notin> ins_id ` set out2" by simp
qed

text \<open>The answer of the payment provider is not lost to a competing worker. A worker that has
  claimed an instruction and reached the provider can record the checkout it obtained as long as
  every other claim since then was made within its own timeout of the lease, whatever claims,
  completions and retries other workers attempted in between; and no other worker can claim the
  instruction meanwhile.\<close>

theorem instruction_claim_exclusive:
  assumes "instructions_ok (payment_provider_instructions s)"
    and "claimPaymentProviderInstructions w limit timeout s = (Inr out, s')" and "e \<in> set out"
    and "\<forall>st \<in> set ss. step_worker st \<noteq> w \<and> respects_lease (clock s) st"
    and "clock (instruction_run ss s') - timeout2 * 1000 \<le> clock s"
  shows "fst (markPaymentInstructionInitialized (ins_id e) w checkout (instruction_run ss s')) = Inr ()
     \<and> (case claimPaymentProviderInstructions v limit2 timeout2 (instruction_run ss s') of
          (Inl err, s2) \<Rightarrow> False
        | (Inr out2, s2) \<Rightarrow> ins_id e \<notin> ins_id ` set out2)"
proof -
  obtain out2 s2 where c: "claimPaymentProviderInstructions v limit2 timeout2 (instruction_run ss s') = (Inr out2, s2)"
    unfolding claimPaymentProviderInstructions_table by (metis (no_types, lifting) case_prod_beta')
  show ?thesis
    using claimed_instruction_stays(1) [OF assms(1-4)] claimed_instruction_stays(2) [OF assms c] by (simp add: c)
qed

text \<open>A concrete table with one pending instruction.\<close>

definition sample_instruction :: instruction_row where
  "sample_instruction = \<lparr>ins_id = ''i1'', ins_payment_intent_id = ''p1'', ins_outbox_event_id = ''e1'', ins_provider = ''paystack'',
     ins_status = Instruction_pending, ins_checkout_url = None, ins_provider_access_code = None, ins_initialized_at = None,
     ins_claimed_at = None, ins_claimed_by = None, ins_attempts = 0, ins_next_attempt_at = 0, ins_terminal_at = None,
     ins_last_error = None, ins_created_at = 0\<rparr>"

definition sample_market_db :: market_db where
  "sample_market_db = \<lparr>clock = 1000, uuids_drawn = 0, identities = [], audit_sequence = 0, audit_events = [],
     audit_chain_heads = [], outbox_events = [], organizations = [], ledger_accounts = [], journal_entries = [],
     journal_postings = [], investment_commitments = [], payment_intents = [], payment_receipts = [],
     payment_reconciliation_cases = [], offering_products = [], offering_publication_versions = [],
     investor_compliance_profiles = [], investment_eligibility_snapshots = [], agreement_acceptances = [],
     investment_reservations = [], payment_provider_instructions = [sample_instruction]\<rparr>"

lemma sample_instructions_ok: "instructions_ok (payment_provider_instructions sample_market_db)"
  by (simp add: instructions_ok_def sample_market_db_def instruction_lease_wf_def sample_instruction_def)

theorem instruction_claim_exclusive_witness:
  "fst (markPaymentInstructionInitialized ''i1'' ''w'' (''url'', None)
     (instruction_run [Claim 10 ''v'' 2000 300, Complete (''other'', None) ''v'' 2000 ''i1'']
       (snd (claimPaymentProviderInstructions ''w'' 10 300 sample_market_db)))) = Inr ()"
proof -
  have claim: "claimPaymentProviderInstructions ''w'' 10 300 sample_market_db
      = (Inr [instruction_grab ''w'' 1000 sample_instruction],
         sample_market_db\<lparr>payment_provider_instructions := [instruction_grab ''w'' 1000 sample_instruction]\<rparr>)"
    by code_simp
  have run: "clock (instruction_run [Claim 10 ''v'' 2000 300, Complete (''other'', None) ''v'' 2000 ''i1'']
      (sample_market_db\<lparr>payment_provider_instructions := [instruction_grab ''w'' 1000 sample_instruction]\<rparr>)) = 2000"
    by code_simp
  have i: "ins_id (instruction_grab ''w'' 1000 sample_instruction) = ''i1''" and c: "clock sample_market_db = 1000"
    by (simp_all add: instruction_grab_def sample_instruction_def sample_market_db_def)
  show ?thesis
    using instruction_claim_exclusive [OF sample_instructions_ok claim, of "instruction_grab ''w'' 1000 sample_instruction"
        "[Claim 10 ''v'' 2000 300, Complete (''other'', None) ''v'' 2000 ''i1'']" 300 "(''url'', None)" "''v''" 10]
    by (simp add: i claim run c)
qed

section \<open>A dispatcher round\<close>

text \<open>What a round does to a claimed instruction: it is initialized, or failed with the back-off of
  its attempt count, for good when the error is not retryable or the attempts are used up.\<close>

definition instruction_settled :: "env_config \<Rightarrow> int \<Rightarrow> instruction_row \<Rightarrow> instruction_row \<Rightarrow> bool" where
  "instruction_settled env now r r' \<longleftrightarrow> (\<exists>checkout. r' = instruction_initialize checkout now r)
     \<or> (\<exists>err. r' = instruction_postpone (instruction_retry env now r err) now r)"

lemma instruction_row_sels [simp]:
  "ins_id (instruction_postpone f now r) = ins_id r" "ins_claimed_by (instruction_postpone f now r) = None"
  "ins_id (instruction_initialize g now r) = ins_id r" "ins_claimed_by (instruction_initialize g now r) = None"
  "ins_id (instruction_grab w now r) = ins_id r" "ins_claimed_by (instruction_grab w now r) = Some w"
  "instruction_open (instruction_grab w now r) = instruction_open r"
  "instruction_lease_wf (instruction_postpone f now r)" "instruction_lease_wf (instruction_initialize g now r)"
  by (cases f; simp add: instruction_lease_wf_def instruction_postpone_def instruction_initialize_def instruction_grab_def instruction_open_def)+

lemma instruction_settled_free:
  "instruction_settled env now r r' \<Longrightarrow> ins_claimed_by r' = None \<and> ins_id r' = ins_id r \<and> instruction_lease_wf r'"
  by (auto simp: instruction_settled_def)

lemma process_instruction_cases:
  "(\<exists>e. processPaymentProviderInstruction initialize i w s = (Inl e, s))
   \<or> (\<exists>c. processPaymentProviderInstruction initialize i w s = markPaymentInstructionInitialized (ins_id i) w c s)"
  by (auto simp: processPaymentProviderInstruction_def split: sum.splits)

lemma dispatch_instructions_settle_all:
  "dispatch_instructions env initialize w es s = settle_all (\<lambda>e. dispatch_instructions env initialize w [e]) es s"
  by (induction es arbitrary: s) (auto split: prod.splits sum.splits)

text \<open>Handling changes nothing but the table: the state predicate says so.\<close>

lemma instruction_handler_settles:
  "pq.settles (\<lambda>s'. \<exists>t. s' = s\<lparr>payment_provider_instructions := t\<rparr>) payment_provider_instructions w
     (instruction_settled env (clock s)) (\<lambda>e. dispatch_instructions env initialize w [e])"
  unfolding pq.settles_def
proof (intro conjI allI impI)
  fix e :: instruction_row and s1
  assume I: "\<exists>t. s1 = s\<lparr>payment_provider_instructions := t\<rparr>"
    and one: "count_rows (instruction_held (ins_id e) w) (payment_provider_instructions s1) = 1"
  then have clk: "clock s1 = clock s" by auto
  have settle: "\<exists>h s'. dispatch_instructions env initialize w [e] s1 = (Inr (), s')
      \<and> (\<exists>t. s' = s\<lparr>payment_provider_instructions := t\<rparr>) \<and> instruction_settled env (clock s) e (h e)
      \<and> payment_provider_instructions s' = update_where (instruction_held (ins_id e) w) h (payment_provider_instructions s1)"
    if "dispatch_instructions env initialize w [e] s1 = (Inr (), s1\<lparr>payment_provider_instructions :=
          update_where (instruction_held (ins_id e) w) h (payment_provider_instructions s1)\<rparr>)"
      and "instruction_settled env (clock s) e (h e)" for h
    using that I by (intro exI [of _ h]) auto
  show "\<exists>h s'. dispatch_instructions env initialize w [e] s1 = (Inr (), s')
      \<and> (\<exists>t. s' = s\<lparr>payment_provider_instructions := t\<rparr>) \<and> instruction_settled env (clock s) e (h e)
      \<and> payment_provider_instructions s' = update_where (instruction_held (ins_id e) w) h (payment_provider_instructions s1)"
    using process_instruction_cases [of initialize e w s1]
  proof (elim disjE exE)
    fix err assume "processPaymentProviderInstruction initialize e w s1 = (Inl err, s1)"
    with one show ?thesis
      by (intro settle [of "instruction_postpone (instruction_retry env (clock s) e err) (clock s)"])
         (auto simp: instruction_settled_def mark_instruction_run clk)
  next
    fix c assume "processPaymentProviderInstruction initialize e w s1 = markPaymentInstructionInitialized (ins_id e) w c s1"
    with one show ?thesis
      by (intro settle [of "instruction_initialize c (clock s)"])
         (simp add: mark_instruction_run clk, unfold instruction_settled_def, blast)
  qed
qed (simp_all add: instruction_settled_free)

text \<open>A round of the payment dispatcher settles what it claims. When its worker holds no
  instruction at the start, it holds none at the end and the round does not fail, whatever the
  provider answers: every instruction is untouched, or was due and is now initialized, or was due and
  is now failed with the back-off of its attempt count (for good when the attempts are used up or the
  error is final).\<close>

theorem dispatch_instructions_settles:
  assumes ok: "instructions_ok (payment_provider_instructions s)"
    and free: "\<forall>r \<in> set (payment_provider_instructions s). ins_claimed_by r \<noteq> Some w"
  shows "\<exists>n t. dispatchPendingPaymentProviderInstructions env initialize w s = (Inr n, s\<lparr>payment_provider_instructions := t\<rparr>)
     \<and> n \<le> OUTBOX_DISPATCH_BATCH_SIZE env \<and> (\<forall>r \<in> set t. ins_claimed_by r \<noteq> Some w)
     \<and> list_all2 (\<lambda>r r'. r' = r \<or> (instruction_due (clock s) (PAYMENT_INSTRUCTION_CLAIM_TIMEOUT_SECONDS env) r
           \<and> instruction_settled env (clock s) (instruction_grab w (clock s) r) r')) (payment_provider_instructions s) t"
proof -
  obtain out u where c: "claim_rows ins_id (instruction_due (clock s) (PAYMENT_INSTRUCTION_CLAIM_TIMEOUT_SECONDS env))
      instruction_order (OUTBOX_DISPATCH_BATCH_SIZE env) (instruction_grab w (clock s)) (payment_provider_instructions s) = (out, u)"
    by fastforce
  let ?s = "s\<lparr>payment_provider_instructions := u\<rparr>"
  have rows: "pq.rows_ok (payment_provider_instructions s)" using ok by (simp add: instructions_ok_iff)
  have c': "claim_rows ins_id (instruction_due (clock s) (PAYMENT_INSTRUCTION_CLAIM_TIMEOUT_SECONDS env)) instruction_order
      (OUTBOX_DISPATCH_BATCH_SIZE env) (instruction_grab w (clock s)) (payment_provider_instructions s)
      = (out, payment_provider_instructions ?s)" using c by simp
  have same: "\<exists>t. ?s = s\<lparr>payment_provider_instructions := t\<rparr>" by blast
  from pq.round_settles [OF rows free c' instruction_handler_settles [of s w env initialize] same]
  obtain s' where run: "settle_all (\<lambda>e. dispatch_instructions env initialize w [e]) out ?s = (Inr (), s')"
    and rest: "\<exists>t. s' = s\<lparr>payment_provider_instructions := t\<rparr>" "length out \<le> OUTBOX_DISPATCH_BATCH_SIZE env"
      "\<forall>r \<in> set (payment_provider_instructions s'). ins_claimed_by r \<noteq> Some w"
      "list_all2 (\<lambda>r r'. r' = r \<or> (instruction_due (clock s) (PAYMENT_INSTRUCTION_CLAIM_TIMEOUT_SECONDS env) r
           \<and> instruction_settled env (clock s) (instruction_grab w (clock s) r) r')) (payment_provider_instructions s)
         (payment_provider_instructions s')"
    by blast
  show ?thesis
    using rest run by (intro exI [of _ "length out"] exI [of _ "payment_provider_instructions s'"])
      (auto simp: dispatchPendingPaymentProviderInstructions_def claimPaymentProviderInstructions_table c
         dispatch_instructions_settle_all [of env initialize w out])
qed

theorem dispatch_instructions_settles_witness:
  "\<exists>n t. dispatchPendingPaymentProviderInstructions default_env (\<lambda>_. Inl (PaystackRequestError ''down'' True)) ''w'' sample_market_db
        = (Inr n, sample_market_db\<lparr>payment_provider_instructions := t\<rparr>)
     \<and> n \<le> OUTBOX_DISPATCH_BATCH_SIZE default_env \<and> (\<forall>r \<in> set t. ins_claimed_by r \<noteq> Some ''w'')
     \<and> list_all2 (\<lambda>r r'. r' = r \<or> (instruction_due (clock sample_market_db) (PAYMENT_INSTRUCTION_CLAIM_TIMEOUT_SECONDS default_env) r
           \<and> instruction_settled default_env (clock sample_market_db) (instruction_grab ''w'' (clock sample_market_db) r) r'))
         (payment_provider_instructions sample_market_db) t"
  by (rule dispatch_instructions_settles [OF sample_instructions_ok])
     (simp add: sample_market_db_def sample_instruction_def)

section \<open>Expiry\<close>

text \<open>The tables after the intents \<open>ids\<close> with their commitments \<open>cids\<close> have expired.\<close>

definition expired_tables :: "uuid set \<Rightarrow> uuid set \<Rightarrow> 'z market_db_scheme \<Rightarrow> 'z market_db_scheme \<Rightarrow> bool" where
  "expired_tables ids cids s s' \<longleftrightarrow>
     payment_intents s' = update_where (\<lambda>i. in_id i \<in> ids) (\<lambda>i. i\<lparr>in_status := Intent_expired\<rparr>) (payment_intents s)
     \<and> investment_commitments s' = update_where (\<lambda>c. cm_id c \<in> cids \<and> cm_status c = Commitment_payment_pending)
         (\<lambda>c. c\<lparr>cm_status := Commitment_expired\<rparr>) (investment_commitments s)
     \<and> investment_reservations s' = update_where
         (\<lambda>r. rv_commitment_id r \<in> Some ` cids \<and> rv_status r = Reservation_pending_payment)
         (\<lambda>r. r\<lparr>rv_status := Reservation_expired\<rparr>) (investment_reservations s)
     \<and> payment_provider_instructions s' = update_where (\<lambda>r. ins_payment_intent_id r \<in> ids \<and> instruction_open r)
         instruction_cancel (payment_provider_instructions s)
     \<and> payment_receipts s' = payment_receipts s \<and> payment_reconciliation_cases s' = payment_reconciliation_cases s
     \<and> offering_products s' = offering_products s \<and> same_ledger s s' \<and> clock s' = clock s"

lemma expired_tables_refl: "expired_tables {} {} s s"
  by (simp add: expired_tables_def update_where_none same_ledger_def)

lemma expired_tables_trans:
  assumes "expired_tables ids cids s s1" and "expired_tables ids' cids' s1 s2"
  shows "expired_tables (ids \<union> ids') (cids \<union> cids') s s2"
  using assms by (auto simp: expired_tables_def update_where_def same_ledger_def instruction_cancel_def instruction_open_def)

lemma expire_intent_effect:
  assumes "expire_intent rt now p s = Inr (u, s')"
  shows "expired_tables {in_id (fst p)} {in_commitment_id (fst p)} s s'
     \<and> (\<forall>i \<in> set (payment_intents s). in_id i = in_id (fst p) \<longrightarrow> in_status i = Intent_pending)"
  using assms unfolding expire_intent_def expire_commitment_def cancel_instructions_def
  by (auto simp: expired_tables_def tx_Inr market_Inr same_ledger_def elim!: tx_elims dest!: append_audit_frame append_outbox_frame)

lemma expire_all_effect:
  assumes "for_each ps (expire_intent rt now) s = Inr (u, s')"
  shows "expired_tables ((in_id \<circ> fst) ` set ps) ((in_commitment_id \<circ> fst) ` set ps) s s'
     \<and> (\<forall>i \<in> set (payment_intents s). in_id i \<in> (in_id \<circ> fst) ` set ps \<longrightarrow> in_status i = Intent_pending)"
  using assms
proof (induction ps arbitrary: s)
  case Nil
  then show ?case by (simp add: tx_Inr expired_tables_refl)
next
  case (Cons p ps)
  then obtain s1 where 1: "expire_intent rt now p s = Inr ((), s1)" and 2: "for_each ps (expire_intent rt now) s1 = Inr (u, s')"
    by (auto elim!: andThen_Inr)
  note e1 = expire_intent_effect [OF 1] and e2 = Cons.IH [OF 2]
  have "expired_tables ((in_id \<circ> fst) ` set (p # ps)) ((in_commitment_id \<circ> fst) ` set (p # ps)) s s'"
    using expired_tables_trans [of "{in_id (fst p)}" "{in_commitment_id (fst p)}" s s1] e1 e2 by simp
  moreover have "in_status i = Intent_pending"
    if "i \<in> set (payment_intents s)" "in_id i \<in> (in_id \<circ> fst) ` set (p # ps)" for i
  proof (cases "in_id i = in_id (fst p)")
    case False
    then have "i \<in> set (payment_intents s1)"
      using that(1) e1 unfolding expired_tables_def by (auto simp: set_update_where image_iff)
    with False that(2) e2 show ?thesis by auto
  qed (use that e1 in blast)
  ultimately show ?case by blast
qed

lemma expirePendingPaymentIntents_effect:
  assumes "expirePendingPaymentIntents rt env now s = (Inr n, s')"
  defines "ps \<equiv> expired_intents now (PAYMENT_EXPIRY_BATCH_SIZE env) s"
  shows "n = length ps" and "expired_tables ((in_id \<circ> fst) ` set ps) ((in_commitment_id \<circ> fst) ` set ps) s s'"
    and "\<forall>i \<in> set (payment_intents s). in_id i \<in> (in_id \<circ> fst) ` set ps \<longrightarrow> in_status i = Intent_pending"
proof -
  have n: "n = length ps" and each: "for_each ps (expire_intent rt now) s = Inr ((), s')"
    using assms by (auto simp: expirePendingPaymentIntents_def withPostgresTransaction_commit tx_Inr elim!: tx_elims)
  show "n = length ps" by (rule n)
  show "expired_tables ((in_id \<circ> fst) ` set ps) ((in_commitment_id \<circ> fst) ` set ps) s s'"
    and "\<forall>i \<in> set (payment_intents s). in_id i \<in> (in_id \<circ> fst) ` set ps \<longrightarrow> in_status i = Intent_pending"
    using expire_all_effect [OF each] by blast+
qed

lemma expired_intents_sound:
  assumes "p \<in> set (expired_intents now limit s)"
  shows "fst p \<in> set (payment_intents s)" and "in_status (fst p) = Intent_pending" and "in_expires_at (fst p) \<le> now"
    and "snd p \<in> set (investment_commitments s)" and "cm_id (snd p) = in_commitment_id (fst p)"
  using assms unfolding expired_intents_def by (auto dest!: in_set_takeD)

lemma expired_intents_complete:
  assumes "length (expired_intents now limit s) < limit" and "intents_ok s" and "i \<in> set (payment_intents s)"
    and "in_status i = Intent_pending" and "in_expires_at i \<le> now"
  shows "in_id i \<in> (in_id \<circ> fst) ` set (expired_intents now limit s)"
proof -
  obtain c where "c \<in> set (investment_commitments s)" "cm_id c = in_commitment_id i"
    using assms(2,3) by (auto simp: intents_ok_def image_subset_iff image_iff)
  then have "(i, c) \<in> set (expired_intents now limit s)"
    using assms(1,3-5) unfolding expired_intents_def by auto
  then show ?thesis by force
qed

text \<open>What an expiry run makes of the rows of one intent.\<close>

definition intent_closed :: "intent_row \<Rightarrow> 'z market_db_scheme \<Rightarrow> bool" where
  "intent_closed i s \<longleftrightarrow>
     (\<forall>c \<in> set (investment_commitments s). cm_id c = in_commitment_id i \<longrightarrow> cm_status c \<noteq> Commitment_payment_pending)
     \<and> (\<forall>r \<in> set (investment_reservations s). rv_commitment_id r = Some (in_commitment_id i) \<longrightarrow> rv_status r \<noteq> Reservation_pending_payment)
     \<and> (\<forall>r \<in> set (payment_provider_instructions s). ins_payment_intent_id r = in_id i \<longrightarrow> \<not> instruction_open r)"

text \<open>The expiry worker. A run expires only pending intents whose deadline has passed; together
  with an intent it closes its commitment, frees its reserved capacity and withdraws its provider
  instruction. It touches neither receipts nor the ledger. A run that finds fewer intents than the
  batch size leaves no overdue intent pending.\<close>

theorem expiry_closes_overdue:
  assumes "intents_ok s" and "expirePendingPaymentIntents rt env now s = (Inr n, s')"
  shows "list_all2 (\<lambda>i i'. i' = i \<or> (in_status i = Intent_pending \<and> in_expires_at i \<le> now
             \<and> i' = i\<lparr>in_status := Intent_expired\<rparr> \<and> intent_closed i s')) (payment_intents s) (payment_intents s')
     \<and> n \<le> PAYMENT_EXPIRY_BATCH_SIZE env
     \<and> (n < PAYMENT_EXPIRY_BATCH_SIZE env \<longrightarrow>
          (\<forall>i \<in> set (payment_intents s'). in_status i = Intent_pending \<longrightarrow> now < in_expires_at i))
     \<and> payment_receipts s' = payment_receipts s \<and> same_ledger s s'"
proof -
  let ?ps = "expired_intents now (PAYMENT_EXPIRY_BATCH_SIZE env) s"
  let ?ids = "(in_id \<circ> fst) ` set ?ps" and ?cids = "(in_commitment_id \<circ> fst) ` set ?ps"
  note e = expirePendingPaymentIntents_effect [OF assms(2)]
  note tables = e(2) [unfolded expired_tables_def]
  have row: "i \<in> fst ` set ?ps" if "i \<in> set (payment_intents s)" "in_id i \<in> ?ids" for i
  proof -
    from that(2) obtain p where p: "p \<in> set ?ps" "in_id i = in_id (fst p)" by auto
    then have "fst p = i" using assms(1) that(1) expired_intents_sound(1) [OF p(1)]
      by (auto simp: intents_ok_def intro: distinct_map_key_eq)
    with p show ?thesis by force
  qed
  have closed: "intent_closed (fst p) s'" if "p \<in> set ?ps" for p
    using that tables by (auto simp: intent_closed_def set_update_where instruction_cancel_def instruction_open_def split: if_splits)
  have "list_all2 (\<lambda>i i'. i' = i \<or> (in_status i = Intent_pending \<and> in_expires_at i \<le> now
             \<and> i' = i\<lparr>in_status := Intent_expired\<rparr> \<and> intent_closed i s')) (payment_intents s) (payment_intents s')"
    unfolding tables [THEN conjunct1]
  proof (rule update_where_pointwise)
    fix i assume i: "i \<in> set (payment_intents s)"
    have "in_status i = Intent_pending \<and> in_expires_at i \<le> now \<and> intent_closed i s'" if "in_id i \<in> ?ids"
      using row [OF i that] expired_intents_sound(2,3) closed by auto
    then show "(if in_id i \<in> ?ids then i\<lparr>in_status := Intent_expired\<rparr> else i) = i
        \<or> (in_status i = Intent_pending \<and> in_expires_at i \<le> now
           \<and> (if in_id i \<in> ?ids then i\<lparr>in_status := Intent_expired\<rparr> else i) = i\<lparr>in_status := Intent_expired\<rparr> \<and> intent_closed i s')"
      by simp
  qed
  moreover have "now < in_expires_at i'" if n: "n < PAYMENT_EXPIRY_BATCH_SIZE env" and i': "i' \<in> set (payment_intents s')"
    and pend: "in_status i' = Intent_pending" for i'
  proof (rule ccontr)
    assume "\<not> now < in_expires_at i'"
    moreover from i' pend tables have "i' \<in> set (payment_intents s)" "in_id i' \<notin> ?ids"
      by (auto simp: set_update_where split: if_splits)
    ultimately show False using expired_intents_complete [OF _ assms(1), of now] n pend e(1) by auto
  qed
  moreover have "n \<le> PAYMENT_EXPIRY_BATCH_SIZE env" by (simp add: e(1) expired_intents_def)
  ultimately show ?thesis using tables by blast
qed

definition sample_due_db :: market_db where
  "sample_due_db = sample_market_db\<lparr>
     identities := [\<lparr>idn_id = rt_uuid plain_runtime 100, idn_legacy_mongo_id = None, idn_email = ''a@b.c'', idn_active = True\<rparr>],
     organizations := [rt_uuid plain_runtime 101],
     investment_commitments := [\<lparr>cm_id = rt_uuid plain_runtime 102, cm_organization_id = rt_uuid plain_runtime 101,
        cm_investor_identity_id = rt_uuid plain_runtime 100, cm_offering_reference = ''OFF-1'', cm_currency = ''NGN'',
        cm_committed_minor = 5000, cm_status = Commitment_payment_pending\<rparr>],
     payment_intents := [\<lparr>in_id = rt_uuid plain_runtime 103, in_commitment_id = rt_uuid plain_runtime 102, in_provider = ''paystack'',
        in_provider_reference = ''REF-1'', in_expected_minor = 5000, in_currency = ''NGN'', in_status = Intent_pending,
        in_expires_at = 500, in_metadata = []\<rparr>]\<rparr>"

theorem expiry_closes_overdue_witness:
  "list_all (\<lambda>i. in_status i = Intent_pending \<longrightarrow> 1000 < in_expires_at i)
     (payment_intents (snd (expirePendingPaymentIntents plain_runtime default_env 1000 sample_due_db)))"
proof -
  have ev: "fst (expirePendingPaymentIntents plain_runtime default_env 1000 sample_due_db) = Inr 1"
    unfolding tx_defs tx_eval sample_due_db_def by code_simp
  then obtain s' where run: "expirePendingPaymentIntents plain_runtime default_env 1000 sample_due_db = (Inr 1, s')"
    by (metis prod.collapse)
  have "payment_currency ''NGN'' = Inr ''NGN''" by code_simp
  then have "intents_ok sample_due_db" by (simp add: intents_ok_def sample_due_db_def)
  moreover have "1 < PAYMENT_EXPIRY_BATCH_SIZE default_env" by (simp add: default_env_def)
  ultimately show ?thesis using expiry_closes_overdue [OF _ run] by (simp add: run list_all_iff)
qed

end
