(* ===== verification/Market_History.thy ===== *)
theory Market_History
  imports Payment_Instructions
begin

text \<open>
  The primary market as a whole: any sequence of publications, profile reviews, checkouts,
  commitments, provider receipts, expiry runs and dispatcher rounds, with time passing in between.
  The money invariant of the escrow theory holds after every such history. Capacity is never
  exceeded as long as receipts are recorded at the instant they are received; a receipt that is
  recorded late can confirm a reservation whose capacity has been given away.
\<close>

section \<open>Commands\<close>

datatype market_command =
    PublishOffering publish_offering_input
  | ReviewProfile compliance_profile_input
  | CreateCheckout create_checkout_input
  | CreateCommitment payment_commitment_input
  | ReceivePayment provider_receipt_input
  | ExpirePayments int
  | ProjectEvents string
  | DispatchPayments "paystack_input \<Rightarrow> error + paystack_checkout" string
  | Wait nat

fun run_market_command :: "runtime \<Rightarrow> env_config \<Rightarrow> market_command \<Rightarrow> 'z market_db_scheme \<Rightarrow> 'z market_db_scheme" where
  "run_market_command rt env (PublishOffering inp) s = snd (publishOffering rt inp s)"
| "run_market_command rt env (ReviewProfile inp) s = snd (upsertInvestorComplianceProfile inp s)"
| "run_market_command rt env (CreateCheckout inp) s = snd (createCheckout rt inp s)"
| "run_market_command rt env (CreateCommitment inp) s = snd (createPaymentCommitment rt inp s)"
| "run_market_command rt env (ReceivePayment inp) s = snd (recordProviderPaymentReceipt rt inp s)"
| "run_market_command rt env (ExpirePayments now) s = snd (expirePendingPaymentIntents rt env now s)"
| "run_market_command rt env (ProjectEvents worker) s =
     snd (dispatchPendingOutboxEvents deferred_constraints env (projectPaymentIntentCreated rt) worker [''payment.intent.created''] s)"
| "run_market_command rt env (DispatchPayments initialize worker) s =
     snd (dispatchPendingPaymentProviderInstructions env initialize worker s)"
| "run_market_command rt env (Wait d) s = s\<lparr>clock := clock s + int d\<rparr>"

definition run_market :: "runtime \<Rightarrow> env_config \<Rightarrow> market_command list \<Rightarrow> 'z market_db_scheme \<Rightarrow> 'z market_db_scheme" where
  "run_market rt env cs s = fold (run_market_command rt env) cs s"

section \<open>Sums under updates\<close>

lemma sum_rows_update_other:
  "(\<And>r. p r \<Longrightarrow> \<not> q r \<and> \<not> q (f r)) \<Longrightarrow> sum_rows q g (update_where p f t) = sum_rows q g t"
  by (induction t) auto

lemma sum_rows_update_le:
  assumes "\<And>r. r \<in> set t \<Longrightarrow> p r \<Longrightarrow> q (f r) \<Longrightarrow> q r" and "\<And>r. g (f r) = g r" and "\<And>r. r \<in> set t \<Longrightarrow> 0 \<le> g r"
  shows "sum_rows q g (update_where p f t) \<le> sum_rows q g t"
  using assms by (induction t) (auto simp: add_increasing)

section \<open>What the commands leave alone\<close>

definition same_market :: "'z market_db_scheme \<Rightarrow> 'z market_db_scheme \<Rightarrow> bool" where
  "same_market s s' \<longleftrightarrow> same_ledger s s' \<and> same_payments s s' \<and> investment_reservations s' = investment_reservations s
     \<and> offering_products s' = offering_products s \<and> clock s' = clock s"

lemmas market_frame_defs = same_market_def same_ledger_def same_payments_def

lemma same_market_refl [simp]: "same_market s s"
  by (simp add: market_frame_defs)

lemma same_market_trans: "same_market s s1 \<Longrightarrow> same_market s1 s2 \<Longrightarrow> same_market s s2"
  by (simp add: market_frame_defs)

lemma transaction_snd:
  "(\<And>a s'. m s = Inr (a, s') \<Longrightarrow> Q s') \<Longrightarrow> Q s \<Longrightarrow> Q (snd (withPostgresTransaction d m s))"
  by (auto simp: withPostgresTransaction_def split: sum.splits option.splits)

lemma publishOffering_effect:
  "same_market s (snd (publishOffering rt inp s))
   \<or> (\<exists>o'. offering_products (snd (publishOffering rt inp s)) = offering_products s @ [o'] \<and> 0 < of_capacity_minor o'
        \<and> of_id o' \<notin> of_id ` set (offering_products s)
        \<and> same_market s (snd (publishOffering rt inp s)\<lparr>offering_products := offering_products s\<rparr>))"
  unfolding publishOffering_def
proof (rule transaction_snd)
  fix a s' assume "publishOfferingInTransaction rt inp s = Inr (a, s')"
  then show "same_market s s' \<or> (\<exists>o'. offering_products s' = offering_products s @ [o'] \<and> 0 < of_capacity_minor o'
        \<and> of_id o' \<notin> of_id ` set (offering_products s) \<and> same_market s (s'\<lparr>offering_products := offering_products s\<rparr>))"
    unfolding publishOfferingInTransaction_def insert_offering_def insert_version_def
    by (fastforce simp: tx_Inr randomUUID_Inr market_Inr market_frame_defs elim!: tx_elims
        dest!: append_audit_frame append_outbox_frame)
qed simp

lemma upsertProfile_effect: "same_market s (snd (upsertInvestorComplianceProfile inp s))"
  unfolding upsertInvestorComplianceProfile_def
  by (rule transaction_snd)
     (auto simp: upsertInvestorComplianceProfileInTransaction_def upsert_profile_def tx_Inr market_Inr market_frame_defs
       elim!: tx_elims split: if_splits)

lemma dispatch_instructions_effect: "same_market s (snd (dispatch_instructions env initialize w es s))"
proof (induction es arbitrary: s)
  case (Cons e es)
  have mark: "same_market t (snd (withPostgresTransaction no_deferred (update_claimed i w h) t))" for i h and t :: "'z market_db_scheme"
    by (simp add: update_claimed_run market_frame_defs)
  have process: "same_market s (snd (processPaymentProviderInstruction initialize e w s))"
    using process_instruction_cases [of initialize e w s] mark by (auto simp: markPaymentInstructionInitialized_def)
  obtain r s1 where p: "processPaymentProviderInstruction initialize e w s = (r, s1)" by fastforce
  have 1: "same_market s s1" using process by (simp add: p)
  show ?case
  proof (cases r)
    case (Inr u)
    then show ?thesis using 1 Cons.IH [of s1] by (auto simp: p intro: same_market_trans)
  next
    case (Inl err)
    obtain r' s2 where m: "markPaymentInstructionForRetry (ins_id e) w (instruction_retry env (clock s1) e err) s1 = (r', s2)" by fastforce
    have 2: "same_market s1 s2" using mark [of s1] m by (metis markPaymentInstructionForRetry_def snd_conv)
    then show ?thesis using same_market_trans [OF 1 2] Cons.IH [of s2] Inl by (cases r') (auto simp: p m intro: same_market_trans)
  qed
qed simp

lemma dispatchPayments_effect: "same_market s (snd (dispatchPendingPaymentProviderInstructions env initialize w s))"
proof -
  obtain out t where "claimPaymentProviderInstructions w (OUTBOX_DISPATCH_BATCH_SIZE env) (PAYMENT_INSTRUCTION_CLAIM_TIMEOUT_SECONDS env) s
      = (Inr out, s\<lparr>payment_provider_instructions := t\<rparr>)"
    unfolding claimPaymentProviderInstructions_table by (metis (no_types, lifting) case_prod_beta')
  moreover have "same_market s (s\<lparr>payment_provider_instructions := t\<rparr>)" by (simp add: market_frame_defs)
  ultimately show ?thesis
    using dispatch_instructions_effect [of "s\<lparr>payment_provider_instructions := t\<rparr>" env initialize w out]
    by (auto simp: dispatchPendingPaymentProviderInstructions_def split: prod.splits sum.splits intro: same_market_trans)
qed

lemma project_effect: "projectPaymentIntentCreated rt e s = Inr (u, s') \<Longrightarrow> same_market s s'"
  by (auto simp: projectPaymentIntentCreated_def insert_instruction_def tx_Inr randomUUID_Inr market_Inr market_frame_defs
      elim!: tx_elims split: option.splits if_splits)

lemma dispatch_outbox_effect: "same_market s (snd (dispatch_outbox_events deferred_constraints env (projectPaymentIntentCreated rt) w es s))"
proof (induction es arbitrary: s)
  case (Cons e es)
  let ?m = "andThen (projectPaymentIntentCreated rt e) (markOutboxEventPublished (ob_id e) w)"
  obtain r s1 where p: "withPostgresTransaction deferred_constraints ?m s = (r, s1)" by fastforce
  have "same_market s (snd (withPostgresTransaction deferred_constraints ?m s))"
    by (rule transaction_snd)
       (auto simp: markOutboxEventPublished_def tx_Inr market_frame_defs elim!: tx_elims dest!: project_effect)
  then have 1: "same_market s s1" by (simp add: p)
  have mark: "same_market t (snd (markOutboxEventForRetry i w at err t))" for i at err and t :: "'z market_db_scheme"
    by (simp add: markOutboxEventForRetry_table market_frame_defs)
  show ?case
  proof (cases r)
    case (Inr u)
    then show ?thesis using 1 Cons.IH [of s1] by (auto simp: p intro: same_market_trans)
  next
    case (Inl err)
    obtain r' s2 where m: "markOutboxEventForRetry (ob_id e) w
        (clock s1 + delaySeconds (OUTBOX_RETRY_BASE_SECONDS env) (ob_attempts e) * 1000) err s1 = (r', s2)" by fastforce
    have 2: "same_market s1 s2" using mark [of s1] m by (metis snd_conv)
    then show ?thesis using same_market_trans [OF 1 2] Cons.IH [of s2] Inl by (cases r') (auto simp: p m intro: same_market_trans)
  qed
qed simp

lemma projectEvents_effect:
  "same_market s (snd (dispatchPendingOutboxEvents deferred_constraints env (projectPaymentIntentCreated rt) w types s))"
proof -
  obtain r s1 where c: "claimOutboxEvents w types (OUTBOX_DISPATCH_BATCH_SIZE env) (OUTBOX_CLAIM_TIMEOUT_SECONDS env) s = (r, s1)" by fastforce
  then obtain out where r: "r = Inr out" and "same_market s s1"
    using claimOutboxEvents_table by (fastforce simp: market_frame_defs)
  then show ?thesis
    using dispatch_outbox_effect [of s1 env rt w out]
    by (auto simp: dispatchPendingOutboxEvents_def c split: prod.splits sum.splits intro: same_market_trans)
qed

section \<open>Money\<close>

lemma money_ok_same_market: "same_market s s' \<Longrightarrow> money_ok s \<Longrightarrow> money_ok s'"
  by (rule money_ok_frame) (auto simp: market_frame_defs)

lemma money_ok_clock [simp]: "money_ok (s\<lparr>clock := t\<rparr>) = money_ok s"
  by (auto intro: money_ok_frame simp: same_ledger_def)

lemma payment_created_money_ok:
  assumes "money_ok s" and "payment_created inp m offering c s s'"
  shows "money_ok s'"
proof -
  from assms(2) obtain cm i where "investment_commitments s' = investment_commitments s @ [cm]" "payment_intents s' = payment_intents s @ [i]"
      "in_commitment_id i = cm_id cm" "cm_status cm = Commitment_payment_pending" "in_expected_minor i = cm_committed_minor cm"
      "in_currency i = cm_currency cm" "payment_currency (of_currency offering) = Inr (cm_currency cm)"
      "cm_id cm \<notin> cm_id ` set (investment_commitments s)" "in_id i \<notin> in_id ` set (payment_intents s)"
    and "payment_receipts s' = payment_receipts s" "same_ledger s s'"
    unfolding payment_created_def by auto
  then show ?thesis by (intro money_ok_commitment [OF assms(1)]) (auto simp: image_iff)
qed

lemma expired_tables_money_ok:
  assumes "money_ok s" and t: "expired_tables ids cids s s'"
    and pend: "\<forall>i \<in> set (payment_intents s). in_id i \<in> ids \<longrightarrow> in_status i = Intent_pending"
  shows "money_ok s'"
proof -
  note t = t [unfolded expired_tables_def]
  have led: "same_ledger s s'" using t by blast
  have parts: "intents_ok s" "receipts_ok s" "escrow_ok s" using assms(1) by (simp_all add: money_ok_def)
  have "intents_ok s'" by (rule intents_ok_status [OF parts(1)]) (use t in blast)+
  moreover have "receipt_settles s' x" if "x \<in> set (payment_receipts s)" for x
  proof -
    have "receipt_settles s x" using that parts(2) by (simp add: receipts_ok_def)
    then obtain i where i: "i \<in> set (payment_intents s)" "in_id i = rc_payment_intent_id x" "in_status i \<noteq> Intent_pending"
      "rc_status x = Matched \<longrightarrow> in_status i = Intent_receipt_matched \<and> rc_amount_minor x = in_expected_minor i
          \<and> rc_currency x = in_currency i \<and> rc_received_at x < in_expires_at i"
      unfolding receipt_settles_def by blast
    then have "i \<in> set (payment_intents s')" using t pend by (auto simp: set_update_where image_iff)
    with i show ?thesis unfolding receipt_settles_def by blast
  qed
  then have "receipts_ok s'" using parts(2) t led by (auto simp: receipts_ok_def same_ledger_def)
  moreover have "received_total org cur s' = received_total org cur s" for org cur
    unfolding received_total_def t [THEN conjunct2, THEN conjunct1] by (rule sum_rows_update_other) auto
  then have "escrow_ok s'" using parts(3) unfolding escrow_ok_def same_ledger_balance [OF led] by simp
  ultimately show ?thesis using same_ledger_ok [OF led] assms(1) by (simp add: money_ok_def)
qed

lemma run_market_command_money_ok:
  assumes "money_ok s"
  shows "money_ok (run_market_command rt env c s)"
proof (cases c)
  case (PublishOffering inp)
  from publishOffering_effect [of s rt inp] have "same_ledger s (snd (publishOffering rt inp s)) \<and> same_payments s (snd (publishOffering rt inp s))"
    by (auto simp: market_frame_defs)
  then show ?thesis using money_ok_frame [OF assms] PublishOffering by (simp add: same_payments_def)
next
  case (ReviewProfile inp)
  then show ?thesis using money_ok_same_market [OF upsertProfile_effect assms] by simp
next
  case (CreateCheckout inp)
  obtain r s' where run: "createCheckout rt inp s = (r, s')" by fastforce
  have "money_ok s'"
  proof (cases r)
    case (Inl e)
    then have "same_ledger s s' \<and> same_payments s s'"
      using checkout_outcome_cases [where rt = rt and inp = inp and s = s] run by (auto simp: market_frame_defs)
    then show ?thesis using money_ok_frame [OF assms] by (simp add: same_payments_def)
  next
    case (Inr out)
    then show ?thesis
      using checkout_outcome_cases [where rt = rt and inp = inp and s = s] run assms payment_created_money_ok [OF assms]
      by (auto split: option.splits)
  qed
  then show ?thesis by (simp add: CreateCheckout run)
next
  case (CreateCommitment inp)
  then show ?thesis
    using assms by (auto simp: createPaymentCommitment_def intro: transaction_snd createPaymentCommitment_money_ok)
next
  case (ReceivePayment inp)
  then show ?thesis using recordProviderPaymentReceipt_money_ok [OF assms] by simp
next
  case (ExpirePayments now)
  obtain r s' where run: "expirePendingPaymentIntents rt env now s = (r, s')" by fastforce
  have "money_ok s'"
  proof (cases r)
    case (Inl e)
    then have "s' = s" using run by (auto simp: expirePendingPaymentIntents_def dest: withPostgresTransaction_rollback)
    then show ?thesis using assms by simp
  next
    case (Inr n)
    note e = expirePendingPaymentIntents_effect [OF run [unfolded Inr]]
    show ?thesis by (rule expired_tables_money_ok [OF assms e(2,3)])
  qed
  then show ?thesis by (simp add: ExpirePayments run)
qed (simp_all add: assms money_ok_same_market [OF dispatchPayments_effect] money_ok_same_market [OF projectEvents_effect])

lemma run_market_money_ok: "money_ok s \<Longrightarrow> money_ok (run_market rt env cs s)"
  by (induction cs arbitrary: s) (simp_all add: run_market_def run_market_command_money_ok)

text \<open>A market in which no payment has been started yet.\<close>

definition no_payments :: "'z market_db_scheme \<Rightarrow> bool" where
  "no_payments s \<longleftrightarrow> ledger_accounts s = [] \<and> journal_entries s = [] \<and> journal_postings s = [] \<and> investment_commitments s = []
     \<and> payment_intents s = [] \<and> payment_receipts s = []"

lemma no_payments_money_ok: "no_payments s \<Longrightarrow> money_ok s"
  by (simp add: no_payments_def money_defs ledger_ok_def account_balance_def received_total_def)

text \<open>C1: escrow reconciles. Whatever publications, reviews, checkouts, commitments, receipts (on time,
  late, repeated, too small, in the wrong currency), expiry runs and dispatcher rounds a market goes
  through, for every organization and currency the credit balance of its escrow account and the debit
  balance of its clearing account both equal the total of its commitments whose payment was received;
  no payment intent is settled by two receipts; and every journal belongs to a receipt.\<close>

theorem escrow_reconciles:
  assumes "no_payments s"
  shows "let t = run_market rt env cs s in
     - account_balance (Some org) (escrow_code cur) t = received_total org cur t
     \<and> account_balance (Some org) (clearing_code cur) t = received_total org cur t
     \<and> distinct (map rc_payment_intent_id (payment_receipts t))
     \<and> Some ` je_id ` set (journal_entries t) \<subseteq> rc_journal_id ` set (payment_receipts t)"
  using run_market_money_ok [OF no_payments_money_ok [OF assms], of rt env cs]
  by (auto simp: Let_def money_ok_def escrow_ok_def receipts_ok_def)

text \<open>C28: the tables of the market stay well formed. After any history, every payment intent belongs to a
  commitment with the same amount and currency, every receipt belongs to an intent that has been decided, a
  matched receipt has exactly the amount and currency of its intent and came before its expiry, every posting
  belongs to a journal, and every journal has at least two postings, all in its currency and on accounts of its
  organization.\<close>

theorem market_tables_well_formed:
  assumes "no_payments s"
  shows "let t = run_market rt env cs s in
     (\<forall>i \<in> set (payment_intents t). \<exists>c \<in> set (investment_commitments t). cm_id c = in_commitment_id i
        \<and> cm_currency c = in_currency i \<and> cm_committed_minor c = in_expected_minor i)
     \<and> (\<forall>x \<in> set (payment_receipts t). \<exists>i \<in> set (payment_intents t). in_id i = rc_payment_intent_id x
          \<and> in_status i \<noteq> Intent_pending
          \<and> (rc_status x = Matched \<longrightarrow> rc_amount_minor x = in_expected_minor i \<and> rc_currency x = in_currency i
               \<and> rc_received_at x < in_expires_at i))
     \<and> (\<forall>p \<in> set (journal_postings t). \<exists>e \<in> set (journal_entries t). je_id e = jp_journal_id p)
     \<and> (\<forall>e \<in> set (journal_entries t). 2 \<le> length (postings_of (je_id e) (journal_postings t))
          \<and> (\<forall>p \<in> set (postings_of (je_id e) (journal_postings t)). jp_currency p = je_currency e
               \<and> account_known t (je_organization_id e) (jp_account_id p)))"
proof -
  let ?t = "run_market rt env cs s"
  have ok: "money_ok ?t" by (rule run_market_money_ok [OF no_payments_money_ok [OF assms]])
  have "\<exists>c \<in> set (investment_commitments ?t). cm_id c = in_commitment_id i \<and> cm_currency c = in_currency i
      \<and> cm_committed_minor c = in_expected_minor i" if i: "i \<in> set (payment_intents ?t)" for i
  proof -
    have "in_commitment_id i \<in> cm_id ` set (investment_commitments ?t)"
      using ok i unfolding money_ok_def intents_ok_def by blast
    then obtain c where c: "c \<in> set (investment_commitments ?t)" "cm_id c = in_commitment_id i" by auto
    then have "in_currency i = cm_currency c \<and> in_expected_minor i = cm_committed_minor c"
      using ok i unfolding money_ok_def intents_ok_def by blast
    then show ?thesis using c by auto
  qed
  moreover have "\<exists>i \<in> set (payment_intents ?t). in_id i = rc_payment_intent_id x \<and> in_status i \<noteq> Intent_pending
      \<and> (rc_status x = Matched \<longrightarrow> rc_amount_minor x = in_expected_minor i \<and> rc_currency x = in_currency i
           \<and> rc_received_at x < in_expires_at i)" if "x \<in> set (payment_receipts ?t)" for x
    using ok that unfolding money_ok_def receipts_ok_def receipt_settles_def by blast
  ultimately show ?thesis
    using ok by (auto simp: Let_def money_ok_def ledger_ok_def balanced_entry_def)
qed

text \<open>Amounts stay in range. After any history, every posting in the ledger is of a positive amount that fits
  PostgreSQL's 64-bit integer, so that neither a zero or negative line nor an overflow is ever stored.\<close>

theorem posting_amounts_in_range:
  assumes "no_payments s" and "p \<in> set (journal_postings (run_market rt env cs s))"
  shows "0 < jp_amount_minor p \<and> jp_amount_minor p < 2 ^ 63"
proof -
  have ok: "ledger_ok (run_market rt env cs s)"
    using run_market_money_ok [OF no_payments_money_ok [OF assms(1)]] by (simp add: money_ok_def)
  then obtain e where e: "e \<in> set (journal_entries (run_market rt env cs s))" "je_id e = jp_journal_id p"
    using assms(2) by (auto simp: ledger_ok_def)
  then have "p \<in> set (postings_of (je_id e) (journal_postings (run_market rt env cs s)))"
    using assms(2) by (simp add: postings_of_def)
  then have "0 < jp_amount_minor p \<and> jp_amount_minor p \<le> PG_BIGINT_MAX"
    using ok e(1) by (auto simp: ledger_ok_def balanced_entry_def Let_def)
  then show ?thesis by (simp add: PG_BIGINT_MAX_def)
qed

section \<open>Capacity\<close>

definition reservations_ok :: "'z market_db_scheme \<Rightarrow> bool" where
  "reservations_ok s \<longleftrightarrow> distinct (map of_id (offering_products s))
     \<and> (\<forall>r \<in> set (investment_reservations s). 0 \<le> rv_amount_minor r \<and> rv_offering_id r \<in> of_id ` set (offering_products s)
          \<and> (\<forall>c. rv_commitment_id r = Some c \<longrightarrow> c \<in> cm_id ` set (investment_commitments s))
          \<and> (\<forall>i \<in> set (payment_intents s). rv_commitment_id r = Some (in_commitment_id i) \<longrightarrow> rv_expires_at r = in_expires_at i))"

definition capacity_ok :: "'z market_db_scheme \<Rightarrow> bool" where
  "capacity_ok s \<longleftrightarrow> (\<forall>o' \<in> set (offering_products s). reserved_total (of_id o') (clock s) s \<le> of_capacity_minor o')"

definition market_ok :: "'z market_db_scheme \<Rightarrow> bool" where
  "market_ok s \<longleftrightarrow> money_ok s \<and> reservations_ok s \<and> capacity_ok s"

lemmas capacity_defs = reservations_ok_def capacity_ok_def reserved_total_def

lemma capacity_same_market:
  assumes "same_market s s'" and "reservations_ok s" and "capacity_ok s"
  shows "reservations_ok s'" and "capacity_ok s'"
  using assms by (auto simp: capacity_defs market_frame_defs)

text \<open>A change of reservations that gives capacity back.\<close>

lemma capacity_release:
  assumes "reservations_ok s" and "capacity_ok s" and clk: "clock s \<le> clock s'" and off: "offering_products s' = offering_products s"
    and cs: "cm_id ` set (investment_commitments s) \<subseteq> cm_id ` set (investment_commitments s')"
    and ins: "\<forall>i' \<in> set (payment_intents s'). \<exists>i \<in> set (payment_intents s). in_commitment_id i' = in_commitment_id i \<and> in_expires_at i' = in_expires_at i"
    and rs: "investment_reservations s' = update_where p (\<lambda>r. r\<lparr>rv_status := st\<rparr>) (investment_reservations s)"
    and keep: "\<And>r. r \<in> set (investment_reservations s) \<Longrightarrow> p r \<Longrightarrow> st = Reservation_confirmed \<Longrightarrow>
        rv_status r = Reservation_pending_payment \<and> clock s' < rv_expires_at r"
    and st: "st \<noteq> Reservation_pending_payment"
  shows "reservations_ok s'" and "capacity_ok s'"
proof -
  have pos: "0 \<le> rv_amount_minor r" if "r \<in> set (investment_reservations s)" for r
    using that assms(1) by (auto simp: reservations_ok_def)
  show "reservations_ok s'"
    using assms(1) cs ins unfolding reservations_ok_def off rs by (fastforce simp: set_update_where)
  have "reserved_total i (clock s') s' \<le> reserved_total i (clock s') s" for i
    unfolding reserved_total_def rs
    by (rule sum_rows_update_le) (use pos keep st in \<open>auto simp: occupies_def split: if_splits\<close>)
  moreover have "reserved_total i (clock s') s \<le> reserved_total i (clock s) s" for i
    unfolding reserved_total_def by (rule sum_rows_mono) (use pos clk in \<open>auto simp: occupies_def\<close>)
  ultimately show "capacity_ok s'" using assms(2) unfolding capacity_ok_def off by (meson order_trans)
qed

lemma capacity_checkout:
  assumes ok: "reservations_ok s" "capacity_ok s" and ins: "intents_ok s" and o': "offering \<in> set (offering_products s)" and t: "t \<le> clock s"
    and m: "0 < m" and pay: "payment_created inp m offering c s s'" and cap: "capacity_reserved inp m t offering key c s s'"
  shows "reservations_ok s'" and "capacity_ok s'"
proof -
  note cap = cap [unfolded capacity_reserved_def]
  let ?r = "reservation_of inp m offering key c"
  from pay obtain cm i where new: "investment_commitments s' = investment_commitments s @ [cm]" "payment_intents s' = payment_intents s @ [i]"
      "cm_id cm = cc_commitmentId c" "in_commitment_id i = cm_id cm" "cm_id cm \<notin> cm_id ` set (investment_commitments s)"
      "in_expires_at i = ci_paymentExpiresAt inp"
    unfolding payment_created_def by blast
  have old: "in_commitment_id x \<noteq> cc_commitmentId c" if "x \<in> set (payment_intents s)" for x
    using that ins new(3,5) unfolding intents_ok_def by (metis image_eqI subsetD)
  have links: "rv_commitment_id r \<noteq> Some (cc_commitmentId c)" if "r \<in> set (investment_reservations s)" for r
    using that cap by (auto simp: image_iff)
  have "reservations_ok (s'\<lparr>investment_reservations := investment_reservations s\<rparr>)"
    using ok(1) links cap unfolding reservations_ok_def by (auto simp: new)
  then show "reservations_ok s'"
    using o' m cap new(3,4,6) unfolding reservations_ok_def by (auto simp: new(1,2) reservation_of_def dest: old)
  have pos: "0 \<le> rv_amount_minor r" if "r \<in> set (investment_reservations s)" for r
    using that ok(1) by (auto simp: reservations_ok_def)
  have "reserved_total i (clock s) s \<le> reserved_total i t s" for i
    unfolding reserved_total_def by (rule sum_rows_mono) (use pos t in \<open>auto simp: occupies_def\<close>)
  then have here: "reserved_total (of_id offering) (clock s) s + m \<le> of_capacity_minor offering" using cap by (meson add_right_mono order_trans)
  have "reserved_total (of_id x) (clock s) s' \<le> of_capacity_minor x" if x: "x \<in> set (offering_products s)" for x
  proof (cases "of_id x = of_id offering")
    case True
    then have "x = offering" using ok(1) x o' by (auto simp: reservations_ok_def intro: distinct_map_key_eq)
    with here m show ?thesis using cap by (simp add: reserved_total_def reservation_of_def occupies_def)
  next
    case False
    with x ok(2) cap show ?thesis by (simp add: capacity_ok_def reserved_total_def reservation_of_def occupies_def)
  qed
  then show "capacity_ok s'" using cap by (simp add: capacity_ok_def)
qed

section \<open>Prompt histories\<close>

text \<open>A command is prompt when it does not act on an instant other than the present: a checkout is not
  dated in the future, and a receipt is recorded no later than the instant it was received.\<close>

fun prompt_command :: "market_command \<Rightarrow> 'z market_db_scheme \<Rightarrow> bool" where
  "prompt_command (CreateCheckout inp) s \<longleftrightarrow> accepted_at inp s \<le> clock s"
| "prompt_command (ReceivePayment inp) s \<longleftrightarrow> clock s \<le> rp_receivedAt inp"
| "prompt_command _ s \<longleftrightarrow> True"

fun prompt_history :: "runtime \<Rightarrow> env_config \<Rightarrow> market_command list \<Rightarrow> 'z market_db_scheme \<Rightarrow> bool" where
  "prompt_history rt env [] s \<longleftrightarrow> True"
| "prompt_history rt env (c # cs) s \<longleftrightarrow> prompt_command c s \<and> prompt_history rt env cs (run_market_command rt env c s)"

lemma update_intents_links:
  "\<forall>i' \<in> set (update_where p (\<lambda>x. x\<lparr>in_status := st\<rparr>) t). \<exists>i \<in> set t. in_commitment_id i' = in_commitment_id i \<and> in_expires_at i' = in_expires_at i"
  by (auto simp: set_update_where)

lemma update_commitments_keys:
  "cm_id ` set (update_where p (\<lambda>x. x\<lparr>cm_status := st\<rparr>) t) = cm_id ` set t"
  by (induction t) auto

lemma receipt_capacity:
  assumes ok: "money_ok s" "reservations_ok s" "capacity_ok s" and prompt: "clock s \<le> rp_receivedAt inp"
  shows "reservations_ok (snd (recordProviderPaymentReceipt rt inp s))" and "capacity_ok (snd (recordProviderPaymentReceipt rt inp s))"
proof -
  obtain res s' where run: "recordProviderPaymentReceipt rt inp s = (res, s')" by fastforce
  have "reservations_ok s' \<and> capacity_ok s'"
  proof (cases res)
    case (Inl e)
    with receipt_outcome_cases [where rt = rt and inp = inp and s = s] ok run show ?thesis by simp
  next
    case (Inr out)
    with receipt_outcome_cases [where rt = rt and inp = inp and s = s] run obtain r i c where
        r: "normalize_receipt inp = Inr r" and f: "find_intent r s = Some (i, c)"
      and out: "s' = s \<or> (receipt_exact r i \<and> matched_outcome rt r i c out s s') \<or> mismatch_outcome rt r i c out s s'"
      by (auto split: if_splits)
    have at: "nr_receivedAt r = rp_receivedAt inp" using r by (auto simp: normalize_receipt_def split: sum.splits)
    note fi = find_intent_Some [OF f]
    from out consider "s' = s" | "receipt_exact r i" "matched_outcome rt r i c out s s'" | "mismatch_outcome rt r i c out s s'" by blast
    then show ?thesis
    proof cases
      case 2
      note m = 2(2) [unfolded matched_outcome_def]
      have live: "rv_status v = Reservation_pending_payment \<and> clock s' < rv_expires_at v"
        if "v \<in> set (investment_reservations s)" "rv_commitment_id v = Some (in_commitment_id i) \<and> rv_status v = Reservation_pending_payment" for v
      proof -
        have "rv_expires_at v = in_expires_at i" using that fi(1) ok(2) by (auto simp: reservations_ok_def)
        moreover have "clock s' = clock s" using m by (simp add: same_offerings_def)
        ultimately show ?thesis using 2(1) prompt at that(2) by (simp add: receipt_exact_def)
      qed
      show ?thesis
        by (intro conjI capacity_release [OF ok(2,3), where st = Reservation_confirmed and
              p = "\<lambda>x. rv_commitment_id x = Some (in_commitment_id i) \<and> rv_status x = Reservation_pending_payment"])
           (use m live in \<open>auto simp: same_offerings_def update_intents_links update_commitments_keys\<close>)
    next
      case 3
      note m = 3 [unfolded mismatch_outcome_def]
      show ?thesis
        by (intro conjI capacity_release [OF ok(2,3), where st = Reservation_released and
              p = "\<lambda>x. rv_commitment_id x = Some (in_commitment_id i) \<and> rv_status x = Reservation_pending_payment"]) (use m in \<open>auto simp: same_offerings_def update_intents_links\<close>)
    qed (use ok in simp)
  qed
  then show "reservations_ok (snd (recordProviderPaymentReceipt rt inp s))" and "capacity_ok (snd (recordProviderPaymentReceipt rt inp s))"
    by (simp_all add: run)
qed

lemma commitment_capacity:
  assumes "createPaymentCommitmentInTransaction rt inp s = Inr (out, s')" and ok: "reservations_ok s" "capacity_ok s"
  shows "reservations_ok s'" and "capacity_ok s'"
proof -
  obtain cm i where new: "investment_commitments s' = investment_commitments s @ [cm]" "payment_intents s' = payment_intents s @ [i]"
      "in_commitment_id i = cm_id cm" "\<forall>r \<in> set (investment_commitments s). cm_id r \<noteq> cm_id cm"
    and same: "same_offerings s s'" "investment_reservations s' = investment_reservations s"
    using assms(1) by (rule create_commitment_effect)
  show "reservations_ok s'"
    using ok(1) same new(3,4) unfolding reservations_ok_def by (fastforce simp: new(1,2) same_offerings_def)
  show "capacity_ok s'" using ok(2) same by (simp add: capacity_ok_def reserved_total_def same_offerings_def)
qed

lemma publish_capacity:
  assumes ok: "reservations_ok s" "capacity_ok s"
  shows "reservations_ok (snd (publishOffering rt inp s)) \<and> capacity_ok (snd (publishOffering rt inp s))"
proof -
  let ?s = "snd (publishOffering rt inp s)"
  from publishOffering_effect [of s rt inp] consider "same_market s ?s"
    | o' where "offering_products ?s = offering_products s @ [o']" "0 < of_capacity_minor o'" "of_id o' \<notin> of_id ` set (offering_products s)"
        "same_market s (?s\<lparr>offering_products := offering_products s\<rparr>)"
    by blast
  then show ?thesis
  proof cases
    case 1
    then show ?thesis using capacity_same_market ok by blast
  next
    case 2
    have "\<not> occupies (of_id o') (clock s) r" if "r \<in> set (investment_reservations s)" for r
    proof -
      have "rv_offering_id r \<in> of_id ` set (offering_products s)" using that ok(1) by (simp add: reservations_ok_def)
      with 2(3) show ?thesis by (auto simp: occupies_def)
    qed
    then have "reserved_total (of_id o') (clock s) s = 0" by (simp add: reserved_total_def sum_rows_def filter_False)
    then show ?thesis using ok 2 by (auto simp: capacity_defs market_frame_defs)
  qed
qed

lemma checkout_capacity:
  assumes ok: "money_ok s" "reservations_ok s" "capacity_ok s" and prompt: "accepted_at inp s \<le> clock s"
  shows "reservations_ok (snd (createCheckout rt inp s)) \<and> capacity_ok (snd (createCheckout rt inp s))"
proof -
  obtain r s' where run: "createCheckout rt inp s = (r, s')" by fastforce
  note out = checkout_outcome_cases [where rt = rt and inp = inp and s = s, unfolded run]
  have "reservations_ok s' \<and> capacity_ok s'"
  proof (cases r)
    case (Inl e)
    then have "same_market s s'" using out by (auto simp: market_frame_defs)
    then show ?thesis using capacity_same_market ok by blast
  next
    case (Inr c)
    with out obtain offering m where o': "checkout_offering inp s = Some offering" and m: "amount (ci_amountMinor inp) = Inr m"
      and cases: "case checkout_replay inp offering s of
            Some (r, i) \<Rightarrow> s' = s \<and> replay_result (of_id offering) r i = Inr c
          | None \<Rightarrow> decision_recorded inp (accepted_at inp s) offering (cc_eligibilitySnapshotId c) [] s s'
              \<and> payment_created inp m offering c s s'
              \<and> capacity_reserved inp m (accepted_at inp s) offering (map_option trim (ci_commandKey inp)) c s s'"
      by auto
    have "offering \<in> set (offering_products s)" using o' by (auto simp: checkout_offering_def dest!: first_row_Some)
    moreover have "0 < m" using m by (auto simp: amount_def Let_def split: if_splits)
    moreover have "intents_ok s" using ok(1) by (simp add: money_ok_def)
    ultimately show ?thesis
      using cases ok capacity_checkout [OF ok(2,3) _ _ prompt] by (auto split: option.splits prod.splits)
  qed
  then show ?thesis by (simp add: run)
qed

lemma expiry_capacity:
  assumes ok: "reservations_ok s" "capacity_ok s"
  shows "reservations_ok (snd (expirePendingPaymentIntents rt env now s)) \<and> capacity_ok (snd (expirePendingPaymentIntents rt env now s))"
proof -
  obtain r s' where run: "expirePendingPaymentIntents rt env now s = (r, s')" by fastforce
  have "reservations_ok s' \<and> capacity_ok s'"
  proof (cases r)
    case (Inl e)
    then have "s' = s" using run by (auto simp: expirePendingPaymentIntents_def dest: withPostgresTransaction_rollback)
    then show ?thesis using ok by simp
  next
    case (Inr n)
    note t = expirePendingPaymentIntents_effect(2) [OF run [unfolded Inr], unfolded expired_tables_def]
    let ?cids = "(in_commitment_id \<circ> fst) ` set (expired_intents now (PAYMENT_EXPIRY_BATCH_SIZE env) s)"
    show ?thesis
      by (intro conjI capacity_release [OF ok, where st = Reservation_expired and
            p = "\<lambda>r. rv_commitment_id r \<in> Some ` ?cids \<and> rv_status r = Reservation_pending_payment"])
         (use t in \<open>simp_all add: update_intents_links update_commitments_keys\<close>)
  qed
  then show ?thesis by (simp add: run)
qed

lemma wait_capacity:
  assumes "reservations_ok s" and "capacity_ok s"
  shows "reservations_ok (s\<lparr>clock := clock s + int d\<rparr>) \<and> capacity_ok (s\<lparr>clock := clock s + int d\<rparr>)"
  by (intro conjI capacity_release [OF assms, where p = "\<lambda>_. False" and st = Reservation_expired])
     (auto simp: update_where_none)

lemma run_market_command_ok:
  assumes "market_ok s" and "prompt_command c s"
  shows "market_ok (run_market_command rt env c s)"
proof -
  have ok: "money_ok s" "reservations_ok s" "capacity_ok s" using assms(1) by (simp_all add: market_ok_def)
  have "reservations_ok (run_market_command rt env c s) \<and> capacity_ok (run_market_command rt env c s)"
  proof (cases c)
    case (CreateCommitment inp)
    then show ?thesis
      using ok by (auto simp: createPaymentCommitment_def intro: transaction_snd commitment_capacity)
  qed (use assms(2) in \<open>simp_all add: publish_capacity [OF ok(2,3)] checkout_capacity [OF ok] receipt_capacity [OF ok]
        expiry_capacity [OF ok(2,3)] wait_capacity [OF ok(2,3)] capacity_same_market [OF upsertProfile_effect ok(2,3)]
        capacity_same_market [OF dispatchPayments_effect ok(2,3)] capacity_same_market [OF projectEvents_effect ok(2,3)]\<close>)
  then show ?thesis using run_market_command_money_ok [OF ok(1)] by (simp add: market_ok_def)
qed

lemma run_market_ok: "market_ok s \<Longrightarrow> prompt_history rt env cs s \<Longrightarrow> market_ok (run_market rt env cs s)"
  by (induction cs arbitrary: s) (simp_all add: run_market_def run_market_command_ok)

text \<open>C2: capacity is respected by prompt histories. Starting from a market whose books are in order, a
  history in which no checkout is dated in the future and every receipt is recorded at the instant
  it was received leaves, for every offering, the confirmed reservations and the pending ones that
  have not expired within its capacity.\<close>

theorem capacity_respected:
  assumes "market_ok s" and "prompt_history rt env cs s"
  shows "let t = run_market rt env cs s in
     list_all (\<lambda>o'. sum_rows (\<lambda>r. rv_offering_id r = of_id o' \<and> rv_status r = Reservation_confirmed) rv_amount_minor
           (investment_reservations t)
         + sum_rows (\<lambda>r. rv_offering_id r = of_id o' \<and> rv_status r = Reservation_pending_payment \<and> clock t < rv_expires_at r)
             rv_amount_minor (investment_reservations t)
         \<le> of_capacity_minor o') (offering_products t)"
proof -
  let ?t = "run_market rt env cs s"
  have ok: "capacity_ok ?t" using run_market_ok [OF assms] by (simp add: market_ok_def)
  have "sum_rows (\<lambda>r. rv_offering_id r = i \<and> rv_status r = Reservation_confirmed) rv_amount_minor rs
      + sum_rows (\<lambda>r. rv_offering_id r = i \<and> rv_status r = Reservation_pending_payment \<and> k < rv_expires_at r) rv_amount_minor rs
      = sum_rows (occupies i k) rv_amount_minor rs" for i k rs
    by (induction rs) (auto simp: occupies_def)
  with ok show ?thesis by (simp add: Let_def list_all_iff capacity_ok_def reserved_total_def)
qed

text \<open>The receipt of a payment that was received in time but is recorded after its reservation expired.\<close>

definition sole_reservation :: "reservation_row \<Rightarrow> uuid \<Rightarrow> 'z market_db_scheme \<Rightarrow> bool" where
  "sole_reservation v c s \<longleftrightarrow> filter (\<lambda>r. rv_commitment_id r = Some c) (investment_reservations s) = [v]"

lemma sole_reservation_update:
  assumes "filter p t = [v]" and "q v" and "\<not> k v" and "k (f v)" and "g (f v) = g v"
  shows "sum_rows k g (update_where (\<lambda>r. p r \<and> q r) f t) = sum_rows k g t + (g v :: int)"
  using assms(1)
proof (induction t)
  case (Cons r t)
  show ?case
  proof (cases "p r")
    case True
    with Cons.prems have "r = v" "filter p t = []" by simp_all
    then have "update_where (\<lambda>r. p r \<and> q r) f t = t" by (intro update_where_none) (auto simp: filter_empty_conv)
    with \<open>r = v\<close> True assms(2-5) show ?thesis by simp
  next
    case False
    with Cons show ?thesis by simp
  qed
qed simp

text \<open>C34: late recording can oversell. When the offering is sold out, a reservation that has expired
  (and whose capacity is therefore free for others) is confirmed by a receipt that arrived in time but
  is recorded only now: the offering then holds more confirmed and live reservations than its
  capacity. Capacity is checked at checkout only.\<close>

theorem late_receipt_oversells:
  assumes "o' \<in> set (offering_products s)" and full: "reserved_total (of_id o') (clock s) s = of_capacity_minor o'"
    and run: "recordProviderPaymentReceipt rt inp s = (Inr out, s')" and "rr_status out = Matched" and "\<not> rr_replayed out"
    and v: "sole_reservation v (rr_commitmentId out) s" and "rv_offering_id v = of_id o'" and "0 < rv_amount_minor v"
    and late: "rv_status v = Reservation_pending_payment" "rv_expires_at v \<le> clock s"
  shows "of_capacity_minor o' < reserved_total (of_id o') (clock s') s' \<and> offering_products s' = offering_products s"
proof -
  from receipt_outcome_cases [where rt = rt and inp = inp and s = s] assms(5) obtain r i c where
    r: "normalize_receipt inp = Inr r" and f: "find_intent r s = Some (i, c)"
    and "if receipt_exact r i then matched_outcome rt r i c out s s' else mismatch_outcome rt r i c out s s'"
    unfolding run by auto
  then have m: "matched_outcome rt r i c out s s'" using assms(4) by (auto simp: mismatch_outcome_def split: if_splits)
  have c: "rr_commitmentId out = in_commitment_id i" using run r f assms(5) by (rule receipt_commitment)
  note m = m [unfolded matched_outcome_def]
  have "reserved_total (of_id o') (clock s) s' = reserved_total (of_id o') (clock s) s + rv_amount_minor v"
    unfolding reserved_total_def m [THEN conjunct2, THEN conjunct2, THEN conjunct2, THEN conjunct2, THEN conjunct2, THEN conjunct2, THEN conjunct1]
    by (rule sole_reservation_update) (use v c late assms(7) in \<open>auto simp: sole_reservation_def occupies_def\<close>)
  then show ?thesis using full assms(8) m by (simp add: same_offerings_def)
qed

text \<open>C35: an expired compliance profile is denied without evidence. In a checkout that is not the
  replay of a recorded one (with a command key, as the route always gives, or without), the decision
  snapshot would expire with the profile, before it was evaluated, which a check of the table
  rejects: the checkout fails with that database error, and the decision (whose reasons name the
  expired profile) is rolled back instead of being kept.\<close>

theorem expired_profile_leaves_no_evidence:
  assumes "amount (ci_amountMinor inp) = Inr m" and "trim (ci_publicReference inp) \<noteq> []"
    and "map_option trim (ci_commandKey inp) \<noteq> Some []" and "checkout_offering inp s = Some offering"
    and "checkout_replay inp offering s = None" and "offering_open (accepted_at inp s) offering"
    and "accepted_at inp s < ci_paymentExpiresAt inp" and "ci_paymentExpiresAt inp \<le> of_closes_at offering"
    and "current_version (of_id offering) s = Some version" and "policy (ov_eligibility_policy version) = Inr eligibility"
    and "investor_profile inp s = Some p" and "pr_expires_at p = Some e" and "e < accepted_at inp s"
  shows "''compliance_profile_expired'' \<in> set (eligibility_reasons eligibility (investor_profile inp s) (accepted_at inp s))
     \<and> createCheckout rt inp s = (Inl (CheckViolation ''investment_eligibility_snapshots_check''), s)"
proof -
  let ?t = "accepted_at inp s"
  have reasons: "''compliance_profile_expired'' \<in> set (eligibility_reasons eligibility (Some p) ?t)"
    using assms(12,13) by (auto simp: eligibility_reasons_def profile_expired_def)
  have "snapshot_expiry (Some p) (ci_paymentExpiresAt inp) = e" using assms(7,12,13) by (simp add: snapshot_expiry_def)
  then have denied: "decide rt inp m ?t offering k s = Inl (CheckViolation ''investment_eligibility_snapshots_check'')" for k
    using assms(9-13) by (simp add: decide_def insert_snapshot_def tx_simps randomUUID_def investor_profile_def Let_def)
  have new: "(case map_option trim (ci_commandKey inp) of None \<Rightarrow> None
      | Some k \<Rightarrow> find_replay (of_id offering) (ci_investorIdentityId inp) k s) = None"
    using assms(5) by (simp add: checkout_replay_def split: option.splits)
  have "checkout_tx rt inp m ?t s = Inl (CheckViolation ''investment_eligibility_snapshots_check'')"
    using assms(2-4,6-8) new by (simp add: checkout_tx_def checkout_offering_def required_def Let_def tx_simps denied)
  then have "createCheckout rt inp s = (Inl (CheckViolation ''investment_eligibility_snapshots_check''), s)"
    using assms(1) by (simp add: createCheckout_def withPostgresTransaction_def)
  then show ?thesis using reasons assms(11) by simp
qed

section \<open>A concrete market\<close>

definition sample_uuid :: "nat \<Rightarrow> uuid" where
  "sample_uuid n = rt_uuid plain_runtime n"

lemma read_digits_padding: "read_digits (replicate k CHR ''0'' @ s) = read_digits s"
  by (induction k) (simp_all add: read_digits_def digit_value_def code_of_def)

lemma sample_uuid_inject [simp]: "sample_uuid m = sample_uuid n \<longleftrightarrow> m = n"
proof
  assume "sample_uuid m = sample_uuid n"
  then have "pad_int 12 (int m) = pad_int 12 (int n)" by (simp add: sample_uuid_def plain_runtime_def)
  then have "read_digits (pad_int 12 (int m)) = read_digits (pad_int 12 (int n))" by simp
  then show "m = n" by (simp add: pad_int_def padStart_def read_digits_padding)
qed simp

definition sample_person :: "nat \<Rightarrow> identity_row" where
  "sample_person n = \<lparr>idn_id = sample_uuid n, idn_legacy_mongo_id = None, idn_email = ''a@b.c'', idn_active = True\<rparr>"

definition sample_policy :: eligibility_policy where
  "sample_policy = \<lparr>ep_allowedInvestorClasses = [''retail''], ep_allowedJurisdictions = None, ep_requiresAccreditation = None\<rparr>"

definition sample_offering :: offering_row where
  "sample_offering = \<lparr>of_id = sample_uuid 103, of_organization_id = sample_uuid 102, of_public_reference = ''OFF-1'',
     of_status = Offering_published, of_currency = ''NGN'', of_capacity_minor = 5000, of_opens_at = 0, of_closes_at = 100000\<rparr>"

definition sample_version :: version_row where
  "sample_version = \<lparr>ov_id = sample_uuid 108, ov_offering_id = sample_uuid 103, ov_version = 1, ov_terms = [],
     ov_eligibility_policy = sample_policy, ov_agreement_document_hash = replicate 64 (CHR ''A''),
     ov_disclosure_bundle_hash = replicate 64 (CHR ''B''), ov_published_by_identity_id = sample_uuid 100\<rparr>"

definition sample_profile :: profile_row where
  "sample_profile = \<lparr>pr_identity_id = sample_uuid 100, pr_kyc_status = Kyc_approved, pr_investor_class = Retail,
     pr_accreditation_status = Accreditation_not_required, pr_jurisdiction_code = ''NG'', pr_reviewed_at = 0,
     pr_expires_at = Some 2500, pr_evidence = []\<rparr>"

definition sample_reservation :: "nat \<Rightarrow> reservationStatus \<Rightarrow> uuid option \<Rightarrow> reservation_row" where
  "sample_reservation n st c = \<lparr>rv_id = sample_uuid n, rv_offering_id = sample_uuid 103, rv_offering_version_id = sample_uuid 108,
     rv_investor_identity_id = sample_uuid 100, rv_amount_minor = 5000, rv_currency = ''NGN'', rv_status = st, rv_expires_at = 2000,
     rv_commitment_id = c, rv_command_key = None, rv_eligibility_snapshot_id = None, rv_agreement_acceptance_id = None\<rparr>"

definition sample_open_market :: market_db where
  "sample_open_market = sample_market_db\<lparr>clock := 3000, identities := [sample_person 100, sample_person 101],
     organizations := [sample_uuid 102], offering_products := [sample_offering], offering_publication_versions := [sample_version],
     investor_compliance_profiles := [sample_profile], payment_provider_instructions := []\<rparr>"

text \<open>The same market, sold out to one investor, with an older reservation of another that expired
  unpaid and has not been swept.\<close>

definition sample_sold_out :: market_db where
  "sample_sold_out = sample_open_market\<lparr>
     investment_commitments := [\<lparr>cm_id = sample_uuid 104, cm_organization_id = sample_uuid 102, cm_investor_identity_id = sample_uuid 100,
        cm_offering_reference = ''OFF-1'', cm_currency = ''NGN'', cm_committed_minor = 5000, cm_status = Commitment_payment_pending\<rparr>],
     payment_intents := [\<lparr>in_id = sample_uuid 105, in_commitment_id = sample_uuid 104, in_provider = ''paystack'', in_provider_reference = ''A'',
        in_expected_minor = 5000, in_currency = ''NGN'', in_status = Intent_pending, in_expires_at = 2000, in_metadata = []\<rparr>],
     investment_reservations := [sample_reservation 106 Reservation_pending_payment (Some (sample_uuid 104)),
        sample_reservation 107 Reservation_confirmed None]\<rparr>"

definition sample_receipt :: "int \<Rightarrow> provider_receipt_input" where
  "sample_receipt at = \<lparr>rp_provider = ''paystack'', rp_providerReference = ''A'', rp_providerEventId = ''evt'',
     rp_amountMinor = BigIntAmount 5000, rp_currency = ''NGN'', rp_receivedAt = at, rp_metadata = None\<rparr>"

definition sample_checkout :: create_checkout_input where
  "sample_checkout = \<lparr>ci_publicReference = ''OFF-1'', ci_investorIdentityId = sample_uuid 100, ci_amountMinor = BigIntAmount 5000,
     ci_signatureName = ''Ada'', ci_agreementDocumentHash = replicate 64 (CHR ''A''), ci_provider = ''paystack'', ci_providerReference = ''B'',
     ci_paymentExpiresAt = 9000, ci_acceptedAt = None, ci_ipHash = None, ci_userAgentHash = None, ci_commandKey = None\<rparr>"

definition sample_keyed_checkout :: create_checkout_input where
  "sample_keyed_checkout = sample_checkout\<lparr>ci_commandKey := Some ''checkout-1''\<rparr>"

theorem expired_profile_leaves_no_evidence_witness:
  "createCheckout plain_runtime sample_keyed_checkout sample_open_market
     = (Inl (CheckViolation ''investment_eligibility_snapshots_check''), sample_open_market)"
proof -
  have 1: "amount (ci_amountMinor sample_keyed_checkout) = Inr 5000" "trim (ci_publicReference sample_keyed_checkout) \<noteq> []"
    "map_option trim (ci_commandKey sample_keyed_checkout) \<noteq> Some []"
    "checkout_offering sample_keyed_checkout sample_open_market = Some sample_offering"
    "checkout_replay sample_keyed_checkout sample_offering sample_open_market = None"
    "offering_open (accepted_at sample_keyed_checkout sample_open_market) sample_offering"
    "accepted_at sample_keyed_checkout sample_open_market < ci_paymentExpiresAt sample_keyed_checkout"
    "ci_paymentExpiresAt sample_keyed_checkout \<le> of_closes_at sample_offering"
    by code_simp+
  have 2: "current_version (of_id sample_offering) sample_open_market = Some sample_version"
    "policy (ov_eligibility_policy sample_version) = Inr (sample_policy\<lparr>ep_requiresAccreditation := Some False\<rparr>)"
    "investor_profile sample_keyed_checkout sample_open_market = Some sample_profile" "pr_expires_at sample_profile = Some 2500"
    "2500 < accepted_at sample_keyed_checkout sample_open_market"
    by code_simp+
  show ?thesis by (rule expired_profile_leaves_no_evidence [OF 1 2, THEN conjunct2])
qed

theorem escrow_reconciles_witness:
  "let t = run_market plain_runtime default_env [CreateCheckout sample_checkout, ReceivePayment (sample_receipt 1500), ExpirePayments 9000] sample_open_market in
     - account_balance (Some (sample_uuid 102)) (escrow_code ''NGN'') t = received_total (sample_uuid 102) ''NGN'' t
     \<and> account_balance (Some (sample_uuid 102)) (clearing_code ''NGN'') t = received_total (sample_uuid 102) ''NGN'' t
     \<and> distinct (map rc_payment_intent_id (payment_receipts t))
     \<and> Some ` je_id ` set (journal_entries t) \<subseteq> rc_journal_id ` set (payment_receipts t)"
  by (rule escrow_reconciles) (simp add: no_payments_def sample_open_market_def sample_market_db_def)

lemma sample_open_market_ok: "market_ok sample_open_market"
  by (simp add: market_ok_def no_payments_money_ok no_payments_def capacity_defs sample_open_market_def sample_market_db_def
      sample_offering_def)

theorem capacity_respected_witness:
  "let t = run_market plain_runtime default_env [ReceivePayment (sample_receipt 3000), CreateCheckout sample_checkout, Wait 10] sample_open_market in
     list_all (\<lambda>o'. sum_rows (\<lambda>r. rv_offering_id r = of_id o' \<and> rv_status r = Reservation_confirmed) rv_amount_minor
           (investment_reservations t)
         + sum_rows (\<lambda>r. rv_offering_id r = of_id o' \<and> rv_status r = Reservation_pending_payment \<and> clock t < rv_expires_at r)
             rv_amount_minor (investment_reservations t)
         \<le> of_capacity_minor o') (offering_products t)"
  by (rule capacity_respected [OF sample_open_market_ok])
     (simp add: sample_open_market_def sample_receipt_def sample_checkout_def accepted_at_def)

theorem late_receipt_oversells_witness:
  "of_capacity_minor sample_offering
     < reserved_total (sample_uuid 103) 3000 (snd (recordProviderPaymentReceipt plain_runtime (sample_receipt 1500) sample_sold_out))"
proof -
  let ?run = "recordProviderPaymentReceipt plain_runtime (sample_receipt 1500) sample_sold_out"
  have ev: "case ?run of (Inl e, s') \<Rightarrow> False
     | (Inr out, s') \<Rightarrow> rr_status out = Matched \<and> \<not> rr_replayed out \<and> rr_commitmentId out = sample_uuid 104 \<and> clock s' = 3000"
    unfolding tx_defs tx_eval by code_simp
  obtain r s' where run: "?run = (r, s')" by fastforce
  with ev obtain out where out: "?run = (Inr out, s')" "rr_status out = Matched" "\<not> rr_replayed out" "rr_commitmentId out = sample_uuid 104"
    and clk: "clock s' = 3000" by (cases r) auto
  have full: "reserved_total (of_id sample_offering) (clock sample_sold_out) sample_sold_out = of_capacity_minor sample_offering" by code_simp
  have v: "sole_reservation (sample_reservation 106 Reservation_pending_payment (Some (sample_uuid 104))) (rr_commitmentId out) sample_sold_out"
    unfolding out(4) by code_simp
  have rest: "sample_offering \<in> set (offering_products sample_sold_out)"
    "rv_offering_id (sample_reservation 106 Reservation_pending_payment (Some (sample_uuid 104))) = of_id sample_offering"
    "0 < rv_amount_minor (sample_reservation 106 Reservation_pending_payment (Some (sample_uuid 104)))"
    "rv_status (sample_reservation 106 Reservation_pending_payment (Some (sample_uuid 104))) = Reservation_pending_payment"
    "rv_expires_at (sample_reservation 106 Reservation_pending_payment (Some (sample_uuid 104))) \<le> clock sample_sold_out"
    and i: "of_id sample_offering = sample_uuid 103"
    by (simp_all add: sample_sold_out_def sample_open_market_def sample_offering_def sample_reservation_def)
  show ?thesis
    using late_receipt_oversells [OF rest(1) full out(1-3) v rest(2-5)] by (simp add: out(1) clk i)
qed

definition sample_commitment :: payment_commitment_input where
  "sample_commitment = \<lparr>pc_organizationId = sample_uuid 102, pc_investorIdentityId = sample_uuid 100, pc_offeringReference = ''OFF-1'',
     pc_currency = ''NGN'', pc_committedMinor = BigIntAmount 5000, pc_provider = ''paystack'', pc_providerReference = ''A'',
     pc_expiresAt = 9000, pc_metadata = None\<rparr>"

abbreviation sample_paid :: market_db where
  "sample_paid \<equiv> run_market plain_runtime default_env
     [CreateCommitment sample_commitment, ReceivePayment (sample_receipt 3000)] sample_open_market"

lemma sample_open_market_unpaid: "no_payments sample_open_market"
  by (simp add: no_payments_def sample_open_market_def sample_market_db_def)

theorem market_tables_well_formed_witness:
  "list_all (\<lambda>p. list_ex (\<lambda>e. je_id e = jp_journal_id p) (journal_entries sample_paid)) (journal_postings sample_paid)"
  using market_tables_well_formed [OF sample_open_market_unpaid, of plain_runtime default_env
      "[CreateCommitment sample_commitment, ReceivePayment (sample_receipt 3000)]"]
  unfolding Let_def list_all_iff list_ex_iff by (elim conjE)

theorem posting_amounts_in_range_witness:
  "list_all (\<lambda>p. 0 < jp_amount_minor p \<and> jp_amount_minor p < 2 ^ 63) (journal_postings sample_paid)"
  unfolding list_all_iff by (intro ballI posting_amounts_in_range [OF sample_open_market_unpaid])

end
