(* ===== verification/Provider_Events.thy ===== *)
theory Provider_Events
  imports Inbox Market_History
begin

text \<open>
  The effects of provider events: \<open>processPaystackInboxEvent\<close> and \<open>paystackExternalEventId\<close> of
  \<^verbatim>\<open>src/modules/webhooks/routes/paystack-webhook.routes.ts\<close> and the processing function that
  \<^verbatim>\<open>src/worker.ts\<close> gives to the inbox dispatcher. The handlers of the legacy document store, the two payout domains and the identity provider are fields of \<open>provider_effects\<close>;
  the payment domain is the one of this development.
\<close>

section \<open>Effects outside the payment domain\<close>

record transfer_outcome =
  to_outcome :: string
  to_reference :: string
  to_transferCode :: string
  to_amountMinor :: "int option"
  to_currency :: "string option"
  to_reason :: "string option"
  to_occurredAt :: "int option"

text \<open>\<open>fx_distribution\<close> and \<open>fx_professional\<close> answer whether they handled the transfer.\<close>

record 's provider_effects =
  fx_handler :: "string \<Rightarrow> json_object \<Rightarrow> 's \<Rightarrow> (error + unit) \<times> 's"
  fx_distribution :: "transfer_outcome \<Rightarrow> 's \<Rightarrow> (error + bool) \<times> 's"
  fx_professional :: "transfer_outcome \<Rightarrow> 's \<Rightarrow> (error + bool) \<times> 's"
  fx_sumsub :: "json_object \<Rightarrow> string \<Rightarrow> string \<Rightarrow> string \<Rightarrow> int \<Rightarrow> 's \<Rightarrow> (error + unit) \<times> 's"

section \<open>Paystack events\<close>

definition paystackExternalEventId :: "runtime \<Rightarrow> string \<Rightarrow> json_object \<Rightarrow> string \<Rightarrow> string" where
  "paystackExternalEventId rt eventType d rawBody =
     (let present = (\<lambda>k. case get_field k d of Some JNull \<Rightarrow> None | v \<Rightarrow> v);
          candidate = (case present ''transfer_code'' of Some v \<Rightarrow> Some v
            | None \<Rightarrow> (case present ''reference'' of Some v \<Rightarrow> Some v | None \<Rightarrow> get_field ''id'' d));
          identity = (case candidate of Some (JStr t) \<Rightarrow> t | Some (JNum n) \<Rightarrow> show_int n
            | _ \<Rightarrow> hashPayload rt (JStr rawBody))
      in eventType @ '':'' @ identity)"

text \<open>The keys of \<open>EVENT_HANDLERS\<close>. A type that names a member every JavaScript object inherits would be
  found there too; such types are left out.\<close>

definition EVENT_HANDLERS :: "string list" where
  "EVENT_HANDLERS = [''charge.success'', ''transfer.success'', ''transfer.failed'', ''transfer.reversed'',
     ''dedicatedaccount.assign.success'', ''refund.processed'', ''refund.failed'']"

text \<open>The schemas of the event data: a non-empty text (\<open>z.string().min(1)\<close>), an optional field, a safe
  non-negative integer (\<open>z.number().int().nonnegative()\<close>), and unknown fields let through. A refund names the
  transaction it refunds, inside \<open>transaction\<close> or by its own reference.\<close>

definition nonempty_text :: "json option \<Rightarrow> bool" where
  "nonempty_text v \<longleftrightarrow> (case v of Some (JStr t) \<Rightarrow> t \<noteq> [] | _ \<Rightarrow> False)"

definition optional_text :: "json option \<Rightarrow> bool" where
  "optional_text v \<longleftrightarrow> (case v of None \<Rightarrow> True | Some (JStr t) \<Rightarrow> True | _ \<Rightarrow> False)"

definition safe_amount :: "json option \<Rightarrow> bool" where
  "safe_amount v \<longleftrightarrow> (case v of Some (JNum n) \<Rightarrow> 0 \<le> n \<and> n < 2 ^ 53 | _ \<Rightarrow> False)"

definition chargeDataSchema :: "json_object \<Rightarrow> bool" where
  "chargeDataSchema d \<longleftrightarrow> nonempty_text (get_field ''reference'' d) \<and> safe_amount (get_field ''amount'' d)
     \<and> optional_text (get_field ''currency'' d)
     \<and> (case get_field ''metadata'' d of None \<Rightarrow> True | Some (JObj m) \<Rightarrow> True | _ \<Rightarrow> False)"

definition transferDataSchema :: "json_object \<Rightarrow> bool" where
  "transferDataSchema d \<longleftrightarrow> nonempty_text (get_field ''transfer_code'' d) \<and> nonempty_text (get_field ''reference'' d)
     \<and> optional_text (get_field ''status'' d)"

definition refundDataSchema :: "json_object \<Rightarrow> bool" where
  "refundDataSchema d \<longleftrightarrow>
     (case get_field ''transaction'' d of
        None \<Rightarrow> nonempty_text (get_field ''reference'' d)
      | Some (JObj t) \<Rightarrow> nonempty_text (get_field ''reference'' t)
          \<and> (get_field ''reference'' d = None \<or> nonempty_text (get_field ''reference'' d))
      | _ \<Rightarrow> False)"

text \<open>\<open>EVENT_DATA_SCHEMAS\<close>: an event type without a schema is not checked.\<close>

definition schema_accepts :: "string \<Rightarrow> json_object \<Rightarrow> bool" where
  "schema_accepts eventType d \<longleftrightarrow>
     (if eventType = ''charge.success'' then chargeDataSchema d
      else if eventType \<in> {''transfer.success'', ''transfer.failed'', ''transfer.reversed''} then transferDataSchema d
      else if eventType \<in> {''refund.processed'', ''refund.failed''} then refundDataSchema d
      else True)"

text \<open>\<open>data.currency ?? "NGN"\<close>, when it is text.\<close>

definition event_currency :: "json_object \<Rightarrow> string option" where
  "event_currency d =
     (case get_field ''currency'' d of
        None \<Rightarrow> Some ''NGN'' | Some JNull \<Rightarrow> Some ''NGN'' | Some (JStr c) \<Rightarrow> Some c | _ \<Rightarrow> None)"

text \<open>The receipt of a charge: reference, amount and currency must have the right types.\<close>

definition charge_receipt :: "json_object \<Rightarrow> string \<Rightarrow> int \<Rightarrow> provider_receipt_input option" where
  "charge_receipt d providerEventId receivedAt =
     (case (get_field ''reference'' d, get_field ''amount'' d, event_currency d) of
        (Some (JStr reference), Some (JNum n), Some c) \<Rightarrow>
          Some \<lparr>rp_provider = ''paystack'', rp_providerReference = reference, rp_providerEventId = providerEventId,
                rp_amountMinor = NumberAmount (Integral n), rp_currency = c, rp_receivedAt = receivedAt,
                rp_metadata = Some [(''paystackData'', JObj d)]\<rparr>
      | _ \<Rightarrow> None)"

definition text_of :: "json option \<Rightarrow> string option" where
  "text_of v = (case v of Some (JStr t) \<Rightarrow> Some t | _ \<Rightarrow> None)"

definition number_of :: "json option \<Rightarrow> int option" where
  "number_of v = (case v of Some (JNum n) \<Rightarrow> Some n | _ \<Rightarrow> None)"

text \<open>The outcome of a transfer, for the event types that report one and carry both references.\<close>

definition transfer_event :: "string \<Rightarrow> json_object \<Rightarrow> int option \<Rightarrow> transfer_outcome option" where
  "transfer_event eventType d receivedAt =
     (if eventType \<in> {''transfer.success'', ''transfer.failed'', ''transfer.reversed''}
      then case (text_of (get_field ''reference'' d), text_of (get_field ''transfer_code'' d)) of
          (Some reference, Some transferCode) \<Rightarrow>
            Some \<lparr>to_outcome = (if eventType = ''transfer.success'' then ''success''
                    else if eventType = ''transfer.failed'' then ''failed'' else ''reversed''),
                  to_reference = reference, to_transferCode = transferCode,
                  to_amountMinor = number_of (get_field ''amount'' d), to_currency = text_of (get_field ''currency'' d),
                  to_reason = (case text_of (get_field ''reason'' d) of Some t \<Rightarrow> Some t
                     | None \<Rightarrow> text_of (get_field ''message'' d)),
                  to_occurredAt = receivedAt\<rparr>
        | _ \<Rightarrow> None
      else None)"

text \<open>The transfer goes to the distribution domain when it carries an amount and a currency, then to the
  professional domain unless it was handled, and to the legacy handler when neither knows it.\<close>

definition process_transfer ::
    "'s provider_effects \<Rightarrow> string \<Rightarrow> json_object \<Rightarrow> transfer_outcome \<Rightarrow> 's \<Rightarrow> (error + unit) \<times> 's" where
  "process_transfer fx eventType d t s =
     (case (if to_amountMinor t \<noteq> None \<and> to_currency t \<noteq> None then fx_distribution fx t s else (Inr False, s)) of
        (Inl e, s') \<Rightarrow> (Inl e, s')
      | (Inr True, s') \<Rightarrow> (Inr (), s')
      | (Inr False, s') \<Rightarrow>
          (case fx_professional fx t s' of
             (Inl e, s'') \<Rightarrow> (Inl e, s'')
           | (Inr True, s'') \<Rightarrow> (Inr (), s'')
           | (Inr False, s'') \<Rightarrow> fx_handler fx eventType d s''))"

definition after_charge ::
    "'s provider_effects \<Rightarrow> string \<Rightarrow> json_object \<Rightarrow> int option \<Rightarrow> 's \<Rightarrow> (error + unit) \<times> 's" where
  "after_charge fx eventType d receivedAt s =
     (case transfer_event eventType d receivedAt of
        Some t \<Rightarrow> process_transfer fx eventType d t s
      | None \<Rightarrow> fx_handler fx eventType d s)"

definition process_charge ::
    "runtime \<Rightarrow> 'z market_db_scheme provider_effects \<Rightarrow> string \<Rightarrow> json_object \<Rightarrow> provider_receipt_input \<Rightarrow> int option \<Rightarrow>
     'z market_db_scheme \<Rightarrow> (error + unit) \<times> 'z market_db_scheme" where
  "process_charge rt fx eventType d inp receivedAt s =
     (case recordProviderPaymentReceipt rt inp s of
        (Inr _, s') \<Rightarrow> (Inr (), s')
      | (Inl (PaymentIntentNotFoundError m), s') \<Rightarrow> after_charge fx eventType d receivedAt s'
      | (Inl e, s') \<Rightarrow> (Inl e, s'))"

definition processPaystackInboxEvent ::
    "runtime \<Rightarrow> 'z market_db_scheme provider_effects \<Rightarrow> string \<Rightarrow> json_object \<Rightarrow> string option \<Rightarrow> int option \<Rightarrow>
     'z market_db_scheme \<Rightarrow> (error + unit) \<times> 'z market_db_scheme" where
  "processPaystackInboxEvent rt fx eventType d providerEventId receivedAt s =
     (if eventType \<notin> set EVENT_HANDLERS then (Inr (), s)
      else if \<not> schema_accepts eventType d
      then (Inl (PaystackInboxPayloadError (''Paystack '' @ eventType @ '' payload validation failed'')), s)
      else case (if eventType = ''charge.success'' then providerEventId else None) of
          None \<Rightarrow> after_charge fx eventType d receivedAt s
        | Some eventId \<Rightarrow>
            if eventId = [] then after_charge fx eventType d receivedAt s
            else case charge_receipt d eventId (case receivedAt of None \<Rightarrow> clock s | Some t \<Rightarrow> t) of
                None \<Rightarrow> after_charge fx eventType d receivedAt s
              | Some inp \<Rightarrow> process_charge rt fx eventType d inp receivedAt s)"

section \<open>The worker\<close>

definition process_provider_event ::
    "runtime \<Rightarrow> 'z market_db_scheme provider_effects \<Rightarrow> inbox_row \<Rightarrow> 'z market_db_scheme \<Rightarrow> (error + unit) \<times> 'z market_db_scheme" where
  "process_provider_event rt fx event s =
     (if ib_provider event = ''paystack''
      then case (get_field ''eventType'' (ib_payload event), get_field ''data'' (ib_payload event)) of
          (Some (JStr eventType), Some (JObj d)) \<Rightarrow>
            processPaystackInboxEvent rt fx eventType d (Some (ib_external_event_id event)) (Some (ib_received_at event)) s
        | _ \<Rightarrow> (Inl (PaystackInboxPayloadError ''Stored Paystack inbox payload is malformed''), s)
      else if ib_provider event = ''sumsub''
      then case (get_field ''event'' (ib_payload event), get_field ''rawBody'' (ib_payload event),
                 get_field ''signature'' (ib_payload event)) of
          (Some (JObj es), Some (JStr rawBody), Some (JStr signature)) \<Rightarrow>
            fx_sumsub fx es (ib_external_event_id event) rawBody signature (ib_received_at event) s
        | _ \<Rightarrow> (Inl (SumsubInboxPayloadError ''Stored Sumsub inbox payload is malformed''), s)
      else (Inl (GenericError (''Unsupported inbox provider: '' @ ib_provider event)), s))"

fun isTerminalError :: "error \<Rightarrow> bool" where
  "isTerminalError (PaystackInboxPayloadError m) \<longleftrightarrow> True"
| "isTerminalError (SumsubInboxPayloadError m) \<longleftrightarrow> True"
| "isTerminalError e \<longleftrightarrow> False"

section \<open>Receipts are kept\<close>

text \<open>What no command of the market takes back: receipts are only appended, and intents and commitments
  keep their identity.\<close>

definition intent_link :: "intent_row \<Rightarrow> uuid \<times> uuid \<times> string \<times> string" where
  "intent_link i = (in_id i, in_commitment_id i, in_provider i, in_provider_reference i)"

definition extends :: "'a list \<Rightarrow> 'a list \<Rightarrow> bool" where
  "extends xs ys \<longleftrightarrow> (\<exists>zs. ys = xs @ zs)"

definition keeps_payments :: "'z market_db_scheme \<Rightarrow> 'z market_db_scheme \<Rightarrow> bool" where
  "keeps_payments s s' \<longleftrightarrow> extends (payment_receipts s) (payment_receipts s')
     \<and> extends (map intent_link (payment_intents s)) (map intent_link (payment_intents s'))
     \<and> extends (map cm_id (investment_commitments s)) (map cm_id (investment_commitments s'))"

lemma extends_refl [simp]: "extends xs xs"
  by (simp add: extends_def)

lemma extends_append [simp]: "extends xs (xs @ ys)"
  by (simp add: extends_def)

lemma extends_set: "extends xs ys \<Longrightarrow> set xs \<subseteq> set ys"
  by (auto simp: extends_def)

lemma extends_trans: "extends xs ys \<Longrightarrow> extends ys zs \<Longrightarrow> extends xs zs"
  by (auto simp: extends_def)

lemma intent_link_status [simp]:
  "map intent_link (update_where p (\<lambda>i. i\<lparr>in_status := st\<rparr>) t) = map intent_link t"
  "map cm_id (update_where q (\<lambda>c. c\<lparr>cm_status := ct\<rparr>) u) = map cm_id u"
  by (simp_all add: map_update_where intent_link_def)

lemma keeps_payments_same: "same_payments s s' \<Longrightarrow> keeps_payments s s'"
  by (simp add: keeps_payments_def same_payments_def)

lemma keeps_payments_refl [simp]: "keeps_payments s s"
  by (simp add: keeps_payments_def)

lemma keeps_payments_trans: "keeps_payments s s1 \<Longrightarrow> keeps_payments s1 s2 \<Longrightarrow> keeps_payments s s2"
  by (auto simp: keeps_payments_def intro: extends_trans)

lemma receipt_keeps_payments: "keeps_payments s (snd (recordProviderPaymentReceipt rt inp s))"
proof (cases "recordProviderPaymentReceipt rt inp s")
  case (Pair r s')
  then show ?thesis using receipt_outcome_cases [where rt = rt and inp = inp and s = s]
    by (cases r) (auto simp: keeps_payments_def matched_outcome_def mismatch_outcome_def split: if_splits)
qed

lemma payment_created_keeps: "payment_created inp m offering c s s' \<Longrightarrow> keeps_payments s s'"
  by (auto simp: payment_created_def keeps_payments_def)

lemma checkout_keeps_payments: "keeps_payments s (snd (createCheckout rt inp s))"
proof (cases "createCheckout rt inp s")
  case (Pair r s')
  then show ?thesis using checkout_outcome_cases [where rt = rt and inp = inp and s = s]
    by (cases r) (auto dest: payment_created_keeps simp: keeps_payments_def split: option.splits)
qed

lemma commitment_keeps_payments: "keeps_payments s (snd (createPaymentCommitment rt inp s))"
  unfolding createPaymentCommitment_def
  by (rule transaction_snd) (auto simp: keeps_payments_def elim!: create_commitment_effect)

lemma expiry_keeps_payments: "keeps_payments s (snd (expirePendingPaymentIntents rt env now s))"
proof (cases "expirePendingPaymentIntents rt env now s")
  case (Pair r s')
  show ?thesis
  proof (cases r)
    case (Inl e)
    then have "s' = s" using Pair by (auto simp: expirePendingPaymentIntents_def dest: withPostgresTransaction_rollback)
    then show ?thesis by (simp add: Pair)
  next
    case (Inr n)
    then show ?thesis using expirePendingPaymentIntents_effect(2) [of rt env now s n s'] Pair
      by (simp add: expired_tables_def keeps_payments_def)
  qed
qed

lemma run_market_command_keeps: "keeps_payments s (run_market_command rt env c s)"
proof (cases c)
  case (PublishOffering inp)
  from publishOffering_effect [of s rt inp] have "same_payments s (snd (publishOffering rt inp s))"
    by (auto simp: market_frame_defs)
  then show ?thesis by (simp add: PublishOffering keeps_payments_same)
next
  case (ReviewProfile inp)
  then show ?thesis using upsertProfile_effect [of s inp] by (simp add: same_market_def keeps_payments_same)
next
  case (ProjectEvents w)
  then show ?thesis using projectEvents_effect [of s env rt w "[''payment.intent.created'']"]
    by (simp add: same_market_def keeps_payments_same)
next
  case (DispatchPayments initialize w)
  then show ?thesis using dispatchPayments_effect [of s env initialize w] by (simp add: same_market_def keeps_payments_same)
next
  case (Wait d)
  then show ?thesis by (simp add: keeps_payments_def)
qed (simp_all add: checkout_keeps_payments commitment_keeps_payments receipt_keeps_payments expiry_keeps_payments)

lemma run_market_keeps: "keeps_payments s (run_market rt env cs s)"
proof (induction cs arbitrary: s)
  case (Cons c cs)
  then show ?case unfolding run_market_def
    using keeps_payments_trans [OF run_market_command_keeps [of s rt env c]] by simp
qed (simp add: run_market_def)

section \<open>A charge is recorded once\<close>

definition event_receipt :: "normal_receipt \<Rightarrow> receipt_row \<Rightarrow> bool" where
  "event_receipt r x \<longleftrightarrow> rc_provider x = nr_provider r \<and> rc_provider_event_id x = nr_providerEventId r"

lemma find_intent_exists:
  "find_intent r s \<noteq> None \<longleftrightarrow> (\<exists>i \<in> set (payment_intents s). in_provider i = nr_provider r
     \<and> in_provider_reference i = nr_providerReference r \<and> in_commitment_id i \<in> cm_id ` set (investment_commitments s))"
proof -
  let ?p = "\<lambda>i. in_provider i = nr_provider r \<and> in_provider_reference i = nr_providerReference r
     \<and> exists_row (\<lambda>c. cm_id c = in_commitment_id i) (investment_commitments s)"
  have p: "?p i \<longleftrightarrow> in_provider i = nr_provider r \<and> in_provider_reference i = nr_providerReference r
      \<and> in_commitment_id i \<in> cm_id ` set (investment_commitments s)" for i by (auto simp: image_iff) metis+
  show ?thesis
  proof (cases "first_row ?p (payment_intents s)")
    case None
    then have "\<forall>i \<in> set (payment_intents s). \<not> ?p i" unfolding first_row_None .
    then show ?thesis using None unfolding find_intent_def p [symmetric] by auto
  next
    case (Some i)
    then have i: "i \<in> set (payment_intents s)" "?p i" by (auto dest: first_row_Some)
    then have "first_row (\<lambda>c. cm_id c = in_commitment_id i) (investment_commitments s) \<noteq> None"
      unfolding first_row_None by auto
    then show ?thesis using Some i unfolding find_intent_def p [symmetric] by auto
  qed
qed

lemma find_intent_keeps:
  assumes "keeps_payments s s'" and "find_intent r s \<noteq> None"
  shows "find_intent r s' \<noteq> None"
proof -
  from assms(2) obtain i where i: "i \<in> set (payment_intents s)" "in_provider i = nr_provider r"
    "in_provider_reference i = nr_providerReference r" "in_commitment_id i \<in> cm_id ` set (investment_commitments s)"
    unfolding find_intent_exists by blast
  have "intent_link i \<in> set (map intent_link (payment_intents s'))"
    using assms(1) i(1) extends_set [of "map intent_link (payment_intents s)" "map intent_link (payment_intents s')"]
    by (auto simp: keeps_payments_def)
  then obtain i' where "i' \<in> set (payment_intents s')" "intent_link i' = intent_link i" by auto
  moreover have "cm_id ` set (investment_commitments s) \<subseteq> cm_id ` set (investment_commitments s')"
    using assms(1) extends_set [of "map cm_id (investment_commitments s)" "map cm_id (investment_commitments s')"]
    by (auto simp: keeps_payments_def)
  ultimately show ?thesis using i unfolding find_intent_exists intent_link_def by fastforce
qed

lemma recorded_receipt_first:
  assumes "record_receipt_tx rt r s = Inr (out, s')"
  shows "\<exists>x. first_row (event_receipt r) (payment_receipts s') = Some x
     \<and> rc_payload_hash x = hashPayload rt (receipt_payload r) \<and> rc_id x = rr_receiptId out"
    and "find_intent r s \<noteq> None"
proof -
  let ?h = "hashPayload rt (receipt_payload r)" and ?P = "event_receipt r"
  have P: "(\<lambda>x. rc_provider x = nr_provider r \<and> rc_provider_event_id x = nr_providerEventId r) = ?P"
    by (simp add: fun_eq_iff event_receipt_def)
  note tx = assms [unfolded record_receipt_tx_def Let_def P]
  from tx show "find_intent r s \<noteq> None" by (auto simp: tx_Inr elim!: tx_elims split: option.splits)
  then obtain intent commitment where f: "find_intent r s = Some (intent, commitment)" by (metis option.exhaust surj_pair)
  show "\<exists>x. first_row ?P (payment_receipts s') = Some x \<and> rc_payload_hash x = ?h \<and> rc_id x = rr_receiptId out"
  proof (cases "first_row ?P (payment_receipts s)")
    case (Some x)
    with tx f show ?thesis by (auto simp: tx_Inr elim!: tx_elims)
  next
    case None
    let ?s = "s\<lparr>uuids_drawn := Suc (uuids_drawn s)\<rparr>" and ?i = "rt_uuid rt (uuids_drawn s)"
    from tx f None have pending: "in_status intent = Intent_pending"
      and rest: "(if receipt_exact r intent then record_matched rt r ?h intent commitment ?i
          else record_mismatch rt r ?h intent commitment ?i (in_expires_at intent \<le> nr_receivedAt r)
            (receipt_case_type r intent)) ?s = Inr (out, s')"
      by (auto simp: tx_simps randomUUID_def split: if_splits)
    then have "matched_outcome rt r intent commitment out ?s s' \<or> mismatch_outcome rt r intent commitment out ?s s'"
      by (auto dest: record_matched_outcome(1) [OF _ pending] record_mismatch_outcome(1) [OF _ pending] split: if_splits)
    then show ?thesis using None
      by (auto simp: matched_outcome_def mismatch_outcome_def first_row_append event_receipt_def receipt_row_of_def)
  qed
qed

text \<open>A second recording of a receipt, whenever it comes.\<close>

lemma receipt_replay_later:
  assumes "recordProviderPaymentReceipt rt inp s = (Inr out, s1)" and "keeps_payments s1 s2"
  shows "\<exists>out2. recordProviderPaymentReceipt rt inp s2 = (Inr out2, s2) \<and> rr_receiptId out2 = rr_receiptId out
     \<and> rr_replayed out2"
proof -
  from assms(1) obtain r where r: "normalize_receipt inp = Inr r" and tx: "record_receipt_tx rt r s = Inr (out, s1)"
    by (auto simp: recordProviderPaymentReceipt_def withPostgresTransaction_commit split: sum.splits)
  have "keeps_payments s s1" using receipt_keeps_payments [of s rt inp] assms(1) by simp
  then have "find_intent r s2 \<noteq> None"
    using find_intent_keeps keeps_payments_trans assms(2) recorded_receipt_first(2) [OF tx] by blast
  then obtain i c where f: "find_intent r s2 = Some (i, c)" by (metis option.exhaust surj_pair)
  obtain x where x: "first_row (event_receipt r) (payment_receipts s1) = Some x"
    "rc_payload_hash x = hashPayload rt (receipt_payload r)" "rc_id x = rr_receiptId out"
    using recorded_receipt_first(1) [OF tx] by blast
  have "first_row (event_receipt r) (payment_receipts s2) = Some x"
    using assms(2) x(1) by (auto simp: keeps_payments_def extends_def first_row_append)
  then have "\<exists>out2. record_receipt_tx rt r s2 = Inr (out2, s2) \<and> rr_receiptId out2 = rr_receiptId out \<and> rr_replayed out2"
    using f x by (simp add: record_receipt_tx_def Let_def event_receipt_def [abs_def] tx_simps)
  then show ?thesis
    by (auto simp: recordProviderPaymentReceipt_def r withPostgresTransaction_commit deferred_constraints_def)
qed

text \<open>C23: a charge is recorded once. When the worker processes a charge event whose reference belongs to a
  payment intent, it records the receipt and touches nothing else; and when the same event is processed
  again (the worker died before it marked the event, or another worker took it over) after any further
  history of the market, the processing succeeds and changes nothing at all.\<close>

theorem charge_recorded_once:
  assumes "ib_provider e = ''paystack''" and "get_field ''eventType'' (ib_payload e) = Some (JStr ''charge.success'')"
    and "get_field ''data'' (ib_payload e) = Some (JObj d)" and "chargeDataSchema d"
    and "ib_external_event_id e \<noteq> []"
    and "charge_receipt d (ib_external_event_id e) (ib_received_at e) = Some inp"
    and "recordProviderPaymentReceipt rt inp s = (Inr out, s1)"
  shows "process_provider_event rt fx e s = (Inr (), s1)
     \<and> process_provider_event rt fx e (run_market rt env cs s1) = (Inr (), run_market rt env cs s1)"
proof -
  have step: "process_provider_event rt fx e t = process_charge rt fx ''charge.success'' d inp (Some (ib_received_at e)) t" for t
    using assms(1-6) by (simp add: process_provider_event_def processPaystackInboxEvent_def EVENT_HANDLERS_def schema_accepts_def)
  show ?thesis
    using receipt_replay_later [OF assms(7) run_market_keeps [of s1 rt env cs]] assms(7)
    by (auto simp: step process_charge_def)
qed

definition sample_charge :: inbox_row where
  "sample_charge = \<lparr>ib_id = ''b1'', ib_provider = ''paystack'', ib_external_event_id = ''charge.success:REF-1'',
     ib_payload = [(''eventType'', JStr ''charge.success''),
       (''data'', JObj [(''reference'', JStr ''REF-1''), (''amount'', JNum 5000), (''currency'', JStr ''NGN'')])],
     ib_payload_hash = [], ib_received_at = 100, ib_claimed_at = None, ib_claimed_by = None, ib_processed_at = None,
     ib_failed_at = None, ib_attempts = 1, ib_next_attempt_at = 0, ib_last_error = None,
     ib_privacy_classification = ''external_subject_unlinked'', ib_privacy_subject_identity_ids = [],
     ib_privacy_attribution_basis = ''known_provider_unlinked''\<rparr>"

definition idle_effects :: "'s provider_effects" where
  "idle_effects = \<lparr>fx_handler = (\<lambda>_ _ s. (Inr (), s)), fx_distribution = (\<lambda>_ s. (Inr False, s)),
     fx_professional = (\<lambda>_ s. (Inr False, s)), fx_sumsub = (\<lambda>_ _ _ _ _ s. (Inr (), s))\<rparr>"

theorem charge_recorded_once_witness:
  "\<exists>s1. process_provider_event plain_runtime idle_effects sample_charge sample_due_db = (Inr (), s1)
     \<and> length (payment_receipts s1) = 1
     \<and> process_provider_event plain_runtime idle_effects sample_charge (run_market plain_runtime default_env [Wait 60000] s1)
         = (Inr (), run_market plain_runtime default_env [Wait 60000] s1)"
proof -
  let ?d = "[(''reference'', JStr ''REF-1''), (''amount'', JNum 5000), (''currency'', JStr ''NGN'')]"
  let ?inp = "the (charge_receipt ?d ''charge.success:REF-1'' 100)"
  have ev: "isl (fst (recordProviderPaymentReceipt plain_runtime ?inp sample_due_db)) = False
      \<and> length (payment_receipts (snd (recordProviderPaymentReceipt plain_runtime ?inp sample_due_db))) = 1"
    unfolding tx_defs tx_eval sample_due_db_def by code_simp
  then obtain out s1 where run: "recordProviderPaymentReceipt plain_runtime ?inp sample_due_db = (Inr out, s1)"
    and n: "length (payment_receipts s1) = 1"
    by (metis isl_def prod.collapse sum.collapse(2))
  have "process_provider_event plain_runtime idle_effects sample_charge sample_due_db = (Inr (), s1)
     \<and> process_provider_event plain_runtime idle_effects sample_charge (run_market plain_runtime default_env [Wait 60000] s1)
         = (Inr (), run_market plain_runtime default_env [Wait 60000] s1)"
    by (rule charge_recorded_once [where d = ?d and inp = ?inp, OF _ _ _ _ _ _ run])
       (simp_all add: sample_charge_def get_field_def charge_receipt_def event_currency_def
         chargeDataSchema_def nonempty_text_def safe_amount_def optional_text_def)
  with n show ?thesis by blast
qed

end
