(* ===== verification/Jwt_Keyring.thy ===== *)
theory Jwt_Keyring
  imports Json
begin

text \<open>
  The keys that sign and verify access tokens: \<^verbatim>\<open>src/services/jwt-keyring.ts\<close>. The reader of JSON
  text is the argument \<open>parse\<close>, which answers \<open>None\<close> where \<open>JSON.parse\<close> throws.
\<close>

section \<open>Building the keyring\<close>

record jwt_keyring =
  kr_activeKeyId :: string
  kr_keys :: "string \<rightharpoonup> string"

definition is_key_id_char :: "char \<Rightarrow> bool" where
  "is_key_id_char c \<longleftrightarrow> is_upper c \<or> is_lower c \<or> is_digit c \<or> c = CHR ''_'' \<or> c = CHR ''-''"

definition key_id_ok :: "string \<Rightarrow> bool" where
  "key_id_ok keyId \<longleftrightarrow> keyId \<noteq> [] \<and> length keyId \<le> 64 \<and> list_all is_key_id_char keyId \<and> keyId \<noteq> ''primary''"

fun add_keys :: "json_object \<Rightarrow> (string \<rightharpoonup> string) \<Rightarrow> error + (string \<rightharpoonup> string)" where
  "add_keys [] keys = Inr keys"
| "add_keys ((keyId, v) # es) keys =
     (if \<not> key_id_ok keyId
      then Inl (GenericError ''JWT key IDs must be non-primary alphanumeric, underscore, or hyphen identifiers'')
      else case v of
          JStr secret \<Rightarrow>
            if length secret < 32
            then Inl (GenericError (''JWT verification key '' @ keyId @ '' must be at least 32 characters''))
            else add_keys es (keys(keyId \<mapsto> secret))
        | _ \<Rightarrow> Inl (GenericError (''JWT verification key '' @ keyId @ '' must be at least 32 characters'')))"

definition ring_keys :: "(string \<Rightarrow> json option) \<Rightarrow> string \<Rightarrow> string option \<Rightarrow> error + (string \<rightharpoonup> string)" where
  "ring_keys parse primarySecret keyRingJson =
     (let keys = [''primary'' \<mapsto> primarySecret] in
      case keyRingJson of
        None \<Rightarrow> Inr keys
      | Some text \<Rightarrow>
          if text = [] then Inr keys
          else case parse text of
              Some (JObj es) \<Rightarrow> add_keys (own_key_order es) keys
            | _ \<Rightarrow> Inl (GenericError ''JWT_KEY_RING_JSON must be a JSON object of key IDs to secrets''))"

definition createJwtKeyring ::
    "(string \<Rightarrow> json option) \<Rightarrow> string \<Rightarrow> string \<Rightarrow> string option \<Rightarrow> error + jwt_keyring" where
  "createJwtKeyring parse primarySecret activeKeyId keyRingJson =
     (case ring_keys parse primarySecret keyRingJson of
        Inl e \<Rightarrow> Inl e
      | Inr keys \<Rightarrow>
          if keys activeKeyId = None
          then Inl (GenericError (''JWT_ACTIVE_KEY_ID '' @ activeKeyId @ '' has no configured signing key''))
          else Inr \<lparr>kr_activeKeyId = activeKeyId, kr_keys = keys\<rparr>)"

section \<open>Choosing the verification key\<close>

text \<open>The \<open>kid\<close> of a token's header, read from a value that may carry no header.\<close>

definition header_kid :: "json \<Rightarrow> json option" where
  "header_kid tokenOrHeader =
     (case tokenOrHeader of
        JObj es \<Rightarrow> (case get_field ''header'' es of Some (JObj h) \<Rightarrow> get_field ''kid'' h | _ \<Rightarrow> None)
      | _ \<Rightarrow> None)"

definition resolveJwtVerificationKey :: "jwt_keyring \<Rightarrow> json \<Rightarrow> error + string" where
  "resolveJwtVerificationKey keyring tokenOrHeader =
     (case header_kid tokenOrHeader of
        None \<Rightarrow> Inr (the (kr_keys keyring ''primary''))
      | Some (JStr kid) \<Rightarrow>
          (case kr_keys keyring kid of
             None \<Rightarrow> Inl (GenericError ''JWT kid is not trusted'')
           | Some key \<Rightarrow> if key = [] then Inl (GenericError ''JWT kid is not trusted'') else Inr key)
      | Some _ \<Rightarrow> Inl (GenericError ''JWT kid is invalid''))"

section \<open>Keys\<close>

lemma add_keys_step:
  assumes "add_keys ((k, v) # es) keys = Inr keys'"
  obtains secret where "v = JStr secret" and "key_id_ok k" and "32 \<le> length secret"
    and "add_keys es (keys(k \<mapsto> secret)) = Inr keys'"
  using assms by (auto split: if_splits json.splits)

lemma add_keys_primary: "add_keys es keys = Inr keys' \<Longrightarrow> keys' ''primary'' = keys ''primary''"
proof (induction es arbitrary: keys)
  case (Cons e es)
  obtain k v where e: "e = (k, v)" by fastforce
  from Cons.prems [unfolded e] show ?case
    by (rule add_keys_step) (auto simp: key_id_ok_def dest: Cons.IH)
qed simp

lemma add_keys_source:
  "add_keys es keys = Inr keys' \<Longrightarrow> keys' k = Some s \<Longrightarrow> keys k = Some s \<or> (key_id_ok k \<and> 32 \<le> length s \<and> (k, JStr s) \<in> set es)"
proof (induction es arbitrary: keys)
  case (Cons e es)
  obtain k' v where e: "e = (k', v)" by fastforce
  from Cons.prems(1) [unfolded e] show ?case
  proof (rule add_keys_step)
    fix secret assume v: "v = JStr secret" "key_id_ok k'" "32 \<le> length secret" "add_keys es (keys(k' \<mapsto> secret)) = Inr keys'"
    from Cons.IH [OF v(4) Cons.prems(2)] v show ?thesis by (auto simp: e split: if_splits)
  qed
qed simp

lemma set_own_key_order [simp]: "set (own_key_order es) = set es"
  by (auto simp: own_key_order_def)

lemma createJwtKeyring_keys:
  assumes "createJwtKeyring parse primarySecret activeKeyId keyRingJson = Inr keyring"
  shows "kr_activeKeyId keyring = activeKeyId" and "kr_keys keyring activeKeyId \<noteq> None"
    and "kr_keys keyring ''primary'' = Some primarySecret"
    and "kr_keys keyring k = Some s \<Longrightarrow> k \<noteq> ''primary'' \<Longrightarrow> key_id_ok k \<and> 32 \<le> length s
      \<and> (\<exists>text es. keyRingJson = Some text \<and> parse text = Some (JObj es) \<and> (k, JStr s) \<in> set es)"
  using assms
  by (auto simp: createJwtKeyring_def ring_keys_def Let_def split: sum.splits option.splits json.splits if_splits
      dest: add_keys_primary add_keys_source)

text \<open>Which keys are trusted. In every keyring that can be built, the active key that signs new
  tokens is the key their \<open>kid\<close> is verified with; a token without a \<open>kid\<close> is verified with the primary
  secret, which the key ring cannot replace; and a token whose \<open>kid\<close> names any other key is verified
  with a secret of at least 32 characters that the ring lists under that name, or not at all.\<close>

theorem keyring_trust:
  assumes "createJwtKeyring parse primarySecret activeKeyId keyRingJson = Inr keyring" and "primarySecret \<noteq> []"
  shows "kr_keys keyring activeKeyId \<noteq> None
     \<and> resolveJwtVerificationKey keyring (JObj [(''header'', JObj [(''kid'', JStr activeKeyId)])])
         = Inr (the (kr_keys keyring activeKeyId))
     \<and> (header_kid t = None \<longrightarrow> resolveJwtVerificationKey keyring t = Inr primarySecret)
     \<and> (header_kid t = Some kid \<longrightarrow> resolveJwtVerificationKey keyring t = Inr key \<longrightarrow>
          kid = JStr ''primary'' \<and> key = primarySecret
          \<or> (\<exists>k text es. kid = JStr k \<and> key_id_ok k \<and> 32 \<le> length key \<and> keyRingJson = Some text
               \<and> parse text = Some (JObj es) \<and> (k, JStr key) \<in> set es))"
proof -
  note ks = createJwtKeyring_keys [OF assms(1)]
  have long: "s \<noteq> []" if "kr_keys keyring k = Some s" for k s
    using ks(3) ks(4) [OF that] that assms(2) by (cases "k = ''primary''") auto
  have active: "resolveJwtVerificationKey keyring (JObj [(''header'', JObj [(''kid'', JStr activeKeyId)])])
      = Inr (the (kr_keys keyring activeKeyId))"
    using ks(2) by (auto simp: resolveJwtVerificationKey_def header_kid_def get_field_def dest: long)
  have other: "kid = JStr ''primary'' \<and> key = primarySecret
      \<or> (\<exists>k text es. kid = JStr k \<and> key_id_ok k \<and> 32 \<le> length key \<and> keyRingJson = Some text
           \<and> parse text = Some (JObj es) \<and> (k, JStr key) \<in> set es)"
    if "header_kid t = Some kid" and "resolveJwtVerificationKey keyring t = Inr key"
  proof -
    from that obtain k where k: "kid = JStr k" "kr_keys keyring k = Some key"
      by (auto simp: resolveJwtVerificationKey_def split: json.splits option.splits if_splits)
    then show ?thesis using ks(3) ks(4) [OF k(2)] by (cases "k = ''primary''") auto
  qed
  show ?thesis using ks(2,3) active other by (auto simp: resolveJwtVerificationKey_def)
qed

definition sample_secret :: string where
  "sample_secret = replicate 32 (CHR ''s'')"

definition sample_parse :: "string \<Rightarrow> json option" where
  "sample_parse text = (if text = ''ring'' then Some (JObj [(''k1'', JStr sample_secret)]) else None)"

theorem keyring_trust_witness:
  "\<exists>keyring. createJwtKeyring sample_parse ''main'' ''k1'' (Some ''ring'') = Inr keyring
     \<and> resolveJwtVerificationKey keyring (JObj [(''header'', JObj [(''kid'', JStr ''k1'')])]) = Inr sample_secret
     \<and> resolveJwtVerificationKey keyring JNull = Inr ''main''"
proof -
  let ?ring = "[''primary'' \<mapsto> ''main'', ''k1'' \<mapsto> sample_secret]"
  have "key_id_ok ''k1''" by code_simp
  moreover have "own_key_order [(''k1'', JStr sample_secret)] = [(''k1'', JStr sample_secret)]" by code_simp
  ultimately have run: "createJwtKeyring sample_parse ''main'' ''k1'' (Some ''ring'') = Inr \<lparr>kr_activeKeyId = ''k1'', kr_keys = ?ring\<rparr>"
    by (simp add: createJwtKeyring_def ring_keys_def sample_parse_def sample_secret_def)
  show ?thesis
    using keyring_trust [OF run, of JNull JNull "[]"] run by (auto simp: header_kid_def)
qed

end
