(* ===== verification/Auth_Sessions.thy ===== *)
theory Auth_Sessions
  imports Outbox Jwt_Keyring
begin

text \<open>
  Server-backed sessions and step-up grants: \<^verbatim>\<open>src/platform/auth-sessions.ts\<close> (creation, refresh-token
  rotation with reuse detection, revocation, validation, listing) and \<^verbatim>\<open>src/platform/auth-step-up.ts\<close>,
  over the tables of the migrations 003, 008, 050 and 051. Random tokens, the token signer and the reader
  of JSON text are fields of the settings record.
\<close>

section \<open>Settings and tables\<close>

text \<open>The settings of \<^verbatim>\<open>src/config/env.ts\<close> that the authentication code reads, and what it takes from
  libraries: \<open>ae_random n k\<close> is the \<open>n\<close>-th random draw of \<open>k\<close> bytes, as text, and \<open>ae_sign\<close> the signer.\<close>

record auth_claims =
  cl_userId :: string
  cl_role :: string
  cl_businessId :: "string option"
  cl_sid :: uuid

record auth_env =
  JWT_SECRET :: string
  JWT_ACTIVE_KEY_ID :: string
  JWT_KEY_RING_JSON :: "string option"
  AUTHORITY_IS_POSTGRES :: bool
  AUTH_REFRESH_TOKEN_TTL_DAYS :: int
  AUTH_ACCESS_TOKEN_TTL_SECONDS :: int
  AUTH_STEP_UP_TTL_SECONDS :: int
  MFA_TOTP_ENABLED :: bool
  ae_random :: "nat \<Rightarrow> nat \<Rightarrow> string"
  ae_parse :: "string \<Rightarrow> json option"
  ae_sign :: "auth_claims \<Rightarrow> string \<Rightarrow> string \<Rightarrow> string \<Rightarrow> string"

record session_subject =
  su_userId :: string
  su_role :: string
  su_businessId :: "string option"

record session_metadata =
  sm_ip :: "string option"
  sm_userAgent :: "string option"

record session_row =
  ss_id :: uuid
  ss_token_family_id :: uuid
  ss_subject_id :: string
  ss_identity_id :: "uuid option"
  ss_role :: string
  ss_business_id :: "string option"
  ss_refresh_token_hash :: string
  ss_created_at :: int
  ss_last_seen_at :: int
  ss_expires_at :: int
  ss_revoked_at :: "int option"
  ss_revoked_reason :: "string option"
  ss_replaced_by_session_id :: "uuid option"
  ss_ip_hash :: "string option"
  ss_user_agent_hash :: "string option"

record step_up_grant =
  sg_session_id :: uuid
  sg_identity_id :: uuid
  sg_granted_at :: int
  sg_expires_at :: int

record auth_db = outbox_db +
  auth_sessions :: "session_row list"
  auth_step_up_grants :: "step_up_grant list"

record issued_session =
  is_accessToken :: string
  is_accessTokenExpiresAt :: int
  is_refreshToken :: string
  is_sessionId :: uuid
  is_expiresAt :: int

section \<open>Tokens\<close>

definition tokenHash :: "runtime \<Rightarrow> auth_env \<Rightarrow> string \<Rightarrow> string" where
  "tokenHash rt ae token = rt_hmac256 rt (JWT_SECRET ae) token"

definition fingerprint :: "runtime \<Rightarrow> auth_env \<Rightarrow> string option \<Rightarrow> string option" where
  "fingerprint rt ae v =
     (case v of None \<Rightarrow> None | Some t \<Rightarrow> if t = [] then None else Some (rt_hmac256 rt (JWT_SECRET ae) t))"

definition newRefreshToken :: "auth_env \<Rightarrow> 'z audit_db_scheme \<Rightarrow> string \<times> 'z audit_db_scheme" where
  "newRefreshToken ae s = (ae_random ae (uuids_drawn s) 48, s\<lparr>uuids_drawn := Suc (uuids_drawn s)\<rparr>)"

definition refreshExpiry :: "auth_env \<Rightarrow> int \<Rightarrow> int" where
  "refreshExpiry ae now = now + AUTH_REFRESH_TOKEN_TTL_DAYS ae * 24 * 60 * 60 * 1000"

definition accessTokenExpiry :: "auth_env \<Rightarrow> int \<Rightarrow> int" where
  "accessTokenExpiry ae now = now + AUTH_ACCESS_TOKEN_TTL_SECONDS ae * 1000"

definition issueAccessToken :: "auth_env \<Rightarrow> session_subject \<Rightarrow> uuid \<Rightarrow> error + string" where
  "issueAccessToken ae subject sessionId =
     (case createJwtKeyring (ae_parse ae) (JWT_SECRET ae) (JWT_ACTIVE_KEY_ID ae) (JWT_KEY_RING_JSON ae) of
        Inl e \<Rightarrow> Inl e
      | Inr keyring \<Rightarrow>
          (case kr_keys keyring (kr_activeKeyId keyring) of
             None \<Rightarrow> Inl (GenericError ''Active JWT signing key is unavailable'')
           | Some signingKey \<Rightarrow>
               if signingKey = [] then Inl (GenericError ''Active JWT signing key is unavailable'')
               else Inr (ae_sign ae \<lparr>cl_userId = su_userId subject, cl_role = su_role subject,
                      cl_businessId = su_businessId subject, cl_sid = sessionId\<rparr>
                      (show_int (AUTH_ACCESS_TOKEN_TTL_SECONDS ae) @ ''s'') signingKey (kr_activeKeyId keyring))))"

section \<open>Sessions\<close>

definition session_identity :: "auth_env \<Rightarrow> string \<Rightarrow> 'z auth_db_scheme \<Rightarrow> uuid option" where
  "session_identity ae userId s =
     map_option idn_id (first_row (\<lambda>r. (if AUTHORITY_IS_POSTGRES ae then idn_id r = userId
        else idn_legacy_mongo_id r = Some userId) \<and> idn_active r) (identities s))"

definition session_row_of ::
    "runtime \<Rightarrow> auth_env \<Rightarrow> session_subject \<Rightarrow> uuid \<Rightarrow> string \<Rightarrow> session_metadata \<Rightarrow> uuid \<Rightarrow> uuid option \<Rightarrow> int \<Rightarrow> session_row" where
  "session_row_of rt ae subject tokenFamilyId refreshToken metadata i identity now =
     \<lparr>ss_id = i, ss_token_family_id = tokenFamilyId, ss_subject_id = su_userId subject, ss_identity_id = identity,
      ss_role = su_role subject, ss_business_id = su_businessId subject,
      ss_refresh_token_hash = tokenHash rt ae refreshToken, ss_created_at = now, ss_last_seen_at = now,
      ss_expires_at = refreshExpiry ae now, ss_revoked_at = None, ss_revoked_reason = None,
      ss_replaced_by_session_id = None, ss_ip_hash = fingerprint rt ae (sm_ip metadata),
      ss_user_agent_hash = fingerprint rt ae (sm_userAgent metadata)\<rparr>"

definition insertSession ::
    "runtime \<Rightarrow> auth_env \<Rightarrow> session_subject \<Rightarrow> uuid \<Rightarrow> string \<Rightarrow> session_metadata \<Rightarrow> ('z auth_db_scheme, uuid \<times> int) tx" where
  "insertSession rt ae subject tokenFamilyId refreshToken metadata =
     bnd (randomUUID rt) (\<lambda>i.
     bnd (query clock) (\<lambda>now.
     bnd (query (session_identity ae (su_userId subject))) (\<lambda>identity.
     andThen (require (\<not> (AUTHORITY_IS_POSTGRES ae \<and> identity = None))
                (AuthSessionError ''PostgreSQL identity is not available for this session''))
     (bnd (query (\<lambda>s. exists_row (\<lambda>r. ss_id r = i \<or> ss_refresh_token_hash r = tokenHash rt ae refreshToken)
                   (auth_sessions s))) (\<lambda>taken.
      andThen (require (\<not> taken) (UniqueViolation ''auth_sessions_key''))
      (andThen (modify (\<lambda>s. s\<lparr>auth_sessions := auth_sessions s
         @ [session_row_of rt ae subject tokenFamilyId refreshToken metadata i identity now]\<rparr>))
      (ret (i, refreshExpiry ae now))))))))"

text \<open>The clauses of \<open>resolve_outbox_privacy_subjects\<close> (migration 138) for identities and sessions.\<close>

definition resolve_auth_privacy_subjects :: "'z auth_db_scheme \<Rightarrow> string \<Rightarrow> string \<Rightarrow> uuid list" where
  "resolve_auth_privacy_subjects s aggregateType aggregateId =
     (if \<not> uuidPattern aggregateId then []
      else let key = toLowerCase aggregateId in
        sort_by str_le (unique_values
          (if aggregateType = ''identity'' then map idn_id (filter (\<lambda>r. idn_id r = key) (identities s))
           else if aggregateType = ''auth_session''
           then List.map_filter ss_identity_id (filter (\<lambda>r. ss_id r = key) (auth_sessions s))
           else [])))"

definition recordSessionEvent ::
    "runtime \<Rightarrow> string \<Rightarrow> uuid \<Rightarrow> string \<Rightarrow> string \<Rightarrow> json_object \<Rightarrow> ('z auth_db_scheme, unit) tx" where
  "recordSessionEvent rt subjectId sessionId action actorType payload =
     bnd (appendPostgresAuditEvent rt \<lparr>ai_scopeKey = ''auth-subject:'' @ subjectId, ai_organizationId = None,
        ai_actorId = None, ai_actorType = actorType, ai_action = action, ai_entityType = ''auth_session'',
        ai_entityId = sessionId, ai_reason = None, ai_payload = JObj payload, ai_occurredAt = None\<rparr>) (\<lambda>audit.
     bnd (query (\<lambda>s. first_row (\<lambda>r. ss_id r = sessionId) (auth_sessions s))) (\<lambda>session.
     andThen (appendOutboxEvent rt resolve_auth_privacy_subjects
        \<lparr>oi_aggregateType = ''auth_session'', oi_aggregateId = sessionId, oi_eventType = action,
         oi_payload = [(''subjectId'', JStr subjectId), (''auditEventId'', JStr (aud_id audit))],
         oi_privacy = Some (case Option.bind session ss_identity_id of
            Some identityId \<Rightarrow> AuditEventPrivacy [identityId] | None \<Rightarrow> TechnicalNoSubject),
         oi_occurredAt = None\<rparr>) (ret ())))"

definition create_session_tx ::
    "runtime \<Rightarrow> auth_env \<Rightarrow> session_subject \<Rightarrow> uuid \<Rightarrow> string \<Rightarrow> session_metadata \<Rightarrow> ('z auth_db_scheme, uuid \<times> int) tx" where
  "create_session_tx rt ae subject tokenFamilyId refreshToken metadata =
     bnd (insertSession rt ae subject tokenFamilyId refreshToken metadata) (\<lambda>created.
     andThen (recordSessionEvent rt (su_userId subject) (fst created) ''auth.session.created'' ''user''
        [(''role'', JStr (su_role subject)), (''businessId'', json_opt (su_businessId subject))])
     (ret created))"

text \<open>The answer to the caller; the access token is signed after the commit.\<close>

definition issued ::
    "auth_env \<Rightarrow> session_subject \<Rightarrow> string \<Rightarrow> uuid \<times> int \<Rightarrow> 'z audit_db_scheme \<Rightarrow> (error + issued_session) \<times> 'z audit_db_scheme" where
  "issued ae subject refreshToken session s =
     (case issueAccessToken ae subject (fst session) of
        Inl e \<Rightarrow> (Inl e, s)
      | Inr token \<Rightarrow> (Inr \<lparr>is_accessToken = token, is_accessTokenExpiresAt = accessTokenExpiry ae (clock s),
           is_refreshToken = refreshToken, is_sessionId = fst session, is_expiresAt = snd session\<rparr>, s))"

definition createAuthSession ::
    "runtime \<Rightarrow> auth_env \<Rightarrow> session_subject \<Rightarrow> session_metadata \<Rightarrow> 'z auth_db_scheme \<Rightarrow> (error + issued_session) \<times> 'z auth_db_scheme" where
  "createAuthSession rt ae subject metadata s =
     (let (refreshToken, s0) = newRefreshToken ae s;
          tokenFamilyId = rt_uuid rt (uuids_drawn s0);
          s1 = s0\<lparr>uuids_drawn := Suc (uuids_drawn s0)\<rparr>
      in case withPostgresTransaction no_deferred (create_session_tx rt ae subject tokenFamilyId refreshToken metadata) s1 of
           (Inl e, s') \<Rightarrow> (Inl e, s')
         | (Inr session, s') \<Rightarrow> issued ae subject refreshToken session s')"

section \<open>Rotation\<close>

datatype rotation = Replacement session_subject "uuid \<times> int" | Invalidated bool

text \<open>\<open>COALESCE\<close> and \<open>CASE\<close> of the reuse statement.\<close>

definition mark_reuse :: "int \<Rightarrow> session_row \<Rightarrow> session_row" where
  "mark_reuse now r =
     r\<lparr>ss_revoked_at := (case ss_revoked_at r of None \<Rightarrow> Some now | Some t \<Rightarrow> Some t),
       ss_revoked_reason := (if ss_revoked_reason r = Some ''rotated'' then Some ''refresh_reuse_detected''
          else case ss_revoked_reason r of None \<Rightarrow> Some ''refresh_reuse_detected'' | Some x \<Rightarrow> Some x)\<rparr>"

definition mark_rotated :: "uuid \<Rightarrow> int \<Rightarrow> session_row \<Rightarrow> session_row" where
  "mark_rotated replacementId now r =
     r\<lparr>ss_revoked_at := Some now, ss_revoked_reason := Some ''rotated'', ss_replaced_by_session_id := Some replacementId\<rparr>"

definition reuse_detected :: "runtime \<Rightarrow> session_row \<Rightarrow> ('z auth_db_scheme, rotation) tx" where
  "reuse_detected rt current =
     andThen (modify (\<lambda>s. s\<lparr>auth_sessions :=
        update_where (\<lambda>r. ss_token_family_id r = ss_token_family_id current) (mark_reuse (clock s)) (auth_sessions s)\<rparr>))
     (andThen (recordSessionEvent rt (ss_subject_id current) (ss_id current) ''auth.session.refresh_reuse_detected'' ''user''
        [(''tokenFamilyId'', JStr (ss_token_family_id current))])
     (ret (Invalidated True)))"

definition replace_session ::
    "runtime \<Rightarrow> auth_env \<Rightarrow> session_row \<Rightarrow> string \<Rightarrow> session_metadata \<Rightarrow> ('z auth_db_scheme, rotation) tx" where
  "replace_session rt ae current nextRefreshToken metadata =
     (case (if AUTHORITY_IS_POSTGRES ae then ss_identity_id current else Some (ss_subject_id current)) of
        None \<Rightarrow> throw (AuthSessionError ''Refresh session is not mapped to the PostgreSQL identity authority'')
      | Some subjectId \<Rightarrow>
          if subjectId = []
          then throw (AuthSessionError ''Refresh session is not mapped to the PostgreSQL identity authority'')
          else let subject = \<lparr>su_userId = subjectId, su_role = ss_role current, su_businessId = ss_business_id current\<rparr> in
          bnd (insertSession rt ae subject (ss_token_family_id current) nextRefreshToken metadata) (\<lambda>replacement.
          andThen (modify (\<lambda>s. s\<lparr>auth_sessions :=
             update_where (\<lambda>r. ss_id r = ss_id current) (mark_rotated (fst replacement) (clock s)) (auth_sessions s)\<rparr>))
          (andThen (recordSessionEvent rt subjectId (fst replacement) ''auth.session.rotated'' ''user''
             [(''replacedSessionId'', JStr (ss_id current))])
          (ret (Replacement subject replacement)))))"

definition rotate_session_tx ::
    "runtime \<Rightarrow> auth_env \<Rightarrow> string \<Rightarrow> string \<Rightarrow> session_metadata \<Rightarrow> ('z auth_db_scheme, rotation) tx" where
  "rotate_session_tx rt ae refreshToken nextRefreshToken metadata =
     bnd (query (\<lambda>s. first_row (\<lambda>r. ss_refresh_token_hash r = tokenHash rt ae refreshToken) (auth_sessions s))) (\<lambda>found.
     bnd (query clock) (\<lambda>now.
     case found of
       None \<Rightarrow> throw (AuthSessionError ''Refresh session is invalid or expired'')
     | Some current \<Rightarrow>
         if ss_expires_at current \<le> now then throw (AuthSessionError ''Refresh session is invalid or expired'')
         else if ss_revoked_at current \<noteq> None
         then (if ss_revoked_reason current = Some ''rotated'' then reuse_detected rt current else ret (Invalidated False))
         else replace_session rt ae current nextRefreshToken metadata))"

definition rotateAuthSession ::
    "runtime \<Rightarrow> auth_env \<Rightarrow> string \<Rightarrow> session_metadata \<Rightarrow> 'z auth_db_scheme \<Rightarrow> (error + issued_session) \<times> 'z auth_db_scheme" where
  "rotateAuthSession rt ae refreshToken metadata s =
     (let (nextRefreshToken, s0) = newRefreshToken ae s in
      case withPostgresTransaction no_deferred (rotate_session_tx rt ae refreshToken nextRefreshToken metadata) s0 of
        (Inl e, s') \<Rightarrow> (Inl e, s')
      | (Inr (Invalidated True), s') \<Rightarrow>
          (Inl (AuthSessionError ''Refresh-token reuse detected; all related sessions were revoked''), s')
      | (Inr (Invalidated False), s') \<Rightarrow> (Inl (AuthSessionError ''Refresh session is no longer valid''), s')
      | (Inr (Replacement subject replacement), s') \<Rightarrow> issued ae subject nextRefreshToken replacement s')"

section \<open>Revocation\<close>

definition mark_revoked :: "string \<Rightarrow> int \<Rightarrow> session_row \<Rightarrow> session_row" where
  "mark_revoked reason now r = r\<lparr>ss_revoked_at := Some now, ss_revoked_reason := Some reason\<rparr>"

definition mark_revoked_once :: "string \<Rightarrow> int \<Rightarrow> session_row \<Rightarrow> session_row" where
  "mark_revoked_once reason now r =
     r\<lparr>ss_revoked_at := (case ss_revoked_at r of None \<Rightarrow> Some now | Some t \<Rightarrow> Some t),
       ss_revoked_reason := (case ss_revoked_reason r of None \<Rightarrow> Some reason | Some x \<Rightarrow> Some x)\<rparr>"

definition revoke_one :: "runtime \<Rightarrow> uuid \<Rightarrow> string \<Rightarrow> string \<Rightarrow> ('z auth_db_scheme, bool) tx" where
  "revoke_one rt sessionId subjectId reason =
     (let live = (\<lambda>r. ss_id r = sessionId \<and> ss_subject_id r = subjectId \<and> ss_revoked_at r = None) in
      bnd (query (\<lambda>s. count_rows live (auth_sessions s))) (\<lambda>rowCount.
      andThen (modify (\<lambda>s. s\<lparr>auth_sessions := update_where live (mark_revoked_once reason (clock s)) (auth_sessions s)\<rparr>))
      (if rowCount = 1
       then andThen (recordSessionEvent rt subjectId sessionId ''auth.session.revoked'' ''user'' [(''reason'', JStr reason)])
              (ret True)
       else ret False)))"

definition revokeAuthSession ::
    "runtime \<Rightarrow> uuid \<Rightarrow> string \<Rightarrow> string \<Rightarrow> 'z auth_db_scheme \<Rightarrow> (error + unit) \<times> 'z auth_db_scheme" where
  "revokeAuthSession rt sessionId subjectId reason =
     withPostgresTransaction no_deferred (andThen (revoke_one rt sessionId subjectId reason) (ret ()))"

definition revokeAuthSessionForSubject ::
    "runtime \<Rightarrow> uuid \<Rightarrow> string \<Rightarrow> string \<Rightarrow> 'z auth_db_scheme \<Rightarrow> (error + bool) \<times> 'z auth_db_scheme" where
  "revokeAuthSessionForSubject rt sessionId subjectId reason =
     withPostgresTransaction no_deferred (revoke_one rt sessionId subjectId reason)"

definition revokeAllAuthSessionsForSubjectInTransaction ::
    "runtime \<Rightarrow> string \<Rightarrow> string \<Rightarrow> ('z auth_db_scheme, nat) tx" where
  "revokeAllAuthSessionsForSubjectInTransaction rt subjectId reason =
     (let live = (\<lambda>r. ss_subject_id r = subjectId \<and> ss_revoked_at r = None) in
      bnd (query (\<lambda>s. filter live (auth_sessions s))) (\<lambda>rows.
      andThen (modify (\<lambda>s. s\<lparr>auth_sessions := update_where live (mark_revoked reason (clock s)) (auth_sessions s)\<rparr>))
      (andThen (for_each rows (\<lambda>session. recordSessionEvent rt subjectId (ss_id session) ''auth.session.revoked'' ''user''
         [(''reason'', JStr reason)]))
      (ret (length rows)))))"

definition revokeAllAuthSessionsForIdentityInTransaction ::
    "runtime \<Rightarrow> uuid \<Rightarrow> string \<Rightarrow> ('z auth_db_scheme, nat) tx" where
  "revokeAllAuthSessionsForIdentityInTransaction rt identityId reason =
     (let live = (\<lambda>r. (ss_identity_id r = Some identityId \<or> ss_subject_id r = identityId) \<and> ss_revoked_at r = None) in
      bnd (query (\<lambda>s. filter live (auth_sessions s))) (\<lambda>rows.
      andThen (modify (\<lambda>s. s\<lparr>auth_sessions := update_where live (mark_revoked reason (clock s)) (auth_sessions s)\<rparr>))
      (andThen (for_each rows (\<lambda>session. recordSessionEvent rt (ss_subject_id session) (ss_id session)
         ''auth.session.revoked'' ''operator''
         [(''reason'', JStr reason), (''recoveredIdentityId'', JStr identityId)]))
      (ret (length rows)))))"

definition revokeAllAuthSessionsForSubject ::
    "runtime \<Rightarrow> string \<Rightarrow> string \<Rightarrow> 'z auth_db_scheme \<Rightarrow> (error + nat) \<times> 'z auth_db_scheme" where
  "revokeAllAuthSessionsForSubject rt subjectId reason =
     withPostgresTransaction no_deferred (revokeAllAuthSessionsForSubjectInTransaction rt subjectId reason)"

section \<open>Validation and listing\<close>

definition session_live :: "int \<Rightarrow> session_row \<Rightarrow> bool" where
  "session_live now r \<longleftrightarrow> ss_revoked_at r = None \<and> now < ss_expires_at r"

definition validateAuthSession :: "uuid \<Rightarrow> string \<Rightarrow> 'z auth_db_scheme \<Rightarrow> (error + unit) \<times> 'z auth_db_scheme" where
  "validateAuthSession sessionId subjectId s =
     (if count_rows (\<lambda>r. ss_id r = sessionId \<and> ss_subject_id r = subjectId \<and> session_live (clock s) r) (auth_sessions s) \<noteq> 1
      then (Inl (AuthSessionError ''Session is no longer active''), s)
      else (Inr (), s\<lparr>auth_sessions := update_where (\<lambda>r. ss_id r = sessionId)
              (\<lambda>r. r\<lparr>ss_last_seen_at := clock s\<rparr>) (auth_sessions s)\<rparr>))"

record session_summary =
  sy_id :: uuid
  sy_createdAt :: int
  sy_lastSeenAt :: int
  sy_expiresAt :: int
  sy_current :: bool

definition listAuthSessions :: "string \<Rightarrow> uuid option \<Rightarrow> 'z auth_db_scheme \<Rightarrow> session_summary list" where
  "listAuthSessions subjectId currentSessionId s =
     map (\<lambda>r. \<lparr>sy_id = ss_id r, sy_createdAt = ss_created_at r, sy_lastSeenAt = ss_last_seen_at r,
               sy_expiresAt = ss_expires_at r, sy_current = (Some (ss_id r) = currentSessionId)\<rparr>)
       (sort_by (\<lambda>a b. ss_last_seen_at b \<le> ss_last_seen_at a)
         (filter (\<lambda>r. ss_subject_id r = subjectId \<and> session_live (clock s) r) (auth_sessions s)))"

section \<open>Step-up grants\<close>

definition grantTotpStepUp ::
    "runtime \<Rightarrow> auth_env \<Rightarrow> uuid \<Rightarrow> uuid \<Rightarrow> 'z auth_db_scheme \<Rightarrow> (error + int) \<times> 'z auth_db_scheme" where
  "grantTotpStepUp rt ae sessionId identityId s =
     (let expiresAt = clock s + AUTH_STEP_UP_TTL_SECONDS ae * 1000;
          grant = \<lparr>sg_session_id = sessionId, sg_identity_id = identityId, sg_granted_at = clock s, sg_expires_at = expiresAt\<rparr>
      in withPostgresTransaction no_deferred
        (bnd (query (\<lambda>s. exists_row (\<lambda>r. ss_id r = sessionId \<and> ss_identity_id r = Some identityId
               \<and> session_live (clock s) r) (auth_sessions s))) (\<lambda>active.
         andThen (require active (StepUpRequiredError ''The current session is not eligible for step-up authentication.''))
         (andThen (require (sg_granted_at grant < sg_expires_at grant) (CheckViolation ''auth_step_up_grants_check''))
         (andThen (modify (\<lambda>s. s\<lparr>auth_step_up_grants :=
            (if exists_row (\<lambda>g. sg_session_id g = sessionId) (auth_step_up_grants s)
             then update_where (\<lambda>g. sg_session_id g = sessionId) (\<lambda>_. grant) (auth_step_up_grants s)
             else auth_step_up_grants s @ [grant])\<rparr>))
         (andThen (appendPostgresAuditEvent rt \<lparr>ai_scopeKey = ''identity:'' @ identityId, ai_organizationId = None,
            ai_actorId = Some identityId, ai_actorType = ''user'', ai_action = ''auth.step_up.granted'',
            ai_entityType = ''auth_step_up_grant'', ai_entityId = sessionId, ai_reason = None,
            ai_payload = JObj [(''method'', JStr ''totp''), (''expiresAt'', JStr (toISOString expiresAt))],
            ai_occurredAt = None\<rparr>)
         (ret expiresAt)))))) s)"

definition step_up_fresh :: "uuid \<Rightarrow> uuid \<Rightarrow> 'z auth_db_scheme \<Rightarrow> bool" where
  "step_up_fresh sessionId identityId s \<longleftrightarrow>
     exists_row (\<lambda>g. sg_session_id g = sessionId \<and> sg_identity_id g = identityId \<and> clock s < sg_expires_at g
       \<and> exists_row (\<lambda>r. ss_id r = sg_session_id g \<and> session_live (clock s) r) (auth_sessions s)) (auth_step_up_grants s)"

definition requireFreshTotpStepUp :: "auth_env \<Rightarrow> uuid option \<Rightarrow> uuid \<Rightarrow> 'z auth_db_scheme \<Rightarrow> error + unit" where
  "requireFreshTotpStepUp ae sessionId identityId s =
     (if \<not> MFA_TOTP_ENABLED ae then Inr ()
      else case sessionId of
          None \<Rightarrow> Inl (StepUpRequiredError ''A server-backed session is required for this action.'')
        | Some i \<Rightarrow>
            if i = [] then Inl (StepUpRequiredError ''A server-backed session is required for this action.'')
            else if step_up_fresh i identityId s then Inr ()
            else Inl (StepUpRequiredError
              ''Complete authenticator-app step-up verification before approving or executing this action.''))"

lemmas [tx_defs] = insertSession_def recordSessionEvent_def create_session_tx_def reuse_detected_def replace_session_def
  rotate_session_tx_def revoke_one_def revokeAllAuthSessionsForSubjectInTransaction_def
  revokeAllAuthSessionsForIdentityInTransaction_def

section \<open>Effects\<close>

text \<open>What recording events leaves alone.\<close>

definition quiet :: "'z auth_db_scheme \<Rightarrow> 'z auth_db_scheme \<Rightarrow> bool" where
  "quiet s s' \<longleftrightarrow> auth_sessions s' = auth_sessions s \<and> auth_step_up_grants s' = auth_step_up_grants s
     \<and> identities s' = identities s \<and> clock s' = clock s \<and> uuids_drawn s \<le> uuids_drawn s'"

lemma quiet_refl [simp]: "quiet s s"
  by (simp add: quiet_def)

lemma quiet_trans: "quiet s s1 \<Longrightarrow> quiet s1 s2 \<Longrightarrow> quiet s s2"
  by (auto simp: quiet_def)

lemma append_audit_quiet: "appendPostgresAuditEvent rt inp s = Inr (a, s') \<Longrightarrow> quiet s s'"
  by (elim append_audit_effect) (simp add: quiet_def)

lemma append_outbox_quiet: "appendOutboxEvent rt resolve inp s = Inr (i, s') \<Longrightarrow> quiet s s'"
  by (elim append_outbox_effect) (simp add: quiet_def)

lemma record_event_quiet: "recordSessionEvent rt subj sid action actor payload s = Inr (u, s') \<Longrightarrow> quiet s s'"
  unfolding recordSessionEvent_def
  by (auto simp: tx_Inr elim!: tx_elims dest!: append_audit_quiet append_outbox_quiet intro: quiet_trans)

lemma record_events_quiet:
  "for_each rows (\<lambda>r. recordSessionEvent rt (f r) (g r) action actor payload) s = Inr (u, s') \<Longrightarrow> quiet s s'"
proof (induction rows arbitrary: s)
  case (Cons r rows)
  then show ?case by (auto elim!: andThen_Inr dest!: record_event_quiet intro: quiet_trans)
qed (simp add: ret_Inr)

lemma session_row_of_sels [simp]:
  "ss_id (session_row_of rt ae subject family token metadata i identity now) = i"
  "ss_token_family_id (session_row_of rt ae subject family token metadata i identity now) = family"
  "ss_subject_id (session_row_of rt ae subject family token metadata i identity now) = su_userId subject"
  "ss_identity_id (session_row_of rt ae subject family token metadata i identity now) = identity"
  "ss_refresh_token_hash (session_row_of rt ae subject family token metadata i identity now) = tokenHash rt ae token"
  "ss_expires_at (session_row_of rt ae subject family token metadata i identity now) = refreshExpiry ae now"
  "ss_revoked_at (session_row_of rt ae subject family token metadata i identity now) = None"
  by (simp_all add: session_row_of_def)

text \<open>The session that an accepted insertion adds.\<close>

definition inserted_session ::
    "runtime \<Rightarrow> auth_env \<Rightarrow> session_subject \<Rightarrow> uuid \<Rightarrow> string \<Rightarrow> session_metadata \<Rightarrow> 'z auth_db_scheme \<Rightarrow> session_row" where
  "inserted_session rt ae subject family token metadata s =
     session_row_of rt ae subject family token metadata (rt_uuid rt (uuids_drawn s))
       (session_identity ae (su_userId subject) s) (clock s)"

lemma insertSession_Inr:
  "insertSession rt ae subject family token metadata s = Inr (out, s') \<longleftrightarrow>
     (let row = inserted_session rt ae subject family token metadata s in
      \<not> (AUTHORITY_IS_POSTGRES ae \<and> ss_identity_id row = None)
      \<and> (\<forall>r \<in> set (auth_sessions s). ss_id r \<noteq> ss_id row \<and> ss_refresh_token_hash r \<noteq> ss_refresh_token_hash row)
      \<and> out = (ss_id row, ss_expires_at row)
      \<and> s' = s\<lparr>uuids_drawn := Suc (uuids_drawn s), auth_sessions := auth_sessions s @ [row]\<rparr>)"
  unfolding insertSession_def inserted_session_def Let_def
  by (auto simp: tx_simps randomUUID_def session_identity_def)

section \<open>Histories of sessions\<close>

datatype session_command =
    CreateSession session_subject session_metadata
  | RotateSession string session_metadata
  | RevokeSession uuid string string
  | RevokeSubject string string
  | RevokeIdentity uuid string
  | ValidateSession uuid string
  | GrantStepUp uuid uuid
  | PassTime nat

fun run_session_command :: "runtime \<Rightarrow> auth_env \<Rightarrow> session_command \<Rightarrow> 'z auth_db_scheme \<Rightarrow> 'z auth_db_scheme" where
  "run_session_command rt ae (CreateSession subject metadata) s = snd (createAuthSession rt ae subject metadata s)"
| "run_session_command rt ae (RotateSession token metadata) s = snd (rotateAuthSession rt ae token metadata s)"
| "run_session_command rt ae (RevokeSession i subj reason) s = snd (revokeAuthSession rt i subj reason s)"
| "run_session_command rt ae (RevokeSubject subj reason) s = snd (revokeAllAuthSessionsForSubject rt subj reason s)"
| "run_session_command rt ae (RevokeIdentity i reason) s =
     snd (withPostgresTransaction no_deferred (revokeAllAuthSessionsForIdentityInTransaction rt i reason) s)"
| "run_session_command rt ae (ValidateSession i subj) s = snd (validateAuthSession i subj s)"
| "run_session_command rt ae (GrantStepUp i ident) s = snd (grantTotpStepUp rt ae i ident s)"
| "run_session_command rt ae (PassTime d) s = s\<lparr>clock := clock s + int d\<rparr>"

definition run_sessions :: "runtime \<Rightarrow> auth_env \<Rightarrow> session_command list \<Rightarrow> 'z auth_db_scheme \<Rightarrow> 'z auth_db_scheme" where
  "run_sessions rt ae cs s = fold (run_session_command rt ae) cs s"

text \<open>What any command does to a session that exists, and to the table.\<close>

definition kept :: "session_row \<Rightarrow> session_row \<Rightarrow> bool" where
  "kept r r' \<longleftrightarrow> ss_id r' = ss_id r \<and> ss_token_family_id r' = ss_token_family_id r \<and> ss_subject_id r' = ss_subject_id r
     \<and> ss_refresh_token_hash r' = ss_refresh_token_hash r \<and> ss_identity_id r' = ss_identity_id r
     \<and> ss_expires_at r' = ss_expires_at r \<and> (ss_revoked_at r \<noteq> None \<longrightarrow> ss_revoked_at r' = ss_revoked_at r)"

definition joins :: "runtime \<Rightarrow> 'z auth_db_scheme \<Rightarrow> 'z auth_db_scheme \<Rightarrow> session_row list \<Rightarrow> session_row \<Rightarrow> bool" where
  "joins rt s s' rows n \<longleftrightarrow> ss_revoked_at n = None
     \<and> (\<forall>r \<in> set (auth_sessions s). ss_id r \<noteq> ss_id n \<and> ss_refresh_token_hash r \<noteq> ss_refresh_token_hash n)
     \<and> ((\<exists>k. uuids_drawn s \<le> k \<and> k < uuids_drawn s' \<and> ss_token_family_id n = rt_uuid rt k)
        \<or> (\<exists>c \<in> set (auth_sessions s). ss_revoked_at c = None \<and> ss_token_family_id c = ss_token_family_id n
             \<and> (\<forall>r \<in> set rows. ss_id r = ss_id c \<longrightarrow> ss_revoked_at r \<noteq> None)))"

definition session_step :: "runtime \<Rightarrow> 'z auth_db_scheme \<Rightarrow> 'z auth_db_scheme \<Rightarrow> bool" where
  "session_step rt s s' \<longleftrightarrow> uuids_drawn s \<le> uuids_drawn s'
     \<and> (\<exists>rows new. auth_sessions s' = rows @ new \<and> list_all2 kept (auth_sessions s) rows
          \<and> (new = [] \<or> (\<exists>n. new = [n] \<and> joins rt s s' rows n)))"

lemma kept_refl [simp]: "kept r r"
  by (simp add: kept_def)

lemma session_step_update:
  assumes "\<And>r. kept r (f r)" and "auth_sessions s' = update_where p f (auth_sessions s)" and "uuids_drawn s \<le> uuids_drawn s'"
  shows "session_step rt s s'"
proof -
  have "list_all2 kept (auth_sessions s) (update_where p f (auth_sessions s))"
    using assms(1) by (intro update_where_pointwise) auto
  then show ?thesis using assms(2,3) unfolding session_step_def by auto
qed

lemma session_step_quiet: "quiet s s' \<Longrightarrow> session_step rt s s'"
  by (rule session_step_update [where p = "\<lambda>_. False" and f = id]) (auto simp: quiet_def update_where_none)

lemma joins_mono:
  assumes "joins rt s s' rows n" and "auth_sessions s0 = auth_sessions s" and "uuids_drawn s0 \<le> uuids_drawn s"
    and "uuids_drawn s' \<le> uuids_drawn s1"
  shows "joins rt s0 s1 rows n"
proof -
  have "\<exists>k. uuids_drawn s0 \<le> k \<and> k < uuids_drawn s1 \<and> ss_token_family_id n = rt_uuid rt k"
    if "\<exists>k. uuids_drawn s \<le> k \<and> k < uuids_drawn s' \<and> ss_token_family_id n = rt_uuid rt k"
    using that assms(3,4) by (meson order.trans order.strict_trans2)
  then show ?thesis using assms(1) unfolding joins_def assms(2) by blast
qed

lemma session_step_mono:
  assumes "session_step rt s s'" and "quiet s0 s" and "quiet s' s1"
  shows "session_step rt s0 s1"
proof -
  from assms(1) obtain rows new where 1: "auth_sessions s' = rows @ new" "list_all2 kept (auth_sessions s) rows"
    "new = [] \<or> (\<exists>n. new = [n] \<and> joins rt s s' rows n)" unfolding session_step_def by blast
  have q: "auth_sessions s0 = auth_sessions s" "uuids_drawn s0 \<le> uuids_drawn s" "auth_sessions s1 = auth_sessions s'"
    "uuids_drawn s' \<le> uuids_drawn s1" using assms(2,3) by (simp_all add: quiet_def)
  have "new = [] \<or> (\<exists>n. new = [n] \<and> joins rt s0 s1 rows n)" using 1(3) joins_mono q by metis
  moreover have "uuids_drawn s0 \<le> uuids_drawn s1" using q assms(1) by (auto simp: session_step_def)
  ultimately show ?thesis unfolding session_step_def using 1 q by metis
qed

lemma kept_marks [simp]:
  "kept r (mark_reuse now r)" "kept r (mark_revoked_once reason now r)"
  "ss_revoked_at r = None \<Longrightarrow> kept r (mark_revoked reason now r)"
  "ss_revoked_at r = None \<Longrightarrow> kept r (mark_rotated i now r)" "kept r (r\<lparr>ss_last_seen_at := now\<rparr>)"
  by (auto simp: kept_def mark_reuse_def mark_revoked_once_def mark_revoked_def mark_rotated_def split: option.splits)

lemma session_step_where:
  assumes "\<And>r. p r \<Longrightarrow> kept r (f r)" and "auth_sessions s' = update_where p f (auth_sessions s)" and "uuids_drawn s \<le> uuids_drawn s'"
  shows "session_step rt s s'"
proof -
  have "auth_sessions s' = update_where p (\<lambda>r. if p r then f r else r) (auth_sessions s)"
    using assms(2) by (simp add: update_where_def)
  then show ?thesis by (rule session_step_update [rotated]) (use assms in auto)
qed

lemma transaction_step:
  assumes "\<And>a s'. m s = Inr (a, s') \<Longrightarrow> session_step rt s s'"
  shows "session_step rt s (snd (withPostgresTransaction d m s))"
  using assms by (auto simp: withPostgresTransaction_def session_step_quiet split: sum.splits option.splits)

lemma draw_quiet [simp]: "quiet s (s\<lparr>uuids_drawn := Suc (uuids_drawn s)\<rparr>)"
  by (simp add: quiet_def)

lemma issued_snd [simp]: "snd (issued ae subject token session s) = s"
  by (simp add: issued_def split: sum.splits)

lemma create_step: "session_step rt s (snd (createAuthSession rt ae subject metadata s))"
proof -
  let ?token = "ae_random ae (uuids_drawn s) 48" and ?family = "rt_uuid rt (Suc (uuids_drawn s))"
  let ?s1 = "s\<lparr>uuids_drawn := Suc (Suc (uuids_drawn s))\<rparr>"
  let ?m = "create_session_tx rt ae subject ?family ?token metadata"
  have "snd (createAuthSession rt ae subject metadata s) = snd (withPostgresTransaction no_deferred ?m ?s1)"
    by (auto simp: createAuthSession_def newRefreshToken_def split: prod.splits sum.splits)
  moreover have "session_step rt s s'" if tx: "?m ?s1 = Inr (a, s')" for a s'
  proof -
    let ?n = "inserted_session rt ae subject ?family ?token metadata ?s1"
    let ?s2 = "?s1\<lparr>uuids_drawn := Suc (uuids_drawn ?s1), auth_sessions := auth_sessions ?s1 @ [?n]\<rparr>"
    from tx have new: "\<forall>r \<in> set (auth_sessions s). ss_id r \<noteq> ss_id ?n \<and> ss_refresh_token_hash r \<noteq> ss_refresh_token_hash ?n"
      and q: "quiet ?s2 s'"
      unfolding create_session_tx_def
      by (auto simp: tx_Inr insertSession_Inr Let_def elim!: tx_elims dest!: record_event_quiet)
    have "joins rt s ?s2 (auth_sessions s) ?n"
      unfolding joins_def using new by (auto simp: inserted_session_def intro!: exI [of _ "Suc (uuids_drawn s)"])
    then have "session_step rt s ?s2"
      unfolding session_step_def by (intro conjI exI [of _ "auth_sessions s"] exI [of _ "[?n]"]) (auto simp: list_all2_same)
    then show ?thesis by (rule session_step_mono [OF _ quiet_refl q])
  qed
  then have "session_step rt s s'" if "?m ?s1 = Inr (a, s')" for a s' using that by blast
  then have "session_step rt s (snd (withPostgresTransaction no_deferred ?m ?s1))"
    by (auto simp: withPostgresTransaction_def quiet_def intro: session_step_quiet split: sum.splits option.splits)
  ultimately show ?thesis by simp
qed

lemma replace_effect:
  assumes "replace_session rt ae current token metadata s = Inr (out, s')"
  obtains subject n where "n = inserted_session rt ae subject (ss_token_family_id current) token metadata s"
    and "out = Replacement subject (ss_id n, ss_expires_at n)"
    and "Some (su_userId subject) = (if AUTHORITY_IS_POSTGRES ae then ss_identity_id current else Some (ss_subject_id current))"
    and "su_role subject = ss_role current" and "su_businessId subject = ss_business_id current"
    and "\<forall>r \<in> set (auth_sessions s). ss_id r \<noteq> ss_id n \<and> ss_refresh_token_hash r \<noteq> ss_refresh_token_hash n"
    and "quiet (s\<lparr>uuids_drawn := Suc (uuids_drawn s), auth_sessions :=
           update_where (\<lambda>r. ss_id r = ss_id current) (mark_rotated (ss_id n) (clock s)) (auth_sessions s @ [n])\<rparr>) s'"
proof -
  obtain subjectId where sid: "(if AUTHORITY_IS_POSTGRES ae then ss_identity_id current else Some (ss_subject_id current)) = Some subjectId"
    using assms by (cases "if AUTHORITY_IS_POSTGRES ae then ss_identity_id current else Some (ss_subject_id current)")
      (simp_all add: replace_session_def tx_Inr)
  let ?subject = "\<lparr>su_userId = subjectId, su_role = ss_role current, su_businessId = ss_business_id current\<rparr>"
  show thesis
    using assms sid that [of _ ?subject] unfolding replace_session_def sid
    by (auto simp: tx_Inr insertSession_Inr Let_def elim!: tx_elims dest!: record_event_quiet split: if_splits)
qed

lemma replace_step:
  assumes "replace_session rt ae current token metadata s = Inr (out, s')"
    and "current \<in> set (auth_sessions s)" and "ss_revoked_at current = None" and "distinct (map ss_id (auth_sessions s))"
  shows "session_step rt s s'"
  using assms(1)
proof (rule replace_effect)
  fix subject n
  assume n: "n = inserted_session rt ae subject (ss_token_family_id current) token metadata s"
    and fresh: "\<forall>r \<in> set (auth_sessions s). ss_id r \<noteq> ss_id n \<and> ss_refresh_token_hash r \<noteq> ss_refresh_token_hash n"
    and q: "quiet (s\<lparr>uuids_drawn := Suc (uuids_drawn s), auth_sessions :=
           update_where (\<lambda>r. ss_id r = ss_id current) (mark_rotated (ss_id n) (clock s)) (auth_sessions s @ [n])\<rparr>) s'"
  let ?p = "\<lambda>r. ss_id r = ss_id current" and ?f = "mark_rotated (ss_id n) (clock s)"
  let ?rows = "update_where ?p ?f (auth_sessions s)"
  let ?s1 = "s\<lparr>uuids_drawn := Suc (uuids_drawn s), auth_sessions := update_where ?p ?f (auth_sessions s @ [n])\<rparr>"
  have one: "r = current" if "r \<in> set (auth_sessions s)" "?p r" for r
    using that assms(2,4) distinct_map_key_eq by metis
  have nid: "ss_id n \<noteq> ss_id current" using fresh assms(2) by auto
  have "list_all2 kept (auth_sessions s) ?rows"
  proof (rule update_where_pointwise)
    fix r assume "r \<in> set (auth_sessions s)"
    then show "kept r (if ?p r then ?f r else r)" using one [of r] assms(3) by auto
  qed
  moreover have "ss_token_family_id n = ss_token_family_id current" "ss_revoked_at n = None"
    by (simp_all add: n inserted_session_def)
  then have "joins rt s ?s1 ?rows n"
    unfolding joins_def using fresh assms(2,3)
    by (auto simp: set_update_where mark_rotated_def intro!: bexI [of _ current])
  moreover have "auth_sessions ?s1 = ?rows @ [n]" using nid by simp
  ultimately have "session_step rt s ?s1" unfolding session_step_def by auto
  then show ?thesis by (rule session_step_mono [OF _ quiet_refl q])
qed

lemma reuse_effect:
  assumes "reuse_detected rt current s = Inr (out, s')"
  shows "out = Invalidated True" and "quiet (s\<lparr>auth_sessions :=
     update_where (\<lambda>r. ss_token_family_id r = ss_token_family_id current) (mark_reuse (clock s)) (auth_sessions s)\<rparr>) s'"
  using assms unfolding reuse_detected_def by (auto simp: tx_Inr elim!: tx_elims dest!: record_event_quiet)

text \<open>The transaction of a rotation, by what it finds under the token.\<close>

lemma rotate_tx_cases:
  assumes "rotate_session_tx rt ae token fresh metadata s = Inr (out, s')"
  obtains current where "first_row (\<lambda>r. ss_refresh_token_hash r = tokenHash rt ae token) (auth_sessions s) = Some current"
    and "current \<in> set (auth_sessions s)" and "ss_refresh_token_hash current = tokenHash rt ae token"
    and "clock s < ss_expires_at current"
    and "if ss_revoked_at current = None then replace_session rt ae current fresh metadata s = Inr (out, s')
         else if ss_revoked_reason current = Some ''rotated'' then reuse_detected rt current s = Inr (out, s')
         else out = Invalidated False \<and> s' = s"
proof -
  from assms obtain current where
    c: "first_row (\<lambda>r. ss_refresh_token_hash r = tokenHash rt ae token) (auth_sessions s) = Some current"
    and "clock s < ss_expires_at current"
    and "if ss_revoked_at current = None then replace_session rt ae current fresh metadata s = Inr (out, s')
         else if ss_revoked_reason current = Some ''rotated'' then reuse_detected rt current s = Inr (out, s')
         else out = Invalidated False \<and> s' = s"
    unfolding rotate_session_tx_def
    by (auto simp: tx_Inr not_le elim!: tx_elims split: option.splits if_splits)
  then show thesis using that [of current] first_row_Some [OF c] by blast
qed

lemma rotateAuthSession_snd:
  "snd (rotateAuthSession rt ae token metadata s) =
     snd (withPostgresTransaction no_deferred (rotate_session_tx rt ae token (ae_random ae (uuids_drawn s) 48) metadata)
       (s\<lparr>uuids_drawn := Suc (uuids_drawn s)\<rparr>))"
  by (auto simp: rotateAuthSession_def newRefreshToken_def split: prod.splits sum.splits rotation.splits bool.splits)

lemma rotate_step:
  assumes "distinct (map ss_id (auth_sessions s))"
  shows "session_step rt s (snd (rotateAuthSession rt ae token metadata s))"
proof -
  let ?s = "s\<lparr>uuids_drawn := Suc (uuids_drawn s)\<rparr>"
  have "session_step rt ?s s'"
    if tx: "rotate_session_tx rt ae token fresh metadata ?s = Inr (out, s')" for fresh out s'
    using tx
  proof (rule rotate_tx_cases)
    fix current assume c: "current \<in> set (auth_sessions ?s)" and o: "if ss_revoked_at current = None then replace_session rt ae current fresh metadata ?s = Inr (out, s')
         else if ss_revoked_reason current = Some ''rotated'' then reuse_detected rt current ?s = Inr (out, s')
         else out = Invalidated False \<and> s' = ?s"
    show ?thesis
    proof (cases "ss_revoked_at current = None")
      case True
      with o c assms show ?thesis using replace_step [of rt ae current fresh metadata ?s out s'] by simp
    next
      case False
      show ?thesis
      proof (cases "ss_revoked_reason current = Some ''rotated''")
        case True
        with o False have "reuse_detected rt current ?s = Inr (out, s')" by simp
        from reuse_effect(2) [OF this]
        show ?thesis by (intro session_step_update [where f = "mark_reuse (clock ?s)"]) (auto simp: quiet_def)
      qed (use o False in \<open>simp add: session_step_quiet\<close>)
    qed
  qed
  then have "session_step rt ?s (snd (rotateAuthSession rt ae token metadata s))"
    unfolding rotateAuthSession_snd by (rule transaction_step)
  then show ?thesis by (rule session_step_mono [OF _ draw_quiet quiet_refl])
qed

lemma revoke_one_step:
  assumes "revoke_one rt i subj reason s = Inr (b, s')"
  shows "session_step rt s s'"
proof -
  have "quiet (s\<lparr>auth_sessions := update_where (\<lambda>r. ss_id r = i \<and> ss_subject_id r = subj \<and> ss_revoked_at r = None)
      (mark_revoked_once reason (clock s)) (auth_sessions s)\<rparr>) s'"
    using assms unfolding revoke_one_def Let_def
    by (auto simp: tx_Inr elim!: tx_elims dest!: record_event_quiet split: if_splits)
  then show ?thesis
    by (intro session_step_update [where f = "mark_revoked_once reason (clock s)"]) (auto simp: quiet_def)
qed

lemma revoke_all_effect:
  assumes "revokeAllAuthSessionsForSubjectInTransaction rt subj reason s = Inr (n, s')"
  shows "quiet (s\<lparr>auth_sessions := update_where (\<lambda>r. ss_subject_id r = subj \<and> ss_revoked_at r = None)
      (mark_revoked reason (clock s)) (auth_sessions s)\<rparr>) s'"
  using assms unfolding revokeAllAuthSessionsForSubjectInTransaction_def Let_def
  by (auto simp: tx_Inr elim!: tx_elims dest!: record_events_quiet)

lemma revoke_identity_effect:
  assumes "revokeAllAuthSessionsForIdentityInTransaction rt i reason s = Inr (n, s')"
  shows "quiet (s\<lparr>auth_sessions := update_where (\<lambda>r. (ss_identity_id r = Some i \<or> ss_subject_id r = i) \<and> ss_revoked_at r = None)
      (mark_revoked reason (clock s)) (auth_sessions s)\<rparr>) s'"
  using assms unfolding revokeAllAuthSessionsForIdentityInTransaction_def Let_def
  by (auto simp: tx_Inr elim!: tx_elims dest!: record_events_quiet)

lemma grant_sessions:
  "auth_sessions (snd (grantTotpStepUp rt ae i ident s)) = auth_sessions s
   \<and> uuids_drawn s \<le> uuids_drawn (snd (grantTotpStepUp rt ae i ident s))"
  unfolding grantTotpStepUp_def Let_def withPostgresTransaction_def
  by (auto simp: tx_simps quiet_def dest!: append_audit_quiet split: sum.splits option.splits)

lemma run_session_command_step:
  assumes "distinct (map ss_id (auth_sessions s))"
  shows "session_step rt s (run_session_command rt ae c s)"
proof (cases c)
  case (RevokeSession i subj reason)
  then show ?thesis
    by (auto simp: revokeAuthSession_def tx_Inr intro!: transaction_step elim!: tx_elims dest: revoke_one_step)
next
  case (RevokeSubject subj reason)
  have "session_step rt s s'" if "revokeAllAuthSessionsForSubjectInTransaction rt subj reason s = Inr (n, s')" for n s'
    using revoke_all_effect [OF that] by (intro session_step_where [where f = "mark_revoked reason (clock s)"]) (auto simp: quiet_def)
  then show ?thesis using RevokeSubject by (simp add: revokeAllAuthSessionsForSubject_def transaction_step)
next
  case (RevokeIdentity i reason)
  have "session_step rt s s'" if "revokeAllAuthSessionsForIdentityInTransaction rt i reason s = Inr (n, s')" for n s'
    using revoke_identity_effect [OF that] by (intro session_step_where [where f = "mark_revoked reason (clock s)"]) (auto simp: quiet_def)
  then show ?thesis using RevokeIdentity by (simp add: transaction_step)
next
  case (ValidateSession i subj)
  show ?thesis
    by (rule session_step_update [where p = "\<lambda>r. ss_id r = i \<and> fst (validateAuthSession i subj s) = Inr ()"
          and f = "\<lambda>r. r\<lparr>ss_last_seen_at := clock s\<rparr>"])
       (auto simp: ValidateSession validateAuthSession_def update_where_none)
next
  case (GrantStepUp i ident)
  then show ?thesis using grant_sessions [of rt ae i ident s]
    by (intro session_step_update [where p = "\<lambda>_. False" and f = id]) (auto simp: update_where_none)
next
  case (PassTime d)
  then show ?thesis by (intro session_step_update [where p = "\<lambda>_. False" and f = id]) (auto simp: update_where_none)
qed (simp_all add: create_step rotate_step [OF assms])

section \<open>The invariant\<close>

definition auth_ok :: "runtime \<Rightarrow> 'z auth_db_scheme \<Rightarrow> bool" where
  "auth_ok rt s \<longleftrightarrow> distinct (map ss_id (auth_sessions s)) \<and> distinct (map ss_refresh_token_hash (auth_sessions s))
     \<and> (\<forall>a \<in> set (auth_sessions s). \<forall>b \<in> set (auth_sessions s). ss_token_family_id a = ss_token_family_id b
          \<longrightarrow> ss_revoked_at a = None \<longrightarrow> ss_revoked_at b = None \<longrightarrow> a = b)
     \<and> (\<forall>r \<in> set (auth_sessions s). \<exists>k < uuids_drawn s. ss_token_family_id r = rt_uuid rt k)"


lemma kept_maps:
  assumes "list_all2 kept t t'"
  shows "map ss_id t' = map ss_id t" and "map ss_refresh_token_hash t' = map ss_refresh_token_hash t"
  using assms by (induction rule: list_all2_induct) (auto simp: kept_def)

lemma kept_source:
  assumes "list_all2 kept t t'" and "r' \<in> set t'"
  obtains r where "r \<in> set t" and "kept r r'"
  using assms by (metis in_set_conv_nth list_all2_conv_all_nth)

lemma kept_target:
  assumes "list_all2 kept t t'" and "r \<in> set t"
  obtains r' where "r' \<in> set t'" and "kept r r'"
  using assms by (metis in_set_conv_nth list_all2_conv_all_nth)

lemma kept_live: "kept r r' \<Longrightarrow> ss_revoked_at r' = None \<Longrightarrow> ss_revoked_at r = None"
  by (auto simp: kept_def)

lemma kept_family: "kept r r' \<Longrightarrow> ss_token_family_id r' = ss_token_family_id r"
  by (simp add: kept_def)


lemma session_step_ok:
  assumes inj: "inj (rt_uuid rt)" and ok: "auth_ok rt s" and step: "session_step rt s s'"
  shows "auth_ok rt s'"
proof -
  from step obtain rows new where t: "auth_sessions s' = rows @ new" "list_all2 kept (auth_sessions s) rows"
    and new: "new = [] \<or> (\<exists>n. new = [n] \<and> joins rt s s' rows n)" and mono: "uuids_drawn s \<le> uuids_drawn s'"
    by (auto simp: session_step_def)
  note maps = kept_maps [OF t(2)]
  have old: "distinct (map ss_id rows)" "distinct (map ss_refresh_token_hash rows)" using ok maps by (auto simp: auth_ok_def)
  have src: "\<exists>r0 \<in> set (auth_sessions s). kept r0 r" if "r \<in> set rows" for r using kept_source [OF t(2) that] by metis
  have live: "a = b" if "a \<in> set rows" "b \<in> set rows" "ss_token_family_id a = ss_token_family_id b"
      "ss_revoked_at a = None" "ss_revoked_at b = None" for a b
  proof -
    from that src obtain a0 b0 where "a0 \<in> set (auth_sessions s)" "kept a0 a" "b0 \<in> set (auth_sessions s)" "kept b0 b" by metis
    moreover from this have "a0 = b0" using ok that(3-5) kept_live kept_family unfolding auth_ok_def by metis
    ultimately have "ss_id a = ss_id b" by (simp add: kept_def)
    with that(1,2) old(1) show ?thesis by (metis distinct_map_key_eq)
  qed
  have drawn: "\<exists>k < uuids_drawn s. ss_token_family_id r = rt_uuid rt k" if "r \<in> set rows" for r
    using src [OF that] ok kept_family unfolding auth_ok_def by metis
  then have later: "\<exists>k < uuids_drawn s'. ss_token_family_id r = rt_uuid rt k" if "r \<in> set rows" for r
    using that mono by (meson order.strict_trans2)
  show ?thesis
    using new
  proof
    assume "new = []"
    then show ?thesis using old live later unfolding auth_ok_def t(1) by auto
  next
    assume "\<exists>n. new = [n] \<and> joins rt s s' rows n"
    then obtain n where n: "new = [n]" and j: "joins rt s s' rows n" by blast
    have ids: "ss_id n \<notin> set (map ss_id rows)" "ss_refresh_token_hash n \<notin> set (map ss_refresh_token_hash rows)"
      using j unfolding maps joins_def by auto
    have alone: "ss_revoked_at b \<noteq> None" if b: "b \<in> set rows" "ss_token_family_id b = ss_token_family_id n" for b
    proof
      assume lb: "ss_revoked_at b = None"
      obtain b0 where b0: "b0 \<in> set (auth_sessions s)" "kept b0 b" using src [OF b(1)] by blast
      from j consider (fresh) k where "uuids_drawn s \<le> k" "ss_token_family_id n = rt_uuid rt k"
        | (of) c where "c \<in> set (auth_sessions s)" "ss_revoked_at c = None" "ss_token_family_id c = ss_token_family_id n"
            "\<forall>r \<in> set rows. ss_id r = ss_id c \<longrightarrow> ss_revoked_at r \<noteq> None" by (auto simp: joins_def)
      then show False
      proof cases
        case fresh
        then show ?thesis using drawn [OF b(1)] b(2) injD [OF inj] by (metis leD)
      next
        case of
        then have "b0 = c" using ok b0 b(2) lb kept_live kept_family unfolding auth_ok_def by metis
        then show ?thesis using of(4) b0(2) b(1) lb by (auto simp: kept_def)
      qed
    qed
    have fam: "\<exists>k < uuids_drawn s'. ss_token_family_id n = rt_uuid rt k"
      using j ok mono unfolding joins_def auth_ok_def by (metis order.strict_trans2)
    have "a = b" if "a \<in> set (rows @ [n])" "b \<in> set (rows @ [n])" "ss_token_family_id a = ss_token_family_id b"
        "ss_revoked_at a = None" "ss_revoked_at b = None" for a b
    proof -
      from that(1,2) have "a \<in> set rows \<or> a = n" "b \<in> set rows \<or> b = n" by auto
      then show ?thesis using that(3-5) live [of a b] alone [of a] alone [of b] by metis
    qed
    then show ?thesis
      using old ids later fam unfolding auth_ok_def t(1) n by auto
  qed
qed

lemma run_sessions_Cons: "run_sessions rt ae (c # cs) s = run_sessions rt ae cs (run_session_command rt ae c s)"
  by (simp add: run_sessions_def)

lemma auth_ok_ids: "auth_ok rt s \<Longrightarrow> distinct (map ss_id (auth_sessions s))"
  by (simp add: auth_ok_def)

lemma run_sessions_ok:
  assumes "inj (rt_uuid rt)" and "auth_ok rt s"
  shows "auth_ok rt (run_sessions rt ae cs s)"
  using assms(2)
proof (induction cs arbitrary: s)
  case (Cons c cs)
  have "auth_ok rt (run_session_command rt ae c s)"
    by (rule session_step_ok [OF assms(1) Cons.prems run_session_command_step [OF auth_ok_ids [OF Cons.prems]]])
  with Cons.IH show ?case by (simp add: run_sessions_Cons)
qed (simp add: run_sessions_def)


lemma run_sessions_kept:
  assumes "inj (rt_uuid rt)" and "auth_ok rt s" and "r \<in> set (auth_sessions s)" and "ss_revoked_at r \<noteq> None"
  shows "\<exists>r' \<in> set (auth_sessions (run_sessions rt ae cs s)). kept r r'"
  using assms(2-4)
proof (induction cs arbitrary: s r)
  case (Cons c cs)
  note step = run_session_command_step [OF auth_ok_ids [OF Cons.prems(1)], of rt ae c]
  then obtain rows new where t: "auth_sessions (run_session_command rt ae c s) = rows @ new" "list_all2 kept (auth_sessions s) rows"
    by (auto simp: session_step_def)
  obtain r1 where r1: "r1 \<in> set rows" "kept r r1" using kept_target [OF t(2) Cons.prems(2)] by metis
  have "\<exists>r' \<in> set (auth_sessions (run_sessions rt ae cs (run_session_command rt ae c s))). kept r1 r'"
    using r1 Cons.prems(3) t(1) by (intro Cons.IH session_step_ok [OF assms(1) Cons.prems(1) step]) (auto simp: kept_def)
  with r1(2) Cons.prems(3) show ?case unfolding run_sessions_Cons kept_def by fastforce
qed (simp add: run_sessions_def, blast intro: kept_refl)

section \<open>Properties\<close>

text \<open>C20: refresh tokens are single use. For any history of sessions, starting from an empty table, at
  most one session of a token family is unrevoked at any time, whatever tokens are presented, replayed,
  rotated or revoked. Random UUIDs do not repeat.\<close>

theorem one_live_session_per_family:
  assumes "inj (rt_uuid rt)" and "auth_sessions s = []"
    and "a \<in> set (auth_sessions (run_sessions rt ae cs s))" and "b \<in> set (auth_sessions (run_sessions rt ae cs s))"
    and "ss_token_family_id a = ss_token_family_id b" and "ss_revoked_at a = None" and "ss_revoked_at b = None"
  shows "a = b"
proof -
  have "auth_ok rt s" using assms(2) by (simp add: auth_ok_def)
  from run_sessions_ok [OF assms(1) this, of ae cs] show ?thesis using assms(3-7) unfolding auth_ok_def by blast
qed


lemma rotate_revoked_refused:
  assumes "first_row (\<lambda>r. ss_refresh_token_hash r = tokenHash rt ae token) (auth_sessions s) = Some current"
    and "ss_revoked_at current \<noteq> None"
  shows "isl (fst (rotateAuthSession rt ae token metadata s))"
proof -
  let ?s = "s\<lparr>uuids_drawn := Suc (uuids_drawn s)\<rparr>" and ?next = "ae_random ae (uuids_drawn s) 48"
  have "out = Invalidated True \<or> out = Invalidated False" if "rotate_session_tx rt ae token ?next metadata ?s = Inr (out, s')" for out s'
    using that assms reuse_effect(1) by (elim rotate_tx_cases) (auto split: if_splits)
  then show ?thesis
    by (auto simp: rotateAuthSession_def newRefreshToken_def withPostgresTransaction_def no_deferred_def split: sum.splits rotation.splits bool.splits)
qed

text \<open>Revocation is final. Once a session has been revoked, by whatever path, then after any further
  history it validates for no subject, its refresh token yields no new session, and its step-up grant
  authorizes nothing.\<close>

theorem revoked_session_dead:
  assumes "inj (rt_uuid rt)" and "auth_ok rt s" and "r \<in> set (auth_sessions s)" and "ss_revoked_at r \<noteq> None"
    and "tokenHash rt ae token = ss_refresh_token_hash r" and "MFA_TOTP_ENABLED ae"
  shows "isl (fst (validateAuthSession (ss_id r) subject (run_sessions rt ae cs s)))
     \<and> isl (fst (rotateAuthSession rt ae token metadata (run_sessions rt ae cs s)))
     \<and> isl (requireFreshTotpStepUp ae (Some (ss_id r)) identity (run_sessions rt ae cs s))"
proof -
  define t where "t = run_sessions rt ae cs s"
  have ok: "auth_ok rt t" unfolding t_def by (rule run_sessions_ok [OF assms(1,2)])
  obtain r' where r': "r' \<in> set (auth_sessions t)" "kept r r'"
    using run_sessions_kept [OF assms(1-4), of ae cs] unfolding t_def by blast
  then have dead: "ss_revoked_at r' \<noteq> None" and id: "ss_id r' = ss_id r" and hash: "ss_refresh_token_hash r' = ss_refresh_token_hash r"
    using assms(4) by (auto simp: kept_def)
  have one: "x = r'" if "x \<in> set (auth_sessions t)" "ss_id x = ss_id r" for x
    using that r'(1) id auth_ok_ids [OF ok] by (metis distinct_map_key_eq)
  have none: "\<not> (ss_id x = ss_id r \<and> q x \<and> session_live (clock t) x)" if "x \<in> set (auth_sessions t)" for q x
    using one [OF that] dead by (auto simp: session_live_def)
  have "count_rows (\<lambda>x. ss_id x = ss_id r \<and> ss_subject_id x = subject \<and> session_live (clock t) x) (auth_sessions t) = 0"
    using none by (auto simp: count_rows_def filter_empty_conv)
  then have "isl (fst (validateAuthSession (ss_id r) subject t))" by (simp add: validateAuthSession_def)
  moreover have "first_row (\<lambda>x. ss_refresh_token_hash x = tokenHash rt ae token) (auth_sessions t) = Some r'"
    using ok r'(1) hash assms(5) by (intro first_row_unique [where k = ss_refresh_token_hash]) (auto simp: auth_ok_def)
  then have "isl (fst (rotateAuthSession rt ae token metadata t))" using dead by (rule rotate_revoked_refused)
  moreover have "\<not> step_up_fresh (ss_id r) identity t"
    using none [where q = "\<lambda>_. True"] by (auto simp: step_up_fresh_def)
  then have "isl (requireFreshTotpStepUp ae (Some (ss_id r)) identity t)"
    using assms(6) by (simp add: requireFreshTotpStepUp_def)
  ultimately show ?thesis unfolding t_def by blast
qed

text \<open>What a refresh does, in every case. It succeeds only for a stored, unrevoked, unexpired session:
  then exactly that session is retired as rotated and one session of the same family and rights takes its
  place under the returned token. When it fails, no session has changed, or the presented token had been
  rotated before and its whole family is revoked, or the replacement is stored and only the signing of the
  access token failed.\<close>

theorem rotate_outcomes:
  "case rotateAuthSession rt ae token metadata s of
     (Inr out, s') \<Rightarrow> \<exists>current n. current \<in> set (auth_sessions s) \<and> ss_refresh_token_hash current = tokenHash rt ae token
       \<and> session_live (clock s) current \<and> ss_id n = is_sessionId out \<and> ss_expires_at n = is_expiresAt out
       \<and> ss_refresh_token_hash n = tokenHash rt ae (is_refreshToken out) \<and> ss_revoked_at n = None
       \<and> ss_token_family_id n = ss_token_family_id current \<and> ss_role n = ss_role current \<and> ss_business_id n = ss_business_id current
       \<and> auth_sessions s' = update_where (\<lambda>r. ss_id r = ss_id current) (mark_rotated (ss_id n) (clock s)) (auth_sessions s) @ [n]
   | (Inl e, s') \<Rightarrow> auth_sessions s' = auth_sessions s
       \<or> (\<exists>current \<in> set (auth_sessions s). ss_refresh_token_hash current = tokenHash rt ae token
            \<and> ss_revoked_reason current = Some ''rotated''
            \<and> auth_sessions s' = update_where (\<lambda>r. ss_token_family_id r = ss_token_family_id current)
                 (mark_reuse (clock s)) (auth_sessions s))
       \<or> (\<exists>subject i. issueAccessToken ae subject i = Inl e)"
proof -
  let ?s = "s\<lparr>uuids_drawn := Suc (uuids_drawn s)\<rparr>" and ?next = "ae_random ae (uuids_drawn s) 48"
  let ?m = "rotate_session_tx rt ae token ?next metadata"
  have run: "rotateAuthSession rt ae token metadata s =
      (case ?m ?s of Inl e \<Rightarrow> (Inl e, ?s)
       | Inr (Replacement subject n, s') \<Rightarrow> issued ae subject ?next n s'
       | Inr (Invalidated b, s') \<Rightarrow> (Inl (AuthSessionError (if b then ''Refresh-token reuse detected; all related sessions were revoked''
            else ''Refresh session is no longer valid'')), s'))"
    by (auto simp: rotateAuthSession_def newRefreshToken_def withPostgresTransaction_def no_deferred_def
        split: sum.splits rotation.splits bool.splits)
  show ?thesis
  proof (cases "?m ?s")
    case (Inl e)
    then show ?thesis by (simp add: run)
  next
    case (Inr p)
    then obtain out s' where tx: "?m ?s = Inr (out, s')" by (cases p) auto
    from tx show ?thesis
    proof (rule rotate_tx_cases)
      fix current assume c: "current \<in> set (auth_sessions ?s)" "ss_refresh_token_hash current = tokenHash rt ae token"
        "clock ?s < ss_expires_at current"
        and o: "if ss_revoked_at current = None then replace_session rt ae current ?next metadata ?s = Inr (out, s')
          else if ss_revoked_reason current = Some ''rotated'' then reuse_detected rt current ?s = Inr (out, s')
          else out = Invalidated False \<and> s' = ?s"
      show ?thesis
      proof (cases "ss_revoked_at current = None")
        case True
        with o have "replace_session rt ae current ?next metadata ?s = Inr (out, s')" by simp
        then show ?thesis
        proof (rule replace_effect)
          fix subject n
          assume n: "n = inserted_session rt ae subject (ss_token_family_id current) ?next metadata ?s"
            and out: "out = Replacement subject (ss_id n, ss_expires_at n)"
            and rights: "su_role subject = ss_role current" "su_businessId subject = ss_business_id current"
            and fresh: "\<forall>r \<in> set (auth_sessions ?s). ss_id r \<noteq> ss_id n \<and> ss_refresh_token_hash r \<noteq> ss_refresh_token_hash n"
            and q: "quiet (?s\<lparr>uuids_drawn := Suc (uuids_drawn ?s), auth_sessions := update_where (\<lambda>r. ss_id r = ss_id current)
                (mark_rotated (ss_id n) (clock ?s)) (auth_sessions ?s @ [n])\<rparr>) s'"
          have "ss_id n \<noteq> ss_id current" using fresh c(1) by auto
          then have t: "auth_sessions s' = update_where (\<lambda>r. ss_id r = ss_id current) (mark_rotated (ss_id n) (clock s)) (auth_sessions s) @ [n]"
            using q by (simp add: quiet_def)
          have facts: "ss_token_family_id n = ss_token_family_id current" "ss_role n = ss_role current" "ss_revoked_at n = None"
            "ss_business_id n = ss_business_id current" "ss_refresh_token_hash n = tokenHash rt ae ?next"
            using rights by (simp_all add: n inserted_session_def session_row_of_def)
          show ?thesis
          proof (cases "issueAccessToken ae subject (ss_id n)")
            case (Inl e)
            then show ?thesis by (auto simp: run tx out issued_def)
          next
            case (Inr accessToken)
            with True c t facts show ?thesis
              by (simp add: run tx out issued_def session_live_def, intro exI [of _ current], simp)
          qed
        qed
      next
        case False
        then show ?thesis
        proof (cases "ss_revoked_reason current = Some ''rotated''")
          case True
          with False o have r: "reuse_detected rt current ?s = Inr (out, s')" by simp
          with reuse_effect [OF r] True c show ?thesis by (auto simp: run tx quiet_def)
        qed (use o tx in \<open>simp add: run\<close>)
      qed
    qed
  qed
qed

section \<open>A concrete family\<close>

lemma read_digits_zeros: "read_digits (replicate n (CHR ''0'') @ s) = read_digits s"
proof (induction s rule: rev_induct)
  case Nil
  have "foldl (\<lambda>m c. 10 * m + digit_value c) 0 (replicate n (CHR ''0'')) = 0"
    by (induction n) (simp_all add: digit_value_def code_of_def)
  then show ?case by (simp add: read_digits_def)
next
  case (snoc c s)
  then show ?case using read_digits_append [of "replicate n (CHR ''0'') @ s" c] by (simp add: read_digits_append)
qed

lemma plain_uuids_distinct: "inj (rt_uuid plain_runtime)"
proof (rule injI)
  fix m n assume "rt_uuid plain_runtime m = rt_uuid plain_runtime n"
  then have "pad_int 12 (int m) = pad_int 12 (int n)" by (simp add: plain_runtime_def)
  then have "read_digits (pad_int 12 (int m)) = read_digits (pad_int 12 (int n))" by simp
  then show "m = n" by (simp add: pad_int_def padStart_def show_int_def read_digits_zeros)
qed

definition sample_auth_env :: auth_env where
  "sample_auth_env = \<lparr>JWT_SECRET = ''main'', JWT_ACTIVE_KEY_ID = ''primary'', JWT_KEY_RING_JSON = None, AUTHORITY_IS_POSTGRES = True,
     AUTH_REFRESH_TOKEN_TTL_DAYS = 30, AUTH_ACCESS_TOKEN_TTL_SECONDS = 900, AUTH_STEP_UP_TTL_SECONDS = 300, MFA_TOTP_ENABLED = True,
     ae_random = (\<lambda>n k. ''token-'' @ show_int (int n)), ae_parse = (\<lambda>_. None), ae_sign = (\<lambda>c e k i. cl_sid c)\<rparr>"

definition sample_session :: "nat \<Rightarrow> string \<Rightarrow> int option \<Rightarrow> string option \<Rightarrow> session_row" where
  "sample_session i token revokedAt reason =
     \<lparr>ss_id = rt_uuid plain_runtime i, ss_token_family_id = rt_uuid plain_runtime 0, ss_subject_id = rt_uuid plain_runtime 9,
      ss_identity_id = Some (rt_uuid plain_runtime 9), ss_role = ''investor'', ss_business_id = None,
      ss_refresh_token_hash = tokenHash plain_runtime sample_auth_env token, ss_created_at = 0, ss_last_seen_at = 0,
      ss_expires_at = 5000, ss_revoked_at = revokedAt, ss_revoked_reason = reason, ss_replaced_by_session_id = None,
      ss_ip_hash = None, ss_user_agent_hash = None\<rparr>"

text \<open>A family with a rotated session and its live replacement.\<close>

definition sample_auth_db :: auth_db where
  "sample_auth_db = \<lparr>clock = 1000, uuids_drawn = 10,
     identities = [\<lparr>idn_id = rt_uuid plain_runtime 9, idn_legacy_mongo_id = None, idn_email = ''a@b.c'', idn_active = True\<rparr>],
     audit_sequence = 0, audit_events = [], audit_chain_heads = [], outbox_events = [],
     auth_sessions = [sample_session 1 ''old'' (Some 500) (Some ''rotated''), sample_session 2 ''new'' None None],
     auth_step_up_grants = []\<rparr>"

lemma sample_auth_ok: "auth_ok plain_runtime sample_auth_db"
proof -
  have "tokenHash plain_runtime sample_auth_env ''old'' \<noteq> tokenHash plain_runtime sample_auth_env ''new''" by code_simp
  then show ?thesis
    by (auto simp: auth_ok_def sample_auth_db_def sample_session_def inj_eq [OF plain_uuids_distinct] intro!: exI [of _ 0])
qed

definition sample_logins :: "session_command list" where
  "sample_logins =
     (let subject = \<lparr>su_userId = rt_uuid plain_runtime 9, su_role = ''investor'', su_businessId = None\<rparr>;
          browser = \<lparr>sm_ip = None, sm_userAgent = None\<rparr>
      in [CreateSession subject browser, RotateSession ''token-10'' browser, RotateSession ''token-10'' browser])"

theorem one_live_session_per_family_witness:
  "let t = run_sessions plain_runtime sample_auth_env sample_logins (sample_auth_db\<lparr>auth_sessions := []\<rparr>) in
     list_all (\<lambda>a. list_all (\<lambda>b. ss_token_family_id a = ss_token_family_id b \<longrightarrow> ss_revoked_at a = None \<longrightarrow>
       ss_revoked_at b = None \<longrightarrow> a = b) (auth_sessions t)) (auth_sessions t)"
  using one_live_session_per_family [OF plain_uuids_distinct, of "sample_auth_db\<lparr>auth_sessions := []\<rparr>"]
  by (auto simp: list_all_iff Let_def)


theorem revoked_session_dead_witness:
  "isl (fst (validateAuthSession (rt_uuid plain_runtime 1) (rt_uuid plain_runtime 9)
     (run_sessions plain_runtime sample_auth_env [PassTime 10] sample_auth_db)))"
  using revoked_session_dead [OF plain_uuids_distinct sample_auth_ok, of "sample_session 1 ''old'' (Some 500) (Some ''rotated'')"
      sample_auth_env "''old''" "rt_uuid plain_runtime 9" "[PassTime 10]"]
  by (simp add: sample_auth_db_def sample_session_def sample_auth_env_def)

end
