(* ===== verification/Totp.thy ===== *)
theory Totp
  imports Auth_Sessions "HOL-Library.Word"
begin

text \<open>
  Authenticator-app factors and recovery codes: \<^verbatim>\<open>src/platform/totp-factors.ts\<close> over the tables of the
  migrations 007 and 053. The bit buffers of the base-32 routines are 32-bit words, as JavaScript's shift
  operators make them. HMAC-SHA-1, the cipher and random bytes are fields of the settings record.
\<close>

unbundle bit_operations_syntax

type_synonym byte = "8 word"
type_synonym int32 = "32 word"

section \<open>Settings and tables\<close>

text \<open>\<open>te_bytes n k\<close> is the \<open>n\<close>-th random draw, of \<open>k\<close> bytes; \<open>te_open\<close> answers \<open>None\<close> where the decipher throws.\<close>

record totp_env =
  MFA_TOTP_ENCRYPTION_KEY :: "string option"
  MFA_RECOVERY_CODE_PEPPER :: "string option"
  te_bytes :: "nat \<Rightarrow> nat \<Rightarrow> byte list"
  te_hmac_sha1 :: "byte list \<Rightarrow> byte list \<Rightarrow> byte list"
  te_seal :: "string \<Rightarrow> byte list \<Rightarrow> string \<Rightarrow> string"
  te_open :: "string \<Rightarrow> string \<Rightarrow> string option"

record totp_factor =
  tf_id :: uuid
  tf_identity_id :: uuid
  tf_secret_ciphertext :: string
  tf_confirmed_at :: "int option"
  tf_last_used_counter :: "int option"
  tf_disabled_at :: "int option"

record recovery_code =
  rcv_id :: uuid
  rcv_identity_id :: uuid
  rcv_code_digest :: string
  rcv_used_at :: "int option"
  rcv_replaced_at :: "int option"

record totp_db = auth_db +
  totp_factors :: "totp_factor list"
  totp_recovery_codes :: "recovery_code list"

section \<open>Base 32\<close>

definition ALPHABET :: string where
  "ALPHABET = ''ABCDEFGHIJKLMNOPQRSTUVWXYZ234567''"

definition PERIOD_SECONDS :: int where
  "PERIOD_SECONDS = 30"

definition RECOVERY_CODE_ALPHABET :: string where
  "RECOVERY_CODE_ALPHABET = ''ABCDEFGHJKLMNPQRSTUVWXYZ23456789''"

definition RECOVERY_CODE_COUNT :: nat where
  "RECOVERY_CODE_COUNT = 10"

definition RECOVERY_CODE_LENGTH :: nat where
  "RECOVERY_CODE_LENGTH = 16"

text \<open>\<open>while (bits >= 5) { output += ALPHABET[(value >>> (bits - 5)) & 31]; bits -= 5; }\<close>\<close>

fun emit_groups :: "int32 \<Rightarrow> nat \<Rightarrow> string \<times> nat" where
  "emit_groups v bits =
     (if 5 \<le> bits
      then (case emit_groups v (bits - 5) of (out, rest) \<Rightarrow> (ALPHABET ! unat (drop_bit (bits - 5) v AND 31) # out, rest))
      else ([], bits))"

declare emit_groups.simps [simp del]

fun encode_bytes :: "byte list \<Rightarrow> int32 \<Rightarrow> nat \<Rightarrow> string" where
  "encode_bytes [] v bits = (if 0 < bits then [ALPHABET ! unat (push_bit (5 - bits) v AND 31)] else [])"
| "encode_bytes (b # bs) v bits =
     (let v' = push_bit 8 v OR ucast b in
      case emit_groups v' (bits + 8) of (out, rest) \<Rightarrow> out @ encode_bytes bs v' rest)"

definition base32Encode :: "byte list \<Rightarrow> string" where
  "base32Encode input = encode_bytes input 0 0"

fun index_of :: "char \<Rightarrow> string \<Rightarrow> nat option" where
  "index_of c [] = None"
| "index_of c (x # xs) = (if x = c then Some 0 else map_option Suc (index_of c xs))"

fun decode_chars :: "string \<Rightarrow> int32 \<Rightarrow> nat \<Rightarrow> error + byte list" where
  "decode_chars [] v bits = Inr []"
| "decode_chars (c # cs) v bits =
     (case index_of c ALPHABET of
        None \<Rightarrow> Inl (TotpFactorError ''Invalid TOTP secret'')
      | Some index \<Rightarrow>
          (let v' = push_bit 5 v OR of_nat index; bits' = bits + 5 in
           if 8 \<le> bits'
           then map_sum id (\<lambda>bytes. ucast (drop_bit (bits' - 8) v' AND 255) # bytes) (decode_chars cs v' (bits' - 8))
           else decode_chars cs v' bits'))"

definition base32Decode :: "string \<Rightarrow> error + byte list" where
  "base32Decode input =
     decode_chars (toUpperCase (filter (\<lambda>c. \<not> is_space c \<and> c \<noteq> CHR ''='') input)) 0 0"

section \<open>Codes\<close>

text \<open>\<open>writeBigUInt64BE\<close>: eight bytes, most significant first.\<close>

definition counter_buffer :: "int \<Rightarrow> byte list" where
  "counter_buffer counter = map (\<lambda>i. word_of_int (drop_bit (8 * i) counter)) (rev [0..<8])"

definition truncate_digest :: "byte list \<Rightarrow> int32" where
  "truncate_digest digest =
     (let offset = unat (last digest AND 15);
          d = (\<lambda>i. ucast (digest ! (offset + i)) :: int32)
      in push_bit 24 (d 0 AND 127) OR push_bit 16 (d 1) OR push_bit 8 (d 2) OR d 3)"

definition generateTotpCode :: "totp_env \<Rightarrow> string \<Rightarrow> int \<Rightarrow> error + string" where
  "generateTotpCode te secret counter =
     (if counter < 0 \<or> 2 ^ 64 \<le> counter then Inl (GenericError ''The value of value is out of range'')
      else case base32Decode secret of
          Inl e \<Rightarrow> Inl e
        | Inr key \<Rightarrow>
            Inr (padStart 6 (CHR ''0'')
              (show_int (uint (truncate_digest (te_hmac_sha1 te key (counter_buffer counter))) mod 1000000))))"

definition counterAt :: "int \<Rightarrow> int" where
  "counterAt now = now div (1000 * PERIOD_SECONDS)"

definition six_digits :: "string \<Rightarrow> bool" where
  "six_digits c \<longleftrightarrow> length c = 6 \<and> list_all is_digit c"

fun match_counter :: "totp_env \<Rightarrow> string \<Rightarrow> string \<Rightarrow> int list \<Rightarrow> error + int option" where
  "match_counter te secret c [] = Inr None"
| "match_counter te secret c (counter # counters) =
     (case generateTotpCode te secret counter of
        Inl e \<Rightarrow> Inl e
      | Inr expected \<Rightarrow> if expected = c then Inr (Some counter) else match_counter te secret c counters)"

definition verifyCode :: "totp_env \<Rightarrow> string \<Rightarrow> string \<Rightarrow> int \<Rightarrow> error + int option" where
  "verifyCode te secret c now =
     (if \<not> six_digits c then Inr None
      else match_counter te secret c [counterAt now - 1, counterAt now, counterAt now + 1])"

section \<open>Secrets at rest\<close>

definition encryptionKey :: "totp_env \<Rightarrow> error + string" where
  "encryptionKey te =
     (case MFA_TOTP_ENCRYPTION_KEY te of
        Some k \<Rightarrow> if k = [] then Inl (TotpFactorError ''TOTP factor encryption is not configured'') else Inr k
      | None \<Rightarrow> Inl (TotpFactorError ''TOTP factor encryption is not configured''))"

definition recoveryCodePepper :: "totp_env \<Rightarrow> error + string" where
  "recoveryCodePepper te =
     (case MFA_RECOVERY_CODE_PEPPER te of
        Some k \<Rightarrow> if k = [] then Inl (TotpFactorError ''MFA recovery codes are not configured'') else Inr k
      | None \<Rightarrow> Inl (TotpFactorError ''MFA recovery codes are not configured''))"

definition draw_bytes :: "totp_env \<Rightarrow> nat \<Rightarrow> ('z audit_db_scheme, byte list) tx" where
  "draw_bytes te k = (\<lambda>s. Inr (te_bytes te (uuids_drawn s) k, s\<lparr>uuids_drawn := Suc (uuids_drawn s)\<rparr>))"

definition encrypt :: "totp_env \<Rightarrow> string \<Rightarrow> ('z audit_db_scheme, string) tx" where
  "encrypt te secret =
     bnd (draw_bytes te 12) (\<lambda>iv. bnd (lift_sum (encryptionKey te)) (\<lambda>key. ret (''v1:'' @ te_seal te key iv secret)))"

text \<open>\<open>value.split(":", 2)\<close>: the text before the first colon and the text up to the second.\<close>

definition decrypt :: "totp_env \<Rightarrow> string \<Rightarrow> error + string" where
  "decrypt te v =
     (let version = takeWhile (\<lambda>c. c \<noteq> CHR '':'') v;
          encoded = takeWhile (\<lambda>c. c \<noteq> CHR '':'') (drop (Suc (length version)) v)
      in if version \<noteq> ''v1'' \<or> encoded = [] then Inl (TotpFactorError ''Unsupported encrypted TOTP factor'')
         else case encryptionKey te of
             Inl e \<Rightarrow> Inl e
           | Inr key \<Rightarrow> (case te_open te key encoded of
                 None \<Rightarrow> Inl (GenericError ''Unsupported state or unable to authenticate data'')
               | Some secret \<Rightarrow> Inr secret))"

section \<open>Recovery codes\<close>

definition normalizeRecoveryCode :: "string \<Rightarrow> error + string" where
  "normalizeRecoveryCode c =
     (let normalized = filter (\<lambda>x. \<not> is_space x \<and> x \<noteq> CHR ''-'') (toUpperCase (trim c)) in
      if length normalized \<noteq> RECOVERY_CODE_LENGTH \<or> \<not> set normalized \<subseteq> set RECOVERY_CODE_ALPHABET
      then Inl (TotpFactorError ''Invalid recovery code'') else Inr normalized)"

definition recoveryCodeDigest :: "runtime \<Rightarrow> totp_env \<Rightarrow> string \<Rightarrow> error + string" where
  "recoveryCodeDigest rt te c =
     (case recoveryCodePepper te of
        Inl e \<Rightarrow> Inl e
      | Inr pepper \<Rightarrow> (case normalizeRecoveryCode c of
          Inl e \<Rightarrow> Inl e
        | Inr normalized \<Rightarrow> Inr (rt_hmac256 rt pepper (''fractal.mfa.recovery-code.v1:'' @ normalized))))"

fun chunks :: "nat \<Rightarrow> 'a list \<Rightarrow> 'a list list" where
  "chunks n xs = (if xs = [] \<or> n = 0 then [] else take n xs # chunks n (drop n xs))"

declare chunks.simps [simp del]

definition recovery_chars :: "byte list \<Rightarrow> string" where
  "recovery_chars bytes = map (\<lambda>b. RECOVERY_CODE_ALPHABET ! unat (b AND 31)) bytes"

definition newRecoveryCode :: "totp_env \<Rightarrow> ('z audit_db_scheme, string) tx" where
  "newRecoveryCode te =
     bnd (draw_bytes te RECOVERY_CODE_LENGTH) (\<lambda>bytes. ret (join_with ''-'' (chunks 4 (recovery_chars bytes))))"

fun newRecoveryCodes :: "totp_env \<Rightarrow> nat \<Rightarrow> ('z audit_db_scheme, string list) tx" where
  "newRecoveryCodes te 0 = ret []"
| "newRecoveryCodes te (Suc n) =
     bnd (newRecoveryCode te) (\<lambda>c. bnd (newRecoveryCodes te n) (\<lambda>cs. ret (c # cs)))"

definition code_open :: "uuid \<Rightarrow> recovery_code \<Rightarrow> bool" where
  "code_open identityId r \<longleftrightarrow> rcv_identity_id r = identityId \<and> rcv_used_at r = None \<and> rcv_replaced_at r = None"

definition insert_recovery_code :: "runtime \<Rightarrow> totp_env \<Rightarrow> uuid \<Rightarrow> string \<Rightarrow> ('z totp_db_scheme, unit) tx" where
  "insert_recovery_code rt te identityId c =
     bnd (randomUUID rt) (\<lambda>i.
     bnd (lift_sum (recoveryCodeDigest rt te c)) (\<lambda>digest.
     bnd (query (\<lambda>s. exists_row (\<lambda>r. rcv_id r = i \<or> (rcv_identity_id r = identityId \<and> rcv_code_digest r = digest))
                  (totp_recovery_codes s))) (\<lambda>taken.
     andThen (require (\<not> taken) (UniqueViolation ''totp_recovery_codes_identity_id_code_digest_key''))
     (modify (\<lambda>s. s\<lparr>totp_recovery_codes := totp_recovery_codes s @
        [\<lparr>rcv_id = i, rcv_identity_id = identityId, rcv_code_digest = digest, rcv_used_at = None, rcv_replaced_at = None\<rparr>]\<rparr>)))))"

definition replaceRecoveryCodes :: "runtime \<Rightarrow> totp_env \<Rightarrow> uuid \<Rightarrow> ('z totp_db_scheme, string list) tx" where
  "replaceRecoveryCodes rt te identityId =
     bnd (newRecoveryCodes te RECOVERY_CODE_COUNT) (\<lambda>recoveryCodes.
     andThen (modify (\<lambda>s. s\<lparr>totp_recovery_codes :=
        update_where (code_open identityId) (\<lambda>r. r\<lparr>rcv_replaced_at := Some (clock s)\<rparr>) (totp_recovery_codes s)\<rparr>))
     (andThen (for_each recoveryCodes (insert_recovery_code rt te identityId)) (ret recoveryCodes)))"

section \<open>Factors\<close>

definition factor_of :: "uuid \<Rightarrow> 'z totp_db_scheme \<Rightarrow> totp_factor option" where
  "factor_of identityId s = first_row (\<lambda>f. tf_identity_id f = identityId) (totp_factors s)"

definition update_factor :: "uuid \<Rightarrow> (int \<Rightarrow> totp_factor \<Rightarrow> totp_factor) \<Rightarrow> ('z totp_db_scheme, unit) tx" where
  "update_factor identityId change =
     modify (\<lambda>s. s\<lparr>totp_factors := update_where (\<lambda>f. tf_identity_id f = identityId) (change (clock s)) (totp_factors s)\<rparr>)"

definition verifyLockedTotpFactor ::
    "totp_env \<Rightarrow> uuid \<Rightarrow> string \<Rightarrow> int \<Rightarrow> bool \<Rightarrow> ('z totp_db_scheme, totp_factor) tx" where
  "verifyLockedTotpFactor te identityId c now requireConfirmed =
     bnd (query (factor_of identityId)) (\<lambda>found.
     case found of
       None \<Rightarrow> throw (TotpFactorError ''TOTP factor is unavailable'')
     | Some factor \<Rightarrow>
         andThen (require (tf_disabled_at factor = None) (TotpFactorError ''TOTP factor is unavailable''))
         (andThen (require (\<not> (requireConfirmed \<and> tf_confirmed_at factor = None)) (TotpFactorError ''TOTP factor is not confirmed''))
         (bnd (lift_sum (decrypt te (tf_secret_ciphertext factor))) (\<lambda>secret.
          bnd (lift_sum (verifyCode te secret c now)) (\<lambda>used.
          case used of
            None \<Rightarrow> throw (TotpFactorError ''Invalid authentication code'')
          | Some usedCounter \<Rightarrow>
              andThen (require (\<not> (case tf_last_used_counter factor of None \<Rightarrow> False | Some l \<Rightarrow> usedCounter \<le> l))
                (TotpFactorError ''Authentication code was already used''))
              (andThen (update_factor identityId (\<lambda>_ f. f\<lparr>tf_last_used_counter := Some usedCounter\<rparr>))
              (ret factor)))))))"

definition otpauth_uri :: "uuid \<Rightarrow> string \<Rightarrow> string" where
  "otpauth_uri identityId secret =
     ''otpauth://totp/Fractal:'' @ identityId @ ''?secret='' @ secret @ ''&issuer=Fractal&algorithm=SHA1&digits=6&period=30''"

text \<open>The new secret of an enrolment or a recovery starts unconfirmed and unused.\<close>

definition reset_factor :: "string \<Rightarrow> totp_factor \<Rightarrow> totp_factor" where
  "reset_factor ciphertext f =
     f\<lparr>tf_secret_ciphertext := ciphertext, tf_confirmed_at := None, tf_last_used_counter := None, tf_disabled_at := None\<rparr>"

definition enroll_tx :: "runtime \<Rightarrow> totp_env \<Rightarrow> uuid \<Rightarrow> string \<Rightarrow> ('z totp_db_scheme, unit) tx" where
  "enroll_tx rt te identityId secret =
     bnd (query (factor_of identityId)) (\<lambda>existing.
     andThen (require (\<not> (case existing of None \<Rightarrow> False | Some f \<Rightarrow> tf_confirmed_at f \<noteq> None \<and> tf_disabled_at f = None))
       (TotpFactorError ''An active TOTP factor already exists; use the approved recovery process instead of replacing it.''))
     (bnd (randomUUID rt) (\<lambda>i.
      bnd (encrypt te secret) (\<lambda>ciphertext.
      bnd (query (\<lambda>s. exists_row (\<lambda>r. idn_id r = identityId) (identities s))) (\<lambda>known.
      andThen (require known (ForeignKeyViolation ''totp_factors_identity_id_fkey''))
      (if existing \<noteq> None then update_factor identityId (\<lambda>_. reset_factor ciphertext)
       else bnd (query (\<lambda>s. exists_row (\<lambda>f. tf_id f = i) (totp_factors s))) (\<lambda>taken.
         andThen (require (\<not> taken) (UniqueViolation ''totp_factors_pkey''))
         (modify (\<lambda>s. s\<lparr>totp_factors := totp_factors s @
           [\<lparr>tf_id = i, tf_identity_id = identityId, tf_secret_ciphertext = ciphertext, tf_confirmed_at = None,
             tf_last_used_counter = None, tf_disabled_at = None\<rparr>]\<rparr>)))))))))"

definition enrollTotpFactor ::
    "runtime \<Rightarrow> totp_env \<Rightarrow> uuid \<Rightarrow> 'z totp_db_scheme \<Rightarrow> (error + string \<times> string) \<times> 'z totp_db_scheme" where
  "enrollTotpFactor rt te identityId s =
     (let secret = base32Encode (te_bytes te (uuids_drawn s) 20);
          s0 = s\<lparr>uuids_drawn := Suc (uuids_drawn s)\<rparr>
      in case withPostgresTransaction no_deferred (enroll_tx rt te identityId secret) s0 of
           (Inl e, s') \<Rightarrow> (Inl e, s')
         | (Inr _, s') \<Rightarrow> (Inr (secret, otpauth_uri identityId secret), s'))"

record totp_status =
  ts_enrolled :: bool
  ts_confirmed :: bool
  ts_recoveryCodesRemaining :: nat

definition getTotpFactorStatus :: "uuid \<Rightarrow> 'z totp_db_scheme \<Rightarrow> totp_status" where
  "getTotpFactorStatus identityId s =
     (case factor_of identityId s of
        None \<Rightarrow> \<lparr>ts_enrolled = False, ts_confirmed = False, ts_recoveryCodesRemaining = 0\<rparr>
      | Some f \<Rightarrow> \<lparr>ts_enrolled = (tf_disabled_at f = None),
                   ts_confirmed = (tf_confirmed_at f \<noteq> None \<and> tf_disabled_at f = None),
                   ts_recoveryCodesRemaining = count_rows (code_open identityId) (totp_recovery_codes s)\<rparr>)"

definition totp_audit :: "uuid \<Rightarrow> string \<Rightarrow> json_object \<Rightarrow> audit_input" where
  "totp_audit identityId action payload =
     \<lparr>ai_scopeKey = ''identity:'' @ identityId, ai_organizationId = None, ai_actorId = Some identityId, ai_actorType = ''user'',
      ai_action = action, ai_entityType = ''totp_factor'', ai_entityId = identityId, ai_reason = None,
      ai_payload = JObj payload, ai_occurredAt = None\<rparr>"

definition confirm_factor :: "int \<Rightarrow> totp_factor \<Rightarrow> totp_factor" where
  "confirm_factor now f = f\<lparr>tf_confirmed_at := (case tf_confirmed_at f of None \<Rightarrow> Some now | Some t \<Rightarrow> Some t)\<rparr>"

definition confirmOrVerifyTotpFactor ::
    "runtime \<Rightarrow> totp_env \<Rightarrow> uuid \<Rightarrow> string \<Rightarrow> int \<Rightarrow> 'z totp_db_scheme \<Rightarrow> (error + bool \<times> string list option) \<times> 'z totp_db_scheme" where
  "confirmOrVerifyTotpFactor rt te identityId c now =
     withPostgresTransaction no_deferred
       (bnd (verifyLockedTotpFactor te identityId c now False) (\<lambda>factor.
        if tf_confirmed_at factor = None
        then bnd (replaceRecoveryCodes rt te identityId) (\<lambda>recoveryCodes.
             andThen (update_factor identityId confirm_factor)
             (andThen (appendPostgresAuditEvent rt (totp_audit identityId ''auth.totp.confirmed''
                [(''recoveryCodeCount'', JNum (int (length recoveryCodes)))]))
             (ret (True, Some recoveryCodes))))
        else andThen (update_factor identityId confirm_factor) (ret (False, None))))"

definition verifyConfirmedTotpFactor ::
    "totp_env \<Rightarrow> uuid \<Rightarrow> string \<Rightarrow> int \<Rightarrow> 'z totp_db_scheme \<Rightarrow> (error + unit) \<times> 'z totp_db_scheme" where
  "verifyConfirmedTotpFactor te identityId c now =
     withPostgresTransaction no_deferred (andThen (verifyLockedTotpFactor te identityId c now True) (ret ()))"

definition regenerateTotpRecoveryCodes ::
    "runtime \<Rightarrow> totp_env \<Rightarrow> uuid \<Rightarrow> string \<Rightarrow> int \<Rightarrow> 'z totp_db_scheme \<Rightarrow> (error + string list) \<times> 'z totp_db_scheme" where
  "regenerateTotpRecoveryCodes rt te identityId c now =
     withPostgresTransaction no_deferred
       (andThen (verifyLockedTotpFactor te identityId c now True)
        (bnd (replaceRecoveryCodes rt te identityId) (\<lambda>recoveryCodes.
         andThen (appendPostgresAuditEvent rt (totp_audit identityId ''auth.totp.recovery_codes.regenerated''
            [(''recoveryCodeCount'', JNum (int (length recoveryCodes)))]))
         (ret recoveryCodes))))"

section \<open>Recovery\<close>

definition recover_tx ::
    "runtime \<Rightarrow> totp_env \<Rightarrow> uuid \<Rightarrow> uuid \<Rightarrow> string \<Rightarrow> string \<Rightarrow> ('z totp_db_scheme, unit) tx" where
  "recover_tx rt te identityId sessionId digest secret =
     bnd (query (\<lambda>s. first_row (\<lambda>r. ss_id r = sessionId \<and> ss_identity_id r = Some identityId \<and> session_live (clock s) r)
                  (auth_sessions s))) (\<lambda>session.
     case session of
       None \<Rightarrow> throw (TotpFactorError ''The current session is not eligible for MFA recovery'')
     | Some current \<Rightarrow>
       andThen (require (ss_subject_id current \<noteq> []) (TotpFactorError ''The current session is not eligible for MFA recovery''))
       (bnd (query (factor_of identityId)) (\<lambda>factor.
        andThen (require (case factor of None \<Rightarrow> False | Some f \<Rightarrow> tf_confirmed_at f \<noteq> None \<and> tf_disabled_at f = None)
          (TotpFactorError ''An active authenticator factor is required for recovery''))
        (bnd (query (\<lambda>s. first_row (\<lambda>r. code_open identityId r \<and> rcv_code_digest r = digest) (totp_recovery_codes s))) (\<lambda>found.
         case found of
           None \<Rightarrow> throw (TotpFactorError ''Recovery code is invalid or has already been used'')
         | Some recoveryCode \<Rightarrow>
           andThen (modify (\<lambda>s. s\<lparr>totp_recovery_codes :=
              update_where (\<lambda>r. rcv_id r = rcv_id recoveryCode) (\<lambda>r. r\<lparr>rcv_used_at := Some (clock s)\<rparr>) (totp_recovery_codes s)\<rparr>))
           (andThen (modify (\<lambda>s. s\<lparr>totp_recovery_codes :=
              update_where (\<lambda>r. code_open identityId r \<and> rcv_id r \<noteq> rcv_id recoveryCode)
                (\<lambda>r. r\<lparr>rcv_replaced_at := Some (clock s)\<rparr>) (totp_recovery_codes s)\<rparr>))
           (bnd (encrypt te secret) (\<lambda>ciphertext.
            andThen (update_factor identityId (\<lambda>_. reset_factor ciphertext))
            (andThen (modify (\<lambda>s. s\<lparr>auth_step_up_grants :=
               filter (\<lambda>g. sg_identity_id g \<noteq> identityId) (auth_step_up_grants s)\<rparr>))
            (andThen (modify (\<lambda>s. s\<lparr>auth_sessions :=
               update_where (\<lambda>r. ss_subject_id r = ss_subject_id current \<and> ss_id r \<noteq> sessionId \<and> ss_revoked_at r = None)
                 (mark_revoked ''mfa_recovery'' (clock s)) (auth_sessions s)\<rparr>))
            (andThen (appendPostgresAuditEvent rt (totp_audit identityId ''auth.totp.recovered''
               [(''sessionId'', JStr sessionId), (''otherSessionsRevoked'', JBool True), (''priorStepUpRevoked'', JBool True)]))
            (ret ()))))))))))))"

definition recoverTotpFactor ::
    "runtime \<Rightarrow> totp_env \<Rightarrow> uuid \<Rightarrow> uuid \<Rightarrow> string \<Rightarrow> 'z totp_db_scheme \<Rightarrow> (error + string \<times> string) \<times> 'z totp_db_scheme" where
  "recoverTotpFactor rt te identityId sessionId c s =
     (case recoveryCodeDigest rt te c of
        Inl e \<Rightarrow> (Inl e, s)
      | Inr digest \<Rightarrow>
          (let secret = base32Encode (te_bytes te (uuids_drawn s) 20);
               s0 = s\<lparr>uuids_drawn := Suc (uuids_drawn s)\<rparr>
           in case withPostgresTransaction no_deferred (recover_tx rt te identityId sessionId digest secret) s0 of
                (Inl e, s') \<Rightarrow> (Inl e, s')
              | (Inr _, s') \<Rightarrow> (Inr (secret, otpauth_uri identityId secret), s')))"

lemmas [tx_defs] = draw_bytes_def encrypt_def newRecoveryCode_def insert_recovery_code_def replaceRecoveryCodes_def
  update_factor_def verifyLockedTotpFactor_def enroll_tx_def recover_tx_def

end
