(* ===== verification/Totp_Codes.thy ===== *)
theory Totp_Codes
  imports Totp
begin

text \<open>
  What the text and number formats of \<^verbatim>\<open>src/platform/totp-factors.ts\<close> guarantee: base 32 and recovery codes
  are round trips, and the one-time codes are those of RFC 4226. The bit buffers of the encoder and the
  decoder are related through the sequence of bits they hold.
\<close>

section \<open>Base 32 is a round trip\<close>

text \<open>The low \<open>n\<close> bits of a word, most significant first.\<close>

definition bits_of :: "nat \<Rightarrow> 'a :: len word \<Rightarrow> bool list" where
  "bits_of n w = map (bit w) (rev [0..<n])"

lemma length_bits_of [simp]: "length (bits_of n w) = n"
  by (simp add: bits_of_def)

lemma nth_bits_of: "i < n \<Longrightarrow> bits_of n w ! i = bit w (n - 1 - i)"
  by (simp add: bits_of_def rev_nth)

lemma bits_of_eq_iff: "bits_of n w = bits_of n w' \<longleftrightarrow> (\<forall>i < n. bit w i = bit w' i)"
proof -
  have "bits_of n w = bits_of n w' \<longleftrightarrow> (\<forall>i \<in> set (rev [0..<n]). bit w i = bit w' i)"
    unfolding bits_of_def by (rule map_eq_conv)
  then show ?thesis by auto
qed

lemma bits_of_add: "bits_of (m + n) w = bits_of m (drop_bit n w) @ bits_of n w"
proof (rule nth_equalityI)
  fix i assume "i < length (bits_of (m + n) w)"
  then show "bits_of (m + n) w ! i = (bits_of m (drop_bit n w) @ bits_of n w) ! i"
    by (auto simp: nth_bits_of nth_append bit_drop_bit_eq intro!: arg_cong [where f = "bit w"])
qed simp

lemma bits_of_mask: "k \<le> n \<Longrightarrow> bits_of k (w AND mask n) = bits_of k w"
  by (auto simp: bits_of_eq_iff bit_simps dest: bit_imp_le_length)

lemma bits_of_join:
  fixes v :: "'a :: len word" and y :: "'b :: len word"
  assumes "b + k \<le> LENGTH('a)" and "\<And>i. k \<le> i \<Longrightarrow> \<not> bit y i"
  shows "bits_of (b + k) (push_bit k v OR ucast y) = bits_of b v @ bits_of k y"
proof -
  have "bits_of b (drop_bit k (push_bit k v OR ucast y)) = bits_of b v"
    using assms by (auto simp: bits_of_eq_iff bit_simps)
  moreover have "bits_of k (push_bit k v OR (ucast y :: 'a word)) = bits_of k y"
    using assms(1) by (auto simp: bits_of_def bit_simps)
  ultimately show ?thesis by (simp only: bits_of_add)
qed

lemma bits_of_inject:
  fixes v w :: "'a :: len word"
  assumes "bits_of LENGTH('a) v = bits_of LENGTH('a) w"
  shows "v = w"
  using assms by (auto simp: bits_of_eq_iff intro: bit_word_eqI)

text \<open>The index of a letter of the alphabet, as the five bits it stands for.\<close>

definition letter_bits :: "char \<Rightarrow> bool list" where
  "letter_bits c = (case index_of c ALPHABET of None \<Rightarrow> [] | Some i \<Rightarrow> bits_of 5 (of_nat i :: 5 word))"

lemma index_of_nth: "distinct xs \<Longrightarrow> i < length xs \<Longrightarrow> index_of (xs ! i) xs = Some i"
proof (induction xs arbitrary: i)
  case (Cons x xs)
  then show ?case by (cases i) auto
qed simp

lemma ALPHABET_distinct: "distinct ALPHABET" and ALPHABET_length: "length ALPHABET = 32"
  unfolding ALPHABET_def by code_simp+

lemma index_of_ALPHABET: "index_of (ALPHABET ! unat (w :: 5 word)) ALPHABET = Some (unat w)"
  using unsigned_less [of w] by (intro index_of_nth) (simp_all add: ALPHABET_distinct ALPHABET_length)

lemma letter_bits_ALPHABET [simp]: "letter_bits (ALPHABET ! unat (w :: 5 word)) = bits_of 5 w"
  by (simp add: letter_bits_def index_of_ALPHABET)

lemma bits_of_ucast: "n \<le> LENGTH('b) \<Longrightarrow> bits_of n (ucast (w :: 'a :: len word) :: 'b :: len word) = bits_of n w"
  by (auto simp: bits_of_def bit_simps)

lemma low_five: "unat (v AND 31 :: int32) = unat (ucast v :: 5 word)"
proof -
  have "v AND mask 5 = ucast (ucast v :: 5 word)"
    by (rule bit_word_eqI) (auto simp: bit_simps)
  moreover have "(31 :: int32) = mask 5" by (simp add: mask_eq_exp_minus_1)
  ultimately have "v AND 31 = ucast (ucast v :: 5 word)" by metis
  then show ?thesis by (simp add: unsigned_ucast_eq unsigned_take_bit_eq)
qed

lemma low_letter: "letter_bits (ALPHABET ! unat (v AND 31 :: int32)) = bits_of 5 v"
  by (simp add: low_five bits_of_ucast)

lemma low_byte: "bits_of 8 (ucast (v AND 255 :: int32) :: byte) = bits_of 8 v"
  using bits_of_mask [of 8 8 v] by (simp add: bits_of_ucast mask_eq_exp_minus_1)

subsection \<open>Encoding\<close>

lemma emit_groups_bits:
  "emit_groups v n = (out, rest) \<Longrightarrow> rest < 5 \<and> concat (map letter_bits out) @ bits_of rest v = bits_of n v"
proof (induction v n arbitrary: out rest rule: emit_groups.induct)
  case (1 v n)
  show ?case
  proof (cases "5 \<le> n")
    case True
    then obtain out' where e: "emit_groups v (n - 5) = (out', rest)"
      and out: "out = ALPHABET ! unat (drop_bit (n - 5) v AND 31) # out'"
      using "1.prems" by (subst (asm) emit_groups.simps) (auto split: prod.splits)
    have "bits_of n v = bits_of 5 (drop_bit (n - 5) v) @ bits_of (n - 5) v"
      using bits_of_add [of 5 "n - 5" v] True by simp
    then show ?thesis using "1.IH" [OF True e] by (simp add: out low_letter)
  next
    case False
    then show ?thesis using "1.prems" by (subst (asm) emit_groups.simps) auto
  qed
qed

lemma encode_bytes_bits:
  "b < 5 \<Longrightarrow> \<exists>pad. length pad < 5
     \<and> concat (map letter_bits (encode_bytes bs v b)) = bits_of b v @ concat (map (bits_of 8) bs) @ pad"
proof (induction bs v b rule: encode_bytes.induct)
  case (1 v b)
  have "bits_of 5 (push_bit (5 - b) v) = bits_of b v @ replicate (5 - b) False" if "0 < b"
  proof -
    have "bits_of b (drop_bit (5 - b) (push_bit (5 - b) v)) = bits_of b v"
      using 1 by (auto simp: bits_of_eq_iff bit_simps)
    moreover have "bits_of (5 - b) (push_bit (5 - b) v) = replicate (5 - b) False"
      by (auto simp: list_eq_iff_nth_eq nth_bits_of bit_simps)
    ultimately show ?thesis using bits_of_add [of b "5 - b" "push_bit (5 - b) v"] 1 by simp
  qed
  then show ?case using 1 by (auto simp: low_letter bits_of_def intro: exI [of _ "replicate (5 - b) False"])
next
  case (2 y bs v b)
  let ?v = "push_bit 8 v OR ucast y"
  obtain out rest where e: "emit_groups ?v (b + 8) = (out, rest)" by fastforce
  then have rest: "rest < 5" and bits: "concat (map letter_bits out) @ bits_of rest ?v = bits_of (b + 8) ?v"
    using emit_groups_bits by blast+
  have "bits_of (b + 8) ?v = bits_of b v @ bits_of 8 y"
    using 2(2) by (intro bits_of_join) (auto dest: bit_imp_le_length)
  then show ?case using "2.IH" [OF refl e [symmetric] rest] bits by (auto simp: e Let_def)
qed

subsection \<open>Decoding\<close>

lemma index_of_bound: "index_of c xs = Some i \<Longrightarrow> i < length xs"
  by (induction xs arbitrary: i) (auto split: if_splits)

lemma next_letter:
  assumes "index_of c ALPHABET = Some i" and "b < 8"
  shows "bits_of (b + 5) (push_bit 5 v OR of_nat i :: int32) = bits_of b v @ letter_bits c"
proof -
  have "i < 2 ^ 5" using index_of_bound [OF assms(1)] by (simp add: ALPHABET_length)
  then have "(of_nat i :: int32) = ucast (of_nat i :: 5 word)"
    by (simp add: unsigned_of_nat take_bit_nat_eq_self)
  moreover have "bits_of (b + 5) (push_bit 5 v OR ucast (of_nat i :: 5 word)) = bits_of b v @ bits_of 5 (of_nat i :: 5 word)"
    using assms(2) by (intro bits_of_join) (auto dest: bit_imp_le_length)
  ultimately show ?thesis using assms(1) by (simp add: letter_bits_def)
qed

lemma decode_chars_bits:
  "b < 8 \<Longrightarrow> set cs \<subseteq> set ALPHABET \<Longrightarrow>
   \<exists>ys rest. decode_chars cs v b = Inr ys \<and> length rest < 8
     \<and> bits_of b v @ concat (map letter_bits cs) = concat (map (bits_of 8) ys) @ rest"
proof (induction cs arbitrary: v b)
  case Nil
  then show ?case by auto
next
  case (Cons c cs)
  from Cons.prems obtain i where i: "index_of c ALPHABET = Some i" by (auto simp: in_set_conv_nth index_of_nth ALPHABET_distinct)
  let ?v = "push_bit 5 v OR of_nat i :: int32"
  have bits: "bits_of (b + 5) ?v = bits_of b v @ letter_bits c" using next_letter [OF i Cons.prems(1)] .
  show ?case
  proof (cases "8 \<le> b + 5")
    case True
    define y where "y = (ucast (drop_bit (b + 5 - 8) ?v AND 255) :: byte)"
    have split: "bits_of (b + 5) ?v = bits_of 8 y @ bits_of (b + 5 - 8) ?v"
      using bits_of_add [of 8 "b + 5 - 8" ?v] True by (simp add: y_def low_byte add.commute)
    obtain ys rest where ys: "decode_chars cs ?v (b + 5 - 8) = Inr ys" "length rest < 8"
      "bits_of (b + 5 - 8) ?v @ concat (map letter_bits cs) = concat (map (bits_of 8) ys) @ rest"
      using Cons.IH [of "b + 5 - 8" ?v] Cons.prems by (auto simp: less_imp_diff_less)
    have "decode_chars (c # cs) v b = Inr (y # ys)" using True ys(1) by (simp add: i Let_def y_def)
    moreover have "bits_of b v @ concat (map letter_bits (c # cs)) = concat (map (bits_of 8) (y # ys)) @ rest"
      using ys(3) by (simp add: trans [OF bits [symmetric] split] flip: append_assoc) (simp only: append_assoc)
    ultimately show ?thesis using ys(2) by blast
  next
    case False
    then show ?thesis using Cons.IH [of "b + 5" ?v] Cons.prems bits by (auto simp: i Let_def)
  qed
qed

lemma concat_bits_inject:
  "length xs = length ys \<Longrightarrow> concat (map (bits_of 8) xs) @ p = concat (map (bits_of 8) ys) @ q \<Longrightarrow> xs = (ys :: byte list)"
proof (induction xs ys rule: list_induct2)
  case (Cons x xs y ys)
  then show ?case using bits_of_inject [of x y] by auto
qed simp

lemma length_concat_bits: "length (concat (map (bits_of 8) xs)) = 8 * length xs"
  by (induction xs) auto

lemma ALPHABET_nth: "ALPHABET ! unat (v AND 31 :: int32) \<in> set ALPHABET"
  using unsigned_less [of "ucast v :: 5 word"] by (auto simp: low_five ALPHABET_length intro!: nth_mem)

lemma emit_groups_letters: "set (fst (emit_groups v n)) \<subseteq> set ALPHABET"
proof (induction v n rule: emit_groups.induct)
  case (1 v n)
  then show ?case by (subst emit_groups.simps) (auto simp: ALPHABET_nth split: prod.splits)
qed

lemma encode_bytes_letters: "set (encode_bytes bs v b) \<subseteq> set ALPHABET"
proof (induction bs v b rule: encode_bytes.induct)
  case (2 y bs v b)
  obtain out rest where e: "emit_groups (push_bit 8 v OR ucast y) (b + 8) = (out, rest)" by fastforce
  then have "set out \<subseteq> set ALPHABET" using emit_groups_letters [of "push_bit 8 v OR ucast y" "b + 8"] by simp
  then show ?case using 2 [OF refl e [symmetric]] by (simp add: e Let_def)
qed (auto simp: ALPHABET_nth)

lemma ALPHABET_plain: "list_all (\<lambda>c. \<not> is_space c \<and> c \<noteq> CHR ''='' \<and> to_upper c = c) ALPHABET"
  unfolding ALPHABET_def by code_simp

lemma ALPHABET_kept:
  assumes "set cs \<subseteq> set ALPHABET"
  shows "toUpperCase (filter (\<lambda>c. \<not> is_space c \<and> c \<noteq> CHR ''='') cs) = cs"
  using assms ALPHABET_plain
  by (auto simp: toUpperCase_def list_all_iff subset_iff filter_id_conv map_idI intro!: trans [OF arg_cong [where f = "map to_upper"]])

lemma base32_decode_encode: "base32Decode (base32Encode bs) = Inr bs"
proof -
  obtain pad where pad: "length pad < 5"
      "concat (map letter_bits (base32Encode bs)) = concat (map (bits_of 8) bs) @ pad"
    using encode_bytes_bits [of 0 bs 0] by (auto simp: base32Encode_def bits_of_def)
  have letters: "set (base32Encode bs) \<subseteq> set ALPHABET" by (simp add: base32Encode_def encode_bytes_letters)
  then obtain ys rest where ys: "decode_chars (base32Encode bs) 0 0 = Inr ys" "length rest < 8"
      "concat (map letter_bits (base32Encode bs)) = concat (map (bits_of 8) ys) @ rest"
    using decode_chars_bits [of 0 "base32Encode bs" 0] by (auto simp: bits_of_def)
  from pad(2) ys(3) have eq: "concat (map (bits_of 8) ys) @ rest = concat (map (bits_of 8) bs) @ pad" by simp
  from arg_cong [OF eq, of length] have "8 * length ys + length rest = 8 * length bs + length pad"
    by (simp only: length_append length_concat_bits)
  with pad(1) ys(2) have "length ys = length bs" by presburger
  then have "ys = bs" using concat_bits_inject eq by blast
  then show ?thesis using ys(1) by (simp add: base32Decode_def ALPHABET_kept [OF letters])
qed

text \<open>C27: base 32 is a round trip. Whatever bytes are encoded, decoding gives them back: the secret an
  authenticator app receives as text is the key the server computes codes with.\<close>

theorem base32_roundtrip: "base32Decode (base32Encode bs) = Inr bs"
  by (rule base32_decode_encode)

section \<open>One-time codes\<close>

text \<open>The number a sequence of bytes spells, most significant first.\<close>

definition be_value :: "byte list \<Rightarrow> int" where
  "be_value bs = foldl (\<lambda>n b. 256 * n + uint b) 0 bs"

lemma be_value_Nil [simp]: "be_value [] = 0"
  by (simp add: be_value_def)

lemma be_value_snoc [simp]: "be_value (bs @ [b]) = 256 * be_value bs + uint b"
  by (simp add: be_value_def)

lemma be_value_Cons: "be_value (b # bs) = uint b * 256 ^ length bs + be_value bs"
proof (induction bs rule: rev_induct)
  case Nil
  show ?case by (simp add: be_value_def)
next
  case (snoc x bs)
  have "be_value ((b # bs) @ [x]) = 256 * be_value (b # bs) + uint x" by (rule be_value_snoc)
  then show ?case using snoc by (simp add: algebra_simps)
qed

lemma be_value_bytes: "be_value (map (\<lambda>i. word_of_int (drop_bit (8 * i) n)) (rev [0..<k])) = n mod 256 ^ k"
proof (induction k)
  case (Suc k)
  have "uint (word_of_int (drop_bit (8 * k) n) :: byte) = n div 256 ^ k mod 256"
    by (simp add: uint_word_of_int drop_bit_eq_div power_mult)
  moreover have "n mod 256 ^ Suc k = 256 ^ k * (n div 256 ^ k mod 256) + n mod 256 ^ k"
    using zmod_zmult2_eq [of 256 n "256 ^ k"] by (simp add: mult.commute)
  ultimately show ?case using Suc by (simp add: be_value_Cons)
qed simp

lemma counter_buffer_value: "0 \<le> n \<Longrightarrow> n < 2 ^ 64 \<Longrightarrow> be_value (counter_buffer n) = n"
  unfolding counter_buffer_def be_value_bytes by simp

lemma byte_less: "uint (y :: byte) < 256"
  by (rule order_less_le_trans [OF unsigned_less]) simp

lemma uint_join_byte:
  fixes v :: int32 and y :: byte
  assumes "uint v < 2 ^ 24"
  shows "uint (push_bit 8 v OR ucast y :: int32) = 256 * uint v + uint y"
proof -
  have "uint (push_bit 8 v) = 256 * uint v"
    using assms by (simp add: push_bit_eq_mult uint_word_ariths)
  moreover have "push_bit 8 v AND ucast y = (0 :: int32)"
    by (rule bit_word_eqI) (auto simp: bit_simps dest: bit_imp_le_length)
  then have "push_bit 8 v OR ucast y = push_bit 8 v + (ucast y :: int32)"
    by (simp add: disjunctive_add_eq_or)
  moreover have "uint (ucast y :: int32) = uint y" 
    using byte_less [of y] by (simp add: unsigned_ucast_eq take_bit_int_eq_self)
  ultimately show ?thesis using assms byte_less [of y]
    by (simp add: uint_word_ariths)
qed

lemma uint_join_four:
  fixes a :: int32 and b c d :: byte
  assumes "uint a < 128"
  shows "uint (push_bit 8 (push_bit 8 (push_bit 8 a OR ucast b) OR ucast c) OR ucast d)
     = 256 * (256 * (256 * uint a + uint b) + uint c) + uint d"
proof -
  let ?x = "push_bit 8 a OR ucast b"
  have x: "uint ?x = 256 * uint a + uint b" using assms by (intro uint_join_byte) simp
  then have y: "uint (push_bit 8 ?x OR ucast c) = 256 * uint ?x + uint c"
    using assms byte_less [of b] by (intro uint_join_byte) simp
  then have "uint (push_bit 8 (push_bit 8 ?x OR ucast c) OR ucast d) = 256 * uint (push_bit 8 ?x OR ucast c) + uint d"
    using assms byte_less [of b] byte_less [of c] x by (intro uint_join_byte) simp
  then show ?thesis by (simp only: x y)
qed

lemma drop_sign_bit:
  fixes a r :: int
  assumes "0 \<le> r" and "r < 16777216"
  shows "(16777216 * a + r) mod 2147483648 = 16777216 * (a mod 128) + r"
  using zmod_zmult2_eq [of 128 "16777216 * a + r" 16777216] assms by simp

lemma truncate_digest_value:
  assumes "length digest = 20"
  shows "uint (truncate_digest digest) = be_value (take 4 (drop (unat (last digest AND 15)) digest)) mod 2 ^ 31"
proof -
  define k where "k = unat (last digest AND 15)"
  have "last digest AND 15 \<le> 15" by (rule word_and_le1)
  then have "k \<le> 15" by (simp add: k_def word_le_nat_alt)
  then have four: "take 4 (drop k digest) = [digest ! k, digest ! (k + 1), digest ! (k + 2), digest ! (k + 3)]"
    using assms by (auto simp: list_eq_iff_nth_eq less_Suc_eq numeral_eq_Suc)
  let ?a = "ucast (digest ! k) AND 127 :: int32"
  have "127 = (mask 7 :: int32)" by (simp add: mask_eq_exp_minus_1)
  then have "?a = take_bit 7 (ucast (digest ! k))" by (metis take_bit_eq_mask)
  then have a: "uint ?a = uint (digest ! k) mod 128"
    by (simp add: unsigned_take_bit_eq unsigned_ucast_eq) (simp add: take_bit_eq_mod)
  have "truncate_digest digest = push_bit 8 (push_bit 8 (push_bit 8 ?a OR ucast (digest ! (k + 1)))
      OR ucast (digest ! (k + 2))) OR ucast (digest ! (k + 3))"
    by (simp add: truncate_digest_def Let_def k_def push_bit_push_bit or.assoc)
  then have "uint (truncate_digest digest) = 256 * (256 * (256 * uint ?a + uint (digest ! (k + 1))) + uint (digest ! (k + 2)))
      + uint (digest ! (k + 3))"
    by (simp only: uint_join_four a pos_mod_bound)
  moreover have "be_value (take 4 (drop k digest)) = 16777216 * uint (digest ! k)
      + (65536 * uint (digest ! (k + 1)) + 256 * uint (digest ! (k + 2)) + uint (digest ! (k + 3)))"
    by (simp add: four be_value_def)
  moreover have "65536 * uint (digest ! (k + 1)) + 256 * uint (digest ! (k + 2)) + uint (digest ! (k + 3)) < 16777216"
    using byte_less [of "digest ! (k + 1)"] byte_less [of "digest ! (k + 2)"] byte_less [of "digest ! (k + 3)"] by linarith
  ultimately show ?thesis using drop_sign_bit a by (simp add: k_def [symmetric])
qed

lemma show_digits_length: "0 \<le> n \<Longrightarrow> n < 10 ^ Suc k \<Longrightarrow> length (show_digits n) \<le> Suc k"
proof (induction k arbitrary: n)
  case 0
  then show ?case by (simp add: show_digits.simps [of n])
next
  case (Suc k)
  then have "n div 10 < 10 ^ Suc k" by (simp add: div_less_iff_less_mult mult.commute)
  then show ?case using Suc.IH [of "n div 10"] Suc.prems by (subst show_digits.simps) auto
qed

lemma six_digits_pad:
  assumes "0 \<le> n" and "n < 1000000"
  shows "six_digits (padStart 6 (CHR ''0'') (show_int n))" and "read_digits (padStart 6 (CHR ''0'') (show_int n)) = n"
  using assms show_digits_length [of n 5] show_digits_digits [of n]
  by (auto simp: six_digits_def padStart_def show_int_def read_digits_zeros list_all_iff is_digit_def code_of_def)

text \<open>C26: the codes are the ones of RFC 4226 and RFC 6238. For a secret as the server hands it out and any
  counter a 64-bit buffer can hold, code generation succeeds, whatever the HMAC of SHA-1 answers (twenty
  bytes): the eight bytes hashed spell the counter, and the code is the six decimal digits of the four bytes
  at the offset the last nibble names, without their sign bit, modulo a million. The signed 32-bit
  arithmetic of the implementation never overflows into the sign.\<close>

theorem totp_code_rfc4226:
  assumes "0 \<le> counter" and "counter < 2 ^ 64" and "\<And>key msg. length (te_hmac_sha1 te key msg) = 20"
  shows "let digest = te_hmac_sha1 te bs (counter_buffer counter) in
     be_value (counter_buffer counter) = counter
     \<and> 0 \<le> sint (truncate_digest digest)
     \<and> (\<exists>c. generateTotpCode te (base32Encode bs) counter = Inr c \<and> six_digits c
         \<and> read_digits c = be_value (take 4 (drop (unat (last digest AND 15)) digest)) mod 2 ^ 31 mod 10 ^ 6)"
proof -
  let ?digest = "te_hmac_sha1 te bs (counter_buffer counter)"
  have bound: "uint (truncate_digest ?digest) < 2 ^ 31" by (simp add: truncate_digest_value assms(3))
  then have "signed_take_bit 31 (uint (truncate_digest ?digest)) = uint (truncate_digest ?digest)"
    by (intro signed_take_bit_int_eq_self) (auto intro: order_trans [of _ 0])
  then have "0 \<le> sint (truncate_digest ?digest)" by (simp add: sint_uint)
  moreover have "generateTotpCode te (base32Encode bs) counter
      = Inr (padStart 6 (CHR ''0'') (show_int (uint (truncate_digest ?digest) mod 1000000)))"
    using assms(1,2) by (simp add: generateTotpCode_def base32_decode_encode)
  ultimately show ?thesis
    using six_digits_pad [of "uint (truncate_digest ?digest) mod 1000000"] assms
    by (auto simp: Let_def counter_buffer_value truncate_digest_value)
qed

definition sample_totp_env :: totp_env where
  "sample_totp_env = \<lparr>MFA_TOTP_ENCRYPTION_KEY = Some ''00'', MFA_RECOVERY_CODE_PEPPER = Some ''00'',
     te_bytes = (\<lambda>n k. map (\<lambda>i. of_nat (n + i)) [0..<k]), te_hmac_sha1 = (\<lambda>key msg. take 20 (msg @ key @ replicate 20 7)),
     te_seal = (\<lambda>key iv secret. secret), te_open = (\<lambda>key t. Some t)\<rparr>"

theorem totp_code_rfc4226_witness:
  "let digest = te_hmac_sha1 sample_totp_env [1, 2, 3] (counter_buffer 57000000) in
     be_value (counter_buffer 57000000) = 57000000
     \<and> 0 \<le> sint (truncate_digest digest)
     \<and> (\<exists>c. generateTotpCode sample_totp_env (base32Encode [1, 2, 3]) 57000000 = Inr c \<and> six_digits c
         \<and> read_digits c = be_value (take 4 (drop (unat (last digest AND 15)) digest)) mod 2 ^ 31 mod 10 ^ 6)"
  by (rule totp_code_rfc4226) (simp_all add: sample_totp_env_def)

section \<open>Recovery codes\<close>

lemma filter_join_with: "\<not> P s \<Longrightarrow> filter P (join_with [s] yss) = concat (map (filter P) yss)"
  by (induction "[s]" yss rule: join_with.induct) auto

lemma concat_chunks: "0 < n \<Longrightarrow> concat (chunks n xs) = xs"
proof (induction n xs rule: chunks.induct)
  case (1 n xs)
  then show ?case by (subst chunks.simps) auto
qed

lemma filter_trim: "(\<And>c. is_space c \<Longrightarrow> \<not> P c) \<Longrightarrow> filter P (trim t) = filter P t"
proof -
  assume P: "\<And>c. is_space c \<Longrightarrow> \<not> P c"
  have drop: "filter P (dropWhile is_space xs) = filter P xs" for xs by (induction xs) (auto simp: P)
  show ?thesis by (simp add: trim_def drop rev_filter [symmetric])
qed

text \<open>What is left of a typed code: its letters in upper case.\<close>

definition code_letters :: "string \<Rightarrow> string" where
  "code_letters t = filter (\<lambda>x. \<not> is_space x \<and> x \<noteq> CHR ''-'') (toUpperCase t)"

lemma normalizeRecoveryCode_letters:
  "normalizeRecoveryCode t =
     (if length (code_letters t) \<noteq> RECOVERY_CODE_LENGTH \<or> \<not> set (code_letters t) \<subseteq> set RECOVERY_CODE_ALPHABET
      then Inl (TotpFactorError ''Invalid recovery code'') else Inr (code_letters t))"
proof -
  have "code_letters t = filter (\<lambda>x. \<not> is_space x \<and> x \<noteq> CHR ''-'') (toUpperCase (trim t))"
    by (simp add: code_letters_def filter_trim flip: trim_toUpperCase)
  then show ?thesis by (simp add: normalizeRecoveryCode_def Let_def)
qed

lemma RECOVERY_letters:
  "list_all (\<lambda>c. \<not> is_space c \<and> c \<noteq> CHR ''-'' \<and> to_upper c = c \<and> to_upper (to_lower c) = c) RECOVERY_CODE_ALPHABET"
  unfolding RECOVERY_CODE_ALPHABET_def by code_simp

lemma RECOVERY_length: "length RECOVERY_CODE_ALPHABET = 32"
  by (simp add: RECOVERY_CODE_ALPHABET_def)

lemma recovery_chars_letters: "set (recovery_chars bytes) \<subseteq> set RECOVERY_CODE_ALPHABET"
proof -
  have "unat (b AND 31) < 32" for b :: byte
    using word_and_le1 [of b 31] by (simp add: word_le_nat_alt)
  then show ?thesis by (auto simp: recovery_chars_def RECOVERY_length intro!: nth_mem)
qed

lemma grouped_letters:
  assumes "f (CHR ''-'') = CHR ''-''" and "\<forall>c \<in> set cs. f c = c \<and> \<not> is_space c \<and> c \<noteq> CHR ''-''"
  shows "filter (\<lambda>x. \<not> is_space x \<and> x \<noteq> CHR ''-'') (map f (join_with ''-'' (chunks 4 cs))) = cs"
proof -
  let ?P = "\<lambda>x. \<not> is_space (f x) \<and> f x \<noteq> CHR ''-''"
  have "filter ?P (join_with ''-'' (chunks 4 cs)) = filter ?P (concat (chunks 4 cs))"
    using assms(1) by (simp add: filter_join_with filter_concat)
  also have "\<dots> = cs" using assms(2) by (simp add: concat_chunks)
  finally show ?thesis using assms(2) by (simp add: filter_map comp_def map_idI)
qed

lemma code_letters_grouped:
  assumes "set cs \<subseteq> set RECOVERY_CODE_ALPHABET"
  shows "code_letters (join_with ''-'' (chunks 4 cs)) = cs"
    and "code_letters (toLowerCase (join_with ''-'' (chunks 4 cs))) = cs"
proof -
  have plain: "\<forall>c \<in> set cs. \<not> is_space c \<and> c \<noteq> CHR ''-'' \<and> to_upper c = c \<and> to_upper (to_lower c) = c"
    using assms RECOVERY_letters by (auto simp: list_all_iff)
  have dash: "to_upper (CHR ''-'') = CHR ''-''" "to_lower (CHR ''-'') = CHR ''-''" by code_simp+
  show "code_letters (join_with ''-'' (chunks 4 cs)) = cs"
    using grouped_letters [of to_upper cs] plain dash by (simp add: code_letters_def toUpperCase_def)
  show "code_letters (toLowerCase (join_with ''-'' (chunks 4 cs))) = cs"
    using grouped_letters [of "\<lambda>c. to_upper (to_lower c)" cs] plain dash
    by (simp add: code_letters_def toUpperCase_def toLowerCase_def comp_def)
qed

text \<open>Recovery codes can be typed back. Sixteen random bytes become a code of four groups, and the code is
  recognised with its groups or in lower case, as the sixteen letters that were digested when it was stored;
  surrounding blanks do not matter.\<close>

theorem recovery_code_roundtrip:
  assumes "length bytes = RECOVERY_CODE_LENGTH" and "list_all is_space before" and "list_all is_space after"
  shows "let c = join_with ''-'' (chunks 4 (recovery_chars bytes)) in
     normalizeRecoveryCode (before @ c @ after) = Inr (recovery_chars bytes)
     \<and> normalizeRecoveryCode (before @ toLowerCase c @ after) = Inr (recovery_chars bytes)"
proof -
  have blank: "code_letters t = []" if "list_all is_space t" for t
    using that by (auto simp: code_letters_def toUpperCase_def list_all_iff filter_empty_conv)
  have append: "code_letters (x @ y) = code_letters x @ code_letters y" for x y
    by (simp add: code_letters_def toUpperCase_def)
  have "length (recovery_chars bytes) = RECOVERY_CODE_LENGTH" using assms(1) by (simp add: recovery_chars_def)
  then show ?thesis
    by (simp add: Let_def normalizeRecoveryCode_letters append blank assms(2,3) recovery_chars_letters
        code_letters_grouped [OF recovery_chars_letters])
qed

theorem recovery_code_roundtrip_witness:
  "let c = join_with ''-'' (chunks 4 (recovery_chars [7, 200, 31, 64, 99, 1, 0, 255, 16, 17, 18, 19, 20, 21, 22, 23])) in
     normalizeRecoveryCode ('' '' @ c @ []) = Inr (recovery_chars [7, 200, 31, 64, 99, 1, 0, 255, 16, 17, 18, 19, 20, 21, 22, 23])
     \<and> normalizeRecoveryCode ('' '' @ toLowerCase c @ [])
       = Inr (recovery_chars [7, 200, 31, 64, 99, 1, 0, 255, 16, 17, 18, 19, 20, 21, 22, 23])"
  by (rule recovery_code_roundtrip) (simp_all add: RECOVERY_CODE_LENGTH_def is_space_def code_of_def)

end
