(* ===== verification/Totp_Factors.thy ===== *)
theory Totp_Factors
  imports Totp_Codes
begin

text \<open>
  What authenticator factors guarantee over histories of enrolments, checks, recoveries and session commands:
  a one-time code is accepted once, a recovery code is accepted once, and what a recovery revokes.
\<close>

section \<open>Histories that keep a fact\<close>

locale stable_history =
  fixes step :: "'c \<Rightarrow> 's \<Rightarrow> 's" and allowed :: "'c \<Rightarrow> bool" and keeps :: "'s \<Rightarrow> bool"
  assumes step_keeps: "allowed c \<Longrightarrow> keeps s \<Longrightarrow> keeps (step c s)"
begin

lemma history_keeps: "list_all allowed cs \<Longrightarrow> keeps s \<Longrightarrow> keeps (fold step cs s)"
  by (induction cs arbitrary: s) (simp_all add: step_keeps)

end

section \<open>Commands\<close>

datatype totp_command =
    Enroll uuid
  | ConfirmOrVerify uuid string int
  | VerifyConfirmed uuid string int
  | RegenerateCodes uuid string int
  | Recover uuid uuid string
  | OnSessions session_command

definition outcome :: "(error + 'a) \<times> 's \<Rightarrow> (error + unit) \<times> 's" where
  "outcome r = map_prod (map_sum id (\<lambda>_. ())) id r"

fun run_totp_command ::
    "runtime \<Rightarrow> auth_env \<Rightarrow> totp_env \<Rightarrow> totp_command \<Rightarrow> 'z totp_db_scheme \<Rightarrow> (error + unit) \<times> 'z totp_db_scheme" where
  "run_totp_command rt ae te (Enroll i) s = outcome (enrollTotpFactor rt te i s)"
| "run_totp_command rt ae te (ConfirmOrVerify i c now) s = outcome (confirmOrVerifyTotpFactor rt te i c now s)"
| "run_totp_command rt ae te (VerifyConfirmed i c now) s = verifyConfirmedTotpFactor te i c now s"
| "run_totp_command rt ae te (RegenerateCodes i c now) s = outcome (regenerateTotpRecoveryCodes rt te i c now s)"
| "run_totp_command rt ae te (Recover i sid c) s = outcome (recoverTotpFactor rt te i sid c s)"
| "run_totp_command rt ae te (OnSessions sc) s = (Inr (), run_session_command rt ae sc s)"

definition totp_step :: "runtime \<Rightarrow> auth_env \<Rightarrow> totp_env \<Rightarrow> totp_command \<Rightarrow> 'z totp_db_scheme \<Rightarrow> 'z totp_db_scheme" where
  "totp_step rt ae te c s = snd (run_totp_command rt ae te c s)"

definition run_totp :: "runtime \<Rightarrow> auth_env \<Rightarrow> totp_env \<Rightarrow> totp_command list \<Rightarrow> 'z totp_db_scheme \<Rightarrow> 'z totp_db_scheme" where
  "run_totp rt ae te = fold (totp_step rt ae te)"

text \<open>The identity, the code and the time of a command that checks a one-time code.\<close>

fun code_check :: "totp_command \<Rightarrow> (uuid \<times> string \<times> int) option" where
  "code_check (ConfirmOrVerify i c now) = Some (i, c, now)"
| "code_check (VerifyConfirmed i c now) = Some (i, c, now)"
| "code_check (RegenerateCodes i c now) = Some (i, c, now)"
| "code_check _ = None"

fun recovers :: "uuid \<Rightarrow> totp_command \<Rightarrow> bool" where
  "recovers i (Recover j sid c) \<longleftrightarrow> i = j"
| "recovers i _ \<longleftrightarrow> False"

text \<open>The time step a code belongs to, for the current secret of an identity.\<close>

definition code_counter :: "totp_env \<Rightarrow> uuid \<Rightarrow> string \<Rightarrow> int \<Rightarrow> 'z totp_db_scheme \<Rightarrow> int option" where
  "code_counter te i c now s =
     (case factor_of i s of
        None \<Rightarrow> None
      | Some f \<Rightarrow> (case decrypt te (tf_secret_ciphertext f) of
          Inl e \<Rightarrow> None
        | Inr secret \<Rightarrow> (case verifyCode te secret c now of Inl e \<Rightarrow> None | Inr m \<Rightarrow> m)))"

section \<open>Effects\<close>

lemma outcome_Inr: "outcome r = (Inr u, s') \<longleftrightarrow> (\<exists>a. r = (Inr a, s'))"
  by (cases r; cases "fst r") (auto simp: outcome_def)

lemma outcome_snd [simp]: "snd (outcome r) = snd r"
  by (simp add: outcome_def)

definition use_counter :: "int \<Rightarrow> totp_factor \<Rightarrow> totp_factor" where
  "use_counter n f = f\<lparr>tf_last_used_counter := Some n\<rparr>"

lemma verifyLocked_Inr:
  "verifyLockedTotpFactor te i c now rc s = Inr (f, s') \<longleftrightarrow>
     factor_of i s = Some f \<and> tf_disabled_at f = None \<and> (rc \<longrightarrow> tf_confirmed_at f \<noteq> None)
     \<and> (\<exists>n. code_counter te i c now s = Some n \<and> (\<forall>l. tf_last_used_counter f = Some l \<longrightarrow> l < n)
          \<and> s' = s\<lparr>totp_factors := update_where (\<lambda>f. tf_identity_id f = i) (use_counter n) (totp_factors s)\<rparr>)"
  unfolding verifyLockedTotpFactor_def
  by (auto simp: tx_simps code_counter_def update_factor_def use_counter_def [abs_def] split: option.splits sum.splits if_splits)

lemma factor_update:
  assumes "\<And>f. tf_identity_id (g f) = tf_identity_id f"
  shows "first_row (\<lambda>f. tf_identity_id f = i) (update_where (\<lambda>f. tf_identity_id f = j) g fs)
     = (if i = j then map_option g (first_row (\<lambda>f. tf_identity_id f = i) fs) else first_row (\<lambda>f. tf_identity_id f = i) fs)"
  by (induction fs) (auto simp: assms)

lemma factor_changes [simp]:
  "tf_identity_id (use_counter n f) = tf_identity_id f" "tf_identity_id (confirm_factor now f) = tf_identity_id f"
  "tf_identity_id (reset_factor x f) = tf_identity_id f"
  by (simp_all add: use_counter_def confirm_factor_def reset_factor_def)

text \<open>Issuing recovery codes and recording audit events leave the factors alone.\<close>

lemma hoare_draw_bytes [hoare_intros]:
  "(\<And>s a. P s \<Longrightarrow> Q a (s\<lparr>uuids_drawn := Suc (uuids_drawn s)\<rparr>)) \<Longrightarrow> hoare P (draw_bytes te k) Q"
  by (auto simp: hoare_def draw_bytes_def)

lemma hoare_newRecoveryCodes [hoare_intros]:
  assumes "\<And>s. P s \<Longrightarrow> P (s\<lparr>uuids_drawn := Suc (uuids_drawn s)\<rparr>)"
  shows "preserves P (newRecoveryCodes te n)"
  by (induction n) (auto simp: newRecoveryCode_def intro!: hoare_intros assms)

lemma replace_codes_factors [hoare_intros]: "preserves (\<lambda>s. \<Phi> (totp_factors s)) (replaceRecoveryCodes rt te i)"
  unfolding replaceRecoveryCodes_def insert_recovery_code_def by (intro hoare_intros) auto

section \<open>A code is accepted once\<close>

text \<open>Time steps up to \<open>n\<close> are spent for the secret \<open>x\<close> of identity \<open>i\<close>.\<close>

definition spent :: "uuid \<Rightarrow> string \<Rightarrow> int \<Rightarrow> totp_factor list \<Rightarrow> bool" where
  "spent i x n fs \<longleftrightarrow>
     (case first_row (\<lambda>f. tf_identity_id f = i) fs of
        None \<Rightarrow> False
      | Some f \<Rightarrow> tf_secret_ciphertext f = x \<and> tf_confirmed_at f \<noteq> None \<and> tf_disabled_at f = None
          \<and> (case tf_last_used_counter f of None \<Rightarrow> False | Some l \<Rightarrow> n \<le> l))"

lemma spent_factor: "spent i x n (totp_factors s) \<longleftrightarrow>
   (\<exists>f l. factor_of i s = Some f \<and> tf_secret_ciphertext f = x \<and> tf_confirmed_at f \<noteq> None \<and> tf_disabled_at f = None
      \<and> tf_last_used_counter f = Some l \<and> n \<le> l)"
  by (auto simp: spent_def factor_of_def split: option.splits)

lemma spent_confirm: "spent i x n fs \<Longrightarrow> spent i x n (update_where (\<lambda>f. tf_identity_id f = j) (confirm_factor now) fs)"
  by (auto simp: spent_def factor_update confirm_factor_def split: option.splits)

lemma spent_reset_other:
  "i \<noteq> j \<Longrightarrow> spent i x n fs \<Longrightarrow> spent i x n (update_where (\<lambda>f. tf_identity_id f = j) (reset_factor y) fs)"
  by (auto simp: spent_def factor_update split: option.splits)

lemma verifyLocked_spent: "preserves (\<lambda>s. spent i x n (totp_factors s)) (verifyLockedTotpFactor te j c now rc)"
proof (rule hoareI)
  fix s :: "'a totp_db_scheme" and f s'
  assume sp: "spent i x n (totp_factors s)" and "verifyLockedTotpFactor te j c now rc s = Inr (f, s')"
  then obtain m where f: "factor_of j s = Some f" "\<forall>l. tf_last_used_counter f = Some l \<longrightarrow> l < m"
    and s': "s' = s\<lparr>totp_factors := update_where (\<lambda>f. tf_identity_id f = j) (use_counter m) (totp_factors s)\<rparr>"
    by (auto simp: verifyLocked_Inr)
  show "spent i x n (totp_factors s')"
    using sp f by (auto simp: s' spent_def factor_of_def factor_update use_counter_def split: option.splits)
qed

lemmas check_defs = confirmOrVerifyTotpFactor_def verifyConfirmedTotpFactor_def regenerateTotpRecoveryCodes_def

lemma checks_spent:
  assumes "spent i x n (totp_factors s)"
  shows "spent i x n (totp_factors (snd (confirmOrVerifyTotpFactor rt te j c now s)))"
    and "spent i x n (totp_factors (snd (verifyConfirmedTotpFactor te j c now s)))"
    and "spent i x n (totp_factors (snd (regenerateTotpRecoveryCodes rt te j c now s)))"
  unfolding check_defs
  by (rule transaction_preserves [where P = "\<lambda>s. spent i x n (totp_factors s)", OF _ assms],
      intro hoare_intros verifyLocked_spent, auto simp: update_factor_def spent_confirm intro!: hoare_intros verifyLocked_spent)+

lemma enroll_effect:
  assumes "enroll_tx rt te j secret s = Inr (u, s')"
  shows "\<not> (\<exists>f. factor_of j s = Some f \<and> tf_confirmed_at f \<noteq> None \<and> tf_disabled_at f = None)"
    and "i \<noteq> j \<Longrightarrow> factor_of i s' = factor_of i s"
    and "totp_recovery_codes s' = totp_recovery_codes s"
  using assms unfolding enroll_tx_def
  by (auto simp: tx_simps update_factor_def randomUUID_def encrypt_def draw_bytes_def factor_of_def factor_update first_row_append
      split: option.splits if_splits sum.splits)

definition use_code :: "int \<Rightarrow> recovery_code \<Rightarrow> recovery_code" where
  "use_code now r = r\<lparr>rcv_used_at := Some now\<rparr>"

definition replace_code :: "int \<Rightarrow> recovery_code \<Rightarrow> recovery_code" where
  "replace_code now r = r\<lparr>rcv_replaced_at := Some now\<rparr>"

lemma recover_effect:
  assumes "recover_tx rt te i sid digest secret s = Inr (u, s')"
  obtains current f rcode y where
    "first_row (\<lambda>r. ss_id r = sid \<and> ss_identity_id r = Some i \<and> session_live (clock s) r) (auth_sessions s) = Some current"
    and "factor_of i s = Some f" and "tf_confirmed_at f \<noteq> None" and "tf_disabled_at f = None"
    and "first_row (\<lambda>r. code_open i r \<and> rcv_code_digest r = digest) (totp_recovery_codes s) = Some rcode"
    and "totp_recovery_codes s' = update_where (\<lambda>r. code_open i r \<and> rcv_id r \<noteq> rcv_id rcode) (replace_code (clock s))
           (update_where (\<lambda>r. rcv_id r = rcv_id rcode) (use_code (clock s)) (totp_recovery_codes s))"
    and "totp_factors s' = update_where (\<lambda>f. tf_identity_id f = i) (reset_factor (''v1:'' @ y)) (totp_factors s)"
    and "auth_step_up_grants s' = filter (\<lambda>g. sg_identity_id g \<noteq> i) (auth_step_up_grants s)"
    and "auth_sessions s' = update_where (\<lambda>r. ss_subject_id r = ss_subject_id current \<and> ss_id r \<noteq> sid \<and> ss_revoked_at r = None)
           (mark_revoked ''mfa_recovery'' (clock s)) (auth_sessions s)"
    and "clock s' = clock s"
  using assms unfolding recover_tx_def
  by (auto simp: tx_Inr update_factor_def encrypt_def draw_bytes_def use_code_def [abs_def] replace_code_def [abs_def]
      elim!: tx_elims split: option.splits if_splits sum.splits dest!: append_audit_frame)

lemma session_tables_tx:
  fixes fs :: "totp_factor list" and cs :: "recovery_code list"
  defines "P \<equiv> \<lambda>s :: 'z totp_db_scheme. totp_factors s = fs \<and> totp_recovery_codes s = cs"
  shows "preserves P (create_session_tx rt ae subject family token metadata)"
    and "preserves P (rotate_session_tx rt ae token token' metadata)"
    and "preserves P (revoke_one rt i subj reason)"
    and "preserves P (revokeAllAuthSessionsForSubjectInTransaction rt subj reason)"
    and "preserves P (revokeAllAuthSessionsForIdentityInTransaction rt i reason)"
  unfolding P_def create_session_tx_def rotate_session_tx_def insertSession_def recordSessionEvent_def reuse_detected_def
    replace_session_def revoke_one_def revokeAllAuthSessionsForSubjectInTransaction_def
    revokeAllAuthSessionsForIdentityInTransaction_def
  by (intro hoare_intros; auto)+

lemma session_command_tables:
  "totp_factors (run_session_command rt ae sc s) = totp_factors s
   \<and> totp_recovery_codes (run_session_command rt ae sc s) = totp_recovery_codes s"
proof -
  let ?P = "\<lambda>t. totp_factors t = totp_factors s \<and> totp_recovery_codes t = totp_recovery_codes s"
  have tx: "?P (snd (withPostgresTransaction no_deferred m t))" if "preserves ?P m" "?P t" for m t
    using transaction_preserves [of ?P] that by blast
  show ?thesis
  proof (cases sc)
    case (CreateSession subject metadata)
    have "snd (createAuthSession rt ae subject metadata s) = snd (withPostgresTransaction no_deferred
        (create_session_tx rt ae subject (rt_uuid rt (Suc (uuids_drawn s))) (ae_random ae (uuids_drawn s) 48) metadata)
        (s\<lparr>uuids_drawn := Suc (Suc (uuids_drawn s))\<rparr>))"
      by (auto simp: createAuthSession_def newRefreshToken_def split: prod.splits sum.splits)
    then show ?thesis unfolding CreateSession run_session_command.simps
      by (simp only:) (rule tx [OF session_tables_tx(1)], simp)
  next
    case (RotateSession token metadata)
    show ?thesis unfolding RotateSession run_session_command.simps rotateAuthSession_snd
      by (rule tx [OF session_tables_tx(2)]) simp
  next
    case (GrantStepUp i ident)
    show ?thesis unfolding GrantStepUp run_session_command.simps grantTotpStepUp_def Let_def
      by (rule tx) (intro hoare_intros, auto)
  qed (auto simp: revokeAuthSession_def revokeAllAuthSessionsForSubject_def validateAuthSession_def
      intro!: tx session_tables_tx hoare_intros)
qed

lemma enroll_spent:
  assumes "spent i x n (totp_factors s)"
  shows "spent i x n (totp_factors (snd (enrollTotpFactor rt te j s)))"
proof -
  let ?s0 = "s\<lparr>uuids_drawn := Suc (uuids_drawn s)\<rparr>"
  have "spent i x n (totp_factors s')" if "enroll_tx rt te j secret ?s0 = Inr (u, s')" for secret u s'
  proof -
    have s0: "spent i x n (totp_factors ?s0)" using assms by simp
    then have "i \<noteq> j" using enroll_effect(1) [OF that] unfolding spent_factor by blast
    then show ?thesis using s0 enroll_effect(2) [OF that, of i] unfolding spent_factor by simp
  qed
  then show ?thesis using assms
    by (auto simp: enrollTotpFactor_def Let_def withPostgresTransaction_def no_deferred_def split: sum.splits prod.splits)
qed

lemma recover_spent_other:
  assumes "i \<noteq> j" and "spent i x n (totp_factors s)"
  shows "spent i x n (totp_factors (snd (recoverTotpFactor rt te j sid c s)))"
proof -
  let ?s0 = "s\<lparr>uuids_drawn := Suc (uuids_drawn s)\<rparr>"
  have "spent i x n (totp_factors s')" if "recover_tx rt te j sid digest secret ?s0 = Inr (u, s')" for digest secret u s'
    using that assms by (elim recover_effect) (simp add: spent_reset_other)
  then show ?thesis using assms
    by (auto simp: recoverTotpFactor_def Let_def withPostgresTransaction_def no_deferred_def split: sum.splits prod.splits)
qed

interpretation used_codes: stable_history "totp_step rt ae te" "\<lambda>c. \<not> recovers i c" "\<lambda>s. spent i x n (totp_factors s)" for rt ae te i x n
proof
  fix c and s :: "'a totp_db_scheme"
  assume "\<not> recovers i c" and "spent i x n (totp_factors s)"
  then show "spent i x n (totp_factors (totp_step rt ae te c s))"
    by (cases c) (auto simp: totp_step_def checks_spent enroll_spent recover_spent_other session_command_tables)
qed

text \<open>What an accepted check leaves behind, and how a check on a spent time step fails.\<close>

lemma spent_used:
  assumes "first_row (\<lambda>f. tf_identity_id f = i) fs = Some (use_counter n f)" and "tf_disabled_at f = None"
  shows "tf_confirmed_at f \<noteq> None \<Longrightarrow> spent i (tf_secret_ciphertext f) n fs"
    and "spent i (tf_secret_ciphertext f) n (update_where (\<lambda>f. tf_identity_id f = i) (confirm_factor now) fs)"
  using assms by (auto simp: spent_def factor_update use_counter_def confirm_factor_def split: option.splits)

lemma hoare_andThen: "hoare P m (\<lambda>_. R) \<Longrightarrow> hoare R k Q \<Longrightarrow> hoare P (andThen m k) Q"
  unfolding hoare_def by (blast elim: andThen_Inr)

lemma confirm_spent:
  assumes "tf_disabled_at f = None"
  shows "hoare (\<lambda>s. first_row (\<lambda>f. tf_identity_id f = i) (totp_factors s) = Some (use_counter n f))
    (update_factor i confirm_factor) (\<lambda>_ s. spent i (tf_secret_ciphertext f) n (totp_factors s))"
  unfolding update_factor_def using assms by (auto intro!: hoare_intros spent_used(2))

definition accepted_at :: "totp_env \<Rightarrow> uuid \<Rightarrow> string \<Rightarrow> int \<Rightarrow> 'z totp_db_scheme \<Rightarrow> 'z totp_db_scheme \<Rightarrow> int \<Rightarrow> bool" where
  "accepted_at te i c now s s1 n \<longleftrightarrow>
     (\<exists>f. factor_of i s = Some f \<and> code_counter te i c now s = Some n
        \<and> (\<forall>l. tf_last_used_counter f = Some l \<longrightarrow> l < n) \<and> spent i (tf_secret_ciphertext f) n (totp_factors s1))"

lemma check_commits:
  assumes "withPostgresTransaction no_deferred (bnd (verifyLockedTotpFactor te i c now rc) k) s = (Inr a, s1)"
    and "\<And>f n. tf_disabled_at f = None \<Longrightarrow> (rc \<longrightarrow> tf_confirmed_at f \<noteq> None) \<Longrightarrow>
      hoare (\<lambda>s. first_row (\<lambda>f. tf_identity_id f = i) (totp_factors s) = Some (use_counter n f)) (k f)
        (\<lambda>_ s. spent i (tf_secret_ciphertext f) n (totp_factors s))"
  shows "\<exists>n. accepted_at te i c now s s1 n"
proof -
  from assms(1) obtain f sv where v: "verifyLockedTotpFactor te i c now rc s = Inr (f, sv)" and k: "k f sv = Inr (a, s1)"
    by (auto simp: withPostgresTransaction_commit elim!: bnd_Inr)
  from v obtain n where f: "factor_of i s = Some f" "tf_disabled_at f = None" "rc \<longrightarrow> tf_confirmed_at f \<noteq> None"
    and n: "code_counter te i c now s = Some n" "\<forall>l. tf_last_used_counter f = Some l \<longrightarrow> l < n"
    and sv: "sv = s\<lparr>totp_factors := update_where (\<lambda>f. tf_identity_id f = i) (use_counter n) (totp_factors s)\<rparr>"
    by (auto simp: verifyLocked_Inr)
  have "first_row (\<lambda>f. tf_identity_id f = i) (totp_factors sv) = Some (use_counter n f)"
    using f(1) by (simp add: sv factor_update factor_of_def)
  then have "spent i (tf_secret_ciphertext f) n (totp_factors s1)" by (rule hoareD [OF assms(2) [OF f(2,3)] _ k])
  then show ?thesis using f n by (auto simp: accepted_at_def)
qed

lemma check_accepted:
  assumes "code_check cmd = Some (i, c, now)" and "run_totp_command rt ae te cmd s = (Inr u, s1)"
  shows "\<exists>n. accepted_at te i c now s s1 n"
proof (cases cmd)
  case (ConfirmOrVerify i' c' now')
  obtain a where "confirmOrVerifyTotpFactor rt te i c now s = (Inr a, s1)" using ConfirmOrVerify assms by (auto simp: outcome_Inr)
  then show ?thesis unfolding confirmOrVerifyTotpFactor_def
  proof (rule check_commits)
    fix f :: totp_factor and n assume "tf_disabled_at f = None"
    then show "hoare (\<lambda>s. first_row (\<lambda>f. tf_identity_id f = i) (totp_factors s) = Some (use_counter n f))
        (if tf_confirmed_at f = None
         then bnd (replaceRecoveryCodes rt te i) (\<lambda>recoveryCodes.
              andThen (update_factor i confirm_factor)
              (andThen (appendPostgresAuditEvent rt (totp_audit i ''auth.totp.confirmed''
                 [(''recoveryCodeCount'', JNum (int (length recoveryCodes)))]))
              (ret (True, Some recoveryCodes))))
         else andThen (update_factor i confirm_factor) (ret (False, None)))
        (\<lambda>_ s. spent i (tf_secret_ciphertext f) n (totp_factors s))"
      by (intro hoare_if preserves_bnd replace_codes_factors [where \<Phi> = "\<lambda>fs. first_row _ fs = _"]
           hoare_andThen [OF confirm_spent]) (auto intro!: hoare_intros)
  qed
next
  case (VerifyConfirmed i' c' now')
  obtain a where "verifyConfirmedTotpFactor te i c now s = (Inr a, s1)" using VerifyConfirmed assms by auto
  then show ?thesis unfolding verifyConfirmedTotpFactor_def andThen_def
    by (rule check_commits) (auto intro!: hoare_intros spent_used)
next
  case (RegenerateCodes i' c' now')
  obtain a where "regenerateTotpRecoveryCodes rt te i c now s = (Inr a, s1)" using RegenerateCodes assms by (auto simp: outcome_Inr)
  then show ?thesis unfolding regenerateTotpRecoveryCodes_def andThen_def [where m = "verifyLockedTotpFactor _ _ _ _ _"]
    by (rule check_commits)
       (auto intro!: hoare_intros spent_used replace_codes_factors [where \<Phi> = "\<lambda>fs. first_row _ fs = _"])
qed (use assms in auto)

lemma check_refused:
  assumes "code_check cmd = Some (i, c, now)" and "spent i x l (totp_factors s)"
    and "code_counter te i c now s = Some m" and "m \<le> l"
  shows "run_totp_command rt ae te cmd s = (Inl (TotpFactorError ''Authentication code was already used''), s)"
proof -
  have "verifyLockedTotpFactor te i c now rc s = Inl (TotpFactorError ''Authentication code was already used'')" for rc
    using assms(2-4) unfolding spent_factor verifyLockedTotpFactor_def
    by (auto simp: tx_simps code_counter_def split: sum.splits option.splits)
  then show ?thesis using assms(1)
    by (cases cmd) (auto simp: check_defs outcome_def withPostgresTransaction_def tx_simps)
qed

lemma code_counter_same_secret:
  assumes "spent i x n (totp_factors s1)" and "factor_of i s = Some f" and "tf_secret_ciphertext f = x"
  shows "code_counter te i c now s1 = code_counter te i c now s"
  using assms unfolding spent_factor code_counter_def by auto

text \<open>C21: a one-time code is accepted once. When a check of a code for an identity succeeds (to confirm, to
  verify or to regenerate recovery codes), the code belongs to some time step, and after any further
  enrolments, checks, recoveries of other identities and session commands: the same check is refused as
  already used and changes nothing, and every check for the identity that still succeeds is of a code of a
  later time step. Only a recovery of the identity, which replaces its secret, ends this.\<close>

theorem totp_code_single_use:
  assumes "code_check cmd = Some (i, c, now)" and "run_totp_command rt ae te cmd s = (Inr u, s1)"
    and "list_all (\<lambda>h. \<not> recovers i h) cs" and "code_check cmd' = Some (i, c', now')"
  shows "\<exists>n. code_counter te i c now s = Some n
     \<and> run_totp_command rt ae te cmd (run_totp rt ae te cs s1)
         = (Inl (TotpFactorError ''Authentication code was already used''), run_totp rt ae te cs s1)
     \<and> (fst (run_totp_command rt ae te cmd' (run_totp rt ae te cs s1)) = Inr () \<longrightarrow>
          (\<exists>m > n. code_counter te i c' now' (run_totp rt ae te cs s1) = Some m))"
proof -
  let ?s2 = "run_totp rt ae te cs s1"
  obtain n f where f: "factor_of i s = Some f" and n: "code_counter te i c now s = Some n"
    and s1: "spent i (tf_secret_ciphertext f) n (totp_factors s1)"
    using check_accepted [OF assms(1,2)] by (auto simp: accepted_at_def)
  have s2: "spent i (tf_secret_ciphertext f) n (totp_factors ?s2)"
    unfolding run_totp_def by (rule used_codes.history_keeps [OF assms(3) s1])
  have "code_counter te i c now ?s2 = Some n" using code_counter_same_secret [OF s2 f refl] n by simp
  then have refused: "run_totp_command rt ae te cmd ?s2 = (Inl (TotpFactorError ''Authentication code was already used''), ?s2)"
    using check_refused [OF assms(1) s2] by simp
  have "\<exists>m > n. code_counter te i c' now' ?s2 = Some m" if ok: "fst (run_totp_command rt ae te cmd' ?s2) = Inr ()"
  proof -
    obtain m where m: "code_counter te i c' now' ?s2 = Some m"
      using check_accepted [OF assms(4)] ok by (metis accepted_at_def prod.collapse)
    then have "\<not> m \<le> n" using check_refused [OF assms(4) s2 m] ok by auto
    then show ?thesis using m by auto
  qed
  then show ?thesis using n refused by blast
qed

section \<open>A recovery code is accepted once\<close>

definition code_key :: "recovery_code \<Rightarrow> uuid \<times> string" where
  "code_key r = (rcv_identity_id r, rcv_code_digest r)"

text \<open>The digest is known for the identity and can no longer be redeemed.\<close>

definition burnt :: "uuid \<Rightarrow> string \<Rightarrow> recovery_code list \<Rightarrow> bool" where
  "burnt i d rs \<longleftrightarrow> (i, d) \<in> code_key ` set rs \<and> (\<forall>r \<in> set rs. code_key r = (i, d) \<longrightarrow> \<not> code_open i r)"

lemma code_keys_update: "(\<And>r. code_key (g r) = code_key r) \<Longrightarrow> code_key ` set (update_where p g rs) = code_key ` set rs"
  by (metis list.set_map map_update_where)

lemma burnt_update:
  assumes "burnt i d rs" and "\<And>r. code_key (g r) = code_key r" and "\<And>r. code_open i (g r) \<Longrightarrow> code_open i r"
  shows "burnt i d (update_where p g rs)"
proof -
  have "\<not> code_open i r" if r: "r \<in> set (update_where p g rs)" "code_key r = (i, d)" for r
  proof -
    from r(1) obtain x where x: "x \<in> set rs" "r = (if p x then g x else x)" by (auto simp: set_update_where)
    then have "code_key x = (i, d)" using r(2) assms(2) by (simp split: if_splits)
    then show ?thesis using assms(1,3) x by (auto simp: burnt_def split: if_splits)
  qed
  then show ?thesis using assms(1,2) by (simp add: burnt_def code_keys_update)
qed

lemma burnt_append: "burnt i d rs \<Longrightarrow> code_key r \<notin> code_key ` set rs \<Longrightarrow> burnt i d (rs @ [r])"
  by (auto simp: burnt_def)

lemma code_changes [simp]:
  "code_key (r\<lparr>rcv_used_at := u\<rparr>) = code_key r" "code_key (r\<lparr>rcv_replaced_at := u\<rparr>) = code_key r"
  "code_open i (r\<lparr>rcv_used_at := Some n\<rparr>) \<longleftrightarrow> False" "code_open i (r\<lparr>rcv_replaced_at := Some n\<rparr>) \<longleftrightarrow> False"
  by (simp_all add: code_key_def code_open_def)

lemma insert_code_burnt: "preserves (\<lambda>s. burnt i d (totp_recovery_codes s)) (insert_recovery_code rt te j c)"
  unfolding insert_recovery_code_def hoare_def
  by (auto simp: tx_simps randomUUID_def code_key_def image_iff intro!: burnt_append split: sum.splits if_splits)

lemma replace_codes_burnt [hoare_intros]: "preserves (\<lambda>s. burnt i d (totp_recovery_codes s)) (replaceRecoveryCodes rt te j)"
  unfolding replaceRecoveryCodes_def
  by (intro hoare_intros insert_code_burnt) (auto intro: burnt_update)

lemma verifyLocked_codes [hoare_intros]:
  "preserves (\<lambda>s. \<Phi> (totp_recovery_codes s)) (verifyLockedTotpFactor te j c now rc)"
  by (auto simp: hoare_def verifyLocked_Inr)

lemma checks_burnt:
  assumes "burnt i d (totp_recovery_codes s)"
  shows "burnt i d (totp_recovery_codes (snd (confirmOrVerifyTotpFactor rt te j c now s)))"
    and "burnt i d (totp_recovery_codes (snd (verifyConfirmedTotpFactor te j c now s)))"
    and "burnt i d (totp_recovery_codes (snd (regenerateTotpRecoveryCodes rt te j c now s)))"
  unfolding check_defs
  by (rule transaction_preserves [where P = "\<lambda>s. burnt i d (totp_recovery_codes s)", OF _ assms],
      auto simp: update_factor_def intro!: hoare_intros)+

lemma recover_burnt:
  assumes "recover_tx rt te j sid digest secret s = Inr (u, s')" and "burnt i d (totp_recovery_codes s)"
  shows "burnt i d (totp_recovery_codes s')"
  using assms by (elim recover_effect) (auto simp: use_code_def replace_code_def intro!: burnt_update)

interpretation used_recovery_codes: stable_history "totp_step rt ae te" "\<lambda>_. True" "\<lambda>s. burnt i d (totp_recovery_codes s)" for rt ae te i d
proof
  fix c and s :: "'a totp_db_scheme"
  assume b: "burnt i d (totp_recovery_codes s)"
  have enroll: "burnt i d (totp_recovery_codes (snd (enrollTotpFactor rt te j s)))" for j
    using b enroll_effect(3)
    by (fastforce simp: enrollTotpFactor_def Let_def withPostgresTransaction_def no_deferred_def split: sum.splits prod.splits)
  have recover: "burnt i d (totp_recovery_codes (snd (recoverTotpFactor rt te j sid t s)))" for j sid t
    using b recover_burnt
    by (fastforce simp: recoverTotpFactor_def Let_def withPostgresTransaction_def no_deferred_def split: sum.splits prod.splits)
  show "burnt i d (totp_recovery_codes (totp_step rt ae te c s))"
    by (cases c) (auto simp: totp_step_def checks_burnt b enroll recover session_command_tables)
qed

lemma recover_closes_all:
  assumes "recover_tx rt te i sid digest secret s = Inr (u, s')"
  shows "\<forall>r \<in> set (totp_recovery_codes s'). \<not> code_open i r" and "burnt i digest (totp_recovery_codes s')"
proof -
  from assms obtain rcode where
    found: "first_row (\<lambda>r. code_open i r \<and> rcv_code_digest r = digest) (totp_recovery_codes s) = Some rcode"
    and s': "totp_recovery_codes s' = update_where (\<lambda>r. code_open i r \<and> rcv_id r \<noteq> rcv_id rcode) (replace_code (clock s))
        (update_where (\<lambda>r. rcv_id r = rcv_id rcode) (use_code (clock s)) (totp_recovery_codes s))"
    by (rule recover_effect) blast
  show closed: "\<forall>r \<in> set (totp_recovery_codes s'). \<not> code_open i r"
    by (auto simp: s' set_update_where use_code_def replace_code_def split: if_splits)
  have "code_key ` set (totp_recovery_codes s') = code_key ` set (totp_recovery_codes s)"
    by (simp add: s' code_keys_update use_code_def replace_code_def)
  moreover have "(i, digest) \<in> code_key ` set (totp_recovery_codes s)"
    using first_row_Some [OF found] by (auto simp: code_key_def code_open_def image_iff)
  ultimately show "burnt i digest (totp_recovery_codes s')" using closed by (simp add: burnt_def)
qed

lemma recoverTotpFactor_Inr:
  assumes "recoverTotpFactor rt te i sid c s = (Inr out, s1)"
  obtains digest secret where "recoveryCodeDigest rt te c = Inr digest"
    and "recover_tx rt te i sid digest secret (s\<lparr>uuids_drawn := Suc (uuids_drawn s)\<rparr>) = Inr ((), s1)"
    and "out = (secret, otpauth_uri i secret)"
  using assms
  by (auto simp: recoverTotpFactor_def Let_def withPostgresTransaction_commit split: sum.splits prod.splits)

text \<open>C22: a recovery code is redeemed once. After a successful recovery, whatever happens next (enrolments,
  checks, regenerated recovery codes, further recoveries, session commands), no text with the same digest
  recovers the identity again: a regenerated code that collided with it would be refused by the table.\<close>

theorem recovery_code_single_use:
  assumes "recoverTotpFactor rt te i sid c s = (Inr out, s1)" and "recoveryCodeDigest rt te c' = recoveryCodeDigest rt te c"
  shows "isl (fst (recoverTotpFactor rt te i sid' c' (run_totp rt ae te cs s1)))"
proof -
  let ?s2 = "run_totp rt ae te cs s1"
  obtain digest secret where d: "recoveryCodeDigest rt te c = Inr digest"
    and tx: "recover_tx rt te i sid digest secret (s\<lparr>uuids_drawn := Suc (uuids_drawn s)\<rparr>) = Inr ((), s1)"
    using assms(1) by (rule recoverTotpFactor_Inr)
  have "burnt i digest (totp_recovery_codes s1)" by (rule recover_closes_all(2) [OF tx])
  then have "burnt i digest (totp_recovery_codes ?s2)"
    unfolding run_totp_def by (intro used_recovery_codes.history_keeps) (simp add: list_all_iff)
  then have none: "first_row (\<lambda>r. code_open i r \<and> rcv_code_digest r = digest) (totp_recovery_codes ?s2) = None"
    by (auto simp: burnt_def first_row_None code_key_def code_open_def)
  show ?thesis
  proof (rule ccontr)
    assume "\<not> isl (fst (recoverTotpFactor rt te i sid' c' ?s2))"
    then obtain out2 s3 where "recoverTotpFactor rt te i sid' c' ?s2 = (Inr out2, s3)"
      by (cases "recoverTotpFactor rt te i sid' c' ?s2") (auto simp: not_isl)
    then obtain digest' secret' where "recoveryCodeDigest rt te c' = Inr digest'"
      and tx': "recover_tx rt te i sid' digest' secret' (?s2\<lparr>uuids_drawn := Suc (uuids_drawn ?s2)\<rparr>) = Inr ((), s3)"
      by (rule recoverTotpFactor_Inr)
    then have "digest' = digest" using d assms(2) by simp
    obtain rcode where "first_row (\<lambda>r. code_open i r \<and> rcv_code_digest r = digest')
         (totp_recovery_codes (?s2\<lparr>uuids_drawn := Suc (uuids_drawn ?s2)\<rparr>)) = Some rcode"
      using tx' by (rule recover_effect) blast
    then show False using none \<open>digest' = digest\<close> by simp
  qed
qed

section \<open>What a recovery revokes\<close>

text \<open>A recovery leaves one way in. It needs a live session of the identity; afterwards the factor is
  enrolled but unconfirmed, no recovery code is left, no step-up grant of the identity is honoured any more,
  and of the sessions of the same subject only the one that asked survives: no other validates.\<close>

theorem recovery_outcome:
  assumes "recoverTotpFactor rt te i sid c s = (Inr out, s1)" and "MFA_TOTP_ENABLED ae"
  shows "\<exists>current \<in> set (auth_sessions s). ss_id current = sid \<and> ss_identity_id current = Some i \<and> session_live (clock s) current
     \<and> current \<in> set (auth_sessions s1)
     \<and> (\<forall>k. k \<noteq> sid \<longrightarrow> isl (fst (validateAuthSession k (ss_subject_id current) s1)))
     \<and> getTotpFactorStatus i s1 = \<lparr>ts_enrolled = True, ts_confirmed = False, ts_recoveryCodesRemaining = 0\<rparr>
     \<and> (\<forall>k. isl (requireFreshTotpStepUp ae k i s1))"
proof -
  let ?s0 = "s\<lparr>uuids_drawn := Suc (uuids_drawn s)\<rparr>"
  obtain digest secret where tx: "recover_tx rt te i sid digest secret ?s0 = Inr ((), s1)"
    using assms(1) by (rule recoverTotpFactor_Inr)
  obtain current f y where
    current: "first_row (\<lambda>r. ss_id r = sid \<and> ss_identity_id r = Some i \<and> session_live (clock ?s0) r) (auth_sessions ?s0) = Some current"
    and f: "factor_of i ?s0 = Some f"
    and factors: "totp_factors s1 = update_where (\<lambda>f. tf_identity_id f = i) (reset_factor (''v1:'' @ y)) (totp_factors ?s0)"
    and grants: "auth_step_up_grants s1 = filter (\<lambda>g. sg_identity_id g \<noteq> i) (auth_step_up_grants ?s0)"
    and sessions: "auth_sessions s1 = update_where
        (\<lambda>r. ss_subject_id r = ss_subject_id current \<and> ss_id r \<noteq> sid \<and> ss_revoked_at r = None)
        (mark_revoked ''mfa_recovery'' (clock ?s0)) (auth_sessions ?s0)"
    using tx by (rule recover_effect) blast
  have c: "current \<in> set (auth_sessions s)" "ss_id current = sid" "ss_identity_id current = Some i" "session_live (clock s) current"
    using first_row_Some [OF current] by simp_all
  have "current \<in> set (auth_sessions s1)" using c by (auto simp: sessions set_update_where image_iff)
  moreover have "isl (fst (validateAuthSession k (ss_subject_id current) s1))" if "k \<noteq> sid" for k
  proof -
    have "count_rows (\<lambda>r. ss_id r = k \<and> ss_subject_id r = ss_subject_id current \<and> session_live (clock s1) r) (auth_sessions s1) = 0"
      using that by (auto simp: count_rows_def filter_empty_conv sessions set_update_where mark_revoked_def session_live_def)
    then show ?thesis by (simp add: validateAuthSession_def)
  qed
  moreover have "count_rows (code_open i) (totp_recovery_codes s1) = 0"
    using recover_closes_all(1) [OF tx] by (simp add: count_rows_def filter_empty_conv)
  then have "getTotpFactorStatus i s1 = \<lparr>ts_enrolled = True, ts_confirmed = False, ts_recoveryCodesRemaining = 0\<rparr>"
    using f by (simp add: getTotpFactorStatus_def factor_of_def factors factor_update reset_factor_def)
  moreover have "isl (requireFreshTotpStepUp ae k i s1)" for k
    using assms(2) by (auto simp: requireFreshTotpStepUp_def step_up_fresh_def grants split: option.splits)
  ultimately show ?thesis using c by blast
qed

lemma count_rows_unique:
  assumes "distinct (map k t)" and "r \<in> set t" and "p r" and "\<And>r'. p r' \<Longrightarrow> k r' = k r"
  shows "count_rows p t = 1"
  using assms(1,2)
proof (induction t)
  case (Cons x t)
  show ?case
  proof (cases "x = r")
    case True
    then have "\<not> p y" if "y \<in> set t" for y
      using Cons.prems(1) that assms(4) [of y] by (auto simp: image_iff)
    then have "count_rows p t = 0" by (simp add: count_rows_def filter_empty_conv)
    then show ?thesis using True assms(3) by simp
  next
    case False
    then have "r \<in> set t" using Cons.prems by simp
    moreover from this have "\<not> p x" using Cons.prems(1) assms(4) [of x] by (auto simp: image_iff)
    ultimately show ?thesis using Cons by simp
  qed
qed simp

lemma append_audit_row:
  "appendPostgresAuditEvent rt inp s = Inr (a, s') \<Longrightarrow>
     \<exists>ev. audit_events s' = audit_events s @ [ev] \<and> ae_action ev = ai_action inp \<and> ae_payload ev = ai_payload inp"
  by (elim append_audit_effect) (simp add: audit_row_of_def)

lemma recover_audit:
  "recover_tx rt te i sid digest secret s = Inr (u, s') \<Longrightarrow>
     \<exists>ev. audit_events s' = audit_events s @ [ev] \<and> ae_action ev = ''auth.totp.recovered''
       \<and> ae_payload ev = JObj [(''sessionId'', JStr sid), (''otherSessionsRevoked'', JBool True), (''priorStepUpRevoked'', JBool True)]"
  unfolding recover_tx_def
  by (auto simp: tx_Inr update_factor_def encrypt_def draw_bytes_def totp_audit_def
      elim!: tx_elims split: option.splits if_splits sum.splits dest!: append_audit_row)

text \<open>C36: a recovery misses sessions of another subject. A live session of the recovered identity whose subject
  differs from the one of the asking session (a session from before the cutover, still keyed by the legacy
  subject) is untouched and still validates, although the audit event of the recovery records that the other
  sessions were revoked.\<close>

theorem recovery_misses_other_subjects:
  assumes "recoverTotpFactor rt te i sid c s = (Inr out, s1)"
    and "\<forall>r \<in> set (auth_sessions s). ss_id r = sid \<longrightarrow> ss_subject_id r \<noteq> ss_subject_id old"
    and "old \<in> set (auth_sessions s)" and "ss_identity_id old = Some i" and "session_live (clock s) old"
    and "distinct (map ss_id (auth_sessions s))"
  shows "fst (validateAuthSession (ss_id old) (ss_subject_id old) s1) = Inr ()
     \<and> (\<exists>ev. audit_events s1 = audit_events s @ [ev] \<and> ae_action ev = ''auth.totp.recovered''
       \<and> ae_payload ev = JObj [(''sessionId'', JStr sid), (''otherSessionsRevoked'', JBool True), (''priorStepUpRevoked'', JBool True)])"
proof -
  let ?s0 = "s\<lparr>uuids_drawn := Suc (uuids_drawn s)\<rparr>"
  obtain digest secret where tx: "recover_tx rt te i sid digest secret ?s0 = Inr ((), s1)"
    using assms(1) by (rule recoverTotpFactor_Inr)
  obtain current where
    current: "first_row (\<lambda>r. ss_id r = sid \<and> ss_identity_id r = Some i \<and> session_live (clock ?s0) r) (auth_sessions ?s0) = Some current"
    and clock: "clock s1 = clock ?s0"
    and sessions: "auth_sessions s1 = update_where
        (\<lambda>r. ss_subject_id r = ss_subject_id current \<and> ss_id r \<noteq> sid \<and> ss_revoked_at r = None)
        (mark_revoked ''mfa_recovery'' (clock ?s0)) (auth_sessions ?s0)"
    using tx by (rule recover_effect) blast
  have "ss_subject_id current \<noteq> ss_subject_id old" using first_row_Some [OF current] assms(2) by simp
  then have old: "old \<in> set (auth_sessions s1)" using assms(3) by (auto simp: sessions set_update_where image_iff)
  have "map ss_id (auth_sessions s1) = map ss_id (auth_sessions s)"
    by (simp add: sessions map_update_where mark_revoked_def)
  then have "count_rows (\<lambda>r. ss_id r = ss_id old \<and> ss_subject_id r = ss_subject_id old \<and> session_live (clock s1) r)
      (auth_sessions s1) = 1"
    using assms(5,6) old clock by (intro count_rows_unique [where k = ss_id and r = old]) auto
  then show ?thesis using recover_audit [OF tx] by (simp add: validateAuthSession_def)
qed

section \<open>A concrete identity\<close>

definition sample_recovery_text :: string where
  "sample_recovery_text = ''ABCD-EFGH-JKLM-NPQR''"

definition sample_digest :: string where
  "sample_digest = (case recoveryCodeDigest plain_runtime sample_totp_env sample_recovery_text of Inl e \<Rightarrow> [] | Inr d \<Rightarrow> d)"

text \<open>An identity with a confirmed factor, an open recovery code, a session of its own and one from before
  the cutover.\<close>

definition legacy_session :: session_row where
  "legacy_session = (sample_session 3 ''legacy'' None None)\<lparr>ss_subject_id := ''legacy-7'', ss_token_family_id := rt_uuid plain_runtime 4\<rparr>"

definition sample_totp_db :: totp_db where
  "sample_totp_db = auth_db.extend (sample_auth_db\<lparr>auth_sessions := [sample_session 2 ''new'' None None, legacy_session]\<rparr>)
     (totp_db.fields [\<lparr>tf_id = ''f1'', tf_identity_id = rt_uuid plain_runtime 9, tf_secret_ciphertext = ''v1:AEBAGBAFAYDQQCIK'',
        tf_confirmed_at = Some 500, tf_last_used_counter = None, tf_disabled_at = None\<rparr>]
      [\<lparr>rcv_id = ''c1'', rcv_identity_id = rt_uuid plain_runtime 9, rcv_code_digest = sample_digest,
        rcv_used_at = None, rcv_replaced_at = None\<rparr>])"

definition sample_check :: totp_command where
  "sample_check = VerifyConfirmed (rt_uuid plain_runtime 9) ''397699'' 100000"

lemma sample_check_run: "fst (run_totp_command plain_runtime sample_auth_env sample_totp_env sample_check sample_totp_db) = Inr ()"
  unfolding sample_check_def run_totp_command.simps verifyConfirmedTotpFactor_def tx_defs tx_eval by code_simp

theorem totp_code_single_use_witness:
  "let s1 = snd (run_totp_command plain_runtime sample_auth_env sample_totp_env sample_check sample_totp_db);
       s2 = run_totp plain_runtime sample_auth_env sample_totp_env [OnSessions (PassTime 5000)] s1
   in run_totp_command plain_runtime sample_auth_env sample_totp_env sample_check s2
        = (Inl (TotpFactorError ''Authentication code was already used''), s2)"
proof -
  obtain s1 where run: "run_totp_command plain_runtime sample_auth_env sample_totp_env sample_check sample_totp_db = (Inr (), s1)"
    using sample_check_run by (metis prod.collapse)
  have c: "code_check sample_check = Some (rt_uuid plain_runtime 9, ''397699'', 100000)" by (simp add: sample_check_def)
  have "list_all (\<lambda>h. \<not> recovers (rt_uuid plain_runtime 9) h) [OnSessions (PassTime 5000)]" by simp
  from totp_code_single_use [OF c run this c] show ?thesis by (auto simp: run Let_def)
qed

lemma sample_recovery_run:
  "isl (fst (recoverTotpFactor plain_runtime sample_totp_env (rt_uuid plain_runtime 9) (rt_uuid plain_runtime 2)
     sample_recovery_text sample_totp_db)) = False"
  unfolding recoverTotpFactor_def tx_defs tx_eval by code_simp

lemma sample_recovery:
  obtains out s1 where "recoverTotpFactor plain_runtime sample_totp_env (rt_uuid plain_runtime 9) (rt_uuid plain_runtime 2)
     sample_recovery_text sample_totp_db = (Inr out, s1)"
  using sample_recovery_run by (metis isl_def prod.collapse sum.collapse(2))

theorem recovery_code_single_use_witness:
  "\<exists>out s1. recoverTotpFactor plain_runtime sample_totp_env (rt_uuid plain_runtime 9) (rt_uuid plain_runtime 2)
       sample_recovery_text sample_totp_db = (Inr out, s1)
     \<and> isl (fst (recoverTotpFactor plain_runtime sample_totp_env (rt_uuid plain_runtime 9) (rt_uuid plain_runtime 2)
         sample_recovery_text (run_totp plain_runtime sample_auth_env sample_totp_env [Enroll (rt_uuid plain_runtime 9)] s1)))"
proof -
  obtain out s1 where run: "recoverTotpFactor plain_runtime sample_totp_env (rt_uuid plain_runtime 9) (rt_uuid plain_runtime 2)
     sample_recovery_text sample_totp_db = (Inr out, s1)" by (rule sample_recovery)
  then show ?thesis using recovery_code_single_use [OF run refl] by blast
qed

theorem recovery_outcome_witness:
  "\<exists>out s1. recoverTotpFactor plain_runtime sample_totp_env (rt_uuid plain_runtime 9) (rt_uuid plain_runtime 2)
       sample_recovery_text sample_totp_db = (Inr out, s1)
     \<and> getTotpFactorStatus (rt_uuid plain_runtime 9) s1
         = \<lparr>ts_enrolled = True, ts_confirmed = False, ts_recoveryCodesRemaining = 0\<rparr>"
proof -
  obtain out s1 where run: "recoverTotpFactor plain_runtime sample_totp_env (rt_uuid plain_runtime 9) (rt_uuid plain_runtime 2)
     sample_recovery_text sample_totp_db = (Inr out, s1)" by (rule sample_recovery)
  have "MFA_TOTP_ENABLED sample_auth_env" by (simp add: sample_auth_env_def)
  then show ?thesis using run recovery_outcome [OF run] by blast
qed

lemma sample_totp_sessions:
  "auth_sessions sample_totp_db = [sample_session 2 ''new'' None None, legacy_session]" "clock sample_totp_db = 1000"
  by (simp_all add: sample_totp_db_def sample_auth_db_def auth_db.defs)

theorem recovery_misses_other_subjects_witness:
  "\<exists>out s1. recoverTotpFactor plain_runtime sample_totp_env (rt_uuid plain_runtime 9) (rt_uuid plain_runtime 2)
       sample_recovery_text sample_totp_db = (Inr out, s1)
     \<and> fst (validateAuthSession (rt_uuid plain_runtime 3) ''legacy-7'' s1) = Inr ()"
proof -
  obtain out s1 where run: "recoverTotpFactor plain_runtime sample_totp_env (rt_uuid plain_runtime 9) (rt_uuid plain_runtime 2)
     sample_recovery_text sample_totp_db = (Inr out, s1)" by (rule sample_recovery)
  have "rt_uuid plain_runtime 9 \<noteq> ''legacy-7''" by code_simp
  then have "fst (validateAuthSession (ss_id legacy_session) (ss_subject_id legacy_session) s1) = Inr ()"
    using recovery_misses_other_subjects [OF run, of legacy_session]
    by (simp add: sample_totp_sessions legacy_session_def sample_session_def session_live_def inj_eq [OF plain_uuids_distinct])
  then show ?thesis using run by (auto simp: legacy_session_def sample_session_def)
qed

end
