(* ===== verification/Market_Frame.thy ===== *)
theory Market_Frame
  imports Market_History
begin

text \<open>
  What the commands of the primary market leave alone, for the components built on top of it: no
  command of \<open>run_market_command\<close> touches a table beyond the market layer, and offerings are only
  added, never changed. The proofs are syntax-directed, by the triples of the prelude.
\<close>

definition beyond_market :: "'z \<Rightarrow> offering_row list \<Rightarrow> 'z market_db_scheme \<Rightarrow> bool" where
  "beyond_market m ps s \<longleftrightarrow> market_db.more s = m \<and> (\<exists>xs. offering_products s = ps @ xs)"

lemma beyond_market_updates [simp]:
  "beyond_market m ps (s\<lparr>uuids_drawn := k\<rparr>) = beyond_market m ps s"
  "beyond_market m ps (s\<lparr>clock := c\<rparr>) = beyond_market m ps s"
  "beyond_market m ps (s\<lparr>audit_sequence := n\<rparr>) = beyond_market m ps s"
  "beyond_market m ps (s\<lparr>audit_events := ev\<rparr>) = beyond_market m ps s"
  "beyond_market m ps (s\<lparr>audit_chain_heads := hs\<rparr>) = beyond_market m ps s"
  "beyond_market m ps (s\<lparr>outbox_events := ob\<rparr>) = beyond_market m ps s"
  "beyond_market m ps (s\<lparr>ledger_accounts := la\<rparr>) = beyond_market m ps s"
  "beyond_market m ps (s\<lparr>journal_entries := je\<rparr>) = beyond_market m ps s"
  "beyond_market m ps (s\<lparr>journal_postings := jp\<rparr>) = beyond_market m ps s"
  "beyond_market m ps (s\<lparr>investment_commitments := cm\<rparr>) = beyond_market m ps s"
  "beyond_market m ps (s\<lparr>payment_intents := it\<rparr>) = beyond_market m ps s"
  "beyond_market m ps (s\<lparr>payment_receipts := rs\<rparr>) = beyond_market m ps s"
  "beyond_market m ps (s\<lparr>payment_reconciliation_cases := rk\<rparr>) = beyond_market m ps s"
  "beyond_market m ps (s\<lparr>offering_publication_versions := vs\<rparr>) = beyond_market m ps s"
  "beyond_market m ps (s\<lparr>investor_compliance_profiles := pf\<rparr>) = beyond_market m ps s"
  "beyond_market m ps (s\<lparr>investment_eligibility_snapshots := sn\<rparr>) = beyond_market m ps s"
  "beyond_market m ps (s\<lparr>agreement_acceptances := ac\<rparr>) = beyond_market m ps s"
  "beyond_market m ps (s\<lparr>investment_reservations := rv\<rparr>) = beyond_market m ps s"
  "beyond_market m ps (s\<lparr>payment_provider_instructions := ins\<rparr>) = beyond_market m ps s"
  "beyond_market m ps s \<Longrightarrow> beyond_market m ps (s\<lparr>offering_products := offering_products s @ os\<rparr>)"
  by (auto simp: beyond_market_def)

lemma hoare_checked_insert [hoare_intros]:
  "(\<And>s. P s \<Longrightarrow> Q () (ins s)) \<Longrightarrow> hoare P (checked_insert taken key known fkey ins) Q"
  by (auto simp: hoare_def checked_insert_Inr)

lemma beyond_ensure_account [hoare_intros]: "preserves (beyond_market m ps) (ensureLedgerAccount rt inp)"
  by (rule hoareI) (auto dest!: ensure_account_frame)

lemma beyond_post_journal [hoare_intros]: "preserves (beyond_market m ps) (postJournalInTransaction rt inp)"
  by (rule hoareI) (auto elim!: post_journal_effect)

lemma beyond_commitment [hoare_intros]: "preserves (beyond_market m ps) (createPaymentCommitmentInTransaction rt inp)"
  unfolding createPaymentCommitmentInTransaction_def insert_commitment_def insert_intent_def
  by (intro hoare_intros) simp_all

lemma beyond_publish: "preserves (beyond_market m ps) (publishOfferingInTransaction rt inp)"
  unfolding publishOfferingInTransaction_def insert_offering_def insert_version_def
  by (intro hoare_intros) simp_all

lemma beyond_profile: "preserves (beyond_market m ps) (upsertInvestorComplianceProfileInTransaction inp)"
  unfolding upsertInvestorComplianceProfileInTransaction_def upsert_profile_def
  by (intro hoare_intros) simp_all

lemma beyond_reserve [hoare_intros]: "preserves (beyond_market m ps) (reserve rt inp n t offering version key snap)"
  unfolding reserve_def accept_agreement_def record_reservation_def insert_acceptance_def insert_reservation_def
  by (intro hoare_intros) simp_all

lemma beyond_checkout: "preserves (beyond_market m ps) (checkout_tx rt inp n t)"
  unfolding checkout_tx_def decide_def insert_snapshot_def
  by (intro hoare_intros) simp_all

lemma beyond_receipt: "preserves (beyond_market m ps) (record_receipt_tx rt r)"
  unfolding record_receipt_tx_def record_matched_def record_mismatch_def insert_receipt_def insert_case_def
    set_intent_status_def set_commitment_status_def settle_reservations_def ensureCollectionAccounts_def
  by (intro hoare_intros) simp_all

lemma beyond_expire: "preserves (beyond_market m ps) (expire_intent rt now p)"
  unfolding expire_intent_def set_intent_status_def expire_commitment_def settle_reservations_def cancel_instructions_def
  by (intro hoare_intros) simp_all

lemma beyond_project [hoare_intros]: "preserves (beyond_market m ps) (projectPaymentIntentCreated rt e)"
  unfolding projectPaymentIntentCreated_def insert_instruction_def
  by (intro hoare_intros) simp_all

lemma beyond_published [hoare_intros]: "preserves (beyond_market m ps) (markOutboxEventPublished i w)"
  unfolding markOutboxEventPublished_def
  by (intro hoare_intros) simp_all

lemma beyond_transaction:
  "preserves (beyond_market m ps) f \<Longrightarrow> beyond_market m ps s \<Longrightarrow> beyond_market m ps (snd (withPostgresTransaction d f s))"
  by (rule transaction_preserves)

lemma beyond_outbox_events:
  "beyond_market m ps s \<Longrightarrow>
     beyond_market m ps (snd (dispatch_outbox_events deferred_constraints env (projectPaymentIntentCreated rt) w es s))"
proof (induction es arbitrary: s)
  case (Cons e es)
  let ?m = "andThen (projectPaymentIntentCreated rt e) (markOutboxEventPublished (ob_id e) w)"
  obtain r s1 where p: "withPostgresTransaction deferred_constraints ?m s = (r, s1)" by fastforce
  have "beyond_market m ps (snd (withPostgresTransaction deferred_constraints ?m s))"
    by (rule beyond_transaction) (intro hoare_intros, rule Cons.prems)
  then have "beyond_market m ps s1" by (simp add: p)
  moreover have "beyond_market m ps x" if "markOutboxEventForRetry i w at err s1 = (r', x)" for i at err r' x
    using calculation that by (auto simp: markOutboxEventForRetry_table)
  ultimately show ?case using Cons.IH by (auto simp: p split: sum.splits prod.splits)
qed simp

lemma beyond_instructions:
  "beyond_market m ps s \<Longrightarrow> beyond_market m ps (snd (dispatch_instructions env initialize w es s))"
proof (induction es arbitrary: s)
  case (Cons e es)
  have mark: "beyond_market m ps t \<Longrightarrow> beyond_market m ps (snd (withPostgresTransaction no_deferred (update_claimed i w h) t))" for i h t
    by (simp add: update_claimed_run)
  obtain r s1 where p: "processPaymentProviderInstruction initialize e w s = (r, s1)" by fastforce
  have "beyond_market m ps (snd (processPaymentProviderInstruction initialize e w s))"
    using process_instruction_cases [of initialize e w s] mark Cons.prems by (auto simp: markPaymentInstructionInitialized_def)
  then have "beyond_market m ps s1" by (simp add: p)
  moreover have "beyond_market m ps x" if "markPaymentInstructionForRetry i w at s1 = (r', x)" for i at r' x
    using calculation that mark by (metis markPaymentInstructionForRetry_def snd_conv)
  ultimately show ?case using Cons.IH by (auto simp: p split: sum.splits prod.splits)
qed simp

text \<open>The frame of every market command.\<close>

lemma beyond_market_command:
  assumes "beyond_market m ps s"
  shows "beyond_market m ps (run_market_command rt env c s)"
proof (cases c)
  case (PublishOffering inp)
  then show ?thesis by (simp add: publishOffering_def beyond_transaction [OF beyond_publish assms])
next
  case (ReviewProfile inp)
  then show ?thesis by (simp add: upsertInvestorComplianceProfile_def beyond_transaction [OF beyond_profile assms])
next
  case (CreateCheckout inp)
  have tx: "beyond_market m ps (snd (withPostgresTransaction deferred_constraints (checkout_tx rt inp n t) s))" for n t
    by (rule beyond_transaction [OF beyond_checkout assms])
  show ?thesis unfolding CreateCheckout run_market_command.simps createCheckout_def
    using assms tx by (auto split: sum.splits prod.splits checkout_result.splits) (metis snd_conv)+
next
  case (CreateCommitment inp)
  then show ?thesis by (simp add: createPaymentCommitment_def beyond_transaction [OF beyond_commitment assms])
next
  case (ReceivePayment inp)
  then show ?thesis
    using assms by (auto simp: recordProviderPaymentReceipt_def beyond_transaction [OF beyond_receipt assms] split: sum.splits)
next
  case (ExpirePayments now)
  show ?thesis unfolding ExpirePayments run_market_command.simps expirePendingPaymentIntents_def
    by (rule beyond_transaction) (intro hoare_intros beyond_expire, simp_all add: assms)
next
  case (ProjectEvents w)
  obtain r s1 where c: "claimOutboxEvents w [''payment.intent.created''] (OUTBOX_DISPATCH_BATCH_SIZE env)
      (OUTBOX_CLAIM_TIMEOUT_SECONDS env) s = (r, s1)" by fastforce
  then have "beyond_market m ps s1" using claimOutboxEvents_table assms by fastforce
  then show ?thesis using beyond_outbox_events [of m ps s1 env rt w] assms
    by (auto simp: ProjectEvents dispatchPendingOutboxEvents_def c split: sum.splits prod.splits) (metis snd_conv)+
next
  case (DispatchPayments initialize w)
  obtain out t where c: "claimPaymentProviderInstructions w (OUTBOX_DISPATCH_BATCH_SIZE env) (PAYMENT_INSTRUCTION_CLAIM_TIMEOUT_SECONDS env) s
      = (Inr out, s\<lparr>payment_provider_instructions := t\<rparr>)"
    unfolding claimPaymentProviderInstructions_table by (metis (no_types, lifting) case_prod_beta')
  then show ?thesis using beyond_instructions [of m ps "s\<lparr>payment_provider_instructions := t\<rparr>" env initialize w out] assms
    by (auto simp: DispatchPayments dispatchPendingPaymentProviderInstructions_def split: sum.splits prod.splits)
next
  case (Wait d)
  then show ?thesis using assms by simp
qed

end
