(* ===== verification/Issuance.thy ===== *)
theory Issuance
  imports Checkout
begin

text \<open>
  The tables behind token issuance (migrations 021 to 029) as the next layer of the database
  record: allocation-policy evidence, the three kinds of governed requests (issuance terms,
  investment allocations, chain deployments), investor wallets and their link challenges, and
  the operations and dispatch claims of the two chain executors. The requests share a base
  record and one decision statement: a request is decided once, by somebody other than its
  submitter, under the triggers \<open>protect_*_request\<close>. The clauses of
  \<open>resolve_outbox_privacy_subjects\<close> (migration 138) that read these tables are here too.
\<close>

section \<open>Rows\<close>

datatype requestStatus = Request_submitted | Request_approved | Request_rejected

record request_row =
  rq_id :: uuid
  rq_organization_id :: uuid
  rq_offering_id :: uuid
  rq_status :: requestStatus
  rq_submitted_by_identity_id :: uuid
  rq_submitted_at :: int
  rq_decided_by_identity_id :: "uuid option"
  rq_decided_at :: "int option"
  rq_decision_reason :: "string option"

record terms_row = request_row +
  tr_offering_version_id :: uuid
  tr_currency :: string
  tr_token_unit_price_minor :: int
  tr_max_total_supply :: int
  tr_allocation_policy_hash :: string
  tr_allocation_policy_evidence_document_id :: uuid

record allocation_row = request_row +
  al_issuance_terms_request_id :: uuid
  al_reservation_id :: uuid
  al_investor_identity_id :: uuid
  al_wallet_id :: uuid
  al_chain_id :: int
  al_wallet_address :: string
  al_invested_minor :: int
  al_currency :: string
  al_token_unit_price_minor :: int
  al_token_amount :: int
  al_allocation_policy_hash :: string
  al_compliance_snapshot :: json

record deployment_row = request_row +
  dp_offering_version_id :: uuid
  dp_issuance_terms_request_id :: "uuid option"
  dp_chain_id :: int
  dp_token_factory_address :: string
  dp_offering_name :: string
  dp_token_name :: string
  dp_token_symbol :: string
  dp_max_balance_per_holder :: int
  dp_retail_cap :: int
  dp_max_total_supply :: int

record evidence_row =
  ge_id :: uuid
  ge_organization_id :: uuid
  ge_offering_id :: uuid
  ge_filename :: string
  ge_mime_type :: string
  ge_storage_key :: string
  ge_content_sha256 :: string
  ge_bytes :: int
  ge_uploaded_by_identity_id :: uuid
  ge_created_at :: int

datatype challengeStatus = Challenge_issued | Challenge_consumed | Challenge_expired

record challenge_row =
  lc_id :: uuid
  lc_investor_identity_id :: uuid
  lc_chain_id :: int
  lc_wallet_address :: string
  lc_message_hash :: string
  lc_expires_at :: int
  lc_status :: challengeStatus
  lc_consumed_at :: "int option"

datatype walletStatus = Wallet_active | Wallet_revoked

record wallet_row =
  wl_id :: uuid
  wl_investor_identity_id :: uuid
  wl_chain_id :: int
  wl_wallet_address :: string
  wl_link_challenge_id :: uuid
  wl_signature_hash :: string
  wl_status :: walletStatus
  wl_verified_at :: int
  wl_revoked_at :: "int option"

datatype operationStatus =
    Op_waiting
  | Op_approved
  | Op_submitted
  | Op_confirmed
  | Op_failed
  | Op_cancelled
  | Op_uncertain

record operation_row =
  op_id :: uuid
  op_organization_id :: uuid
  op_offering_id :: uuid
  op_chain_id :: int
  op_status :: operationStatus
  op_transaction_hash :: "string option"
  op_submitted_at :: "int option"
  op_confirmed_at :: "int option"
  op_failure_reason :: "string option"
  op_created_at :: int
  op_updated_at :: int

datatype operationType = Whitelist | Mint

record allocation_operation = operation_row +
  ao_allocation_request_id :: uuid
  ao_token_contract_address :: string
  ao_wallet_address :: string
  ao_token_amount :: int
  ao_operation_type :: operationType

record deployment_operation = operation_row +
  do_request_id :: uuid
  do_token_factory_address :: string
  do_token_contract_address :: "string option"
  do_block_number :: "int option"

datatype claimStatus = Claim_claimed | Claim_submitted | Claim_confirmed | Claim_failed | Claim_uncertain

record claim_row =
  dc_id :: uuid
  dc_operation_id :: uuid
  dc_worker_id :: string
  dc_status :: claimStatus
  dc_transaction_hash :: "string option"
  dc_failure_reason :: "string option"
  dc_claimed_at :: int
  dc_completed_at :: "int option"

record issuance_db = market_db +
  governance_evidence_documents :: "evidence_row list"
  offering_issuance_term_requests :: "terms_row list"
  investor_wallet_link_challenges :: "challenge_row list"
  investor_wallets :: "wallet_row list"
  investment_allocation_requests :: "allocation_row list"
  offering_chain_deployment_requests :: "deployment_row list"
  offering_chain_operations :: "deployment_operation list"
  offering_chain_operation_dispatch_claims :: "claim_row list"
  investment_allocation_chain_operations :: "allocation_operation list"
  investment_allocation_chain_dispatch_claims :: "claim_row list"

section \<open>Column checks\<close>

definition PG_INTEGER_MAX :: int where
  "PG_INTEGER_MAX = 2147483647"

text \<open>\<open>/^0x[a-f0-9]{40}$/\<close> and \<open>/^0x[a-f0-9]{64}$/\<close>.\<close>

definition hex_text :: "nat \<Rightarrow> string \<Rightarrow> bool" where
  "hex_text n t \<longleftrightarrow> take 2 t = ''0x'' \<and> length t = n + 2 \<and> list_all is_hex_lower (drop 2 t)"

definition sha256_text :: "string \<Rightarrow> bool" where
  "sha256_text t \<longleftrightarrow> length t = 64 \<and> list_all is_hex_lower t"

text \<open>A row counts against the partial unique indexes while its request is submitted or
  approved.\<close>

definition active_request :: "'z request_row_scheme \<Rightarrow> bool" where
  "active_request r \<longleftrightarrow> rq_status r = Request_submitted \<or> rq_status r = Request_approved"

definition new_request :: "uuid \<Rightarrow> uuid \<Rightarrow> uuid \<Rightarrow> uuid \<Rightarrow> int \<Rightarrow> request_row" where
  "new_request i org offering submitter now =
     \<lparr>rq_id = i, rq_organization_id = org, rq_offering_id = offering, rq_status = Request_submitted,
      rq_submitted_by_identity_id = submitter, rq_submitted_at = now, rq_decided_by_identity_id = None,
      rq_decided_at = None, rq_decision_reason = None\<rparr>"

section \<open>Decisions\<close>

record decision_input =
  dn_requestId :: uuid
  dn_decidedByIdentityId :: uuid
  dn_approve :: bool
  dn_reason :: "string option"

definition decision_status :: "decision_input \<Rightarrow> requestStatus" where
  "decision_status inp = (if dn_approve inp then Request_approved else Request_rejected)"

definition decision_verb :: "decision_input \<Rightarrow> string" where
  "decision_verb inp = (if dn_approve inp then ''approved'' else ''rejected'')"

definition decision_reason :: "decision_input \<Rightarrow> string option" where
  "decision_reason inp = map_option trim (dn_reason inp)"

definition decide_row :: "decision_input \<Rightarrow> int \<Rightarrow> 'z request_row_scheme \<Rightarrow> 'z request_row_scheme" where
  "decide_row inp now r =
     r\<lparr>rq_status := decision_status inp, rq_decided_by_identity_id := Some (dn_decidedByIdentityId inp),
       rq_decided_at := Some now, rq_decision_reason := decision_reason inp\<rparr>"

text \<open>The guards the three decision functions open with: the request exists, is undecided and
  was submitted by somebody else, and a rejection gives a reason. \<open>err\<close> is the component's
  error class, \<open>name\<close> the request's name in its messages.\<close>

definition decidable ::
    "(string \<Rightarrow> error) \<Rightarrow> string \<Rightarrow> decision_input \<Rightarrow> 'z request_row_scheme option \<Rightarrow> error + 'z request_row_scheme" where
  "decidable err name inp found =
     (case found of
        None \<Rightarrow> Inl (err (name @ '' not found''))
      | Some r \<Rightarrow>
          if rq_status r \<noteq> Request_submitted then Inl (err (name @ '' has already been decided''))
          else if rq_submitted_by_identity_id r = dn_decidedByIdentityId inp
          then Inl (err ''A different person must approve or reject this request'')
          else if \<not> dn_approve inp \<and> (decision_reason inp = None \<or> decision_reason inp = Some [])
          then Inl (err ''A rejection reason is required'')
          else Inr r)"

text \<open>\<open>UPDATE ... SET status, decided_by_identity_id, decided_at, decision_reason WHERE id = $1\<close>
  under the trigger that lets a row be decided only once and the foreign key on the decider.\<close>

definition update_decision ::
    "(('z request_row_scheme list \<Rightarrow> 'z request_row_scheme list) \<Rightarrow> 'y audit_db_scheme \<Rightarrow> 'y audit_db_scheme) \<Rightarrow>
     ('y audit_db_scheme \<Rightarrow> 'z request_row_scheme list) \<Rightarrow> decision_input \<Rightarrow> ('y audit_db_scheme, unit) tx" where
  "update_decision upd rows inp = (\<lambda>s.
     if exists_row (\<lambda>r. rq_id r = dn_requestId inp \<and> rq_status r \<noteq> Request_submitted) (rows s)
     then Inl (TriggerException ''requests may only be decided once'')
     else if \<not> identity_known (dn_decidedByIdentityId inp) s
     then Inl (ForeignKeyViolation ''decided_by_identity_id_fkey'')
     else Inr ((), upd (update_where (\<lambda>r. rq_id r = dn_requestId inp) (decide_row inp (clock s))) s))"

section \<open>Data subjects and the record of an action\<close>

definition allocation_investor :: "'z issuance_db_scheme \<Rightarrow> uuid \<Rightarrow> uuid list" where
  "allocation_investor s i =
     map al_investor_identity_id (filter (\<lambda>r. rq_id r = i) (investment_allocation_requests s))"

definition resolve_issuance_privacy_subjects :: "'z issuance_db_scheme \<Rightarrow> string \<Rightarrow> string \<Rightarrow> uuid list" where
  "resolve_issuance_privacy_subjects s aggregateType aggregateId =
     (if \<not> uuidPattern aggregateId then []
      else let key = toLowerCase aggregateId in
        if aggregateType = ''investor_wallet''
        then sort_by str_le (unique_values
          (map wl_investor_identity_id (filter (\<lambda>r. wl_id r = key) (investor_wallets s))))
        else if aggregateType = ''investor_wallet_link_challenge''
        then sort_by str_le (unique_values
          (map lc_investor_identity_id (filter (\<lambda>r. lc_id r = key) (investor_wallet_link_challenges s))))
        else if aggregateType = ''investment_allocation_request''
        then sort_by str_le (unique_values (allocation_investor s key))
        else if aggregateType = ''investment_allocation_chain_operation''
        then sort_by str_le (unique_values (concat (map (\<lambda>r. allocation_investor s (ao_allocation_request_id r))
          (filter (\<lambda>r. op_id r = key) (investment_allocation_chain_operations s)))))
        else resolve_market_privacy_subjects s aggregateType aggregateId)"

text \<open>Every command of this layer ends by appending an audit event and the outbox event that
  refers to it.\<close>

definition emit ::
    "runtime \<Rightarrow> audit_input \<Rightarrow> string \<Rightarrow> (uuid \<Rightarrow> json_object) \<Rightarrow> ('z issuance_db_scheme, unit) tx" where
  "emit rt audit eventType payload =
     bnd (appendPostgresAuditEvent rt audit) (\<lambda>event.
     andThen (appendOutboxEvent rt resolve_issuance_privacy_subjects
       (outbox_of (ai_entityType audit) (ai_entityId audit) eventType (payload (aud_id event)))) (ret ()))"

lemmas [tx_defs] = update_decision_def emit_def

section \<open>Rules\<close>

lemma new_request_sels [simp]:
  "rq_id (new_request i org offering submitter now) = i"
  "rq_status (new_request i org offering submitter now) = Request_submitted"
  by (simp_all add: new_request_def)

lemma decide_row_sels [simp]:
  "rq_id (decide_row inp now r) = rq_id r" "rq_organization_id (decide_row inp now r) = rq_organization_id r"
  "rq_offering_id (decide_row inp now r) = rq_offering_id r" "rq_status (decide_row inp now r) = decision_status inp"
  "rq_submitted_by_identity_id (decide_row inp now r) = rq_submitted_by_identity_id r"
  "rq_submitted_at (decide_row inp now r) = rq_submitted_at r"
  "request_row.more (decide_row inp now r) = request_row.more r"
  "rq_decided_by_identity_id (decide_row inp now r) = Some (dn_decidedByIdentityId inp)"
  by (simp_all add: decide_row_def)

lemma decision_status_decided [simp]: "decision_status inp \<noteq> Request_submitted"
  by (simp add: decision_status_def)

lemma decidable_Inr:
  "decidable err name inp found = Inr r \<longleftrightarrow>
     found = Some r \<and> rq_status r = Request_submitted \<and> rq_submitted_by_identity_id r \<noteq> dn_decidedByIdentityId inp
     \<and> (dn_approve inp \<or> (\<exists>t. decision_reason inp = Some t \<and> t \<noteq> []))"
  by (cases found) (auto simp: decidable_def)

lemma update_decision_Inr:
  "update_decision upd rows inp s = Inr (u, s') \<longleftrightarrow>
     (\<forall>r \<in> set (rows s). rq_id r = dn_requestId inp \<longrightarrow> rq_status r = Request_submitted)
     \<and> identity_known (dn_decidedByIdentityId inp) s
     \<and> s' = upd (update_where (\<lambda>r. rq_id r = dn_requestId inp) (decide_row inp (clock s))) s"
  by (auto simp: update_decision_def)

lemma emit_frame:
  assumes "emit rt audit eventType payload s = Inr (u, s')"
  shows "\<exists>k n ev hs ob. s' = s\<lparr>audit_sequence := n, audit_events := audit_events s @ [ev],
           audit_chain_heads := hs, uuids_drawn := k, outbox_events := ob\<rparr>"
  using assms unfolding emit_def
  by (fastforce simp: tx_Inr elim!: tx_elims dest!: append_audit_frame append_outbox_frame)

end
