(* ===== verification/Issuance_Terms.thy ===== *)
theory Issuance_Terms
  imports Issuance
begin

text \<open>
  The economics of an issuance: \<^verbatim>\<open>src/platform/postgres-governance-evidence.ts\<close> (the
  allocation-policy document an organization records for a published offering) and
  \<^verbatim>\<open>src/platform/postgres-offering-issuance-terms.ts\<close> (unit price and supply cap, submitted
  against that evidence and decided by a second person), over the tables and triggers of the
  migrations 025 and 029.
\<close>

section \<open>Evidence\<close>

record evidence_input =
  ev_organizationId :: uuid
  ev_offeringId :: uuid
  ev_uploadedByIdentityId :: uuid
  ev_filename :: string
  ev_mimeType :: string
  ev_storageKey :: string
  ev_contentSha256 :: string
  ev_bytes :: js_number

definition normalized_evidence :: "string \<Rightarrow> string \<Rightarrow> nat \<Rightarrow> error + string" where
  "normalized_evidence v field limit =
     (let result = trim v in
      if result = [] \<or> length result > limit
      then Inl (GovernanceEvidenceError (field @ '' is required and must be at most '' @ show_int (int limit) @ '' characters''))
      else Inr result)"

definition evidence_hash :: "string \<Rightarrow> error + string" where
  "evidence_hash v =
     (let result = toLowerCase (trim v) in
      if \<not> sha256_text result then Inl (GovernanceEvidenceError ''contentSha256 must be a SHA-256 hash'') else Inr result)"

definition evidence_size :: "js_number \<Rightarrow> error + int" where
  "evidence_size v =
     (let n = amount_value (NumberAmount v) in
      if \<not> isSafeInteger v \<or> n \<le> 0 \<or> n > 15 * 1024 * 1024
      then Inl (GovernanceEvidenceError ''bytes must be a positive safe integer no greater than 15MB'')
      else Inr n)"

definition published_offering_of :: "uuid \<Rightarrow> uuid \<Rightarrow> 'z market_db_scheme \<Rightarrow> offering_row option" where
  "published_offering_of offeringId organizationId s =
     first_row (\<lambda>p. of_id p = offeringId \<and> of_organization_id p = organizationId \<and> of_status p = Offering_published)
       (offering_products s)"

definition insert_evidence :: "evidence_row \<Rightarrow> ('z issuance_db_scheme, unit) tx" where
  "insert_evidence row =
     checked_insert (\<lambda>s. exists_row (\<lambda>r. ge_id r = ge_id row \<or> ge_storage_key r = ge_storage_key row) (governance_evidence_documents s))
       ''governance_evidence_documents_storage_key_key''
       (\<lambda>s. ge_organization_id row \<in> set (organizations s)
          \<and> exists_row (\<lambda>p. of_id p = ge_offering_id row) (offering_products s)
          \<and> identity_known (ge_uploaded_by_identity_id row) s) ''governance_evidence_documents_fkey''
       (\<lambda>s. s\<lparr>governance_evidence_documents := governance_evidence_documents s @ [row]\<rparr>)"

definition record_evidence_tx ::
    "runtime \<Rightarrow> evidence_input \<Rightarrow> string \<Rightarrow> string \<Rightarrow> string \<Rightarrow> string \<Rightarrow> int \<Rightarrow> ('z issuance_db_scheme, uuid \<times> string) tx" where
  "record_evidence_tx rt inp filename mimeType storageKey contentSha256 bytes =
     bnd (randomUUID rt) (\<lambda>evidenceDocumentId.
     bnd (query (published_offering_of (ev_offeringId inp) (ev_organizationId inp))) (\<lambda>offering.
     andThen (require (offering \<noteq> None)
       (GovernanceEvidenceError ''Allocation policy evidence requires a published offering in the organization''))
     (bnd (query clock) (\<lambda>now.
     andThen (insert_evidence \<lparr>ge_id = evidenceDocumentId, ge_organization_id = ev_organizationId inp,
       ge_offering_id = ev_offeringId inp, ge_filename = filename, ge_mime_type = mimeType, ge_storage_key = storageKey,
       ge_content_sha256 = contentSha256, ge_bytes = bytes, ge_uploaded_by_identity_id = ev_uploadedByIdentityId inp,
       ge_created_at = now\<rparr>)
     (andThen (emit rt (audit_of (ev_organizationId inp) (Some (ev_uploadedByIdentityId inp)) ''user''
         ''offering.allocation_policy_evidence.recorded'' ''governance_evidence_document'' evidenceDocumentId
         [(''offeringId'', JStr (ev_offeringId inp)), (''evidenceKind'', JStr ''allocation_policy''),
          (''filename'', JStr filename), (''mimeType'', JStr mimeType), (''contentSha256'', JStr contentSha256),
          (''bytes'', JNum bytes)])
        ''offering.allocation_policy_evidence.recorded''
        (\<lambda>auditId. [(''organizationId'', JStr (ev_organizationId inp)), (''offeringId'', JStr (ev_offeringId inp)),
           (''auditEventId'', JStr auditId)]))
     (ret (evidenceDocumentId, contentSha256)))))))"

definition recordAllocationPolicyEvidence ::
    "runtime \<Rightarrow> evidence_input \<Rightarrow> 'z issuance_db_scheme \<Rightarrow> (error + uuid \<times> string) \<times> 'z issuance_db_scheme" where
  "recordAllocationPolicyEvidence rt inp =
     withPostgresTransaction deferred_constraints
      (bnd (lift_sum (normalized_evidence (ev_filename inp) ''filename'' 240)) (\<lambda>filename.
       bnd (lift_sum (normalized_evidence (ev_mimeType inp) ''mimeType'' 160)) (\<lambda>mimeType.
       bnd (lift_sum (normalized_evidence (ev_storageKey inp) ''storageKey'' 2000)) (\<lambda>storageKey.
       bnd (lift_sum (evidence_hash (ev_contentSha256 inp))) (\<lambda>contentSha256.
       bnd (lift_sum (evidence_size (ev_bytes inp))) (\<lambda>bytes.
       record_evidence_tx rt inp filename (toLowerCase mimeType) storageKey contentSha256 bytes))))))"

section \<open>Terms\<close>

record terms_input =
  ti_organizationId :: uuid
  ti_offeringId :: uuid
  ti_submittedByIdentityId :: uuid
  ti_tokenUnitPriceMinor :: js_amount
  ti_maxTotalSupply :: js_amount
  ti_allocationPolicyEvidenceDocumentId :: string

definition terms_amount :: "js_amount \<Rightarrow> string \<Rightarrow> error + int" where
  "terms_amount v field =
     (if is_unsafe_number v then Inl (OfferingIssuanceTermsError (field @ '' must be a safe integer''))
      else let result = amount_value v in
        if result \<le> 0 then Inl (OfferingIssuanceTermsError (field @ '' must be greater than zero'')) else Inr result)"

text \<open>The pattern of this file admits the UUID versions 1 to 5.\<close>

definition evidence_id_pattern :: "string \<Rightarrow> bool" where
  "evidence_id_pattern t \<longleftrightarrow> uuidPattern t \<and> t ! 14 \<in> set ''12345''"

text \<open>The trigger \<open>validate_issuance_terms_evidence\<close>.\<close>

definition validate_issuance_terms_evidence :: "terms_row \<Rightarrow> 'z issuance_db_scheme \<Rightarrow> bool" where
  "validate_issuance_terms_evidence row s \<longleftrightarrow>
     (case first_row (\<lambda>e. ge_id e = tr_allocation_policy_evidence_document_id row) (governance_evidence_documents s) of
        None \<Rightarrow> False
      | Some e \<Rightarrow> ge_organization_id e = rq_organization_id row \<and> ge_offering_id e = rq_offering_id row
          \<and> ge_content_sha256 e = tr_allocation_policy_hash row)"

definition insert_terms :: "terms_row \<Rightarrow> ('z issuance_db_scheme, unit) tx" where
  "insert_terms row =
     bnd (query (validate_issuance_terms_evidence row)) (\<lambda>ok.
     andThen (require ok (TriggerException ''issuance terms evidence does not match the governed offering or policy hash''))
     (andThen (require (tr_token_unit_price_minor row \<le> PG_BIGINT_MAX) (NumericValueOutOfRange ''token_unit_price_minor''))
     (andThen (require (tr_currency row = toUpperCase (tr_currency row) \<and> 0 < tr_token_unit_price_minor row
          \<and> 0 < tr_max_total_supply row \<and> sha256_text (tr_allocation_policy_hash row))
        (CheckViolation ''offering_issuance_term_requests_check''))
     (checked_insert (\<lambda>s. exists_row (\<lambda>r. rq_id r = rq_id row
          \<or> (active_request r \<and> active_request row \<and> rq_offering_id r = rq_offering_id row)) (offering_issuance_term_requests s))
        ''offering_issuance_terms_one_active_idx''
        (\<lambda>s. rq_organization_id row \<in> set (organizations s)
           \<and> exists_row (\<lambda>p. of_id p = rq_offering_id row) (offering_products s)
           \<and> exists_row (\<lambda>v. ov_id v = tr_offering_version_id row) (offering_publication_versions s)
           \<and> identity_known (rq_submitted_by_identity_id row) s) ''offering_issuance_term_requests_fkey''
        (\<lambda>s. s\<lparr>offering_issuance_term_requests := offering_issuance_term_requests s @ [row]\<rparr>)))))"

definition terms_row_of :: "terms_input \<Rightarrow> uuid \<Rightarrow> int \<Rightarrow> offering_row \<Rightarrow> uuid \<Rightarrow> int \<Rightarrow> int \<Rightarrow> evidence_row \<Rightarrow> terms_row" where
  "terms_row_of inp i now offering versionId price supply e =
     request_row.extend (new_request i (ti_organizationId inp) (ti_offeringId inp) (ti_submittedByIdentityId inp) now)
       (terms_row.fields versionId (of_currency offering) price supply (ge_content_sha256 e) (ge_id e))"

definition submit_terms_tx ::
    "runtime \<Rightarrow> terms_input \<Rightarrow> int \<Rightarrow> int \<Rightarrow> string \<Rightarrow> ('z issuance_db_scheme, uuid) tx" where
  "submit_terms_tx rt inp price supply evidenceId =
     bnd (randomUUID rt) (\<lambda>requestId.
     bnd (query (\<lambda>s. case published_offering_of (ti_offeringId inp) (ti_organizationId inp) s of
         None \<Rightarrow> None
       | Some p \<Rightarrow> map_option (\<lambda>v. (p, ov_id v)) (current_version (of_id p) s))) (\<lambda>row.
     case row of
       None \<Rightarrow> throw (OfferingIssuanceTermsError ''Only a published offering with immutable terms can receive issuance economics'')
     | Some (offering, versionId) \<Rightarrow>
         andThen (require (\<not> price * supply > of_capacity_minor offering)
           (OfferingIssuanceTermsError ''Token supply at the proposed unit price exceeds offering capacity''))
         (bnd (query (\<lambda>s. first_row (\<lambda>e. ge_id e = toLowerCase evidenceId \<and> ge_organization_id e = ti_organizationId inp
             \<and> ge_offering_id e = ti_offeringId inp) (governance_evidence_documents s))) (\<lambda>evidence.
          case evidence of
            None \<Rightarrow> throw (OfferingIssuanceTermsError ''Issuance terms require allocation-policy evidence recorded for this offering'')
          | Some e \<Rightarrow>
              bnd (query clock) (\<lambda>now.
              andThen (insert_terms (terms_row_of inp requestId now offering versionId price supply e))
              (andThen (emit rt (audit_of (ti_organizationId inp) (Some (ti_submittedByIdentityId inp)) ''user''
                  ''offering.issuance_terms.submitted'' ''offering_issuance_term_request'' requestId
                  [(''offeringId'', JStr (ti_offeringId inp)), (''offeringVersionId'', JStr versionId),
                   (''currency'', JStr (of_currency offering)), (''tokenUnitPriceMinor'', JStr (show_int price)),
                   (''maxTotalSupply'', JStr (show_int supply)), (''allocationPolicyHash'', JStr (ge_content_sha256 e)),
                   (''allocationPolicyEvidenceDocumentId'', JStr evidenceId)])
                 ''offering.issuance_terms.submitted''
                 (\<lambda>auditId. [(''organizationId'', JStr (ti_organizationId inp)), (''offeringId'', JStr (ti_offeringId inp)),
                    (''auditEventId'', JStr auditId)]))
              (ret requestId)))))))"

definition submitOfferingIssuanceTerms ::
    "runtime \<Rightarrow> terms_input \<Rightarrow> 'z issuance_db_scheme \<Rightarrow> (error + uuid) \<times> 'z issuance_db_scheme" where
  "submitOfferingIssuanceTerms rt inp =
     withPostgresTransaction deferred_constraints
      (bnd (lift_sum (terms_amount (ti_tokenUnitPriceMinor inp) ''tokenUnitPriceMinor'')) (\<lambda>price.
       bnd (lift_sum (terms_amount (ti_maxTotalSupply inp) ''maxTotalSupply'')) (\<lambda>supply.
       let evidenceId = trim (ti_allocationPolicyEvidenceDocumentId inp) in
       andThen (require (evidence_id_pattern evidenceId)
         (OfferingIssuanceTermsError ''allocationPolicyEvidenceDocumentId must be a UUID''))
       (submit_terms_tx rt inp price supply evidenceId))))"

definition find_terms :: "uuid \<Rightarrow> 'z issuance_db_scheme \<Rightarrow> terms_row option" where
  "find_terms i s = first_row (\<lambda>r. rq_id r = i) (offering_issuance_term_requests s)"

definition decide_terms_tx :: "runtime \<Rightarrow> decision_input \<Rightarrow> ('z issuance_db_scheme, uuid \<times> requestStatus) tx" where
  "decide_terms_tx rt inp =
     bnd (query (find_terms (dn_requestId inp))) (\<lambda>found.
     bnd (lift_sum (decidable OfferingIssuanceTermsError ''Offering issuance terms request'' inp found)) (\<lambda>request.
     andThen (update_decision offering_issuance_term_requests_update offering_issuance_term_requests inp)
     (andThen (emit rt ((audit_of (rq_organization_id request) (Some (dn_decidedByIdentityId inp)) ''user''
         (''offering.issuance_terms.'' @ decision_verb inp) ''offering_issuance_term_request'' (rq_id request)
         [(''offeringId'', JStr (rq_offering_id request)),
          (''tokenUnitPriceMinor'', JStr (show_int (tr_token_unit_price_minor request))),
          (''maxTotalSupply'', JStr (show_int (tr_max_total_supply request)))])\<lparr>ai_reason := decision_reason inp\<rparr>)
        (''offering.issuance_terms.'' @ decision_verb inp)
        (\<lambda>auditId. [(''organizationId'', JStr (rq_organization_id request)), (''offeringId'', JStr (rq_offering_id request)),
           (''auditEventId'', JStr auditId)]))
     (ret (rq_id request, decision_status inp)))))"

definition decideOfferingIssuanceTerms ::
    "runtime \<Rightarrow> decision_input \<Rightarrow> 'z issuance_db_scheme \<Rightarrow> (error + uuid \<times> requestStatus) \<times> 'z issuance_db_scheme" where
  "decideOfferingIssuanceTerms rt inp = withPostgresTransaction deferred_constraints (decide_terms_tx rt inp)"

lemmas [tx_defs] = record_evidence_tx_def recordAllocationPolicyEvidence_def insert_evidence_def insert_terms_def
  submit_terms_tx_def submitOfferingIssuanceTerms_def decide_terms_tx_def decideOfferingIssuanceTerms_def

section \<open>Listings\<close>

text \<open>\<open>ORDER BY submitted_at DESC, id DESC\<close>, shared by the three kinds of requests.\<close>

definition newest_first :: "'z request_row_scheme \<Rightarrow> 'z request_row_scheme \<Rightarrow> bool" where
  "newest_first a b \<longleftrightarrow> rq_submitted_at b < rq_submitted_at a
     \<or> (rq_submitted_at a = rq_submitted_at b \<and> str_le (rq_id b) (rq_id a))"

definition organization_requests ::
    "uuid \<Rightarrow> requestStatus option \<Rightarrow> 'z request_row_scheme list \<Rightarrow> 'z request_row_scheme list" where
  "organization_requests org status rows =
     sort_by newest_first (filter (\<lambda>r. rq_organization_id r = org \<and> (status = None \<or> status = Some (rq_status r))) rows)"

definition getOfferingIssuanceTerms :: "uuid \<Rightarrow> 'z issuance_db_scheme \<Rightarrow> terms_row option" where
  "getOfferingIssuanceTerms requestId s = find_terms requestId s"

definition listOfferingIssuanceTerms :: "uuid \<Rightarrow> requestStatus option \<Rightarrow> 'z issuance_db_scheme \<Rightarrow> terms_row list" where
  "listOfferingIssuanceTerms org status s = organization_requests org status (offering_issuance_term_requests s)"

definition getGovernanceEvidenceDocument :: "uuid \<Rightarrow> 'z issuance_db_scheme \<Rightarrow> evidence_row option" where
  "getGovernanceEvidenceDocument i s = first_row (\<lambda>r. ge_id r = i) (governance_evidence_documents s)"

definition listAllocationPolicyEvidence :: "uuid \<Rightarrow> uuid option \<Rightarrow> 'z issuance_db_scheme \<Rightarrow> evidence_row list" where
  "listAllocationPolicyEvidence org offering s =
     sort_by (\<lambda>a b. ge_created_at b < ge_created_at a \<or> (ge_created_at a = ge_created_at b \<and> str_le (ge_id b) (ge_id a)))
       (filter (\<lambda>r. ge_organization_id r = org \<and> (offering = None \<or> offering = Some (ge_offering_id r)))
         (governance_evidence_documents s))"

end
