(* ===== verification/Wallets.thy ===== *)
theory Wallets
  imports Issuance
begin

text \<open>
  Investor wallets: \<^verbatim>\<open>src/platform/postgres-investor-wallets.ts\<close> over the tables and triggers of
  migration 023. An investor asks for a challenge that names the identity, the chain, the wallet,
  the challenge and its expiry, signs that text with the wallet's key, and confirms the challenge
  with the signature; the wallet is then linked to the identity. Signature recovery is viem's
  \<open>verifyMessage\<close>: it is the argument \<open>verifyMessage\<close> of the definitions, and \<open>Inl\<close> is its throw.
\<close>

section \<open>Challenges\<close>

record wallet_challenge_input =
  wc_investorIdentityId :: uuid
  wc_chainId :: js_number
  wc_walletAddress :: string
  wc_expiresAt :: "int option"

record issued_wallet_challenge =
  ic_challengeId :: uuid
  ic_chainId :: int
  ic_walletAddress :: string
  ic_message :: string
  ic_expiresAt :: int

definition wallet_address_of :: "string \<Rightarrow> error + string" where
  "wallet_address_of v =
     (let normalized = toLowerCase (trim v) in
      if \<not> hex_text 40 normalized then Inl (InvestorWalletLinkError ''walletAddress must be an EVM address'')
      else Inr normalized)"

definition wallet_chain_id :: "js_number \<Rightarrow> error + int" where
  "wallet_chain_id v =
     (let n = amount_value (NumberAmount v) in
      if \<not> isSafeInteger v \<or> n \<le> 0 then Inl (InvestorWalletLinkError ''chainId must be a positive safe integer'')
      else Inr n)"

definition link_message :: "uuid \<Rightarrow> int \<Rightarrow> string \<Rightarrow> uuid \<Rightarrow> int \<Rightarrow> string" where
  "link_message identityId chainId walletAddress challengeId expiresAt =
     join_with [CHR 10]
       [''Fractal wallet ownership verification'', ''Identity: '' @ identityId, ''Chain ID: '' @ show_int chainId,
        ''Wallet: '' @ walletAddress, ''Challenge: '' @ challengeId, ''Expires at: '' @ toISOString expiresAt]"

definition identity_audit :: "uuid \<Rightarrow> string \<Rightarrow> string \<Rightarrow> string \<Rightarrow> json_object \<Rightarrow> audit_input" where
  "identity_audit identityId action entityType entityId payload =
     \<lparr>ai_scopeKey = ''identity:'' @ identityId, ai_organizationId = None, ai_actorId = Some identityId,
      ai_actorType = ''user'', ai_action = action, ai_entityType = entityType, ai_entityId = entityId,
      ai_reason = None, ai_payload = JObj payload, ai_occurredAt = None\<rparr>"

definition insert_challenge :: "challenge_row \<Rightarrow> ('z issuance_db_scheme, unit) tx" where
  "insert_challenge row =
     andThen (require (lc_chain_id row \<le> PG_INTEGER_MAX) (NumericValueOutOfRange ''chain_id''))
     (checked_insert (\<lambda>s. exists_row (\<lambda>r. lc_id r = lc_id row) (investor_wallet_link_challenges s))
        ''investor_wallet_link_challenges_pkey''
        (identity_known (lc_investor_identity_id row)) ''investor_wallet_link_challenges_investor_identity_id_fkey''
        (\<lambda>s. s\<lparr>investor_wallet_link_challenges := investor_wallet_link_challenges s @ [row]\<rparr>))"

definition create_challenge_tx ::
    "runtime \<Rightarrow> uuid \<Rightarrow> int \<Rightarrow> string \<Rightarrow> int \<Rightarrow> ('z issuance_db_scheme, issued_wallet_challenge) tx" where
  "create_challenge_tx rt identityId chainId walletAddress expiresAt =
     bnd (randomUUID rt) (\<lambda>challengeId.
     let signatureMessage = link_message identityId chainId walletAddress challengeId expiresAt in
     andThen (insert_challenge \<lparr>lc_id = challengeId, lc_investor_identity_id = identityId, lc_chain_id = chainId,
       lc_wallet_address = walletAddress, lc_message_hash = rt_sha256 rt signatureMessage, lc_expires_at = expiresAt,
       lc_status = Challenge_issued, lc_consumed_at = None\<rparr>)
     (andThen (emit rt (identity_audit identityId ''investor.wallet_link.challenge_issued''
         ''investor_wallet_link_challenge'' challengeId
         [(''chainId'', JNum chainId), (''walletAddress'', JStr walletAddress), (''expiresAt'', JStr (toISOString expiresAt))])
        ''investor.wallet_link.challenge_issued''
        (\<lambda>auditId. [(''investorIdentityId'', JStr identityId), (''auditEventId'', JStr auditId)]))
     (ret \<lparr>ic_challengeId = challengeId, ic_chainId = chainId, ic_walletAddress = walletAddress,
           ic_message = signatureMessage, ic_expiresAt = expiresAt\<rparr>)))"

definition createInvestorWalletLinkChallenge ::
    "runtime \<Rightarrow> wallet_challenge_input \<Rightarrow> 'z issuance_db_scheme \<Rightarrow> (error + issued_wallet_challenge) \<times> 'z issuance_db_scheme" where
  "createInvestorWalletLinkChallenge rt inp =
     withPostgresTransaction deferred_constraints
      (bnd (lift_sum (wallet_address_of (wc_walletAddress inp))) (\<lambda>walletAddress.
       bnd (lift_sum (wallet_chain_id (wc_chainId inp))) (\<lambda>chainId.
       bnd (query clock) (\<lambda>now.
       let expiresAt = (case wc_expiresAt inp of None \<Rightarrow> now + 10 * 60 * 1000 | Some t \<Rightarrow> t) in
       andThen (require (\<not> expiresAt \<le> now) (InvestorWalletLinkError ''Wallet link challenge expiry must be in the future''))
       (create_challenge_tx rt (wc_investorIdentityId inp) chainId walletAddress expiresAt)))))"

section \<open>Confirmation\<close>

record wallet_confirmation =
  wf_investorIdentityId :: uuid
  wf_challengeId :: uuid
  wf_signature :: string

record linked_wallet =
  lw_walletId :: uuid
  lw_chainId :: int
  lw_walletAddress :: string
  lw_verifiedAt :: int

type_synonym verifier = "string \<Rightarrow> string \<Rightarrow> string \<Rightarrow> error + bool"

definition signature_pattern :: "string \<Rightarrow> bool" where
  "signature_pattern t \<longleftrightarrow> take 2 t = ''0x'' \<and> length t = 132 \<and> list_all is_hex_lower (map to_lower (drop 2 t))"

definition challenge_message :: "challenge_row \<Rightarrow> string" where
  "challenge_message c =
     link_message (lc_investor_identity_id c) (lc_chain_id c) (lc_wallet_address c) (lc_id c) (lc_expires_at c)"

text \<open>\<open>UPDATE ... SET status, consumed_at WHERE id = $1\<close> under the trigger
  \<open>enforce_investor_wallet_challenge_transition\<close>.\<close>

definition close_challenge :: "uuid \<Rightarrow> challengeStatus \<Rightarrow> ('z issuance_db_scheme, unit) tx" where
  "close_challenge i status =
     bnd (query (\<lambda>s. exists_row (\<lambda>r. lc_id r = i \<and> lc_status r \<noteq> Challenge_issued) (investor_wallet_link_challenges s))) (\<lambda>bad.
     andThen (require (\<not> bad) (TriggerException ''invalid investor wallet link challenge transition''))
     (modify (\<lambda>s. s\<lparr>investor_wallet_link_challenges := update_where (\<lambda>r. lc_id r = i)
        (\<lambda>r. r\<lparr>lc_status := status, lc_consumed_at := Some (clock s)\<rparr>) (investor_wallet_link_challenges s)\<rparr>)))"

definition insert_wallet :: "wallet_row \<Rightarrow> ('z issuance_db_scheme, unit) tx" where
  "insert_wallet row =
     checked_insert (\<lambda>s. exists_row (\<lambda>r. wl_id r = wl_id row \<or> wl_link_challenge_id r = wl_link_challenge_id row
         \<or> (wl_chain_id r = wl_chain_id row \<and> wl_wallet_address r = wl_wallet_address row
            \<and> (wl_investor_identity_id r = wl_investor_identity_id row
               \<or> (wl_status r = Wallet_active \<and> wl_status row = Wallet_active)))) (investor_wallets s))
       ''investor_wallets_active_address_idx''
       (\<lambda>s. identity_known (wl_investor_identity_id row) s
          \<and> exists_row (\<lambda>c. lc_id c = wl_link_challenge_id row) (investor_wallet_link_challenges s)) ''investor_wallets_fkey''
       (\<lambda>s. s\<lparr>investor_wallets := investor_wallets s @ [row]\<rparr>)"

definition link_refusal :: "uuid \<Rightarrow> wallet_row option \<Rightarrow> error option" where
  "link_refusal identityId linked =
     (case linked of
        None \<Rightarrow> None
      | Some w \<Rightarrow>
          if wl_status w = Wallet_active \<and> wl_investor_identity_id w \<noteq> identityId
          then Some (InvestorWalletLinkError ''Wallet is already linked to another investor'')
          else if wl_status w = Wallet_active
          then Some (InvestorWalletLinkError ''Wallet is already linked to this investor'')
          else Some (InvestorWalletLinkError ''Wallet was previously revoked and requires a controlled recovery procedure''))"

definition linked_wallet_at :: "int \<Rightarrow> string \<Rightarrow> 'z issuance_db_scheme \<Rightarrow> wallet_row option" where
  "linked_wallet_at chainId walletAddress s =
     first_row (\<lambda>w. wl_chain_id w = chainId \<and> wl_wallet_address w = walletAddress) (investor_wallets s)"

definition link_wallet :: "runtime \<Rightarrow> wallet_confirmation \<Rightarrow> challenge_row \<Rightarrow> ('z issuance_db_scheme, linked_wallet) tx" where
  "link_wallet rt inp challenge =
     bnd (randomUUID rt) (\<lambda>walletId.
     bnd (query clock) (\<lambda>now.
     andThen (insert_wallet \<lparr>wl_id = walletId, wl_investor_identity_id = wf_investorIdentityId inp,
       wl_chain_id = lc_chain_id challenge, wl_wallet_address = lc_wallet_address challenge,
       wl_link_challenge_id = lc_id challenge, wl_signature_hash = rt_sha256 rt (toLowerCase (wf_signature inp)),
       wl_status = Wallet_active, wl_verified_at = now, wl_revoked_at = None\<rparr>)
     (andThen (close_challenge (lc_id challenge) Challenge_consumed)
     (andThen (emit rt (identity_audit (wf_investorIdentityId inp) ''investor.wallet_link.confirmed''
         ''investor_wallet'' walletId
         [(''challengeId'', JStr (lc_id challenge)), (''chainId'', JNum (lc_chain_id challenge)),
          (''walletAddress'', JStr (lc_wallet_address challenge))])
        ''investor.wallet_link.confirmed''
        (\<lambda>auditId. [(''investorIdentityId'', JStr (wf_investorIdentityId inp)), (''auditEventId'', JStr auditId)]))
     (ret \<lparr>lw_walletId = walletId, lw_chainId = lc_chain_id challenge,
           lw_walletAddress = lc_wallet_address challenge, lw_verifiedAt = now\<rparr>)))))"

definition confirm_challenge_tx ::
    "runtime \<Rightarrow> verifier \<Rightarrow> wallet_confirmation \<Rightarrow> ('z issuance_db_scheme, linked_wallet) tx" where
  "confirm_challenge_tx rt verifyMessage inp =
     bnd (query (\<lambda>s. first_row (\<lambda>c. lc_id c = wf_challengeId inp) (investor_wallet_link_challenges s))) (\<lambda>found.
     bnd (query clock) (\<lambda>now.
     case found of
       None \<Rightarrow> throw (InvestorWalletLinkError ''Wallet link challenge not found'')
     | Some challenge \<Rightarrow>
         andThen (require (lc_investor_identity_id challenge = wf_investorIdentityId inp)
           (InvestorWalletLinkError ''Wallet link challenge not found''))
         (andThen (require (lc_status challenge = Challenge_issued)
           (InvestorWalletLinkError ''Wallet link challenge has already been used''))
         (if lc_expires_at challenge \<le> now
          then andThen (close_challenge (lc_id challenge) Challenge_expired)
                 (throw (InvestorWalletLinkError ''Wallet link challenge has expired''))
          else
            andThen (require (rt_sha256 rt (challenge_message challenge) = lc_message_hash challenge)
              (GenericError ''Wallet link challenge integrity check failed''))
            (andThen (require (verifyMessage (lc_wallet_address challenge) (challenge_message challenge) (wf_signature inp) = Inr True)
              (InvestorWalletLinkError ''Signature does not prove ownership of this wallet''))
            (bnd (query (linked_wallet_at (lc_chain_id challenge) (lc_wallet_address challenge))) (\<lambda>linked.
             case link_refusal (wf_investorIdentityId inp) linked of
               Some e \<Rightarrow> throw e
             | None \<Rightarrow> link_wallet rt inp challenge)))))))"

definition confirmInvestorWalletLinkChallenge ::
    "runtime \<Rightarrow> verifier \<Rightarrow> wallet_confirmation \<Rightarrow> 'z issuance_db_scheme \<Rightarrow> (error + linked_wallet) \<times> 'z issuance_db_scheme" where
  "confirmInvestorWalletLinkChallenge rt verifyMessage inp s =
     (if \<not> signature_pattern (wf_signature inp)
      then (Inl (InvestorWalletLinkError ''signature must be a 65-byte EVM signature''), s)
      else withPostgresTransaction deferred_constraints (confirm_challenge_tx rt verifyMessage inp) s)"

definition listInvestorWallets :: "uuid \<Rightarrow> 'z issuance_db_scheme \<Rightarrow> wallet_row list" where
  "listInvestorWallets identityId s =
     sort_by (\<lambda>a b. wl_verified_at b < wl_verified_at a \<or> (wl_verified_at a = wl_verified_at b \<and> str_le (wl_id b) (wl_id a)))
       (filter (\<lambda>w. wl_investor_identity_id w = identityId) (investor_wallets s))"

lemmas [tx_defs] = insert_challenge_def create_challenge_tx_def createInvestorWalletLinkChallenge_def close_challenge_def
  insert_wallet_def link_wallet_def confirm_challenge_tx_def confirmInvestorWalletLinkChallenge_def

end
