(* ===== verification/Allocations.thy ===== *)
theory Allocations
  imports Issuance_Terms Wallets
begin

text \<open>
  Token allocations: \<^verbatim>\<open>src/platform/postgres-investment-allocations.ts\<close> over the table and
  triggers of migration 026. The token amount is derived from a confirmed, paid reservation and
  approved terms, bound to the investor's verified wallet, and decided by a second person. The
  submission is split where the code turns from reading to writing: \<open>check_allocation\<close> is the
  sequence of queries and guards, \<open>write_allocation\<close> the insertion and its events.
\<close>

section \<open>Inputs\<close>

record allocation_input =
  li_organizationId :: uuid
  li_offeringId :: uuid
  li_issuanceTermsRequestId :: uuid
  li_reservationId :: uuid
  li_walletId :: uuid
  li_chainId :: js_number
  li_submittedByIdentityId :: uuid

definition validChainId :: "js_number \<Rightarrow> error + int" where
  "validChainId v =
     (let n = amount_value (NumberAmount v) in
      if \<not> isSafeInteger v \<or> n \<le> 0 then Inl (InvestmentAllocationError ''chainId must be a positive safe integer'')
      else Inr n)"

section \<open>The compliance snapshot\<close>

fun kyc_text :: "kycStatus \<Rightarrow> string" where
  "kyc_text Kyc_pending = ''pending''"
| "kyc_text Kyc_approved = ''approved''"
| "kyc_text Kyc_rejected = ''rejected''"
| "kyc_text Kyc_expired = ''expired''"

fun class_text :: "investorClass \<Rightarrow> string" where
  "class_text Retail = ''retail''"
| "class_text Sophisticated = ''sophisticated''"
| "class_text Institutional = ''institutional''"

fun accreditation_text :: "accreditationStatus \<Rightarrow> string" where
  "accreditation_text Accreditation_not_required = ''not_required''"
| "accreditation_text Accreditation_pending = ''pending''"
| "accreditation_text Accreditation_verified = ''verified''"
| "accreditation_text Accreditation_expired = ''expired''"

definition compliance_snapshot :: "profile_row \<Rightarrow> json" where
  "compliance_snapshot p =
     JObj [(''kycStatus'', JStr (kyc_text (pr_kyc_status p))), (''investorClass'', JStr (class_text (pr_investor_class p))),
       (''accreditationStatus'', JStr (accreditation_text (pr_accreditation_status p))),
       (''jurisdictionCode'', JStr (pr_jurisdiction_code p)), (''reviewedAt'', JStr (toISOString (pr_reviewed_at p))),
       (''expiresAt'', json_opt (map_option toISOString (pr_expires_at p))), (''evidence'', JObj (pr_evidence p))]"

section \<open>Submission\<close>

definition confirmed_reservation :: "reservation_row option \<Rightarrow> error + reservation_row \<times> uuid" where
  "confirmed_reservation found =
     (case found of
        None \<Rightarrow> Inl (InvestmentAllocationError ''Allocation requires a confirmed investment reservation'')
      | Some r \<Rightarrow>
          (case rv_commitment_id r of
             None \<Rightarrow> Inl (InvestmentAllocationError ''Allocation requires a confirmed investment reservation'')
           | Some c \<Rightarrow>
               if rv_status r \<noteq> Reservation_confirmed
               then Inl (InvestmentAllocationError ''Allocation requires a confirmed investment reservation'')
               else Inr (r, c)))"

definition matched_receipt :: "uuid \<Rightarrow> 'z market_db_scheme \<Rightarrow> bool" where
  "matched_receipt commitmentId s \<longleftrightarrow>
     exists_row (\<lambda>r. rc_status r = Matched
       \<and> exists_row (\<lambda>i. in_id i = rc_payment_intent_id r \<and> in_commitment_id i = commitmentId) (payment_intents s))
       (payment_receipts s)"

definition matching_terms :: "allocation_input \<Rightarrow> reservation_row \<Rightarrow> terms_row option \<Rightarrow> error + terms_row" where
  "matching_terms inp reservation found =
     (case found of
        None \<Rightarrow> Inl (InvestmentAllocationError ''Allocation terms do not match the confirmed offering reservation'')
      | Some t \<Rightarrow>
          if rq_status t \<noteq> Request_approved \<or> rq_organization_id t \<noteq> li_organizationId inp
             \<or> rq_offering_id t \<noteq> li_offeringId inp \<or> tr_offering_version_id t \<noteq> rv_offering_version_id reservation
             \<or> tr_currency t \<noteq> rv_currency reservation
          then Inl (InvestmentAllocationError ''Allocation terms do not match the confirmed offering reservation'')
          else Inr t)"

definition wallet_required :: string where
  "wallet_required = ''Allocation requires the investor'' @ [CHR 0x27] @ ''s active verified wallet for the selected chain''"

definition investor_wallet :: "int \<Rightarrow> reservation_row \<Rightarrow> wallet_row option \<Rightarrow> error + wallet_row" where
  "investor_wallet chainId reservation found =
     (case found of
        None \<Rightarrow> Inl (InvestmentAllocationError wallet_required)
      | Some w \<Rightarrow>
          if wl_status w \<noteq> Wallet_active \<or> wl_investor_identity_id w \<noteq> rv_investor_identity_id reservation
             \<or> wl_chain_id w \<noteq> chainId
          then Inl (InvestmentAllocationError wallet_required)
          else Inr w)"

definition active_profile :: "int \<Rightarrow> profile_row option \<Rightarrow> error + profile_row" where
  "active_profile now found =
     (case found of
        None \<Rightarrow> Inl (InvestmentAllocationError ''Allocation requires an active approved investor compliance profile'')
      | Some p \<Rightarrow>
          if pr_kyc_status p \<noteq> Kyc_approved \<or> (case pr_expires_at p of None \<Rightarrow> False | Some t \<Rightarrow> t \<le> now)
          then Inl (InvestmentAllocationError ''Allocation requires an active approved investor compliance profile'')
          else Inr p)"

definition derived_tokens :: "int \<Rightarrow> int \<Rightarrow> error + int" where
  "derived_tokens investedMinor unitPrice =
     (if investedMinor mod unitPrice \<noteq> 0
      then Inl (InvestmentAllocationError ''Confirmed payment does not divide exactly into the approved token unit price'')
      else if investedMinor div unitPrice \<le> 0
      then Inl (InvestmentAllocationError ''Derived token allocation must be positive'')
      else Inr (investedMinor div unitPrice))"

definition reserved_supply :: "uuid \<Rightarrow> 'z issuance_db_scheme \<Rightarrow> int" where
  "reserved_supply termsId s =
     sum_rows (\<lambda>a. al_issuance_terms_request_id a = termsId \<and> active_request a) al_token_amount
       (investment_allocation_requests s)"

record allocation_facts =
  lf_reservation :: reservation_row
  lf_terms :: terms_row
  lf_wallet :: wallet_row
  lf_profile :: profile_row
  lf_tokenAmount :: int

definition check_allocation :: "allocation_input \<Rightarrow> int \<Rightarrow> ('z issuance_db_scheme, allocation_facts) tx" where
  "check_allocation inp chainId =
     bnd (query (\<lambda>s. first_row (\<lambda>r. rv_id r = li_reservationId inp \<and> rv_offering_id r = li_offeringId inp)
            (investment_reservations s))) (\<lambda>found.
     bnd (lift_sum (confirmed_reservation found)) (\<lambda>(reservation, commitmentId).
     bnd (query (matched_receipt commitmentId)) (\<lambda>matched.
     andThen (require matched (InvestmentAllocationError ''Allocation requires a matched payment receipt''))
     (bnd (query (find_terms (li_issuanceTermsRequestId inp))) (\<lambda>found.
      bnd (lift_sum (matching_terms inp reservation found)) (\<lambda>terms.
      bnd (query (\<lambda>s. first_row (\<lambda>w. wl_id w = li_walletId inp) (investor_wallets s))) (\<lambda>found.
      bnd (lift_sum (investor_wallet chainId reservation found)) (\<lambda>wallet.
      bnd (query (\<lambda>s. first_row (\<lambda>p. pr_identity_id p = rv_investor_identity_id reservation) (investor_compliance_profiles s))) (\<lambda>found.
      bnd (query clock) (\<lambda>now.
      bnd (lift_sum (active_profile now found)) (\<lambda>profile.
      bnd (lift_sum (derived_tokens (rv_amount_minor reservation) (tr_token_unit_price_minor terms))) (\<lambda>tokenAmount.
      bnd (query (reserved_supply (li_issuanceTermsRequestId inp))) (\<lambda>total.
      andThen (require (\<not> total + tokenAmount > tr_max_total_supply terms)
        (InvestmentAllocationError ''Approved issuance supply is unavailable''))
      (ret \<lparr>lf_reservation = reservation, lf_terms = terms, lf_wallet = wallet, lf_profile = profile,
            lf_tokenAmount = tokenAmount\<rparr>))))))))))))))"

definition insert_allocation :: "allocation_row \<Rightarrow> ('z issuance_db_scheme, unit) tx" where
  "insert_allocation row =
     andThen (require (al_chain_id row \<le> PG_INTEGER_MAX \<and> al_invested_minor row \<le> PG_BIGINT_MAX
          \<and> al_token_unit_price_minor row \<le> PG_BIGINT_MAX) (NumericValueOutOfRange ''investment_allocation_requests''))
     (andThen (require (0 < al_chain_id row \<and> hex_text 40 (al_wallet_address row) \<and> 0 < al_invested_minor row
          \<and> al_currency row = toUpperCase (al_currency row) \<and> 0 < al_token_unit_price_minor row \<and> 0 < al_token_amount row
          \<and> sha256_text (al_allocation_policy_hash row)) (CheckViolation ''investment_allocation_requests_check''))
     (checked_insert (\<lambda>s. exists_row (\<lambda>r. rq_id r = rq_id row
          \<or> (active_request r \<and> active_request row \<and> al_reservation_id r = al_reservation_id row))
          (investment_allocation_requests s)) ''investment_allocations_one_active_reservation_idx''
        (\<lambda>s. rq_organization_id row \<in> set (organizations s)
           \<and> exists_row (\<lambda>p. of_id p = rq_offering_id row) (offering_products s)
           \<and> exists_row (\<lambda>t. rq_id t = al_issuance_terms_request_id row) (offering_issuance_term_requests s)
           \<and> exists_row (\<lambda>r. rv_id r = al_reservation_id row) (investment_reservations s)
           \<and> identity_known (al_investor_identity_id row) s
           \<and> exists_row (\<lambda>w. wl_id w = al_wallet_id row) (investor_wallets s)
           \<and> identity_known (rq_submitted_by_identity_id row) s) ''investment_allocation_requests_fkey''
        (\<lambda>s. s\<lparr>investment_allocation_requests := investment_allocation_requests s @ [row]\<rparr>)))"

definition allocation_row_of :: "allocation_input \<Rightarrow> int \<Rightarrow> uuid \<Rightarrow> int \<Rightarrow> allocation_facts \<Rightarrow> allocation_row" where
  "allocation_row_of inp chainId i now f =
     request_row.extend (new_request i (li_organizationId inp) (li_offeringId inp) (li_submittedByIdentityId inp) now)
       (allocation_row.fields (li_issuanceTermsRequestId inp) (li_reservationId inp)
          (rv_investor_identity_id (lf_reservation f)) (li_walletId inp) chainId (wl_wallet_address (lf_wallet f))
          (rv_amount_minor (lf_reservation f)) (rv_currency (lf_reservation f))
          (tr_token_unit_price_minor (lf_terms f)) (lf_tokenAmount f) (tr_allocation_policy_hash (lf_terms f))
          (compliance_snapshot (lf_profile f)))"

definition write_allocation ::
    "runtime \<Rightarrow> allocation_input \<Rightarrow> int \<Rightarrow> uuid \<Rightarrow> allocation_facts \<Rightarrow> ('z issuance_db_scheme, uuid \<times> int) tx" where
  "write_allocation rt inp chainId requestId f =
     bnd (query clock) (\<lambda>now.
     andThen (insert_allocation (allocation_row_of inp chainId requestId now f))
     (andThen (emit rt (audit_of (li_organizationId inp) (Some (li_submittedByIdentityId inp)) ''user''
         ''investment.allocation.submitted'' ''investment_allocation_request'' requestId
         [(''offeringId'', JStr (li_offeringId inp)), (''reservationId'', JStr (li_reservationId inp)),
          (''issuanceTermsRequestId'', JStr (li_issuanceTermsRequestId inp)), (''walletId'', JStr (li_walletId inp)),
          (''chainId'', JNum chainId), (''tokenAmount'', JStr (show_int (lf_tokenAmount f))),
          (''investedMinor'', JStr (show_int (rv_amount_minor (lf_reservation f)))),
          (''currency'', JStr (rv_currency (lf_reservation f)))])
        ''investment.allocation.submitted''
        (\<lambda>auditId. [(''organizationId'', JStr (li_organizationId inp)), (''auditEventId'', JStr auditId)]))
     (ret (requestId, lf_tokenAmount f))))"

definition submit_allocation_tx ::
    "runtime \<Rightarrow> allocation_input \<Rightarrow> int \<Rightarrow> ('z issuance_db_scheme, uuid \<times> int) tx" where
  "submit_allocation_tx rt inp chainId =
     bnd (randomUUID rt) (\<lambda>requestId.
     bnd (check_allocation inp chainId) (\<lambda>f.
     write_allocation rt inp chainId requestId f))"

definition submitInvestmentAllocation ::
    "runtime \<Rightarrow> allocation_input \<Rightarrow> 'z issuance_db_scheme \<Rightarrow> (error + uuid \<times> int) \<times> 'z issuance_db_scheme" where
  "submitInvestmentAllocation rt inp s =
     (case validChainId (li_chainId inp) of
        Inl e \<Rightarrow> (Inl e, s)
      | Inr chainId \<Rightarrow> withPostgresTransaction deferred_constraints (submit_allocation_tx rt inp chainId) s)"

section \<open>Decision and listings\<close>

definition decide_allocation_tx :: "runtime \<Rightarrow> decision_input \<Rightarrow> ('z issuance_db_scheme, uuid \<times> requestStatus) tx" where
  "decide_allocation_tx rt inp =
     bnd (query (\<lambda>s. first_row (\<lambda>r. rq_id r = dn_requestId inp) (investment_allocation_requests s))) (\<lambda>found.
     bnd (lift_sum (decidable InvestmentAllocationError ''Investment allocation request'' inp found)) (\<lambda>request.
     andThen (update_decision investment_allocation_requests_update investment_allocation_requests inp)
     (andThen (emit rt ((audit_of (rq_organization_id request) (Some (dn_decidedByIdentityId inp)) ''user''
         (''investment.allocation.'' @ decision_verb inp) ''investment_allocation_request'' (rq_id request)
         [(''offeringId'', JStr (rq_offering_id request)), (''reservationId'', JStr (al_reservation_id request)),
          (''tokenAmount'', JStr (show_int (al_token_amount request))),
          (''walletAddress'', JStr (al_wallet_address request))])\<lparr>ai_reason := decision_reason inp\<rparr>)
        (''investment.allocation.'' @ decision_verb inp)
        (\<lambda>auditId. [(''organizationId'', JStr (rq_organization_id request)), (''auditEventId'', JStr auditId)]))
     (ret (rq_id request, decision_status inp)))))"

definition decideInvestmentAllocation ::
    "runtime \<Rightarrow> decision_input \<Rightarrow> 'z issuance_db_scheme \<Rightarrow> (error + uuid \<times> requestStatus) \<times> 'z issuance_db_scheme" where
  "decideInvestmentAllocation rt inp = withPostgresTransaction deferred_constraints (decide_allocation_tx rt inp)"

definition getInvestmentAllocation :: "uuid \<Rightarrow> 'z issuance_db_scheme \<Rightarrow> allocation_row option" where
  "getInvestmentAllocation requestId s = first_row (\<lambda>r. rq_id r = requestId) (investment_allocation_requests s)"

definition listInvestmentAllocations :: "uuid \<Rightarrow> requestStatus option \<Rightarrow> 'z issuance_db_scheme \<Rightarrow> allocation_row list" where
  "listInvestmentAllocations org status s = organization_requests org status (investment_allocation_requests s)"

lemmas [tx_defs] = check_allocation_def insert_allocation_def write_allocation_def submit_allocation_tx_def
  submitInvestmentAllocation_def decide_allocation_tx_def decideInvestmentAllocation_def

end
