(* ===== verification/Chain_Deployments.thy ===== *)
theory Chain_Deployments
  imports Issuance_Terms
begin

text \<open>
  Chain deployment requests: \<^verbatim>\<open>src/platform/postgres-offering-chain-deployments.ts\<close> over the
  tables and triggers of the migrations 021, 024 and 027. A request captures the exact factory
  call for a published offering, takes its supply cap from the approved issuance terms, and is
  decided by a second person; an approval creates the one operation the deployment executor may
  dispatch.
\<close>

record deployment_input =
  di_organizationId :: uuid
  di_offeringId :: uuid
  di_issuanceTermsRequestId :: uuid
  di_submittedByIdentityId :: uuid
  di_chainId :: js_number
  di_tokenFactoryAddress :: string
  di_offeringName :: string
  di_tokenName :: string
  di_tokenSymbol :: string
  di_maxBalancePerHolder :: "js_amount option"
  di_retailCap :: "js_amount option"

definition deployment_text :: "string \<Rightarrow> string \<Rightarrow> nat \<Rightarrow> error + string" where
  "deployment_text v field limit =
     (let normalized = trim v in
      if normalized = [] \<or> length normalized > limit
      then Inl (OfferingChainDeploymentError (field @ '' is required and must be at most '' @ show_int (int limit) @ '' characters''))
      else Inr normalized)"

definition deployment_address :: "string \<Rightarrow> string \<Rightarrow> error + string" where
  "deployment_address v field =
     (let normalized = toLowerCase (trim v) in
      if \<not> hex_text 40 normalized then Inl (OfferingChainDeploymentError (field @ '' must be an EVM address''))
      else Inr normalized)"

definition wholeTokenAmount :: "js_amount option \<Rightarrow> string \<Rightarrow> error + int" where
  "wholeTokenAmount v field =
     (case v of
        None \<Rightarrow> Inr 0
      | Some n \<Rightarrow>
          if is_unsafe_number n then Inl (OfferingChainDeploymentError (field @ '' must be a safe integer''))
          else if amount_value n < 0 then Inl (OfferingChainDeploymentError (field @ '' must not be negative''))
          else Inr (amount_value n))"

text \<open>The message has an en dash, whose three UTF-8 bytes are written out.\<close>

definition symbol_message :: string where
  "symbol_message = ''tokenSymbol must contain 2'' @ [CHR 0xE2, CHR 0x80, CHR 0x93]
     @ ''12 uppercase letters, digits, or hyphens''"

definition token_symbol :: "string \<Rightarrow> error + string" where
  "token_symbol v =
     (let normalized = toUpperCase (trim v) in
      if \<not> (2 \<le> length normalized \<and> length normalized \<le> 12
          \<and> list_all (\<lambda>c. is_upper c \<or> is_digit c \<or> c = CHR ''-'') normalized)
      then Inl (OfferingChainDeploymentError symbol_message) else Inr normalized)"

definition insert_deployment :: "deployment_row \<Rightarrow> ('z issuance_db_scheme, unit) tx" where
  "insert_deployment row =
     andThen (require (dp_chain_id row \<le> PG_INTEGER_MAX) (NumericValueOutOfRange ''chain_id''))
     (andThen (require (0 < dp_chain_id row \<and> hex_text 40 (dp_token_factory_address row)
          \<and> 2 \<le> length (dp_offering_name row) \<and> length (dp_offering_name row) \<le> 200
          \<and> 2 \<le> length (dp_token_name row) \<and> length (dp_token_name row) \<le> 120
          \<and> 0 \<le> dp_max_balance_per_holder row \<and> 0 \<le> dp_retail_cap row \<and> 0 \<le> dp_max_total_supply row)
        (CheckViolation ''offering_chain_deployment_requests_check''))
     (checked_insert (\<lambda>s. exists_row (\<lambda>r. rq_id r = rq_id row
          \<or> (active_request r \<and> active_request row \<and> rq_offering_id r = rq_offering_id row))
          (offering_chain_deployment_requests s)) ''offering_chain_deployment_one_active_request_idx''
        (\<lambda>s. rq_organization_id row \<in> set (organizations s)
           \<and> exists_row (\<lambda>p. of_id p = rq_offering_id row) (offering_products s)
           \<and> exists_row (\<lambda>v. ov_id v = dp_offering_version_id row) (offering_publication_versions s)
           \<and> (case dp_issuance_terms_request_id row of None \<Rightarrow> True
              | Some t \<Rightarrow> exists_row (\<lambda>r. rq_id r = t) (offering_issuance_term_requests s))
           \<and> identity_known (rq_submitted_by_identity_id row) s) ''offering_chain_deployment_requests_fkey''
        (\<lambda>s. s\<lparr>offering_chain_deployment_requests := offering_chain_deployment_requests s @ [row]\<rparr>)))"

record factory_call =
  fc_chainId :: int
  fc_factoryAddress :: string
  fc_offeringName :: string
  fc_tokenName :: string
  fc_tokenSymbol :: string
  fc_maxBalancePerHolder :: int
  fc_retailCap :: int

definition deployment_row_of :: "deployment_input \<Rightarrow> uuid \<Rightarrow> int \<Rightarrow> uuid \<Rightarrow> factory_call \<Rightarrow> terms_row \<Rightarrow> deployment_row" where
  "deployment_row_of inp i now versionId f terms =
     request_row.extend (new_request i (di_organizationId inp) (di_offeringId inp) (di_submittedByIdentityId inp) now)
       (deployment_row.fields versionId (Some (di_issuanceTermsRequestId inp)) (fc_chainId f) (fc_factoryAddress f)
          (fc_offeringName f) (fc_tokenName f) (fc_tokenSymbol f) (fc_maxBalancePerHolder f) (fc_retailCap f)
          (tr_max_total_supply terms))"

definition deployable_terms :: "deployment_input \<Rightarrow> uuid \<Rightarrow> terms_row option \<Rightarrow> error + terms_row" where
  "deployable_terms inp versionId found =
     (let refusal = OfferingChainDeploymentError
            (''Chain deployment requires approved issuance terms for the offering'' @ [CHR 0x27] @ ''s current immutable version'') in
      case found of
        None \<Rightarrow> Inl refusal
      | Some t \<Rightarrow>
          if rq_status t \<noteq> Request_approved \<or> rq_organization_id t \<noteq> di_organizationId inp
             \<or> rq_offering_id t \<noteq> di_offeringId inp \<or> tr_offering_version_id t \<noteq> versionId
          then Inl refusal else Inr t)"

definition submit_deployment_tx ::
    "runtime \<Rightarrow> deployment_input \<Rightarrow> factory_call \<Rightarrow> ('z issuance_db_scheme, uuid) tx" where
  "submit_deployment_tx rt inp f =
     bnd (randomUUID rt) (\<lambda>requestId.
     bnd (query (\<lambda>s. case published_offering_of (di_offeringId inp) (di_organizationId inp) s of
         None \<Rightarrow> None | Some p \<Rightarrow> map_option ov_id (current_version (of_id p) s))) (\<lambda>row.
     case row of
       None \<Rightarrow> throw (OfferingChainDeploymentError ''Only a published offering with immutable terms can be sent for chain deployment'')
     | Some versionId \<Rightarrow>
         bnd (query (find_terms (di_issuanceTermsRequestId inp))) (\<lambda>found.
         bnd (lift_sum (deployable_terms inp versionId found)) (\<lambda>terms.
         bnd (query clock) (\<lambda>now.
         andThen (insert_deployment (deployment_row_of inp requestId now versionId f terms))
         (andThen (emit rt (audit_of (di_organizationId inp) (Some (di_submittedByIdentityId inp)) ''user''
             ''offering.chain_deployment.submitted'' ''offering_chain_deployment_request'' requestId
             [(''offeringId'', JStr (di_offeringId inp)), (''offeringVersionId'', JStr versionId),
              (''issuanceTermsRequestId'', JStr (di_issuanceTermsRequestId inp)), (''chainId'', JNum (fc_chainId f)),
              (''tokenFactoryAddress'', JStr (fc_factoryAddress f)), (''offeringName'', JStr (fc_offeringName f)),
              (''tokenName'', JStr (fc_tokenName f)), (''tokenSymbol'', JStr (fc_tokenSymbol f)),
              (''maxBalancePerHolder'', JStr (show_int (fc_maxBalancePerHolder f))),
              (''retailCap'', JStr (show_int (fc_retailCap f))), (''maxTotalSupply'', JStr (show_int (tr_max_total_supply terms)))])
            ''offering.chain_deployment.submitted''
            (\<lambda>auditId. [(''organizationId'', JStr (di_organizationId inp)), (''offeringId'', JStr (di_offeringId inp)),
               (''auditEventId'', JStr auditId)]))
         (ret requestId)))))))"

definition submitOfferingChainDeploymentRequest ::
    "runtime \<Rightarrow> deployment_input \<Rightarrow> 'z issuance_db_scheme \<Rightarrow> (error + uuid) \<times> 'z issuance_db_scheme" where
  "submitOfferingChainDeploymentRequest rt inp =
     withPostgresTransaction deferred_constraints
      (let chainId = amount_value (NumberAmount (di_chainId inp)) in
       andThen (require (isSafeInteger (di_chainId inp) \<and> 0 < chainId)
         (OfferingChainDeploymentError ''chainId must be a positive safe integer''))
       (bnd (lift_sum (deployment_text (di_tokenName inp) ''tokenName'' 120)) (\<lambda>tokenName.
        bnd (lift_sum (deployment_text (di_offeringName inp) ''offeringName'' 200)) (\<lambda>offeringName.
        bnd (lift_sum (token_symbol (di_tokenSymbol inp))) (\<lambda>tokenSymbol.
        bnd (lift_sum (deployment_address (di_tokenFactoryAddress inp) ''tokenFactoryAddress'')) (\<lambda>factoryAddress.
        bnd (lift_sum (wholeTokenAmount (di_maxBalancePerHolder inp) ''maxBalancePerHolder'')) (\<lambda>maxBalance.
        bnd (lift_sum (wholeTokenAmount (di_retailCap inp) ''retailCap'')) (\<lambda>retailCap.
        submit_deployment_tx rt inp \<lparr>fc_chainId = chainId, fc_factoryAddress = factoryAddress,
          fc_offeringName = offeringName, fc_tokenName = tokenName, fc_tokenSymbol = tokenSymbol,
          fc_maxBalancePerHolder = maxBalance, fc_retailCap = retailCap\<rparr>))))))))"

section \<open>Decision\<close>

definition insert_deployment_operation :: "deployment_operation \<Rightarrow> ('z issuance_db_scheme, unit) tx" where
  "insert_deployment_operation row =
     checked_insert (\<lambda>s. exists_row (\<lambda>r. op_id r = op_id row \<or> do_request_id r = do_request_id row) (offering_chain_operations s))
       ''offering_chain_operations_request_id_key''
       (\<lambda>s. exists_row (\<lambda>r. rq_id r = do_request_id row) (offering_chain_deployment_requests s)
          \<and> op_organization_id row \<in> set (organizations s)
          \<and> exists_row (\<lambda>p. of_id p = op_offering_id row) (offering_products s)) ''offering_chain_operations_fkey''
       (\<lambda>s. s\<lparr>offering_chain_operations := offering_chain_operations s @ [row]\<rparr>)"

definition new_operation :: "uuid \<Rightarrow> uuid \<Rightarrow> uuid \<Rightarrow> int \<Rightarrow> int \<Rightarrow> operation_row" where
  "new_operation i org offering chainId now =
     \<lparr>op_id = i, op_organization_id = org, op_offering_id = offering, op_chain_id = chainId, op_status = Op_approved,
      op_transaction_hash = None, op_submitted_at = None, op_confirmed_at = None, op_failure_reason = None,
      op_created_at = now, op_updated_at = now\<rparr>"

definition deployment_operation_of :: "uuid \<Rightarrow> int \<Rightarrow> deployment_row \<Rightarrow> deployment_operation" where
  "deployment_operation_of i now request =
     operation_row.extend (new_operation i (rq_organization_id request) (rq_offering_id request) (dp_chain_id request) now)
       (deployment_operation.fields (rq_id request) (dp_token_factory_address request) None None)"

text \<open>An approval draws the operation's identifier and inserts the operation; a rejection does
  neither.\<close>

definition approve_operation :: "runtime \<Rightarrow> decision_input \<Rightarrow> deployment_row \<Rightarrow> ('z issuance_db_scheme, uuid option) tx" where
  "approve_operation rt inp request =
     (if dn_approve inp
      then bnd (randomUUID rt) (\<lambda>operationId.
           andThen (update_decision offering_chain_deployment_requests_update offering_chain_deployment_requests inp)
           (bnd (query clock) (\<lambda>now.
            andThen (insert_deployment_operation (deployment_operation_of operationId now request))
            (ret (Some operationId)))))
      else bnd (lift_sum (deployment_text (case decision_reason inp of None \<Rightarrow> [] | Some t \<Rightarrow> t) ''reason'' 2000)) (\<lambda>_.
           andThen (update_decision offering_chain_deployment_requests_update offering_chain_deployment_requests inp)
           (ret None)))"

definition decide_deployment_tx ::
    "runtime \<Rightarrow> decision_input \<Rightarrow> ('z issuance_db_scheme, uuid \<times> requestStatus \<times> uuid option) tx" where
  "decide_deployment_tx rt inp =
     bnd (query (\<lambda>s. first_row (\<lambda>r. rq_id r = dn_requestId inp) (offering_chain_deployment_requests s))) (\<lambda>found.
     bnd (lift_sum (decidable OfferingChainDeploymentError ''Offering chain deployment request'' inp found)) (\<lambda>request.
     bnd (approve_operation rt inp request) (\<lambda>operationId.
     andThen (emit rt ((audit_of (rq_organization_id request) (Some (dn_decidedByIdentityId inp)) ''user''
         (''offering.chain_deployment.'' @ decision_verb inp) ''offering_chain_deployment_request'' (rq_id request)
         [(''offeringId'', JStr (rq_offering_id request)), (''chainId'', JNum (dp_chain_id request)),
          (''operationId'', json_opt operationId)])\<lparr>ai_reason := decision_reason inp\<rparr>)
        (''offering.chain_deployment.'' @ decision_verb inp)
        (\<lambda>auditId. [(''organizationId'', JStr (rq_organization_id request)), (''offeringId'', JStr (rq_offering_id request)),
           (''operationId'', json_opt operationId), (''auditEventId'', JStr auditId)]))
     (ret (rq_id request, decision_status inp, operationId)))))"

definition decideOfferingChainDeploymentRequest ::
    "runtime \<Rightarrow> decision_input \<Rightarrow> 'z issuance_db_scheme \<Rightarrow> (error + uuid \<times> requestStatus \<times> uuid option) \<times> 'z issuance_db_scheme" where
  "decideOfferingChainDeploymentRequest rt inp = withPostgresTransaction deferred_constraints (decide_deployment_tx rt inp)"

section \<open>Listings\<close>

definition getOfferingChainDeploymentRequest :: "uuid \<Rightarrow> 'z issuance_db_scheme \<Rightarrow> deployment_row option" where
  "getOfferingChainDeploymentRequest requestId s = first_row (\<lambda>r. rq_id r = requestId) (offering_chain_deployment_requests s)"

definition listOfferingChainDeploymentRequests ::
    "uuid \<Rightarrow> uuid option \<Rightarrow> requestStatus option \<Rightarrow> 'z issuance_db_scheme \<Rightarrow> deployment_row list" where
  "listOfferingChainDeploymentRequests org offering status s =
     organization_requests org status
       (filter (\<lambda>r. offering = None \<or> offering = Some (rq_offering_id r)) (offering_chain_deployment_requests s))"

text \<open>\<open>ORDER BY created_at DESC, id DESC\<close>.\<close>

definition newest_operation :: "'z operation_row_scheme \<Rightarrow> 'z operation_row_scheme \<Rightarrow> bool" where
  "newest_operation a b \<longleftrightarrow> op_created_at b < op_created_at a
     \<or> (op_created_at a = op_created_at b \<and> str_le (op_id b) (op_id a))"

definition listOfferingChainOperations :: "uuid \<Rightarrow> uuid option \<Rightarrow> 'z issuance_db_scheme \<Rightarrow> deployment_operation list" where
  "listOfferingChainOperations org offering s =
     sort_by newest_operation
       (filter (\<lambda>r. op_organization_id r = org \<and> (offering = None \<or> offering = Some (op_offering_id r)))
         (offering_chain_operations s))"

lemmas [tx_defs] = insert_deployment_def submit_deployment_tx_def submitOfferingChainDeploymentRequest_def
  insert_deployment_operation_def approve_operation_def decide_deployment_tx_def decideOfferingChainDeploymentRequest_def

end
