(* ===== verification/Chain_Operations.thy ===== *)
theory Chain_Operations
  imports Allocations Chain_Deployments
begin

text \<open>
  The operations on chain of an approved allocation:
  \<^verbatim>\<open>src/platform/postgres-allocation-chain-operations.ts\<close> over the tables of migration 028, and
  the statements both executors issue on operations and dispatch claims. The calls made to the
  chain are kept in the last layer of the state, \<open>chain_calls\<close>, each with the operation it is
  made for; the chain's answers are an argument of the executors (\<open>chain_service\<close>), which may
  depend on the instant and on everything sent before.
\<close>

section \<open>Materialization\<close>

definition insert_allocation_operation :: "allocation_operation \<Rightarrow> ('z issuance_db_scheme, unit) tx" where
  "insert_allocation_operation row =
     andThen (require (0 < op_chain_id row \<and> hex_text 40 (ao_token_contract_address row) \<and> hex_text 40 (ao_wallet_address row)
         \<and> 0 < ao_token_amount row) (CheckViolation ''investment_allocation_chain_operations_check''))
     (checked_insert (\<lambda>s. exists_row (\<lambda>r. op_id r = op_id row
         \<or> (ao_allocation_request_id r = ao_allocation_request_id row \<and> ao_operation_type r = ao_operation_type row))
         (investment_allocation_chain_operations s)) ''investment_allocation_chain_operations_allocation_request_id_operation_type_key''
       (\<lambda>s. exists_row (\<lambda>a. rq_id a = ao_allocation_request_id row) (investment_allocation_requests s)
          \<and> op_organization_id row \<in> set (organizations s)
          \<and> exists_row (\<lambda>p. of_id p = op_offering_id row) (offering_products s)) ''investment_allocation_chain_operations_fkey''
       (\<lambda>s. s\<lparr>investment_allocation_chain_operations := investment_allocation_chain_operations s @ [row]\<rparr>))"

definition record_operation ::
    "runtime \<Rightarrow> uuid \<Rightarrow> uuid \<Rightarrow> uuid \<Rightarrow> uuid \<Rightarrow> string \<Rightarrow> json_object \<Rightarrow> ('z issuance_db_scheme, unit) tx" where
  "record_operation rt i org offering allocationId action payload =
     emit rt (audit_of org None ''system'' action ''investment_allocation_chain_operation'' i
         ([(''offeringId'', JStr offering), (''allocationRequestId'', JStr allocationId)] @ payload)) action
       (\<lambda>auditId. [(''organizationId'', JStr org), (''auditEventId'', JStr auditId)])"

text \<open>The join of approved allocations with the confirmed deployment for the same terms and chain.\<close>

definition materializable :: "'z issuance_db_scheme \<Rightarrow> (allocation_row \<times> string) list" where
  "materializable s =
     concat (map (\<lambda>a. concat (map (\<lambda>d.
       (case do_token_contract_address d of
          None \<Rightarrow> []
        | Some contract \<Rightarrow>
            map (\<lambda>_. (a, contract))
              (filter (\<lambda>r. rq_id r = do_request_id d
                  \<and> dp_issuance_terms_request_id r = Some (al_issuance_terms_request_id a))
                (offering_chain_deployment_requests s))))
       (filter (\<lambda>d. op_offering_id d = rq_offering_id a \<and> op_status d = Op_confirmed \<and> op_chain_id d = al_chain_id a)
         (offering_chain_operations s))))
       (filter (\<lambda>a. rq_status a = Request_approved
           \<and> \<not> exists_row (\<lambda>o'. ao_allocation_request_id o' = rq_id a \<and> ao_operation_type o' = Whitelist)
                (investment_allocation_chain_operations s))
         (investment_allocation_requests s)))"

definition decided_first :: "allocation_row \<times> string \<Rightarrow> allocation_row \<times> string \<Rightarrow> bool" where
  "decided_first x y \<longleftrightarrow>
     (case (rq_decided_at (fst x), rq_decided_at (fst y)) of
        (Some a, Some b) \<Rightarrow> a < b \<or> (a = b \<and> str_le (rq_id (fst x)) (rq_id (fst y)))
      | (Some a, None) \<Rightarrow> True
      | (None, Some b) \<Rightarrow> False
      | (None, None) \<Rightarrow> str_le (rq_id (fst x)) (rq_id (fst y)))"

definition whitelist_operation :: "uuid \<Rightarrow> int \<Rightarrow> allocation_row \<times> string \<Rightarrow> allocation_operation" where
  "whitelist_operation i now x =
     operation_row.extend (new_operation i (rq_organization_id (fst x)) (rq_offering_id (fst x)) (al_chain_id (fst x)) now)
       (allocation_operation.fields (rq_id (fst x)) (snd x) (al_wallet_address (fst x)) (al_token_amount (fst x)) Whitelist)"

definition materialize_one :: "runtime \<Rightarrow> allocation_row \<times> string \<Rightarrow> ('z issuance_db_scheme, unit) tx" where
  "materialize_one rt x =
     bnd (randomUUID rt) (\<lambda>operationId.
     bnd (query clock) (\<lambda>now.
     andThen (insert_allocation_operation (whitelist_operation operationId now x))
     (record_operation rt operationId (rq_organization_id (fst x)) (rq_offering_id (fst x)) (rq_id (fst x))
        ''investment.allocation.whitelist_approved''
        [(''chainId'', JNum (al_chain_id (fst x))), (''tokenContractAddress'', JStr (snd x)),
         (''walletAddress'', JStr (al_wallet_address (fst x)))])))"

definition materializeAllocationChainOperations ::
    "runtime \<Rightarrow> nat \<Rightarrow> 'z issuance_db_scheme \<Rightarrow> (error + nat) \<times> 'z issuance_db_scheme" where
  "materializeAllocationChainOperations rt limit =
     withPostgresTransaction deferred_constraints
      (bnd (query (\<lambda>s. take limit (sort_by decided_first (materializable s)))) (\<lambda>rows.
       andThen (for_each rows (materialize_one rt)) (ret (length rows))))"

section \<open>Releasing the mint\<close>

definition mint_operation :: "uuid \<Rightarrow> int \<Rightarrow> allocation_operation \<Rightarrow> allocation_operation" where
  "mint_operation i now w =
     operation_row.extend (new_operation i (op_organization_id w) (op_offering_id w) (op_chain_id w) now)
       (allocation_operation.fields (ao_allocation_request_id w) (ao_token_contract_address w) (ao_wallet_address w)
          (ao_token_amount w) Mint)"

definition release_mint_tx :: "runtime \<Rightarrow> uuid \<Rightarrow> ('z issuance_db_scheme, uuid) tx" where
  "release_mint_tx rt whitelistOperationId =
     bnd (query (\<lambda>s. first_row (\<lambda>r. op_id r = whitelistOperationId) (investment_allocation_chain_operations s))) (\<lambda>found.
     case found of
       None \<Rightarrow> throw (GenericError ''Mint may be released only after a confirmed whitelist operation'')
     | Some w \<Rightarrow>
         andThen (require (ao_operation_type w = Whitelist \<and> op_status w = Op_confirmed)
           (GenericError ''Mint may be released only after a confirmed whitelist operation''))
         (bnd (query (\<lambda>s. first_row (\<lambda>r. ao_allocation_request_id r = ao_allocation_request_id w \<and> ao_operation_type r = Mint)
                 (investment_allocation_chain_operations s))) (\<lambda>existing.
          case existing of
            Some m \<Rightarrow> ret (op_id m)
          | None \<Rightarrow>
              bnd (randomUUID rt) (\<lambda>mintId.
              bnd (query clock) (\<lambda>now.
              andThen (insert_allocation_operation (mint_operation mintId now w))
              (andThen (record_operation rt mintId (op_organization_id w) (op_offering_id w) (ao_allocation_request_id w)
                 ''investment.allocation.mint_approved''
                 [(''whitelistOperationId'', JStr (op_id w)), (''tokenAmount'', JStr (show_int (ao_token_amount w))),
                  (''walletAddress'', JStr (ao_wallet_address w))])
              (ret mintId)))))))"

definition releaseMintOperation ::
    "runtime \<Rightarrow> uuid \<Rightarrow> 'z issuance_db_scheme \<Rightarrow> (error + uuid) \<times> 'z issuance_db_scheme" where
  "releaseMintOperation rt whitelistOperationId =
     withPostgresTransaction deferred_constraints (release_mint_tx rt whitelistOperationId)"

text \<open>The listing, with the flag that an uncertain claim raises.\<close>

definition listAllocationChainOperations ::
    "uuid \<Rightarrow> uuid option \<Rightarrow> 'z issuance_db_scheme \<Rightarrow> (allocation_operation \<times> bool) list" where
  "listAllocationChainOperations org allocationRequestId s =
     map (\<lambda>r. (r, exists_row (\<lambda>c. dc_operation_id c = op_id r \<and> dc_status c = Claim_uncertain)
           (investment_allocation_chain_dispatch_claims s)))
       (sort_by newest_operation
         (filter (\<lambda>r. op_organization_id r = org
             \<and> (allocationRequestId = None \<or> allocationRequestId = Some (ao_allocation_request_id r)))
           (investment_allocation_chain_operations s)))"

section \<open>Statements on operations and claims\<close>

text \<open>\<open>UPDATE ... SET ... WHERE ...\<close> with its \<open>rowCount\<close>, on one table given by its field.\<close>

definition update_count ::
    "(('r list \<Rightarrow> 'r list) \<Rightarrow> 'z audit_db_scheme \<Rightarrow> 'z audit_db_scheme) \<Rightarrow> ('z audit_db_scheme \<Rightarrow> 'r list) \<Rightarrow>
     ('r \<Rightarrow> bool) \<Rightarrow> (int \<Rightarrow> 'r \<Rightarrow> 'r) \<Rightarrow> ('z audit_db_scheme, nat) tx" where
  "update_count upd rows p f = (\<lambda>s. Inr (count_rows p (rows s), upd (update_where p (f (clock s))) s))"

definition active_claim :: "uuid \<Rightarrow> claim_row \<Rightarrow> bool" where
  "active_claim i c \<longleftrightarrow> dc_operation_id c = i \<and> dc_status c \<in> {Claim_claimed, Claim_submitted, Claim_uncertain}"

text \<open>The operations an executor may claim, oldest first.\<close>

definition oldest_operation :: "'r operation_row_scheme \<Rightarrow> 'r operation_row_scheme \<Rightarrow> bool" where
  "oldest_operation a b \<longleftrightarrow> op_created_at a < op_created_at b
     \<or> (op_created_at a = op_created_at b \<and> str_le (op_id a) (op_id b))"

definition claimable :: "'r operation_row_scheme list \<Rightarrow> claim_row list \<Rightarrow> 'r operation_row_scheme list" where
  "claimable ops claims =
     sort_by oldest_operation
       (filter (\<lambda>r. op_status r = Op_approved \<and> \<not> exists_row (active_claim (op_id r)) claims) ops)"

definition new_claim :: "uuid \<Rightarrow> uuid \<Rightarrow> string \<Rightarrow> int \<Rightarrow> claim_row" where
  "new_claim i operationId workerId now =
     \<lparr>dc_id = i, dc_operation_id = operationId, dc_worker_id = workerId, dc_status = Claim_claimed,
      dc_transaction_hash = None, dc_failure_reason = None, dc_claimed_at = now, dc_completed_at = None\<rparr>"

definition insert_claim ::
    "((claim_row list \<Rightarrow> claim_row list) \<Rightarrow> 's \<Rightarrow> 's) \<Rightarrow> ('s \<Rightarrow> claim_row list) \<Rightarrow> claim_row \<Rightarrow> ('s, unit) tx" where
  "insert_claim upd claims row =
     andThen (require (1 \<le> length (dc_worker_id row) \<and> length (dc_worker_id row) \<le> 200)
       (CheckViolation ''dispatch_claims_worker_id_check''))
     (checked_insert (\<lambda>s. exists_row (\<lambda>c. dc_id c = dc_id row \<or> active_claim (dc_operation_id row) c) (claims s))
        ''active_claim_idx'' (\<lambda>s. True) ''dispatch_claims_operation_id_fkey'' (upd (\<lambda>cs. cs @ [row])))"

text \<open>The claim \<open>JOIN LATERAL\<close> finds for a submitted operation: the newest submitted one.\<close>

definition submitted_claim :: "claim_row list \<Rightarrow> uuid \<Rightarrow> claim_row option" where
  "submitted_claim claims operationId =
     (case sort_by (\<lambda>a b. dc_claimed_at b \<le> dc_claimed_at a)
             (filter (\<lambda>c. dc_operation_id c = operationId \<and> dc_status c = Claim_submitted) claims) of
        [] \<Rightarrow> None | c # _ \<Rightarrow> Some c)"

definition oldest_submission :: "'r operation_row_scheme \<times> 'c \<Rightarrow> 'r operation_row_scheme \<times> 'c \<Rightarrow> bool" where
  "oldest_submission x y \<longleftrightarrow>
     (case (op_submitted_at (fst x), op_submitted_at (fst y)) of
        (Some a, Some b) \<Rightarrow> a < b \<or> (a = b \<and> str_le (op_id (fst x)) (op_id (fst y)))
      | (Some a, None) \<Rightarrow> True
      | (None, Some b) \<Rightarrow> False
      | (None, None) \<Rightarrow> str_le (op_id (fst x)) (op_id (fst y)))"

definition submitted_operations ::
    "'r operation_row_scheme list \<Rightarrow> claim_row list \<Rightarrow> ('r operation_row_scheme \<times> claim_row) list" where
  "submitted_operations ops claims =
     sort_by oldest_submission
       (concat (map (\<lambda>r. case submitted_claim claims (op_id r) of None \<Rightarrow> [] | Some c \<Rightarrow> [(r, c)])
         (filter (\<lambda>r. op_status r = Op_submitted) ops)))"

definition submit_op :: "string \<Rightarrow> int \<Rightarrow> 'r operation_row_scheme \<Rightarrow> 'r operation_row_scheme" where
  "submit_op transactionHash now r =
     r\<lparr>op_status := Op_submitted, op_transaction_hash := Some transactionHash, op_submitted_at := Some now, op_updated_at := now\<rparr>"

definition confirm_op :: "int \<Rightarrow> 'r operation_row_scheme \<Rightarrow> 'r operation_row_scheme" where
  "confirm_op now r = r\<lparr>op_status := Op_confirmed, op_confirmed_at := Some now, op_updated_at := now\<rparr>"

definition fail_op :: "string \<Rightarrow> int \<Rightarrow> 'r operation_row_scheme \<Rightarrow> 'r operation_row_scheme" where
  "fail_op reason now r = r\<lparr>op_status := Op_failed, op_failure_reason := Some reason, op_updated_at := now\<rparr>"

definition submit_claim :: "string \<Rightarrow> int \<Rightarrow> claim_row \<Rightarrow> claim_row" where
  "submit_claim transactionHash now c = c\<lparr>dc_status := Claim_submitted, dc_transaction_hash := Some transactionHash\<rparr>"

definition confirm_claim :: "int \<Rightarrow> claim_row \<Rightarrow> claim_row" where
  "confirm_claim now c = c\<lparr>dc_status := Claim_confirmed, dc_completed_at := Some now\<rparr>"

definition fail_claim :: "claimStatus \<Rightarrow> string \<Rightarrow> int \<Rightarrow> claim_row \<Rightarrow> claim_row" where
  "fail_claim st reason now c = c\<lparr>dc_status := st, dc_failure_reason := Some reason, dc_completed_at := Some now\<rparr>"

text \<open>\<open>(error instanceof Error ? error.message : String(error)).slice(0, 2_000)\<close>.\<close>

definition short_error :: "error \<Rightarrow> string" where
  "short_error e = take 2000 (error_message e)"

section \<open>The chain\<close>

datatype chain_call =
    WhitelistInvestor uuid string string
  | BatchMint uuid string "(string \<times> int \<times> uuid) list"
  | DeployToken uuid uuid string string string int int int

record chain_db = issuance_db +
  chain_calls :: "chain_call list"

record chain_receipt =
  rcp_reverted :: bool
  rcp_blockNumber :: int

record chain_service =
  cs_factoryOwner :: "int \<Rightarrow> chain_call list \<Rightarrow> error + unit"
  cs_factoryCap :: "int \<Rightarrow> chain_call list \<Rightarrow> error + unit"
  cs_deployed :: "int \<Rightarrow> chain_call list \<Rightarrow> uuid \<Rightarrow> error + string"
  cs_send :: "int \<Rightarrow> chain_call list \<Rightarrow> chain_call \<Rightarrow> error + string"
  cs_wait :: "int \<Rightarrow> chain_call list \<Rightarrow> string \<Rightarrow> error + chain_receipt"

record chain_env =
  CHAIN_ID :: int
  TOKEN_FACTORY_ADDRESS :: "string option"
  ALLOCATION_CHAIN_EXECUTOR_ENABLED :: bool
  ALLOCATION_CHAIN_DISPATCH_BATCH_SIZE :: nat
  CHAIN_DEPLOYMENT_EXECUTOR_ENABLED :: bool
  CHAIN_DEPLOYMENT_DISPATCH_BATCH_SIZE :: nat

definition chain_mismatch :: "chain_env \<Rightarrow> int \<Rightarrow> string" where
  "chain_mismatch env chainId =
     ''Operation chain '' @ show_int chainId @ '' does not match configured chain '' @ show_int (CHAIN_ID env)"

lemmas [tx_defs] = insert_allocation_operation_def record_operation_def materialize_one_def
  materializeAllocationChainOperations_def release_mint_tx_def releaseMintOperation_def update_count_def insert_claim_def

end
