(* ===== verification/Allocation_Executor.thy ===== *)
theory Allocation_Executor
  imports Chain_Operations
begin

text \<open>
  The executor of allocation operations,
  \<^verbatim>\<open>src/services/postgres-allocation-chain-executor.ts\<close>: it materializes whitelist operations,
  reconciles the submitted ones with their receipts, and claims and sends approved operations one
  by one. A failure after the claim leaves the claim open, so that nobody sends the operation
  again.
\<close>

record allocation_dispatch =
  ad_operation :: allocation_operation
  ad_claimId :: uuid

definition assertTarget :: "chain_env \<Rightarrow> allocation_operation \<Rightarrow> error + unit" where
  "assertTarget env r =
     (if op_chain_id r \<noteq> CHAIN_ID env then Inl (GenericError (chain_mismatch env (op_chain_id r)))
      else if ao_token_amount r \<le> 0 then Inl (GenericError ''Allocation operation has an invalid token amount'')
      else Inr ())"

definition operation_type_text :: "operationType \<Rightarrow> string" where
  "operation_type_text t = (case t of Whitelist \<Rightarrow> ''whitelist'' | Mint \<Rightarrow> ''mint'')"

definition audit_allocation :: "runtime \<Rightarrow> allocation_operation \<Rightarrow> string \<Rightarrow> json_object \<Rightarrow> ('z issuance_db_scheme, unit) tx" where
  "audit_allocation rt r action payload =
     emit rt (audit_of (op_organization_id r) None ''system'' action ''investment_allocation_chain_operation'' (op_id r)
         ([(''allocationRequestId'', JStr (ao_allocation_request_id r)), (''offeringId'', JStr (op_offering_id r)),
           (''operationType'', JStr (operation_type_text (ao_operation_type r)))] @ payload)) action
       (\<lambda>auditId. [(''organizationId'', JStr (op_organization_id r)), (''auditEventId'', JStr auditId)])"

section \<open>Transactions\<close>

definition claim_allocation :: "runtime \<Rightarrow> string \<Rightarrow> ('z issuance_db_scheme, allocation_dispatch option) tx" where
  "claim_allocation rt workerId =
     bnd (query (\<lambda>s. claimable (investment_allocation_chain_operations s) (investment_allocation_chain_dispatch_claims s))) (\<lambda>rows.
     case rows of
       [] \<Rightarrow> ret None
     | row # _ \<Rightarrow>
         bnd (randomUUID rt) (\<lambda>claimId.
         bnd (query clock) (\<lambda>now.
         andThen (insert_claim investment_allocation_chain_dispatch_claims_update investment_allocation_chain_dispatch_claims
           (new_claim claimId (op_id row) workerId now))
         (ret (Some \<lparr>ad_operation = row, ad_claimId = claimId\<rparr>)))))"

definition allocation_uncertain_tx :: "runtime \<Rightarrow> allocation_dispatch \<Rightarrow> error \<Rightarrow> ('z issuance_db_scheme, unit) tx" where
  "allocation_uncertain_tx rt p e =
     bnd (update_count investment_allocation_chain_dispatch_claims_update investment_allocation_chain_dispatch_claims
       (\<lambda>c. dc_id c = ad_claimId p \<and> dc_status c = Claim_claimed) (fail_claim Claim_uncertain (short_error e))) (\<lambda>rowCount.
     andThen (require (rowCount = 1) (GenericError ''Allocation claim cannot be marked uncertain''))
     (audit_allocation rt (ad_operation p) ''investment.allocation.chain_uncertain'' [(''reason'', JStr (short_error e))]))"

definition allocation_submitted_tx :: "runtime \<Rightarrow> allocation_dispatch \<Rightarrow> string \<Rightarrow> ('z issuance_db_scheme, unit) tx" where
  "allocation_submitted_tx rt p transactionHash =
     bnd (update_count investment_allocation_chain_operations_update investment_allocation_chain_operations
       (\<lambda>r. op_id r = op_id (ad_operation p) \<and> op_status r = Op_approved) (submit_op (toLowerCase transactionHash))) (\<lambda>rowCount.
     andThen (require (rowCount = 0 \<or> hex_text 64 (toLowerCase transactionHash))
       (CheckViolation ''investment_allocation_chain_operations_transaction_hash_check''))
     (andThen (require (rowCount = 1) (GenericError ''Allocation operation is no longer approved''))
     (bnd (update_count investment_allocation_chain_dispatch_claims_update investment_allocation_chain_dispatch_claims
       (\<lambda>c. dc_id c = ad_claimId p \<and> dc_status c = Claim_claimed) (submit_claim (toLowerCase transactionHash))) (\<lambda>rowCount.
     andThen (require (rowCount = 1) (GenericError ''Allocation claim is no longer active''))
     (audit_allocation rt (ad_operation p) ''investment.allocation.chain_submitted''
        [(''transactionHash'', JStr transactionHash)])))))"

definition allocation_confirmed_tx ::
    "runtime \<Rightarrow> allocation_dispatch \<Rightarrow> string \<Rightarrow> int \<Rightarrow> ('z issuance_db_scheme, unit) tx" where
  "allocation_confirmed_tx rt p transactionHash blockNumber =
     bnd (update_count investment_allocation_chain_operations_update investment_allocation_chain_operations
       (\<lambda>r. op_id r = op_id (ad_operation p) \<and> op_status r = Op_submitted
          \<and> op_transaction_hash r = Some (toLowerCase transactionHash)) confirm_op) (\<lambda>rowCount.
     andThen (require (rowCount = 1) (GenericError ''Allocation operation cannot be confirmed''))
     (bnd (update_count investment_allocation_chain_dispatch_claims_update investment_allocation_chain_dispatch_claims
       (\<lambda>c. dc_id c = ad_claimId p \<and> dc_status c = Claim_submitted
          \<and> dc_transaction_hash c = Some (toLowerCase transactionHash)) confirm_claim) (\<lambda>rowCount.
     andThen (require (rowCount = 1) (GenericError ''Allocation dispatch claim cannot be confirmed''))
     (audit_allocation rt (ad_operation p) ''investment.allocation.chain_confirmed''
        [(''transactionHash'', JStr transactionHash), (''blockNumber'', JStr (show_int blockNumber))]))))"

definition allocation_failed_tx ::
    "runtime \<Rightarrow> allocation_dispatch \<Rightarrow> string \<Rightarrow> error \<Rightarrow> ('z issuance_db_scheme, unit) tx" where
  "allocation_failed_tx rt p transactionHash e =
     andThen (update_count investment_allocation_chain_operations_update investment_allocation_chain_operations
       (\<lambda>r. op_id r = op_id (ad_operation p) \<and> op_status r = Op_submitted
          \<and> op_transaction_hash r = Some (toLowerCase transactionHash)) (fail_op (short_error e)))
     (andThen (update_count investment_allocation_chain_dispatch_claims_update investment_allocation_chain_dispatch_claims
       (\<lambda>c. dc_id c = ad_claimId p \<and> dc_status c = Claim_submitted
          \<and> dc_transaction_hash c = Some (toLowerCase transactionHash)) (fail_claim Claim_failed (short_error e)))
     (audit_allocation rt (ad_operation p) ''investment.allocation.chain_failed''
        [(''transactionHash'', JStr transactionHash), (''reason'', JStr (short_error e))]))"

text \<open>\<open>confirmed\<close>: the confirmation commits first; releasing the mint is a transaction of its own.\<close>

definition allocation_confirmed ::
    "runtime \<Rightarrow> allocation_dispatch \<Rightarrow> string \<Rightarrow> int \<Rightarrow> 'z issuance_db_scheme \<Rightarrow> (error + unit) \<times> 'z issuance_db_scheme" where
  "allocation_confirmed rt p transactionHash blockNumber s =
     (case withPostgresTransaction deferred_constraints (allocation_confirmed_tx rt p transactionHash blockNumber) s of
        (Inl e, s') \<Rightarrow> (Inl e, s')
      | (Inr u, s') \<Rightarrow>
          if ao_operation_type (ad_operation p) = Whitelist
          then (case releaseMintOperation rt (op_id (ad_operation p)) s' of
                  (Inl e, s'') \<Rightarrow> (Inl e, s'') | (Inr m, s'') \<Rightarrow> (Inr (), s''))
          else (Inr (), s'))"

section \<open>Reconciling and dispatching\<close>

definition reconcile_allocation ::
    "runtime \<Rightarrow> chain_env \<Rightarrow> chain_service \<Rightarrow> allocation_operation \<times> claim_row \<Rightarrow> 'z chain_db_scheme \<Rightarrow> 'z chain_db_scheme" where
  "reconcile_allocation rt env chain x s =
     (let p = \<lparr>ad_operation = fst x, ad_claimId = dc_id (snd x)\<rparr>;
          transactionHash = (case op_transaction_hash (fst x) of None \<Rightarrow> [] | Some h \<Rightarrow> h) in
      case assertTarget env (fst x) of
        Inl e \<Rightarrow> s
      | Inr u \<Rightarrow>
          (case cs_wait chain (clock s) (chain_calls s) transactionHash of
             Inl e \<Rightarrow> s
           | Inr receipt \<Rightarrow>
               if rcp_reverted receipt
               then snd (withPostgresTransaction deferred_constraints
                      (allocation_failed_tx rt p transactionHash (GenericError (''Transaction reverted: '' @ transactionHash))) s)
               else snd (allocation_confirmed rt p transactionHash (rcp_blockNumber receipt) s)))"

definition reconcile_allocations :: "runtime \<Rightarrow> chain_env \<Rightarrow> chain_service \<Rightarrow> 'z chain_db_scheme \<Rightarrow> 'z chain_db_scheme" where
  "reconcile_allocations rt env chain s =
     fold (reconcile_allocation rt env chain)
       (take (ALLOCATION_CHAIN_DISPATCH_BATCH_SIZE env)
         (submitted_operations (investment_allocation_chain_operations s) (investment_allocation_chain_dispatch_claims s))) s"

definition allocation_call :: "allocation_operation \<Rightarrow> chain_call" where
  "allocation_call r =
     (case ao_operation_type r of
        Whitelist \<Rightarrow> WhitelistInvestor (op_id r) (ao_token_contract_address r) (ao_wallet_address r)
      | Mint \<Rightarrow> BatchMint (op_id r) (ao_token_contract_address r)
          [(ao_wallet_address r, ao_token_amount r, ao_allocation_request_id r)])"

text \<open>The \<open>try\<close> block up to the chain's answer: the checks, then the call. The result says
  whether a hash came back; the call is in the log as soon as it is made.\<close>

definition send_allocation ::
    "chain_env \<Rightarrow> chain_service \<Rightarrow> allocation_operation \<Rightarrow> 'z chain_db_scheme \<Rightarrow> (error + string) \<times> 'z chain_db_scheme" where
  "send_allocation env chain r s =
     (case assertTarget env r of
        Inl e \<Rightarrow> (Inl e, s)
      | Inr u \<Rightarrow>
          (case cs_factoryOwner chain (clock s) (chain_calls s) of
             Inl e \<Rightarrow> (Inl e, s)
           | Inr u \<Rightarrow>
               (case cs_factoryCap chain (clock s) (chain_calls s) of
                  Inl e \<Rightarrow> (Inl e, s)
                | Inr u \<Rightarrow>
                    (cs_send chain (clock s) (chain_calls s) (allocation_call r),
                     s\<lparr>chain_calls := chain_calls s @ [allocation_call r]\<rparr>))))"

definition dispatch_one_allocation ::
    "runtime \<Rightarrow> chain_env \<Rightarrow> chain_service \<Rightarrow> string \<Rightarrow> 'z chain_db_scheme \<Rightarrow> (error + bool) \<times> 'z chain_db_scheme" where
  "dispatch_one_allocation rt env chain workerId s =
     (case withPostgresTransaction deferred_constraints (claim_allocation rt workerId) s of
        (Inl e, s1) \<Rightarrow> (Inl e, s1)
      | (Inr None, s1) \<Rightarrow> (Inr False, s1)
      | (Inr (Some p), s1) \<Rightarrow>
          (case send_allocation env chain (ad_operation p) s1 of
             (Inl e, s2) \<Rightarrow> (Inr True, snd (withPostgresTransaction deferred_constraints (allocation_uncertain_tx rt p e) s2))
           | (Inr transactionHash, s2) \<Rightarrow>
               (case withPostgresTransaction deferred_constraints (allocation_submitted_tx rt p transactionHash) s2 of
                  (Inl e, s3) \<Rightarrow> (Inr True, snd (withPostgresTransaction deferred_constraints (allocation_uncertain_tx rt p e) s3))
                | (Inr u, s3) \<Rightarrow> (Inr True, reconcile_allocations rt env chain s3))))"

primrec dispatch_allocation_loop ::
    "runtime \<Rightarrow> chain_env \<Rightarrow> chain_service \<Rightarrow> string \<Rightarrow> nat \<Rightarrow> nat \<Rightarrow> 'z chain_db_scheme \<Rightarrow> (error + nat) \<times> 'z chain_db_scheme" where
  "dispatch_allocation_loop rt env chain workerId 0 dispatched s = (Inr dispatched, s)"
| "dispatch_allocation_loop rt env chain workerId (Suc n) dispatched s =
     (case dispatch_one_allocation rt env chain workerId s of
        (Inl e, s') \<Rightarrow> (Inl e, s')
      | (Inr again, s') \<Rightarrow>
          if again then dispatch_allocation_loop rt env chain workerId n (dispatched + 1) s' else (Inr dispatched, s'))"

definition dispatchAllocationChainOperations ::
    "runtime \<Rightarrow> chain_env \<Rightarrow> chain_service \<Rightarrow> string \<Rightarrow> 'z chain_db_scheme \<Rightarrow> (error + nat) \<times> 'z chain_db_scheme" where
  "dispatchAllocationChainOperations rt env chain workerId s =
     (if \<not> ALLOCATION_CHAIN_EXECUTOR_ENABLED env
      then (Inl (GenericError ''ALLOCATION_CHAIN_EXECUTOR_ENABLED must be true to dispatch allocation chain operations''), s)
      else case materializeAllocationChainOperations rt (ALLOCATION_CHAIN_DISPATCH_BATCH_SIZE env) s of
          (Inl e, s1) \<Rightarrow> (Inl e, s1)
        | (Inr n, s1) \<Rightarrow>
            dispatch_allocation_loop rt env chain workerId (ALLOCATION_CHAIN_DISPATCH_BATCH_SIZE env) 0
              (reconcile_allocations rt env chain s1))"

lemmas [tx_defs] = claim_allocation_def audit_allocation_def allocation_uncertain_tx_def allocation_submitted_tx_def
  allocation_confirmed_tx_def allocation_failed_tx_def

end
