(* ===== verification/Deployment_Executor.thy ===== *)
theory Deployment_Executor
  imports Chain_Operations
begin

text \<open>
  The executor of token deployments, \<^verbatim>\<open>src/services/postgres-offering-chain-executor.ts\<close>: it
  reconciles submitted deployments with their receipts and the factory's record, and claims and
  sends approved ones one by one, never when the factory already has a record of the offering.
\<close>

record deployment_dispatch =
  dd_operation :: deployment_operation
  dd_request :: deployment_row
  dd_claimId :: uuid

definition assertConfiguredTarget :: "chain_env \<Rightarrow> deployment_dispatch \<Rightarrow> error + unit" where
  "assertConfiguredTarget env d =
     (case TOKEN_FACTORY_ADDRESS env of
        None \<Rightarrow> Inl (GenericError ''TOKEN_FACTORY_ADDRESS is not configured'')
      | Some factory \<Rightarrow>
          if op_chain_id (dd_operation d) \<noteq> CHAIN_ID env
          then Inl (GenericError (chain_mismatch env (op_chain_id (dd_operation d))))
          else if toLowerCase (do_token_factory_address (dd_operation d)) \<noteq> toLowerCase factory
          then Inl (GenericError ''Operation factory does not match configured TOKEN_FACTORY_ADDRESS'')
          else if dp_offering_name (dd_request d) = ''legacy-unavailable''
          then Inl (GenericError ''Operation was created before the immutable offering name was captured and requires manual remediation'')
          else if dp_issuance_terms_request_id (dd_request d) = None
          then Inl (GenericError ''Operation is not bound to approved issuance terms and requires manual remediation'')
          else if dp_max_total_supply (dd_request d) \<le> 0
          then Inl (GenericError ''Operation has no immutable max total supply and requires manual remediation'')
          else Inr ())"

definition recordAudit :: "runtime \<Rightarrow> deployment_operation \<Rightarrow> string \<Rightarrow> json_object \<Rightarrow> ('z issuance_db_scheme, unit) tx" where
  "recordAudit rt r action payload =
     emit rt (audit_of (op_organization_id r) None ''system'' action ''offering_chain_operation'' (op_id r)
         ([(''offeringId'', JStr (op_offering_id r)), (''chainId'', JNum (op_chain_id r)),
           (''factoryAddress'', JStr (do_token_factory_address r))] @ payload)) action
       (\<lambda>auditId. [(''organizationId'', JStr (op_organization_id r)), (''auditEventId'', JStr auditId)])"

section \<open>Transactions\<close>

text \<open>The inner join of an operation with its request.\<close>

definition with_request :: "deployment_row list \<Rightarrow> deployment_operation \<Rightarrow> (deployment_operation \<times> deployment_row) list" where
  "with_request requests r =
     (case first_row (\<lambda>q. rq_id q = do_request_id r) requests of None \<Rightarrow> [] | Some q \<Rightarrow> [(r, q)])"

definition claimApprovedDeployment :: "runtime \<Rightarrow> string \<Rightarrow> ('z issuance_db_scheme, deployment_dispatch option) tx" where
  "claimApprovedDeployment rt workerId =
     bnd (query (\<lambda>s. concat (map (with_request (offering_chain_deployment_requests s))
            (claimable (offering_chain_operations s) (offering_chain_operation_dispatch_claims s))))) (\<lambda>rows.
     case rows of
       [] \<Rightarrow> ret None
     | row # _ \<Rightarrow>
         bnd (randomUUID rt) (\<lambda>claimId.
         bnd (query clock) (\<lambda>now.
         andThen (insert_claim offering_chain_operation_dispatch_claims_update offering_chain_operation_dispatch_claims
           (new_claim claimId (op_id (fst row)) workerId now))
         (ret (Some \<lparr>dd_operation = fst row, dd_request = snd row, dd_claimId = claimId\<rparr>)))))"

definition mark_uncertain_tx :: "runtime \<Rightarrow> deployment_dispatch \<Rightarrow> error \<Rightarrow> ('z issuance_db_scheme, unit) tx" where
  "mark_uncertain_tx rt d e =
     bnd (update_count offering_chain_operation_dispatch_claims_update offering_chain_operation_dispatch_claims
       (\<lambda>c. dc_id c = dd_claimId d \<and> dc_status c = Claim_claimed) (fail_claim Claim_uncertain (short_error e))) (\<lambda>rowCount.
     andThen (require (rowCount = 1) (GenericError ''Deployment claim cannot be marked uncertain from its current state''))
     (recordAudit rt (dd_operation d) ''offering.chain_deployment.uncertain'' [(''reason'', JStr (short_error e))]))"

definition mark_submitted_tx :: "runtime \<Rightarrow> deployment_dispatch \<Rightarrow> string \<Rightarrow> ('z issuance_db_scheme, unit) tx" where
  "mark_submitted_tx rt d transactionHash =
     bnd (update_count offering_chain_operations_update offering_chain_operations
       (\<lambda>r. op_id r = op_id (dd_operation d) \<and> op_status r = Op_approved) (submit_op (toLowerCase transactionHash))) (\<lambda>rowCount.
     andThen (require (rowCount = 0 \<or> hex_text 64 (toLowerCase transactionHash))
       (CheckViolation ''offering_chain_operations_transaction_hash_check''))
     (andThen (require (rowCount = 1) (GenericError ''Deployment operation is no longer approved''))
     (bnd (update_count offering_chain_operation_dispatch_claims_update offering_chain_operation_dispatch_claims
       (\<lambda>c. dc_id c = dd_claimId d \<and> dc_status c = Claim_claimed) (submit_claim (toLowerCase transactionHash))) (\<lambda>rowCount.
     andThen (require (rowCount = 1) (GenericError ''Deployment claim is no longer active''))
     (recordAudit rt (dd_operation d) ''offering.chain_deployment.submitted'' [(''transactionHash'', JStr transactionHash)])))))"

definition confirm_deployment :: "string \<Rightarrow> int \<Rightarrow> int \<Rightarrow> deployment_operation \<Rightarrow> deployment_operation" where
  "confirm_deployment contract blockNumber now r =
     (confirm_op now r)\<lparr>do_token_contract_address := Some contract, do_block_number := Some blockNumber\<rparr>"

definition mark_confirmed_tx ::
    "runtime \<Rightarrow> deployment_dispatch \<Rightarrow> string \<Rightarrow> int \<Rightarrow> string \<Rightarrow> ('z issuance_db_scheme, unit) tx" where
  "mark_confirmed_tx rt d transactionHash blockNumber tokenContractAddress =
     bnd (update_count offering_chain_operations_update offering_chain_operations
       (\<lambda>r. op_id r = op_id (dd_operation d) \<and> op_status r = Op_submitted
          \<and> op_transaction_hash r = Some (toLowerCase transactionHash))
       (confirm_deployment (toLowerCase tokenContractAddress) blockNumber)) (\<lambda>rowCount.
     andThen (require (rowCount = 0 \<or> (hex_text 40 (toLowerCase tokenContractAddress) \<and> 0 \<le> blockNumber \<and> blockNumber \<le> PG_BIGINT_MAX))
       (CheckViolation ''offering_chain_operations_check''))
     (andThen (require (rowCount = 1) (GenericError ''Deployment operation cannot be confirmed from its current state''))
     (bnd (update_count offering_chain_operation_dispatch_claims_update offering_chain_operation_dispatch_claims
       (\<lambda>c. dc_id c = dd_claimId d \<and> dc_status c = Claim_submitted
          \<and> dc_transaction_hash c = Some (toLowerCase transactionHash)) confirm_claim) (\<lambda>rowCount.
     andThen (require (rowCount = 1) (GenericError ''Deployment claim cannot be confirmed from its current state''))
     (recordAudit rt (dd_operation d) ''offering.chain_deployment.confirmed''
        [(''transactionHash'', JStr transactionHash), (''blockNumber'', JStr (show_int blockNumber)),
         (''tokenContractAddress'', JStr tokenContractAddress)])))))"

definition mark_failed_tx ::
    "runtime \<Rightarrow> deployment_dispatch \<Rightarrow> string \<Rightarrow> error \<Rightarrow> ('z issuance_db_scheme, unit) tx" where
  "mark_failed_tx rt d transactionHash e =
     bnd (update_count offering_chain_operations_update offering_chain_operations
       (\<lambda>r. op_id r = op_id (dd_operation d) \<and> op_status r = Op_submitted
          \<and> op_transaction_hash r = Some (toLowerCase transactionHash)) (fail_op (short_error e))) (\<lambda>rowCount.
     andThen (require (rowCount = 1) (GenericError ''Deployment operation cannot be marked failed from its current state''))
     (bnd (update_count offering_chain_operation_dispatch_claims_update offering_chain_operation_dispatch_claims
       (\<lambda>c. dc_id c = dd_claimId d \<and> dc_status c = Claim_submitted
          \<and> dc_transaction_hash c = Some (toLowerCase transactionHash)) (fail_claim Claim_failed (short_error e))) (\<lambda>rowCount.
     andThen (require (rowCount = 1) (GenericError ''Deployment claim cannot be marked failed from its current state''))
     (recordAudit rt (dd_operation d) ''offering.chain_deployment.failed''
        [(''transactionHash'', JStr transactionHash), (''reason'', JStr (short_error e))]))))"

definition markFailed :: "runtime \<Rightarrow> deployment_dispatch \<Rightarrow> error \<Rightarrow> ('z issuance_db_scheme, unit) tx" where
  "markFailed rt d e =
     (case op_transaction_hash (dd_operation d) of
        None \<Rightarrow> mark_uncertain_tx rt d e
      | Some transactionHash \<Rightarrow> mark_failed_tx rt d transactionHash e)"

section \<open>Reconciling and dispatching\<close>

definition reconcile_deployment ::
    "runtime \<Rightarrow> chain_env \<Rightarrow> chain_service \<Rightarrow> deployment_dispatch \<Rightarrow> 'z chain_db_scheme \<Rightarrow> 'z chain_db_scheme" where
  "reconcile_deployment rt env chain d s =
     (let transactionHash = (case op_transaction_hash (dd_operation d) of None \<Rightarrow> [] | Some h \<Rightarrow> h) in
      case assertConfiguredTarget env d of
        Inl e \<Rightarrow> s
      | Inr u \<Rightarrow>
          (case cs_wait chain (clock s) (chain_calls s) transactionHash of
             Inl e \<Rightarrow> s
           | Inr receipt \<Rightarrow>
               if rcp_reverted receipt
               then snd (withPostgresTransaction deferred_constraints
                      (markFailed rt d (GenericError (''Transaction reverted: '' @ transactionHash))) s)
               else (case cs_deployed chain (clock s) (chain_calls s) (op_offering_id (dd_operation d)) of
                       Inl e \<Rightarrow> s
                     | Inr contract \<Rightarrow>
                         snd (withPostgresTransaction deferred_constraints
                           (mark_confirmed_tx rt d transactionHash (rcp_blockNumber receipt) contract) s))))"

definition reconcilable_deployments :: "'z issuance_db_scheme \<Rightarrow> deployment_dispatch list" where
  "reconcilable_deployments s =
     concat (map (\<lambda>(r, c). map (\<lambda>(r, q). \<lparr>dd_operation = r, dd_request = q, dd_claimId = dc_id c\<rparr>)
         (with_request (offering_chain_deployment_requests s) r))
       (submitted_operations (offering_chain_operations s) (offering_chain_operation_dispatch_claims s)))"

definition reconcileSubmittedDeployments ::
    "runtime \<Rightarrow> chain_env \<Rightarrow> chain_service \<Rightarrow> 'z chain_db_scheme \<Rightarrow> nat \<times> 'z chain_db_scheme" where
  "reconcileSubmittedDeployments rt env chain s =
     (let rows = take (CHAIN_DEPLOYMENT_DISPATCH_BATCH_SIZE env) (reconcilable_deployments s)
      in (length rows, fold (reconcile_deployment rt env chain) rows s))"

definition deployment_call :: "deployment_dispatch \<Rightarrow> chain_call" where
  "deployment_call d =
     (let q = dd_request d in
      DeployToken (op_id (dd_operation d)) (op_offering_id (dd_operation d)) (dp_offering_name q) (dp_token_name q)
        (dp_token_symbol q) (dp_max_balance_per_holder q) (dp_retail_cap q) (dp_max_total_supply q))"

fun contains_text :: "string \<Rightarrow> string \<Rightarrow> bool" where
  "contains_text sub [] \<longleftrightarrow> sub = []"
| "contains_text sub (c # cs) \<longleftrightarrow> take (length sub) (c # cs) = sub \<or> contains_text sub cs"

definition no_record :: "error \<Rightarrow> bool" where
  "no_record e \<longleftrightarrow> contains_text ''no confirmed deployment record'' (error_message e)"

text \<open>The checks that precede the factory call, and the call.\<close>

definition send_factory_call ::
    "chain_service \<Rightarrow> deployment_dispatch \<Rightarrow> 'z chain_db_scheme \<Rightarrow> (error + string option) \<times> 'z chain_db_scheme" where
  "send_factory_call chain d s =
     (case cs_factoryOwner chain (clock s) (chain_calls s) of
        Inl e \<Rightarrow> (Inl e, s)
      | Inr u \<Rightarrow>
          (case cs_factoryCap chain (clock s) (chain_calls s) of
             Inl e \<Rightarrow> (Inl e, s)
           | Inr u \<Rightarrow>
               ((case cs_send chain (clock s) (chain_calls s) (deployment_call d) of Inl e \<Rightarrow> Inl e | Inr h \<Rightarrow> Inr (Some h)),
                s\<lparr>chain_calls := chain_calls s @ [deployment_call d]\<rparr>)))"

text \<open>The \<open>try\<close> block up to the factory's answer. \<open>Inr None\<close>: the factory already has a record,
  the claim was marked uncertain and the block returned.\<close>

definition send_deployment ::
    "runtime \<Rightarrow> chain_env \<Rightarrow> chain_service \<Rightarrow> deployment_dispatch \<Rightarrow> 'z chain_db_scheme \<Rightarrow> (error + string option) \<times> 'z chain_db_scheme" where
  "send_deployment rt env chain d s =
     (case assertConfiguredTarget env d of
        Inl e \<Rightarrow> (Inl e, s)
      | Inr u \<Rightarrow>
          (case cs_deployed chain (clock s) (chain_calls s) (op_offering_id (dd_operation d)) of
             Inr contract \<Rightarrow>
               (case withPostgresTransaction deferred_constraints (mark_uncertain_tx rt d
                   (GenericError ''Factory already has a deployment record; transaction evidence must be reconciled manually'')) s of
                  (Inl e, s') \<Rightarrow> if no_record e then (send_factory_call chain d s') else (Inl e, s')
                | (Inr u, s') \<Rightarrow> (Inr None, s'))
           | Inl e \<Rightarrow> if no_record e then send_factory_call chain d s else (Inl e, s)))"

definition dispatchOneApprovedDeployment ::
    "runtime \<Rightarrow> chain_env \<Rightarrow> chain_service \<Rightarrow> string \<Rightarrow> 'z chain_db_scheme \<Rightarrow> (error + bool) \<times> 'z chain_db_scheme" where
  "dispatchOneApprovedDeployment rt env chain workerId s =
     (case withPostgresTransaction deferred_constraints (claimApprovedDeployment rt workerId) s of
        (Inl e, s1) \<Rightarrow> (Inl e, s1)
      | (Inr None, s1) \<Rightarrow> (Inr False, s1)
      | (Inr (Some d), s1) \<Rightarrow>
          (case send_deployment rt env chain d s1 of
             (Inl e, s2) \<Rightarrow> (Inr True, snd (withPostgresTransaction deferred_constraints (mark_uncertain_tx rt d e) s2))
           | (Inr None, s2) \<Rightarrow> (Inr True, s2)
           | (Inr (Some transactionHash), s2) \<Rightarrow>
               (case withPostgresTransaction deferred_constraints (mark_submitted_tx rt d transactionHash) s2 of
                  (Inl e, s3) \<Rightarrow> (Inr True, snd (withPostgresTransaction deferred_constraints (mark_uncertain_tx rt d e) s3))
                | (Inr u, s3) \<Rightarrow> (Inr True, snd (reconcileSubmittedDeployments rt env chain s3)))))"

primrec dispatch_deployment_loop ::
    "runtime \<Rightarrow> chain_env \<Rightarrow> chain_service \<Rightarrow> string \<Rightarrow> nat \<Rightarrow> nat \<Rightarrow> 'z chain_db_scheme \<Rightarrow> (error + nat) \<times> 'z chain_db_scheme" where
  "dispatch_deployment_loop rt env chain workerId 0 dispatched s = (Inr dispatched, s)"
| "dispatch_deployment_loop rt env chain workerId (Suc n) dispatched s =
     (case dispatchOneApprovedDeployment rt env chain workerId s of
        (Inl e, s') \<Rightarrow> (Inl e, s')
      | (Inr again, s') \<Rightarrow>
          if again then dispatch_deployment_loop rt env chain workerId n (dispatched + 1) s' else (Inr dispatched, s'))"

definition dispatchOfferingChainDeployments ::
    "runtime \<Rightarrow> chain_env \<Rightarrow> chain_service \<Rightarrow> string \<Rightarrow> 'z chain_db_scheme \<Rightarrow> (error + nat) \<times> 'z chain_db_scheme" where
  "dispatchOfferingChainDeployments rt env chain workerId s =
     (if \<not> CHAIN_DEPLOYMENT_EXECUTOR_ENABLED env
      then (Inl (GenericError ''CHAIN_DEPLOYMENT_EXECUTOR_ENABLED must be true to dispatch offering chain deployments''), s)
      else dispatch_deployment_loop rt env chain workerId (CHAIN_DEPLOYMENT_DISPATCH_BATCH_SIZE env) 0
             (snd (reconcileSubmittedDeployments rt env chain s)))"

lemmas [tx_defs] = recordAudit_def claimApprovedDeployment_def mark_uncertain_tx_def mark_submitted_tx_def
  mark_confirmed_tx_def mark_failed_tx_def markFailed_def

end
