(* ===== verification/Issuance_System.thy ===== *)
theory Issuance_System
  imports Market_Frame Allocation_Executor Deployment_Executor
begin

text \<open>
  Issuance as one system: the commands of the market and of issuance, and the two executors taken
  apart into the steps that other processes can interleave with, one step per transaction and per
  call to the chain. A process that stops, or whose machine does, leaves its claim behind and
  nothing else. The effect of each command on the issuance tables is stated once, as a change of
  one table; the invariants are proved of those changes.
\<close>

section \<open>Changes of the issuance tables\<close>

definition same_issuance :: "'z chain_db_scheme \<Rightarrow> 'z chain_db_scheme \<Rightarrow> bool" where
  "same_issuance s s' \<longleftrightarrow>
     governance_evidence_documents s' = governance_evidence_documents s
     \<and> offering_issuance_term_requests s' = offering_issuance_term_requests s
     \<and> investor_wallet_link_challenges s' = investor_wallet_link_challenges s
     \<and> investor_wallets s' = investor_wallets s
     \<and> investment_allocation_requests s' = investment_allocation_requests s
     \<and> offering_chain_deployment_requests s' = offering_chain_deployment_requests s
     \<and> offering_chain_operations s' = offering_chain_operations s
     \<and> offering_chain_operation_dispatch_claims s' = offering_chain_operation_dispatch_claims s
     \<and> investment_allocation_chain_operations s' = investment_allocation_chain_operations s
     \<and> investment_allocation_chain_dispatch_claims s' = investment_allocation_chain_dispatch_claims s
     \<and> chain_calls s' = chain_calls s \<and> offering_products s' = offering_products s"

lemma same_issuance_refl [simp]: "same_issuance s s"
  by (simp add: same_issuance_def)

lemma emit_same: "emit rt audit eventType payload s = Inr (u, s') \<Longrightarrow> same_issuance s s'"
  by (auto simp: same_issuance_def dest!: emit_frame)

lemma market_same:
  fixes s :: "'z chain_db_scheme"
  assumes "beyond_market (market_db.more s) (offering_products s) s'"
  shows "\<exists>xs. offering_products s' = offering_products s @ xs \<and> same_issuance s (s'\<lparr>offering_products := offering_products s\<rparr>)"
proof -
  have "market_db.more s' = market_db.more s" using assms by (simp add: beyond_market_def)
  then have "same_issuance s (s'\<lparr>offering_products := offering_products s\<rparr>)"
    by (cases s; cases s') (simp add: same_issuance_def)
  then show ?thesis using assms by (auto simp: beyond_market_def)
qed

definition offering_backs :: "offering_row list \<Rightarrow> terms_row \<Rightarrow> bool" where
  "offering_backs products t \<longleftrightarrow> (\<exists>p \<in> set products. of_id p = rq_offering_id t \<and> tr_currency t = of_currency p
     \<and> tr_token_unit_price_minor t * tr_max_total_supply t \<le> of_capacity_minor p)"

definition fresh_request :: "'r request_row_scheme \<Rightarrow> 'r request_row_scheme list \<Rightarrow> bool" where
  "fresh_request row rows \<longleftrightarrow> rq_id row \<notin> rq_id ` set rows \<and> rq_status row = Request_submitted
     \<and> rq_decided_by_identity_id row = None"

lemma extend_sels [simp]:
  "rq_id (request_row.extend (new_request i org offering submitter now) x) = i"
  "rq_organization_id (request_row.extend (new_request i org offering submitter now) x) = org"
  "rq_offering_id (request_row.extend (new_request i org offering submitter now) x) = offering"
  "rq_status (request_row.extend (new_request i org offering submitter now) x) = Request_submitted"
  "rq_submitted_by_identity_id (request_row.extend (new_request i org offering submitter now) x) = submitter"
  "rq_decided_by_identity_id (request_row.extend (new_request i org offering submitter now) x) = None"
  by (simp_all add: new_request_def request_row.defs)

lemma terms_row_of_sels [simp]:
  "tr_currency (terms_row_of inp i now offering v price supply e) = of_currency offering"
  "tr_token_unit_price_minor (terms_row_of inp i now offering v price supply e) = price"
  "tr_max_total_supply (terms_row_of inp i now offering v price supply e) = supply"
  "rq_id (terms_row_of inp i now offering v price supply e) = i"
  "rq_offering_id (terms_row_of inp i now offering v price supply e) = ti_offeringId inp"
  "rq_status (terms_row_of inp i now offering v price supply e) = Request_submitted"
  "rq_decided_by_identity_id (terms_row_of inp i now offering v price supply e) = None"
  by (simp_all add: terms_row_of_def new_request_def request_row.defs terms_row.defs)

lemma insert_terms_effect:
  assumes "insert_terms row s = Inr (u, s')"
  shows "rq_id row \<notin> rq_id ` set (offering_issuance_term_requests s)"
    and "0 < tr_token_unit_price_minor row" and "0 < tr_max_total_supply row"
    and "active_request row \<Longrightarrow> r \<in> set (offering_issuance_term_requests s) \<Longrightarrow> active_request r \<Longrightarrow> rq_offering_id r \<noteq> rq_offering_id row"
    and "s' = s\<lparr>offering_issuance_term_requests := offering_issuance_term_requests s @ [row]\<rparr>"
  using assms unfolding insert_terms_def by (auto simp: tx_Inr market_Inr elim!: tx_elims)

lemma submit_terms_effect:
  assumes "submit_terms_tx rt inp price supply e s = Inr (i, s')"
  obtains row where "fresh_request row (offering_issuance_term_requests s)" and "offering_backs (offering_products s) row"
    and "0 < tr_token_unit_price_minor row" and "0 < tr_max_total_supply row"
    and "\<And>r. r \<in> set (offering_issuance_term_requests s) \<Longrightarrow> active_request r \<Longrightarrow> rq_offering_id r \<noteq> rq_offering_id row"
    and "same_issuance (s\<lparr>offering_issuance_term_requests := offering_issuance_term_requests s @ [row]\<rparr>) s'"
proof -
  let ?s = "s\<lparr>uuids_drawn := Suc (uuids_drawn s)\<rparr>"
  from assms obtain p v ev s2 where p: "published_offering_of (ti_offeringId inp) (ti_organizationId inp) ?s = Some p"
    and cap: "price * supply \<le> of_capacity_minor p"
    and ins: "insert_terms (terms_row_of inp (rt_uuid rt (uuids_drawn s)) (clock s) p v price supply ev) ?s = Inr ((), s2)"
    and same: "same_issuance s2 s'"
    unfolding submit_terms_tx_def
    by (auto simp: tx_Inr randomUUID_Inr not_less elim!: tx_elims dest!: emit_same split: option.splits)
  let ?row = "terms_row_of inp (rt_uuid rt (uuids_drawn s)) (clock s) p v price supply ev"
  show thesis
  proof (rule that [of ?row])
    show "offering_backs (offering_products s) ?row"
      using p cap by (auto simp: offering_backs_def published_offering_of_def dest!: first_row_Some)
    show "same_issuance (s\<lparr>offering_issuance_term_requests := offering_issuance_term_requests s @ [?row]\<rparr>) s'"
      using same by (simp add: insert_terms_effect(5) [OF ins] same_issuance_def)
  qed (use insert_terms_effect [OF ins] in \<open>auto simp: fresh_request_def active_request_def\<close>)
qed

definition governed_decision :: "decision_input \<Rightarrow> 'r request_row_scheme list \<Rightarrow> bool" where
  "governed_decision inp rows \<longleftrightarrow>
     (\<exists>r. first_row (\<lambda>r. rq_id r = dn_requestId inp) rows = Some r \<and> rq_submitted_by_identity_id r \<noteq> dn_decidedByIdentityId inp)
     \<and> (dn_approve inp \<or> (\<exists>t. decision_reason inp = Some t \<and> t \<noteq> []))
     \<and> (\<forall>r \<in> set rows. rq_id r = dn_requestId inp \<longrightarrow> rq_status r = Request_submitted)"

lemma decide_terms_effect:
  assumes "decide_terms_tx rt inp s = Inr (x, s')"
  shows "governed_decision inp (offering_issuance_term_requests s)"
    and "same_issuance (offering_issuance_term_requests_update
           (update_where (\<lambda>r. rq_id r = dn_requestId inp) (decide_row inp (clock s))) s) s'"
  using assms unfolding decide_terms_tx_def
  by (auto simp: tx_Inr decidable_Inr update_decision_Inr governed_decision_def find_terms_def elim!: tx_elims dest!: emit_same)

lemma decide_allocation_effect:
  assumes "decide_allocation_tx rt inp s = Inr (x, s')"
  shows "governed_decision inp (investment_allocation_requests s)"
    and "same_issuance (investment_allocation_requests_update
           (update_where (\<lambda>r. rq_id r = dn_requestId inp) (decide_row inp (clock s))) s) s'"
  using assms unfolding decide_allocation_tx_def
  by (auto simp: tx_Inr decidable_Inr update_decision_Inr governed_decision_def elim!: tx_elims dest!: emit_same)

lemma check_allocation_facts:
  assumes "check_allocation inp chainId s = Inr (f, s')"
  shows "s' = s" and "find_terms (li_issuanceTermsRequestId inp) s = Some (lf_terms f)" and "rq_status (lf_terms f) = Request_approved"
    and "rq_offering_id (lf_terms f) = li_offeringId inp"
    and "rq_organization_id (lf_terms f) = li_organizationId inp" and "tr_currency (lf_terms f) = rv_currency (lf_reservation f)"
    and "rv_amount_minor (lf_reservation f) = tr_token_unit_price_minor (lf_terms f) * lf_tokenAmount f"
    and "0 < lf_tokenAmount f"
    and "reserved_supply (li_issuanceTermsRequestId inp) s + lf_tokenAmount f \<le> tr_max_total_supply (lf_terms f)"
    and "lf_wallet f \<in> set (investor_wallets s)" and "wl_status (lf_wallet f) = Wallet_active"
    and "wl_investor_identity_id (lf_wallet f) = rv_investor_identity_id (lf_reservation f)"
    and "wl_chain_id (lf_wallet f) = chainId"
    and "lf_reservation f \<in> set (investment_reservations s)" and "rv_status (lf_reservation f) = Reservation_confirmed"
    and "rv_id (lf_reservation f) = li_reservationId inp" and "wl_id (lf_wallet f) = li_walletId inp"
proof -
  obtain c where
    a: "confirmed_reservation (first_row (\<lambda>r. rv_id r = li_reservationId inp \<and> rv_offering_id r = li_offeringId inp) (investment_reservations s))
          = Inr (lf_reservation f, c)"
    and b: "matching_terms inp (lf_reservation f) (find_terms (li_issuanceTermsRequestId inp) s) = Inr (lf_terms f)"
    and c: "investor_wallet chainId (lf_reservation f) (first_row (\<lambda>w. wl_id w = li_walletId inp) (investor_wallets s)) = Inr (lf_wallet f)"
    and d: "derived_tokens (rv_amount_minor (lf_reservation f)) (tr_token_unit_price_minor (lf_terms f)) = Inr (lf_tokenAmount f)"
    and e: "\<not> reserved_supply (li_issuanceTermsRequestId inp) s + lf_tokenAmount f > tr_max_total_supply (lf_terms f)" and s': "s' = s"
    using assms unfolding check_allocation_def by (auto simp: tx_Inr elim!: tx_elims)
  show "s' = s" by (rule s')
  show "reserved_supply (li_issuanceTermsRequestId inp) s + lf_tokenAmount f \<le> tr_max_total_supply (lf_terms f)" using e by simp
  show "lf_reservation f \<in> set (investment_reservations s)" "rv_status (lf_reservation f) = Reservation_confirmed"
    "rv_id (lf_reservation f) = li_reservationId inp"
    using a by (auto simp: confirmed_reservation_def dest!: first_row_Some split: option.splits if_splits)
  show "find_terms (li_issuanceTermsRequestId inp) s = Some (lf_terms f)" "rq_status (lf_terms f) = Request_approved"
    "rq_offering_id (lf_terms f) = li_offeringId inp"
    "rq_organization_id (lf_terms f) = li_organizationId inp" "tr_currency (lf_terms f) = rv_currency (lf_reservation f)"
    using b by (auto simp: matching_terms_def split: option.splits if_splits)
  show "lf_wallet f \<in> set (investor_wallets s)" "wl_status (lf_wallet f) = Wallet_active"
    "wl_investor_identity_id (lf_wallet f) = rv_investor_identity_id (lf_reservation f)"
    "wl_chain_id (lf_wallet f) = chainId" "wl_id (lf_wallet f) = li_walletId inp"
    using c by (auto simp: investor_wallet_def dest!: first_row_Some split: option.splits if_splits)
  show "rv_amount_minor (lf_reservation f) = tr_token_unit_price_minor (lf_terms f) * lf_tokenAmount f" "0 < lf_tokenAmount f"
    using d by (auto simp: derived_tokens_def mod_eq_0_iff_dvd split: if_splits)
qed

lemma allocation_row_of_sels [simp]:
  "rq_id (allocation_row_of inp chainId i now f) = i" "rq_offering_id (allocation_row_of inp chainId i now f) = li_offeringId inp"
  "rq_status (allocation_row_of inp chainId i now f) = Request_submitted"
  "rq_decided_by_identity_id (allocation_row_of inp chainId i now f) = None"
  "al_issuance_terms_request_id (allocation_row_of inp chainId i now f) = li_issuanceTermsRequestId inp"
  "al_reservation_id (allocation_row_of inp chainId i now f) = li_reservationId inp"
  "al_wallet_id (allocation_row_of inp chainId i now f) = li_walletId inp"
  "al_chain_id (allocation_row_of inp chainId i now f) = chainId"
  "al_investor_identity_id (allocation_row_of inp chainId i now f) = rv_investor_identity_id (lf_reservation f)"
  "al_wallet_address (allocation_row_of inp chainId i now f) = wl_wallet_address (lf_wallet f)"
  "al_invested_minor (allocation_row_of inp chainId i now f) = rv_amount_minor (lf_reservation f)"
  "al_token_unit_price_minor (allocation_row_of inp chainId i now f) = tr_token_unit_price_minor (lf_terms f)"
  "al_token_amount (allocation_row_of inp chainId i now f) = lf_tokenAmount f"
  by (simp_all add: allocation_row_of_def new_request_def request_row.defs allocation_row.defs)

text \<open>An allocation row derived from approved terms, with room under the cap.\<close>

definition backed_allocation :: "terms_row list \<Rightarrow> wallet_row list \<Rightarrow> allocation_row \<Rightarrow> bool" where
  "backed_allocation terms wallets a \<longleftrightarrow>
     (\<exists>t \<in> set terms. rq_id t = al_issuance_terms_request_id a \<and> rq_status t = Request_approved
        \<and> rq_offering_id t = rq_offering_id a \<and> al_token_unit_price_minor a = tr_token_unit_price_minor t)
     \<and> al_invested_minor a = al_token_unit_price_minor a * al_token_amount a \<and> 0 < al_token_amount a
     \<and> (\<exists>w \<in> set wallets. wl_id w = al_wallet_id a \<and> wl_investor_identity_id w = al_investor_identity_id a
          \<and> wl_chain_id w = al_chain_id a \<and> wl_wallet_address w = al_wallet_address a)"

definition supply_left :: "allocation_row \<Rightarrow> 'z issuance_db_scheme \<Rightarrow> bool" where
  "supply_left a s \<longleftrightarrow> (\<exists>t. find_terms (al_issuance_terms_request_id a) s = Some t
     \<and> reserved_supply (al_issuance_terms_request_id a) s + al_token_amount a \<le> tr_max_total_supply t)"

lemma write_allocation_effect:
  assumes "write_allocation rt inp chainId i f s = Inr (x, s')"
  shows "rq_id (allocation_row_of inp chainId i (clock s) f) \<notin> rq_id ` set (investment_allocation_requests s)"
    and "r \<in> set (investment_allocation_requests s) \<Longrightarrow> active_request r \<Longrightarrow> al_reservation_id r \<noteq> li_reservationId inp"
    and "same_issuance (s\<lparr>investment_allocation_requests := investment_allocation_requests s
           @ [allocation_row_of inp chainId i (clock s) f]\<rparr>) s'"
  using assms unfolding write_allocation_def insert_allocation_def
  by (auto simp: tx_Inr market_Inr active_request_def elim!: tx_elims dest!: emit_same)

lemma submit_allocation_effect:
  assumes "submit_allocation_tx rt inp chainId s = Inr (x, s')"
  obtains row where "fresh_request row (investment_allocation_requests s)" and "backed_allocation (offering_issuance_term_requests s) (investor_wallets s) row" and "supply_left row s"
    and "\<And>r. r \<in> set (investment_allocation_requests s) \<Longrightarrow> active_request r \<Longrightarrow> al_reservation_id r \<noteq> al_reservation_id row"
    and "same_issuance (s\<lparr>investment_allocation_requests := investment_allocation_requests s @ [row]\<rparr>) s'"
proof -
  let ?s = "s\<lparr>uuids_drawn := Suc (uuids_drawn s)\<rparr>" and ?i = "rt_uuid rt (uuids_drawn s)"
  from assms obtain f s1 where "check_allocation inp chainId ?s = Inr (f, s1)"
    and "write_allocation rt inp chainId ?i f s1 = Inr (x, s')"
    unfolding submit_allocation_tx_def by (auto simp: randomUUID_Inr elim!: bnd_Inr)
  note f = check_allocation_facts [OF this(1)] and w = write_allocation_effect [OF this(2) [unfolded f(1)]]
  show thesis
  proof (rule that [of "allocation_row_of inp chainId ?i (clock ?s) f"])
    show "backed_allocation (offering_issuance_term_requests s) (investor_wallets s) (allocation_row_of inp chainId ?i (clock ?s) f)"
      using f by (auto simp: backed_allocation_def find_terms_def dest!: first_row_Some)
    show "supply_left (allocation_row_of inp chainId ?i (clock ?s) f) s"
      using f by (auto simp: supply_left_def find_terms_def reserved_supply_def)
    show "same_issuance (s\<lparr>investment_allocation_requests := investment_allocation_requests s
        @ [allocation_row_of inp chainId ?i (clock ?s) f]\<rparr>) s'"
      using w(3) by (simp add: same_issuance_def)
  qed (use w in \<open>auto simp: fresh_request_def\<close>)
qed

lemma record_evidence_effect:
  "record_evidence_tx rt inp filename mimeType storageKey contentSha256 bytes s = Inr (x, s') \<Longrightarrow>
     \<exists>es. same_issuance (s\<lparr>governance_evidence_documents := es\<rparr>) s'"
  unfolding record_evidence_tx_def insert_evidence_def
  by (auto simp: tx_Inr randomUUID_Inr market_Inr same_issuance_def elim!: tx_elims dest!: emit_same)

lemma deployment_row_of_sels [simp]:
  "rq_id (deployment_row_of inp i now v f t) = i" "rq_offering_id (deployment_row_of inp i now v f t) = di_offeringId inp"
  "rq_status (deployment_row_of inp i now v f t) = Request_submitted"
  "rq_decided_by_identity_id (deployment_row_of inp i now v f t) = None"
  "dp_issuance_terms_request_id (deployment_row_of inp i now v f t) = Some (di_issuanceTermsRequestId inp)"
  "dp_max_total_supply (deployment_row_of inp i now v f t) = tr_max_total_supply t"
  by (simp_all add: deployment_row_of_def new_request_def request_row.defs deployment_row.defs)

text \<open>A deployment request takes its cap from approved terms of the same offering.\<close>

definition capped_deployment :: "deployment_row \<Rightarrow> 'z issuance_db_scheme \<Rightarrow> bool" where
  "capped_deployment d s \<longleftrightarrow> (\<exists>t \<in> set (offering_issuance_term_requests s). dp_issuance_terms_request_id d = Some (rq_id t)
     \<and> rq_status t = Request_approved \<and> rq_offering_id t = rq_offering_id d \<and> dp_max_total_supply d = tr_max_total_supply t)"

lemma submit_deployment_effect:
  assumes "submit_deployment_tx rt inp f s = Inr (i, s')"
  obtains row where "fresh_request row (offering_chain_deployment_requests s)" and "capped_deployment row s"
    and "same_issuance (s\<lparr>offering_chain_deployment_requests := offering_chain_deployment_requests s @ [row]\<rparr>) s'"
proof -
  let ?s = "s\<lparr>uuids_drawn := Suc (uuids_drawn s)\<rparr>"
  from assms obtain v found t s2 where "find_terms (di_issuanceTermsRequestId inp) ?s = found"
    and t: "deployable_terms inp v found = Inr t"
    and ins: "insert_deployment (deployment_row_of inp (rt_uuid rt (uuids_drawn s)) (clock s) v f t) ?s = Inr ((), s2)"
    and same: "same_issuance s2 s'"
    unfolding submit_deployment_tx_def
    by (auto simp: tx_Inr randomUUID_Inr elim!: tx_elims dest!: emit_same split: option.splits)
  then have f: "first_row (\<lambda>r. rq_id r = di_issuanceTermsRequestId inp) (offering_issuance_term_requests s) = found"
    by (simp add: find_terms_def)
  let ?row = "deployment_row_of inp (rt_uuid rt (uuids_drawn s)) (clock s) v f t"
  show thesis
  proof (rule that [of ?row])
    show "capped_deployment ?row s"
      using t f by (auto simp: deployable_terms_def capped_deployment_def Let_def dest!: first_row_Some
          intro!: bexI [of _ t] split: option.splits if_splits)
    show "fresh_request ?row (offering_chain_deployment_requests s)"
      using ins by (auto simp: insert_deployment_def fresh_request_def tx_Inr market_Inr elim!: tx_elims)
    show "same_issuance (s\<lparr>offering_chain_deployment_requests := offering_chain_deployment_requests s @ [?row]\<rparr>) s'"
      using ins same by (auto simp: insert_deployment_def same_issuance_def tx_Inr market_Inr elim!: tx_elims)
  qed
qed

lemma new_operation_sels [simp]:
  "op_id (operation_row.extend (new_operation i org offering c now) x) = i"
  "op_status (operation_row.extend (new_operation i org offering c now) x) = Op_approved"
  "op_offering_id (operation_row.extend (new_operation i org offering c now) x) = offering"
  by (simp_all add: new_operation_def operation_row.defs)

lemma deployment_operation_of_sels [simp]:
  "op_id (deployment_operation_of i now r) = i" "op_status (deployment_operation_of i now r) = Op_approved"
  "op_offering_id (deployment_operation_of i now r) = rq_offering_id r"
  "do_request_id (deployment_operation_of i now r) = rq_id r"
  by (simp_all add: deployment_operation_of_def new_operation_def operation_row.defs deployment_operation.defs)

lemma decide_deployment_effect:
  assumes "decide_deployment_tx rt inp s = Inr (x, s')"
  obtains ops where "governed_decision inp (offering_chain_deployment_requests s)"
    and "ops = [] \<or> (\<exists>o'. ops = [o'] \<and> op_status o' = Op_approved \<and> dn_approve inp \<and> do_request_id o' = dn_requestId inp
          \<and> op_id o' \<notin> op_id ` set (offering_chain_operations s)
          \<and> do_request_id o' \<notin> do_request_id ` set (offering_chain_operations s))"
    and "same_issuance (offering_chain_deployment_requests_update (update_where (\<lambda>r. rq_id r = dn_requestId inp) (decide_row inp (clock s)))
          (s\<lparr>offering_chain_operations := offering_chain_operations s @ ops\<rparr>)) s'"
proof -
  from assms obtain request o2 s1 where first: "first_row (\<lambda>r. rq_id r = dn_requestId inp) (offering_chain_deployment_requests s) = Some request"
    and d: "decidable OfferingChainDeploymentError ''Offering chain deployment request'' inp (Some request) = Inr request"
    and a: "approve_operation rt inp request s = Inr (o2, s1)" and same: "same_issuance s1 s'"
    unfolding decide_deployment_tx_def
    by (auto simp: tx_Inr decidable_Inr elim!: tx_elims dest!: emit_same)
  have i: "rq_id request = dn_requestId inp" using first_row_Some [OF first] by simp
  have g: "governed_decision inp (offering_chain_deployment_requests s)"
    using a first d by (auto simp: approve_operation_def tx_Inr randomUUID_Inr update_decision_Inr decidable_Inr governed_decision_def
        elim!: tx_elims split: if_splits)
  show thesis
  proof (cases "dn_approve inp")
    case True
    let ?o = "deployment_operation_of (rt_uuid rt (uuids_drawn s)) (clock s) request"
    show thesis
      by (rule that [OF g, of "[?o]"])
         (use a True same i in \<open>auto simp: approve_operation_def insert_deployment_operation_def tx_Inr randomUUID_Inr update_decision_Inr
            market_Inr same_issuance_def elim!: tx_elims\<close>)
  next
    case False
    show thesis
      by (rule that [OF g, of "[]"])
         (use a False same in \<open>auto simp: approve_operation_def tx_Inr update_decision_Inr same_issuance_def elim!: tx_elims\<close>)
  qed
qed

lemma create_challenge_effect:
  assumes "create_challenge_tx rt identityId chainId walletAddress expiresAt s = Inr (x, s')"
  obtains c where "lc_id c \<notin> lc_id ` set (investor_wallet_link_challenges s)" and "lc_status c = Challenge_issued"
    and "same_issuance (s\<lparr>investor_wallet_link_challenges := investor_wallet_link_challenges s @ [c]\<rparr>) s'"
proof (rule that [of "\<lparr>lc_id = rt_uuid rt (uuids_drawn s), lc_investor_identity_id = identityId, lc_chain_id = chainId,
       lc_wallet_address = walletAddress,
       lc_message_hash = rt_sha256 rt (link_message identityId chainId walletAddress (rt_uuid rt (uuids_drawn s)) expiresAt),
       lc_expires_at = expiresAt, lc_status = Challenge_issued, lc_consumed_at = None\<rparr>"])
qed (use assms in \<open>auto simp: create_challenge_tx_def insert_challenge_def Let_def tx_Inr randomUUID_Inr market_Inr same_issuance_def
       elim!: tx_elims dest!: emit_same\<close>)

text \<open>What a confirmation needs and leaves: an open challenge of the same investor, a signature the
  verifier accepts over the challenge's text, and no wallet at that address yet.\<close>

definition proven_link :: "runtime \<Rightarrow> verifier \<Rightarrow> challenge_row \<Rightarrow> wallet_row \<Rightarrow> bool" where
  "proven_link rt verify c w \<longleftrightarrow> wl_link_challenge_id w = lc_id c \<and> wl_investor_identity_id w = lc_investor_identity_id c
     \<and> wl_chain_id w = lc_chain_id c \<and> wl_wallet_address w = lc_wallet_address c
     \<and> (\<exists>signature. verify (lc_wallet_address c) (challenge_message c) signature = Inr True
          \<and> wl_signature_hash w = rt_sha256 rt (toLowerCase signature))"

definition close_row :: "int \<Rightarrow> challengeStatus \<Rightarrow> challenge_row \<Rightarrow> challenge_row" where
  "close_row now st c = c\<lparr>lc_status := st, lc_consumed_at := Some now\<rparr>"

lemma close_challenge_Inr:
  "close_challenge i st s = Inr (u, s') \<longleftrightarrow>
     (\<forall>r \<in> set (investor_wallet_link_challenges s). lc_id r = i \<longrightarrow> lc_status r = Challenge_issued)
     \<and> s' = investor_wallet_link_challenges_update (update_where (\<lambda>r. lc_id r = i) (close_row (clock s) st)) s"
  unfolding close_challenge_def tx_simps by (auto simp: close_row_def [abs_def])

lemma confirm_challenge_effect:
  assumes "confirm_challenge_tx rt verify inp s = Inr (x, s')"
  obtains c w where "c \<in> set (investor_wallet_link_challenges s)" and "lc_id c = wf_challengeId inp"
    and "lc_investor_identity_id c = wf_investorIdentityId inp" and "clock s < lc_expires_at c"
    and "\<And>r. r \<in> set (investor_wallet_link_challenges s) \<Longrightarrow> lc_id r = lc_id c \<Longrightarrow> lc_status r = Challenge_issued"
    and "proven_link rt verify c w" and "wl_status w = Wallet_active" and "wl_id w \<notin> wl_id ` set (investor_wallets s)"
    and "wl_link_challenge_id w \<notin> wl_link_challenge_id ` set (investor_wallets s)"
    and "\<And>w'. w' \<in> set (investor_wallets s) \<Longrightarrow> wl_chain_id w' = wl_chain_id w \<Longrightarrow> wl_wallet_address w' \<noteq> wl_wallet_address w"
    and "same_issuance (investor_wallet_link_challenges_update (update_where (\<lambda>r. lc_id r = lc_id c) (close_row (clock s) Challenge_consumed))
           (s\<lparr>investor_wallets := investor_wallets s @ [w]\<rparr>)) s'"
proof -
  from assms obtain c where c: "first_row (\<lambda>c. lc_id c = wf_challengeId inp) (investor_wallet_link_challenges s) = Some c"
    and facts: "lc_investor_identity_id c = wf_investorIdentityId inp" "lc_status c = Challenge_issued" "clock s < lc_expires_at c"
      "verify (lc_wallet_address c) (challenge_message c) (wf_signature inp) = Inr True"
    and free: "linked_wallet_at (lc_chain_id c) (lc_wallet_address c) s = None"
    and link: "link_wallet rt inp c s = Inr (x, s')"
    unfolding confirm_challenge_tx_def link_refusal_def
    by (auto simp: tx_Inr not_le elim!: tx_elims split: option.splits if_splits)
  let ?w = "\<lparr>wl_id = rt_uuid rt (uuids_drawn s), wl_investor_identity_id = wf_investorIdentityId inp,
       wl_chain_id = lc_chain_id c, wl_wallet_address = lc_wallet_address c,
       wl_link_challenge_id = lc_id c, wl_signature_hash = rt_sha256 rt (toLowerCase (wf_signature inp)),
       wl_status = Wallet_active, wl_verified_at = clock s, wl_revoked_at = None\<rparr>"
  have "proven_link rt verify c ?w" using facts by (auto simp: proven_link_def)
  moreover have "wl_wallet_address w' \<noteq> lc_wallet_address c" if "w' \<in> set (investor_wallets s)" "wl_chain_id w' = lc_chain_id c" for w'
    using free that by (auto simp: linked_wallet_at_def first_row_None)
  ultimately show thesis
    using link facts first_row_Some [OF c]
    by (intro that [of c ?w])
       (auto simp: link_wallet_def insert_wallet_def tx_Inr randomUUID_Inr market_Inr close_challenge_Inr same_issuance_def
         elim!: tx_elims dest!: emit_same)
qed

section \<open>Operations and claims\<close>

lemma whitelist_operation_sels [simp]:
  "op_id (whitelist_operation i now x) = i" "op_status (whitelist_operation i now x) = Op_approved"
  "ao_allocation_request_id (whitelist_operation i now x) = rq_id (fst x)"
  "ao_wallet_address (whitelist_operation i now x) = al_wallet_address (fst x)"
  "ao_token_amount (whitelist_operation i now x) = al_token_amount (fst x)"
  "ao_operation_type (whitelist_operation i now x) = Whitelist"
  by (simp_all add: whitelist_operation_def new_operation_def operation_row.defs allocation_operation.defs)

lemma mint_operation_sels [simp]:
  "op_id (mint_operation i now w) = i" "op_status (mint_operation i now w) = Op_approved"
  "ao_allocation_request_id (mint_operation i now w) = ao_allocation_request_id w"
  "ao_wallet_address (mint_operation i now w) = ao_wallet_address w"
  "ao_token_contract_address (mint_operation i now w) = ao_token_contract_address w"
  "ao_token_amount (mint_operation i now w) = ao_token_amount w"
  "ao_operation_type (mint_operation i now w) = Mint"
  by (simp_all add: mint_operation_def new_operation_def operation_row.defs allocation_operation.defs)

text \<open>An operation may be added once per allocation and type: a whitelisting for an approved
  allocation, a mint for a confirmed whitelisting.\<close>

definition admissible_operation :: "allocation_operation \<Rightarrow> 'z issuance_db_scheme \<Rightarrow> bool" where
  "admissible_operation row s \<longleftrightarrow> op_status row = Op_approved
     \<and> op_id row \<notin> op_id ` set (investment_allocation_chain_operations s)
     \<and> (\<forall>r \<in> set (investment_allocation_chain_operations s). ao_allocation_request_id r = ao_allocation_request_id row
          \<longrightarrow> ao_operation_type r \<noteq> ao_operation_type row)
     \<and> (case ao_operation_type row of
          Whitelist \<Rightarrow> \<exists>a \<in> set (investment_allocation_requests s). rq_id a = ao_allocation_request_id row
            \<and> rq_status a = Request_approved \<and> ao_token_amount row = al_token_amount a \<and> ao_wallet_address row = al_wallet_address a
        | Mint \<Rightarrow> \<exists>w \<in> set (investment_allocation_chain_operations s). ao_operation_type w = Whitelist \<and> op_status w = Op_confirmed
            \<and> ao_allocation_request_id w = ao_allocation_request_id row \<and> ao_token_amount w = ao_token_amount row
            \<and> ao_wallet_address w = ao_wallet_address row \<and> ao_token_contract_address w = ao_token_contract_address row)"

lemma insert_operation_Inr:
  assumes "insert_allocation_operation row s = Inr (u, s')"
  shows "op_id row \<notin> op_id ` set (investment_allocation_chain_operations s)"
    and "r \<in> set (investment_allocation_chain_operations s) \<Longrightarrow> ao_allocation_request_id r = ao_allocation_request_id row
      \<Longrightarrow> ao_operation_type r \<noteq> ao_operation_type row"
    and "s' = s\<lparr>investment_allocation_chain_operations := investment_allocation_chain_operations s @ [row]\<rparr>"
  using assms unfolding insert_allocation_operation_def by (auto simp: tx_Inr market_Inr elim!: tx_elims)

lemma materialize_one_effect:
  assumes "materialize_one rt x s = Inr (u, s')" and "fst x \<in> set (investment_allocation_requests s)" and "rq_status (fst x) = Request_approved"
  obtains row where "admissible_operation row s"
    and "same_issuance (s\<lparr>investment_allocation_chain_operations := investment_allocation_chain_operations s @ [row]\<rparr>) s'"
proof -
  let ?s = "s\<lparr>uuids_drawn := Suc (uuids_drawn s)\<rparr>" and ?row = "whitelist_operation (rt_uuid rt (uuids_drawn s)) (clock s) x"
  from assms(1) obtain s2 where "insert_allocation_operation ?row ?s = Inr ((), s2)" and same: "same_issuance s2 s'"
    unfolding materialize_one_def record_operation_def
    by (auto simp: tx_Inr randomUUID_Inr elim!: tx_elims dest!: emit_same)
  note ins = insert_operation_Inr [OF this(1)]
  show thesis
  proof (rule that [of ?row])
    show "admissible_operation ?row s" using ins(1,2) assms(2,3) by (auto simp: admissible_operation_def)
    show "same_issuance (s\<lparr>investment_allocation_chain_operations := investment_allocation_chain_operations s @ [?row]\<rparr>) s'"
      using same by (simp add: ins(3) same_issuance_def)
  qed
qed

lemma materializable_approved:
  "x \<in> set (materializable s) \<Longrightarrow> fst x \<in> set (investment_allocation_requests s) \<and> rq_status (fst x) = Request_approved"
  by (auto simp: materializable_def split: option.splits)

lemma release_mint_effect:
  assumes "release_mint_tx rt i s = Inr (x, s')"
  obtains "s' = s" | row where "admissible_operation row s"
    and "same_issuance (s\<lparr>investment_allocation_chain_operations := investment_allocation_chain_operations s @ [row]\<rparr>) s'"
proof (cases "s' = s")
  case False
  let ?s = "s\<lparr>uuids_drawn := Suc (uuids_drawn s)\<rparr>"
  from assms False obtain w s2 where w: "first_row (\<lambda>r. op_id r = i) (investment_allocation_chain_operations s) = Some w"
      "ao_operation_type w = Whitelist" "op_status w = Op_confirmed"
    and none: "first_row (\<lambda>r. ao_allocation_request_id r = ao_allocation_request_id w \<and> ao_operation_type r = Mint)
        (investment_allocation_chain_operations s) = None"
    and "insert_allocation_operation (mint_operation (rt_uuid rt (uuids_drawn s)) (clock s) w) ?s = Inr ((), s2)"
    and same: "same_issuance s2 s'"
    unfolding release_mint_tx_def record_operation_def
    by (auto simp: tx_Inr randomUUID_Inr elim!: tx_elims dest!: emit_same split: option.splits)
  note ins = insert_operation_Inr [OF this(5)]
  let ?row = "mint_operation (rt_uuid rt (uuids_drawn s)) (clock s) w"
  show thesis
  proof (rule that(2) [of ?row])
    show "admissible_operation ?row s" using ins(1,2) first_row_Some [OF w(1)] w(2,3) by (auto simp: admissible_operation_def)
    show "same_issuance (s\<lparr>investment_allocation_chain_operations := investment_allocation_chain_operations s @ [?row]\<rparr>) s'"
      using same by (simp add: ins(3) same_issuance_def)
  qed
qed (rule that(1))

lemma update_count_Inr:
  "update_count upd rows p f s = Inr (n, s') \<longleftrightarrow> n = count_rows p (rows s) \<and> s' = upd (update_where p (f (clock s))) s"
  by (auto simp: update_count_def)

lemma insert_claim_Inr:
  "insert_claim upd claims row s = Inr (u, s') \<longleftrightarrow> 1 \<le> length (dc_worker_id row) \<and> length (dc_worker_id row) \<le> 200
     \<and> (\<forall>c \<in> set (claims s). dc_id c \<noteq> dc_id row \<and> \<not> active_claim (dc_operation_id row) c) \<and> s' = upd (\<lambda>cs. cs @ [row]) s"
  unfolding insert_claim_def by (auto simp: tx_Inr market_Inr andThen_run require_run checked_insert_def split: if_splits)

section \<open>Commands\<close>

datatype issuance_command =
    MarketCommand market_command
  | RecordEvidence evidence_input
  | SubmitTerms terms_input
  | DecideTerms decision_input
  | CreateChallenge wallet_challenge_input
  | ConfirmChallenge wallet_confirmation
  | SubmitAllocation allocation_input
  | DecideAllocation decision_input
  | SubmitDeployment deployment_input
  | DecideDeployment decision_input
  | Materialize nat
  | ReleaseMint uuid

fun run_issuance_command ::
    "runtime \<Rightarrow> env_config \<Rightarrow> verifier \<Rightarrow> issuance_command \<Rightarrow> 'z chain_db_scheme \<Rightarrow> 'z chain_db_scheme" where
  "run_issuance_command rt env verify (MarketCommand c) s = run_market_command rt env c s"
| "run_issuance_command rt env verify (RecordEvidence inp) s = snd (recordAllocationPolicyEvidence rt inp s)"
| "run_issuance_command rt env verify (SubmitTerms inp) s = snd (submitOfferingIssuanceTerms rt inp s)"
| "run_issuance_command rt env verify (DecideTerms inp) s = snd (decideOfferingIssuanceTerms rt inp s)"
| "run_issuance_command rt env verify (CreateChallenge inp) s = snd (createInvestorWalletLinkChallenge rt inp s)"
| "run_issuance_command rt env verify (ConfirmChallenge inp) s = snd (confirmInvestorWalletLinkChallenge rt verify inp s)"
| "run_issuance_command rt env verify (SubmitAllocation inp) s = snd (submitInvestmentAllocation rt inp s)"
| "run_issuance_command rt env verify (DecideAllocation inp) s = snd (decideInvestmentAllocation rt inp s)"
| "run_issuance_command rt env verify (SubmitDeployment inp) s = snd (submitOfferingChainDeploymentRequest rt inp s)"
| "run_issuance_command rt env verify (DecideDeployment inp) s = snd (decideOfferingChainDeploymentRequest rt inp s)"
| "run_issuance_command rt env verify (Materialize limit) s = snd (materializeAllocationChainOperations rt limit s)"
| "run_issuance_command rt env verify (ReleaseMint i) s = snd (releaseMintOperation rt i s)"

text \<open>The changes a command can make.\<close>

inductive issuance_change :: "runtime \<Rightarrow> verifier \<Rightarrow> 'z chain_db_scheme \<Rightarrow> 'z chain_db_scheme \<Rightarrow> bool" for rt verify where
  market: "offering_products s' = offering_products s @ ps \<Longrightarrow> same_issuance s (s'\<lparr>offering_products := offering_products s\<rparr>)
    \<Longrightarrow> issuance_change rt verify s s'"
| evidence: "same_issuance (s\<lparr>governance_evidence_documents := es\<rparr>) s' \<Longrightarrow> issuance_change rt verify s s'"
| terms: "fresh_request row (offering_issuance_term_requests s) \<Longrightarrow> offering_backs (offering_products s) row
    \<Longrightarrow> 0 < tr_token_unit_price_minor row \<Longrightarrow> 0 < tr_max_total_supply row
    \<Longrightarrow> same_issuance (s\<lparr>offering_issuance_term_requests := offering_issuance_term_requests s @ [row]\<rparr>) s'
    \<Longrightarrow> issuance_change rt verify s s'"
| decide_terms: "governed_decision inp (offering_issuance_term_requests s)
    \<Longrightarrow> same_issuance (offering_issuance_term_requests_update
           (update_where (\<lambda>r. rq_id r = dn_requestId inp) (decide_row inp (clock s))) s) s'
    \<Longrightarrow> issuance_change rt verify s s'"
| challenge: "lc_id c \<notin> lc_id ` set (investor_wallet_link_challenges s) \<Longrightarrow> lc_status c = Challenge_issued
    \<Longrightarrow> same_issuance (s\<lparr>investor_wallet_link_challenges := investor_wallet_link_challenges s @ [c]\<rparr>) s'
    \<Longrightarrow> issuance_change rt verify s s'"
| link: "c \<in> set (investor_wallet_link_challenges s) \<Longrightarrow> clock s < lc_expires_at c
    \<Longrightarrow> (\<And>r. r \<in> set (investor_wallet_link_challenges s) \<Longrightarrow> lc_id r = lc_id c \<Longrightarrow> lc_status r = Challenge_issued)
    \<Longrightarrow> proven_link rt verify c w \<Longrightarrow> wl_status w = Wallet_active \<Longrightarrow> wl_id w \<notin> wl_id ` set (investor_wallets s)
    \<Longrightarrow> wl_link_challenge_id w \<notin> wl_link_challenge_id ` set (investor_wallets s)
    \<Longrightarrow> (\<And>w'. w' \<in> set (investor_wallets s) \<Longrightarrow> wl_chain_id w' = wl_chain_id w \<Longrightarrow> wl_wallet_address w' \<noteq> wl_wallet_address w)
    \<Longrightarrow> same_issuance (investor_wallet_link_challenges_update (update_where (\<lambda>r. lc_id r = lc_id c) (close_row (clock s) Challenge_consumed))
           (s\<lparr>investor_wallets := investor_wallets s @ [w]\<rparr>)) s'
    \<Longrightarrow> issuance_change rt verify s s'"
| allocation: "fresh_request row (investment_allocation_requests s) \<Longrightarrow> backed_allocation (offering_issuance_term_requests s) (investor_wallets s) row \<Longrightarrow> supply_left row s
    \<Longrightarrow> (\<And>r. r \<in> set (investment_allocation_requests s) \<Longrightarrow> active_request r \<Longrightarrow> al_reservation_id r \<noteq> al_reservation_id row)
    \<Longrightarrow> same_issuance (s\<lparr>investment_allocation_requests := investment_allocation_requests s @ [row]\<rparr>) s'
    \<Longrightarrow> issuance_change rt verify s s'"
| decide_allocation: "governed_decision inp (investment_allocation_requests s)
    \<Longrightarrow> same_issuance (investment_allocation_requests_update
           (update_where (\<lambda>r. rq_id r = dn_requestId inp) (decide_row inp (clock s))) s) s'
    \<Longrightarrow> issuance_change rt verify s s'"
| deployment: "fresh_request d (offering_chain_deployment_requests s) \<Longrightarrow> capped_deployment d s
    \<Longrightarrow> same_issuance (s\<lparr>offering_chain_deployment_requests := offering_chain_deployment_requests s @ [d]\<rparr>) s'
    \<Longrightarrow> issuance_change rt verify s s'"
| decide_deployment: "governed_decision inp (offering_chain_deployment_requests s)
    \<Longrightarrow> ops = [] \<or> (\<exists>o'. ops = [o'] \<and> op_status o' = Op_approved \<and> dn_approve inp \<and> do_request_id o' = dn_requestId inp
          \<and> op_id o' \<notin> op_id ` set (offering_chain_operations s)
          \<and> do_request_id o' \<notin> do_request_id ` set (offering_chain_operations s))
    \<Longrightarrow> same_issuance (offering_chain_deployment_requests_update (update_where (\<lambda>r. rq_id r = dn_requestId inp) (decide_row inp (clock s)))
          (s\<lparr>offering_chain_operations := offering_chain_operations s @ ops\<rparr>)) s'
    \<Longrightarrow> issuance_change rt verify s s'"
| operation: "admissible_operation o' s
    \<Longrightarrow> same_issuance (s\<lparr>investment_allocation_chain_operations := investment_allocation_chain_operations s @ [o']\<rparr>) s'
    \<Longrightarrow> issuance_change rt verify s s'"

lemma no_change: "same_issuance s s' \<Longrightarrow> issuance_change rt verify s s'"
  by (rule market [where ps = "[]"]) (auto simp: same_issuance_def)

lemma change_transaction:
  assumes "\<And>a s'. m s = Inr (a, s') \<Longrightarrow> (issuance_change rt verify)\<^sup>*\<^sup>* s s'"
  shows "(issuance_change rt verify)\<^sup>*\<^sup>* s (snd (withPostgresTransaction d m s))"
  by (rule transaction_snd) (use assms in auto)

lemma change_once:
  assumes "\<And>a s'. m s = Inr (a, s') \<Longrightarrow> issuance_change rt verify s s'"
  shows "(issuance_change rt verify)\<^sup>*\<^sup>* s (snd (withPostgresTransaction d m s))"
  by (rule change_transaction) (use assms in blast)

lemma materialize_changes:
  assumes "for_each xs (materialize_one rt) s = Inr (u, s')"
    and "\<And>x. x \<in> set xs \<Longrightarrow> fst x \<in> set (investment_allocation_requests s) \<and> rq_status (fst x) = Request_approved"
  shows "(issuance_change rt verify)\<^sup>*\<^sup>* s s'"
  using assms
proof (induction xs arbitrary: s)
  case (Cons x xs)
  then obtain v s1 where one: "materialize_one rt x s = Inr (v, s1)" and rest: "for_each xs (materialize_one rt) s1 = Inr (u, s')"
    by (auto elim: andThen_Inr)
  obtain row where row: "admissible_operation row s"
    "same_issuance (s\<lparr>investment_allocation_chain_operations := investment_allocation_chain_operations s @ [row]\<rparr>) s1"
    using materialize_one_effect [OF one] Cons.prems(2) by auto
  then have "investment_allocation_requests s1 = investment_allocation_requests s" by (simp add: same_issuance_def)
  then have "(issuance_change rt verify)\<^sup>*\<^sup>* s1 s'" using Cons.IH [OF rest] Cons.prems(2) by simp
  then show ?case using operation [OF row] by (rule converse_rtranclp_into_rtranclp [rotated])
qed (simp add: ret_Inr)

lemma command_changes: "(issuance_change rt verify)\<^sup>*\<^sup>* s (run_issuance_command rt env verify c s)"
proof (cases c)
  case (MarketCommand m)
  have "beyond_market (market_db.more s) (offering_products s) s" by (simp add: beyond_market_def)
  from market_same [OF beyond_market_command [OF this, of rt env m]]
  have "issuance_change rt verify s (run_market_command rt env m s)" by (blast intro: market)
  then show ?thesis by (auto simp: MarketCommand)
next
  case (RecordEvidence inp)
  then show ?thesis unfolding RecordEvidence run_issuance_command.simps recordAllocationPolicyEvidence_def
    by (intro change_once) (auto simp: tx_Inr elim!: tx_elims dest!: record_evidence_effect intro: issuance_change.evidence)
next
  case (SubmitTerms inp)
  then show ?thesis unfolding SubmitTerms run_issuance_command.simps submitOfferingIssuanceTerms_def Let_def
    by (intro change_once) (auto simp: tx_Inr elim!: tx_elims submit_terms_effect intro: issuance_change.terms)
next
  case (DecideTerms inp)
  then show ?thesis unfolding DecideTerms run_issuance_command.simps decideOfferingIssuanceTerms_def
    by (intro change_once) (auto dest: decide_terms_effect intro: issuance_change.decide_terms)
next
  case (CreateChallenge inp)
  then show ?thesis unfolding CreateChallenge run_issuance_command.simps createInvestorWalletLinkChallenge_def Let_def
    by (intro change_once) (auto simp: tx_Inr elim!: tx_elims create_challenge_effect, rule issuance_change.challenge)
next
  case (ConfirmChallenge inp)
  have "(issuance_change rt verify)\<^sup>*\<^sup>* s (snd (withPostgresTransaction deferred_constraints (confirm_challenge_tx rt verify inp) s))"
    by (intro change_once) (blast elim!: confirm_challenge_effect intro: issuance_change.link)
  then show ?thesis unfolding ConfirmChallenge by (simp add: confirmInvestorWalletLinkChallenge_def)
next
  case (SubmitAllocation inp)
  have "(issuance_change rt verify)\<^sup>*\<^sup>* s (snd (withPostgresTransaction deferred_constraints (submit_allocation_tx rt inp chainId) s))" for chainId
    by (intro change_once) (blast elim!: submit_allocation_effect intro: issuance_change.allocation)
  then show ?thesis unfolding SubmitAllocation by (simp add: submitInvestmentAllocation_def split: sum.splits)
next
  case (DecideAllocation inp)
  then show ?thesis unfolding DecideAllocation run_issuance_command.simps decideInvestmentAllocation_def
    by (intro change_once) (auto dest: decide_allocation_effect intro: issuance_change.decide_allocation)
next
  case (SubmitDeployment inp)
  then show ?thesis unfolding SubmitDeployment run_issuance_command.simps submitOfferingChainDeploymentRequest_def Let_def
    by (intro change_once) (auto simp: tx_Inr elim!: tx_elims submit_deployment_effect intro: issuance_change.deployment)
next
  case (DecideDeployment inp)
  then show ?thesis unfolding DecideDeployment run_issuance_command.simps decideOfferingChainDeploymentRequest_def
    by (intro change_once) (blast elim!: decide_deployment_effect intro: issuance_change.decide_deployment)
next
  case (Materialize limit)
  show ?thesis unfolding Materialize run_issuance_command.simps materializeAllocationChainOperations_def
    by (intro change_transaction)
       (auto simp: tx_Inr elim!: tx_elims intro!: materialize_changes dest!: in_set_takeD materializable_approved)
next
  case (ReleaseMint i)
  show ?thesis unfolding ReleaseMint run_issuance_command.simps releaseMintOperation_def
    by (intro change_once) (blast elim!: release_mint_effect intro: issuance_change.operation no_change same_issuance_refl)
qed

end
