(* ===== verification/Issuance_Supply.thy ===== *)
theory Issuance_Supply
  imports Issuance_System
begin

text \<open>
  The invariants of the issuance tables and their preservation by every change: allocated tokens
  stay within the cap of their terms, at the terms' price and within the capacity of the offering;
  every operation on chain belongs to one approved allocation, with its amount and wallet, and a
  mint to a confirmed whitelisting.
\<close>

section \<open>Invariants\<close>

definition terms_ok :: "offering_row list \<Rightarrow> terms_row list \<Rightarrow> bool" where
  "terms_ok products terms \<longleftrightarrow> distinct (map rq_id terms)
     \<and> (\<forall>t \<in> set terms. 0 < tr_token_unit_price_minor t \<and> 0 < tr_max_total_supply t \<and> offering_backs products t)"

definition allocations_ok :: "terms_row list \<Rightarrow> wallet_row list \<Rightarrow> allocation_row list \<Rightarrow> bool" where
  "allocations_ok terms wallets allocs \<longleftrightarrow> distinct (map rq_id allocs)
     \<and> (\<forall>a \<in> set allocs. backed_allocation terms wallets a)
     \<and> (\<forall>a \<in> set allocs. \<forall>b \<in> set allocs.
          active_request a \<longrightarrow> active_request b \<longrightarrow> al_reservation_id a = al_reservation_id b \<longrightarrow> rq_id a = rq_id b)"

definition allocated :: "uuid \<Rightarrow> allocation_row list \<Rightarrow> int" where
  "allocated termsId allocs = sum_rows (\<lambda>a. al_issuance_terms_request_id a = termsId \<and> active_request a) al_token_amount allocs"

definition supply_ok :: "terms_row list \<Rightarrow> allocation_row list \<Rightarrow> bool" where
  "supply_ok terms allocs \<longleftrightarrow> (\<forall>t \<in> set terms. allocated (rq_id t) allocs \<le> tr_max_total_supply t)"

definition operation_key :: "allocation_operation \<Rightarrow> uuid \<times> operationType" where
  "operation_key r = (ao_allocation_request_id r, ao_operation_type r)"

definition operation_backed :: "allocation_row list \<Rightarrow> allocation_operation list \<Rightarrow> allocation_operation \<Rightarrow> bool" where
  "operation_backed allocs ops r \<longleftrightarrow>
     (\<exists>a \<in> set allocs. rq_id a = ao_allocation_request_id r \<and> rq_status a = Request_approved
        \<and> ao_token_amount r = al_token_amount a \<and> ao_wallet_address r = al_wallet_address a)
     \<and> (ao_operation_type r = Mint \<longrightarrow> (\<exists>w \<in> set ops.
          ao_allocation_request_id w = ao_allocation_request_id r \<and> ao_operation_type w = Whitelist \<and> op_status w = Op_confirmed
          \<and> ao_token_contract_address w = ao_token_contract_address r \<and> ao_wallet_address w = ao_wallet_address r))"

definition operations_ok :: "allocation_row list \<Rightarrow> allocation_operation list \<Rightarrow> bool" where
  "operations_ok allocs ops \<longleftrightarrow> distinct (map op_id ops) \<and> distinct (map operation_key ops)
     \<and> (\<forall>r \<in> set ops. operation_backed allocs ops r)"

definition issuance_ok :: "'z issuance_db_scheme \<Rightarrow> bool" where
  "issuance_ok s \<longleftrightarrow> terms_ok (offering_products s) (offering_issuance_term_requests s)
     \<and> allocations_ok (offering_issuance_term_requests s) (investor_wallets s) (investment_allocation_requests s)
     \<and> supply_ok (offering_issuance_term_requests s) (investment_allocation_requests s)
     \<and> operations_ok (investment_allocation_requests s) (investment_allocation_chain_operations s)"

section \<open>Decisions\<close>

lemma decide_row_terms [simp]:
  "tr_currency (decide_row inp now t) = tr_currency t"
  "tr_token_unit_price_minor (decide_row inp now t) = tr_token_unit_price_minor t"
  "tr_max_total_supply (decide_row inp now t) = tr_max_total_supply t"
  by (simp_all add: decide_row_def)

lemma decide_row_allocation [simp]:
  "al_issuance_terms_request_id (decide_row inp now a) = al_issuance_terms_request_id a"
  "al_reservation_id (decide_row inp now a) = al_reservation_id a" "al_investor_identity_id (decide_row inp now a) = al_investor_identity_id a"
  "al_wallet_id (decide_row inp now a) = al_wallet_id a" "al_chain_id (decide_row inp now a) = al_chain_id a"
  "al_wallet_address (decide_row inp now a) = al_wallet_address a" "al_invested_minor (decide_row inp now a) = al_invested_minor a"
  "al_token_unit_price_minor (decide_row inp now a) = al_token_unit_price_minor a" "al_token_amount (decide_row inp now a) = al_token_amount a"
  by (simp_all add: decide_row_def)

lemma map_id_decide [simp]: "map rq_id (update_where p (decide_row inp now) rows) = map rq_id rows"
  by (rule map_update_where) simp

abbreviation decided_rows :: "decision_input \<Rightarrow> int \<Rightarrow> 'r request_row_scheme list \<Rightarrow> 'r request_row_scheme list" where
  "decided_rows inp now \<equiv> update_where (\<lambda>r. rq_id r = dn_requestId inp) (decide_row inp now)"

lemma decided_source:
  assumes "r \<in> set (decided_rows inp now rows)"
  obtains r0 where "r0 \<in> set rows" and "r = r0 \<or> (r = decide_row inp now r0 \<and> rq_id r0 = dn_requestId inp)"
  using assms by (auto simp: set_update_where)

lemma approved_stays:
  assumes "governed_decision inp rows" and "r \<in> set rows" and "rq_status r = Request_approved"
  shows "r \<in> set (decided_rows inp now rows)"
  using assms by (auto simp: governed_decision_def set_update_where image_iff intro!: bexI [of _ r])

lemma decide_row_active: "governed_decision inp rows \<Longrightarrow> r \<in> set rows \<Longrightarrow> rq_id r = dn_requestId inp \<Longrightarrow> active_request r"
  by (auto simp: governed_decision_def active_request_def)

section \<open>Preservation\<close>

lemma allocations_okD:
  assumes "allocations_ok terms wallets allocs"
  shows "distinct (map rq_id allocs)" and "a \<in> set allocs \<Longrightarrow> backed_allocation terms wallets a"
    and "a \<in> set allocs \<Longrightarrow> b \<in> set allocs \<Longrightarrow> active_request a \<Longrightarrow> active_request b
      \<Longrightarrow> al_reservation_id a = al_reservation_id b \<Longrightarrow> rq_id a = rq_id b"
  using assms unfolding allocations_ok_def by blast+

lemma terms_ok_products: "terms_ok products terms \<Longrightarrow> terms_ok (products @ ps) terms"
  by (auto simp: terms_ok_def offering_backs_def)

lemma terms_ok_decide:
  assumes "terms_ok products terms"
  shows "terms_ok products (decided_rows inp now terms)"
  unfolding terms_ok_def
proof (intro conjI ballI)
  fix t assume "t \<in> set (decided_rows inp now terms)"
  then obtain t0 where "t0 \<in> set terms" "t = t0 \<or> t = decide_row inp now t0" by (auto elim: decided_source)
  then show "0 < tr_token_unit_price_minor t" "0 < tr_max_total_supply t" "offering_backs products t"
    using assms by (auto simp: terms_ok_def offering_backs_def)
qed (use assms in \<open>simp add: terms_ok_def\<close>)

lemma backed_allocation_mono:
  assumes "backed_allocation terms wallets a" and "\<And>t. t \<in> set terms \<Longrightarrow> rq_status t = Request_approved \<Longrightarrow> t \<in> set terms'"
    and "set wallets \<subseteq> set wallets'"
  shows "backed_allocation terms' wallets' a"
  using assms unfolding backed_allocation_def by blast

lemma allocations_ok_mono:
  assumes "allocations_ok terms wallets allocs" and "\<And>t. t \<in> set terms \<Longrightarrow> rq_status t = Request_approved \<Longrightarrow> t \<in> set terms'"
    and "set wallets \<subseteq> set wallets'"
  shows "allocations_ok terms' wallets' allocs"
  using assms(1) backed_allocation_mono [OF _ assms(2,3)] unfolding allocations_ok_def by blast

lemma allocations_ok_decide:
  assumes ok: "allocations_ok terms wallets allocs" and g: "governed_decision inp allocs"
  shows "allocations_ok terms wallets (decided_rows inp now allocs)"
  unfolding allocations_ok_def
proof (intro conjI ballI impI)
  fix a assume "a \<in> set (decided_rows inp now allocs)"
  then obtain a0 where a0: "a0 \<in> set allocs" "a = a0 \<or> (a = decide_row inp now a0 \<and> rq_id a0 = dn_requestId inp)" by (rule decided_source)
  then have "backed_allocation terms wallets a0" using allocations_okD(2) [OF ok] by blast
  then show "backed_allocation terms wallets a" using a0(2) by (auto simp: backed_allocation_def)
  fix b assume "b \<in> set (decided_rows inp now allocs)" and act: "active_request a" "active_request b"
    and res: "al_reservation_id a = al_reservation_id b"
  then obtain b0 where b0: "b0 \<in> set allocs" "b = b0 \<or> (b = decide_row inp now b0 \<and> rq_id b0 = dn_requestId inp)" by (auto elim: decided_source)
  have "active_request a0" "active_request b0" using a0 b0 act decide_row_active [OF g] by auto
  then show "rq_id a = rq_id b" using ok a0 b0 res unfolding allocations_ok_def by (metis decide_row_sels(1) decide_row_allocation(2))
qed (simp add: allocations_okD(1) [OF ok])

lemma allocated_decide:
  assumes "allocations_ok terms wallets allocs" and g: "governed_decision inp allocs"
  shows "allocated i (decided_rows inp now allocs) \<le> allocated i allocs"
  unfolding allocated_def
  by (rule sum_rows_update_le)
     (use allocations_okD(2) [OF assms(1)] decide_row_active [OF g] in \<open>auto simp: backed_allocation_def less_imp_le\<close>)

lemma operations_ok_mono:
  assumes "operations_ok allocs ops" and "\<And>a. a \<in> set allocs \<Longrightarrow> rq_status a = Request_approved \<Longrightarrow> a \<in> set allocs'"
  shows "operations_ok allocs' ops"
  using assms unfolding operations_ok_def operation_backed_def by blast

lemma supply_ok_fresh_terms:
  assumes "allocations_ok terms wallets allocs" and "supply_ok terms allocs" and "fresh_request row terms" and "0 < tr_max_total_supply row"
  shows "supply_ok (terms @ [row]) allocs"
proof -
  have "al_issuance_terms_request_id a \<noteq> rq_id row" if "a \<in> set allocs" for a
    using assms(1,3) that unfolding allocations_ok_def backed_allocation_def fresh_request_def by (metis image_eqI)
  then have "allocated (rq_id row) allocs = 0" unfolding allocated_def sum_rows_def by (simp add: filter_False)
  then show ?thesis using assms(2,4) by (auto simp: supply_ok_def)
qed

lemma allocations_ok_add:
  assumes "allocations_ok terms wallets allocs" and "fresh_request row allocs" and "backed_allocation terms wallets row"
    and other: "\<And>r. r \<in> set allocs \<Longrightarrow> active_request r \<Longrightarrow> al_reservation_id r \<noteq> al_reservation_id row"
  shows "allocations_ok terms wallets (allocs @ [row])"
  unfolding allocations_ok_def
proof (intro conjI ballI impI)
  fix a b assume ab: "a \<in> set (allocs @ [row])" "b \<in> set (allocs @ [row])" and act: "active_request a" "active_request b"
    and res: "al_reservation_id a = al_reservation_id b"
  have old: "rq_id a = rq_id b" if "a \<in> set allocs" "b \<in> set allocs"
    by (rule allocations_okD(3) [OF assms(1) that act res])
  have "a \<in> set allocs \<longleftrightarrow> b \<in> set allocs" using ab act res other [of a] other [of b] by force
  then show "rq_id a = rq_id b" using ab old by force
qed (use allocations_okD(1,2) [OF assms(1)] assms(2,3) in \<open>auto simp: fresh_request_def\<close>)

lemma issuance_ok_allocation:
  assumes ok: "issuance_ok s" and "fresh_request row (investment_allocation_requests s)"
    and "backed_allocation (offering_issuance_term_requests s) (investor_wallets s) row" and left: "supply_left row s"
    and "\<And>r. r \<in> set (investment_allocation_requests s) \<Longrightarrow> active_request r \<Longrightarrow> al_reservation_id r \<noteq> al_reservation_id row"
  shows "issuance_ok (s\<lparr>investment_allocation_requests := investment_allocation_requests s @ [row]\<rparr>)"
proof -
  let ?terms = "offering_issuance_term_requests s" and ?allocs = "investment_allocation_requests s"
  note parts = ok [unfolded issuance_ok_def]
  have "allocations_ok ?terms (investor_wallets s) (?allocs @ [row])"
    using parts assms(2,3,5) by (blast intro: allocations_ok_add)
  moreover have "allocated (rq_id t) (?allocs @ [row]) \<le> tr_max_total_supply t" if t: "t \<in> set ?terms" for t
  proof (cases "al_issuance_terms_request_id row = rq_id t")
    case True
    from left obtain t' where t': "find_terms (rq_id t) s = Some t'" "reserved_supply (rq_id t) s + al_token_amount row \<le> tr_max_total_supply t'"
      by (auto simp: supply_left_def True)
    then have "t' = t"
      using parts t first_row_unique [of rq_id ?terms t "\<lambda>r. rq_id r = rq_id t"] by (auto simp: terms_ok_def find_terms_def)
    then show ?thesis using t'(2) assms(3) by (auto simp: allocated_def reserved_supply_def backed_allocation_def)
  next
    case False
    then show ?thesis using parts t by (auto simp: supply_ok_def allocated_def)
  qed
  moreover have "operations_ok (?allocs @ [row]) (investment_allocation_chain_operations s)"
    using parts by (auto intro: operations_ok_mono)
  ultimately show ?thesis using parts by (simp add: issuance_ok_def supply_ok_def)
qed

lemma operations_ok_add:
  assumes "operations_ok (investment_allocation_requests s) (investment_allocation_chain_operations s)" and "admissible_operation row s"
  shows "operations_ok (investment_allocation_requests s) (investment_allocation_chain_operations s @ [row])"
proof -
  let ?allocs = "investment_allocation_requests s" and ?ops = "investment_allocation_chain_operations s"
  have "operation_backed ?allocs (?ops @ [row]) row"
  proof (cases "ao_operation_type row")
    case Whitelist
    then show ?thesis using assms(2) by (simp add: operation_backed_def admissible_operation_def)
  next
    case Mint
    then obtain w where w: "w \<in> set ?ops" "ao_operation_type w = Whitelist" "op_status w = Op_confirmed"
        "ao_allocation_request_id w = ao_allocation_request_id row" "ao_token_amount w = ao_token_amount row"
        "ao_wallet_address w = ao_wallet_address row" "ao_token_contract_address w = ao_token_contract_address row"
      using assms(2) by (auto simp: admissible_operation_def)
    then have "operation_backed ?allocs ?ops w" using assms(1) by (simp add: operations_ok_def)
    then show ?thesis using w by (auto simp: operation_backed_def intro!: bexI [of _ w])
  qed
  moreover have "operation_backed ?allocs (?ops @ [row]) r" if "r \<in> set ?ops" for r
    using assms(1) that unfolding operations_ok_def operation_backed_def by auto
  moreover have "operation_key row \<notin> operation_key ` set ?ops"
    using assms(2) by (auto simp: admissible_operation_def operation_key_def)
  ultimately show ?thesis using assms by (auto simp: operations_ok_def admissible_operation_def)
qed

lemma issuance_ok_same: "same_issuance s s' \<Longrightarrow> issuance_ok s' = issuance_ok s"
  by (simp add: same_issuance_def issuance_ok_def)

lemma issuance_change_ok:
  assumes "issuance_change rt verify s s'" and ok: "issuance_ok s"
  shows "issuance_ok s'"
proof -
  note parts = ok [unfolded issuance_ok_def]
  from assms(1) show ?thesis
  proof cases
    case (market ps)
    then show ?thesis using parts by (auto simp: issuance_ok_def same_issuance_def terms_ok_products)
  next
    case (evidence es)
    show ?thesis using ok unfolding issuance_ok_same [OF evidence(1)] by (simp add: issuance_ok_def)
  next
    case (terms row)
    have "terms_ok (offering_products s) (offering_issuance_term_requests s @ [row])"
      using parts terms by (auto simp: terms_ok_def fresh_request_def)
    moreover have "allocations_ok (offering_issuance_term_requests s @ [row]) (investor_wallets s) (investment_allocation_requests s)"
      using parts by (auto intro: allocations_ok_mono)
    moreover have "supply_ok (offering_issuance_term_requests s @ [row]) (investment_allocation_requests s)"
      using parts terms by (auto intro: supply_ok_fresh_terms)
    ultimately show ?thesis using parts unfolding issuance_ok_same [OF terms(5)] by (simp add: issuance_ok_def)
  next
    case (decide_terms inp)
    let ?terms = "decided_rows inp (clock s) (offering_issuance_term_requests s)"
    have "allocations_ok ?terms (investor_wallets s) (investment_allocation_requests s)"
      by (rule allocations_ok_mono [OF _ approved_stays [OF decide_terms(1)]]) (use parts in auto)
    moreover have "supply_ok ?terms (investment_allocation_requests s)"
      using parts by (auto simp: supply_ok_def elim!: decided_source)
    ultimately show ?thesis using parts unfolding issuance_ok_same [OF decide_terms(2)] by (simp add: issuance_ok_def terms_ok_decide)
  next
    case (challenge c)
    show ?thesis using ok unfolding issuance_ok_same [OF challenge(3)] by (simp add: issuance_ok_def)
  next
    case (link c w)
    have "allocations_ok (offering_issuance_term_requests s) (investor_wallets s @ [w]) (investment_allocation_requests s)"
      using parts by (auto intro: allocations_ok_mono)
    then show ?thesis using parts unfolding issuance_ok_same [OF link(9)] by (simp add: issuance_ok_def)
  next
    case (allocation row)
    show ?thesis unfolding issuance_ok_same [OF allocation(5)] by (rule issuance_ok_allocation [OF ok allocation(1-4)])
  next
    case (decide_allocation inp)
    let ?allocs = "decided_rows inp (clock s) (investment_allocation_requests s)"
    have "supply_ok (offering_issuance_term_requests s) ?allocs"
      using parts allocated_decide [OF _ decide_allocation(1)] unfolding supply_ok_def by (meson order_trans)
    moreover have "operations_ok ?allocs (investment_allocation_chain_operations s)"
      by (rule operations_ok_mono [OF _ approved_stays [OF decide_allocation(1)]]) (use parts in auto)
    moreover have "allocations_ok (offering_issuance_term_requests s) (investor_wallets s) ?allocs"
      using parts allocations_ok_decide [OF _ decide_allocation(1)] by blast
    ultimately show ?thesis using parts unfolding issuance_ok_same [OF decide_allocation(2)] by (simp add: issuance_ok_def)
  next
    case (deployment d)
    show ?thesis using ok unfolding issuance_ok_same [OF deployment(3)] by (simp add: issuance_ok_def)
  next
    case (decide_deployment inp ops)
    show ?thesis using ok unfolding issuance_ok_same [OF decide_deployment(3)] by (simp add: issuance_ok_def)
  next
    case (operation row)
    show ?thesis using parts operations_ok_add [OF _ operation(1)] unfolding issuance_ok_same [OF operation(2)] by (simp add: issuance_ok_def)
  qed
qed

section \<open>What the invariant says in money\<close>

text \<open>Money and tokens agree, allocation by allocation, so the money behind the active allocations
  of some terms stays within the capacity of the offering.\<close>

lemma invested_within_capacity:
  assumes "issuance_ok s" and t: "t \<in> set (offering_issuance_term_requests s)"
  shows "\<exists>p \<in> set (offering_products s). of_id p = rq_offering_id t
     \<and> sum_rows (\<lambda>a. al_issuance_terms_request_id a = rq_id t \<and> active_request a) al_invested_minor (investment_allocation_requests s)
         \<le> of_capacity_minor p"
proof -
  let ?allocs = "investment_allocation_requests s" and ?p = "\<lambda>a :: allocation_row. al_issuance_terms_request_id a = rq_id t \<and> active_request a"
  note parts = assms(1) [unfolded issuance_ok_def]
  have each: "al_invested_minor a = tr_token_unit_price_minor t * al_token_amount a" if "a \<in> set ?allocs" "?p a" for a
  proof -
    have "backed_allocation (offering_issuance_term_requests s) (investor_wallets s) a" using parts that allocations_okD(2) by blast
    then obtain t' where "t' \<in> set (offering_issuance_term_requests s)" "rq_id t' = al_issuance_terms_request_id a"
      "al_invested_minor a = tr_token_unit_price_minor t' * al_token_amount a"
      unfolding backed_allocation_def by metis
    then show ?thesis using that distinct_map_key_eq [of rq_id "offering_issuance_term_requests s" t' t] parts t by (simp add: terms_ok_def)
  qed
  have "sum_rows ?p al_invested_minor ?allocs = sum_rows ?p (\<lambda>a. tr_token_unit_price_minor t * al_token_amount a) ?allocs"
    by (rule sum_rows_cong) (use each in auto)
  also have "\<dots> = tr_token_unit_price_minor t * allocated (rq_id t) ?allocs"
    by (simp add: allocated_def sum_rows_def sum_list_const_mult)
  also have "\<dots> \<le> tr_token_unit_price_minor t * tr_max_total_supply t"
    using parts t by (auto simp: supply_ok_def terms_ok_def less_imp_le)
  finally show ?thesis using parts t by (fastforce simp: terms_ok_def offering_backs_def)
qed

end
