(* ===== verification/Dispatch_Protocol.thy ===== *)
theory Dispatch_Protocol
  imports Issuance "HOL-Library.Multiset"
begin

text \<open>
  The protocol the two chain executors follow, on its own: operations with a status, dispatch
  claims, the operations in the hands of running processes and the operations sent to the chain.
  A process takes an approved operation that nobody has an open claim on, and only then may send
  it; it may also stop at any moment. The locale \<open>dispatch_system\<close> is the contract of an
  executor that simulates this protocol, and its consequence: no operation is ever sent twice,
  whatever the interleaving of processes and wherever they stop.
\<close>

record dispatch_state =
  ds_ops :: "(uuid \<times> operationStatus) list"
  ds_claims :: "(uuid \<times> uuid \<times> claimStatus) list"
  ds_sent :: "uuid list"
  ds_hand :: "(uuid \<times> uuid) multiset"

abbreviation claimed_op :: "uuid \<times> uuid \<times> claimStatus \<Rightarrow> uuid" where
  "claimed_op c \<equiv> fst (snd c)"

abbreviation claim_state :: "uuid \<times> uuid \<times> claimStatus \<Rightarrow> claimStatus" where
  "claim_state c \<equiv> snd (snd c)"

text \<open>\<open>status IN ('claimed', 'submitted', 'uncertain')\<close>.\<close>

definition open_claim :: "claimStatus \<Rightarrow> bool" where
  "open_claim st \<longleftrightarrow> st \<in> {Claim_claimed, Claim_submitted, Claim_uncertain}"

text \<open>A claim moves from claimed to uncertain, or is closed once submitted; an operation is
  closed once submitted.\<close>

definition claim_settles :: "uuid \<times> uuid \<times> claimStatus \<Rightarrow> uuid \<times> uuid \<times> claimStatus \<Rightarrow> bool" where
  "claim_settles c c' \<longleftrightarrow> c' = c \<or> (fst c' = fst c \<and> claimed_op c' = claimed_op c
     \<and> ((claim_state c = Claim_claimed \<and> claim_state c' = Claim_uncertain)
        \<or> (claim_state c = Claim_submitted \<and> claim_state c' \<in> {Claim_confirmed, Claim_failed})))"

definition op_settles :: "uuid \<times> operationStatus \<Rightarrow> uuid \<times> operationStatus \<Rightarrow> bool" where
  "op_settles p p' \<longleftrightarrow> p' = p \<or> (fst p' = fst p \<and> snd p = Op_submitted \<and> snd p' \<in> {Op_confirmed, Op_failed})"

inductive dispatch_step :: "dispatch_state \<Rightarrow> dispatch_state \<Rightarrow> bool" where
  approve: "i \<notin> fst ` set (ds_ops d) \<Longrightarrow> dispatch_step d (d\<lparr>ds_ops := ds_ops d @ [(i, Op_approved)]\<rparr>)"
| take: "(i, Op_approved) \<in> set (ds_ops d) \<Longrightarrow> c \<notin> fst ` set (ds_claims d) \<Longrightarrow>
    \<forall>k \<in> set (ds_claims d). claimed_op k = i \<longrightarrow> \<not> open_claim (claim_state k) \<Longrightarrow>
    dispatch_step d (d\<lparr>ds_claims := ds_claims d @ [(c, i, Claim_claimed)], ds_hand := add_mset (i, c) (ds_hand d)\<rparr>)"
| send: "(i, c) \<in># ds_hand d \<Longrightarrow>
    dispatch_step d (d\<lparr>ds_sent := ds_sent d @ [i], ds_hand := ds_hand d - {#(i, c)#}\<rparr>)"
| stop: "dispatch_step d (d\<lparr>ds_hand := ds_hand d - {#p#}\<rparr>)"
| submit: "(c, i, st) \<in> set (ds_claims d) \<Longrightarrow>
    dispatch_step d (d\<lparr>ds_ops := update_where (\<lambda>p. p = (i, Op_approved)) (\<lambda>_. (i, Op_submitted)) (ds_ops d),
      ds_claims := update_where (\<lambda>k. fst k = c \<and> claim_state k = Claim_claimed)
        (\<lambda>k. (fst k, claimed_op k, Claim_submitted)) (ds_claims d)\<rparr>)"
| settle: "list_all2 op_settles (ds_ops d) os \<Longrightarrow> list_all2 claim_settles (ds_claims d) cs \<Longrightarrow>
    dispatch_step d (d\<lparr>ds_ops := os, ds_claims := cs\<rparr>)"

text \<open>Every operation has at most one claim, claims refer to operations, a claim that went past
  \<open>claimed\<close> has an operation that is no longer approved, and what was sent or is in hand is
  covered by claims.\<close>

definition dispatch_ok :: "dispatch_state \<Rightarrow> bool" where
  "dispatch_ok d \<longleftrightarrow> distinct (map fst (ds_claims d)) \<and> distinct (map claimed_op (ds_claims d))
     \<and> claimed_op ` set (ds_claims d) \<subseteq> fst ` set (ds_ops d)
     \<and> (\<forall>k \<in> set (ds_claims d). claim_state k \<in> {Claim_submitted, Claim_confirmed, Claim_failed}
          \<longrightarrow> (claimed_op k, Op_approved) \<notin> set (ds_ops d))
     \<and> mset (ds_sent d) + image_mset fst (ds_hand d) \<subseteq># mset (map claimed_op (ds_claims d))"

lemma map_eq_member: "map f xs = map g ys \<Longrightarrow> x \<in> set xs \<Longrightarrow> f x \<in> g ` set ys"
  by (metis image_eqI list.set_map)

lemma claim_settles_maps:
  assumes "list_all2 claim_settles cs cs'"
  shows "map fst cs' = map fst cs" "map claimed_op cs' = map claimed_op cs"
  using assms by (induction rule: list_all2_induct) (auto simp: claim_settles_def)

lemma op_settles_facts:
  assumes "list_all2 op_settles os os'"
  shows "map fst os' = map fst os" and "(i, Op_approved) \<in> set os' \<Longrightarrow> (i, Op_approved) \<in> set os"
  using assms by (induction rule: list_all2_induct) (auto simp: op_settles_def)

lemma settled_claim_source:
  assumes "list_all2 claim_settles cs cs'" and "k \<in> set cs'" and "claim_state k \<in> {Claim_submitted, Claim_confirmed, Claim_failed}"
  shows "\<exists>k0 \<in> set cs. claimed_op k0 = claimed_op k \<and> claim_state k0 \<in> {Claim_submitted, Claim_confirmed, Claim_failed}"
  using assms by (induction rule: list_all2_induct) (auto simp: claim_settles_def)

lemma submit_claims:
  "map fst (update_where p (\<lambda>k. (fst k, claimed_op k, st)) cs) = map fst cs"
  "map claimed_op (update_where p (\<lambda>k. (fst k, claimed_op k, st)) cs) = map claimed_op cs"
  by (simp_all add: update_where_def)

lemma submit_ops: "map fst (update_where (\<lambda>p. p = (i, x)) (\<lambda>_. (i, y)) os) = map fst os"
  by (auto simp: update_where_def)

lemma dispatch_okI:
  assumes "distinct (map fst (ds_claims d))" and "distinct (map claimed_op (ds_claims d))"
    and "\<And>k. k \<in> set (ds_claims d) \<Longrightarrow> claimed_op k \<in> fst ` set (ds_ops d)"
    and "\<And>k. k \<in> set (ds_claims d) \<Longrightarrow> claim_state k \<in> {Claim_submitted, Claim_confirmed, Claim_failed}
          \<Longrightarrow> (claimed_op k, Op_approved) \<notin> set (ds_ops d)"
    and "mset (ds_sent d) + image_mset fst (ds_hand d) \<subseteq># mset (map claimed_op (ds_claims d))"
  shows "dispatch_ok d"
  using assms unfolding dispatch_ok_def by blast

lemma dispatch_okD:
  assumes "dispatch_ok d"
  shows "distinct (map fst (ds_claims d))" "distinct (map claimed_op (ds_claims d))"
    and "k \<in> set (ds_claims d) \<Longrightarrow> claimed_op k \<in> fst ` set (ds_ops d)"
    and "k \<in> set (ds_claims d) \<Longrightarrow> claim_state k \<in> {Claim_submitted, Claim_confirmed, Claim_failed}
          \<Longrightarrow> (claimed_op k, Op_approved) \<notin> set (ds_ops d)"
    and "mset (ds_sent d) + image_mset fst (ds_hand d) \<subseteq># mset (map claimed_op (ds_claims d))"
  using assms unfolding dispatch_ok_def by blast+

lemma dispatch_step_ok:
  assumes "dispatch_step d d'" and ok: "dispatch_ok d"
  shows "dispatch_ok d'"
  using assms(1)
proof cases
  case (approve i)
  show ?thesis
  proof (rule dispatch_okI)
    fix k assume "k \<in> set (ds_claims d')" "claim_state k \<in> {Claim_submitted, Claim_confirmed, Claim_failed}"
    then show "(claimed_op k, Op_approved) \<notin> set (ds_ops d')"
      using dispatch_okD(3,4) [OF ok, of k] approve by auto
  qed (use dispatch_okD [OF ok] approve in auto)
next
  case (take i c)
  have fresh: "claimed_op k \<noteq> i" if "k \<in> set (ds_claims d)" for k
    using that take(2,4) dispatch_okD(4) [OF ok that] by (cases "claim_state k") (auto simp: open_claim_def)
  show ?thesis
  proof (rule dispatch_okI)
    show "distinct (map claimed_op (ds_claims d'))" using fresh dispatch_okD(2) [OF ok] take by auto
    fix k assume "k \<in> set (ds_claims d')"
    then show "claimed_op k \<in> fst ` set (ds_ops d')" using dispatch_okD(3) [OF ok, of k] take by force
  qed (use dispatch_okD [OF ok] take in auto)
next
  case (send i c)
  then have "image_mset fst (ds_hand d) = add_mset i (image_mset fst (ds_hand d - {#(i, c)#}))"
    by (metis fst_conv image_mset_add_mset insert_DiffM)
  then show ?thesis using dispatch_okD [OF ok] send by (intro dispatch_okI) simp_all
next
  case (stop p)
  have "image_mset fst (ds_hand d - {#p#}) \<subseteq># image_mset fst (ds_hand d)"
    by (simp add: image_mset_subseteq_mono)
  then have "mset (ds_sent d) + image_mset fst (ds_hand d - {#p#}) \<subseteq># mset (map claimed_op (ds_claims d))"
    using dispatch_okD(5) [OF ok] by (meson subset_mset.add_left_mono subset_mset.order_trans)
  then show ?thesis using dispatch_okD(1-4) [OF ok] stop by (intro dispatch_okI) simp_all
next
  case (submit c i st)
  have link: "claimed_op k = i" if "k \<in> set (ds_claims d)" "fst k = c" for k
    using distinct_map_key_eq [OF dispatch_okD(1) [OF ok] that(1) submit(2)] that(2) by simp
  show ?thesis
  proof (rule dispatch_okI)
    fix k assume k: "k \<in> set (ds_claims d')"
    have "map claimed_op (ds_claims d') = map claimed_op (ds_claims d)" by (simp add: submit(1) submit_claims)
    from map_eq_member [OF this k] have "claimed_op k \<in> claimed_op ` set (ds_claims d)" .
    then show "claimed_op k \<in> fst ` set (ds_ops d')"
      using dispatch_okD(3) [OF ok] submit_ops [of i Op_approved Op_submitted "ds_ops d"]
      by (auto simp: submit(1)) (metis image_eqI image_set fst_conv)
    assume st: "claim_state k \<in> {Claim_submitted, Claim_confirmed, Claim_failed}"
    from k have "k \<in> (\<lambda>k0. if fst k0 = c \<and> claim_state k0 = Claim_claimed then (fst k0, claimed_op k0, Claim_submitted) else k0)
        ` set (ds_claims d)" by (simp add: submit(1) set_update_where)
    then obtain k0 where k0: "k0 \<in> set (ds_claims d)" and
      eq: "k = (if fst k0 = c \<and> claim_state k0 = Claim_claimed then (fst k0, claimed_op k0, Claim_submitted) else k0)"
      by (rule imageE)
    have same: "claimed_op k = claimed_op k0" "claimed_op k0 = i \<or> k = k0"
      using link [OF k0] eq by (auto split: if_splits)
    show "(claimed_op k, Op_approved) \<notin> set (ds_ops d')"
    proof
      assume "(claimed_op k, Op_approved) \<in> set (ds_ops d')"
      then have "(claimed_op k, Op_approved) \<in> set (ds_ops d)" "claimed_op k \<noteq> i"
        by (auto simp: submit(1) set_update_where split: if_splits)
      then show False using dispatch_okD(4) [OF ok k0] same st by auto
    qed
  qed (use dispatch_okD [OF ok] in \<open>simp_all add: submit(1) submit_claims\<close>)
next
  case (settle os cs)
  note maps = claim_settles_maps [OF settle(3)] op_settles_facts [OF settle(2)]
  show ?thesis
  proof (rule dispatch_okI)
    fix k assume k: "k \<in> set (ds_claims d')"
    have "map claimed_op (ds_claims d') = map claimed_op (ds_claims d)" using maps(2) by (simp add: settle(1))
    from map_eq_member [OF this k] have "claimed_op k \<in> claimed_op ` set (ds_claims d)" .
    then show "claimed_op k \<in> fst ` set (ds_ops d')"
      using dispatch_okD(3) [OF ok] maps(3) by (auto simp: settle(1)) (metis image_eqI image_set fst_conv)
    assume "claim_state k \<in> {Claim_submitted, Claim_confirmed, Claim_failed}"
    then obtain k0 where "k0 \<in> set (ds_claims d)" "claimed_op k0 = claimed_op k"
      "claim_state k0 \<in> {Claim_submitted, Claim_confirmed, Claim_failed}"
      using settled_claim_source [OF settle(3), of k] k settle(1) by auto
    then show "(claimed_op k, Op_approved) \<notin> set (ds_ops d')"
      using dispatch_okD(4) [OF ok, of k0] maps(4) settle(1) by auto
  qed (use dispatch_okD [OF ok] maps in \<open>simp_all add: settle(1)\<close>)
qed

lemma dispatch_run_ok: "dispatch_step\<^sup>*\<^sup>* d d' \<Longrightarrow> dispatch_ok d \<Longrightarrow> dispatch_ok d'"
  by (induction rule: rtranclp_induct) (auto intro: dispatch_step_ok)

lemma dispatch_ok_distinct: "dispatch_ok d \<Longrightarrow> distinct (ds_sent d)"
proof -
  assume ok: "dispatch_ok d"
  have "mset (ds_sent d) \<subseteq># mset (map claimed_op (ds_claims d))"
    using dispatch_okD(5) [OF ok] by (metis mset_subset_eq_add_left subset_mset.order_trans)
  then have le: "count (mset (ds_sent d)) i \<le> count (mset (map claimed_op (ds_claims d))) i" for i
    by (rule mset_subset_eq_count)
  have one: "count (mset (map claimed_op (ds_claims d))) i \<le> 1" for i
    using dispatch_okD(2) [OF ok] by (simp add: distinct_count_atmost_1 del: mset_map)
  have "count (mset (ds_sent d)) i = (if i \<in> set (ds_sent d) then 1 else 0)" for i
    using le_trans [OF le one, of i] count_greater_zero_iff [of "mset (ds_sent d)" i]
    by (cases "count (mset (ds_sent d)) i") (auto simp: not_in_iff)
  then show ?thesis by (simp add: distinct_count_atmost_1)
qed

section \<open>Executors\<close>

locale dispatch_system =
  fixes step :: "'s \<Rightarrow> 's \<Rightarrow> bool" and view :: "'s \<Rightarrow> dispatch_state"
  assumes simulates: "step s s' \<Longrightarrow> dispatch_step\<^sup>*\<^sup>* (view s) (view s')"
begin

lemma run_simulates: "step\<^sup>*\<^sup>* s s' \<Longrightarrow> dispatch_step\<^sup>*\<^sup>* (view s) (view s')"
  by (induction rule: rtranclp_induct) (auto dest: simulates)

lemma run_keeps: "step\<^sup>*\<^sup>* s s' \<Longrightarrow> dispatch_ok (view s) \<Longrightarrow> dispatch_ok (view s')"
  by (rule dispatch_run_ok [OF run_simulates])

lemma sent_once: "step\<^sup>*\<^sup>* s s' \<Longrightarrow> dispatch_ok (view s) \<Longrightarrow> distinct (ds_sent (view s'))"
  by (rule dispatch_ok_distinct [OF run_keeps])

end

end
