(* ===== verification/Executor_Steps.thy ===== *)
theory Executor_Steps
  imports Issuance_Supply Dispatch_Protocol
begin

text \<open>
  The two executors taken apart into the steps other processes can interleave with: one step per
  transaction and per call to the chain, beside any command of the market and of issuance. The
  dispatches a process has claimed and not yet sent are in its hands; a process that stops, or
  whose machine does, loses what it holds and leaves its claims behind. Both executors simulate
  the protocol of \<open>Dispatch_Protocol\<close>, and each executor as the code composes it is a run of
  these steps.
\<close>

section \<open>Steps\<close>

record executors =
  ex_db :: chain_db
  ex_allocations :: "allocation_dispatch list"
  ex_deployments :: "deployment_dispatch list"

definition committed :: "('z chain_db_scheme, 'a) tx \<Rightarrow> 'z chain_db_scheme \<Rightarrow> 'z chain_db_scheme" where
  "committed m s = snd (withPostgresTransaction deferred_constraints m s)"

definition claim_of :: "uuid \<Rightarrow> uuid \<Rightarrow> claim_row list \<Rightarrow> bool" where
  "claim_of claimId operationId claims \<longleftrightarrow> (\<exists>c \<in> set claims. dc_id c = claimId \<and> dc_operation_id c = operationId)"

definition sent_call :: "chain_call \<Rightarrow> 'z chain_db_scheme \<Rightarrow> 'z chain_db_scheme" where
  "sent_call call s = s\<lparr>chain_calls := chain_calls s @ [call]\<rparr>"

inductive executor_step :: "runtime \<Rightarrow> env_config \<Rightarrow> verifier \<Rightarrow> executors \<Rightarrow> executors \<Rightarrow> bool" for rt env verify where
  command: "executor_step rt env verify x (x\<lparr>ex_db := run_issuance_command rt env verify c (ex_db x)\<rparr>)"
| claim_a: "withPostgresTransaction deferred_constraints (claim_allocation rt w) (ex_db x) = (Inr (Some p), s') \<Longrightarrow>
    executor_step rt env verify x (x\<lparr>ex_db := s', ex_allocations := p # ex_allocations x\<rparr>)"
| send_a: "p \<in> set (ex_allocations x) \<Longrightarrow>
    executor_step rt env verify x (x\<lparr>ex_db := sent_call (allocation_call (ad_operation p)) (ex_db x),
      ex_allocations := remove1 p (ex_allocations x)\<rparr>)"
| stop_a: "p \<in> set (ex_allocations x) \<Longrightarrow> executor_step rt env verify x (x\<lparr>ex_allocations := remove1 p (ex_allocations x)\<rparr>)"
| submitted_a: "claim_of (ad_claimId p) (op_id (ad_operation p)) (investment_allocation_chain_dispatch_claims (ex_db x)) \<Longrightarrow>
    allocation_call (ad_operation p) \<in> set (chain_calls (ex_db x)) \<Longrightarrow>
    executor_step rt env verify x (x\<lparr>ex_db := committed (allocation_submitted_tx rt p h) (ex_db x)\<rparr>)"
| uncertain_a: "executor_step rt env verify x (x\<lparr>ex_db := committed (allocation_uncertain_tx rt p e) (ex_db x)\<rparr>)"
| confirmed_a: "executor_step rt env verify x (x\<lparr>ex_db := committed (allocation_confirmed_tx rt p h n) (ex_db x)\<rparr>)"
| failed_a: "executor_step rt env verify x (x\<lparr>ex_db := committed (allocation_failed_tx rt p h e) (ex_db x)\<rparr>)"
| claim_d: "withPostgresTransaction deferred_constraints (claimApprovedDeployment rt w) (ex_db x) = (Inr (Some d), s') \<Longrightarrow>
    executor_step rt env verify x (x\<lparr>ex_db := s', ex_deployments := d # ex_deployments x\<rparr>)"
| send_d: "d \<in> set (ex_deployments x) \<Longrightarrow>
    executor_step rt env verify x (x\<lparr>ex_db := sent_call (deployment_call d) (ex_db x), ex_deployments := remove1 d (ex_deployments x)\<rparr>)"
| stop_d: "d \<in> set (ex_deployments x) \<Longrightarrow> executor_step rt env verify x (x\<lparr>ex_deployments := remove1 d (ex_deployments x)\<rparr>)"
| submitted_d: "claim_of (dd_claimId d) (op_id (dd_operation d)) (offering_chain_operation_dispatch_claims (ex_db x)) \<Longrightarrow>
    deployment_call d \<in> set (chain_calls (ex_db x)) \<Longrightarrow>
    executor_step rt env verify x (x\<lparr>ex_db := committed (mark_submitted_tx rt d h) (ex_db x)\<rparr>)"
| uncertain_d: "executor_step rt env verify x (x\<lparr>ex_db := committed (mark_uncertain_tx rt d e) (ex_db x)\<rparr>)"
| confirmed_d: "executor_step rt env verify x (x\<lparr>ex_db := committed (mark_confirmed_tx rt d h n contract) (ex_db x)\<rparr>)"
| failed_d: "executor_step rt env verify x (x\<lparr>ex_db := committed (mark_failed_tx rt d h e) (ex_db x)\<rparr>)"

section \<open>Effects\<close>

abbreviation update_allocation_op where "update_allocation_op p f s \<equiv> investment_allocation_chain_operations_update (update_where p f) s"
abbreviation update_allocation_claim where
  "update_allocation_claim p f s \<equiv> investment_allocation_chain_dispatch_claims_update (update_where p f) s"
abbreviation update_deployment_op where "update_deployment_op p f s \<equiv> offering_chain_operations_update (update_where p f) s"
abbreviation update_deployment_claim where
  "update_deployment_claim p f s \<equiv> offering_chain_operation_dispatch_claims_update (update_where p f) s"

abbreviation claim_is :: "uuid \<Rightarrow> claimStatus \<Rightarrow> claim_row \<Rightarrow> bool" where
  "claim_is i st c \<equiv> dc_id c = i \<and> dc_status c = st"

abbreviation op_is :: "uuid \<Rightarrow> operationStatus \<Rightarrow> 'r operation_row_scheme \<Rightarrow> bool" where
  "op_is i st r \<equiv> op_id r = i \<and> op_status r = st"

lemma committed_cases: "(\<And>a s'. m s = Inr (a, s') \<Longrightarrow> Q s') \<Longrightarrow> Q s \<Longrightarrow> Q (committed m s)"
  unfolding committed_def by (rule transaction_snd)

lemma claimable_head:
  assumes "claimable ops claims = r # rs"
  shows "r \<in> set ops \<and> op_status r = Op_approved"
proof -
  have "r \<in> set (claimable ops claims)" by (simp add: assms)
  then show ?thesis by (simp add: claimable_def)
qed

lemma allocation_claimed:
  assumes "claim_allocation rt w s = Inr (Some p, s')"
  shows "ad_operation p \<in> set (investment_allocation_chain_operations s)" and "op_status (ad_operation p) = Op_approved"
    and "\<forall>c \<in> set (investment_allocation_chain_dispatch_claims s).
           dc_id c \<noteq> ad_claimId p \<and> \<not> active_claim (op_id (ad_operation p)) c"
    and "same_issuance (s\<lparr>investment_allocation_chain_dispatch_claims := investment_allocation_chain_dispatch_claims s
           @ [new_claim (ad_claimId p) (op_id (ad_operation p)) w (clock s)]\<rparr>) s'"
  using assms unfolding claim_allocation_def
  by (auto simp: tx_Inr randomUUID_Inr insert_claim_Inr new_claim_def same_issuance_def elim!: tx_elims
      dest!: claimable_head split: list.splits)

lemma deployment_claimed:
  assumes "claimApprovedDeployment rt w s = Inr (Some d, s')"
  shows "dd_operation d \<in> set (offering_chain_operations s)" and "op_status (dd_operation d) = Op_approved"
    and "dd_request d \<in> set (offering_chain_deployment_requests s)" and "rq_id (dd_request d) = do_request_id (dd_operation d)"
    and "\<forall>c \<in> set (offering_chain_operation_dispatch_claims s).
           dc_id c \<noteq> dd_claimId d \<and> \<not> active_claim (op_id (dd_operation d)) c"
    and "same_issuance (s\<lparr>offering_chain_operation_dispatch_claims := offering_chain_operation_dispatch_claims s
           @ [new_claim (dd_claimId d) (op_id (dd_operation d)) w (clock s)]\<rparr>) s'"
proof -
  let ?all = "claimable (offering_chain_operations s) (offering_chain_operation_dispatch_claims s)"
  let ?rows = "concat (map (with_request (offering_chain_deployment_requests s)) ?all)"
  obtain row rows where rows: "?rows = row # rows" and d: "dd_operation d = fst row" "dd_request d = snd row"
    using assms unfolding claimApprovedDeployment_def
    by (auto simp: tx_Inr simp del: concat_eq_Nil_conv elim!: tx_elims split: list.splits)
  have "row \<in> set ?rows" unfolding rows by simp
  then show "dd_operation d \<in> set (offering_chain_operations s)" "op_status (dd_operation d) = Op_approved"
    "dd_request d \<in> set (offering_chain_deployment_requests s)" "rq_id (dd_request d) = do_request_id (dd_operation d)"
    by (auto simp: d with_request_def claimable_def dest!: first_row_Some first_row_Some [OF sym] split: option.splits)
qed (use assms in \<open>auto simp: claimApprovedDeployment_def tx_Inr randomUUID_Inr insert_claim_Inr new_claim_def same_issuance_def
      elim!: tx_elims split: list.splits\<close>)

lemma allocation_submitted_effect:
  "allocation_submitted_tx rt p h s = Inr (u, s') \<Longrightarrow>
     same_issuance (update_allocation_claim (claim_is (ad_claimId p) Claim_claimed) (submit_claim (toLowerCase h) (clock s))
       (update_allocation_op (op_is (op_id (ad_operation p)) Op_approved) (submit_op (toLowerCase h) (clock s)) s)) s'"
  unfolding allocation_submitted_tx_def audit_allocation_def
  by (auto simp: tx_Inr update_count_Inr elim!: tx_elims dest!: emit_same)

lemma deployment_submitted_effect:
  "mark_submitted_tx rt d h s = Inr (u, s') \<Longrightarrow>
     same_issuance (update_deployment_claim (claim_is (dd_claimId d) Claim_claimed) (submit_claim (toLowerCase h) (clock s))
       (update_deployment_op (op_is (op_id (dd_operation d)) Op_approved) (submit_op (toLowerCase h) (clock s)) s)) s'"
  unfolding mark_submitted_tx_def recordAudit_def
  by (auto simp: tx_Inr update_count_Inr elim!: tx_elims dest!: emit_same)

text \<open>A settlement closes submitted rows, or gives a claim up; what an operation is about does not
  change.\<close>

definition settles_op :: "('r operation_row_scheme \<Rightarrow> 'k) \<Rightarrow> 'r operation_row_scheme \<Rightarrow> 'r operation_row_scheme \<Rightarrow> bool" where
  "settles_op subject r r' \<longleftrightarrow> r' = r \<or> (op_id r' = op_id r \<and> subject r' = subject r
     \<and> op_status r = Op_submitted \<and> op_status r' \<in> {Op_confirmed, Op_failed})"

definition settles_claim :: "claim_row \<Rightarrow> claim_row \<Rightarrow> bool" where
  "settles_claim c c' \<longleftrightarrow> c' = c \<or> (dc_id c' = dc_id c \<and> dc_operation_id c' = dc_operation_id c
     \<and> ((dc_status c = Claim_claimed \<and> dc_status c' = Claim_uncertain)
        \<or> (dc_status c = Claim_submitted \<and> dc_status c' \<in> {Claim_confirmed, Claim_failed})))"

lemma list_all2_update_where:
  assumes "\<And>r. R r r" and "\<And>r. p r \<Longrightarrow> R r (f r)"
  shows "list_all2 R rows (update_where p f rows)"
  using assms by (induction rows) auto

abbreviation deployment_subject :: "deployment_operation \<Rightarrow> uuid \<times> uuid" where
  "deployment_subject r \<equiv> (do_request_id r, op_offering_id r)"

definition allocation_settled :: "'z chain_db_scheme \<Rightarrow> 'z chain_db_scheme \<Rightarrow> bool" where
  "allocation_settled s s' \<longleftrightarrow> (\<exists>ops claims.
     list_all2 (settles_op operation_row.more) (investment_allocation_chain_operations s) ops
     \<and> list_all2 settles_claim (investment_allocation_chain_dispatch_claims s) claims
     \<and> same_issuance (s\<lparr>investment_allocation_chain_operations := ops, investment_allocation_chain_dispatch_claims := claims\<rparr>) s')"

definition deployment_settled :: "'z chain_db_scheme \<Rightarrow> 'z chain_db_scheme \<Rightarrow> bool" where
  "deployment_settled s s' \<longleftrightarrow> (\<exists>ops claims.
     list_all2 (settles_op deployment_subject) (offering_chain_operations s) ops
     \<and> list_all2 settles_claim (offering_chain_operation_dispatch_claims s) claims
     \<and> same_issuance (s\<lparr>offering_chain_operations := ops, offering_chain_operation_dispatch_claims := claims\<rparr>) s')"

lemma allocation_settledI:
  assumes "\<And>r. p r \<Longrightarrow> settles_op operation_row.more r (f r)" and "\<And>c. q c \<Longrightarrow> settles_claim c (g c)"
    and "same_issuance (update_allocation_claim q g (update_allocation_op p f s)) s'"
  shows "allocation_settled s s'"
  unfolding allocation_settled_def
  by (rule exI [of _ "update_where p f (investment_allocation_chain_operations s)"],
      rule exI [of _ "update_where q g (investment_allocation_chain_dispatch_claims s)"])
     (use assms in \<open>auto intro!: list_all2_update_where simp: settles_op_def settles_claim_def same_issuance_def\<close>)

lemma deployment_settledI:
  assumes "\<And>r. p r \<Longrightarrow> settles_op deployment_subject r (f r)" and "\<And>c. q c \<Longrightarrow> settles_claim c (g c)"
    and "same_issuance (update_deployment_claim q g (update_deployment_op p f s)) s'"
  shows "deployment_settled s s'"
  unfolding deployment_settled_def
  by (rule exI [of _ "update_where p f (offering_chain_operations s)"],
      rule exI [of _ "update_where q g (offering_chain_operation_dispatch_claims s)"])
     (use assms in \<open>auto intro!: list_all2_update_where simp: settles_op_def settles_claim_def same_issuance_def\<close>)

lemma allocation_settled_refl: "allocation_settled s s"
  by (rule allocation_settledI [of "\<lambda>_. False" id "\<lambda>_. False" id]) (simp_all add: same_issuance_def update_where_none)

lemma deployment_settled_refl: "deployment_settled s s"
  by (rule deployment_settledI [of "\<lambda>_. False" id "\<lambda>_. False" id]) (simp_all add: same_issuance_def update_where_none)

lemma allocation_settled_effects:
  "allocation_confirmed_tx rt p h n s = Inr (u, s') \<Longrightarrow> allocation_settled s s'"
  "allocation_failed_tx rt p h e s = Inr (u, s') \<Longrightarrow> allocation_settled s s'"
  "allocation_uncertain_tx rt p e s = Inr (u, s') \<Longrightarrow> allocation_settled s s'"
proof -
  let ?p = "\<lambda>r. op_id r = op_id (ad_operation p) \<and> op_status r = Op_submitted \<and> op_transaction_hash r = Some (toLowerCase h)"
  let ?q = "\<lambda>c. dc_id c = ad_claimId p \<and> dc_status c = Claim_submitted \<and> dc_transaction_hash c = Some (toLowerCase h)"
  assume "allocation_confirmed_tx rt p h n s = Inr (u, s')"
  then have "same_issuance (update_allocation_claim ?q (confirm_claim (clock s)) (update_allocation_op ?p (confirm_op (clock s)) s)) s'"
    unfolding allocation_confirmed_tx_def audit_allocation_def
    by (auto simp: tx_Inr update_count_Inr elim!: tx_elims dest!: emit_same)
  then show "allocation_settled s s'"
    by (rule allocation_settledI [rotated 2]) (auto simp: settles_op_def settles_claim_def confirm_op_def confirm_claim_def)
next
  let ?p = "\<lambda>r. op_id r = op_id (ad_operation p) \<and> op_status r = Op_submitted \<and> op_transaction_hash r = Some (toLowerCase h)"
  let ?q = "\<lambda>c. dc_id c = ad_claimId p \<and> dc_status c = Claim_submitted \<and> dc_transaction_hash c = Some (toLowerCase h)"
  assume "allocation_failed_tx rt p h e s = Inr (u, s')"
  then have "same_issuance (update_allocation_claim ?q (fail_claim Claim_failed (short_error e) (clock s))
      (update_allocation_op ?p (fail_op (short_error e) (clock s)) s)) s'"
    unfolding allocation_failed_tx_def audit_allocation_def
    by (auto simp: tx_Inr update_count_Inr elim!: tx_elims dest!: emit_same)
  then show "allocation_settled s s'"
    by (rule allocation_settledI [rotated 2]) (auto simp: settles_op_def settles_claim_def fail_op_def fail_claim_def)
next
  assume "allocation_uncertain_tx rt p e s = Inr (u, s')"
  then have "same_issuance (update_allocation_claim (claim_is (ad_claimId p) Claim_claimed) (fail_claim Claim_uncertain (short_error e) (clock s))
      (update_allocation_op (\<lambda>_. False) id s)) s'"
    unfolding allocation_uncertain_tx_def audit_allocation_def
    by (auto simp: tx_Inr update_count_Inr update_where_def same_issuance_def elim!: tx_elims dest!: emit_same)
  then show "allocation_settled s s'"
    by (rule allocation_settledI [rotated 2]) (auto simp: settles_claim_def fail_claim_def)
qed

lemma deployment_settled_effects:
  "mark_confirmed_tx rt d h n contract s = Inr (u, s') \<Longrightarrow> deployment_settled s s'"
  "mark_failed_tx rt d h e s = Inr (u, s') \<Longrightarrow> deployment_settled s s'"
  "mark_uncertain_tx rt d e s = Inr (u, s') \<Longrightarrow> deployment_settled s s'"
proof -
  let ?p = "\<lambda>r. op_id r = op_id (dd_operation d) \<and> op_status r = Op_submitted \<and> op_transaction_hash r = Some (toLowerCase h)"
  let ?q = "\<lambda>c. dc_id c = dd_claimId d \<and> dc_status c = Claim_submitted \<and> dc_transaction_hash c = Some (toLowerCase h)"
  assume "mark_confirmed_tx rt d h n contract s = Inr (u, s')"
  then have "same_issuance (update_deployment_claim ?q (confirm_claim (clock s))
      (update_deployment_op ?p (confirm_deployment (toLowerCase contract) n (clock s)) s)) s'"
    unfolding mark_confirmed_tx_def recordAudit_def
    by (auto simp: tx_Inr update_count_Inr elim!: tx_elims dest!: emit_same)
  then show "deployment_settled s s'"
    by (rule deployment_settledI [rotated 2])
       (auto simp: settles_op_def settles_claim_def confirm_deployment_def confirm_op_def confirm_claim_def)
next
  let ?p = "\<lambda>r. op_id r = op_id (dd_operation d) \<and> op_status r = Op_submitted \<and> op_transaction_hash r = Some (toLowerCase h)"
  let ?q = "\<lambda>c. dc_id c = dd_claimId d \<and> dc_status c = Claim_submitted \<and> dc_transaction_hash c = Some (toLowerCase h)"
  assume "mark_failed_tx rt d h e s = Inr (u, s')"
  then have "same_issuance (update_deployment_claim ?q (fail_claim Claim_failed (short_error e) (clock s))
      (update_deployment_op ?p (fail_op (short_error e) (clock s)) s)) s'"
    unfolding mark_failed_tx_def recordAudit_def
    by (auto simp: tx_Inr update_count_Inr elim!: tx_elims dest!: emit_same)
  then show "deployment_settled s s'"
    by (rule deployment_settledI [rotated 2]) (auto simp: settles_op_def settles_claim_def fail_op_def fail_claim_def)
next
  assume "mark_uncertain_tx rt d e s = Inr (u, s')"
  then have "same_issuance (update_deployment_claim (claim_is (dd_claimId d) Claim_claimed) (fail_claim Claim_uncertain (short_error e) (clock s))
      (update_deployment_op (\<lambda>_. False) id s)) s'"
    unfolding mark_uncertain_tx_def recordAudit_def
    by (auto simp: tx_Inr update_count_Inr update_where_def same_issuance_def elim!: tx_elims dest!: emit_same)
  then show "deployment_settled s s'"
    by (rule deployment_settledI [rotated 2]) (auto simp: settles_claim_def fail_claim_def)
qed

lemma committed_allocation_settled:
  assumes "\<And>u s'. m s = Inr (u, s') \<Longrightarrow> allocation_settled s s'"
  shows "allocation_settled s (committed m s)"
  by (rule committed_cases [where Q = "allocation_settled s"]) (auto intro: assms allocation_settled_refl)

lemma committed_deployment_settled:
  assumes "\<And>u s'. m s = Inr (u, s') \<Longrightarrow> deployment_settled s s'"
  shows "deployment_settled s (committed m s)"
  by (rule committed_cases [where Q = "deployment_settled s"]) (auto intro: assms deployment_settled_refl)

lemma committed_settled:
  "allocation_settled s (committed (allocation_confirmed_tx rt p h n) s)"
  "allocation_settled s (committed (allocation_failed_tx rt p h e) s)"
  "allocation_settled s (committed (allocation_uncertain_tx rt p e) s)"
  "deployment_settled s (committed (mark_confirmed_tx rt d h n contract) s)"
  "deployment_settled s (committed (mark_failed_tx rt d h e) s)"
  "deployment_settled s (committed (mark_uncertain_tx rt d e) s)"
  by (rule committed_allocation_settled committed_deployment_settled, erule allocation_settled_effects deployment_settled_effects)+

section \<open>The protocol seen by each executor\<close>

definition view_op :: "'r operation_row_scheme \<Rightarrow> uuid \<times> operationStatus" where
  "view_op r = (op_id r, op_status r)"

definition view_claim :: "claim_row \<Rightarrow> uuid \<times> uuid \<times> claimStatus" where
  "view_claim c = (dc_id c, dc_operation_id c, dc_status c)"

fun allocation_call_id :: "chain_call \<Rightarrow> uuid list" where
  "allocation_call_id (WhitelistInvestor i contract wallet) = [i]"
| "allocation_call_id (BatchMint i contract lines) = [i]"
| "allocation_call_id (DeployToken i offering name token symbol holder retail cap) = []"

fun deployment_call_id :: "chain_call \<Rightarrow> uuid list" where
  "deployment_call_id (WhitelistInvestor i contract wallet) = []"
| "deployment_call_id (BatchMint i contract lines) = []"
| "deployment_call_id (DeployToken i offering name token symbol holder retail cap) = [i]"

definition allocation_view :: "executors \<Rightarrow> dispatch_state" where
  "allocation_view x =
     \<lparr>ds_ops = map view_op (investment_allocation_chain_operations (ex_db x)),
      ds_claims = map view_claim (investment_allocation_chain_dispatch_claims (ex_db x)),
      ds_sent = concat (map allocation_call_id (chain_calls (ex_db x))),
      ds_hand = mset (map (\<lambda>p. (op_id (ad_operation p), ad_claimId p)) (ex_allocations x))\<rparr>"

definition deployment_view :: "executors \<Rightarrow> dispatch_state" where
  "deployment_view x =
     \<lparr>ds_ops = map view_op (offering_chain_operations (ex_db x)),
      ds_claims = map view_claim (offering_chain_operation_dispatch_claims (ex_db x)),
      ds_sent = concat (map deployment_call_id (chain_calls (ex_db x))),
      ds_hand = mset (map (\<lambda>d. (op_id (dd_operation d), dd_claimId d)) (ex_deployments x))\<rparr>"

lemma view_sels [simp]: "fst (view_op r) = op_id r" "snd (view_op r) = op_status r"
  "fst (view_claim c) = dc_id c" "claimed_op (view_claim c) = dc_operation_id c" "claim_state (view_claim c) = dc_status c"
  by (simp_all add: view_op_def view_claim_def)

lemma call_ids [simp]:
  "allocation_call_id (allocation_call r) = [op_id r]" "deployment_call_id (allocation_call r) = []"
  "allocation_call_id (deployment_call d) = []" "deployment_call_id (deployment_call d) = [op_id (dd_operation d)]"
  by (simp_all add: allocation_call_def deployment_call_def Let_def split: operationType.split)

lemma view_settles:
  "list_all2 (settles_op subject) ops ops' \<Longrightarrow> list_all2 op_settles (map view_op ops) (map view_op ops')"
  "list_all2 settles_claim claims claims' \<Longrightarrow> list_all2 claim_settles (map view_claim claims) (map view_claim claims')"
  by (auto simp: list.rel_map settles_op_def op_settles_def settles_claim_def claim_settles_def view_op_def view_claim_def
      elim!: list_all2_mono)

lemma view_submit:
  "map view_op (update_where (op_is i Op_approved) (submit_op h now) ops)
     = update_where (\<lambda>p. p = (i, Op_approved)) (\<lambda>_. (i, Op_submitted)) (map view_op ops)"
  "map view_claim (update_where (claim_is j Claim_claimed) (submit_claim h now) claims)
     = update_where (\<lambda>k. fst k = j \<and> claim_state k = Claim_claimed) (\<lambda>k. (fst k, claimed_op k, Claim_submitted)) (map view_claim claims)"
  by (auto simp: update_where_def view_op_def view_claim_def submit_op_def submit_claim_def)

lemma hand_remove1: "p \<in> set ps \<Longrightarrow> image_mset f (mset ps - {#p#}) = image_mset f (mset ps) - {#f p#}"
  by (simp add: image_mset_Diff)

text \<open>One lemma per kind of step, for either table.\<close>

lemma take_simulates:
  assumes "r \<in> set ops" and "op_status r = Op_approved"
    and "\<forall>c \<in> set claims. dc_id c \<noteq> i \<and> \<not> active_claim (op_id r) c"
  shows "dispatch_step \<lparr>ds_ops = map view_op ops, ds_claims = map view_claim claims, ds_sent = sent, ds_hand = hand\<rparr>
     \<lparr>ds_ops = map view_op ops, ds_claims = map view_claim (claims @ [new_claim i (op_id r) w now]), ds_sent = sent,
      ds_hand = add_mset (op_id r, i) hand\<rparr>"
proof -
  let ?d = "\<lparr>ds_ops = map view_op ops, ds_claims = map view_claim claims, ds_sent = sent, ds_hand = hand\<rparr>"
  have "(op_id r, Op_approved) \<in> set (ds_ops ?d)" using assms(1,2) by (auto simp: view_op_def image_iff intro!: bexI [of _ r])
  moreover have "i \<notin> fst ` set (ds_claims ?d)" using assms(3) by (auto simp: view_claim_def)
  moreover have "\<forall>k \<in> set (ds_claims ?d). claimed_op k = op_id r \<longrightarrow> \<not> open_claim (claim_state k)"
    using assms(3) by (auto simp: active_claim_def open_claim_def)
  ultimately show ?thesis using dispatch_step.take [of "op_id r" ?d i] by (simp add: view_claim_def new_claim_def)
qed

lemma submit_simulates:
  assumes "claim_of j i claims"
  shows "dispatch_step \<lparr>ds_ops = map view_op ops, ds_claims = map view_claim claims, ds_sent = sent, ds_hand = hand\<rparr>
     \<lparr>ds_ops = map view_op (update_where (op_is i Op_approved) (submit_op h now) ops),
      ds_claims = map view_claim (update_where (claim_is j Claim_claimed) (submit_claim h now) claims), ds_sent = sent, ds_hand = hand\<rparr>"
proof -
  from assms obtain c where "c \<in> set claims" "dc_id c = j" "dc_operation_id c = i" by (auto simp: claim_of_def)
  then have "(j, i, dc_status c) \<in> set (map view_claim claims)" by (auto simp: view_claim_def image_iff)
  then show ?thesis
    using dispatch_step.submit [of j i "dc_status c" "\<lparr>ds_ops = map view_op ops, ds_claims = map view_claim claims, ds_sent = sent, ds_hand = hand\<rparr>"]
    by (simp add: view_submit)
qed

lemma settle_simulates:
  assumes "list_all2 (settles_op subject) ops ops'" and "list_all2 settles_claim claims claims'"
  shows "dispatch_step \<lparr>ds_ops = map view_op ops, ds_claims = map view_claim claims, ds_sent = sent, ds_hand = hand\<rparr>
     \<lparr>ds_ops = map view_op ops', ds_claims = map view_claim claims', ds_sent = sent, ds_hand = hand\<rparr>"
  using dispatch_step.settle [of "\<lparr>ds_ops = map view_op ops, ds_claims = map view_claim claims, ds_sent = sent, ds_hand = hand\<rparr>"
      "map view_op ops'" "map view_claim claims'"] view_settles assms by fastforce

lemma approve_simulates:
  assumes "op_id r \<notin> op_id ` set ops" and "op_status r = Op_approved"
  shows "dispatch_step \<lparr>ds_ops = map view_op ops, ds_claims = claims, ds_sent = sent, ds_hand = hand\<rparr>
     \<lparr>ds_ops = map view_op (ops @ [r]), ds_claims = claims, ds_sent = sent, ds_hand = hand\<rparr>"
  using dispatch_step.approve [of "op_id r" "\<lparr>ds_ops = map view_op ops, ds_claims = claims, ds_sent = sent, ds_hand = hand\<rparr>"] assms
  by (simp add: view_op_def image_image)

lemma change_simulates:
  assumes "issuance_change rt verify (ex_db x) s'"
  shows "dispatch_step\<^sup>*\<^sup>* (allocation_view x) (allocation_view (x\<lparr>ex_db := s'\<rparr>))"
    and "dispatch_step\<^sup>*\<^sup>* (deployment_view x) (deployment_view (x\<lparr>ex_db := s'\<rparr>))"
proof -
  show "dispatch_step\<^sup>*\<^sup>* (allocation_view x) (allocation_view (x\<lparr>ex_db := s'\<rparr>))"
    using assms
  proof cases
    case (operation row)
    then show ?thesis
      by (intro r_into_rtranclp) (auto simp: allocation_view_def same_issuance_def admissible_operation_def
          intro: approve_simulates [simplified])
  qed (auto simp: allocation_view_def same_issuance_def)
  show "dispatch_step\<^sup>*\<^sup>* (deployment_view x) (deployment_view (x\<lparr>ex_db := s'\<rparr>))"
    using assms
  proof cases
    case (decide_deployment inp ops)
    then consider "ops = []" | row where "ops = [row]" "op_status row = Op_approved" "op_id row \<notin> op_id ` set (offering_chain_operations (ex_db x))"
      by blast
    then show ?thesis
    proof cases
      case 1
      then show ?thesis using decide_deployment(3) by (simp add: deployment_view_def same_issuance_def)
    next
      case 2
      then show ?thesis using decide_deployment(3) approve_simulates [OF 2(3,2)]
        by (intro r_into_rtranclp) (simp add: deployment_view_def same_issuance_def)
    qed
  qed (auto simp: deployment_view_def same_issuance_def)
qed

lemma command_simulates:
  "dispatch_step\<^sup>*\<^sup>* (allocation_view x) (allocation_view (x\<lparr>ex_db := run_issuance_command rt env verify c (ex_db x)\<rparr>))"
  "dispatch_step\<^sup>*\<^sup>* (deployment_view x) (deployment_view (x\<lparr>ex_db := run_issuance_command rt env verify c (ex_db x)\<rparr>))"
proof -
  have "dispatch_step\<^sup>*\<^sup>* (allocation_view x) (allocation_view (x\<lparr>ex_db := s'\<rparr>))
      \<and> dispatch_step\<^sup>*\<^sup>* (deployment_view x) (deployment_view (x\<lparr>ex_db := s'\<rparr>))"
    if "(issuance_change rt verify)\<^sup>*\<^sup>* (ex_db x) s'" for s'
    using that
  proof (induction rule: rtranclp_induct)
    case (step s1 s2)
    then show ?case using change_simulates [of rt verify "x\<lparr>ex_db := s1\<rparr>" s2] by auto
  qed auto
  from this [OF command_changes]
  show "dispatch_step\<^sup>*\<^sup>* (allocation_view x) (allocation_view (x\<lparr>ex_db := run_issuance_command rt env verify c (ex_db x)\<rparr>))"
    "dispatch_step\<^sup>*\<^sup>* (deployment_view x) (deployment_view (x\<lparr>ex_db := run_issuance_command rt env verify c (ex_db x)\<rparr>))"
    by simp_all
qed

lemma transaction_Inr:
  "withPostgresTransaction d m s = (Inr a, s') \<Longrightarrow> m s = Inr (a, s')"
  by (auto simp: withPostgresTransaction_def split: sum.splits option.splits prod.splits)

text \<open>The steps of one executor leave the tables of the other alone.\<close>

lemma allocation_settled_views:
  assumes "allocation_settled (ex_db x) s'"
  shows "dispatch_step\<^sup>*\<^sup>* (allocation_view x) (allocation_view (x\<lparr>ex_db := s'\<rparr>))"
    and "deployment_view (x\<lparr>ex_db := s'\<rparr>) = deployment_view x"
  using assms unfolding allocation_settled_def
  by (auto simp: allocation_view_def deployment_view_def same_issuance_def intro!: r_into_rtranclp settle_simulates)

lemma deployment_settled_views:
  assumes "deployment_settled (ex_db x) s'"
  shows "dispatch_step\<^sup>*\<^sup>* (deployment_view x) (deployment_view (x\<lparr>ex_db := s'\<rparr>))"
    and "allocation_view (x\<lparr>ex_db := s'\<rparr>) = allocation_view x"
  using assms unfolding deployment_settled_def
  by (auto simp: allocation_view_def deployment_view_def same_issuance_def intro!: r_into_rtranclp settle_simulates)

lemma submitted_cases:
  "committed (allocation_submitted_tx rt p h) s = s \<or>
     same_issuance (update_allocation_claim (claim_is (ad_claimId p) Claim_claimed) (submit_claim (toLowerCase h) (clock s))
       (update_allocation_op (op_is (op_id (ad_operation p)) Op_approved) (submit_op (toLowerCase h) (clock s)) s))
       (committed (allocation_submitted_tx rt p h) s)"
  "committed (mark_submitted_tx rt d h) s = s \<or>
     same_issuance (update_deployment_claim (claim_is (dd_claimId d) Claim_claimed) (submit_claim (toLowerCase h) (clock s))
       (update_deployment_op (op_is (op_id (dd_operation d)) Op_approved) (submit_op (toLowerCase h) (clock s)) s))
       (committed (mark_submitted_tx rt d h) s)"
  by (rule committed_cases; use allocation_submitted_effect deployment_submitted_effect in blast)+

lemma allocation_simulates:
  assumes "executor_step rt env verify x y"
  shows "dispatch_step\<^sup>*\<^sup>* (allocation_view x) (allocation_view y)"
  using assms
proof cases
  case (command c)
  then show ?thesis by (simp add: command_simulates)
next
  case (claim_a w p s')
  note c = allocation_claimed [OF transaction_Inr [OF claim_a(2)]]
  show ?thesis
    using take_simulates [OF c(1-3), of _ _ w "clock (ex_db x)"] c(4) claim_a(1)
    by (intro r_into_rtranclp) (simp add: allocation_view_def same_issuance_def)
next
  case (send_a p)
  then show ?thesis
    using dispatch_step.send [of "op_id (ad_operation p)" "ad_claimId p" "allocation_view x"]
    by (intro r_into_rtranclp) (auto simp: allocation_view_def sent_call_def hand_remove1 image_iff)
next
  case (stop_a p)
  then show ?thesis
    using dispatch_step.stop [of "allocation_view x" "(op_id (ad_operation p), ad_claimId p)"]
    by (intro r_into_rtranclp) (simp add: allocation_view_def hand_remove1)
next
  case (submitted_a p h)
  show ?thesis using submitted_cases(1) [of rt p h "ex_db x"]
  proof
    assume "same_issuance (update_allocation_claim (claim_is (ad_claimId p) Claim_claimed) (submit_claim (toLowerCase h) (clock (ex_db x)))
       (update_allocation_op (op_is (op_id (ad_operation p)) Op_approved) (submit_op (toLowerCase h) (clock (ex_db x))) (ex_db x)))
       (committed (allocation_submitted_tx rt p h) (ex_db x))"
    then show ?thesis using submit_simulates [OF submitted_a(2)] submitted_a(1)
      by (intro r_into_rtranclp) (simp add: allocation_view_def same_issuance_def)
  qed (simp add: submitted_a(1))
next
  case (claim_d w d s')
  show ?thesis using deployment_claimed(6) [OF transaction_Inr [OF claim_d(2)]] claim_d(1)
    by (simp add: allocation_view_def same_issuance_def)
next
  case (submitted_d d h)
  then show ?thesis using submitted_cases(2) [of rt d h "ex_db x"] by (auto simp: allocation_view_def same_issuance_def)
qed (simp_all add: allocation_settled_views deployment_settled_views committed_settled, simp_all add: allocation_view_def sent_call_def)

lemma deployment_simulates:
  assumes "executor_step rt env verify x y"
  shows "dispatch_step\<^sup>*\<^sup>* (deployment_view x) (deployment_view y)"
  using assms
proof cases
  case (command c)
  then show ?thesis by (simp add: command_simulates)
next
  case (claim_d w d s')
  note c = deployment_claimed [OF transaction_Inr [OF claim_d(2)]]
  show ?thesis
    using take_simulates [OF c(1,2,5), of _ _ w "clock (ex_db x)"] c(6) claim_d(1)
    by (intro r_into_rtranclp) (simp add: deployment_view_def same_issuance_def)
next
  case (send_d d)
  then show ?thesis
    using dispatch_step.send [of "op_id (dd_operation d)" "dd_claimId d" "deployment_view x"]
    by (intro r_into_rtranclp) (auto simp: deployment_view_def sent_call_def hand_remove1 image_iff)
next
  case (stop_d d)
  then show ?thesis
    using dispatch_step.stop [of "deployment_view x" "(op_id (dd_operation d), dd_claimId d)"]
    by (intro r_into_rtranclp) (simp add: deployment_view_def hand_remove1)
next
  case (submitted_d d h)
  show ?thesis using submitted_cases(2) [of rt d h "ex_db x"]
  proof
    assume "same_issuance (update_deployment_claim (claim_is (dd_claimId d) Claim_claimed) (submit_claim (toLowerCase h) (clock (ex_db x)))
       (update_deployment_op (op_is (op_id (dd_operation d)) Op_approved) (submit_op (toLowerCase h) (clock (ex_db x))) (ex_db x)))
       (committed (mark_submitted_tx rt d h) (ex_db x))"
    then show ?thesis using submit_simulates [OF submitted_d(2)] submitted_d(1)
      by (intro r_into_rtranclp) (simp add: deployment_view_def same_issuance_def)
  qed (simp add: submitted_d(1))
next
  case (claim_a w p s')
  show ?thesis using allocation_claimed(4) [OF transaction_Inr [OF claim_a(2)]] claim_a(1)
    by (simp add: deployment_view_def same_issuance_def)
next
  case (submitted_a p h)
  then show ?thesis using submitted_cases(1) [of rt p h "ex_db x"] by (auto simp: deployment_view_def same_issuance_def)
qed (simp_all add: allocation_settled_views deployment_settled_views committed_settled, simp_all add: deployment_view_def sent_call_def)

interpretation alloc_dispatch: dispatch_system "executor_step rt env verify" allocation_view
  for rt env verify by unfold_locales (rule allocation_simulates)

interpretation deploy_dispatch: dispatch_system "executor_step rt env verify" deployment_view
  for rt env verify by unfold_locales (rule deployment_simulates)

end
