(* ===== verification/Executor_Safety.thy ===== *)
theory Executor_Safety
  imports Executor_Steps
begin

text \<open>
  What the executors send is backed by what was decided: every call to the chain belongs to one
  operation, every mint to an approved allocation whose wallet was whitelisted before, every
  deployment to a request that carries the cap of approved terms. Together with the protocol
  (no operation is sent twice) the tokens minted under some terms stay within their cap.
\<close>

section \<open>Operations keep their subject\<close>

definition progresses :: "('r operation_row_scheme \<Rightarrow> 'k) \<Rightarrow> 'r operation_row_scheme \<Rightarrow> 'r operation_row_scheme \<Rightarrow> bool" where
  "progresses subject r r' \<longleftrightarrow> op_id r' = op_id r \<and> subject r' = subject r
     \<and> (op_status r = Op_confirmed \<longrightarrow> op_status r' = Op_confirmed)"

lemma settles_progresses: "list_all2 (settles_op subject) ops ops' \<Longrightarrow> list_all2 (progresses subject) ops ops'"
  by (auto simp: settles_op_def progresses_def elim!: list_all2_mono)

lemma submit_progresses:
  assumes "\<And>r. subject (submit_op h now r) = subject r"
  shows "list_all2 (progresses subject) ops (update_where (op_is i Op_approved) (submit_op h now) ops)"
  by (rule list_all2_update_where) (simp_all add: progresses_def assms, simp add: submit_op_def)

lemma progresses_refl: "list_all2 (progresses subject) ops ops"
  by (rule list_all2_refl) (simp add: progresses_def)

lemma progresses_forward:
  assumes "list_all2 (progresses subject) ops ops'" and "r \<in> set ops"
  shows "\<exists>r' \<in> set ops'. progresses subject r r'"
  using assms by (induction rule: list_all2_induct) auto

lemma progresses_backward:
  assumes "list_all2 (progresses subject) ops ops'" and "r' \<in> set ops'"
  shows "\<exists>r \<in> set ops. progresses subject r r'"
  using assms by (induction rule: list_all2_induct) auto

lemma subject_sels:
  fixes r r' :: allocation_operation
  assumes "operation_row.more r' = operation_row.more r"
  shows "ao_allocation_request_id r' = ao_allocation_request_id r" and "ao_token_contract_address r' = ao_token_contract_address r"
    and "ao_wallet_address r' = ao_wallet_address r" and "ao_token_amount r' = ao_token_amount r"
    and "ao_operation_type r' = ao_operation_type r"
  using assms by (cases r; cases r'; simp)+

lemma progresses_keys:
  assumes "list_all2 (progresses operation_row.more) ops ops'"
  shows "map op_id ops' = map op_id ops" and "map operation_key ops' = map operation_key ops"
proof -
  have "operation_key r' = operation_key r" if "progresses operation_row.more r r'" for r r'
    using that subject_sels(1,5) [of r' r] unfolding progresses_def operation_key_def by presburger
  with assms show "map operation_key ops' = map operation_key ops" by (induction rule: list_all2_induct) auto
  from assms show "map op_id ops' = map op_id ops" by (induction rule: list_all2_induct) (auto simp: progresses_def)
qed

lemma operations_ok_progress:
  assumes ok: "operations_ok allocs ops" and p: "list_all2 (progresses operation_row.more) ops ops'"
  shows "operations_ok allocs ops'"
proof -
  have "operation_backed allocs ops' r'" if "r' \<in> set ops'" for r'
  proof -
    obtain r where r: "r \<in> set ops" "progresses operation_row.more r r'" using progresses_backward [OF p \<open>r' \<in> set ops'\<close>] by blast
    then have same: "operation_row.more r' = operation_row.more r" by (simp add: progresses_def)
    have "operation_backed allocs ops r" using ok r by (simp add: operations_ok_def)
    moreover have "\<exists>w' \<in> set ops'. ao_allocation_request_id w' = i \<and> ao_operation_type w' = Whitelist \<and> op_status w' = Op_confirmed
        \<and> ao_token_contract_address w' = contract \<and> ao_wallet_address w' = wallet"
      if w: "w \<in> set ops" "ao_allocation_request_id w = i" "ao_operation_type w = Whitelist" "op_status w = Op_confirmed"
        "ao_token_contract_address w = contract" "ao_wallet_address w = wallet" for w i contract wallet
    proof -
      obtain w' where "w' \<in> set ops'" "progresses operation_row.more w w'" using progresses_forward [OF p w(1)] by blast
      then show ?thesis using w subject_sels [of w' w] by (intro bexI [of _ w']) (auto simp: progresses_def)
    qed
    ultimately show ?thesis unfolding operation_backed_def subject_sels [OF same] by blast
  qed
  then show ?thesis using ok by (simp add: operations_ok_def progresses_keys [OF p])
qed

section \<open>Calls are backed by operations\<close>

definition allocation_calls_ok :: "allocation_operation list \<Rightarrow> allocation_dispatch list \<Rightarrow> chain_call list \<Rightarrow> bool" where
  "allocation_calls_ok ops hand calls \<longleftrightarrow>
     (\<forall>c \<in> set calls. allocation_call_id c = [] \<or> (\<exists>r \<in> set ops. c = allocation_call r))
     \<and> (\<forall>p \<in> set hand. \<exists>r \<in> set ops. allocation_call (ad_operation p) = allocation_call r)"

lemma allocation_call_progress: "progresses operation_row.more r r' \<Longrightarrow> allocation_call r' = allocation_call r"
  using subject_sels [of r' r] unfolding progresses_def allocation_call_def by presburger

lemma allocation_calls_ok_mono:
  assumes ok: "allocation_calls_ok ops hand calls" and keep: "\<And>r. r \<in> set ops \<Longrightarrow> \<exists>r' \<in> set ops'. allocation_call r' = allocation_call r"
    and "set hand' \<subseteq> set hand"
  shows "allocation_calls_ok ops' hand' calls"
proof -
  have "\<exists>r' \<in> set ops'. c = allocation_call r'" if "r \<in> set ops" "c = allocation_call r" for c r
    using keep [OF that(1)] that(2) by metis
  then show ?thesis using ok assms(3) unfolding allocation_calls_ok_def by blast
qed

text \<open>Deployments: what is sent carries the cap of approved terms.\<close>

definition deployments_ok :: "terms_row list \<Rightarrow> deployment_row list \<Rightarrow> bool" where
  "deployments_ok terms requests \<longleftrightarrow> (\<forall>q \<in> set requests. \<exists>t \<in> set terms. dp_issuance_terms_request_id q = Some (rq_id t)
     \<and> rq_status t = Request_approved \<and> rq_offering_id t = rq_offering_id q \<and> dp_max_total_supply q = tr_max_total_supply t)"

definition deployment_call_ok :: "deployment_row list \<Rightarrow> deployment_operation list \<Rightarrow> chain_call \<Rightarrow> bool" where
  "deployment_call_ok requests ops c \<longleftrightarrow> (\<exists>r \<in> set ops. \<exists>q \<in> set requests. rq_id q = do_request_id r
     \<and> c = deployment_call \<lparr>dd_operation = r, dd_request = q, dd_claimId = []\<rparr>)"

definition deployment_calls_ok ::
    "deployment_row list \<Rightarrow> deployment_operation list \<Rightarrow> deployment_dispatch list \<Rightarrow> chain_call list \<Rightarrow> bool" where
  "deployment_calls_ok requests ops hand calls \<longleftrightarrow>
     (\<forall>c \<in> set calls. deployment_call_id c = [] \<or> deployment_call_ok requests ops c)
     \<and> (\<forall>d \<in> set hand. deployment_call_ok requests ops (deployment_call d))"

lemma deployment_calls_ok_mono:
  assumes ok: "deployment_calls_ok requests ops hand calls"
    and keep: "\<And>c. deployment_call_ok requests ops c \<Longrightarrow> deployment_call_ok requests' ops' c" and "set hand' \<subseteq> set hand"
  shows "deployment_calls_ok requests' ops' hand' calls"
  using ok keep assms(3) unfolding deployment_calls_ok_def by (meson subsetD)

lemma deployment_call_ok_progress:
  assumes "deployment_call_ok requests ops c" and p: "list_all2 (progresses deployment_subject) ops ops'"
  shows "deployment_call_ok requests ops' c"
proof -
  obtain r q where r: "r \<in> set ops" and q: "q \<in> set requests" "rq_id q = do_request_id r"
    and c: "c = deployment_call \<lparr>dd_operation = r, dd_request = q, dd_claimId = []\<rparr>"
    using assms(1) unfolding deployment_call_ok_def by blast
  obtain r' where "r' \<in> set ops'" "progresses deployment_subject r r'" using progresses_forward [OF p r] by blast
  then show ?thesis using q c unfolding deployment_call_ok_def
    by (intro bexI [of _ r'] bexI [of _ q]) (auto simp: progresses_def deployment_call_def Let_def)
qed

lemma deployment_call_ok_decide:
  assumes "deployment_call_ok requests ops c"
  shows "deployment_call_ok (decided_rows inp now requests) (ops @ new) c"
proof -
  obtain r q where r: "r \<in> set ops" and q: "q \<in> set requests" "rq_id q = do_request_id r"
    and c: "c = deployment_call \<lparr>dd_operation = r, dd_request = q, dd_claimId = []\<rparr>"
    using assms unfolding deployment_call_ok_def by blast
  let ?q = "if rq_id q = dn_requestId inp then decide_row inp now q else q"
  have "?q \<in> set (decided_rows inp now requests)" using q by (auto simp: set_update_where)
  then show ?thesis using r q c unfolding deployment_call_ok_def
    by (intro bexI [of _ r] bexI [of _ ?q]) (auto simp: deployment_call_def decide_row_def Let_def)
qed

text \<open>Operations exist only for approved requests, approved by somebody other than the submitter.\<close>

definition approved_by_other :: "'r request_row_scheme \<Rightarrow> bool" where
  "approved_by_other q \<longleftrightarrow> rq_status q = Request_approved
     \<and> (\<exists>d. rq_decided_by_identity_id q = Some d \<and> d \<noteq> rq_submitted_by_identity_id q)"

definition deployment_ops_ok :: "deployment_row list \<Rightarrow> deployment_operation list \<Rightarrow> bool" where
  "deployment_ops_ok requests ops \<longleftrightarrow> distinct (map rq_id requests)
     \<and> (\<forall>r \<in> set ops. \<exists>q \<in> set requests. rq_id q = do_request_id r \<and> approved_by_other q)"

lemma deployment_ops_ok_progress:
  assumes "deployment_ops_ok requests ops" and p: "list_all2 (progresses deployment_subject) ops ops'"
  shows "deployment_ops_ok requests ops'"
  using assms(1) progresses_backward [OF p] unfolding deployment_ops_ok_def by (auto simp: progresses_def) metis

lemma approval_by_other:
  assumes "governed_decision inp rows" and "distinct (map rq_id rows)" and "dn_approve inp"
  obtains q where "q \<in> set (decided_rows inp now rows)" and "rq_id q = dn_requestId inp" and "approved_by_other q"
proof -
  obtain r where r: "first_row (\<lambda>r. rq_id r = dn_requestId inp) rows = Some r" "rq_submitted_by_identity_id r \<noteq> dn_decidedByIdentityId inp"
    using assms(1) by (auto simp: governed_decision_def)
  show thesis
    by (rule that [of "decide_row inp now r"])
       (use first_row_Some [OF r(1)] r(2) assms(3) in
         \<open>auto simp: set_update_where approved_by_other_def decide_row_def decision_status_def\<close>)
qed

lemma deployment_ops_ok_decide:
  assumes ok: "deployment_ops_ok requests ops" and g: "governed_decision inp requests"
    and new: "\<And>r. r \<in> set new \<Longrightarrow> dn_approve inp \<and> do_request_id r = dn_requestId inp"
  shows "deployment_ops_ok (decided_rows inp now requests) (ops @ new)"
proof -
  have "\<exists>q \<in> set (decided_rows inp now requests). rq_id q = do_request_id r \<and> approved_by_other q" if "r \<in> set ops" for r
    using ok that approved_stays [OF g] unfolding deployment_ops_ok_def approved_by_other_def by blast
  moreover have "\<exists>q \<in> set (decided_rows inp now requests). rq_id q = do_request_id r \<and> approved_by_other q" if "r \<in> set new" for r
    using approval_by_other [OF g] new [OF that] ok unfolding deployment_ops_ok_def by metis
  ultimately show ?thesis using ok by (auto simp: deployment_ops_ok_def)
qed

section \<open>The invariant\<close>

definition executors_ok :: "executors \<Rightarrow> bool" where
  "executors_ok x \<longleftrightarrow> issuance_ok (ex_db x)
     \<and> deployment_ops_ok (offering_chain_deployment_requests (ex_db x)) (offering_chain_operations (ex_db x))
     \<and> deployments_ok (offering_issuance_term_requests (ex_db x)) (offering_chain_deployment_requests (ex_db x))
     \<and> allocation_calls_ok (investment_allocation_chain_operations (ex_db x)) (ex_allocations x) (chain_calls (ex_db x))
     \<and> deployment_calls_ok (offering_chain_deployment_requests (ex_db x)) (offering_chain_operations (ex_db x))
         (ex_deployments x) (chain_calls (ex_db x))"

lemma deployments_ok_terms:
  assumes "deployments_ok terms requests" and "\<And>t. t \<in> set terms \<Longrightarrow> rq_status t = Request_approved \<Longrightarrow> t \<in> set terms'"
  shows "deployments_ok terms' requests"
  using assms unfolding deployments_ok_def by meson

lemma deployments_ok_decide: "deployments_ok terms requests \<Longrightarrow> deployments_ok terms (decided_rows inp now requests)"
  by (auto simp: deployments_ok_def decide_row_def elim!: decided_source)

lemma change_keeps_deployments:
  assumes "issuance_change rt verify s s'"
    and "deployments_ok (offering_issuance_term_requests s) (offering_chain_deployment_requests s)"
  shows "deployments_ok (offering_issuance_term_requests s') (offering_chain_deployment_requests s')"
  using assms(1)
proof cases
  case (terms row)
  then show ?thesis using deployments_ok_terms [OF assms(2), of "offering_issuance_term_requests s @ [row]"] by (simp add: same_issuance_def)
next
  case (decide_terms inp)
  then show ?thesis using deployments_ok_terms [OF assms(2) approved_stays [OF decide_terms(1)]] by (simp add: same_issuance_def)
next
  case (deployment d)
  then show ?thesis using assms(2) by (auto simp: same_issuance_def deployments_ok_def capped_deployment_def)
next
  case (decide_deployment inp ops)
  then show ?thesis using deployments_ok_decide [OF assms(2)] by (simp add: same_issuance_def)
qed (use assms(2) in \<open>simp_all add: same_issuance_def\<close>)

lemma change_keeps_deployment_ops:
  assumes "issuance_change rt verify s s'"
    and ok: "deployment_ops_ok (offering_chain_deployment_requests s) (offering_chain_operations s)"
  shows "deployment_ops_ok (offering_chain_deployment_requests s') (offering_chain_operations s')"
  using assms(1)
proof cases
  case (deployment d)
  then show ?thesis using ok by (auto simp: same_issuance_def deployment_ops_ok_def fresh_request_def)
next
  case (decide_deployment inp ops)
  then have "dn_approve inp \<and> do_request_id r = dn_requestId inp" if "r \<in> set ops" for r using that by auto
  with deployment_ops_ok_decide [OF ok decide_deployment(1)] show ?thesis using decide_deployment(3) by (simp add: same_issuance_def)
qed (use ok in \<open>simp_all add: same_issuance_def\<close>)

lemma change_keeps_calls:
  assumes "issuance_change rt verify s s'"
  shows "chain_calls s' = chain_calls s"
    and "allocation_calls_ok (investment_allocation_chain_operations s) hand calls
      \<Longrightarrow> allocation_calls_ok (investment_allocation_chain_operations s') hand calls"
    and "deployment_call_ok (offering_chain_deployment_requests s) (offering_chain_operations s) c
      \<Longrightarrow> deployment_call_ok (offering_chain_deployment_requests s') (offering_chain_operations s') c"
proof -
  show "chain_calls s' = chain_calls s" using assms by cases (simp_all add: same_issuance_def)
  have "set (investment_allocation_chain_operations s) \<subseteq> set (investment_allocation_chain_operations s')"
    using assms by cases (auto simp: same_issuance_def)
  then show "allocation_calls_ok (investment_allocation_chain_operations s) hand calls
      \<Longrightarrow> allocation_calls_ok (investment_allocation_chain_operations s') hand calls"
    by (rule_tac allocation_calls_ok_mono) auto
  assume ok: "deployment_call_ok (offering_chain_deployment_requests s) (offering_chain_operations s) c"
  show "deployment_call_ok (offering_chain_deployment_requests s') (offering_chain_operations s') c"
    using assms
  proof cases
    case (deployment d)
    then show ?thesis using ok by (auto simp: same_issuance_def deployment_call_ok_def)
  next
    case (decide_deployment inp ops)
    then show ?thesis using deployment_call_ok_decide [OF ok] by (simp add: same_issuance_def)
  qed (use ok in \<open>simp_all add: same_issuance_def\<close>)
qed

lemma change_keeps_ok:
  assumes "issuance_change rt verify (ex_db x) s'" and ok: "executors_ok x"
  shows "executors_ok (x\<lparr>ex_db := s'\<rparr>)"
proof -
  have "deployment_calls_ok (offering_chain_deployment_requests s') (offering_chain_operations s') (ex_deployments x) (chain_calls (ex_db x))"
    by (rule deployment_calls_ok_mono [OF _ change_keeps_calls(3) [OF assms(1)] order_refl]) (use ok in \<open>simp_all add: executors_ok_def\<close>)
  then show ?thesis
    using ok issuance_change_ok [OF assms(1)] change_keeps_deployments [OF assms(1)] change_keeps_deployment_ops [OF assms(1)]
      change_keeps_calls(2) [OF assms(1)]
    by (simp add: executors_ok_def change_keeps_calls(1) [OF assms(1)])
qed

lemma command_keeps_ok: "executors_ok x \<Longrightarrow> executors_ok (x\<lparr>ex_db := run_issuance_command rt env verify c (ex_db x)\<rparr>)"
proof -
  assume ok: "executors_ok x"
  have "executors_ok (x\<lparr>ex_db := s'\<rparr>)" if "(issuance_change rt verify)\<^sup>*\<^sup>* (ex_db x) s'" for s'
    using that
  proof (induction rule: rtranclp_induct)
    case (step s1 s2)
    then show ?case using change_keeps_ok [of rt verify "x\<lparr>ex_db := s1\<rparr>" s2] by simp
  qed (simp add: ok)
  then show ?thesis using command_changes by blast
qed

lemma allocation_progress_ok:
  assumes ok: "executors_ok x" and p: "list_all2 (progresses operation_row.more) (investment_allocation_chain_operations (ex_db x)) ops"
    and same: "same_issuance ((ex_db x)\<lparr>investment_allocation_chain_operations := ops,
      investment_allocation_chain_dispatch_claims := claims\<rparr>) s'"
  shows "executors_ok (x\<lparr>ex_db := s'\<rparr>)"
proof -
  have "operations_ok (investment_allocation_requests (ex_db x)) ops"
    using ok operations_ok_progress [OF _ p] by (simp add: executors_ok_def issuance_ok_def)
  moreover have "allocation_calls_ok ops (ex_allocations x) (chain_calls (ex_db x))"
    by (rule allocation_calls_ok_mono [OF _ _ order_refl])
       (use ok in \<open>auto simp: executors_ok_def dest!: progresses_forward [OF p] allocation_call_progress\<close>)
  ultimately show ?thesis using ok same by (simp add: executors_ok_def issuance_ok_def same_issuance_def)
qed

lemma deployment_progress_ok:
  assumes ok: "executors_ok x" and p: "list_all2 (progresses deployment_subject) (offering_chain_operations (ex_db x)) ops"
    and same: "same_issuance ((ex_db x)\<lparr>offering_chain_operations := ops, offering_chain_operation_dispatch_claims := claims\<rparr>) s'"
  shows "executors_ok (x\<lparr>ex_db := s'\<rparr>)"
proof -
  have "deployment_calls_ok (offering_chain_deployment_requests (ex_db x)) ops (ex_deployments x) (chain_calls (ex_db x))"
    by (rule deployment_calls_ok_mono [OF _ deployment_call_ok_progress [OF _ p] order_refl]) (use ok in \<open>simp_all add: executors_ok_def\<close>)
  then show ?thesis using ok deployment_ops_ok_progress [OF _ p] same by (simp add: executors_ok_def issuance_ok_def same_issuance_def)
qed

lemma settled_keeps_ok:
  assumes ok: "executors_ok x"
  shows "allocation_settled (ex_db x) s' \<Longrightarrow> executors_ok (x\<lparr>ex_db := s'\<rparr>)"
    and "deployment_settled (ex_db x) s' \<Longrightarrow> executors_ok (x\<lparr>ex_db := s'\<rparr>)"
  unfolding allocation_settled_def deployment_settled_def
  using allocation_progress_ok [OF ok settles_progresses] deployment_progress_ok [OF ok settles_progresses] by blast+

lemma allocation_submit_ok:
  assumes ok: "executors_ok x" and "same_issuance (update_allocation_claim q g (update_allocation_op (op_is i Op_approved) (submit_op h now) (ex_db x))) s'"
  shows "executors_ok (x\<lparr>ex_db := s'\<rparr>)"
proof (rule allocation_progress_ok [OF ok])
  show "list_all2 (progresses operation_row.more) (investment_allocation_chain_operations (ex_db x))
      (update_where (op_is i Op_approved) (submit_op h now) (investment_allocation_chain_operations (ex_db x)))"
    by (rule submit_progresses) (simp add: submit_op_def)
  show "same_issuance ((ex_db x)\<lparr>investment_allocation_chain_operations :=
         update_where (op_is i Op_approved) (submit_op h now) (investment_allocation_chain_operations (ex_db x)),
      investment_allocation_chain_dispatch_claims := update_where q g (investment_allocation_chain_dispatch_claims (ex_db x))\<rparr>) s'"
    using assms(2) by (simp add: same_issuance_def)
qed

lemma deployment_submit_ok:
  assumes ok: "executors_ok x" and "same_issuance (update_deployment_claim q g (update_deployment_op (op_is i Op_approved) (submit_op h now) (ex_db x))) s'"
  shows "executors_ok (x\<lparr>ex_db := s'\<rparr>)"
proof (rule deployment_progress_ok [OF ok])
  show "list_all2 (progresses deployment_subject) (offering_chain_operations (ex_db x))
      (update_where (op_is i Op_approved) (submit_op h now) (offering_chain_operations (ex_db x)))"
    by (rule submit_progresses) (simp add: submit_op_def)
  show "same_issuance ((ex_db x)\<lparr>offering_chain_operations :=
         update_where (op_is i Op_approved) (submit_op h now) (offering_chain_operations (ex_db x)),
      offering_chain_operation_dispatch_claims := update_where q g (offering_chain_operation_dispatch_claims (ex_db x))\<rparr>) s'"
    using assms(2) by (simp add: same_issuance_def)
qed

lemma submitted_keeps_ok:
  assumes ok: "executors_ok x"
  shows "executors_ok (x\<lparr>ex_db := committed (allocation_submitted_tx rt p h) (ex_db x)\<rparr>)"
    and "executors_ok (x\<lparr>ex_db := committed (mark_submitted_tx rt d h) (ex_db x)\<rparr>)"
  using submitted_cases(1) [of rt p h "ex_db x"] submitted_cases(2) [of rt d h "ex_db x"] ok
    allocation_submit_ok [OF ok] deployment_submit_ok [OF ok] by auto

lemma executor_step_ok:
  assumes "executor_step rt env verify x y" and ok: "executors_ok x"
  shows "executors_ok y"
  using assms(1)
proof cases
  case (command c)
  then show ?thesis using command_keeps_ok [OF ok] by simp
next
  case (claim_a w p s')
  note c = allocation_claimed [OF transaction_Inr [OF claim_a(2)]]
  have "executors_ok (x\<lparr>ex_db := s'\<rparr>)" by (rule allocation_progress_ok [OF ok progresses_refl]) (use c(4) in simp)
  then show ?thesis using c claim_a(1) by (auto simp: executors_ok_def allocation_calls_ok_def same_issuance_def)
next
  case (send_a p)
  then show ?thesis using ok set_remove1_subset [of p "ex_allocations x"]
    by (auto simp: executors_ok_def sent_call_def issuance_ok_def allocation_calls_ok_def deployment_calls_ok_def)
next
  case (stop_a p)
  then show ?thesis using ok set_remove1_subset [of p "ex_allocations x"]
    by (auto simp: executors_ok_def allocation_calls_ok_def)
next
  case (claim_d w d s')
  note c = deployment_claimed [OF transaction_Inr [OF claim_d(2)]]
  have "executors_ok (x\<lparr>ex_db := s'\<rparr>)" by (rule deployment_progress_ok [OF ok progresses_refl]) (use c(6) in simp)
  moreover have "deployment_call_ok (offering_chain_deployment_requests (ex_db x)) (offering_chain_operations (ex_db x)) (deployment_call d)"
    using c unfolding deployment_call_ok_def
    by (intro bexI [of _ "dd_operation d"] bexI [of _ "dd_request d"]) (simp_all add: deployment_call_def Let_def)
  ultimately show ?thesis using c(6) claim_d(1) by (auto simp: executors_ok_def deployment_calls_ok_def same_issuance_def)
next
  case (send_d d)
  then show ?thesis using ok set_remove1_subset [of d "ex_deployments x"]
    by (auto simp: executors_ok_def sent_call_def issuance_ok_def allocation_calls_ok_def deployment_calls_ok_def)
next
  case (stop_d d)
  then show ?thesis using ok set_remove1_subset [of d "ex_deployments x"]
    by (auto simp: executors_ok_def deployment_calls_ok_def)
qed (simp_all add: settled_keeps_ok [OF ok] submitted_keeps_ok [OF ok] committed_settled)

lemma executor_run_ok: "(executor_step rt env verify)\<^sup>*\<^sup>* x y \<Longrightarrow> executors_ok x \<Longrightarrow> executors_ok y"
  by (induction rule: rtranclp_induct) (auto intro: executor_step_ok)

section \<open>Order of the calls\<close>

text \<open>An operation past \<open>approved\<close> was sent, and a mint follows the whitelisting of its wallet on
  the same contract.\<close>

definition sent_ok :: "allocation_operation list \<Rightarrow> chain_call list \<Rightarrow> bool" where
  "sent_ok ops calls \<longleftrightarrow> (\<forall>r \<in> set ops. op_status r \<noteq> Op_approved \<longrightarrow> allocation_call r \<in> set calls)"

definition mints_follow :: "chain_call list \<Rightarrow> bool" where
  "mints_follow calls \<longleftrightarrow> (\<forall>us i contract lines vs wallet m a. calls = us @ BatchMint i contract lines # vs \<longrightarrow> (wallet, m, a) \<in> set lines
     \<longrightarrow> (\<exists>j. WhitelistInvestor j contract wallet \<in> set us))"

definition order_ok :: "executors \<Rightarrow> bool" where
  "order_ok x \<longleftrightarrow> sent_ok (investment_allocation_chain_operations (ex_db x)) (chain_calls (ex_db x)) \<and> mints_follow (chain_calls (ex_db x))"

lemma allocation_call_inj:
  "allocation_call r = allocation_call r' \<Longrightarrow> op_id r = op_id r'"
  by (simp add: allocation_call_def split: operationType.splits)

lemma mints_follow_snoc:
  assumes "mints_follow calls"
    and "\<And>i contract lines wallet m a. c = BatchMint i contract lines \<Longrightarrow> (wallet, m, a) \<in> set lines
      \<Longrightarrow> \<exists>j. WhitelistInvestor j contract wallet \<in> set calls"
  shows "mints_follow (calls @ [c])"
  unfolding mints_follow_def
proof (intro allI impI)
  fix us i contract lines vs wallet m a
  assume eq: "calls @ [c] = us @ BatchMint i contract lines # vs" and "(wallet, m, a) \<in> set lines"
  then show "\<exists>j. WhitelistInvestor j contract wallet \<in> set us"
  proof (cases vs rule: rev_cases)
    case Nil
    then show ?thesis using eq assms(2) \<open>(wallet, m, a) \<in> set lines\<close> by auto
  next
    case (snoc ys y)
    then have "calls = us @ BatchMint i contract lines # ys" using eq by simp
    then show ?thesis using assms(1) \<open>(wallet, m, a) \<in> set lines\<close> unfolding mints_follow_def by blast
  qed
qed

lemma sent_ok_progress:
  assumes "sent_ok ops calls" and p: "list_all2 (progresses operation_row.more) ops ops'"
    and "\<And>r r'. r \<in> set ops \<Longrightarrow> r' \<in> set ops' \<Longrightarrow> progresses operation_row.more r r' \<Longrightarrow> op_status r' \<noteq> Op_approved
      \<Longrightarrow> op_status r = Op_approved \<Longrightarrow> allocation_call r \<in> set calls"
  shows "sent_ok ops' calls"
  unfolding sent_ok_def
proof (intro ballI impI)
  fix r' assume r': "r' \<in> set ops'" "op_status r' \<noteq> Op_approved"
  then obtain r where r: "r \<in> set ops" "progresses operation_row.more r r'" using progresses_backward [OF p] by blast
  then have "allocation_call r \<in> set calls" using assms(1) assms(3) [OF r(1) r'(1) r(2) r'(2)] unfolding sent_ok_def by blast
  then show "allocation_call r' \<in> set calls" by (simp add: allocation_call_progress [OF r(2)])
qed

lemma change_keeps_order:
  assumes "issuance_change rt verify (ex_db x) s'" and "order_ok x"
  shows "order_ok (x\<lparr>ex_db := s'\<rparr>)"
  using assms(1) by cases (use assms(2) in \<open>auto simp: order_ok_def sent_ok_def same_issuance_def admissible_operation_def\<close>)

lemma command_keeps_order: "order_ok x \<Longrightarrow> order_ok (x\<lparr>ex_db := run_issuance_command rt env verify c (ex_db x)\<rparr>)"
proof -
  assume ok: "order_ok x"
  have "order_ok (x\<lparr>ex_db := s'\<rparr>)" if "(issuance_change rt verify)\<^sup>*\<^sup>* (ex_db x) s'" for s'
    using that
  proof (induction rule: rtranclp_induct)
    case (step s1 s2)
    then show ?case using change_keeps_order [of rt verify "x\<lparr>ex_db := s1\<rparr>" s2] by simp
  qed (simp add: ok)
  then show ?thesis using command_changes by blast
qed

lemma send_keeps_order:
  assumes ok: "executors_ok x" and order: "order_ok x" and p: "p \<in> set (ex_allocations x)"
  shows "mints_follow (chain_calls (ex_db x) @ [allocation_call (ad_operation p)])"
proof (rule mints_follow_snoc)
  fix i contract lines wallet m a
  assume c: "allocation_call (ad_operation p) = BatchMint i contract lines" and l: "(wallet, m, a) \<in> set lines"
  let ?ops = "investment_allocation_chain_operations (ex_db x)"
  obtain r where r: "r \<in> set ?ops" "allocation_call r = BatchMint i contract lines"
    using ok p c by (auto simp: executors_ok_def allocation_calls_ok_def)
  then have mint: "ao_operation_type r = Mint" "contract = ao_token_contract_address r" "wallet = ao_wallet_address r"
    using l by (auto simp: allocation_call_def split: operationType.splits)
  have "operation_backed (investment_allocation_requests (ex_db x)) ?ops r"
    using ok r by (simp add: executors_ok_def issuance_ok_def operations_ok_def)
  then obtain w where w: "w \<in> set ?ops" "ao_operation_type w = Whitelist" "op_status w = Op_confirmed"
      "ao_token_contract_address w = contract" "ao_wallet_address w = wallet"
    using mint by (auto simp: operation_backed_def)
  then have "allocation_call w \<in> set (chain_calls (ex_db x))" using order by (simp add: order_ok_def sent_ok_def)
  then show "\<exists>j. WhitelistInvestor j contract wallet \<in> set (chain_calls (ex_db x))" using w by (auto simp: allocation_call_def)
qed (use order in \<open>simp add: order_ok_def\<close>)

lemma submit_keeps_sent:
  assumes ok: "executors_ok x" and sent: "allocation_call (ad_operation p) \<in> set (chain_calls (ex_db x))" and order: "order_ok x"
  shows "sent_ok (update_where (op_is (op_id (ad_operation p)) Op_approved) (submit_op h now) (investment_allocation_chain_operations (ex_db x)))
     (chain_calls (ex_db x))"
proof -
  let ?ops = "investment_allocation_chain_operations (ex_db x)"
  obtain r where r: "r \<in> set ?ops" "allocation_call r = allocation_call (ad_operation p)"
    using ok sent by (fastforce simp: executors_ok_def allocation_calls_ok_def)
  have ids: "distinct (map op_id ?ops)" using ok by (simp add: executors_ok_def issuance_ok_def operations_ok_def)
  have eq: "r' = r" if "r' \<in> set ?ops" "op_id r' = op_id (ad_operation p)" for r'
    using distinct_map_key_eq [OF ids that(1) r(1)] that(2) allocation_call_inj [OF r(2)] by simp
  have same: "allocation_call (submit_op h now r) = allocation_call r" for r
    by (cases r) (simp add: allocation_call_def submit_op_def split: operationType.split)
  show ?thesis using order sent r eq unfolding order_ok_def sent_ok_def by (auto simp: set_update_where same)
qed

lemma settled_keeps_order:
  assumes order: "order_ok x"
  shows "allocation_settled (ex_db x) s' \<Longrightarrow> order_ok (x\<lparr>ex_db := s'\<rparr>)"
    and "deployment_settled (ex_db x) s' \<Longrightarrow> order_ok (x\<lparr>ex_db := s'\<rparr>)"
proof -
  have "sent_ok ops (chain_calls (ex_db x))"
    if s: "list_all2 (settles_op operation_row.more) (investment_allocation_chain_operations (ex_db x)) ops" for ops
    unfolding sent_ok_def
  proof (intro ballI impI)
    fix r' assume r': "r' \<in> set ops" "op_status r' \<noteq> Op_approved"
    have "\<exists>r \<in> set (investment_allocation_chain_operations (ex_db x)). settles_op operation_row.more r r'"
      using s r'(1) by (induction rule: list_all2_induct) auto
    then obtain r where r: "r \<in> set (investment_allocation_chain_operations (ex_db x))" "settles_op operation_row.more r r'" by blast
    then have "op_status r \<noteq> Op_approved" "progresses operation_row.more r r'"
      using r'(2) by (auto simp: settles_op_def progresses_def)
    then show "allocation_call r' \<in> set (chain_calls (ex_db x))"
      using order r(1) by (auto simp: order_ok_def sent_ok_def allocation_call_progress)
  qed
  then show "allocation_settled (ex_db x) s' \<Longrightarrow> order_ok (x\<lparr>ex_db := s'\<rparr>)"
    using order by (auto simp: allocation_settled_def order_ok_def same_issuance_def)
  show "deployment_settled (ex_db x) s' \<Longrightarrow> order_ok (x\<lparr>ex_db := s'\<rparr>)"
    using order by (auto simp: deployment_settled_def order_ok_def same_issuance_def)
qed

lemma order_step_ok:
  assumes "executor_step rt env verify x y" and ok: "executors_ok x" and order: "order_ok x"
  shows "order_ok y"
  using assms(1)
proof cases
  case (command c)
  then show ?thesis using command_keeps_order [OF order] by simp
next
  case (claim_a w p s')
  then show ?thesis using allocation_claimed(4) [OF transaction_Inr [OF claim_a(2)]] order by (simp add: order_ok_def same_issuance_def)
next
  case (send_a p)
  then show ?thesis using send_keeps_order [OF ok order] order by (simp add: order_ok_def sent_call_def sent_ok_def)
next
  case (submitted_a p h)
  then show ?thesis using submitted_cases(1) [of rt p h "ex_db x"] submit_keeps_sent [OF ok submitted_a(3) order] order
    by (auto simp: order_ok_def same_issuance_def)
next
  case (claim_d w d s')
  then show ?thesis using deployment_claimed(6) [OF transaction_Inr [OF claim_d(2)]] order by (simp add: order_ok_def same_issuance_def)
next
  case (send_d d)
  have "mints_follow (chain_calls (ex_db x) @ [deployment_call d])"
    by (rule mints_follow_snoc) (use order in \<open>auto simp: order_ok_def deployment_call_def Let_def\<close>)
  then show ?thesis using order send_d by (simp add: order_ok_def sent_call_def sent_ok_def)
next
  case (submitted_d d h)
  then show ?thesis using submitted_cases(2) [of rt d h "ex_db x"] order by (auto simp: order_ok_def same_issuance_def)
qed (simp_all add: settled_keeps_order [OF order] committed_settled, simp_all add: order [unfolded order_ok_def] order_ok_def)

lemma order_run_ok: "(executor_step rt env verify)\<^sup>*\<^sup>* x y \<Longrightarrow> executors_ok x \<Longrightarrow> order_ok x \<Longrightarrow> order_ok y"
  by (induction rule: rtranclp_induct) (auto intro: order_step_ok executor_run_ok)

section \<open>Tokens minted\<close>

fun mint_lines :: "chain_call \<Rightarrow> (string \<times> int \<times> uuid) list" where
  "mint_lines (BatchMint i contract lines) = lines"
| "mint_lines (WhitelistInvestor i contract wallet) = []"
| "mint_lines (DeployToken i offering name token symbol holder retail cap) = []"

definition under_terms :: "uuid \<Rightarrow> allocation_row list \<Rightarrow> uuid \<Rightarrow> bool" where
  "under_terms termsId allocs allocationId \<longleftrightarrow>
     exists_row (\<lambda>a. rq_id a = allocationId \<and> al_issuance_terms_request_id a = termsId) allocs"

text \<open>The tokens the mint calls create under some terms.\<close>

definition minted :: "uuid \<Rightarrow> 'z chain_db_scheme \<Rightarrow> int" where
  "minted termsId s = sum_list (map (\<lambda>l. fst (snd l)) (filter (\<lambda>l. under_terms termsId (investment_allocation_requests s) (snd (snd l)))
     (concat (map mint_lines (chain_calls s)))))"

lemma sum_injected:
  fixes v :: "'a \<Rightarrow> int" and v' :: "'b \<Rightarrow> int"
  assumes xs: "distinct (map k xs)" and ys: "distinct ys"
    and image: "\<And>x. x \<in> set xs \<Longrightarrow> \<exists>y \<in> set ys. k' y = k x \<and> v' y = v x" and pos: "\<And>y. y \<in> set ys \<Longrightarrow> 0 \<le> v' y"
  shows "sum_list (map v xs) \<le> sum_list (map v' ys)"
proof -
  from image obtain g where g: "\<And>x. x \<in> set xs \<Longrightarrow> g x \<in> set ys \<and> k' (g x) = k x \<and> v' (g x) = v x" by metis
  have inj: "inj_on g (set xs)" using xs g by (metis distinct_map inj_on_def)
  have "sum_list (map v xs) = sum v (set xs)" using xs by (simp add: distinct_map sum_list_distinct_conv_sum_set)
  also have "\<dots> = sum v' (g ` set xs)" using g inj by (simp add: sum.reindex)
  also have "\<dots> \<le> sum v' (set ys)" by (rule sum_mono2) (use g pos in auto)
  also have "\<dots> = sum_list (map v' ys)" using ys by (simp add: sum_list_distinct_conv_sum_set)
  finally show ?thesis .
qed

text \<open>The mint calls in order, each by its operation.\<close>

lemma calls_are_operations:
  assumes "\<forall>c \<in> set calls. allocation_call_id c = [] \<or> (\<exists>r \<in> set ops. c = allocation_call r)"
  obtains rs where "set rs \<subseteq> set ops" and "concat (map allocation_call_id calls) = map op_id rs"
    and "concat (map mint_lines calls) = map (\<lambda>r. (ao_wallet_address r, ao_token_amount r, ao_allocation_request_id r))
          (filter (\<lambda>r. ao_operation_type r = Mint) rs)"
  using assms
proof (induction calls arbitrary: thesis)
  case (Cons c calls)
  obtain rs where rs: "set rs \<subseteq> set ops" "concat (map allocation_call_id calls) = map op_id rs"
    "concat (map mint_lines calls) = map (\<lambda>r. (ao_wallet_address r, ao_token_amount r, ao_allocation_request_id r))
          (filter (\<lambda>r. ao_operation_type r = Mint) rs)"
    using Cons.IH Cons.prems(2) by auto
  from Cons.prems(2) consider "allocation_call_id c = []" | r where "r \<in> set ops" "c = allocation_call r" by auto
  then show ?case
  proof cases
    case 1
    then have "mint_lines c = []" by (cases c) auto
    then show ?thesis using rs 1 by (intro Cons.prems(1) [of rs]) auto
  next
    case 2
    then show ?thesis using rs
      by (intro Cons.prems(1) [of "r # rs"]) (auto simp: allocation_call_def split: operationType.split)
  qed
qed simp

lemma minted_within_allocated:
  assumes ok: "executors_ok x" and once: "distinct (concat (map allocation_call_id (chain_calls (ex_db x))))"
  shows "minted termsId (ex_db x) \<le> allocated termsId (investment_allocation_requests (ex_db x))"
proof -
  let ?ops = "investment_allocation_chain_operations (ex_db x)" and ?allocs = "investment_allocation_requests (ex_db x)"
  obtain rs where rs: "set rs \<subseteq> set ?ops" "concat (map allocation_call_id (chain_calls (ex_db x))) = map op_id rs"
    "concat (map mint_lines (chain_calls (ex_db x))) = map (\<lambda>r. (ao_wallet_address r, ao_token_amount r, ao_allocation_request_id r))
          (filter (\<lambda>r. ao_operation_type r = Mint) rs)"
    using ok calls_are_operations [of "chain_calls (ex_db x)" ?ops] by (auto simp: executors_ok_def allocation_calls_ok_def)
  define ms where "ms = filter (\<lambda>r. ao_operation_type r = Mint \<and> under_terms termsId ?allocs (ao_allocation_request_id r)) rs"
  let ?p = "\<lambda>a. al_issuance_terms_request_id a = termsId \<and> active_request a"
  have parts: "operations_ok ?allocs ?ops" "distinct (map rq_id ?allocs)" "\<And>a. a \<in> set ?allocs \<Longrightarrow> 0 < al_token_amount a"
    using ok by (auto simp: executors_ok_def issuance_ok_def allocations_ok_def backed_allocation_def)
  have "minted termsId (ex_db x) = sum_list (map ao_token_amount ms)"
    by (simp add: minted_def rs(3) ms_def filter_map o_def filter_filter conj_commute)
  also have "\<dots> \<le> sum_list (map al_token_amount (filter ?p ?allocs))"
  proof (rule sum_injected [where k = ao_allocation_request_id and k' = rq_id])
    have ids: "distinct (map op_id rs)" using once rs(2) by simp
    have "inj_on ao_allocation_request_id (set ms)"
    proof (rule inj_onI)
      fix r r' assume r: "r \<in> set ms" "r' \<in> set ms" "ao_allocation_request_id r = ao_allocation_request_id r'"
      then have "operation_key r = operation_key r'" "r \<in> set ?ops" "r' \<in> set ?ops" using rs(1) by (auto simp: ms_def operation_key_def)
      then show "r = r'" using parts(1) by (auto simp: operations_ok_def distinct_map dest: inj_onD)
    qed
    then show "distinct (map ao_allocation_request_id ms)" using ids by (simp add: distinct_map ms_def distinct_filter)
    show "distinct (filter ?p ?allocs)" using parts(2) by (simp add: distinct_map)
    show "0 \<le> al_token_amount a" if "a \<in> set (filter ?p ?allocs)" for a using parts(3) that by (simp add: less_imp_le)
    fix r assume r: "r \<in> set ms"
    then have "operation_backed ?allocs ?ops r" using parts(1) rs(1) by (auto simp: operations_ok_def ms_def)
    then obtain a where a: "a \<in> set ?allocs" "rq_id a = ao_allocation_request_id r" "rq_status a = Request_approved"
      "ao_token_amount r = al_token_amount a" by (auto simp: operation_backed_def)
    obtain b where b: "b \<in> set ?allocs" "rq_id b = ao_allocation_request_id r" "al_issuance_terms_request_id b = termsId"
      using r by (auto simp: ms_def under_terms_def exists_row_def)
    have "b = a" using distinct_map_key_eq [OF parts(2) b(1) a(1)] a(2) b(2) by simp
    then show "\<exists>a \<in> set (filter ?p ?allocs). rq_id a = ao_allocation_request_id r \<and> al_token_amount a = ao_token_amount r"
      using a b by (intro bexI [of _ a]) (auto simp: active_request_def)
  qed
  finally show ?thesis by (simp add: allocated_def sum_rows_def)
qed

end
