(* ===== verification/Executor_Runs.thy ===== *)
theory Executor_Runs
  imports Executor_Safety
begin

text \<open>
  The executors as the code composes them are runs of the steps of \<open>Executor_Steps\<close>, whatever the
  chain answers: what holds of every run holds of every call of \<open>dispatchAllocationChainOperations\<close>
  and \<open>dispatchOfferingChainDeployments\<close>.
\<close>

abbreviation executor_run :: "runtime \<Rightarrow> env_config \<Rightarrow> verifier \<Rightarrow> executors \<Rightarrow> executors \<Rightarrow> bool" where
  "executor_run rt env verify \<equiv> (executor_step rt env verify)\<^sup>*\<^sup>*"

lemma run_step: "executor_run rt env verify x y \<Longrightarrow> executor_step rt env verify y z \<Longrightarrow> executor_run rt env verify x z"
  by (rule rtranclp.rtrancl_into_rtrancl)

lemma transaction_Inl: "withPostgresTransaction d m s = (Inl e, s') \<Longrightarrow> s' = s"
  by (auto simp: withPostgresTransaction_def split: sum.splits option.splits prod.splits)

lemma claim_none:
  "claim_allocation rt w s = Inr (None, s') \<Longrightarrow> s' = s"
  "claimApprovedDeployment rt w s = Inr (None, s') \<Longrightarrow> s' = s"
  unfolding claim_allocation_def claimApprovedDeployment_def by (auto simp: tx_Inr elim!: tx_elims split: list.splits)

lemma run_fold:
  assumes "\<And>a y. executor_run rt env verify y (y\<lparr>ex_db := f a (ex_db y)\<rparr>)"
  shows "executor_run rt env verify x (x\<lparr>ex_db := fold f as (ex_db x)\<rparr>)"
proof (induction as arbitrary: x)
  case (Cons a as)
  from Cons.IH [of "x\<lparr>ex_db := f a (ex_db x)\<rparr>"] assms [of x a] show ?case by simp
qed simp

lemma run_on: "executor_run rt env verify x (x\<lparr>ex_db := s\<rparr>) \<Longrightarrow> executor_run rt env verify (x\<lparr>ex_db := s\<rparr>) (x\<lparr>ex_db := s\<rparr>\<lparr>ex_db := s'\<rparr>)
    \<Longrightarrow> executor_run rt env verify x (x\<lparr>ex_db := s'\<rparr>)"
  by simp

section \<open>Mints that are due\<close>

text \<open>The code calls \<open>releaseMintOperation\<close> in one place: after it has confirmed a whitelisting, in a
  transaction of its own. Beside the executors a run here keeps the whitelist operations whose
  confirmation is committed and whose release a process is still about to call; a process that
  stops takes the release it owes with it. The steps that leave the allocation operations alone are
  those of \<open>executor_step\<close>.\<close>

inductive mint_step :: "runtime \<Rightarrow> env_config \<Rightarrow> verifier \<Rightarrow> executors \<times> uuid list \<Rightarrow> executors \<times> uuid list \<Rightarrow> bool" for rt env verify where
  elsewhere: "executor_step rt env verify x y
    \<Longrightarrow> investment_allocation_chain_operations (ex_db y) = investment_allocation_chain_operations (ex_db x)
    \<Longrightarrow> mint_step rt env verify (x, due) (y, due)"
| materialized: "mint_step rt env verify (x, due) (x\<lparr>ex_db := snd (materializeAllocationChainOperations rt limit (ex_db x))\<rparr>, due)"
| submitted: "claim_of (ad_claimId p) (op_id (ad_operation p)) (investment_allocation_chain_dispatch_claims (ex_db x))
    \<Longrightarrow> allocation_call (ad_operation p) \<in> set (chain_calls (ex_db x))
    \<Longrightarrow> mint_step rt env verify (x, due) (x\<lparr>ex_db := committed (allocation_submitted_tx rt p h) (ex_db x)\<rparr>, due)"
| failed: "mint_step rt env verify (x, due) (x\<lparr>ex_db := committed (allocation_failed_tx rt p h e) (ex_db x)\<rparr>, due)"
| confirmed: "withPostgresTransaction deferred_constraints (allocation_confirmed_tx rt p h n) (ex_db x) = (Inr u, s')
    \<Longrightarrow> mint_step rt env verify (x, due) (x\<lparr>ex_db := s'\<rparr>,
          if ao_operation_type (ad_operation p) = Whitelist then op_id (ad_operation p) # due else due)"
| released: "i \<in> set due \<Longrightarrow> mint_step rt env verify (x, due) (x\<lparr>ex_db := snd (releaseMintOperation rt i (ex_db x))\<rparr>, remove1 i due)"
| stopped: "mint_step rt env verify (x, due) (x, remove1 i due)"

abbreviation mint_run :: "runtime \<Rightarrow> env_config \<Rightarrow> verifier \<Rightarrow> uuid list \<Rightarrow> executors \<Rightarrow> executors \<Rightarrow> bool" where
  "mint_run rt env verify due x y \<equiv> (mint_step rt env verify)\<^sup>*\<^sup>* (x, due) (y, due)"

lemma mint_step_executors:
  assumes "mint_step rt env verify a b"
  shows "executor_run rt env verify (fst a) (fst b)"
  using assms
proof cases
  case (materialized x due limit)
  then show ?thesis using command [of rt env verify x "Materialize limit"] by auto
next
  case (submitted p x due h)
  then show ?thesis using submitted_a by auto
next
  case (failed x due p h e)
  then show ?thesis using failed_a by auto
next
  case (confirmed p h n x u s' due)
  then show ?thesis using confirmed_a [of rt env verify x p h n] by (auto simp: committed_def)
next
  case (released i due x)
  then show ?thesis using command [of rt env verify x "ReleaseMint i"] by auto
qed auto

lemma mint_run_executors: "(mint_step rt env verify)\<^sup>*\<^sup>* a b \<Longrightarrow> executor_run rt env verify (fst a) (fst b)"
  by (induction rule: rtranclp_induct) (auto dest: mint_step_executors)

lemma mint_on: "mint_run rt env verify due x (x\<lparr>ex_db := s\<rparr>) \<Longrightarrow> mint_run rt env verify due (x\<lparr>ex_db := s\<rparr>) (x\<lparr>ex_db := s\<rparr>\<lparr>ex_db := s'\<rparr>)
    \<Longrightarrow> mint_run rt env verify due x (x\<lparr>ex_db := s'\<rparr>)"
  by simp

lemma mint_fold:
  assumes "\<And>a y. mint_run rt env verify due y (y\<lparr>ex_db := f a (ex_db y)\<rparr>)"
  shows "mint_run rt env verify due x (x\<lparr>ex_db := fold f as (ex_db x)\<rparr>)"
proof (induction as arbitrary: x)
  case (Cons a as)
  from Cons.IH [of "x\<lparr>ex_db := f a (ex_db x)\<rparr>"] assms [of x a] show ?case by simp
qed simp

section \<open>Allocations\<close>

lemma mint_confirmed: "mint_run rt env verify due x (x\<lparr>ex_db := snd (allocation_confirmed rt p h n (ex_db x))\<rparr>)"
proof -
  obtain r s1 where r: "withPostgresTransaction deferred_constraints (allocation_confirmed_tx rt p h n) (ex_db x) = (r, s1)" by fastforce
  let ?o = "op_id (ad_operation p)"
  show ?thesis
  proof (cases r)
    case (Inl e)
    then show ?thesis using transaction_Inl [OF r [unfolded Inl]] by (simp add: allocation_confirmed_def r)
  next
    case (Inr u)
    note step = mint_step.confirmed [OF r [unfolded Inr], of env verify due]
    show ?thesis
    proof (cases "ao_operation_type (ad_operation p) = Whitelist")
      case True
      have "mint_step rt env verify (x\<lparr>ex_db := s1\<rparr>, ?o # due) (x\<lparr>ex_db := snd (releaseMintOperation rt ?o s1)\<rparr>, due)"
        using mint_step.released [of ?o "?o # due" rt env verify "x\<lparr>ex_db := s1\<rparr>"] by simp
      with step True show ?thesis by (auto simp: allocation_confirmed_def r Inr split: prod.split sum.split)
    next
      case False
      then show ?thesis using step by (auto simp: allocation_confirmed_def r Inr)
    qed
  qed
qed

lemma mint_reconcile_allocation: "mint_run rt env verify due x (x\<lparr>ex_db := reconcile_allocation rt cenv chain r (ex_db x)\<rparr>)"
proof -
  have "mint_run rt env verify due x (x\<lparr>ex_db := snd (withPostgresTransaction deferred_constraints (allocation_failed_tx rt p h e) (ex_db x))\<rparr>)"
    for p h e using mint_step.failed [of rt env verify x due p h e] by (simp add: committed_def r_into_rtranclp)
  then show ?thesis using mint_confirmed [of rt env verify x due]
    by (auto simp: reconcile_allocation_def Let_def split: sum.splits if_splits)
qed

lemma mint_reconcile_allocations: "mint_run rt env verify due x (x\<lparr>ex_db := reconcile_allocations rt cenv chain (ex_db x)\<rparr>)"
  unfolding reconcile_allocations_def by (rule mint_fold) (rule mint_reconcile_allocation)

lemma uncertain_operations:
  "investment_allocation_chain_operations (committed (allocation_uncertain_tx rt p e) s) = investment_allocation_chain_operations s"
  by (rule committed_cases)
     (auto simp: allocation_uncertain_tx_def audit_allocation_def tx_Inr update_count_Inr same_issuance_def elim!: tx_elims dest!: emit_same)

lemma mint_uncertain_allocation:
  "mint_run rt env verify due x (x\<lparr>ex_db := snd (withPostgresTransaction deferred_constraints (allocation_uncertain_tx rt p e) (ex_db x))\<rparr>)"
  using elsewhere [OF uncertain_a [of rt env verify x p e], of due] uncertain_operations [of rt p e "ex_db x"]
  by (simp add: committed_def r_into_rtranclp)

text \<open>Once the claim is there: the dispatch leaves the hand by being sent or by giving up.\<close>

lemma send_allocation_cases:
  "(\<exists>e. send_allocation cenv chain r s = (Inl e, s)) \<or> snd (send_allocation cenv chain r s) = sent_call (allocation_call r) s"
  by (auto simp: send_allocation_def sent_call_def split: sum.splits)

lemma mint_submit_allocation:
  assumes linked: "claim_of (ad_claimId p) (op_id (ad_operation p)) (investment_allocation_chain_dispatch_claims (ex_db x))"
    and sent: "allocation_call (ad_operation p) \<in> set (chain_calls (ex_db x))"
  shows "mint_run rt env verify due x (x\<lparr>ex_db :=
     (case withPostgresTransaction deferred_constraints (allocation_submitted_tx rt p h) (ex_db x) of
        (Inl e, s3) \<Rightarrow> snd (withPostgresTransaction deferred_constraints (allocation_uncertain_tx rt p e) s3)
      | (Inr u, s3) \<Rightarrow> reconcile_allocations rt cenv chain s3)\<rparr>)"
proof -
  obtain r s3 where r: "withPostgresTransaction deferred_constraints (allocation_submitted_tx rt p h) (ex_db x) = (r, s3)" by fastforce
  have one: "mint_run rt env verify due x (x\<lparr>ex_db := s3\<rparr>)"
    using mint_step.submitted [OF linked sent, of rt env verify due h] by (auto simp: committed_def r)
  show ?thesis
    using mint_on [OF one mint_uncertain_allocation] mint_on [OF one mint_reconcile_allocations] by (simp add: r split: sum.split)
qed

lemma mint_dispatch_one_allocation:
  "mint_run rt env verify due x (x\<lparr>ex_db := snd (dispatch_one_allocation rt cenv chain w (ex_db x))\<rparr>)"
proof -
  obtain res s1 where claim: "withPostgresTransaction deferred_constraints (claim_allocation rt w) (ex_db x) = (res, s1)" by fastforce
  consider (refused) e where "res = Inl e" | (empty) "res = Inr None" | (taken) p where "res = Inr (Some p)"
    by (metis old.sum.exhaust option.exhaust)
  then show ?thesis
  proof cases
    case refused
    then show ?thesis using transaction_Inl [OF claim [unfolded refused]] claim by (simp add: dispatch_one_allocation_def)
  next
    case empty
    then show ?thesis using claim_none(1) [OF transaction_Inr [OF claim [unfolded empty]]] claim by (simp add: dispatch_one_allocation_def)
  next
    case (taken p)
    note claim = claim [unfolded taken] and effect = allocation_claimed(4) [OF transaction_Inr [OF claim [unfolded taken]]]
    let ?x1 = "x\<lparr>ex_db := s1, ex_allocations := p # ex_allocations x\<rparr>" and ?s2 = "sent_call (allocation_call (ad_operation p)) s1"
    have claimed: "mint_run rt env verify due x ?x1"
      using elsewhere [OF claim_a [OF claim]] effect by (simp add: same_issuance_def r_into_rtranclp)
    obtain r s2 where send: "send_allocation cenv chain (ad_operation p) s1 = (r, s2)" by fastforce
    from send_allocation_cases [of cenv chain "ad_operation p" s1]
    consider e where "r = Inl e" "s2 = s1" | "s2 = ?s2" by (auto simp: send)
    then show ?thesis
    proof cases
      case (1 e)
      have "mint_run rt env verify due x (x\<lparr>ex_db := s1\<rparr>)"
        using rtranclp.rtrancl_into_rtrancl [OF claimed elsewhere [OF stop_a [of p]]] by simp
      from mint_on [OF this mint_uncertain_allocation] show ?thesis by (simp add: dispatch_one_allocation_def claim send 1)
    next
      case 2
      have sent: "mint_run rt env verify due x (x\<lparr>ex_db := s2\<rparr>)"
        using rtranclp.rtrancl_into_rtrancl [OF claimed elsewhere [OF send_a [of p]]] by (simp add: 2 sent_call_def)
      have linked: "claim_of (ad_claimId p) (op_id (ad_operation p)) (investment_allocation_chain_dispatch_claims s2)"
        using effect by (auto simp: 2 claim_of_def sent_call_def same_issuance_def new_claim_def)
      show ?thesis
      proof (cases r)
        case (Inl e)
        from mint_on [OF sent mint_uncertain_allocation] show ?thesis by (simp add: dispatch_one_allocation_def claim send Inl)
      next
        case (Inr h)
        have "snd (dispatch_one_allocation rt cenv chain w (ex_db x)) =
          (case withPostgresTransaction deferred_constraints (allocation_submitted_tx rt p h) s2 of
             (Inl e, s3) \<Rightarrow> snd (withPostgresTransaction deferred_constraints (allocation_uncertain_tx rt p e) s3)
           | (Inr u, s3) \<Rightarrow> reconcile_allocations rt cenv chain s3)"
          by (simp add: dispatch_one_allocation_def claim send Inr split: prod.split sum.split)
        then show ?thesis
          using mint_on [OF sent mint_submit_allocation [of p "x\<lparr>ex_db := s2\<rparr>"]] linked by (simp add: 2 sent_call_def)
      qed
    qed
  qed
qed

lemma mint_allocation_loop:
  "mint_run rt env verify due x (x\<lparr>ex_db := snd (dispatch_allocation_loop rt cenv chain w n k (ex_db x))\<rparr>)"
proof (induction n arbitrary: k x)
  case (Suc n)
  obtain r s1 where one: "dispatch_one_allocation rt cenv chain w (ex_db x) = (r, s1)" by fastforce
  have step: "mint_run rt env verify due x (x\<lparr>ex_db := s1\<rparr>)"
    using mint_dispatch_one_allocation [of rt env verify x due cenv chain w] by (simp add: one)
  from mint_on [OF this Suc.IH] show ?case using step by (simp add: one split: sum.split)
qed simp

text \<open>A call of the allocation executor pays every release it owes, and is a run of the executors.\<close>

lemma mint_dispatch_allocations:
  "mint_run rt env verify due x (x\<lparr>ex_db := snd (dispatchAllocationChainOperations rt cenv chain w (ex_db x))\<rparr>)"
proof -
  obtain r s1 where one: "materializeAllocationChainOperations rt (ALLOCATION_CHAIN_DISPATCH_BATCH_SIZE cenv) (ex_db x) = (r, s1)" by fastforce
  have step: "mint_run rt env verify due x (x\<lparr>ex_db := s1\<rparr>)"
    using materialized [of rt env verify x due "ALLOCATION_CHAIN_DISPATCH_BATCH_SIZE cenv"] by (simp add: one r_into_rtranclp)
  from mint_on [OF mint_on [OF this mint_reconcile_allocations] mint_allocation_loop] show ?thesis
    using step by (simp add: dispatchAllocationChainOperations_def one split: sum.split)
qed

lemma run_dispatch_allocations:
  "executor_run rt env verify x (x\<lparr>ex_db := snd (dispatchAllocationChainOperations rt cenv chain w (ex_db x))\<rparr>)"
  using mint_run_executors [OF mint_dispatch_allocations] by simp

section \<open>Deployments\<close>

lemma run_uncertain_deployment:
  "executor_run rt env verify x (x\<lparr>ex_db := snd (withPostgresTransaction deferred_constraints (mark_uncertain_tx rt d e) (ex_db x))\<rparr>)"
  using uncertain_d [of rt env verify x d e] by (simp add: committed_def)

lemma run_reconcile_deployment: "executor_run rt env verify x (x\<lparr>ex_db := reconcile_deployment rt cenv chain d (ex_db x)\<rparr>)"
proof -
  have failed: "executor_run rt env verify x (x\<lparr>ex_db := snd (withPostgresTransaction deferred_constraints (markFailed rt d e) (ex_db x))\<rparr>)" for e
    using run_uncertain_deployment failed_d [of rt env verify x d _ e]
    by (auto simp: markFailed_def committed_def split: option.split)
  have confirmed: "executor_run rt env verify x (x\<lparr>ex_db := snd (withPostgresTransaction deferred_constraints
      (mark_confirmed_tx rt d h n contract) (ex_db x))\<rparr>)" for h n contract
    using confirmed_d [of rt env verify x d h n contract] by (simp add: committed_def)
  show ?thesis using failed confirmed by (auto simp: reconcile_deployment_def Let_def split: sum.splits if_splits)
qed

lemma run_reconcile_deployments:
  "executor_run rt env verify x (x\<lparr>ex_db := snd (reconcileSubmittedDeployments rt cenv chain (ex_db x))\<rparr>)"
  unfolding reconcileSubmittedDeployments_def Let_def snd_conv by (rule run_fold) (rule run_reconcile_deployment)

text \<open>The factory call leaves the state as it is or adds the call.\<close>

lemma factory_call_cases:
  "(\<exists>e. send_factory_call chain d s = (Inl e, s)) \<or> snd (send_factory_call chain d s) = sent_call (deployment_call d) s"
  by (auto simp: send_factory_call_def sent_call_def split: sum.splits)

lemma factory_call_answer: "fst (send_factory_call chain d s) \<noteq> Inr None"
  by (auto simp: send_factory_call_def split: sum.splits)

lemma send_deployment_cases:
  assumes "send_deployment rt cenv chain d s = (r, s2)"
  obtains (gave_up) e where "r = Inl e" "s2 = s"
  | (recorded) "r = Inr None" "s2 = committed (mark_uncertain_tx rt d
      (GenericError ''Factory already has a deployment record; transaction evidence must be reconciled manually'')) s"
  | (sent) "s2 = sent_call (deployment_call d) s" "r \<noteq> Inr None"
proof -
  have call: thesis if "send_factory_call chain d s = (r, s2)"
    using factory_call_cases [of chain d s] factory_call_answer [of chain d s] that gave_up sent by auto
  show thesis
  proof (cases "assertConfiguredTarget cenv d")
    case (Inr u)
    show thesis
    proof (cases "cs_deployed chain (clock s) (chain_calls s) (op_offering_id (dd_operation d))")
      case (Inl e)
      then show thesis using assms Inr call gave_up by (auto simp: send_deployment_def split: if_splits)
    next
      case deployed: (Inr contract)
      let ?m = "mark_uncertain_tx rt d (GenericError ''Factory already has a deployment record; transaction evidence must be reconciled manually'')"
      obtain r1 s1 where m: "withPostgresTransaction deferred_constraints ?m s = (r1, s1)" by fastforce
      then show thesis
        using assms Inr deployed call gave_up recorded transaction_Inl [of deferred_constraints ?m s _ s1]
        by (cases r1) (auto simp: send_deployment_def committed_def split: if_splits)
    qed
  qed (use assms gave_up in \<open>auto simp: send_deployment_def\<close>)
qed

lemma run_submit_deployment:
  assumes linked: "claim_of (dd_claimId d) (op_id (dd_operation d)) (offering_chain_operation_dispatch_claims (ex_db x))"
    and sent: "deployment_call d \<in> set (chain_calls (ex_db x))"
  shows "executor_run rt env verify x (x\<lparr>ex_db :=
     (case withPostgresTransaction deferred_constraints (mark_submitted_tx rt d h) (ex_db x) of
        (Inl e, s3) \<Rightarrow> snd (withPostgresTransaction deferred_constraints (mark_uncertain_tx rt d e) s3)
      | (Inr u, s3) \<Rightarrow> snd (reconcileSubmittedDeployments rt cenv chain s3))\<rparr>)"
proof -
  obtain r s3 where r: "withPostgresTransaction deferred_constraints (mark_submitted_tx rt d h) (ex_db x) = (r, s3)" by fastforce
  have one: "executor_run rt env verify x (x\<lparr>ex_db := s3\<rparr>)"
    using submitted_d [OF linked sent, of rt env verify h] by (auto simp: committed_def r)
  show ?thesis
    using run_on [OF one run_uncertain_deployment] run_on [OF one run_reconcile_deployments] by (simp add: r split: sum.split)
qed

lemma run_dispatch_one_deployment:
  "executor_run rt env verify x (x\<lparr>ex_db := snd (dispatchOneApprovedDeployment rt cenv chain w (ex_db x))\<rparr>)"
proof -
  obtain res s1 where claim: "withPostgresTransaction deferred_constraints (claimApprovedDeployment rt w) (ex_db x) = (res, s1)" by fastforce
  consider (refused) e where "res = Inl e" | (empty) "res = Inr None" | (taken) d where "res = Inr (Some d)"
    by (metis old.sum.exhaust option.exhaust)
  then show ?thesis
  proof cases
    case refused
    then show ?thesis using transaction_Inl [OF claim [unfolded refused]] claim by (simp add: dispatchOneApprovedDeployment_def)
  next
    case empty
    then show ?thesis using claim_none(2) [OF transaction_Inr [OF claim [unfolded empty]]] claim by (simp add: dispatchOneApprovedDeployment_def)
  next
    case (taken d)
    note claim = claim [unfolded taken]
    have claimed: "executor_run rt env verify x (x\<lparr>ex_db := s1, ex_deployments := d # ex_deployments x\<rparr>)" using claim_d [OF claim] by blast
    have stopped: "executor_run rt env verify x (x\<lparr>ex_db := s1\<rparr>)" using run_step [OF claimed stop_d [of d]] by simp
    obtain r s2 where send: "send_deployment rt cenv chain d s1 = (r, s2)" by fastforce
    then show ?thesis
    proof (cases rule: send_deployment_cases)
      case (gave_up e)
      from run_on [OF stopped run_uncertain_deployment] show ?thesis by (simp add: dispatchOneApprovedDeployment_def claim send gave_up)
    next
      case recorded
      from run_on [OF stopped run_uncertain_deployment] show ?thesis
        by (simp add: dispatchOneApprovedDeployment_def claim send recorded committed_def)
    next
      case sent
      have run: "executor_run rt env verify x (x\<lparr>ex_db := s2\<rparr>)" using run_step [OF claimed send_d [of d]] by (simp add: sent)
      have linked: "claim_of (dd_claimId d) (op_id (dd_operation d)) (offering_chain_operation_dispatch_claims s2)"
        using deployment_claimed(6) [OF transaction_Inr [OF claim]] by (auto simp: sent claim_of_def sent_call_def same_issuance_def new_claim_def)
      from \<open>r \<noteq> Inr None\<close> consider e where "r = Inl e" | h where "r = Inr (Some h)" by (metis old.sum.exhaust option.exhaust)
      then show ?thesis
      proof cases
        case (1 e)
        from run_on [OF run run_uncertain_deployment] show ?thesis by (simp add: dispatchOneApprovedDeployment_def claim send 1)
      next
        case (2 h)
        have "snd (dispatchOneApprovedDeployment rt cenv chain w (ex_db x)) =
          (case withPostgresTransaction deferred_constraints (mark_submitted_tx rt d h) s2 of
             (Inl e, s3) \<Rightarrow> snd (withPostgresTransaction deferred_constraints (mark_uncertain_tx rt d e) s3)
           | (Inr u, s3) \<Rightarrow> snd (reconcileSubmittedDeployments rt cenv chain s3))"
          by (simp add: dispatchOneApprovedDeployment_def claim send 2 split: prod.split sum.split)
        then show ?thesis
          using run_on [OF run run_submit_deployment [of d "x\<lparr>ex_db := s2\<rparr>"]] linked by (simp add: sent sent_call_def)
      qed
    qed
  qed
qed

lemma run_deployment_loop:
  "executor_run rt env verify x (x\<lparr>ex_db := snd (dispatch_deployment_loop rt cenv chain w n k (ex_db x))\<rparr>)"
proof (induction n arbitrary: k x)
  case (Suc n)
  obtain r s1 where one: "dispatchOneApprovedDeployment rt cenv chain w (ex_db x) = (r, s1)" by fastforce
  have step: "executor_run rt env verify x (x\<lparr>ex_db := s1\<rparr>)"
    using run_dispatch_one_deployment [of rt env verify x cenv chain w] by (simp add: one)
  from run_on [OF this Suc.IH] show ?case using step by (simp add: one split: sum.split)
qed simp

lemma run_dispatch_deployments:
  "executor_run rt env verify x (x\<lparr>ex_db := snd (dispatchOfferingChainDeployments rt cenv chain w (ex_db x))\<rparr>)"
  using run_on [OF run_reconcile_deployments run_deployment_loop] by (simp add: dispatchOfferingChainDeployments_def)

end
