(* ===== verification/Issuance_Governance.thy ===== *)
theory Issuance_Governance
  imports Executor_Runs
begin

text \<open>
  Decisions and wallets. A request table under the locale \<open>governed_requests\<close> only ever gains
  undecided requests and decides an undecided one, by somebody other than its submitter; the
  locale's lemmas follow for the three tables of issuance. Wallets are linked by proof, once per
  address and challenge.
\<close>

section \<open>Governed tables\<close>

inductive governed_change :: "'r request_row_scheme list \<Rightarrow> 'r request_row_scheme list \<Rightarrow> bool" where
  submit: "fresh_request row rows \<Longrightarrow> governed_change rows (rows @ [row])"
| decide: "governed_decision inp rows \<Longrightarrow> governed_change rows (decided_rows inp now rows)"

definition four_eyes :: "'r request_row_scheme \<Rightarrow> bool" where
  "four_eyes r \<longleftrightarrow> (case rq_decided_by_identity_id r of
      None \<Rightarrow> rq_status r = Request_submitted
    | Some i \<Rightarrow> rq_status r \<noteq> Request_submitted \<and> i \<noteq> rq_submitted_by_identity_id r
        \<and> (rq_status r = Request_rejected \<longrightarrow> rq_decision_reason r \<noteq> None \<and> rq_decision_reason r \<noteq> Some []))"

definition governed :: "'r request_row_scheme list \<Rightarrow> bool" where
  "governed rows \<longleftrightarrow> distinct (map rq_id rows) \<and> (\<forall>r \<in> set rows. four_eyes r)"

lemma governed_change_ok:
  assumes "governed_change rows rows'" and ok: "governed rows"
  shows "governed rows'"
  using assms(1)
proof cases
  case (submit row)
  then show ?thesis using ok by (auto simp: governed_def four_eyes_def fresh_request_def)
next
  case (decide inp now)
  obtain q where q: "q \<in> set rows" "rq_id q = dn_requestId inp" "rq_submitted_by_identity_id q \<noteq> dn_decidedByIdentityId inp"
    using decide(2) by (auto simp: governed_decision_def dest!: first_row_Some)
  have "four_eyes r'" if "r' \<in> set rows'" for r'
  proof -
    from that obtain r where r: "r \<in> set rows" "r' = r \<or> (r' = decide_row inp now r \<and> rq_id r = dn_requestId inp)"
      unfolding decide(1) by (rule decided_source)
    have "r = q" if "rq_id r = dn_requestId inp"
      using distinct_map_key_eq [of rq_id rows r q] ok r(1) q(1,2) that by (simp add: governed_def)
    then show ?thesis using r ok q(3) decide(2)
      by (auto simp: governed_def four_eyes_def decide_row_def decision_status_def governed_decision_def)
  qed
  then show ?thesis using ok by (simp add: governed_def decide(1))
qed

lemma decided_row_stays:
  assumes "governed_change rows rows'" and "r \<in> set rows" and "rq_status r \<noteq> Request_submitted"
  shows "r \<in> set rows'"
  using assms(1)
proof cases
  case (decide inp now)
  then have "rq_id r \<noteq> dn_requestId inp" using assms(2,3) by (auto simp: governed_decision_def)
  then show ?thesis using assms(2) by (auto simp: decide(1) set_update_where image_iff intro!: bexI [of _ r])
qed (use assms(2) in simp)

locale governed_requests =
  fixes step :: "'s \<Rightarrow> 's \<Rightarrow> bool" and rows :: "'s \<Rightarrow> 'r request_row_scheme list"
  assumes governed_step: "step s s' \<Longrightarrow> governed_change\<^sup>*\<^sup>* (rows s) (rows s')"
begin

lemma governed_run: "step\<^sup>*\<^sup>* s s' \<Longrightarrow> governed_change\<^sup>*\<^sup>* (rows s) (rows s')"
  by (induction rule: rtranclp_induct) (auto dest: governed_step)

lemma stays_governed: "step\<^sup>*\<^sup>* s s' \<Longrightarrow> governed (rows s) \<Longrightarrow> governed (rows s')"
proof -
  have "governed_change\<^sup>*\<^sup>* xs ys \<Longrightarrow> governed xs \<Longrightarrow> governed ys" for xs ys
    by (induction rule: rtranclp_induct) (auto intro: governed_change_ok)
  then show "step\<^sup>*\<^sup>* s s' \<Longrightarrow> governed (rows s) \<Longrightarrow> governed (rows s')" using governed_run by blast
qed

lemma decision_final: "step\<^sup>*\<^sup>* s s' \<Longrightarrow> r \<in> set (rows s) \<Longrightarrow> rq_status r \<noteq> Request_submitted \<Longrightarrow> r \<in> set (rows s')"
proof -
  have "governed_change\<^sup>*\<^sup>* xs ys \<Longrightarrow> r \<in> set xs \<Longrightarrow> rq_status r \<noteq> Request_submitted \<Longrightarrow> r \<in> set ys" for xs ys
    by (induction rule: rtranclp_induct) (auto intro: decided_row_stays)
  then show "step\<^sup>*\<^sup>* s s' \<Longrightarrow> r \<in> set (rows s) \<Longrightarrow> rq_status r \<noteq> Request_submitted \<Longrightarrow> r \<in> set (rows s')" using governed_run by blast
qed

end

lemma change_governed:
  assumes "issuance_change rt verify s s'"
  shows "governed_change\<^sup>*\<^sup>* (offering_issuance_term_requests s) (offering_issuance_term_requests s')"
    and "governed_change\<^sup>*\<^sup>* (investment_allocation_requests s) (investment_allocation_requests s')"
    and "governed_change\<^sup>*\<^sup>* (offering_chain_deployment_requests s) (offering_chain_deployment_requests s')"
  using assms by (cases; auto simp: same_issuance_def intro!: r_into_rtranclp intro: governed_change.intros)+

text \<open>The steps of the executors leave requests, challenges and wallets alone.\<close>

definition same_requests :: "'z chain_db_scheme \<Rightarrow> 'z chain_db_scheme \<Rightarrow> bool" where
  "same_requests s s' \<longleftrightarrow> offering_issuance_term_requests s' = offering_issuance_term_requests s
     \<and> investment_allocation_requests s' = investment_allocation_requests s
     \<and> offering_chain_deployment_requests s' = offering_chain_deployment_requests s
     \<and> investor_wallet_link_challenges s' = investor_wallet_link_challenges s \<and> investor_wallets s' = investor_wallets s"

lemma settled_same_requests:
  "allocation_settled s s' \<Longrightarrow> same_requests s s'" "deployment_settled s s' \<Longrightarrow> same_requests s s'"
  by (auto simp: allocation_settled_def deployment_settled_def same_requests_def same_issuance_def)

lemma executor_step_requests:
  assumes "executor_step rt env verify x y"
  shows "(\<exists>c. ex_db y = run_issuance_command rt env verify c (ex_db x)) \<or> same_requests (ex_db x) (ex_db y)"
  using assms
proof cases
  case (claim_a w p s')
  then show ?thesis using allocation_claimed(4) [OF transaction_Inr [OF claim_a(2)]] by (simp add: same_requests_def same_issuance_def)
next
  case (submitted_a p h)
  then show ?thesis using submitted_cases(1) [of rt p h "ex_db x"] by (auto simp: same_requests_def same_issuance_def)
next
  case (claim_d w d s')
  then show ?thesis using deployment_claimed(6) [OF transaction_Inr [OF claim_d(2)]] by (simp add: same_requests_def same_issuance_def)
next
  case (submitted_d d h)
  then show ?thesis using submitted_cases(2) [of rt d h "ex_db x"] by (auto simp: same_requests_def same_issuance_def)
qed (auto simp: committed_settled settled_same_requests, auto simp: same_requests_def sent_call_def)

text \<open>A relation that every change respects and that only looks at those tables is respected by
  every step.\<close>

lemma step_respects:
  assumes "executor_step rt env verify x y"
    and change: "\<And>s s'. issuance_change rt verify s s' \<Longrightarrow> R\<^sup>*\<^sup>* (f s) (f s')"
    and same: "\<And>s s'. same_requests s s' \<Longrightarrow> f s' = f s"
  shows "R\<^sup>*\<^sup>* (f (ex_db x)) (f (ex_db y))"
proof -
  have changes: "R\<^sup>*\<^sup>* (f s) (f s')" if "(issuance_change rt verify)\<^sup>*\<^sup>* s s'" for s s'
    using that by (induction rule: rtranclp_induct) (auto dest: change)
  from executor_step_requests [OF assms(1)] show ?thesis
  proof
    assume "\<exists>c. ex_db y = run_issuance_command rt env verify c (ex_db x)"
    then show ?thesis using changes [OF command_changes] by auto
  qed (simp add: same)
qed

interpretation terms_requests: governed_requests "executor_step rt env verify" "\<lambda>x. offering_issuance_term_requests (ex_db x)"
  for rt env verify
  by unfold_locales (rule step_respects [where f = offering_issuance_term_requests], auto simp: same_requests_def intro: change_governed)

interpretation allocation_requests: governed_requests "executor_step rt env verify" "\<lambda>x. investment_allocation_requests (ex_db x)"
  for rt env verify
  by unfold_locales (rule step_respects [where f = investment_allocation_requests], auto simp: same_requests_def intro: change_governed)

interpretation deployment_requests: governed_requests "executor_step rt env verify" "\<lambda>x. offering_chain_deployment_requests (ex_db x)"
  for rt env verify
  by unfold_locales (rule step_respects [where f = offering_chain_deployment_requests], auto simp: same_requests_def intro: change_governed)

section \<open>Wallets\<close>

definition wallets_ok :: "runtime \<Rightarrow> verifier \<Rightarrow> challenge_row list \<times> wallet_row list \<Rightarrow> bool" where
  "wallets_ok rt verify cw \<longleftrightarrow> distinct (map lc_id (fst cw)) \<and> distinct (map wl_link_challenge_id (snd cw))
     \<and> distinct (map (\<lambda>w. (wl_chain_id w, wl_wallet_address w)) (snd cw))
     \<and> (\<forall>w \<in> set (snd cw). \<exists>c \<in> set (fst cw). lc_status c = Challenge_consumed \<and> proven_link rt verify c w)"

definition wallet_change :: "runtime \<Rightarrow> verifier \<Rightarrow> challenge_row list \<times> wallet_row list \<Rightarrow> challenge_row list \<times> wallet_row list \<Rightarrow> bool" where
  "wallet_change rt verify cw cw' \<longleftrightarrow> (wallets_ok rt verify cw \<longrightarrow> wallets_ok rt verify cw') \<and> set (snd cw) \<subseteq> set (snd cw')"

lemma consumed_source: "proven_link rt verify (close_row now st c) w = proven_link rt verify c w"
  by (simp add: proven_link_def close_row_def challenge_message_def)

lemma wallets_ok_link:
  assumes ok: "wallets_ok rt verify (cs, ws)" and c: "c \<in> set cs"
    and issued: "\<And>r. r \<in> set cs \<Longrightarrow> lc_id r = lc_id c \<Longrightarrow> lc_status r = Challenge_issued"
    and link: "proven_link rt verify c w" and fresh: "wl_link_challenge_id w \<notin> wl_link_challenge_id ` set ws"
    and free: "\<And>w'. w' \<in> set ws \<Longrightarrow> wl_chain_id w' = wl_chain_id w \<Longrightarrow> wl_wallet_address w' \<noteq> wl_wallet_address w"
  shows "wallets_ok rt verify (update_where (\<lambda>r. lc_id r = lc_id c) (close_row now Challenge_consumed) cs, ws @ [w])"
proof -
  let ?cs = "update_where (\<lambda>r. lc_id r = lc_id c) (close_row now Challenge_consumed) cs"
  have "map lc_id ?cs = map lc_id cs" by (rule map_update_where) (simp add: close_row_def)
  moreover have "\<exists>c' \<in> set ?cs. lc_status c' = Challenge_consumed \<and> proven_link rt verify c' w"
  proof
    show "close_row now Challenge_consumed c \<in> set ?cs" using c by (auto simp: set_update_where)
  qed (use link in \<open>simp add: consumed_source, simp add: close_row_def\<close>)
  moreover have "\<exists>c' \<in> set ?cs. lc_status c' = Challenge_consumed \<and> proven_link rt verify c' v" if v: "v \<in> set ws" for v
  proof -
    obtain k where k: "k \<in> set cs" "lc_status k = Challenge_consumed" "proven_link rt verify k v" using ok v by (auto simp: wallets_ok_def)
    then have "lc_id k \<noteq> lc_id c" using issued [of k] by auto
    then have "k \<in> set ?cs" using k(1) by (auto simp: set_update_where image_iff intro!: bexI [of _ k])
    then show ?thesis using k by blast
  qed
  moreover have "(wl_chain_id w, wl_wallet_address w) \<notin> (\<lambda>w. (wl_chain_id w, wl_wallet_address w)) ` set ws"
    using free by (metis (mono_tags, lifting) Pair_inject imageE)
  ultimately show ?thesis using ok fresh by (auto simp: wallets_ok_def)
qed

lemma change_wallets:
  assumes "issuance_change rt verify s s'"
  shows "wallet_change rt verify (investor_wallet_link_challenges s, investor_wallets s) (investor_wallet_link_challenges s', investor_wallets s')"
  using assms
proof cases
  case (challenge c)
  then show ?thesis by (fastforce simp: wallet_change_def wallets_ok_def same_issuance_def)
next
  case (link c w)
  then show ?thesis using wallets_ok_link [of rt verify "investor_wallet_link_challenges s" "investor_wallets s" c w "clock s"]
    by (auto simp: wallet_change_def same_issuance_def)
qed (auto simp: wallet_change_def same_issuance_def)

lemma wallets_run:
  assumes "executor_run rt env verify x y"
  shows "wallet_change rt verify (investor_wallet_link_challenges (ex_db x), investor_wallets (ex_db x))
     (investor_wallet_link_challenges (ex_db y), investor_wallets (ex_db y))"
proof -
  let ?f = "\<lambda>s :: chain_db. (investor_wallet_link_challenges s, investor_wallets s)"
  have trans: "(wallet_change rt verify)\<^sup>*\<^sup>* a b \<Longrightarrow> wallet_change rt verify a b" for a b
    by (induction rule: rtranclp_induct) (auto simp: wallet_change_def)
  have "(wallet_change rt verify)\<^sup>*\<^sup>* (?f (ex_db x)) (?f (ex_db y))"
    using assms
  proof (induction rule: rtranclp_induct)
    case (step y z)
    have "(wallet_change rt verify)\<^sup>*\<^sup>* (?f (ex_db y)) (?f (ex_db z))"
      by (rule step_respects [OF step(2), where f = ?f]) (auto simp: same_requests_def intro: change_wallets)
    then show ?case using step(3) by simp
  qed simp
  then show ?thesis by (rule trans)
qed

end
