(* ===== verification/Stranded_Mints.thy ===== *)
theory Stranded_Mints
  imports Executor_Runs
begin

text \<open>
  Whitelistings whose mint is never released. A mint operation is created only by the process that
  has just confirmed the whitelisting, so once a confirmed whitelisting has no mint and nobody is
  about to release it, no later step of any process creates one.
\<close>

section \<open>What each step does to the operations\<close>

lemma materialize_only_whitelists:
  fixes s :: "'z chain_db_scheme"
  shows "for_each xs (materialize_one rt) s = Inr (u, s') \<Longrightarrow>
     \<exists>new. investment_allocation_chain_operations s' = investment_allocation_chain_operations s @ new
       \<and> (\<forall>r \<in> set new. ao_operation_type r = Whitelist)"
proof (induction xs arbitrary: s)
  case (Cons x xs)
  then obtain v s1 where one: "materialize_one rt x s = Inr (v, s1)" and rest: "for_each xs (materialize_one rt) s1 = Inr (u, s')"
    by (auto elim: andThen_Inr)
  have "investment_allocation_chain_operations s1 = investment_allocation_chain_operations s
      @ [whitelist_operation (rt_uuid rt (uuids_drawn s)) (clock s) x]"
    using one unfolding materialize_one_def record_operation_def
    by (auto simp: tx_Inr randomUUID_Inr same_issuance_def elim!: tx_elims dest!: emit_same insert_operation_Inr(3))
  then show ?case using Cons.IH [OF rest] by auto
qed (auto simp: ret_Inr)

lemma materialized_operations:
  fixes s :: "'z chain_db_scheme"
  shows "\<exists>new. investment_allocation_chain_operations (snd (materializeAllocationChainOperations rt limit s))
       = investment_allocation_chain_operations s @ new \<and> (\<forall>r \<in> set new. ao_operation_type r = Whitelist)"
  unfolding materializeAllocationChainOperations_def
  by (rule transaction_snd) (auto simp: tx_Inr elim!: tx_elims dest!: materialize_only_whitelists)

text \<open>A release adds at most one operation, the mint of the whitelisting it was called for.\<close>

lemma release_operations:
  fixes s :: "'z chain_db_scheme"
  shows "investment_allocation_chain_operations (snd (releaseMintOperation rt i s)) = investment_allocation_chain_operations s
   \<or> (\<exists>w m. w \<in> set (investment_allocation_chain_operations s) \<and> op_id w = i \<and> ao_operation_type w = Whitelist
        \<and> ao_allocation_request_id m = ao_allocation_request_id w \<and> op_status m = Op_approved
        \<and> investment_allocation_chain_operations (snd (releaseMintOperation rt i s)) = investment_allocation_chain_operations s @ [m])"
  unfolding releaseMintOperation_def
proof (rule transaction_snd)
  fix x s' assume "release_mint_tx rt i s = Inr (x, s')"
  then consider "s' = s" | w s2 where "first_row (\<lambda>r. op_id r = i) (investment_allocation_chain_operations s) = Some w"
      "ao_operation_type w = Whitelist" "insert_allocation_operation (mint_operation (rt_uuid rt (uuids_drawn s)) (clock s) w)
         (s\<lparr>uuids_drawn := Suc (uuids_drawn s)\<rparr>) = Inr ((), s2)" "same_issuance s2 s'"
    unfolding release_mint_tx_def record_operation_def
    by (auto simp: tx_Inr randomUUID_Inr elim!: tx_elims dest!: emit_same split: option.splits)
  then show "investment_allocation_chain_operations s' = investment_allocation_chain_operations s
   \<or> (\<exists>w m. w \<in> set (investment_allocation_chain_operations s) \<and> op_id w = i \<and> ao_operation_type w = Whitelist
        \<and> ao_allocation_request_id m = ao_allocation_request_id w \<and> op_status m = Op_approved
        \<and> investment_allocation_chain_operations s' = investment_allocation_chain_operations s @ [m])"
  proof cases
    case 2
    then show ?thesis using insert_operation_Inr(3) [OF 2(3)] first_row_Some [OF 2(1)]
      by (intro disjI2 exI [of _ w] exI [of _ "mint_operation (rt_uuid rt (uuids_drawn s)) (clock s) w"]) (auto simp: same_issuance_def)
  qed simp
qed simp

lemma settled_progresses:
  "allocation_settled s s' \<Longrightarrow>
     list_all2 (progresses operation_row.more) (investment_allocation_chain_operations s) (investment_allocation_chain_operations s')"
  by (auto simp: allocation_settled_def same_issuance_def dest: settles_progresses)

lemma submitted_progresses:
  "list_all2 (progresses operation_row.more) (investment_allocation_chain_operations s)
     (investment_allocation_chain_operations (committed (allocation_submitted_tx rt p h) s))"
  using submitted_cases(1) [of rt p h s]
proof
  assume "committed (allocation_submitted_tx rt p h) s = s"
  then show ?thesis by (simp add: progresses_refl)
next
  have "operation_row.more (submit_op k now r) = operation_row.more r" for k now and r :: allocation_operation by (simp add: submit_op_def)
  moreover assume "same_issuance (update_allocation_claim (claim_is (ad_claimId p) Claim_claimed) (submit_claim (toLowerCase h) (clock s))
       (update_allocation_op (op_is (op_id (ad_operation p)) Op_approved) (submit_op (toLowerCase h) (clock s)) s))
       (committed (allocation_submitted_tx rt p h) s)"
  ultimately show ?thesis by (simp add: same_issuance_def submit_progresses)
qed

text \<open>A confirmation finds its operation submitted.\<close>

lemma confirmed_was_submitted:
  assumes "allocation_confirmed_tx rt p h n s = Inr (u, s')"
  shows "\<exists>r \<in> set (investment_allocation_chain_operations s). op_id r = op_id (ad_operation p) \<and> op_status r = Op_submitted"
proof -
  have "count_rows (\<lambda>r. op_id r = op_id (ad_operation p) \<and> op_status r = Op_submitted
      \<and> op_transaction_hash r = Some (toLowerCase h)) (investment_allocation_chain_operations s) = 1"
    using assms unfolding allocation_confirmed_tx_def by (auto simp: tx_Inr update_count_Inr elim!: tx_elims)
  then show ?thesis by (auto simp: count_rows_def length_Suc_conv filter_eq_Cons_iff)
qed

section \<open>Stranded\<close>

text \<open>The whitelisting \<open>o'\<close> of the allocation \<open>i\<close> is confirmed, the allocation has no mint, and nobody
  is about to release one.\<close>

definition stranded :: "uuid \<Rightarrow> uuid \<Rightarrow> allocation_operation list \<Rightarrow> uuid list \<Rightarrow> bool" where
  "stranded i o' ops due \<longleftrightarrow>
     exists_row (\<lambda>w. op_id w = o' \<and> ao_allocation_request_id w = i \<and> ao_operation_type w = Whitelist \<and> op_status w = Op_confirmed) ops
     \<and> \<not> exists_row (\<lambda>m. ao_allocation_request_id m = i \<and> ao_operation_type m = Mint) ops
     \<and> o' \<notin> set due"

lemma strandedE:
  assumes "stranded i o' ops due"
  obtains w where "w \<in> set ops" and "op_id w = o'" and "ao_allocation_request_id w = i" and "ao_operation_type w = Whitelist"
    and "op_status w = Op_confirmed" and "\<forall>m \<in> set ops. ao_allocation_request_id m = i \<longrightarrow> ao_operation_type m \<noteq> Mint"
    and "o' \<notin> set due"
  using assms unfolding stranded_def exists_row_def by (auto simp: list_ex_iff)

lemma stranded_append:
  assumes "stranded i o' ops due" and "\<And>r. r \<in> set new \<Longrightarrow> ao_allocation_request_id r = i \<Longrightarrow> ao_operation_type r \<noteq> Mint"
  shows "stranded i o' (ops @ new) due"
  using assms unfolding stranded_def exists_row_def by (auto simp: list_ex_iff)

lemma stranded_progress:
  assumes "stranded i o' ops due" and p: "list_all2 (progresses operation_row.more) ops ops'"
  shows "stranded i o' ops' due"
proof -
  obtain w where w: "w \<in> set ops" "op_id w = o'" "ao_allocation_request_id w = i" "ao_operation_type w = Whitelist" "op_status w = Op_confirmed"
    and none: "\<forall>m \<in> set ops. ao_allocation_request_id m = i \<longrightarrow> ao_operation_type m \<noteq> Mint" and "o' \<notin> set due"
    using assms(1) by (rule strandedE)
  obtain w' where w': "w' \<in> set ops'" "progresses operation_row.more w w'" using progresses_forward [OF p w(1)] by blast
  have "ao_operation_type m' \<noteq> Mint" if m': "m' \<in> set ops'" "ao_allocation_request_id m' = i" for m'
  proof -
    obtain m where "m \<in> set ops" "progresses operation_row.more m m'" using progresses_backward [OF p m'(1)] by blast
    then show ?thesis using none m'(2) subject_sels [of m' m] by (simp add: progresses_def)
  qed
  then show ?thesis using w w' subject_sels [of w' w] \<open>o' \<notin> set due\<close>
    unfolding stranded_def exists_row_def by (auto simp: list_ex_iff progresses_def)
qed

lemma stranded_step:
  assumes "mint_step rt env verify (x, due) (y, due')" and ok: "operations_ok allocs (investment_allocation_chain_operations (ex_db x))"
    and s: "stranded i o' (investment_allocation_chain_operations (ex_db x)) due"
  shows "stranded i o' (investment_allocation_chain_operations (ex_db y)) due'"
  using assms(1)
proof cases
  case (materialized limit)
  then show ?thesis using materialized_operations [of rt limit "ex_db x"] stranded_append [OF s] by fastforce
next
  case (submitted p h)
  then show ?thesis using stranded_progress [OF s submitted_progresses] by simp
next
  case (failed p h e)
  then show ?thesis using stranded_progress [OF s settled_progresses [OF committed_settled(2)]] by simp
next
  case (confirmed p h n u s')
  let ?ops = "investment_allocation_chain_operations (ex_db x)"
  have "committed (allocation_confirmed_tx rt p h n) (ex_db x) = s'" using confirmed(3) by (simp add: committed_def)
  then have "stranded i o' (investment_allocation_chain_operations s') due"
    using stranded_progress [OF s settled_progresses [OF committed_settled(1) [of "ex_db x" rt p h n]]] by simp
  moreover have "op_id (ad_operation p) \<noteq> o'"
  proof
    assume same: "op_id (ad_operation p) = o'"
    obtain r where r: "r \<in> set ?ops" "op_id r = o'" "op_status r = Op_submitted"
      using confirmed_was_submitted [OF transaction_Inr [OF confirmed(3)]] same by auto
    from s obtain w where "w \<in> set ?ops" "op_id w = o'" "op_status w = Op_confirmed" by (rule strandedE)
    then show False using r distinct_map_key_eq [of op_id ?ops r w] ok by (simp add: operations_ok_def)
  qed
  ultimately show ?thesis using confirmed(1,2) by (auto simp: stranded_def)
next
  case (released j)
  let ?ops = "investment_allocation_chain_operations (ex_db x)"
  have due: "stranded i o' ops due'" if "stranded i o' ops due" for ops
    using that released(2) set_remove1_subset [of j due] by (auto simp: stranded_def)
  obtain w where w: "w \<in> set ?ops" "op_id w = o'" "ao_allocation_request_id w = i" "ao_operation_type w = Whitelist" "o' \<notin> set due"
    using s by (rule strandedE)
  have other: "ao_allocation_request_id v \<noteq> i" if v: "v \<in> set ?ops" "op_id v = j" "ao_operation_type v = Whitelist" for v
  proof
    assume "ao_allocation_request_id v = i"
    then have "v = w" using v w distinct_map_key_eq [of operation_key ?ops v w] ok by (simp add: operations_ok_def operation_key_def)
    then show False using v w released(3) by auto
  qed
  show ?thesis using release_operations [of rt j "ex_db x"] other due [OF s] due [OF stranded_append [OF s]] released(1) by fastforce
next
  case (stopped j)
  then show ?thesis using s set_remove1_subset [of j due] by (auto simp: stranded_def)
qed (use s in simp)

lemma stranded_run:
  assumes "(mint_step rt env verify)\<^sup>*\<^sup>* a b" and "executors_ok (fst a)"
    and "stranded i o' (investment_allocation_chain_operations (ex_db (fst a))) (snd a)"
  shows "stranded i o' (investment_allocation_chain_operations (ex_db (fst b))) (snd b)"
  using assms
proof (induction rule: rtranclp_induct)
  case (step b c)
  have "executors_ok (fst b)" by (rule executor_run_ok [OF mint_run_executors [OF step.hyps(1)] step.prems(1)])
  then show ?case
    using stranded_step [of rt env verify "fst b" "snd b" "fst c" "snd c"] step
    by (auto simp: executors_ok_def issuance_ok_def)
qed simp

lemma unminted:
  assumes "executors_ok x" and "\<And>m. m \<in> set (investment_allocation_chain_operations (ex_db x)) \<Longrightarrow> ao_allocation_request_id m = i
      \<Longrightarrow> ao_operation_type m \<noteq> Mint"
    and "call \<in> set (chain_calls (ex_db x))" and "(wallet, tokens, a) \<in> set (mint_lines call)"
  shows "a \<noteq> i"
proof -
  have "allocation_call_id call \<noteq> []" using assms(4) by (cases call) auto
  then obtain r where "r \<in> set (investment_allocation_chain_operations (ex_db x))" "call = allocation_call r"
    using assms(1,3) unfolding executors_ok_def allocation_calls_ok_def by blast
  then show ?thesis using assms(2,4) by (auto simp: allocation_call_def split: operationType.splits)
qed

section \<open>Commands\<close>

text \<open>Every command but the release itself is a step here.\<close>

lemma other_commands_operations:
  assumes "\<And>i. c \<noteq> ReleaseMint i" and "\<And>n. c \<noteq> Materialize n"
  shows "investment_allocation_chain_operations (run_issuance_command rt env verify c s) = investment_allocation_chain_operations s"
proof (cases c)
  case (MarketCommand m)
  have "beyond_market (market_db.more s) (offering_products s) s" by (simp add: beyond_market_def)
  from market_same [OF beyond_market_command [OF this, of rt env m]] show ?thesis by (auto simp: MarketCommand same_issuance_def)
next
  case (RecordEvidence inp)
  show ?thesis unfolding RecordEvidence run_issuance_command.simps recordAllocationPolicyEvidence_def
    by (rule transaction_snd) (auto simp: tx_Inr same_issuance_def elim!: tx_elims dest!: record_evidence_effect)
next
  case (SubmitTerms inp)
  show ?thesis unfolding SubmitTerms run_issuance_command.simps submitOfferingIssuanceTerms_def Let_def
    by (rule transaction_snd) (auto simp: tx_Inr same_issuance_def elim!: tx_elims submit_terms_effect)
next
  case (DecideTerms inp)
  show ?thesis unfolding DecideTerms run_issuance_command.simps decideOfferingIssuanceTerms_def
    by (rule transaction_snd) (auto simp: same_issuance_def dest!: decide_terms_effect(2))
next
  case (CreateChallenge inp)
  show ?thesis unfolding CreateChallenge run_issuance_command.simps createInvestorWalletLinkChallenge_def Let_def
    by (rule transaction_snd) (auto simp: tx_Inr same_issuance_def elim!: tx_elims create_challenge_effect)
next
  case (ConfirmChallenge inp)
  have "investment_allocation_chain_operations (snd (withPostgresTransaction deferred_constraints (confirm_challenge_tx rt verify inp) s))
      = investment_allocation_chain_operations s"
    by (rule transaction_snd) (auto simp: same_issuance_def elim!: confirm_challenge_effect)
  then show ?thesis by (simp add: ConfirmChallenge confirmInvestorWalletLinkChallenge_def)
next
  case (SubmitAllocation inp)
  have "investment_allocation_chain_operations (snd (withPostgresTransaction deferred_constraints (submit_allocation_tx rt inp chainId) s))
      = investment_allocation_chain_operations s" for chainId
    by (rule transaction_snd) (auto simp: same_issuance_def elim!: submit_allocation_effect)
  then show ?thesis by (simp add: SubmitAllocation submitInvestmentAllocation_def split: sum.splits)
next
  case (DecideAllocation inp)
  show ?thesis unfolding DecideAllocation run_issuance_command.simps decideInvestmentAllocation_def
    by (rule transaction_snd) (auto simp: same_issuance_def dest!: decide_allocation_effect(2))
next
  case (SubmitDeployment inp)
  show ?thesis unfolding SubmitDeployment run_issuance_command.simps submitOfferingChainDeploymentRequest_def Let_def
    by (rule transaction_snd) (auto simp: tx_Inr same_issuance_def elim!: tx_elims submit_deployment_effect)
next
  case (DecideDeployment inp)
  show ?thesis unfolding DecideDeployment run_issuance_command.simps decideOfferingChainDeploymentRequest_def
    by (rule transaction_snd) (auto simp: same_issuance_def elim!: decide_deployment_effect)
qed (use assms in auto)

lemma mint_command:
  assumes "\<And>i. c \<noteq> ReleaseMint i"
  shows "mint_step rt env verify (x, due) (x\<lparr>ex_db := run_issuance_command rt env verify c (ex_db x)\<rparr>, due)"
proof (cases "\<exists>n. c = Materialize n")
  case True
  then show ?thesis using materialized by auto
next
  case False
  then have "investment_allocation_chain_operations (run_issuance_command rt env verify c (ex_db x))
      = investment_allocation_chain_operations (ex_db x)" by (intro other_commands_operations) (use assms in auto)
  then show ?thesis by (intro elsewhere [OF command]) simp
qed

end
