(* ===== verification/Issuance_Properties.thy ===== *)
theory Issuance_Properties
  imports Issuance_Governance Stranded_Mints
begin

text \<open>
  What issuance guarantees, over every run of commands and executor steps in any interleaving and
  with processes stopping anywhere: nothing is sent twice, mints follow
  approval and whitelisting, decisions take two people and are final, wallets are proven. And two
  places where the code does less than it means to: a mint is lost when the executor stops between
  two transactions, and an expired challenge is never recorded as expired.
\<close>

section \<open>The invariant of a running system\<close>

definition issuance_inv :: "executors \<Rightarrow> bool" where
  "issuance_inv x \<longleftrightarrow> executors_ok x \<and> order_ok x \<and> dispatch_ok (allocation_view x) \<and> dispatch_ok (deployment_view x)"

definition no_issuance :: "executors \<Rightarrow> bool" where
  "no_issuance x \<longleftrightarrow> offering_issuance_term_requests (ex_db x) = [] \<and> investment_allocation_requests (ex_db x) = []
     \<and> offering_chain_deployment_requests (ex_db x) = [] \<and> offering_chain_operations (ex_db x) = []
     \<and> offering_chain_operation_dispatch_claims (ex_db x) = [] \<and> investment_allocation_chain_operations (ex_db x) = []
     \<and> investment_allocation_chain_dispatch_claims (ex_db x) = [] \<and> chain_calls (ex_db x) = []
     \<and> ex_allocations x = [] \<and> ex_deployments x = []"

lemmas inv_defs = issuance_inv_def executors_ok_def order_ok_def issuance_ok_def terms_ok_def allocations_ok_def supply_ok_def
  operations_ok_def deployments_ok_def deployment_ops_ok_def approved_by_other_def allocation_calls_ok_def deployment_calls_ok_def sent_ok_def mints_follow_def
  dispatch_ok_def allocation_view_def deployment_view_def

lemma issuance_inv_initial: "no_issuance x \<Longrightarrow> issuance_inv x"
  by (simp add: no_issuance_def inv_defs)

lemma issuance_inv_run: "executor_run rt env verify x y \<Longrightarrow> issuance_inv x \<Longrightarrow> issuance_inv y"
  using executor_run_ok order_run_ok alloc_dispatch.run_keeps deploy_dispatch.run_keeps unfolding issuance_inv_def by blast

section \<open>A sample system\<close>

text \<open>Terms of 50 tokens at 100, an approved allocation of 20 to a linked wallet, its whitelisting
  confirmed and its mint approved.\<close>

definition sample_address :: string where
  "sample_address = ''0x'' @ replicate 40 CHR ''a''"

definition sample_contract :: string where
  "sample_contract = ''0x'' @ replicate 40 CHR ''c''"

definition sample_request :: "nat \<Rightarrow> requestStatus \<Rightarrow> request_row" where
  "sample_request n st = \<lparr>rq_id = sample_uuid n, rq_organization_id = sample_uuid 102, rq_offering_id = of_id sample_offering,
     rq_status = st, rq_submitted_by_identity_id = sample_uuid 100, rq_submitted_at = 1000,
     rq_decided_by_identity_id = (if st = Request_submitted then None else Some (sample_uuid 101)),
     rq_decided_at = (if st = Request_submitted then None else Some 1100), rq_decision_reason = None\<rparr>"

definition sample_terms :: terms_row where
  "sample_terms = request_row.extend (sample_request 201 Request_approved)
     (terms_row.fields (ov_id sample_version) ''NGN'' 100 50 (replicate 64 CHR ''b'') (sample_uuid 202))"

definition sample_challenge :: challenge_row where
  "sample_challenge = \<lparr>lc_id = sample_uuid 203, lc_investor_identity_id = sample_uuid 100, lc_chain_id = 8453,
     lc_wallet_address = sample_address, lc_message_hash = ''h'', lc_expires_at = 2000, lc_status = Challenge_consumed, lc_consumed_at = Some 1500\<rparr>"

definition sample_wallet :: wallet_row where
  "sample_wallet = \<lparr>wl_id = sample_uuid 204, wl_investor_identity_id = sample_uuid 100, wl_chain_id = 8453, wl_wallet_address = sample_address,
     wl_link_challenge_id = sample_uuid 203, wl_signature_hash = rt_sha256 plain_runtime ''s'', wl_status = Wallet_active, wl_verified_at = 1500, wl_revoked_at = None\<rparr>"

definition sample_allocation :: "nat \<Rightarrow> requestStatus \<Rightarrow> allocation_row" where
  "sample_allocation n st = request_row.extend (sample_request n st)
     (allocation_row.fields (sample_uuid 201) (sample_uuid (n + 50)) (sample_uuid 100) (sample_uuid 204) 8453 sample_address 2000 ''NGN'' 100 20
       (replicate 64 CHR ''b'') JNull)"

definition sample_operation :: "nat \<Rightarrow> operationType \<Rightarrow> operationStatus \<Rightarrow> allocation_operation" where
  "sample_operation n ty st =
     operation_row.extend ((new_operation (sample_uuid n) (sample_uuid 102) (of_id sample_offering) 8453 1600)
       \<lparr>op_status := st, op_transaction_hash := (if st = Op_approved then None else Some ''0xaa'')\<rparr>)
       (allocation_operation.fields (sample_uuid 205) sample_contract sample_address 20 ty)"

definition sample_claim :: "nat \<Rightarrow> nat \<Rightarrow> claimStatus \<Rightarrow> claim_row" where
  "sample_claim n op st = \<lparr>dc_id = sample_uuid n, dc_operation_id = sample_uuid op, dc_worker_id = ''w'', dc_status = st,
     dc_transaction_hash = Some ''0xaa'', dc_failure_reason = None, dc_claimed_at = 1700, dc_completed_at = Some 1800\<rparr>"

definition sample_deployment :: deployment_row where
  "sample_deployment = request_row.extend (sample_request 209 Request_approved)
     (deployment_row.fields (ov_id sample_version) (Some (sample_uuid 201)) 8453 sample_contract ''Harbour'' ''Harbour Token'' ''HBR'' 50 50 50)"

definition sample_deployment_op :: deployment_operation where
  "sample_deployment_op =
     operation_row.extend ((new_operation (sample_uuid 210) (sample_uuid 102) (of_id sample_offering) 8453 1200)\<lparr>op_status := Op_confirmed\<rparr>)
       (deployment_operation.fields (sample_uuid 209) sample_contract (Some sample_contract) (Some 7))"

definition sample_chain_db :: chain_db where
  "sample_chain_db = issuance_db.extend (market_db.extend sample_open_market
     (issuance_db.fields [] [sample_terms] [sample_challenge] [sample_wallet] [sample_allocation 205 Request_approved]
        [sample_deployment] [sample_deployment_op] [sample_claim 211 210 Claim_confirmed]
        [sample_operation 206 Whitelist Op_confirmed, sample_operation 207 Mint Op_approved] [sample_claim 208 206 Claim_confirmed]))
     (chain_db.fields [deployment_call \<lparr>dd_operation = sample_deployment_op, dd_request = sample_deployment, dd_claimId = sample_uuid 211\<rparr>,
        allocation_call (sample_operation 206 Whitelist Op_confirmed)])"

definition sample_executors :: executors where
  "sample_executors = \<lparr>ex_db = sample_chain_db, ex_allocations = [], ex_deployments = []\<rparr>"

abbreviation sample_deploy_call :: chain_call where
  "sample_deploy_call \<equiv> DeployToken (sample_uuid 210) (of_id sample_offering) ''Harbour'' ''Harbour Token'' ''HBR'' 50 50 50"

lemmas sample_db_defs = sample_chain_db_def issuance_db.defs market_db.defs chain_db.defs sample_open_market_def sample_market_db_def

lemmas sample_row_defs = sample_offering_def sample_version_def sample_terms_def terms_row.defs sample_request_def request_row.defs
  sample_reservation_def sample_wallet_def sample_person_def sample_allocation_def allocation_row.defs sample_operation_def
  allocation_operation.defs operation_row.defs sample_deployment_def sample_deployment_op_def sample_claim_def
  deployment_row.defs deployment_operation.defs sample_challenge_def new_operation_def

lemma sample_chain_fields:
  "investment_allocation_chain_operations sample_chain_db = [sample_operation 206 Whitelist Op_confirmed, sample_operation 207 Mint Op_approved]"
  "investment_allocation_chain_dispatch_claims sample_chain_db = [sample_claim 208 206 Claim_confirmed]"
  "offering_issuance_term_requests sample_chain_db = [sample_terms]"
  "investment_allocation_requests sample_chain_db = [sample_allocation 205 Request_approved]"
  "investor_wallet_link_challenges sample_chain_db = [sample_challenge]" "investor_wallets sample_chain_db = [sample_wallet]"
  by (simp_all add: sample_db_defs)

lemma sample_calls:
  "chain_calls sample_chain_db = [sample_deploy_call, WhitelistInvestor (sample_uuid 206) sample_contract sample_address]"
  by (simp add: sample_db_defs sample_row_defs deployment_call_def allocation_call_def)

lemma sample_inv: "issuance_inv sample_executors"
proof -
  have "executors_ok sample_executors" "sent_ok (investment_allocation_chain_operations sample_chain_db) (chain_calls sample_chain_db)"
    "dispatch_ok (allocation_view sample_executors)" "dispatch_ok (deployment_view sample_executors)"
    by (simp_all add: inv_defs sample_executors_def sample_calls)
       (simp_all add: sample_db_defs sample_row_defs view_op_def allocation_call_def deployment_call_def operation_backed_def
          deployment_call_ok_def allocated_def operation_key_def backed_allocation_def offering_backs_def)
  moreover have "mints_follow (chain_calls sample_chain_db)"
    by (auto simp: mints_follow_def sample_calls Cons_eq_append_conv)
  ultimately show ?thesis by (simp add: issuance_inv_def order_ok_def sample_executors_def)
qed

text \<open>The mint is claimed and sent.\<close>

definition sample_dispatch :: allocation_dispatch where
  "sample_dispatch = \<lparr>ad_operation = sample_operation 207 Mint Op_approved, ad_claimId = rt_uuid plain_runtime (uuids_drawn sample_chain_db)\<rparr>"

definition sample_claimed :: chain_db where
  "sample_claimed = committed (claim_allocation plain_runtime ''w'') sample_chain_db"

definition sample_minted :: chain_db where
  "sample_minted = sent_call (allocation_call (ad_operation sample_dispatch)) sample_claimed"

lemma sample_claim_result:
  "withPostgresTransaction deferred_constraints (claim_allocation plain_runtime ''w'') sample_chain_db
     = (Inr (Some sample_dispatch), sample_chain_db\<lparr>uuids_drawn := Suc (uuids_drawn sample_chain_db),
          investment_allocation_chain_dispatch_claims := [sample_claim 208 206 Claim_confirmed,
            new_claim (ad_claimId sample_dispatch) (sample_uuid 207) ''w'' (clock sample_chain_db)]\<rparr>)" (is "_ = (_, ?s)")
proof -
  have "claimable (investment_allocation_chain_operations sample_chain_db) (investment_allocation_chain_dispatch_claims sample_chain_db)
      = [sample_operation 207 Mint Op_approved]"
    by (simp add: claimable_def sample_chain_fields active_claim_def) (simp add: sample_row_defs)
  moreover have "op_id (sample_operation 207 Mint Op_approved) = sample_uuid 207" "uuids_drawn sample_chain_db = 0"
    by (simp_all add: sample_row_defs sample_db_defs)
  ultimately have "claim_allocation plain_runtime ''w'' sample_chain_db = Inr (Some sample_dispatch, ?s)"
    by (simp add: claim_allocation_def tx_simps randomUUID_def insert_claim_def checked_insert_def sample_chain_fields
          sample_dispatch_def new_claim_def active_claim_def)
       (simp add: sample_claim_def flip: sample_uuid_def)
  then show ?thesis by (simp add: withPostgresTransaction_def deferred_constraints_def)
qed

lemma sample_run: "executor_run plain_runtime env verify sample_executors (sample_executors\<lparr>ex_db := sample_minted\<rparr>)"
proof -
  have "withPostgresTransaction deferred_constraints (claim_allocation plain_runtime ''w'') (ex_db sample_executors)
      = (Inr (Some sample_dispatch), sample_claimed)"
    using sample_claim_result by (simp add: sample_executors_def sample_claimed_def committed_def prod_eq_iff)
  then have "executor_run plain_runtime env verify sample_executors
      (sample_executors\<lparr>ex_db := sample_claimed, ex_allocations := sample_dispatch # ex_allocations sample_executors\<rparr>)"
    using claim_a by blast
  from run_step [OF this send_a [of sample_dispatch]] show ?thesis by (simp add: sample_executors_def sample_minted_def)
qed

lemma sample_mint_call:
  "chain_calls sample_minted = [sample_deploy_call, WhitelistInvestor (sample_uuid 206) sample_contract sample_address]
     @ [BatchMint (sample_uuid 207) sample_contract [(sample_address, 20, sample_uuid 205)]]"
  by (simp add: sample_minted_def sample_claimed_def committed_def sample_claim_result sample_dispatch_def sent_call_def sample_calls)
     (simp add: allocation_call_def sample_row_defs)

lemma sample_unchanged:
  "offering_issuance_term_requests sample_minted = [sample_terms]" "investment_allocation_requests sample_minted = [sample_allocation 205 Request_approved]"
  by (simp_all add: sample_minted_def sample_claimed_def committed_def sample_claim_result sent_call_def sample_chain_fields)

section \<open>Properties\<close>

text \<open>C4: no operation is sent to the chain twice, whatever the interleaving of commands and of any
  number of executor processes, and wherever they stop.\<close>

theorem chain_sends_once:
  assumes "issuance_inv x" and "executor_run rt env verify x y"
  shows "distinct (concat (map allocation_call_id (chain_calls (ex_db y))))
    \<and> distinct (concat (map deployment_call_id (chain_calls (ex_db y))))"
  using alloc_dispatch.sent_once [OF assms(2)] deploy_dispatch.sent_once [OF assms(2)] assms(1)
  by (simp add: issuance_inv_def allocation_view_def deployment_view_def)

theorem chain_sends_once_witness:
  "distinct (concat (map allocation_call_id (chain_calls sample_minted)))
   \<and> concat (map allocation_call_id (chain_calls sample_minted)) = [sample_uuid 206, sample_uuid 207]"
  using chain_sends_once [OF sample_inv sample_run] by (simp add: sample_mint_call)

text \<open>C6: every mint call creates the tokens of one approved allocation, to its wallet, and comes
  after the call that whitelists that wallet on the same contract.\<close>

theorem mint_follows_approval:
  assumes "issuance_inv x" and "executor_run rt env verify x y"
    and "chain_calls (ex_db y) = us @ [BatchMint i contract lines] @ vs" and "(wallet, tokens, allocationId) \<in> set lines"
  shows "(\<exists>a \<in> set (investment_allocation_requests (ex_db y)). rq_id a = allocationId \<and> rq_status a = Request_approved
       \<and> al_wallet_address a = wallet \<and> al_token_amount a = tokens)
    \<and> (\<exists>j. WhitelistInvestor j contract wallet \<in> set us)"
proof -
  have inv: "issuance_inv y" by (rule issuance_inv_run [OF assms(2,1)])
  let ?ops = "investment_allocation_chain_operations (ex_db y)"
  have "BatchMint i contract lines \<in> set (chain_calls (ex_db y))" by (simp add: assms(3))
  then obtain r where r: "r \<in> set ?ops" "BatchMint i contract lines = allocation_call r"
    using inv by (fastforce simp: issuance_inv_def executors_ok_def allocation_calls_ok_def)
  then have "operation_backed (investment_allocation_requests (ex_db y)) ?ops r"
    using inv by (simp add: issuance_inv_def executors_ok_def issuance_ok_def operations_ok_def)
  moreover have "wallet = ao_wallet_address r" "tokens = ao_token_amount r" "allocationId = ao_allocation_request_id r"
    using r(2) assms(4) by (auto simp: allocation_call_def split: operationType.splits)
  moreover have "mints_follow (chain_calls (ex_db y))" using inv by (simp add: issuance_inv_def order_ok_def)
  then have "\<exists>j. WhitelistInvestor j contract wallet \<in> set us" using assms(3,4) unfolding mints_follow_def append_Cons append_Nil by blast
  ultimately show ?thesis unfolding operation_backed_def by metis
qed

theorem mint_follows_approval_witness:
  "\<exists>j. WhitelistInvestor j sample_contract sample_address
     \<in> set [sample_deploy_call, WhitelistInvestor (sample_uuid 206) sample_contract sample_address]"
  using mint_follows_approval [OF sample_inv sample_run, of "[sample_deploy_call, WhitelistInvestor (sample_uuid 206) sample_contract sample_address]"
      "sample_uuid 207" sample_contract "[(sample_address, 20, sample_uuid 205)]" "[]" sample_address 20 "sample_uuid 205"]
  by (simp add: sample_mint_call)

text \<open>C11: a token is deployed only for a request that was approved by somebody other than its submitter,
  and with the maximum supply of the approved terms the request names.\<close>

theorem deployment_carries_approved_cap:
  assumes "issuance_inv x" and "executor_run rt env verify x y"
    and "DeployToken i offering name token symbol holder retail cap \<in> set (chain_calls (ex_db y))"
  shows "\<exists>r \<in> set (offering_chain_operations (ex_db y)). \<exists>q \<in> set (offering_chain_deployment_requests (ex_db y)).
    \<exists>t \<in> set (offering_issuance_term_requests (ex_db y)). op_id r = i \<and> rq_id q = do_request_id r
      \<and> rq_status q = Request_approved
      \<and> (\<exists>d. rq_decided_by_identity_id q = Some d \<and> d \<noteq> rq_submitted_by_identity_id q)
      \<and> dp_issuance_terms_request_id q = Some (rq_id t) \<and> rq_status t = Request_approved \<and> cap = tr_max_total_supply t"
proof -
  let ?requests = "offering_chain_deployment_requests (ex_db y)" and ?ops = "offering_chain_operations (ex_db y)"
  have ok: "executors_ok y" using issuance_inv_run [OF assms(2,1)] by (simp add: issuance_inv_def)
  then have "deployment_call_ok ?requests ?ops (DeployToken i offering name token symbol holder retail cap)"
    using assms(3) by (fastforce simp: executors_ok_def deployment_calls_ok_def)
  then obtain r q where r: "r \<in> set ?ops" "q \<in> set ?requests" "rq_id q = do_request_id r" "op_id r = i" "cap = dp_max_total_supply q"
    by (auto simp: deployment_call_ok_def deployment_call_def Let_def)
  moreover have "approved_by_other q"
  proof -
    have ops: "deployment_ops_ok ?requests ?ops" using ok by (simp add: executors_ok_def)
    then obtain q' where q': "q' \<in> set ?requests" "rq_id q' = do_request_id r" "approved_by_other q'"
      using r(1) by (auto simp: deployment_ops_ok_def)
    then have "q' = q" using ops r(2,3) distinct_map_key_eq [of rq_id ?requests q' q] by (simp add: deployment_ops_ok_def)
    then show ?thesis using q'(3) by simp
  qed
  moreover obtain t where "t \<in> set (offering_issuance_term_requests (ex_db y))" "dp_issuance_terms_request_id q = Some (rq_id t)"
    "rq_status t = Request_approved" "dp_max_total_supply q = tr_max_total_supply t"
    using ok r(2) unfolding executors_ok_def deployments_ok_def by blast
  ultimately show ?thesis unfolding approved_by_other_def by metis
qed

theorem deployment_carries_approved_cap_witness:
  "list_ex (\<lambda>q. rq_status q = Request_approved \<and> rq_decided_by_identity_id q \<noteq> Some (rq_submitted_by_identity_id q))
       (offering_chain_deployment_requests sample_minted)
   \<and> list_ex (\<lambda>t. rq_status t = Request_approved \<and> tr_max_total_supply t = 50) (offering_issuance_term_requests sample_minted)"
proof -
  have "sample_deploy_call \<in> set (chain_calls (ex_db (sample_executors\<lparr>ex_db := sample_minted\<rparr>)))" by (simp add: sample_mint_call)
  from deployment_carries_approved_cap [OF sample_inv sample_run this] show ?thesis by (fastforce simp: list_ex_iff)
qed

text \<open>C8: a request for issuance terms, an allocation or a deployment is decided by somebody other
  than its submitter, a rejection gives a reason, and a decided request never changes again.\<close>

theorem decisions_take_two_people:
  assumes "executor_run rt env verify x y"
    and "governed (offering_issuance_term_requests (ex_db x))" and "governed (investment_allocation_requests (ex_db x))"
    and "governed (offering_chain_deployment_requests (ex_db x))"
  shows "governed (offering_issuance_term_requests (ex_db y)) \<and> governed (investment_allocation_requests (ex_db y))
    \<and> governed (offering_chain_deployment_requests (ex_db y))
    \<and> set (filter (\<lambda>r. rq_status r \<noteq> Request_submitted) (offering_issuance_term_requests (ex_db x))) \<subseteq> set (offering_issuance_term_requests (ex_db y))
    \<and> set (filter (\<lambda>r. rq_status r \<noteq> Request_submitted) (investment_allocation_requests (ex_db x))) \<subseteq> set (investment_allocation_requests (ex_db y))
    \<and> set (filter (\<lambda>r. rq_status r \<noteq> Request_submitted) (offering_chain_deployment_requests (ex_db x))) \<subseteq> set (offering_chain_deployment_requests (ex_db y))"
  using assms terms_requests.stays_governed allocation_requests.stays_governed deployment_requests.stays_governed
    terms_requests.decision_final [OF assms(1)] allocation_requests.decision_final [OF assms(1)] deployment_requests.decision_final [OF assms(1)]
  by (auto simp: subset_iff)

theorem decisions_take_two_people_witness:
  "governed (investment_allocation_requests sample_minted)
   \<and> set (filter (\<lambda>r. rq_status r \<noteq> Request_submitted) [sample_allocation 205 Request_approved]) \<subseteq> set (investment_allocation_requests sample_minted)"
proof -
  have "governed (offering_issuance_term_requests sample_chain_db)" "governed (investment_allocation_requests sample_chain_db)"
    "governed (offering_chain_deployment_requests sample_chain_db)"
    by (simp_all add: governed_def four_eyes_def sample_db_defs sample_row_defs)
  then show ?thesis using decisions_take_two_people [OF sample_run] by (simp add: sample_executors_def sample_chain_fields)
qed

text \<open>C9: a linked wallet is proven: a consumed challenge of the same investor, chain and address whose
  text the verifier accepted with the stored signature; an address is linked at most once per
  chain, a challenge is used at most once, and linked wallets stay.\<close>

theorem wallets_proven:
  assumes "executor_run rt env verify x y" and "wallets_ok rt verify (investor_wallet_link_challenges (ex_db x), investor_wallets (ex_db x))"
  shows "wallets_ok rt verify (investor_wallet_link_challenges (ex_db y), investor_wallets (ex_db y))
    \<and> set (investor_wallets (ex_db x)) \<subseteq> set (investor_wallets (ex_db y))"
  using wallets_run [OF assms(1)] assms(2) by (simp add: wallet_change_def)

definition sample_verify :: verifier where
  "sample_verify address text signature = Inr (signature = ''s'')"

theorem wallets_proven_witness: "set (investor_wallets sample_chain_db) \<subseteq> set (investor_wallets sample_minted)"
proof -
  have "toLowerCase ''s'' = ''s''" by code_simp
  then have "proven_link plain_runtime sample_verify sample_challenge sample_wallet"
    by (auto simp: proven_link_def sample_challenge_def sample_wallet_def sample_verify_def intro!: exI [of _ "''s''"])
  then have "wallets_ok plain_runtime sample_verify (investor_wallet_link_challenges sample_chain_db, investor_wallets sample_chain_db)"
    by (simp add: wallets_ok_def sample_chain_fields) (simp add: sample_challenge_def)
  then show ?thesis using wallets_proven [OF sample_run] by (simp add: sample_executors_def)
qed

text \<open>C7: both executors, as the code composes them and whatever the chain answers, only take the
  steps of the dispatch protocol: take an approved operation nobody has an open claim on, send it
  once, record it, settle it.\<close>

theorem executors_refine_protocol:
  "dispatch_step\<^sup>*\<^sup>* (allocation_view x) (allocation_view (x\<lparr>ex_db := snd (dispatchAllocationChainOperations rt cenv chain w (ex_db x))\<rparr>))
   \<and> dispatch_step\<^sup>*\<^sup>* (deployment_view x) (deployment_view (x\<lparr>ex_db := snd (dispatchOfferingChainDeployments rt cenv chain w (ex_db x))\<rparr>))"
  using alloc_dispatch.run_simulates [OF run_dispatch_allocations] deploy_dispatch.run_simulates [OF run_dispatch_deployments] by blast

section \<open>Where the code does less than it means to\<close>

text \<open>C14: a confirmation of an expired challenge fails, and the update that was to record the expiry is
  rolled back with it: the challenge stays issued.\<close>

theorem expired_challenge_stays_issued:
  assumes "signature_pattern (wf_signature inp)"
    and "first_row (\<lambda>c. lc_id c = wf_challengeId inp) (investor_wallet_link_challenges s) = Some c"
    and "lc_investor_identity_id c = wf_investorIdentityId inp" and "lc_status c = Challenge_issued" and "lc_expires_at c \<le> clock s"
    and "list_all (\<lambda>r. lc_id r = lc_id c \<longrightarrow> lc_status r = Challenge_issued) (investor_wallet_link_challenges s)"
  shows "confirmInvestorWalletLinkChallenge rt verify inp s = (Inl (InvestorWalletLinkError ''Wallet link challenge has expired''), s)"
proof -
  have "\<not> exists_row (\<lambda>r. lc_id r = lc_id c \<and> lc_status r \<noteq> Challenge_issued) (investor_wallet_link_challenges s)"
    using assms(6) by (auto simp: exists_row_def list_all_iff)
  then have "confirm_challenge_tx rt verify inp s = Inl (InvestorWalletLinkError ''Wallet link challenge has expired'')"
    using assms(2-5) by (simp add: confirm_challenge_tx_def close_challenge_def tx_simps)
  then show ?thesis using assms(1) by (simp add: confirmInvestorWalletLinkChallenge_def withPostgresTransaction_def)
qed

theorem expired_challenge_stays_issued_witness:
  "snd (confirmInvestorWalletLinkChallenge plain_runtime sample_verify
      \<lparr>wf_investorIdentityId = sample_uuid 100, wf_challengeId = sample_uuid 203, wf_signature = ''0x'' @ replicate 130 CHR ''a''\<rparr>
      (sample_chain_db\<lparr>investor_wallet_link_challenges := [sample_challenge\<lparr>lc_status := Challenge_issued\<rparr>]\<rparr>))
   = sample_chain_db\<lparr>investor_wallet_link_challenges := [sample_challenge\<lparr>lc_status := Challenge_issued\<rparr>]\<rparr>"
proof -
  have "signature_pattern (''0x'' @ replicate 130 CHR ''a'')" "lc_expires_at sample_challenge \<le> clock sample_chain_db" by code_simp+
  then show ?thesis
    by (subst expired_challenge_stays_issued [where c = "sample_challenge\<lparr>lc_status := Challenge_issued\<rparr>"])
       (simp_all add: first_row_def sample_challenge_def)
qed

definition never_minted :: "uuid \<Rightarrow> 'z chain_db_scheme \<Rightarrow> bool" where
  "never_minted i s \<longleftrightarrow>
     \<not> exists_row (\<lambda>m. ao_allocation_request_id m = i \<and> ao_operation_type m = Mint) (investment_allocation_chain_operations s)
     \<and> list_all (\<lambda>call. i \<notin> set (map (\<lambda>l. snd (snd l)) (mint_lines call))) (chain_calls s)"

lemma stranded_never_minted:
  assumes "executors_ok x" and "stranded i o' (investment_allocation_chain_operations (ex_db x)) due"
  shows "never_minted i (ex_db x)"
proof -
  have "\<not> exists_row (\<lambda>m. ao_allocation_request_id m = i \<and> ao_operation_type m = Mint) (investment_allocation_chain_operations (ex_db x))"
    using assms(2) by (simp add: stranded_def)
  moreover from this have "i \<notin> set (map (\<lambda>l. snd (snd l)) (mint_lines call))" if "call \<in> set (chain_calls (ex_db x))" for call
    using unminted [OF assms(1) _ that, of i] by (fastforce simp: exists_row_def)
  ultimately show ?thesis by (simp add: never_minted_def list_all_iff)
qed

text \<open>C13: the confirmation of a whitelisting and the release of its mint are two transactions, and
  nothing but the process that has just confirmed the whitelisting releases the mint. Once a
  whitelisting is confirmed, its allocation has no mint operation and no process is about to
  release it (the one that confirmed it has stopped), the allocation is never minted: after any
  run of commands and of any number of executors, with any other work and any answers of the
  chain, and after one more round of the executor, there is still no mint operation for it and no
  mint call names it.\<close>

theorem stranded_mint:
  assumes "issuance_inv x" and "(mint_step rt env verify)\<^sup>*\<^sup>* (x, due) (y, due')"
    and "w \<in> set (investment_allocation_chain_operations (ex_db x))" and "ao_operation_type w = Whitelist" and "op_status w = Op_confirmed"
    and "\<not> exists_row (\<lambda>m. ao_allocation_request_id m = ao_allocation_request_id w \<and> ao_operation_type m = Mint)
           (investment_allocation_chain_operations (ex_db x))"
    and "op_id w \<notin> set due"
  shows "never_minted (ao_allocation_request_id w) (ex_db y)
    \<and> never_minted (ao_allocation_request_id w) (snd (dispatchAllocationChainOperations rt cenv chain worker (ex_db y)))"
proof -
  let ?i = "ao_allocation_request_id w" and ?z = "y\<lparr>ex_db := snd (dispatchAllocationChainOperations rt cenv chain worker (ex_db y))\<rparr>"
  have ok: "executors_ok x" using assms(1) by (simp add: issuance_inv_def)
  have start: "stranded ?i (op_id w) (investment_allocation_chain_operations (ex_db x)) due"
    using assms(3-7) by (auto simp: stranded_def exists_row_def)
  have kept: "never_minted ?i (ex_db z)" if "(mint_step rt env verify)\<^sup>*\<^sup>* (x, due) (z, due'')" for z due''
    using stranded_never_minted [of z ?i "op_id w" due''] stranded_run [OF that] start ok
      executor_run_ok [OF mint_run_executors [OF that]] by simp
  have "(mint_step rt env verify)\<^sup>*\<^sup>* (x, due) (?z, due')"
    using assms(2) mint_dispatch_allocations [of rt env verify y due' cenv chain worker] by simp
  from kept [OF this] kept [OF assms(2)] show ?thesis by simp
qed

definition sample_stranded :: chain_db where
  "sample_stranded = sample_chain_db\<lparr>investment_allocation_chain_operations := [sample_operation 206 Whitelist Op_confirmed]\<rparr>"

text \<open>A chain that takes every call and has no receipts yet.\<close>

definition sample_chain :: chain_service where
  "sample_chain = \<lparr>cs_factoryOwner = (\<lambda>now calls. Inr ()), cs_factoryCap = (\<lambda>now calls. Inr ()),
     cs_deployed = (\<lambda>now calls offering. Inl (GenericError ''no confirmed deployment record'')),
     cs_send = (\<lambda>now calls c. Inr (''0x'' @ replicate 64 CHR ''e'')), cs_wait = (\<lambda>now calls h. Inl (GenericError ''pending''))\<rparr>"

definition sample_chain_env :: chain_env where
  "sample_chain_env = \<lparr>CHAIN_ID = 8453, TOKEN_FACTORY_ADDRESS = Some sample_contract, ALLOCATION_CHAIN_EXECUTOR_ENABLED = True,
     ALLOCATION_CHAIN_DISPATCH_BATCH_SIZE = 5, CHAIN_DEPLOYMENT_EXECUTOR_ENABLED = True, CHAIN_DEPLOYMENT_DISPATCH_BATCH_SIZE = 5\<rparr>"

lemma sample_stranded_inv: "issuance_inv (sample_executors\<lparr>ex_db := sample_stranded\<rparr>)"
proof -
  let ?x = "sample_executors\<lparr>ex_db := sample_stranded\<rparr>"
  have "executors_ok ?x" "sent_ok (investment_allocation_chain_operations sample_stranded) (chain_calls sample_stranded)"
    "dispatch_ok (allocation_view ?x)" "dispatch_ok (deployment_view ?x)"
    by (simp_all add: inv_defs sample_executors_def sample_stranded_def sample_calls)
       (simp_all add: sample_db_defs sample_row_defs view_op_def allocation_call_def deployment_call_def operation_backed_def
          deployment_call_ok_def allocated_def operation_key_def backed_allocation_def offering_backs_def)
  moreover have "mints_follow (chain_calls sample_stranded)"
    by (auto simp: mints_follow_def sample_stranded_def sample_calls Cons_eq_append_conv)
  ultimately show ?thesis by (simp add: issuance_inv_def order_ok_def)
qed

theorem stranded_mint_witness:
  "never_minted (sample_uuid 205) (snd (dispatchAllocationChainOperations plain_runtime sample_chain_env sample_chain ''w'' sample_stranded))
   \<and> rq_status (sample_allocation 205 Request_approved) = Request_approved"
proof -
  let ?w = "sample_operation 206 Whitelist Op_confirmed"
  have "?w \<in> set (investment_allocation_chain_operations sample_stranded)" "ao_operation_type ?w = Whitelist" "op_status ?w = Op_confirmed"
    "\<not> exists_row (\<lambda>m. ao_allocation_request_id m = ao_allocation_request_id ?w \<and> ao_operation_type m = Mint)
       (investment_allocation_chain_operations sample_stranded)"
    "ao_allocation_request_id ?w = sample_uuid 205" "rq_status (sample_allocation 205 Request_approved) = Request_approved"
    by (simp_all add: sample_stranded_def sample_row_defs)
  then show ?thesis
    using stranded_mint [OF sample_stranded_inv rtranclp.rtrancl_refl, of ?w "[]" plain_runtime sample_chain_env sample_chain "''w''"] by simp
qed

end
