(* ===== verification/Issuance_Overlaps.thy ===== *)
theory Issuance_Overlaps
  imports Issuance_Properties
begin

text \<open>
  Submissions of allocations that overlap. \<open>submitInvestmentAllocation\<close> reads the terms under a shared
  lock, sums the active allocations and inserts its own; at READ COMMITTED other transactions
  commit in between. Here a submission is two steps, its check and its insertion, with any other
  step between them. The supply of the terms is respected by runs in which submissions under
  the same terms are written one by one; nothing in the code makes runs so.
\<close>

section \<open>Submissions in two steps\<close>

text \<open>Everything before the insertion.\<close>

definition begin_allocation :: "runtime \<Rightarrow> allocation_input \<Rightarrow> int \<Rightarrow> ('z issuance_db_scheme, uuid \<times> allocation_facts) tx" where
  "begin_allocation rt inp chainId =
     bnd (randomUUID rt) (\<lambda>requestId. bnd (check_allocation inp chainId) (\<lambda>f. ret (requestId, f)))"

lemma submission_in_two: "submit_allocation_tx rt inp chainId s
   = bnd (begin_allocation rt inp chainId) (\<lambda>(requestId, f). write_allocation rt inp chainId requestId f) s"
  by (simp add: submit_allocation_tx_def begin_allocation_def bnd_def ret_def split: sum.split)

record submission =
  sb_input :: allocation_input
  sb_chainId :: int
  sb_requestId :: uuid
  sb_facts :: allocation_facts

abbreviation sb_terms :: "submission \<Rightarrow> uuid" where
  "sb_terms p \<equiv> li_issuanceTermsRequestId (sb_input p)"

definition write_submission :: "runtime \<Rightarrow> submission \<Rightarrow> ('z issuance_db_scheme, uuid \<times> int) tx" where
  "write_submission rt p = write_allocation rt (sb_input p) (sb_chainId p) (sb_requestId p) (sb_facts p)"

text \<open>The executors and the submissions that have checked and not yet written.\<close>

inductive submission_step ::
    "runtime \<Rightarrow> env_config \<Rightarrow> verifier \<Rightarrow> executors \<times> submission list \<Rightarrow> executors \<times> submission list \<Rightarrow> bool" for rt env verify where
  other: "executor_step rt env verify x y \<Longrightarrow> submission_step rt env verify (x, ps) (y, ps)"
| checked: "validChainId (li_chainId inp) = Inr chainId \<Longrightarrow> begin_allocation rt inp chainId (ex_db x) = Inr ((i, f), s')
    \<Longrightarrow> submission_step rt env verify (x, ps) (x\<lparr>ex_db := s'\<rparr>,
          \<lparr>sb_input = inp, sb_chainId = chainId, sb_requestId = i, sb_facts = f\<rparr> # ps)"
| written: "p \<in> set ps
    \<Longrightarrow> submission_step rt env verify (x, ps) (x\<lparr>ex_db := committed (write_submission rt p) (ex_db x)\<rparr>, remove1 p ps)"
| abandoned: "submission_step rt env verify (x, ps) (x, remove1 p ps)"

text \<open>Written one by one: while a submission is between its check and its insertion, no allocation under
  its terms is added.\<close>

definition allocations_under :: "uuid \<Rightarrow> allocation_row list \<Rightarrow> uuid list" where
  "allocations_under i allocs = map rq_id (filter (\<lambda>a. al_issuance_terms_request_id a = i) allocs)"

definition one_by_one :: "executors \<times> submission list \<Rightarrow> executors \<times> submission list \<Rightarrow> bool" where
  "one_by_one a b \<longleftrightarrow> (\<forall>p \<in> set (snd a) \<inter> set (snd b).
     allocations_under (sb_terms p) (investment_allocation_requests (ex_db (fst b)))
       = allocations_under (sb_terms p) (investment_allocation_requests (ex_db (fst a))))"

definition serial_step ::
    "runtime \<Rightarrow> env_config \<Rightarrow> verifier \<Rightarrow> executors \<times> submission list \<Rightarrow> executors \<times> submission list \<Rightarrow> bool" where
  "serial_step rt env verify a b \<longleftrightarrow> submission_step rt env verify a b \<and> one_by_one a b"

text \<open>Submissions that are not cut are runs of this kind, in any interleaving with the executors.\<close>

lemma executor_run_serial: "executor_run rt env verify x y \<Longrightarrow> (serial_step rt env verify)\<^sup>*\<^sup>* (x, []) (y, [])"
proof (induction rule: rtranclp_induct)
  case (step y z)
  have "serial_step rt env verify (y, []) (z, [])" using other [OF step.hyps(2)] by (simp add: serial_step_def one_by_one_def)
  with step.IH show ?case by (rule rtranclp.rtrancl_into_rtrancl)
qed simp

section \<open>The supply of some terms\<close>

text \<open>The allocated supply grows only with the list of allocations under the terms.\<close>

definition supply_moves :: "uuid \<Rightarrow> allocation_row list \<Rightarrow> allocation_row list \<Rightarrow> bool" where
  "supply_moves i allocs allocs' \<longleftrightarrow> list_all (\<lambda>a. 0 < al_token_amount a) allocs \<longrightarrow>
     list_all (\<lambda>a. 0 < al_token_amount a) allocs'
     \<and> (\<exists>new. allocations_under i allocs' = allocations_under i allocs @ new)
     \<and> (allocations_under i allocs' = allocations_under i allocs \<longrightarrow> allocated i allocs' \<le> allocated i allocs)"

lemma supply_moves_refl [simp]: "supply_moves i allocs allocs"
  by (simp add: supply_moves_def)

lemma supply_moves_trans: "supply_moves i a b \<Longrightarrow> supply_moves i b c \<Longrightarrow> supply_moves i a c"
  by (auto simp: supply_moves_def)

lemma supply_moves_run: "(supply_moves i)\<^sup>*\<^sup>* a b \<Longrightarrow> supply_moves i a b"
  by (induction rule: rtranclp_induct) (auto intro: supply_moves_trans)

lemma supply_moves_add:
  assumes "0 < al_token_amount row"
  shows "supply_moves i allocs (allocs @ [row])"
  using assms by (auto simp: supply_moves_def allocations_under_def allocated_def)

lemma supply_moves_decide:
  assumes "governed_decision inp allocs"
  shows "supply_moves i allocs (decided_rows inp now allocs)"
proof -
  have "allocations_under i (decided_rows inp now as) = allocations_under i as" for as
    by (induction as) (auto simp: allocations_under_def)
  moreover have "allocated i (decided_rows inp now allocs) \<le> allocated i allocs" if "list_all (\<lambda>a. 0 < al_token_amount a) allocs"
    unfolding allocated_def
    by (rule sum_rows_update_le) (use that decide_row_active [OF assms] in \<open>auto simp: list_all_iff less_imp_le\<close>)
  moreover have "list_all (\<lambda>a. 0 < al_token_amount a) (decided_rows inp now allocs)" if "list_all (\<lambda>a. 0 < al_token_amount a) allocs"
    using that by (auto simp: list_all_iff set_update_where)
  ultimately show ?thesis by (simp add: supply_moves_def)
qed

lemma change_supply:
  assumes "issuance_change rt verify s s'"
  shows "supply_moves i (investment_allocation_requests s) (investment_allocation_requests s')"
  using assms
proof cases
  case (allocation row)
  then show ?thesis using supply_moves_add [of row] by (simp add: same_issuance_def backed_allocation_def)
next
  case (decide_allocation inp)
  then show ?thesis using supply_moves_decide [OF decide_allocation(1)] by (simp add: same_issuance_def)
qed (simp_all add: same_issuance_def)

section \<open>A submission that has been checked\<close>

definition pending_ok :: "submission \<Rightarrow> 'z issuance_db_scheme \<Rightarrow> bool" where
  "pending_ok p s \<longleftrightarrow>
     (let inp = sb_input p; f = sb_facts p; t = lf_terms f; w = lf_wallet f in
      t \<in> set (offering_issuance_term_requests s) \<and> rq_id t = sb_terms p \<and> rq_status t = Request_approved
      \<and> rq_offering_id t = li_offeringId inp
      \<and> w \<in> set (investor_wallets s) \<and> wl_id w = li_walletId inp \<and> wl_chain_id w = sb_chainId p
      \<and> wl_investor_identity_id w = rv_investor_identity_id (lf_reservation f)
      \<and> rv_amount_minor (lf_reservation f) = tr_token_unit_price_minor t * lf_tokenAmount f \<and> 0 < lf_tokenAmount f
      \<and> allocated (sb_terms p) (investment_allocation_requests s) + lf_tokenAmount f \<le> tr_max_total_supply t)"

lemma begin_pending:
  assumes "begin_allocation rt inp chainId s = Inr ((i, f), s')"
  shows "pending_ok \<lparr>sb_input = inp, sb_chainId = chainId, sb_requestId = i, sb_facts = f\<rparr> s'"
    and "s' = s\<lparr>uuids_drawn := Suc (uuids_drawn s)\<rparr>"
proof -
  let ?s = "s\<lparr>uuids_drawn := Suc (uuids_drawn s)\<rparr>"
  have c: "check_allocation inp chainId ?s = Inr (f, s')"
    using assms unfolding begin_allocation_def by (auto simp: tx_Inr randomUUID_Inr elim!: tx_elims)
  note f = check_allocation_facts [OF c]
  show "s' = ?s" by (rule f(1))
  then show "pending_ok \<lparr>sb_input = inp, sb_chainId = chainId, sb_requestId = i, sb_facts = f\<rparr> s'"
    using f by (auto simp: pending_ok_def find_terms_def reserved_supply_def allocated_def dest!: first_row_Some)
qed

lemma pending_kept:
  assumes "pending_ok p s" and "\<And>t. t \<in> set (offering_issuance_term_requests s) \<Longrightarrow> rq_status t = Request_approved
      \<Longrightarrow> t \<in> set (offering_issuance_term_requests s')"
    and "set (investor_wallets s) \<subseteq> set (investor_wallets s')"
    and "supply_moves (sb_terms p) (investment_allocation_requests s) (investment_allocation_requests s')"
    and "issuance_ok s"
    and "allocations_under (sb_terms p) (investment_allocation_requests s') = allocations_under (sb_terms p) (investment_allocation_requests s)"
  shows "pending_ok p s'"
proof -
  have "list_all (\<lambda>a. 0 < al_token_amount a) (investment_allocation_requests s)"
    using assms(5) by (auto simp: issuance_ok_def allocations_ok_def backed_allocation_def list_all_iff)
  then have "allocated (sb_terms p) (investment_allocation_requests s') \<le> allocated (sb_terms p) (investment_allocation_requests s)"
    using assms(4,6) by (simp add: supply_moves_def)
  then show ?thesis using assms(1-3) unfolding pending_ok_def Let_def by auto
qed

lemma pending_change:
  assumes "issuance_change rt verify s s'" and "pending_ok p s" and "issuance_ok s"
    and "allocations_under (sb_terms p) (investment_allocation_requests s') = allocations_under (sb_terms p) (investment_allocation_requests s)"
  shows "pending_ok p s'"
proof (rule pending_kept [OF assms(2) _ _ change_supply [OF assms(1)] assms(3,4)])
  show "set (investor_wallets s) \<subseteq> set (investor_wallets s')" using change_wallets [OF assms(1)] by (simp add: wallet_change_def)
  fix t assume "t \<in> set (offering_issuance_term_requests s)" "rq_status t = Request_approved"
  with change_governed(1) [OF assms(1)] show "t \<in> set (offering_issuance_term_requests s')"
    by (induction rule: rtranclp_induct) (auto intro: decided_row_stays)
qed

lemma pending_step:
  assumes step: "executor_step rt env verify x y" and "pending_ok p (ex_db x)" and "issuance_ok (ex_db x)"
    and "allocations_under (sb_terms p) (investment_allocation_requests (ex_db y))
      = allocations_under (sb_terms p) (investment_allocation_requests (ex_db x))"
  shows "pending_ok p (ex_db y)"
proof (rule pending_kept [OF assms(2) _ _ _ assms(3,4)])
  have run: "executor_run rt env verify x y" using step by blast
  show "set (investor_wallets (ex_db x)) \<subseteq> set (investor_wallets (ex_db y))"
    using wallets_run [OF run] by (simp add: wallet_change_def)
  show "supply_moves (sb_terms p) (investment_allocation_requests (ex_db x)) (investment_allocation_requests (ex_db y))"
    by (rule supply_moves_run, rule step_respects [OF step, where f = investment_allocation_requests])
       (auto simp: same_requests_def intro: change_supply)
  show "t \<in> set (offering_issuance_term_requests (ex_db y))"
    if "t \<in> set (offering_issuance_term_requests (ex_db x))" "rq_status t = Request_approved" for t
    using terms_requests.decision_final [OF run] that by auto
qed

text \<open>What a checked submission writes is an allocation within the supply.\<close>

lemma write_changes:
  assumes ok: "issuance_ok s" and p: "pending_ok p s" and w: "write_submission rt p s = Inr (r, s')"
  shows "issuance_change rt verify s s'"
proof -
  let ?row = "allocation_row_of (sb_input p) (sb_chainId p) (sb_requestId p) (clock s) (sb_facts p)"
  note effect = write_allocation_effect [OF w [unfolded write_submission_def]]
  have terms: "find_terms (sb_terms p) s = Some (lf_terms (sb_facts p))"
    unfolding find_terms_def
    by (rule first_row_unique [of rq_id]) (use ok p in \<open>auto simp: issuance_ok_def terms_ok_def pending_ok_def Let_def\<close>)
  show ?thesis
  proof (rule allocation [OF _ _ _ _ effect(3)])
    show "fresh_request ?row (investment_allocation_requests s)" using effect(1) by (simp add: fresh_request_def)
    show "backed_allocation (offering_issuance_term_requests s) (investor_wallets s) ?row"
      using p by (auto simp: backed_allocation_def pending_ok_def Let_def)
    show "supply_left ?row s"
      using p terms by (auto simp: supply_left_def pending_ok_def reserved_supply_def allocated_def Let_def)
    show "al_reservation_id a \<noteq> al_reservation_id ?row" if "a \<in> set (investment_allocation_requests s)" "active_request a" for a
      using effect(2) [OF that] by simp
  qed
qed

section \<open>Serial runs keep the invariant\<close>

lemma issuance_inv_change: "issuance_change rt verify (ex_db x) s' \<Longrightarrow> issuance_inv x \<Longrightarrow> issuance_inv (x\<lparr>ex_db := s'\<rparr>)"
  using change_keeps_ok change_keeps_order dispatch_run_ok [OF change_simulates(1)] dispatch_run_ok [OF change_simulates(2)]
  unfolding issuance_inv_def by blast

definition overlap_inv :: "executors \<times> submission list \<Rightarrow> bool" where
  "overlap_inv a \<longleftrightarrow> issuance_inv (fst a) \<and> (\<forall>p \<in> set (snd a). pending_ok p (ex_db (fst a)))"

lemma overlap_change:
  assumes "issuance_change rt verify (ex_db x) s'" and "overlap_inv (x, ps)" and "one_by_one (x, ps) (x\<lparr>ex_db := s'\<rparr>, qs)" and "set qs \<subseteq> set ps"
  shows "overlap_inv (x\<lparr>ex_db := s'\<rparr>, qs)"
proof -
  have "pending_ok q s'" if "q \<in> set qs" for q
    by (rule pending_change [OF assms(1)]) (use assms(2-4) that in \<open>auto simp: overlap_inv_def one_by_one_def issuance_inv_def executors_ok_def\<close>)
  then show ?thesis using assms(2) issuance_inv_change [OF assms(1)] by (simp add: overlap_inv_def)
qed

lemma serial_step_inv:
  assumes "serial_step rt env verify a b" and inv: "overlap_inv a"
  shows "overlap_inv b"
proof -
  have one: "one_by_one a b" and "submission_step rt env verify a b" using assms(1) by (simp_all add: serial_step_def)
  from this(2) show ?thesis
  proof cases
    case (other x y ps)
    have "pending_ok p (ex_db y)" if "p \<in> set ps" for p
      by (rule pending_step [OF other(3)]) (use inv one other that in \<open>auto simp: overlap_inv_def one_by_one_def issuance_inv_def executors_ok_def\<close>)
    then show ?thesis using inv issuance_inv_run [OF r_into_rtranclp [of "executor_step rt env verify", OF other(3)]] other
      by (simp add: overlap_inv_def)
  next
    case (checked inp chainId x i f s' ps)
    have "issuance_change rt verify (ex_db x) s'" using begin_pending(2) [OF checked(4)] by (auto intro: no_change simp: same_issuance_def)
    then have "overlap_inv (x\<lparr>ex_db := s'\<rparr>, ps)"
      using overlap_change [of rt verify x s' ps ps] inv checked(1) begin_pending(2) [OF checked(4)] by (simp add: one_by_one_def)
    then show ?thesis using begin_pending(1) [OF checked(4)] checked(2) by (simp add: overlap_inv_def)
  next
    case (written p ps x)
    have "issuance_change rt verify (ex_db x) (committed (write_submission rt p) (ex_db x))"
      by (rule committed_cases)
         (use inv written in \<open>auto simp: overlap_inv_def issuance_inv_def executors_ok_def intro: write_changes no_change\<close>)
    then show ?thesis using overlap_change inv one written set_remove1_subset [of p ps] by blast
  next
    case (abandoned x ps p)
    then show ?thesis using inv set_remove1_subset [of p ps] by (auto simp: overlap_inv_def)
  qed
qed

lemma serial_run_inv: "(serial_step rt env verify)\<^sup>*\<^sup>* (x, []) (y, ps) \<Longrightarrow> issuance_inv x \<Longrightarrow> issuance_inv y"
proof -
  have "overlap_inv b" if "(serial_step rt env verify)\<^sup>*\<^sup>* a b" "overlap_inv a" for a b
    using that by (induction rule: rtranclp_induct) (auto intro: serial_step_inv)
  then show "(serial_step rt env verify)\<^sup>*\<^sup>* (x, []) (y, ps) \<Longrightarrow> issuance_inv x \<Longrightarrow> issuance_inv y"
    by (fastforce simp: overlap_inv_def)
qed

section \<open>Properties\<close>

text \<open>C5: as long as submissions under the same terms are written one by one (while one of them is
  between its check of the supply and its insertion no other is inserted; the code does not enforce
  it, and C12 shows what happens otherwise), the tokens minted under some terms never exceed their
  approved maximum supply, and at the terms' price they are worth no more than the capacity of the
  offering, whatever else is interleaved.\<close>

theorem minted_within_cap:
  assumes "issuance_inv x" and "(serial_step rt env verify)\<^sup>*\<^sup>* (x, []) (y, ps)"
    and "t \<in> set (offering_issuance_term_requests (ex_db y))"
  shows "minted (rq_id t) (ex_db y) \<le> tr_max_total_supply t
    \<and> (\<exists>p \<in> set (offering_products (ex_db y)). of_id p = rq_offering_id t
         \<and> tr_token_unit_price_minor t * minted (rq_id t) (ex_db y) \<le> of_capacity_minor p)"
proof -
  have inv: "issuance_inv y" using serial_run_inv [OF assms(2)] assms(1) by simp
  have "distinct (concat (map allocation_call_id (chain_calls (ex_db y))))"
    using dispatch_ok_distinct [of "allocation_view y"] inv by (simp add: issuance_inv_def allocation_view_def)
  then have "minted (rq_id t) (ex_db y) \<le> allocated (rq_id t) (investment_allocation_requests (ex_db y))"
    using minted_within_allocated inv by (simp add: issuance_inv_def)
  also have "\<dots> \<le> tr_max_total_supply t"
    using inv assms(3) by (simp add: issuance_inv_def executors_ok_def issuance_ok_def supply_ok_def)
  finally have cap: "minted (rq_id t) (ex_db y) \<le> tr_max_total_supply t" .
  have "0 < tr_token_unit_price_minor t" "offering_backs (offering_products (ex_db y)) t"
    using inv assms(3) by (simp_all add: issuance_inv_def executors_ok_def issuance_ok_def terms_ok_def)
  then show ?thesis using cap by (fastforce simp: offering_backs_def intro: order_trans [OF mult_left_mono])
qed

theorem minted_within_cap_witness:
  "minted (sample_uuid 201) sample_minted \<le> 50 \<and> minted (sample_uuid 201) sample_minted = 20"
proof -
  have "rq_id sample_terms = sample_uuid 201" "tr_max_total_supply sample_terms = 50"
    "minted (sample_uuid 201) sample_minted = 20"
    by (simp_all add: sample_terms_def sample_request_def request_row.defs terms_row.defs minted_def sample_mint_call sample_unchanged)
      (code_simp)
  then show ?thesis using minted_within_cap [OF sample_inv executor_run_serial [OF sample_run], of sample_terms] sample_unchanged by simp
qed

text \<open>C10: as long as submissions under the same terms are written one by one (which the code does not
  enforce, see C12), the active allocations of some terms stay within their maximum supply, and the
  money behind them within the capacity of the offering, whatever else is interleaved.\<close>

theorem allocations_within_supply:
  assumes "issuance_inv x" and "(serial_step rt env verify)\<^sup>*\<^sup>* (x, []) (y, ps)"
    and "t \<in> set (offering_issuance_term_requests (ex_db y))"
  shows "reserved_supply (rq_id t) (ex_db y) \<le> tr_max_total_supply t
    \<and> (\<exists>p \<in> set (offering_products (ex_db y)). of_id p = rq_offering_id t
         \<and> sum_rows (\<lambda>a. al_issuance_terms_request_id a = rq_id t \<and> active_request a) al_invested_minor
             (investment_allocation_requests (ex_db y)) \<le> of_capacity_minor p)"
proof -
  have ok: "issuance_ok (ex_db y)" using serial_run_inv [OF assms(2)] assms(1) by (simp add: issuance_inv_def executors_ok_def)
  then have "reserved_supply (rq_id t) (ex_db y) \<le> tr_max_total_supply t"
    using assms(3) by (simp add: issuance_ok_def supply_ok_def allocated_def reserved_supply_def)
  then show ?thesis using invested_within_capacity [OF ok assms(3)] by blast
qed

theorem allocations_within_supply_witness: "reserved_supply (sample_uuid 201) sample_minted \<le> 50"
proof -
  have "rq_id sample_terms = sample_uuid 201" "tr_max_total_supply sample_terms = 50"
    by (simp_all add: sample_terms_def sample_request_def request_row.defs terms_row.defs)
  then show ?thesis using allocations_within_supply [OF sample_inv executor_run_serial [OF sample_run], of sample_terms] sample_unchanged by simp
qed

end
