(* ===== verification/Issuance_Races.thy ===== *)
theory Issuance_Races
  imports Issuance_Overlaps
begin

text \<open>
  Two allocation submissions at the same time. A submission reads the terms under a shared lock and
  sums the active allocations before it inserts its own; two of them that both read first are both
  accepted, and together exceed the approved supply.
\<close>

text \<open>Two submissions at READ COMMITTED that both read before either inserts: the lock on the terms is
  shared and the reservations differ, so nothing orders them. The statements on the allocation
  table, in that order; the audit and outbox events that follow each insert touch other tables.\<close>

definition interleaved_allocations ::
    "allocation_input \<times> int \<times> uuid \<Rightarrow> allocation_input \<times> int \<times> uuid \<Rightarrow>
     ('z issuance_db_scheme, allocation_facts \<times> allocation_facts) tx" where
  "interleaved_allocations a b =
     bnd (check_allocation (fst a) (fst (snd a))) (\<lambda>f.
     bnd (check_allocation (fst b) (fst (snd b))) (\<lambda>g.
     bnd (query clock) (\<lambda>now.
     andThen (insert_allocation (allocation_row_of (fst a) (fst (snd a)) (snd (snd a)) now f))
     (andThen (insert_allocation (allocation_row_of (fst b) (fst (snd b)) (snd (snd b)) now g))
     (ret (f, g))))))"

lemma check_reads: "check_allocation inp c s = Inr (h, s') \<Longrightarrow> s' = s"
  by (rule check_allocation_facts(1))

lemma insert_allocation_adds:
  assumes "insert_allocation row s = Inr (u, s')"
  shows "s' = s\<lparr>investment_allocation_requests := investment_allocation_requests s @ [row]\<rparr>"
  using assms unfolding insert_allocation_def by (auto simp: tx_Inr market_Inr elim!: tx_elims)

text \<open>What one insertion needs is not taken away by another, of another request for another
  reservation: the table has no constraint on the supply.\<close>

lemma insert_allocation_after:
  assumes "insert_allocation row s = Inr (u, s1)" and "insert_allocation row' s = Inr (v, s2)"
    and "rq_id row \<noteq> rq_id row'" and "al_reservation_id row \<noteq> al_reservation_id row'"
  shows "\<exists>s'. insert_allocation row' s1 = Inr ((), s')"
  unfolding insert_allocation_adds [OF assms(1)]
  using assms(2-4) unfolding insert_allocation_def
  by (auto simp: tx_simps checked_insert_def identity_known_def exists_row_def split: if_splits)

lemma reserved_supply_adds:
  "reserved_supply i (s\<lparr>investment_allocation_requests := investment_allocation_requests s @ [allocation_row_of inp c k now h]\<rparr>)
     = reserved_supply i s + (if li_issuanceTermsRequestId inp = i then lf_tokenAmount h else 0)"
  by (simp add: reserved_supply_def active_request_def)

text \<open>C12: two submissions under the same terms, for different reservations, that each pass the checks and
  could each be inserted alone, are both accepted when both check before either inserts; if their
  amounts together exceed what is left of the maximum supply, the supply is exceeded afterwards.\<close>

theorem concurrent_allocations_oversell:
  assumes "check_allocation inp c s = Inr (f, sa)" and "check_allocation inp' c' s = Inr (g, sb)"
    and "insert_allocation (allocation_row_of inp c k (clock s) f) s = Inr (u, s1)"
    and "insert_allocation (allocation_row_of inp' c' k' (clock s) g) s = Inr (v, s2)"
    and "k \<noteq> k'" and "li_reservationId inp \<noteq> li_reservationId inp'"
    and "li_issuanceTermsRequestId inp = i" and "li_issuanceTermsRequestId inp' = i"
    and "tr_max_total_supply (lf_terms f) < reserved_supply i s + lf_tokenAmount f + lf_tokenAmount g"
  shows "\<exists>s'. interleaved_allocations (inp, c, k) (inp', c', k') s = Inr ((f, g), s')
    \<and> tr_max_total_supply (lf_terms f) < reserved_supply i s'"
proof -
  have reads: "sa = s" "sb = s" using check_reads assms(1,2) by blast+
  obtain s' where s': "insert_allocation (allocation_row_of inp' c' k' (clock s) g) s1 = Inr ((), s')"
    using insert_allocation_after [OF assms(3,4)] assms(5,6) by auto
  have "interleaved_allocations (inp, c, k) (inp', c', k') s = Inr ((f, g), s')"
    using assms(1-3) s' reads by (simp add: interleaved_allocations_def tx_simps)
  moreover have "reserved_supply i s1 = reserved_supply i s + lf_tokenAmount f"
    by (simp add: insert_allocation_adds [OF assms(3)] reserved_supply_adds assms(7))
  moreover have "reserved_supply i s' = reserved_supply i s1 + lf_tokenAmount g"
    by (simp add: insert_allocation_adds [OF s'] reserved_supply_adds assms(8))
  ultimately show ?thesis using assms(9) by auto
qed

text \<open>Terms of 50 tokens, and two paid reservations of 30 tokens each.\<close>

definition sample_paid :: "nat \<Rightarrow> nat \<Rightarrow> reservation_row" where
  "sample_paid n c = (sample_reservation n Reservation_confirmed (Some (sample_uuid c)))\<lparr>rv_amount_minor := 3000\<rparr>"

definition sample_payment :: "nat \<Rightarrow> nat \<Rightarrow> intent_row" where
  "sample_payment n c = \<lparr>in_id = sample_uuid n, in_commitment_id = sample_uuid c, in_provider = ''paystack'', in_provider_reference = ''R'',
     in_expected_minor = 3000, in_currency = ''NGN'', in_status = Intent_receipt_matched, in_expires_at = 2000, in_metadata = []\<rparr>"

definition sample_match :: "nat \<Rightarrow> nat \<Rightarrow> receipt_row" where
  "sample_match n i = \<lparr>rc_id = sample_uuid n, rc_payment_intent_id = sample_uuid i, rc_provider = ''paystack'', rc_provider_event_id = ''E'',
     rc_payload_hash = ''h'', rc_amount_minor = 3000, rc_currency = ''NGN'', rc_status = Matched, rc_journal_id = None, rc_received_at = 1500, rc_metadata = []\<rparr>"

definition sample_submission :: "nat \<Rightarrow> allocation_input" where
  "sample_submission r = \<lparr>li_organizationId = sample_uuid 102, li_offeringId = sample_uuid 103, li_issuanceTermsRequestId = sample_uuid 201,
     li_reservationId = sample_uuid r, li_walletId = sample_uuid 204, li_chainId = Integral 8453, li_submittedByIdentityId = sample_uuid 101\<rparr>"

definition sample_race_db :: chain_db where
  "sample_race_db = sample_chain_db\<lparr>investment_allocation_requests := [], investment_allocation_chain_operations := [],
     investor_compliance_profiles := [sample_profile\<lparr>pr_expires_at := None\<rparr>],
     investment_reservations := [sample_paid 301 303, sample_paid 302 304],
     payment_intents := [sample_payment 305 303, sample_payment 306 304],
     payment_receipts := [sample_match 307 305, sample_match 308 306]\<rparr>"

definition outcome :: "error + 'a \<times> 's \<Rightarrow> error + 'a" where
  "outcome r = (case r of Inl e \<Rightarrow> Inl e | Inr (a, s) \<Rightarrow> Inr a)"

definition sample_facts :: "reservation_row \<Rightarrow> allocation_facts" where
  "sample_facts r = \<lparr>lf_reservation = r, lf_terms = sample_terms, lf_wallet = sample_wallet,
     lf_profile = sample_profile\<lparr>pr_expires_at := None\<rparr>, lf_tokenAmount = 30\<rparr>"

definition sample_row :: "nat \<Rightarrow> nat \<Rightarrow> nat \<Rightarrow> allocation_row" where
  "sample_row n r c = allocation_row_of (sample_submission r) 8453 (sample_uuid n) 3000 (sample_facts (sample_paid r c))"

lemma sample_checks:
  "outcome (check_allocation (sample_submission 301) 8453 sample_race_db) = Inr (sample_facts (sample_paid 301 303))"
  "outcome (check_allocation (sample_submission 302) 8453 sample_race_db) = Inr (sample_facts (sample_paid 302 304))"
  by (simp_all add: check_allocation_def tx_simps outcome_def sample_submission_def sample_facts_def sample_race_db_def sample_db_defs
      sample_row_defs sample_paid_def sample_match_def sample_payment_def sample_profile_def confirmed_reservation_def matching_terms_def
      investor_wallet_def active_profile_def derived_tokens_def reserved_supply_def matched_receipt_def find_terms_def)

lemma sample_row_sels [simp]:
  "rq_id (sample_row n r c) = sample_uuid n" "rq_organization_id (sample_row n r c) = sample_uuid 102" "rq_offering_id (sample_row n r c) = sample_uuid 103"
  "rq_submitted_by_identity_id (sample_row n r c) = sample_uuid 101" "al_chain_id (sample_row n r c) = 8453"
  "al_wallet_address (sample_row n r c) = sample_address" "al_invested_minor (sample_row n r c) = 3000" "al_currency (sample_row n r c) = ''NGN''"
  "al_token_unit_price_minor (sample_row n r c) = 100" "al_token_amount (sample_row n r c) = 30"
  "al_allocation_policy_hash (sample_row n r c) = replicate 64 CHR ''b''" "al_issuance_terms_request_id (sample_row n r c) = sample_uuid 201"
  "al_reservation_id (sample_row n r c) = sample_uuid r" "al_investor_identity_id (sample_row n r c) = sample_uuid 100"
  "al_wallet_id (sample_row n r c) = sample_uuid 204"
  by (simp_all add: sample_row_def allocation_row_of_def new_request_def request_row.defs allocation_row.defs sample_submission_def
      sample_facts_def sample_paid_def sample_reservation_def sample_terms_def terms_row.defs sample_wallet_def)

lemma sample_columns:
  "hex_text 40 sample_address" "toUpperCase ''NGN'' = ''NGN''" "sha256_text (replicate 64 CHR ''b'')"
  "8453 \<le> PG_INTEGER_MAX" "3000 \<le> PG_BIGINT_MAX" "100 \<le> PG_BIGINT_MAX"
  "sample_uuid 309 \<noteq> sample_uuid 310" "sample_uuid 301 \<noteq> sample_uuid 302"
  by code_simp+

lemma sample_references:
  "sample_uuid 102 \<in> set (organizations sample_race_db)"
  "exists_row (\<lambda>p. of_id p = sample_uuid 103) (offering_products sample_race_db)"
  "exists_row (\<lambda>t. rq_id t = sample_uuid 201) (offering_issuance_term_requests sample_race_db)"
  "exists_row (\<lambda>r. rv_id r = sample_uuid 301) (investment_reservations sample_race_db)"
  "exists_row (\<lambda>r. rv_id r = sample_uuid 302) (investment_reservations sample_race_db)"
  "exists_row (\<lambda>w. wl_id w = sample_uuid 204) (investor_wallets sample_race_db)"
  "identity_known (sample_uuid 100) sample_race_db" "identity_known (sample_uuid 101) sample_race_db"
  by (simp_all add: identity_known_def sample_race_db_def sample_db_defs sample_row_defs sample_paid_def)

lemma sample_room: "reserved_supply (sample_uuid 201) sample_race_db = 0" "investment_allocation_requests sample_race_db = []"
  "clock sample_race_db = 3000" "tr_max_total_supply sample_terms = 50"
  by (simp_all add: reserved_supply_def sample_race_db_def sample_db_defs sample_row_defs)

lemma race_outcome_Inr: "outcome r = Inr a \<Longrightarrow> \<exists>s'. r = Inr (a, s')"
  by (auto simp: outcome_def split: sum.splits)

lemma sample_inserts:
  "outcome (insert_allocation (sample_row 309 301 303) sample_race_db) = Inr ()"
  "outcome (insert_allocation (sample_row 310 302 304) sample_race_db) = Inr ()"
  using sample_columns sample_references sample_room(2)
  by (simp_all add: insert_allocation_def tx_simps checked_insert_def outcome_def identity_known_def exists_row_def)

theorem concurrent_allocations_oversell_witness:
  "\<exists>s'. interleaved_allocations (sample_submission 301, 8453, sample_uuid 309) (sample_submission 302, 8453, sample_uuid 310) sample_race_db
       = Inr ((sample_facts (sample_paid 301 303), sample_facts (sample_paid 302 304)), s')
     \<and> 50 < reserved_supply (sample_uuid 201) s'"
proof -
  let ?f = "sample_facts (sample_paid 301 303)" and ?g = "sample_facts (sample_paid 302 304)"
  obtain sa sb where checks: "check_allocation (sample_submission 301) 8453 sample_race_db = Inr (?f, sa)"
    "check_allocation (sample_submission 302) 8453 sample_race_db = Inr (?g, sb)"
    using race_outcome_Inr sample_checks by metis
  obtain s1 s2 where inserts:
    "insert_allocation (allocation_row_of (sample_submission 301) 8453 (sample_uuid 309) (clock sample_race_db) ?f) sample_race_db = Inr ((), s1)"
    "insert_allocation (allocation_row_of (sample_submission 302) 8453 (sample_uuid 310) (clock sample_race_db) ?g) sample_race_db = Inr ((), s2)"
    using race_outcome_Inr [OF sample_inserts(1)] race_outcome_Inr [OF sample_inserts(2)] by (auto simp: sample_row_def sample_room(3))
  have "li_reservationId (sample_submission 301) \<noteq> li_reservationId (sample_submission 302)"
    "li_issuanceTermsRequestId (sample_submission 301) = sample_uuid 201" "li_issuanceTermsRequestId (sample_submission 302) = sample_uuid 201"
    "tr_max_total_supply (lf_terms ?f) = 50" "lf_tokenAmount ?f = 30" "lf_tokenAmount ?g = 30"
    by (simp_all add: sample_submission_def sample_facts_def sample_room)
  with concurrent_allocations_oversell [OF checks inserts, of "sample_uuid 201"] show ?thesis by (simp add: sample_room)
qed

end
