(* ===== verification/Distribution_Shares.thy ===== *)
theory Distribution_Shares
  imports Prelude
begin

text \<open>
  How a declared distribution is divided among the holders of a snapshot, and what is withheld
  from each (\<^verbatim>\<open>src/platform/postgres-distributions.ts\<close>: \<open>allocate\<close> and the projection of
  \<open>submitDistributionDeclaration\<close>). Amounts are \<open>bigint\<close>s, hence integers; \<open>localeCompare\<close> on
  lower-case UUID text is the code-unit order. The theorems: the shares add up to the declared
  amount to the last minor unit, each is the exact proportion rounded down or up, and nobody
  with a smaller holding receives more.
\<close>

section \<open>Holdings\<close>

record holding =
  hd_investor_identity_id :: uuid
  hd_balance_units :: int

record share =
  sh_investor_identity_id :: uuid
  sh_balance_units :: int
  sh_gross :: int
  sh_remainder :: int

text \<open>\<open>SELECT investor_identity_id, sum(balance_units) ... GROUP BY ... ORDER BY\<close> over the wallets
  of a snapshot.\<close>

definition grouped_holdings :: "(uuid \<times> int) list \<Rightarrow> holding list" where
  "grouped_holdings rows =
     map (\<lambda>i. \<lparr>hd_investor_identity_id = i, hd_balance_units = sum_rows (\<lambda>r. fst r = i) snd rows\<rparr>)
       (sort_by str_le (unique_values (map fst rows)))"

section \<open>Largest remainders\<close>

definition total_units :: "holding list \<Rightarrow> int" where
  "total_units holdings = sum_list (map hd_balance_units holdings)"

definition floor_share :: "int \<Rightarrow> int \<Rightarrow> holding \<Rightarrow> share" where
  "floor_share gross units h =
     (let numerator = gross * hd_balance_units h in
      \<lparr>sh_investor_identity_id = hd_investor_identity_id h, sh_balance_units = hd_balance_units h,
       sh_gross = numerator div units, sh_remainder = numerator mod units\<rparr>)"

definition by_remainder :: "share \<Rightarrow> share \<Rightarrow> bool" where
  "by_remainder a b \<longleftrightarrow>
     (if sh_remainder a = sh_remainder b then str_le (sh_investor_identity_id a) (sh_investor_identity_id b)
      else sh_remainder b < sh_remainder a)"

definition by_investor :: "share \<Rightarrow> share \<Rightarrow> bool" where
  "by_investor a b \<longleftrightarrow> str_le (sh_investor_identity_id a) (sh_investor_identity_id b)"

text \<open>The loop hands one unit to each row in turn while a residual is left; beyond the last row
  \<open>rows[index]\<close> is undefined.\<close>

fun hand_out :: "int \<Rightarrow> share list \<Rightarrow> error + share list" where
  "hand_out residual [] = (if 0 < residual then Inl (GenericError ''Cannot read properties of undefined'') else Inr [])"
| "hand_out residual (r # rs) =
     (if 0 < residual
      then case hand_out (residual - 1) rs of
          Inl e \<Rightarrow> Inl e
        | Inr rs' \<Rightarrow> Inr (r\<lparr>sh_gross := sh_gross r + 1\<rparr> # rs')
      else Inr (r # rs))"

definition allocate :: "int \<Rightarrow> holding list \<Rightarrow> error + share list" where
  "allocate gross holdings =
     (let rows = map (floor_share gross (total_units holdings)) holdings;
          residual = gross - sum_list (map sh_gross rows) in
      case hand_out residual (sort_by by_remainder rows) of
        Inl e \<Rightarrow> Inl e
      | Inr rows' \<Rightarrow> Inr (sort_by by_investor rows'))"

section \<open>Withholding\<close>

record entitlement_amounts =
  en_investor :: uuid
  en_units :: int
  en_gross :: int
  en_tax :: int
  en_net :: int

definition project :: "int \<Rightarrow> share \<Rightarrow> entitlement_amounts" where
  "project withholdingTaxBps r =
     (let tax = sh_gross r * withholdingTaxBps div 10000 in
      \<lparr>en_investor = sh_investor_identity_id r, en_units = sh_balance_units r, en_gross = sh_gross r,
       en_tax = tax, en_net = sh_gross r - tax\<rparr>)"

text \<open>The entitlements of a declaration with its withheld and net totals, or the refusal of an
  amount too small to give every holder something.\<close>

definition project_declaration :: "int \<Rightarrow> int \<Rightarrow> holding list \<Rightarrow> error + entitlement_amounts list \<times> int \<times> int" where
  "project_declaration gross withholdingTaxBps holdings =
     (case allocate gross holdings of
        Inl e \<Rightarrow> Inl e
      | Inr allocations \<Rightarrow>
          if list_ex (\<lambda>r. sh_gross r \<le> 0) allocations
          then Inl (DistributionAuthorityError ''conflict'' ''Gross amount is too small to create a positive entitlement for every holder.'')
          else let projected = map (project withholdingTaxBps) allocations;
                   tax = sum_list (map en_tax projected) in
               Inr (projected, tax, gross - tax))"

section \<open>Sorting and summing\<close>

lemma insert_by_sorted_wrt:
  assumes "\<And>x y. le x y \<or> le y x" and "transp le"
  shows "sorted_wrt le xs \<Longrightarrow> sorted_wrt le (insert_by le x xs)"
proof (induction xs)
  case (Cons y ys)
  then show ?case using assms(1) [of x y] transpD [OF assms(2), of x y] by auto
qed simp

lemma sort_by_sorted_wrt: "(\<And>x y. le x y \<or> le y x) \<Longrightarrow> transp le \<Longrightarrow> sorted_wrt le (sort_by le xs)"
  by (induction xs) (simp_all add: insert_by_sorted_wrt)

lemma sum_list_insert_by: "sum_list (map f (insert_by le x xs)) = f x + sum_list (map f xs)" for f :: "'a \<Rightarrow> int"
  by (induction xs) auto

lemma sum_list_sort_by [simp]: "sum_list (map f (sort_by le xs)) = sum_list (map f xs)" for f :: "'a \<Rightarrow> int"
  by (induction xs) (simp_all add: sum_list_insert_by)

lemma map_insert_by: "(\<And>a b. le a b \<longleftrightarrow> le' (f a) (f b)) \<Longrightarrow> map f (insert_by le x xs) = insert_by le' (f x) (map f xs)"
  by (induction xs) auto

lemma map_sort_by: "(\<And>a b. le a b \<longleftrightarrow> le' (f a) (f b)) \<Longrightarrow> map f (sort_by le xs) = sort_by le' (map f xs)"
  by (induction xs) (simp_all add: map_insert_by)

lemma by_remainder_order: "by_remainder a b \<or> by_remainder b a" "transp by_remainder"
proof -
  show "by_remainder a b \<or> by_remainder b a" using str_le_total by (auto simp: by_remainder_def)
  show "transp by_remainder"
  proof (rule transpI)
    fix a b c assume "by_remainder a b" "by_remainder b c"
    then show "by_remainder a c"
      using str_le_trans [of "sh_investor_identity_id a" "sh_investor_identity_id b" "sh_investor_identity_id c"]
      by (simp add: by_remainder_def split: if_splits)
  qed
qed

lemma str_le_sort_unique:
  assumes "sorted_wrt str_le xs" and "sorted_wrt str_le ys" and "distinct xs" and "distinct ys" and "set xs = set ys"
  shows "xs = ys"
  using assms
proof (induction xs arbitrary: ys)
  case (Cons x xs)
  obtain y zs where ys: "ys = y # zs" using Cons.prems(5) by (cases ys) auto
  have "str_le x y" "str_le y x" using Cons.prems unfolding ys by (auto simp: set_eq_iff)
  then have "x = y" by (rule str_le_antisym)
  with Cons ys show ?case by (metis distinct.simps(2) insert_ident list.simps(15) sorted_wrt.simps(2))
qed simp

section \<open>The residual\<close>

definition bump :: "share \<Rightarrow> share" where
  "bump r = r\<lparr>sh_gross := sh_gross r + 1\<rparr>"

lemma hand_out_take: "0 \<le> k \<Longrightarrow> k \<le> int (length rs) \<Longrightarrow> hand_out k rs = Inr (map bump (take (nat k) rs) @ drop (nat k) rs)"
proof (induction k rs rule: hand_out.induct)
  case (2 k r rs)
  show ?case
  proof (cases "0 < k")
    case True
    then have "nat k = Suc (nat (k - 1))" by simp
    with True 2 show ?thesis by (simp add: bump_def)
  qed (use 2 in simp)
qed simp

lemma sum_list_floor:
  assumes "0 < units"
  shows "units * sum_list (map (sh_gross \<circ> floor_share gross units) hs) + sum_list (map (sh_remainder \<circ> floor_share gross units) hs)
    = gross * total_units hs"
  by (induction hs) (simp_all add: total_units_def floor_share_def Let_def algebra_simps)

lemma sum_list_remainders:
  assumes "0 < units" and "hs \<noteq> []"
  shows "0 \<le> sum_list (map (sh_remainder \<circ> floor_share gross units) hs)
    \<and> sum_list (map (sh_remainder \<circ> floor_share gross units) hs) < units * int (length hs)"
  using assms(2)
proof (induction hs rule: list_nonempty_induct)
  case (cons h hs)
  have "0 \<le> sh_remainder (floor_share gross units h)" "sh_remainder (floor_share gross units h) < units"
    using assms(1) by (simp_all add: floor_share_def Let_def)
  with cons show ?case by (simp add: algebra_simps)
qed (use assms(1) in \<open>simp add: floor_share_def Let_def\<close>)

lemma residual_bounds:
  fixes gross :: int and hs :: "holding list"
  assumes "0 < total_units hs"
  defines "residual \<equiv> gross - sum_list (map (sh_gross \<circ> floor_share gross (total_units hs)) hs)"
  shows "0 \<le> residual" and "residual < int (length hs)"
proof -
  let ?T = "total_units hs"
  have ne: "hs \<noteq> []" using assms(1) by (auto simp: total_units_def)
  have eq: "?T * residual = sum_list (map (sh_remainder \<circ> floor_share gross ?T) hs)"
    using sum_list_floor [OF assms(1), of gross hs] by (simp add: residual_def algebra_simps)
  have "0 \<le> ?T * residual" and "?T * residual < ?T * int (length hs)"
    using sum_list_remainders [OF assms(1) ne, of gross] unfolding eq by auto
  then show "0 \<le> residual" and "residual < int (length hs)"
    using assms(1) by (simp_all add: zero_le_mult_iff mult_less_cancel_left_pos)
qed

section \<open>Shares\<close>

text \<open>The rows of an allocation: the first \<open>k\<close> by remainder are rounded up, the others down.\<close>

lemma allocate_rows:
  assumes "0 < total_units hs"
  obtains k where "k < length hs"
    and "k = nat (gross - sum_list (map (sh_gross \<circ> floor_share gross (total_units hs)) hs))"
    and "allocate gross hs = Inr (sort_by by_investor
          (map bump (take k (sort_by by_remainder (map (floor_share gross (total_units hs)) hs)))
           @ drop k (sort_by by_remainder (map (floor_share gross (total_units hs)) hs))))"
proof -
  let ?r = "gross - sum_list (map (sh_gross \<circ> floor_share gross (total_units hs)) hs)"
  have "hand_out ?r (sort_by by_remainder (map (floor_share gross (total_units hs)) hs))
      = Inr (map bump (take (nat ?r) (sort_by by_remainder (map (floor_share gross (total_units hs)) hs)))
           @ drop (nat ?r) (sort_by by_remainder (map (floor_share gross (total_units hs)) hs)))"
    using residual_bounds [OF assms, of gross] by (intro hand_out_take) auto
  moreover have "nat ?r < length hs" using residual_bounds [OF assms, of gross] by auto
  ultimately show thesis by (intro that [of "nat ?r"]) (simp_all add: allocate_def Let_def)
qed

lemma sum_bump: "sum_list (map sh_gross (map bump rs)) = sum_list (map sh_gross rs) + int (length rs)"
  by (induction rs) (simp_all add: bump_def)

lemma bump_sel [simp]:
  "sh_investor_identity_id (bump r) = sh_investor_identity_id r" "sh_balance_units (bump r) = sh_balance_units r"
  "sh_gross (bump r) = sh_gross r + 1"
  by (simp_all add: bump_def)

lemma allocate_sum:
  assumes "0 < total_units hs" and "allocate gross hs = Inr rows"
  shows "sum_list (map sh_gross rows) = gross"
proof -
  obtain k where k: "k < length hs" "k = nat (gross - sum_list (map (sh_gross \<circ> floor_share gross (total_units hs)) hs))"
    and rows: "rows = sort_by by_investor
          (map bump (take k (sort_by by_remainder (map (floor_share gross (total_units hs)) hs)))
           @ drop k (sort_by by_remainder (map (floor_share gross (total_units hs)) hs)))"
    using allocate_rows [OF assms(1), of gross] assms(2) by (metis Inr_inject)
  let ?S = "sort_by by_remainder (map (floor_share gross (total_units hs)) hs)"
  have "sum_list (map sh_gross rows) = sum_list (map sh_gross (take k ?S)) + int k + sum_list (map sh_gross (drop k ?S))"
    using k(1) unfolding rows by (simp add: sum_bump [unfolded map_map])
  also have "\<dots> = sum_list (map sh_gross (take k ?S @ drop k ?S)) + int k"
    unfolding map_append sum_list_append by simp
  also have "\<dots> = sum_list (map (sh_gross \<circ> floor_share gross (total_units hs)) hs) + int k"
    by (simp only: append_take_drop_id sum_list_sort_by map_map)
  also have "\<dots> = gross" using k(2) residual_bounds(1) [OF assms(1), of gross] by simp
  finally show ?thesis .
qed

lemma allocate_investors:
  assumes "0 < total_units hs" and "allocate gross hs = Inr rows" and "distinct (map hd_investor_identity_id hs)"
  shows "map sh_investor_identity_id rows = sort_by str_le (map hd_investor_identity_id hs)"
proof -
  obtain k where rows: "rows = sort_by by_investor
          (map bump (take k (sort_by by_remainder (map (floor_share gross (total_units hs)) hs)))
           @ drop k (sort_by by_remainder (map (floor_share gross (total_units hs)) hs)))"
    using allocate_rows [OF assms(1), of gross] assms(2) by (metis Inr_inject)
  let ?S = "sort_by by_remainder (map (floor_share gross (total_units hs)) hs)"
  let ?i = "sh_investor_identity_id"
  have ids: "map ?i (map bump (take k ?S) @ drop k ?S) = map ?i ?S"
  proof -
    have "map ?i (map bump (take k ?S) @ drop k ?S) = map ?i (take k ?S @ drop k ?S)" unfolding map_append by simp
    then show ?thesis by simp
  qed
  have S: "set (map ?i ?S) = set (map hd_investor_identity_id hs)"
    by (auto simp: floor_share_def Let_def image_comp)
  have "distinct (map ?i ?S)"
  proof -
    have "distinct (map (?i \<circ> floor_share gross (total_units hs)) hs)"
      using assms(3) by (simp add: floor_share_def Let_def comp_def)
    then have "inj_on ?i (set ?S)" and "distinct (map (floor_share gross (total_units hs)) hs)"
      by (auto simp: distinct_map intro: inj_on_imageI2 inj_on_imageI)
    then show ?thesis by (simp add: distinct_map)
  qed
  then show ?thesis
    unfolding rows using S assms(3)
    by (subst map_sort_by [where le' = str_le], simp add: by_investor_def)
       (auto simp only: ids intro!: str_le_sort_unique sort_by_str_le_sorted simp: distinct_sort_by set_sort_by)
qed

lemma sum_list_below:
  assumes "\<And>x. x \<in> set xs \<Longrightarrow> f x < (T :: int)" and "xs \<noteq> []"
  shows "sum_list (map f xs) < T * int (length xs)"
  using assms(2,1) by (induction xs rule: list_nonempty_induct) (force simp: algebra_simps)+

text \<open>Only inexact shares are rounded up.\<close>

lemma rounded_up_inexact:
  assumes "sorted_wrt by_remainder S" and rem: "\<And>r. r \<in> set S \<Longrightarrow> 0 \<le> sh_remainder r \<and> sh_remainder r < T"
    and k: "T * int k = sum_list (map sh_remainder S)" "k \<le> length S" and r: "r \<in> set (take k S)"
  shows "0 < sh_remainder r"
proof (rule ccontr)
  assume "\<not> 0 < sh_remainder r"
  then have zero: "sh_remainder r = 0" using rem [of r] in_set_takeD [OF r] by auto
  have "sorted_wrt by_remainder (take k S @ drop k S)" using assms(1) by simp
  then have "by_remainder r x" if "x \<in> set (drop k S)" for x using that r by (auto simp only: sorted_wrt_append)
  then have "\<forall>x \<in> set (drop k S). sh_remainder x = 0"
    using zero rem in_set_dropD [of _ k S] by (fastforce simp: by_remainder_def split: if_splits)
  then have "sum_list (map sh_remainder (drop k S)) = 0" by (simp add: sum_list_eq_0_iff map_idI cong: map_cong)
  then have "sum_list (map sh_remainder S) = sum_list (map sh_remainder (take k S))"
    by (metis add.right_neutral append_take_drop_id map_append sum_list_append)
  also have "\<dots> < T * int (length (take k S))"
    using rem in_set_takeD [of _ k S] length_pos_if_in_set [OF r] by (intro sum_list_below) auto
  finally show False using k by simp
qed

lemma allocate_cases:
  assumes "0 < total_units hs" and "allocate gross hs = Inr rows"
  obtains S k where "sorted_wrt by_remainder S" and "set S = floor_share gross (total_units hs) ` set hs"
    and "set rows = bump ` set (take k S) \<union> set (drop k S)" and "\<And>r. r \<in> set (take k S) \<Longrightarrow> 0 < sh_remainder r"
proof -
  let ?T = "total_units hs"
  let ?S = "sort_by by_remainder (map (floor_share gross ?T) hs)"
  obtain k where k: "k < length hs" "k = nat (gross - sum_list (map (sh_gross \<circ> floor_share gross ?T) hs))"
    and rows: "rows = sort_by by_investor (map bump (take k ?S) @ drop k ?S)"
    using allocate_rows [OF assms(1), of gross] assms(2) by (metis Inr_inject)
  have sorted: "sorted_wrt by_remainder ?S" using by_remainder_order by (intro sort_by_sorted_wrt)
  have "?T * int k = sum_list (map (sh_remainder \<circ> floor_share gross ?T) hs)"
    using sum_list_floor [OF assms(1), of gross hs] residual_bounds(1) [OF assms(1), of gross] k(2) by (simp add: algebra_simps)
  also have "\<dots> = sum_list (map sh_remainder ?S)" by simp
  finally have sum: "?T * int k = sum_list (map sh_remainder ?S)" .
  have rem: "0 \<le> sh_remainder r \<and> sh_remainder r < ?T" if "r \<in> set ?S" for r
    using that assms(1) by (auto simp: floor_share_def Let_def)
  show thesis
  proof (rule that [of ?S k])
    show "set rows = bump ` set (take k ?S) \<union> set (drop k ?S)" by (simp add: rows)
    show "0 < sh_remainder r" if "r \<in> set (take k ?S)" for r
      using rounded_up_inexact [OF sorted rem sum _ that] k(1) by simp
  qed (use sorted in auto)
qed

lemma floor_share_bounds:
  assumes "0 < units"
  shows "units * sh_gross (floor_share gross units h) + sh_remainder (floor_share gross units h) = gross * hd_balance_units h"
    and "0 \<le> sh_remainder (floor_share gross units h)" and "sh_remainder (floor_share gross units h) < units"
  using assms by (simp_all add: floor_share_def Let_def)

lemma allocate_share:
  assumes "0 < total_units hs" and "allocate gross hs = Inr rows" and "r \<in> set rows"
  shows "\<exists>h \<in> set hs. sh_investor_identity_id r = hd_investor_identity_id h \<and> sh_balance_units r = hd_balance_units h
    \<and> \<bar>total_units hs * sh_gross r - gross * hd_balance_units h\<bar> < total_units hs"
proof -
  let ?T = "total_units hs"
  obtain S k where S: "set S = floor_share gross ?T ` set hs" "set rows = bump ` set (take k S) \<union> set (drop k S)"
      "\<And>r. r \<in> set (take k S) \<Longrightarrow> 0 < sh_remainder r"
    using allocate_cases [OF assms(1,2)] by metis
  obtain h where h: "h \<in> set hs" "r = floor_share gross ?T h \<or> (r = bump (floor_share gross ?T h) \<and> 0 < sh_remainder (floor_share gross ?T h))"
  proof -
    consider x where "x \<in> set (take k S)" "r = bump x" | "r \<in> set (drop k S)" using assms(3) S(2) by auto
    then show thesis
    proof cases
      case (1 x)
      then have "x \<in> floor_share gross ?T ` set hs" using in_set_takeD S(1) by metis
      with 1 S(3) that show thesis by auto
    next
      case 2
      then have "r \<in> floor_share gross ?T ` set hs" using in_set_dropD S(1) by metis
      with that show thesis by auto
    qed
  qed
  have ids: "sh_investor_identity_id r = hd_investor_identity_id h" "sh_balance_units r = hd_balance_units h"
    using h(2) by (auto simp: floor_share_def Let_def)
  have "\<bar>?T * sh_gross r - gross * hd_balance_units h\<bar> < ?T"
    using h(2) floor_share_bounds [OF assms(1), of gross h] by (auto simp: algebra_simps)
  with h(1) ids show ?thesis by blast
qed

text \<open>A larger holding never receives less.\<close>

lemma allocate_monotone:
  assumes "0 < total_units hs" and "allocate gross hs = Inr rows" and "0 < gross"
    and ab: "a \<in> set rows" "b \<in> set rows" "sh_balance_units a < sh_balance_units b"
  shows "sh_gross a \<le> sh_gross b"
proof (rule ccontr)
  assume less: "\<not> sh_gross a \<le> sh_gross b"
  let ?T = "total_units hs" and ?f = "floor_share gross (total_units hs)"
  obtain S k where S: "sorted_wrt by_remainder S" "set S = ?f ` set hs" "set rows = bump ` set (take k S) \<union> set (drop k S)"
    using allocate_cases [OF assms(1,2)] by metis
  have "sorted_wrt by_remainder (take k S @ drop k S)" using S(1) by simp
  then have le: "by_remainder x y" if "x \<in> set (take k S)" "y \<in> set (drop k S)" for x y
    using that by (auto simp only: sorted_wrt_append)
  have row: "\<exists>x. x \<in> set S \<and> sh_balance_units r = sh_balance_units x
      \<and> (r = bump x \<and> x \<in> set (take k S) \<or> r = x \<and> x \<in> set (drop k S))" if r: "r \<in> set rows" for r
  proof -
    consider x where "x \<in> set (take k S)" "r = bump x" | "r \<in> set (drop k S)" using r S(3) by auto
    then show ?thesis by cases (auto dest: in_set_takeD in_set_dropD)
  qed
  obtain x where x: "x \<in> set S" "sh_balance_units a = sh_balance_units x"
      "a = bump x \<and> x \<in> set (take k S) \<or> a = x \<and> x \<in> set (drop k S)"
    using row [OF ab(1)] by blast
  obtain y where y: "y \<in> set S" "sh_balance_units b = sh_balance_units y"
      "b = bump y \<and> y \<in> set (take k S) \<or> b = y \<and> y \<in> set (drop k S)"
    using row [OF ab(2)] by blast
  obtain h h' where h: "x = ?f h" "y = ?f h'" using x(1) y(1) S(2) by auto
  have bal: "hd_balance_units h < hd_balance_units h'" using ab(3) x(2) y(2) h by (simp add: floor_share_def Let_def)
  then have "gross * hd_balance_units h < gross * hd_balance_units h'" using assms(3) by simp
  then have num: "?T * sh_gross x + sh_remainder x < ?T * sh_gross y + sh_remainder y"
    using floor_share_bounds(1) [OF assms(1)] h by simp
  have floors: "sh_gross x \<le> sh_gross y"
  proof (rule ccontr)
    assume "\<not> sh_gross x \<le> sh_gross y"
    then have "?T * (sh_gross y + 1) \<le> ?T * sh_gross x" using assms(1) by simp
    then show False using num floor_share_bounds(2) [OF assms(1), of gross h] floor_share_bounds(3) [OF assms(1), of gross h'] h by (auto simp: algebra_simps)
  qed
  then have "a = bump x" "x \<in> set (take k S)" "b = y" "y \<in> set (drop k S)" "sh_gross x = sh_gross y"
    using less x(3) y(3) by auto
  then show False using le [of x y] num by (auto simp: by_remainder_def split: if_splits)
qed

section \<open>Declarations\<close>

definition holdings_ok :: "holding list \<Rightarrow> bool" where
  "holdings_ok hs \<longleftrightarrow> hs \<noteq> [] \<and> distinct (map hd_investor_identity_id hs) \<and> list_all (\<lambda>h. 0 < hd_balance_units h) hs"

lemma holdings_total: "holdings_ok hs \<Longrightarrow> 0 < total_units hs"
  unfolding holdings_ok_def total_units_def
proof (elim conjE)
  assume "hs \<noteq> []" "list_all (\<lambda>h. 0 < hd_balance_units h) hs"
  then show "0 < sum_list (map hd_balance_units hs)"
    by (induction hs rule: list_nonempty_induct) (auto simp: add_pos_pos)
qed

text \<open>The rows of an approved snapshot, grouped by investor, are such holdings.\<close>

lemma grouped_holdings_ok:
  assumes "rows \<noteq> []" and "\<And>r. r \<in> set rows \<Longrightarrow> 0 < snd r"
  shows "holdings_ok (grouped_holdings rows)" and "total_units (grouped_holdings rows) = sum_list (map snd rows)"
proof -
  have pos: "0 < sum_rows (\<lambda>r. fst r = i) snd rows" if i: "i \<in> fst ` set rows" for i
  proof -
    obtain r where r: "i = fst r" "r \<in> set rows" using i by (rule imageE)
    then obtain us vs where split: "rows = us @ r # vs" using split_list by metis
    have "0 \<le> sum_rows (\<lambda>r. fst r = i) snd us" "0 \<le> sum_rows (\<lambda>r. fst r = i) snd vs"
      using assms(2) by (auto simp: split intro!: sum_rows_nonneg intro: less_imp_le)
    then show ?thesis using assms(2) [OF r(2)] r(1) by (simp add: split)
  qed
  have "sort_by str_le (unique_values (map fst rows)) \<noteq> []"
    using assms(1) by (metis list.map_disc_iff set_empty set_sort_by set_unique_values)
  then show "holdings_ok (grouped_holdings rows)"
    using pos by (auto simp: holdings_ok_def grouped_holdings_def list_all_iff comp_def)
  have group: "sum_list (map (\<lambda>i. sum_rows (\<lambda>r. fst r = i) snd rs) is) = sum_list (map snd rs)"
    if "distinct is" "fst ` set rs \<subseteq> set is" for "is" and rs :: "(uuid \<times> int) list"
    using that(2)
  proof (induction rs)
    case (Cons r rs)
    have "sum_list (map (\<lambda>i. sum_rows (\<lambda>r. fst r = i) snd (r # rs)) is)
        = sum_list (map (\<lambda>i. if fst r = i then snd r else 0) is) + sum_list (map (\<lambda>i. sum_rows (\<lambda>r. fst r = i) snd rs) is)"
      by (simp add: sum_list_addf)
    then show ?case using Cons that(1) by (simp add: sum_list_point)
  qed simp
  show "total_units (grouped_holdings rows) = sum_list (map snd rows)"
    by (simp add: total_units_def grouped_holdings_def comp_def group)
qed

lemma project_net: "0 \<le> b \<Longrightarrow> b \<le> 10000 \<Longrightarrow> 0 \<le> sh_gross r \<Longrightarrow>
    0 \<le> en_tax (project b r) \<and> 0 \<le> en_net (project b r) \<and> en_tax (project b r) + en_net (project b r) = en_gross (project b r)"
proof -
  assume "0 \<le> b" "b \<le> 10000" "0 \<le> sh_gross r"
  then have "sh_gross r * b div 10000 \<le> sh_gross r * 10000 div 10000" by (intro zdiv_mono1 mult_left_mono) auto
  with \<open>0 \<le> b\<close> \<open>0 \<le> sh_gross r\<close> show ?thesis by (simp add: project_def Let_def pos_imp_zdiv_nonneg_iff)
qed

lemma project_sels [simp]:
  "en_investor (project b r) = sh_investor_identity_id r" "en_units (project b r) = sh_balance_units r" "en_gross (project b r) = sh_gross r"
  by (simp_all add: project_def Let_def)

lemma project_declaration_Inr:
  assumes "project_declaration gross bps hs = Inr (es, tax, net)"
  obtains rows where "allocate gross hs = Inr rows" and "es = map (project bps) rows"
    and "tax = sum_list (map en_tax es)" and "net = gross - tax" and "list_all (\<lambda>r. 0 < sh_gross r) rows"
  using assms unfolding project_declaration_def
  by (auto simp: Let_def list_ex_iff list_all_iff not_le split: sum.splits if_splits)

text \<open>C17: a declared distribution is divided to the last minor unit: every holder has one
  entitlement, the gross entitlements add up to the declared amount and split into tax and net that
  add up to the declared totals, each is the exact proportion of the holding rounded to a
  neighbouring unit, and a larger holding never receives less than a smaller one.\<close>

theorem distribution_shared_exactly:
  assumes "holdings_ok hs" and "0 < gross" and "0 \<le> bps" and "bps \<le> 10000" and "project_declaration gross bps hs = Inr (es, tax, net)"
  shows "map en_investor es = sort_by str_le (map hd_investor_identity_id hs)
    \<and> sum_list (map en_gross es) = gross \<and> sum_list (map en_tax es) = tax \<and> sum_list (map en_net es) = net
    \<and> list_all (\<lambda>e. 0 < en_gross e \<and> 0 \<le> en_tax e \<and> 0 \<le> en_net e \<and> en_tax e + en_net e = en_gross e
         \<and> \<bar>total_units hs * en_gross e - gross * en_units e\<bar> < total_units hs) es
    \<and> list_all (\<lambda>a. list_all (\<lambda>b. en_units b \<le> en_units a \<or> en_gross a \<le> en_gross b) es) es"
proof -
  note pos = holdings_total [OF assms(1)]
  obtain rows where rows: "allocate gross hs = Inr rows" and es: "es = map (project bps) rows"
    and tot: "tax = sum_list (map en_tax es)" "net = gross - tax" and gt: "list_all (\<lambda>r. 0 < sh_gross r) rows"
    using project_declaration_Inr [OF assms(5)] by blast
  have split: "0 \<le> en_tax e \<and> 0 \<le> en_net e \<and> en_tax e + en_net e = en_gross e" if "e \<in> set es" for e
    using that gt project_net [OF assms(3,4)] unfolding es by (auto simp: list_all_iff less_imp_le)
  have sum: "sum_list (map en_gross es) = gross"
    using allocate_sum [OF pos rows] by (simp add: es comp_def)
  have "sum_list (map en_gross es) = sum_list (map en_tax es) + sum_list (map en_net es)"
    unfolding sum_list_addf [symmetric] using split by (intro arg_cong [where f = sum_list] map_cong) auto
  then have "sum_list (map en_net es) = net" using sum tot by simp
  moreover have "map en_investor es = sort_by str_le (map hd_investor_identity_id hs)"
    using allocate_investors [OF pos rows] assms(1) by (simp add: es comp_def holdings_ok_def)
  moreover have "list_all (\<lambda>e. 0 < en_gross e \<and> \<bar>total_units hs * en_gross e - gross * en_units e\<bar> < total_units hs) es"
    using gt allocate_share [OF pos rows] by (fastforce simp: es list_all_iff)
  moreover have "list_all (\<lambda>a. list_all (\<lambda>b. en_units b \<le> en_units a \<or> en_gross a \<le> en_gross b) es) es"
    using allocate_monotone [OF pos rows assms(2)] by (auto simp: es list_all_iff) (meson not_le)
  ultimately show ?thesis using sum tot split by (simp add: list_all_iff)
qed

definition sample_holdings :: "holding list" where
  "sample_holdings = [\<lparr>hd_investor_identity_id = ''b'', hd_balance_units = 3\<rparr>, \<lparr>hd_investor_identity_id = ''a'', hd_balance_units = 2\<rparr>,
     \<lparr>hd_investor_identity_id = ''c'', hd_balance_units = 2\<rparr>]"

theorem distribution_shared_exactly_witness:
  "\<exists>es tax net. project_declaration 100 1000 sample_holdings = Inr (es, tax, net)
     \<and> map en_gross es = [29, 43, 28] \<and> sum_list (map en_gross es) = 100 \<and> sum_list (map en_net es) = net"
proof -
  have "holdings_ok sample_holdings" by code_simp
  moreover have "case project_declaration 100 1000 sample_holdings of Inl e \<Rightarrow> False
      | Inr (es, tax, net) \<Rightarrow> map en_gross es = [29, 43, 28]" by code_simp
  then obtain es tax net where "project_declaration 100 1000 sample_holdings = Inr (es, tax, net)" "map en_gross es = [29, 43, 28]"
    by (auto split: sum.splits)
  ultimately show ?thesis using distribution_shared_exactly [of sample_holdings 100 1000 es tax net] by auto
qed

text \<open>Dividing an amount among holders always ends and never runs past the last of them.\<close>

theorem allocate_total: "holdings_ok hs \<Longrightarrow> \<exists>rows. allocate gross hs = Inr rows \<and> length rows = length hs"
  using allocate_rows [OF holdings_total, of hs gross] by (metis append_take_drop_id length_append length_map length_sort_by)

theorem allocate_total_witness: "\<exists>rows. allocate 1 sample_holdings = Inr rows \<and> length rows = 3"
proof -
  have "holdings_ok sample_holdings" by code_simp
  moreover have "length sample_holdings = 3" by (simp add: sample_holdings_def)
  ultimately show ?thesis using allocate_total [of sample_holdings 1] by simp
qed

end
