(* ===== verification/Distribution_Payouts.thy ===== *)
theory Distribution_Payouts
  imports Escrow Issuance
begin

text \<open>
  Paying out declared distributions (\<^verbatim>\<open>src/platform/postgres-distribution-payouts.ts\<close> and
  migrations 126 to 128): the verified payout destinations of investors, the funding requests that
  reserve provider balance for an approved declaration and turn its entitlements into payout
  instructions, and the recording of provider outcomes with their settlement and reversal
  journals. The tables extend the ledger database; declarations and entitlements are read only.
  A digest made by \<open>hashPayload\<close> satisfies the pattern of its column, so that check is not
  repeated here. The advisory lock orders transactions that are already serial here.
\<close>

section \<open>Tables\<close>

datatype payoutStatus =
    Payout_authorized
  | Payout_dispatching
  | Payout_submitted
  | Payout_uncertain
  | Payout_confirmed
  | Payout_failed
  | Payout_reversed

datatype payoutOutcome = Outcome_success | Outcome_failed | Outcome_reversed

datatype resolutionType = Replacement_payout | Manual_settlement | Write_off | Close_no_action

datatype exceptionStatus =
    Exception_open
  | Exception_evidence_submitted
  | Exception_decision_pending
  | Exception_approved
  | Exception_rejected
  | Exception_executed
  | Exception_closed

record distribution_declaration =
  dcl_id :: uuid
  dcl_organization_id :: uuid
  dcl_currency :: string
  dcl_net_amount_minor :: int
  dcl_entitlement_count :: int
  dcl_status :: requestStatus

record distribution_entitlement =
  ent_id :: uuid
  ent_declaration_request_id :: uuid
  ent_investor_identity_id :: uuid
  ent_net_amount_minor :: int

record payout_profile =
  pp_id :: uuid
  pp_investor_identity_id :: uuid
  pp_version :: int
  pp_currency :: string
  pp_account_holder_name :: string
  pp_account_last4 :: string
  pp_provider_recipient_reference :: string
  pp_verified :: bool
  pp_verified_at :: int
  pp_superseded_at :: "int option"

record recipient_recovery =
  rec_id :: uuid
  rec_investor_identity_id :: uuid
  rec_provider_recipient_reference :: string
  rec_failure_reason :: string

record funding_row =
  fu_id :: uuid
  fu_reference :: string
  fu_organization_id :: uuid
  fu_declaration_request_id :: uuid
  fu_currency :: string
  fu_amount_minor :: int
  fu_evidence_reference :: string
  fu_evidence_sha256 :: string
  fu_submission_observed_balance :: int
  fu_approval_observed_balance :: "int option"
  fu_status :: requestStatus
  fu_command_key :: string
  fu_request_hash :: string
  fu_submitted_by_identity_id :: uuid
  fu_submitted_at :: int
  fu_reviewed_by_identity_id :: "uuid option"
  fu_reviewed_at :: "int option"
  fu_decision_reason :: "string option"

text \<open>\<open>instruction_kind\<close> is \<open>replacement\<close> exactly when \<open>replaces_instruction_id\<close> is set.\<close>

record payout_row =
  po_id :: uuid
  po_reference :: string
  po_funding_request_id :: uuid
  po_declaration_request_id :: uuid
  po_entitlement_id :: uuid
  po_investor_identity_id :: uuid
  po_payout_profile_version_id :: uuid
  po_provider_recipient_reference :: string
  po_provider_transfer_code :: "string option"
  po_currency :: string
  po_amount_minor :: int
  po_status :: payoutStatus
  po_authorized_by_identity_id :: uuid
  po_authorized_at :: int
  po_dispatch_started_at :: "int option"
  po_dispatch_worker_id :: "string option"
  po_submitted_at :: "int option"
  po_confirmed_at :: "int option"
  po_failed_at :: "int option"
  po_failure_reason :: "string option"
  po_settlement_journal_id :: "uuid option"
  po_reversal_journal_id :: "uuid option"
  po_replaces_instruction_id :: "uuid option"
  po_exception_case_id :: "uuid option"

record provider_event =
  pe_id :: uuid
  pe_payout_instruction_id :: uuid
  pe_source :: string
  pe_outcome :: payoutOutcome
  pe_provider_transfer_code :: string
  pe_amount_minor :: int
  pe_currency :: string
  pe_occurred_at :: int
  pe_evidence_sha256 :: string

record exception_policy =
  xp_id :: uuid
  xp_organization_id :: uuid
  xp_version :: int
  xp_resolution_type :: resolutionType
  xp_currency :: string
  xp_maximum_amount_minor :: int
  xp_effective_from :: int
  xp_effective_until :: "int option"
  xp_policy_reference :: string
  xp_status :: string
  xp_prepared_by_identity_id :: uuid
  xp_approved_by_identity_id :: "uuid option"

record exception_case =
  xc_id :: uuid
  xc_reference :: string
  xc_payout_instruction_id :: uuid
  xc_organization_id :: uuid
  xc_status :: exceptionStatus
  xc_resolution_type :: "resolutionType option"
  xc_resolution_reason :: "string option"
  xc_held :: bool
  xc_opened_by_identity_id :: uuid
  xc_prepared_by_identity_id :: "uuid option"
  xc_reviewed_by_identity_id :: "uuid option"
  xc_executed_by_identity_id :: "uuid option"
  xc_opened_at :: int

record exception_evidence =
  xe_id :: uuid
  xe_case_id :: uuid
  xe_evidence_type :: string
  xe_content_sha256 :: string
  xe_storage_key :: string
  xe_filename :: string
  xe_mime_type :: string
  xe_uploaded_by_identity_id :: uuid

record hold_request =
  xh_id :: uuid
  xh_case_id :: uuid
  xh_place :: bool
  xh_reason :: string
  xh_status :: string
  xh_prepared_by_identity_id :: uuid
  xh_reviewed_by_identity_id :: "uuid option"

record exception_execution =
  xx_id :: uuid
  xx_case_id :: uuid
  xx_resolution_type :: resolutionType
  xx_approval_policy_id :: "uuid option"
  xx_replacement_payout_instruction_id :: "uuid option"
  xx_correction_journal_id :: "uuid option"
  xx_evidence_reference :: "string option"
  xx_executed_by_identity_id :: uuid

text \<open>The active configuration \<open>privacy.distribution.lifecycle_policy\<close> as its parsed value, which
  was validated when it was activated: per jurisdiction the legal basis and the retention days of
  payout exceptions.\<close>

record lifecycle_policy =
  lp_versionId :: uuid
  lp_policyReference :: string
  lp_rules :: "(string \<times> string \<times> int) list"

record lifecycle_binding =
  lb_id :: uuid
  lb_target_id :: uuid
  lb_organization_id :: uuid
  lb_policy_version_id :: uuid
  lb_jurisdiction_code :: string
  lb_legal_basis_reference :: string
  lb_retention_days :: int
  lb_retention_started_at :: int
  lb_retain_until :: int

text \<open>What the provider is asked to transfer.\<close>

record transfer_request =
  tq_recipientCode :: string
  tq_amountKobo :: int
  tq_reference :: string
  tq_reason :: string

text \<open>The last column of the database is the log of the transfers requested so far, in order.\<close>

record payout_db = journal_db +
  email_verified :: "uuid list"
  organization_jurisdictions :: "(uuid \<times> string) list"
  distribution_declaration_requests :: "distribution_declaration list"
  distribution_entitlements :: "distribution_entitlement list"
  investor_distribution_payout_profiles :: "payout_profile list"
  distribution_payout_recipient_recovery_cases :: "recipient_recovery list"
  distribution_funding_requests :: "funding_row list"
  distribution_payout_instructions :: "payout_row list"
  distribution_payout_provider_events :: "provider_event list"
  distribution_payout_exception_policies :: "exception_policy list"
  distribution_payout_exception_cases :: "exception_case list"
  distribution_payout_exception_evidence :: "exception_evidence list"
  distribution_payout_exception_hold_requests :: "hold_request list"
  distribution_payout_exception_executions :: "exception_execution list"
  lifecycle_configuration :: "lifecycle_policy option"
  distribution_lifecycle_policy_bindings :: "lifecycle_binding list"
  transfers_requested :: "transfer_request list"

section \<open>Texts\<close>

definition payout_error :: "string \<Rightarrow> string \<Rightarrow> error" where
  "payout_error c m = DistributionPayoutError c m"

definition bounded :: "string \<Rightarrow> string \<Rightarrow> nat \<Rightarrow> nat \<Rightarrow> error + string" where
  "bounded v label lo hi =
     (let result = trim v in
      if length result < lo \<or> hi < length result
      then Inl (payout_error ''invalid_input'' (label @ '' must contain '' @ show_int (int lo) @ '' to '' @ show_int (int hi) @ '' characters.''))
      else Inr result)"

definition sha :: "string \<Rightarrow> string \<Rightarrow> error + string" where
  "sha v label =
     (let result = toLowerCase (trim v) in
      if sha256_text result then Inr result else Inl (payout_error ''invalid_input'' (label @ '' is invalid.'')))"

text \<open>\<open>randomUUID().replaceAll("-", "").toUpperCase()\<close>.\<close>

definition reference_token :: "uuid \<Rightarrow> string" where
  "reference_token u = toUpperCase (filter (\<lambda>c. c \<noteq> CHR ''-'') u)"

definition dpi_reference :: "uuid \<Rightarrow> string" where
  "dpi_reference u = ''DPI-'' @ take 24 (reference_token u)"

definition dfr_reference :: "int \<Rightarrow> uuid \<Rightarrow> string" where
  "dfr_reference now u =
     ''DFR-'' @ filter (\<lambda>c. c \<noteq> CHR ''-'') (take 10 (toISOString now)) @ ''-'' @ take 8 (reference_token u)"

fun outcome_text :: "payoutOutcome \<Rightarrow> string" where
  "outcome_text Outcome_success = ''success''"
| "outcome_text Outcome_failed = ''failed''"
| "outcome_text Outcome_reversed = ''reversed''"

fun resolution_text :: "resolutionType \<Rightarrow> string" where
  "resolution_text Replacement_payout = ''replacement_payout''"
| "resolution_text Manual_settlement = ''manual_settlement''"
| "resolution_text Write_off = ''write_off''"
| "resolution_text Close_no_action = ''close_no_action''"

definition payable_code :: "string \<Rightarrow> string" where
  "payable_code cur = ''LIABILITY.INVESTOR_DISTRIBUTIONS_PAYABLE.'' @ cur"

definition payout_clearing_code :: "string \<Rightarrow> string" where
  "payout_clearing_code cur = ''ASSET.DISTRIBUTION_PAYOUT_CLEARING.'' @ cur"

section \<open>Data subjects and the record of an action\<close>

definition payout_investor :: "'z payout_db_scheme \<Rightarrow> uuid \<Rightarrow> uuid list" where
  "payout_investor s i = map po_investor_identity_id (filter (\<lambda>p. po_id p = i) (distribution_payout_instructions s))"

definition resolve_payout_privacy_subjects :: "'z payout_db_scheme \<Rightarrow> string \<Rightarrow> string \<Rightarrow> uuid list" where
  "resolve_payout_privacy_subjects s aggregateType aggregateId =
     (if \<not> uuidPattern aggregateId then []
      else let key = toLowerCase aggregateId in
        sort_by str_le (unique_values
          (if aggregateType = ''investor_distribution_payout_profile''
           then map pp_investor_identity_id (filter (\<lambda>p. pp_id p = key) (investor_distribution_payout_profiles s))
           else if aggregateType = ''distribution_payout_instruction'' then payout_investor s key
           else if aggregateType = ''distribution_payout_exception''
           then concat (map (\<lambda>c. payout_investor s (xc_payout_instruction_id c))
                  (filter (\<lambda>c. xc_id c = key) (distribution_payout_exception_cases s)))
           else [])))"

definition note_action ::
    "runtime \<Rightarrow> audit_input \<Rightarrow> string \<Rightarrow> string \<Rightarrow> string \<Rightarrow> (uuid \<Rightarrow> json_object) \<Rightarrow> ('z payout_db_scheme, unit) tx" where
  "note_action rt audit aggregateType aggregateId eventType payload =
     bnd (appendPostgresAuditEvent rt audit) (\<lambda>event.
     andThen (appendOutboxEvent rt resolve_payout_privacy_subjects
       (outbox_of aggregateType aggregateId eventType (payload (aud_id event)))) (ret ()))"

section \<open>Destinations\<close>

definition current_profile :: "uuid \<Rightarrow> string \<Rightarrow> 'z payout_db_scheme \<Rightarrow> payout_profile option" where
  "current_profile investor cur s =
     first_row (\<lambda>p. pp_investor_identity_id p = investor \<and> pp_currency p = cur \<and> pp_verified p)
       (sort_by (\<lambda>a b. pp_version b \<le> pp_version a) (investor_distribution_payout_profiles s))"

definition insert_profile :: "payout_profile \<Rightarrow> ('z payout_db_scheme, unit) tx" where
  "insert_profile row =
     andThen (require (0 < pp_version row \<and> pp_currency row = ''NGN''
         \<and> 2 \<le> length (pp_account_holder_name row) \<and> length (pp_account_holder_name row) \<le> 200
         \<and> length (pp_account_last4 row) = 4 \<and> list_all is_digit (pp_account_last4 row)
         \<and> 4 \<le> length (pp_provider_recipient_reference row) \<and> length (pp_provider_recipient_reference row) \<le> 500)
       (CheckViolation ''investor_distribution_payout_profiles_check''))
     (checked_insert (\<lambda>s. exists_row (\<lambda>p. pp_id p = pp_id row
          \<or> pp_provider_recipient_reference p = pp_provider_recipient_reference row
          \<or> (pp_investor_identity_id p = pp_investor_identity_id row \<and> pp_version p = pp_version row)
          \<or> (pp_investor_identity_id p = pp_investor_identity_id row \<and> pp_currency p = pp_currency row \<and> pp_verified p))
          (investor_distribution_payout_profiles s)) ''investor_distribution_payout_profiles_current_idx''
        (identity_known (pp_investor_identity_id row)) ''investor_distribution_payout_profiles_fkey''
        (\<lambda>s. s\<lparr>investor_distribution_payout_profiles := investor_distribution_payout_profiles s @ [row]\<rparr>))"

record profile_input =
  vi_investorIdentityId :: uuid
  vi_bankCode :: string
  vi_accountNumber :: string

record resolved_account =
  ra_account_number :: string
  ra_account_name :: string

text \<open>The two calls to the provider: resolving an account and creating a recipient, whose code is
  returned.\<close>

record recipient_service =
  rs_resolve :: "string \<Rightarrow> string \<Rightarrow> error + resolved_account"
  rs_create :: "string \<Rightarrow> string \<Rightarrow> string \<Rightarrow> error + string"

definition next_version :: "uuid \<Rightarrow> 'z payout_db_scheme \<Rightarrow> int" where
  "next_version investor s =
     foldr max (map pp_version (filter (\<lambda>p. pp_investor_identity_id p = investor) (investor_distribution_payout_profiles s))) 0 + 1"

definition last4 :: "string \<Rightarrow> string" where
  "last4 t = drop (length t - 4) t"

definition persist_profile ::
    "runtime \<Rightarrow> profile_input \<Rightarrow> string \<Rightarrow> resolved_account \<Rightarrow> string \<Rightarrow> ('z payout_db_scheme, uuid) tx" where
  "persist_profile rt inp accountNumber resolved recipientCode =
     bnd (query (next_version (vi_investorIdentityId inp))) (\<lambda>version.
     andThen (modify (\<lambda>s. s\<lparr>investor_distribution_payout_profiles :=
        update_where (\<lambda>p. pp_investor_identity_id p = vi_investorIdentityId inp \<and> pp_verified p)
          (\<lambda>p. p\<lparr>pp_verified := False, pp_superseded_at := Some (clock s)\<rparr>) (investor_distribution_payout_profiles s)\<rparr>))
     (bnd (randomUUID rt) (\<lambda>i.
      bnd (lift_sum (bounded (ra_account_name resolved) ''Account holder name'' 2 200)) (\<lambda>holder.
      bnd (query clock) (\<lambda>now.
      andThen (insert_profile \<lparr>pp_id = i, pp_investor_identity_id = vi_investorIdentityId inp, pp_version = version,
        pp_currency = ''NGN'', pp_account_holder_name = holder, pp_account_last4 = last4 accountNumber,
        pp_provider_recipient_reference = recipientCode, pp_verified = True, pp_verified_at = now, pp_superseded_at = None\<rparr>)
      (andThen (note_action rt \<lparr>ai_scopeKey = ''identity:'' @ vi_investorIdentityId inp, ai_organizationId = None,
          ai_actorId = Some (vi_investorIdentityId inp), ai_actorType = ''user'', ai_action = ''distribution_payout_profile.verified'',
          ai_entityType = ''investor_distribution_payout_profile'', ai_entityId = i, ai_reason = None,
          ai_payload = JObj [(''currency'', JStr ''NGN''), (''accountLast4'', JStr (last4 accountNumber)), (''version'', JNum version)],
          ai_occurredAt = None\<rparr>
        ''investor_distribution_payout_profile'' i ''distribution_payout_profile.verified''
        (\<lambda>auditId. [(''investorIdentityId'', JStr (vi_investorIdentityId inp)), (''auditEventId'', JStr auditId)]))
      (ret i)))))))"

text \<open>A failed persistence leaves a recovery case for the recipient the provider already has; the
  insertion of that case outside the transaction ignores its own errors.\<close>

definition record_orphan :: "runtime \<Rightarrow> uuid \<Rightarrow> string \<Rightarrow> error \<Rightarrow> 'z payout_db_scheme \<Rightarrow> 'z payout_db_scheme" where
  "record_orphan rt investor recipientCode e s =
     (let i = rt_uuid rt (uuids_drawn s); reason = take 2000 (error_message e);
          drawn = s\<lparr>uuids_drawn := Suc (uuids_drawn s)\<rparr> in
      if exists_row (\<lambda>r. rec_provider_recipient_reference r = recipientCode \<or> rec_id r = i) (distribution_payout_recipient_recovery_cases s)
         \<or> length recipientCode < 4 \<or> 500 < length recipientCode \<or> reason = [] \<or> \<not> identity_known investor s
      then drawn
      else drawn\<lparr>distribution_payout_recipient_recovery_cases := distribution_payout_recipient_recovery_cases s
             @ [\<lparr>rec_id = i, rec_investor_identity_id = investor, rec_provider_recipient_reference = recipientCode, rec_failure_reason = reason\<rparr>]\<rparr>)"

definition provider_failure :: "error \<Rightarrow> error" where
  "provider_failure e =
     (case e of DistributionPayoutError c m \<Rightarrow> e
      | _ \<Rightarrow> payout_error ''provider_unavailable'' ''The payout destination could not be verified with the payment provider.'')"

definition resolve_recipient :: "recipient_service \<Rightarrow> string \<Rightarrow> string \<Rightarrow> error + resolved_account \<times> string" where
  "resolve_recipient svc accountNumber bankCode =
     (case rs_resolve svc accountNumber bankCode of
        Inl e \<Rightarrow> Inl e
      | Inr resolved \<Rightarrow>
          if ra_account_number resolved \<noteq> accountNumber \<or> trim (ra_account_name resolved) = []
          then Inl (payout_error ''conflict'' ''The provider account resolution did not match the submitted account.'')
          else case rs_create svc (ra_account_name resolved) accountNumber bankCode of
              Inl e \<Rightarrow> Inl e
            | Inr recipientCode \<Rightarrow> Inr (resolved, recipientCode))"

definition verifyInvestorDistributionPayoutProfile ::
    "runtime \<Rightarrow> recipient_service \<Rightarrow> profile_input \<Rightarrow> 'z payout_db_scheme \<Rightarrow> (error + uuid) \<times> 'z payout_db_scheme" where
  "verifyInvestorDistributionPayoutProfile rt svc inp s =
     (let accountNumber = filter (\<lambda>c. \<not> is_space c) (vi_accountNumber inp) in
      if \<not> (length accountNumber = 10 \<and> list_all is_digit accountNumber)
      then (Inl (payout_error ''invalid_input'' ''A 10-digit Nigerian bank account number is required.''), s)
      else case bounded (vi_bankCode inp) ''Bank code'' 2 20 of
          Inl e \<Rightarrow> (Inl e, s)
        | Inr bankCode \<Rightarrow>
            if \<not> exists_row (\<lambda>r. idn_id r = vi_investorIdentityId inp \<and> idn_active r \<and> idn_id r \<in> set (email_verified s)) (identities s)
            then (Inl (payout_error ''forbidden'' ''An active verified identity is required.''), s)
            else case resolve_recipient svc accountNumber bankCode of
                Inl e \<Rightarrow> (Inl (provider_failure e), s)
              | Inr (resolved, recipientCode) \<Rightarrow>
                  case withPostgresTransaction deferred_constraints (persist_profile rt inp accountNumber resolved recipientCode) s of
                    (Inr i, s') \<Rightarrow> (Inr i, s')
                  | (Inl e, s') \<Rightarrow> (Inl e, record_orphan rt (vi_investorIdentityId inp) recipientCode e s'))"

end
