(* ===== verification/Payout_Settlement.thy ===== *)
theory Payout_Settlement
  imports Distribution_Payouts
begin

text \<open>
  Funding an approved declaration, the payout instructions it authorizes, and the provider
  outcomes that settle, fail or reverse them
  (\<^verbatim>\<open>src/platform/postgres-distribution-payouts.ts\<close>), under the constraints and triggers
  of migrations 127 and 128: an instruction binds its funding, entitlement, investor and current
  destination exactly, an approved funding has one original instruction per entitlement, statuses
  only move forward, and a settled or reversed instruction has its exact two-line journal.
\<close>

section \<open>Funding requests\<close>

text \<open>The insert guard: funding binds an approved declaration's net liability exactly.\<close>

definition insert_funding :: "funding_row \<Rightarrow> ('z payout_db_scheme, unit) tx" where
  "insert_funding row =
     andThen (require (fu_currency row = ''NGN'' \<and> 0 < fu_amount_minor row \<and> 0 \<le> fu_submission_observed_balance row)
       (CheckViolation ''distribution_funding_requests_check''))
     (bnd (query (\<lambda>s. first_row (\<lambda>d. dcl_id d = fu_declaration_request_id row) (distribution_declaration_requests s))) (\<lambda>found.
      andThen (require (case found of None \<Rightarrow> False
          | Some d \<Rightarrow> dcl_status d = Request_approved \<and> dcl_organization_id d = fu_organization_id row
              \<and> dcl_currency d = fu_currency row \<and> dcl_net_amount_minor d = fu_amount_minor row)
        (TriggerException ''distribution funding must exactly bind an approved declaration net liability''))
      (checked_insert (\<lambda>s. exists_row (\<lambda>f. fu_id f = fu_id row \<or> fu_reference f = fu_reference row
            \<or> (fu_submitted_by_identity_id f = fu_submitted_by_identity_id row \<and> fu_command_key f = fu_command_key row)
            \<or> (fu_declaration_request_id f = fu_declaration_request_id row \<and> fu_status f \<noteq> Request_rejected))
            (distribution_funding_requests s)) ''distribution_funding_one_active_idx''
         (\<lambda>s. fu_organization_id row \<in> set (organizations s) \<and> identity_known (fu_submitted_by_identity_id row) s)
         ''distribution_funding_requests_fkey''
         (\<lambda>s. s\<lparr>distribution_funding_requests := distribution_funding_requests s @ [row]\<rparr>))))"

record funding_input =
  fi_organizationId :: uuid
  fi_declarationRequestId :: uuid
  fi_fundingEvidenceReference :: string
  fi_fundingEvidenceSha256 :: string
  fi_actorIdentityId :: uuid
  fi_commandKey :: string

definition funding_hash :: "runtime \<Rightarrow> funding_input \<Rightarrow> string \<Rightarrow> string \<Rightarrow> string" where
  "funding_hash rt inp evidenceReference evidenceSha256 =
     hashPayload rt (JObj [(''organizationId'', JStr (fi_organizationId inp)),
       (''declarationRequestId'', JStr (fi_declarationRequestId inp)),
       (''fundingEvidenceReference'', JStr evidenceReference), (''fundingEvidenceSha256'', JStr evidenceSha256)])"

definition earlier_funding :: "funding_input \<Rightarrow> string \<Rightarrow> 'z payout_db_scheme \<Rightarrow> funding_row option" where
  "earlier_funding inp commandKey s =
     first_row (\<lambda>f. fu_submitted_by_identity_id f = fi_actorIdentityId inp \<and> fu_command_key f = commandKey)
       (distribution_funding_requests s)"

definition replay_funding :: "funding_row \<Rightarrow> string \<Rightarrow> error + uuid \<times> bool" where
  "replay_funding f requestHash =
     (if fu_request_hash f = requestHash then Inr (fu_id f, True)
      else Inl (payout_error ''conflict'' ''This command key was already used with different funding facts.''))"

definition fundable_declaration :: "funding_input \<Rightarrow> 'z payout_db_scheme \<Rightarrow> error + distribution_declaration" where
  "fundable_declaration inp s =
     (case first_row (\<lambda>d. dcl_id d = fi_declarationRequestId inp) (distribution_declaration_requests s) of
        None \<Rightarrow> Inl (payout_error ''not_found'' ''Distribution declaration not found.'')
      | Some d \<Rightarrow>
          if dcl_organization_id d \<noteq> fi_organizationId inp
          then Inl (payout_error ''forbidden'' ''Distribution declaration does not belong to this organization.'')
          else if dcl_status d \<noteq> Request_approved \<or> dcl_currency d \<noteq> ''NGN''
          then Inl (payout_error ''conflict'' ''Only an approved NGN declaration can enter Paystack funding review.'')
          else Inr d)"

text \<open>The balance the provider reports: a failed call or an unusable number stops the request.\<close>

definition observed_balance :: "string \<Rightarrow> error + js_number \<Rightarrow> error + int" where
  "observed_balance failure balance =
     (case balance of
        Inl e \<Rightarrow> Inl (payout_error ''provider_unavailable'' failure)
      | Inr n \<Rightarrow>
          if isSafeInteger n \<and> 0 \<le> amount_value (NumberAmount n) then Inr (amount_value (NumberAmount n))
          else Inl (payout_error ''provider_unavailable'' ''The provider returned an invalid funding balance.''))"

definition submit_funding_tx ::
    "runtime \<Rightarrow> funding_input \<Rightarrow> string \<Rightarrow> string \<Rightarrow> string \<Rightarrow> distribution_declaration \<Rightarrow> int \<Rightarrow> ('z payout_db_scheme, uuid \<times> bool) tx" where
  "submit_funding_tx rt inp commandKey evidenceReference evidenceSha256 d balance =
     (let requestHash = funding_hash rt inp evidenceReference evidenceSha256 in
      bnd (query (earlier_funding inp commandKey)) (\<lambda>found.
      case found of
        Some f \<Rightarrow> lift_sum (replay_funding f requestHash)
      | None \<Rightarrow>
          bnd (randomUUID rt) (\<lambda>i.
          bnd (randomUUID rt) (\<lambda>token.
          bnd (query clock) (\<lambda>now.
          andThen (insert_funding \<lparr>fu_id = i, fu_reference = dfr_reference now token, fu_organization_id = fi_organizationId inp,
            fu_declaration_request_id = fi_declarationRequestId inp, fu_currency = ''NGN'', fu_amount_minor = dcl_net_amount_minor d,
            fu_evidence_reference = evidenceReference, fu_evidence_sha256 = evidenceSha256, fu_submission_observed_balance = balance,
            fu_approval_observed_balance = None, fu_status = Request_submitted, fu_command_key = commandKey, fu_request_hash = requestHash,
            fu_submitted_by_identity_id = fi_actorIdentityId inp, fu_submitted_at = now, fu_reviewed_by_identity_id = None,
            fu_reviewed_at = None, fu_decision_reason = None\<rparr>)
          (andThen (note_action rt (audit_of (fi_organizationId inp) (Some (fi_actorIdentityId inp)) ''user''
             ''distribution_funding.submitted'' ''distribution_funding_request'' i
             [(''declarationRequestId'', JStr (fi_declarationRequestId inp)),
              (''amountMinor'', JStr (show_int (dcl_net_amount_minor d))), (''currency'', JStr ''NGN'')])
            ''distribution_funding_request'' i ''distribution_funding.submitted''
            (\<lambda>auditId. [(''organizationId'', JStr (fi_organizationId inp)),
              (''declarationRequestId'', JStr (fi_declarationRequestId inp)), (''auditEventId'', JStr auditId)]))
          (ret (i, False))))))))"

section \<open>Payout instructions\<close>

definition dpi_pattern :: "string \<Rightarrow> bool" where
  "dpi_pattern t \<longleftrightarrow> take 4 t = ''DPI-'' \<and> length t = 28 \<and> list_all (\<lambda>c. is_upper c \<or> is_digit c) (drop 4 t)"

text \<open>\<open>validate_distribution_payout_instruction\<close> of migration 128.\<close>

definition replacement_valid :: "payout_row \<Rightarrow> 'z payout_db_scheme \<Rightarrow> bool" where
  "replacement_valid row s \<longleftrightarrow>
     (case po_replaces_instruction_id row of
        None \<Rightarrow> True
      | Some source \<Rightarrow>
          exists_row (\<lambda>p. po_id p = source \<and> po_status p \<in> {Payout_failed, Payout_reversed}
            \<and> po_entitlement_id p = po_entitlement_id row \<and> po_amount_minor p = po_amount_minor row) (distribution_payout_instructions s)
          \<and> exists_row (\<lambda>c. Some (xc_id c) = po_exception_case_id row \<and> xc_payout_instruction_id c = source
            \<and> xc_status c = Exception_approved \<and> xc_resolution_type c = Some Replacement_payout \<and> \<not> xc_held c)
            (distribution_payout_exception_cases s))"

definition instruction_valid :: "payout_row \<Rightarrow> 'z payout_db_scheme \<Rightarrow> bool" where
  "instruction_valid row s \<longleftrightarrow>
     exists_row (\<lambda>e. ent_id e = po_entitlement_id row \<and> ent_declaration_request_id e = po_declaration_request_id row
       \<and> ent_investor_identity_id e = po_investor_identity_id row \<and> ent_net_amount_minor e = po_amount_minor row) (distribution_entitlements s)
     \<and> exists_row (\<lambda>f. fu_id f = po_funding_request_id row \<and> fu_declaration_request_id f = po_declaration_request_id row
       \<and> fu_currency f = po_currency row) (distribution_funding_requests s)
     \<and> exists_row (\<lambda>p. pp_id p = po_payout_profile_version_id row \<and> pp_investor_identity_id p = po_investor_identity_id row
       \<and> pp_currency p = po_currency row \<and> pp_provider_recipient_reference p = po_provider_recipient_reference row \<and> pp_verified p)
       (investor_distribution_payout_profiles s)
     \<and> replacement_valid row s"

definition insert_payout_instruction :: "payout_row \<Rightarrow> ('z payout_db_scheme, unit) tx" where
  "insert_payout_instruction row =
     andThen (require (dpi_pattern (po_reference row) \<and> po_currency row = ''NGN'' \<and> 0 < po_amount_minor row
         \<and> 4 \<le> length (po_provider_recipient_reference row) \<and> length (po_provider_recipient_reference row) \<le> 500)
       (CheckViolation ''distribution_payout_instructions_check''))
     (bnd (query (instruction_valid row)) (\<lambda>valid.
      andThen (require valid (TriggerException
        ''distribution payout instruction must exactly bind funding, entitlement, investor, and current verified destination''))
      (checked_insert (\<lambda>s. exists_row (\<lambda>p. po_id p = po_id row \<or> po_reference p = po_reference row
            \<or> (po_replaces_instruction_id row = None \<and> po_replaces_instruction_id p = None \<and> po_entitlement_id p = po_entitlement_id row)
            \<or> (po_replaces_instruction_id row \<noteq> None \<and> po_replaces_instruction_id p = po_replaces_instruction_id row))
            (distribution_payout_instructions s)) ''distribution_payout_instructions_key''
         (\<lambda>s. identity_known (po_investor_identity_id row) s \<and> identity_known (po_authorized_by_identity_id row) s)
         ''distribution_payout_instructions_fkey''
         (\<lambda>s. s\<lparr>distribution_payout_instructions := distribution_payout_instructions s @ [row]\<rparr>))))"

definition authorized_instruction ::
    "uuid \<Rightarrow> uuid \<Rightarrow> int \<Rightarrow> funding_row \<Rightarrow> distribution_entitlement \<Rightarrow> payout_profile \<Rightarrow> uuid \<Rightarrow> payout_row" where
  "authorized_instruction i token now f e p authorizer =
     \<lparr>po_id = i, po_reference = dpi_reference token, po_funding_request_id = fu_id f,
      po_declaration_request_id = fu_declaration_request_id f, po_entitlement_id = ent_id e,
      po_investor_identity_id = ent_investor_identity_id e, po_payout_profile_version_id = pp_id p,
      po_provider_recipient_reference = pp_provider_recipient_reference p, po_provider_transfer_code = None,
      po_currency = fu_currency f, po_amount_minor = ent_net_amount_minor e, po_status = Payout_authorized,
      po_authorized_by_identity_id = authorizer, po_authorized_at = now, po_dispatch_started_at = None, po_dispatch_worker_id = None,
      po_submitted_at = None, po_confirmed_at = None, po_failed_at = None, po_failure_reason = None,
      po_settlement_journal_id = None, po_reversal_journal_id = None, po_replaces_instruction_id = None, po_exception_case_id = None\<rparr>"

text \<open>\<open>assert_distribution_payout_projection\<close>, deferred to the commit: an approved funding has one
  original instruction per entitlement and they add up to its amount.\<close>

definition payout_projection :: "'z payout_db_scheme \<Rightarrow> uuid \<Rightarrow> error option" where
  "payout_projection s fundingId =
     (case first_row (\<lambda>f. fu_id f = fundingId) (distribution_funding_requests s) of
        None \<Rightarrow> None
      | Some f \<Rightarrow>
          if fu_status f \<noteq> Request_approved then None
          else let original = (\<lambda>p. po_funding_request_id p = fundingId \<and> po_replaces_instruction_id p = None) in
            if exists_row (\<lambda>d. dcl_id d = fu_declaration_request_id f
                 \<and> dcl_entitlement_count d = int (count_rows original (distribution_payout_instructions s)))
                 (distribution_declaration_requests s)
               \<and> sum_rows original po_amount_minor (distribution_payout_instructions s) = fu_amount_minor f
            then None
            else Some (TriggerException ''approved distribution funding requires one exact original payout instruction per entitlement''))"

definition payout_constraints :: "'z payout_db_scheme \<Rightarrow> 'z payout_db_scheme \<Rightarrow> error option" where
  "payout_constraints s s' =
     (case deferred_constraints s s' of
        Some e \<Rightarrow> Some e
      | None \<Rightarrow> first_error (payout_projection s')
          (map po_funding_request_id (drop (length (distribution_payout_instructions s)) (distribution_payout_instructions s'))
           @ map fu_id (filter (\<lambda>f. f \<notin> set (distribution_funding_requests s)) (distribution_funding_requests s'))))"

definition submitDistributionFundingRequest ::
    "runtime \<Rightarrow> (error + js_number) \<Rightarrow> funding_input \<Rightarrow> 'z payout_db_scheme \<Rightarrow> (error + uuid \<times> bool) \<times> 'z payout_db_scheme" where
  "submitDistributionFundingRequest rt balance inp s =
     (case bounded (fi_commandKey inp) ''Command key'' 1 200 of
        Inl e \<Rightarrow> (Inl e, s)
      | Inr commandKey \<Rightarrow>
     (case bounded (fi_fundingEvidenceReference inp) ''Funding evidence reference'' 4 300 of
        Inl e \<Rightarrow> (Inl e, s)
      | Inr evidenceReference \<Rightarrow>
     (case sha (fi_fundingEvidenceSha256 inp) ''Funding evidence hash'' of
        Inl e \<Rightarrow> (Inl e, s)
      | Inr evidenceSha256 \<Rightarrow>
     (case earlier_funding inp commandKey s of
        Some f \<Rightarrow> (replay_funding f (funding_hash rt inp evidenceReference evidenceSha256), s)
      | None \<Rightarrow>
     (case fundable_declaration inp s of
        Inl e \<Rightarrow> (Inl e, s)
      | Inr d \<Rightarrow>
     (case observed_balance ''The provider balance could not be verified; no funding request was created.'' balance of
        Inl e \<Rightarrow> (Inl e, s)
      | Inr observed \<Rightarrow>
          if observed < dcl_net_amount_minor d
          then (Inl (payout_error ''conflict'' ''The verified provider balance is below the declaration net liability.''), s)
          else withPostgresTransaction payout_constraints
                 (submit_funding_tx rt inp commandKey evidenceReference evidenceSha256 d observed) s))))))"

section \<open>Funding decisions\<close>

record funding_decision =
  fd_requestId :: uuid
  fd_actorIdentityId :: uuid
  fd_approve :: bool
  fd_decisionReason :: string

record decided_funding =
  df_status :: requestStatus
  df_instructionCount :: int
  df_replayed :: bool

definition funding_desired :: "funding_decision \<Rightarrow> requestStatus" where
  "funding_desired inp = (if fd_approve inp then Request_approved else Request_rejected)"

definition unsettled :: "payout_row \<Rightarrow> bool" where
  "unsettled p \<longleftrightarrow> po_status p \<in> {Payout_authorized, Payout_dispatching, Payout_submitted, Payout_uncertain}"

definition reserved_balance :: "'z payout_db_scheme \<Rightarrow> int" where
  "reserved_balance s = sum_rows unsettled po_amount_minor (distribution_payout_instructions s)"

definition entitled_destinations :: "funding_row \<Rightarrow> 'z payout_db_scheme \<Rightarrow> (distribution_entitlement \<times> payout_profile option) list" where
  "entitled_destinations f s =
     map (\<lambda>e. (e, current_profile (ent_investor_identity_id e) (fu_currency f) s))
       (sort_by (\<lambda>a b. str_le (ent_investor_identity_id a) (ent_investor_identity_id b))
         (filter (\<lambda>e. ent_declaration_request_id e = fu_declaration_request_id f) (distribution_entitlements s)))"

definition authorize_payouts :: "runtime \<Rightarrow> funding_decision \<Rightarrow> funding_row \<Rightarrow> int \<Rightarrow> ('z payout_db_scheme, int) tx" where
  "authorize_payouts rt inp f observed =
     bnd (query reserved_balance) (\<lambda>reserved.
     andThen (require (\<not> observed < fu_amount_minor f + reserved) (payout_error ''conflict''
       ''The live provider balance does not cover this declaration and existing unsettled reservations.''))
     (bnd (query (entitled_destinations f)) (\<lambda>rows.
      andThen (require (rows \<noteq> [] \<and> list_all (\<lambda>r. case snd r of None \<Rightarrow> False | Some p \<Rightarrow> pp_provider_recipient_reference p \<noteq> []) rows)
        (payout_error ''conflict'' ''Every entitled investor must have a current verified payout destination before funding approval.''))
      (andThen (for_each rows (\<lambda>r. case snd r of
          None \<Rightarrow> ret ()
        | Some p \<Rightarrow>
            bnd (randomUUID rt) (\<lambda>i.
            bnd (randomUUID rt) (\<lambda>token.
            bnd (query clock) (\<lambda>now.
            insert_payout_instruction (authorized_instruction i token now f (fst r) p (fd_actorIdentityId inp)))))))
      (ret (int (length rows)))))))"

text \<open>The update guard of migration 127: one terminal decision, by somebody else.\<close>

definition update_funding :: "uuid \<Rightarrow> (int \<Rightarrow> funding_row \<Rightarrow> funding_row) \<Rightarrow> ('z payout_db_scheme, unit) tx" where
  "update_funding i f = (\<lambda>s.
     if exists_row (\<lambda>r. fu_id r = i \<and> (fu_status r \<noteq> Request_submitted \<or> fu_status (f (clock s) r) = Request_submitted
          \<or> fu_reviewed_by_identity_id (f (clock s) r) = Some (fu_submitted_by_identity_id r))) (distribution_funding_requests s)
     then Inl (TriggerException ''distribution funding requires one independent terminal decision'')
     else if exists_row (\<lambda>r. fu_id r = i \<and> (case fu_reviewed_by_identity_id (f (clock s) r) of None \<Rightarrow> False
          | Some a \<Rightarrow> \<not> identity_known a s)) (distribution_funding_requests s)
     then Inl (ForeignKeyViolation ''distribution_funding_requests_reviewed_by_identity_id_fkey'')
     else Inr ((), s\<lparr>distribution_funding_requests := update_where (\<lambda>r. fu_id r = i) (f (clock s)) (distribution_funding_requests s)\<rparr>))"

definition decide_funding_row :: "funding_decision \<Rightarrow> int option \<Rightarrow> string \<Rightarrow> int \<Rightarrow> funding_row \<Rightarrow> funding_row" where
  "decide_funding_row inp observed reason now f =
     f\<lparr>fu_status := funding_desired inp, fu_approval_observed_balance := observed,
       fu_reviewed_by_identity_id := Some (fd_actorIdentityId inp), fu_reviewed_at := Some now, fu_decision_reason := Some reason\<rparr>"

definition decide_funding_tx ::
    "runtime \<Rightarrow> funding_decision \<Rightarrow> int option \<Rightarrow> string \<Rightarrow> ('z payout_db_scheme, decided_funding) tx" where
  "decide_funding_tx rt inp observed reason =
     bnd (query (\<lambda>s. first_row (\<lambda>f. fu_id f = fd_requestId inp) (distribution_funding_requests s))) (\<lambda>found.
     case found of
       None \<Rightarrow> throw (payout_error ''not_found'' ''Distribution funding request not found.'')
     | Some f \<Rightarrow>
         if fu_status f \<noteq> Request_submitted
         then (if fu_status f = funding_desired inp
               then ret \<lparr>df_status = fu_status f, df_instructionCount = 0, df_replayed = True\<rparr>
               else throw (payout_error ''conflict'' ''The funding request already has a different terminal decision.''))
         else andThen (require (fu_submitted_by_identity_id f \<noteq> fd_actorIdentityId inp)
           (payout_error ''forbidden'' ''The funding submitter cannot approve the same request.''))
         (bnd (case observed of None \<Rightarrow> ret 0 | Some b \<Rightarrow> authorize_payouts rt inp f b) (\<lambda>instructionCount.
          andThen (update_funding (fu_id f) (decide_funding_row inp observed reason))
          (andThen (note_action rt ((audit_of (fu_organization_id f) (Some (fd_actorIdentityId inp)) ''user''
               (''distribution_funding.'' @ (if fd_approve inp then ''approved'' else ''rejected'')) ''distribution_funding_request'' (fu_id f)
               [(''declarationRequestId'', JStr (fu_declaration_request_id f)), (''instructionCount'', JNum instructionCount)])
               \<lparr>ai_reason := Some reason\<rparr>)
             ''distribution_funding_request'' (fu_id f) (''distribution_funding.'' @ (if fd_approve inp then ''approved'' else ''rejected''))
             (\<lambda>auditId. [(''organizationId'', JStr (fu_organization_id f)), (''declarationRequestId'', JStr (fu_declaration_request_id f)),
                (''instructionCount'', JNum instructionCount), (''auditEventId'', JStr auditId)]))
          (ret \<lparr>df_status = funding_desired inp, df_instructionCount = instructionCount, df_replayed = False\<rparr>)))))"

definition decideDistributionFundingRequest ::
    "runtime \<Rightarrow> (error + js_number) \<Rightarrow> funding_decision \<Rightarrow> 'z payout_db_scheme \<Rightarrow> (error + decided_funding) \<times> 'z payout_db_scheme" where
  "decideDistributionFundingRequest rt balance inp s =
     (case bounded (fd_decisionReason inp) ''Decision reason'' 20 2000 of
        Inl e \<Rightarrow> (Inl e, s)
      | Inr reason \<Rightarrow>
     (case first_row (\<lambda>f. fu_id f = fd_requestId inp) (distribution_funding_requests s) of
        None \<Rightarrow> (Inl (payout_error ''not_found'' ''Distribution funding request not found.''), s)
      | Some f \<Rightarrow>
          if fu_status f \<noteq> Request_submitted
          then (if fu_status f = funding_desired inp
                then Inr \<lparr>df_status = fu_status f, df_instructionCount =
                       int (count_rows (\<lambda>p. po_funding_request_id p = fd_requestId inp) (distribution_payout_instructions s)), df_replayed = True\<rparr>
                else Inl (payout_error ''conflict'' ''The funding request already has a different terminal decision.''), s)
          else if fu_submitted_by_identity_id f = fd_actorIdentityId inp
          then (Inl (payout_error ''forbidden'' ''The funding submitter cannot approve the same request.''), s)
          else if fd_approve inp
          then (case observed_balance ''The provider balance could not be reverified; funding was not approved.'' balance of
                  Inl e \<Rightarrow> (Inl e, s)
                | Inr observed \<Rightarrow> withPostgresTransaction payout_constraints (decide_funding_tx rt inp (Some observed) reason) s)
          else withPostgresTransaction payout_constraints (decide_funding_tx rt inp None reason) s))"

section \<open>Moving instructions\<close>

text \<open>\<open>protect_distribution_payout_instruction\<close>: the transitions, and the exact journal of a settled
  or reversed instruction (\<open>assert_distribution_payout_journal\<close>).\<close>

fun payout_moves :: "payoutStatus \<Rightarrow> payoutStatus \<Rightarrow> bool" where
  "payout_moves Payout_authorized st \<longleftrightarrow> st \<in> {Payout_dispatching, Payout_failed}"
| "payout_moves Payout_dispatching st \<longleftrightarrow> st \<in> {Payout_submitted, Payout_uncertain, Payout_failed}"
| "payout_moves Payout_submitted st \<longleftrightarrow> st \<in> {Payout_confirmed, Payout_uncertain, Payout_failed}"
| "payout_moves Payout_uncertain st \<longleftrightarrow> st \<in> {Payout_confirmed, Payout_failed}"
| "payout_moves Payout_confirmed st \<longleftrightarrow> st = Payout_reversed"
| "payout_moves Payout_failed st \<longleftrightarrow> False"
| "payout_moves Payout_reversed st \<longleftrightarrow> False"

definition account_code :: "uuid \<Rightarrow> 'z journal_db_scheme \<Rightarrow> string option" where
  "account_code a s = map_option la_code (first_row (\<lambda>r. la_id r = a) (ledger_accounts s))"

definition two_lines :: "uuid \<Rightarrow> int \<Rightarrow> string \<Rightarrow> string \<Rightarrow> 'z journal_db_scheme \<Rightarrow> bool" where
  "two_lines j amt debitCode creditCode s \<longleftrightarrow>
     (let lines = postings_of j (journal_postings s);
          debits = filter (\<lambda>l. jp_direction l = Debit) lines; credits = filter (\<lambda>l. jp_direction l = Credit) lines in
      length debits = 1 \<and> length credits = 1
      \<and> list_all (\<lambda>l. jp_amount_minor l = amt \<and> account_code (jp_account_id l) s = Some debitCode) debits
      \<and> list_all (\<lambda>l. jp_amount_minor l = amt \<and> account_code (jp_account_id l) s = Some creditCode) credits)"

definition funding_organization :: "uuid \<Rightarrow> 'z payout_db_scheme \<Rightarrow> uuid option" where
  "funding_organization i s = map_option fu_organization_id (first_row (\<lambda>f. fu_id f = i) (distribution_funding_requests s))"

text \<open>\<open>a <> b\<close> of SQL: true of two different values, and not of a \<open>NULL\<close> on either side.\<close>

definition sql_differs :: "'a option \<Rightarrow> 'a option \<Rightarrow> bool" where
  "sql_differs a b \<longleftrightarrow> (case (a, b) of (Some x, Some y) \<Rightarrow> x \<noteq> y | _ \<Rightarrow> False)"

text \<open>\<open>metadata->>'distributionPayoutInstructionId' <> id\<close>; a missing or \<open>null\<close> field is \<open>NULL\<close>.\<close>

definition names_other_payout :: "payout_row \<Rightarrow> journal_entry \<Rightarrow> bool" where
  "names_other_payout p e \<longleftrightarrow>
     (case get_field ''distributionPayoutInstructionId'' (je_metadata e) of
        None \<Rightarrow> False | Some JNull \<Rightarrow> False | Some v \<Rightarrow> v \<noteq> JStr (po_id p))"

definition payout_journal :: "payout_row \<Rightarrow> uuid option \<Rightarrow> bool \<Rightarrow> 'z payout_db_scheme \<Rightarrow> bool" where
  "payout_journal p journalId reversal s \<longleftrightarrow>
     funding_organization (po_funding_request_id p) s \<noteq> None
     \<and> (case journalId of
        None \<Rightarrow> False
      | Some j \<Rightarrow>
          exists_row (\<lambda>e. je_id e = j \<and> \<not> sql_differs (je_organization_id e) (funding_organization (po_funding_request_id p) s)
            \<and> je_currency e = po_currency p \<and> \<not> names_other_payout p e
            \<and> (if reversal then \<not> sql_differs (je_reversal_of e) (po_settlement_journal_id p) else je_reversal_of e = None))
            (journal_entries s)
          \<and> (if reversal then two_lines j (po_amount_minor p) (payout_clearing_code (po_currency p)) (payable_code (po_currency p)) s
             else two_lines j (po_amount_minor p) (payable_code (po_currency p)) (payout_clearing_code (po_currency p)) s))"

text \<open>The \<open>CHECK\<close> that ties the columns of a row to its status.\<close>

definition payout_shape :: "payout_row \<Rightarrow> bool" where
  "payout_shape p \<longleftrightarrow>
     (let started = po_dispatch_started_at p \<noteq> None; submitted = po_submitted_at p \<noteq> None; confirmed = po_confirmed_at p \<noteq> None;
          failed = po_failed_at p \<noteq> None; reason = (case po_failure_reason p of None \<Rightarrow> False | Some m \<Rightarrow> m \<noteq> []);
          settled = po_settlement_journal_id p \<noteq> None; undone = po_reversal_journal_id p \<noteq> None in
      case po_status p of
        Payout_authorized \<Rightarrow> \<not> started \<and> \<not> submitted \<and> \<not> confirmed \<and> \<not> failed \<and> po_failure_reason p = None \<and> \<not> settled \<and> \<not> undone
      | Payout_dispatching \<Rightarrow> started \<and> \<not> submitted \<and> \<not> confirmed \<and> \<not> failed \<and> po_failure_reason p = None \<and> \<not> settled \<and> \<not> undone
      | Payout_submitted \<Rightarrow> started \<and> submitted \<and> \<not> confirmed \<and> \<not> failed \<and> \<not> settled \<and> \<not> undone
      | Payout_uncertain \<Rightarrow> started \<and> \<not> confirmed \<and> failed \<and> reason \<and> \<not> settled \<and> \<not> undone
      | Payout_confirmed \<Rightarrow> submitted \<and> confirmed \<and> \<not> failed \<and> po_failure_reason p = None \<and> settled \<and> \<not> undone
      | Payout_failed \<Rightarrow> \<not> confirmed \<and> failed \<and> reason \<and> \<not> settled \<and> \<not> undone
      | Payout_reversed \<Rightarrow> confirmed \<and> failed \<and> reason \<and> settled \<and> undone)"

definition some_distinct :: "('r \<Rightarrow> 'k option) \<Rightarrow> 'r list \<Rightarrow> bool" where
  "some_distinct k rows \<longleftrightarrow> distinct (filter (\<lambda>x. x \<noteq> None) (map k rows))"

definition payout_update_ok :: "payout_row \<Rightarrow> payout_row \<Rightarrow> 'z payout_db_scheme \<Rightarrow> bool" where
  "payout_update_ok p p' s \<longleftrightarrow> payout_moves (po_status p) (po_status p')
     \<and> (po_status p' = Payout_confirmed \<longrightarrow> payout_journal p (po_settlement_journal_id p') False s)
     \<and> (po_status p' = Payout_reversed \<longrightarrow> payout_journal p (po_reversal_journal_id p') True s)"

text \<open>\<open>UPDATE fractal.distribution_payout_instructions ... WHERE\<close>; the result is the row count.\<close>

definition update_payouts :: "(payout_row \<Rightarrow> bool) \<Rightarrow> (int \<Rightarrow> payout_row \<Rightarrow> payout_row) \<Rightarrow> ('z payout_db_scheme, nat) tx" where
  "update_payouts p f = (\<lambda>s.
     let rows = distribution_payout_instructions s; rows' = update_where p (f (clock s)) rows in
     if exists_row (\<lambda>r. p r \<and> \<not> payout_update_ok r (f (clock s) r) s) rows
     then Inl (TriggerException ''invalid distribution payout transition'')
     else if exists_row (\<lambda>r. p r \<and> \<not> payout_shape (f (clock s) r)) rows
     then Inl (CheckViolation ''distribution_payout_instructions_check'')
     else if \<not> (some_distinct po_provider_transfer_code rows' \<and> some_distinct po_settlement_journal_id rows'
            \<and> some_distinct po_reversal_journal_id rows')
     then Inl (UniqueViolation ''distribution_payout_instructions_key'')
     else Inr (count_rows p rows, s\<lparr>distribution_payout_instructions := rows'\<rparr>))"

section \<open>Provider outcomes\<close>

record outcome_input =
  pv_reference :: string
  pv_outcome :: payoutOutcome
  pv_transferCode :: string
  pv_amountMinor :: js_number
  pv_currency :: string
  pv_source :: string
  pv_occurredAt :: "int option"
  pv_reason :: "string option"

datatype recorded_outcome = Unhandled | Handled uuid payoutStatus

definition outcome_evidence :: "runtime \<Rightarrow> outcome_input \<Rightarrow> int \<Rightarrow> int \<Rightarrow> string" where
  "outcome_evidence rt inp amt occurredAt =
     hashPayload rt (JObj [(''reference'', JStr (pv_reference inp)), (''outcome'', JStr (outcome_text (pv_outcome inp))),
       (''transferCode'', JStr (pv_transferCode inp)), (''amountMinor'', JNum amt),
       (''currency'', JStr (toUpperCase (pv_currency inp))), (''source'', JStr (pv_source inp)),
       (''occurredAt'', JStr (toISOString occurredAt)), (''reason'', json_opt (pv_reason inp))])"

definition insert_event :: "provider_event \<Rightarrow> ('z payout_db_scheme, unit) tx" where
  "insert_event row =
     andThen (require (pe_source row \<in> {''verification'', ''webhook''} \<and> 3 \<le> length (pe_provider_transfer_code row)
         \<and> length (pe_provider_transfer_code row) \<le> 500 \<and> 0 < pe_amount_minor row \<and> pe_currency row = ''NGN'')
       (CheckViolation ''distribution_payout_provider_events_check''))
     (modify (\<lambda>s. if exists_row (\<lambda>e. pe_id e = pe_id row \<or> (pe_payout_instruction_id e = pe_payout_instruction_id row
           \<and> pe_outcome e = pe_outcome row \<and> pe_provider_transfer_code e = pe_provider_transfer_code row
           \<and> pe_evidence_sha256 e = pe_evidence_sha256 row)) (distribution_payout_provider_events s)
        then s
        else s\<lparr>distribution_payout_provider_events := distribution_payout_provider_events s @ [row]\<rparr>))"

definition ensureSettlementAccounts :: "runtime \<Rightarrow> uuid \<Rightarrow> string \<Rightarrow> ('z journal_db_scheme, unit) tx" where
  "ensureSettlementAccounts rt org cur =
     andThen (ensureLedgerAccount rt \<lparr>lai_organizationId = Some org, lai_code = payable_code cur,
       lai_name = ''Investor distributions payable ('' @ cur @ '')'', lai_accountType = Liability, lai_normalBalance = Credit\<rparr>)
     (andThen (ensureLedgerAccount rt \<lparr>lai_organizationId = Some org, lai_code = payout_clearing_code cur,
       lai_name = ''Distribution payout clearing ('' @ cur @ '')'', lai_accountType = Asset, lai_normalBalance = Debit\<rparr>)
     (ret ()))"

definition two_line_journal ::
    "uuid \<Rightarrow> string \<Rightarrow> string \<Rightarrow> string \<Rightarrow> string \<Rightarrow> int \<Rightarrow> uuid option \<Rightarrow> json_object \<Rightarrow> string \<Rightarrow> string \<Rightarrow> int \<Rightarrow> post_journal_input" where
  "two_line_journal org key cur narrative ref effectiveAt reversalOf metadata debitCode creditCode amt =
     \<lparr>ji_scopeKey = organization_scope org, ji_organizationId = Some org, ji_idempotencyKey = key, ji_currency = cur,
      ji_narrative = narrative, ji_externalRef = Some ref, ji_effectiveAt = Some effectiveAt, ji_reversalOf = reversalOf,
      ji_metadata = Some metadata,
      ji_postings = [\<lparr>pi_accountCode = debitCode, pi_direction = Debit, pi_amountMinor = BigIntAmount amt, pi_metadata = None\<rparr>,
        \<lparr>pi_accountCode = creditCode, pi_direction = Credit, pi_amountMinor = BigIntAmount amt, pi_metadata = None\<rparr>]\<rparr>"

definition settlement_journal :: "uuid \<Rightarrow> payout_row \<Rightarrow> int \<Rightarrow> post_journal_input" where
  "settlement_journal org p occurredAt =
     two_line_journal org (''distribution-payout-settlement:'' @ po_id p) (po_currency p)
       (''Distribution payout settlement '' @ po_reference p) (po_reference p) occurredAt None
       [(''distributionPayoutInstructionId'', JStr (po_id p)),
        (''distributionDeclarationRequestId'', JStr (po_declaration_request_id p)),
        (''accountingEvent'', JStr ''distribution_payout_settlement'')]
       (payable_code (po_currency p)) (payout_clearing_code (po_currency p)) (po_amount_minor p)"

definition reversal_journal :: "uuid \<Rightarrow> payout_row \<Rightarrow> int \<Rightarrow> post_journal_input" where
  "reversal_journal org p occurredAt =
     two_line_journal org (''distribution-payout-reversal:'' @ po_id p) (po_currency p)
       (''Distribution payout reversal '' @ po_reference p) (po_reference p) occurredAt (po_settlement_journal_id p)
       [(''distributionPayoutInstructionId'', JStr (po_id p)), (''accountingEvent'', JStr ''distribution_payout_reversal'')]
       (payout_clearing_code (po_currency p)) (payable_code (po_currency p)) (po_amount_minor p)"

definition in_flight :: "payout_row \<Rightarrow> bool" where
  "in_flight p \<longleftrightarrow> po_status p \<in> {Payout_dispatching, Payout_submitted, Payout_uncertain}"

definition coalesce :: "'a option \<Rightarrow> 'a \<Rightarrow> 'a option" where
  "coalesce x y = (case x of None \<Rightarrow> Some y | Some v \<Rightarrow> Some v)"

definition confirm_payout :: "string \<Rightarrow> int \<Rightarrow> uuid \<Rightarrow> payout_row \<Rightarrow> payout_row" where
  "confirm_payout transferCode occurredAt journalId p =
     p\<lparr>po_status := Payout_confirmed, po_provider_transfer_code := coalesce (po_provider_transfer_code p) transferCode,
       po_submitted_at := coalesce (po_submitted_at p) occurredAt, po_confirmed_at := Some occurredAt, po_failed_at := None,
       po_failure_reason := None, po_settlement_journal_id := Some journalId\<rparr>"

definition fail_payout :: "string \<Rightarrow> int \<Rightarrow> string \<Rightarrow> payout_row \<Rightarrow> payout_row" where
  "fail_payout transferCode occurredAt reason p =
     p\<lparr>po_status := Payout_failed, po_provider_transfer_code := coalesce (po_provider_transfer_code p) transferCode,
       po_failed_at := Some occurredAt, po_failure_reason := Some reason\<rparr>"

definition reverse_payout :: "int \<Rightarrow> string \<Rightarrow> uuid \<Rightarrow> payout_row \<Rightarrow> payout_row" where
  "reverse_payout occurredAt reason journalId p =
     p\<lparr>po_status := Payout_reversed, po_failed_at := Some occurredAt, po_failure_reason := Some reason,
       po_reversal_journal_id := Some journalId\<rparr>"

text \<open>\<open>input.reason?.trim() || fallback\<close>, then \<open>bounded\<close>.\<close>

definition given_reason :: "string option \<Rightarrow> string \<Rightarrow> string \<Rightarrow> error + string" where
  "given_reason reason fallback label =
     (let text = (case reason of None \<Rightarrow> [] | Some r \<Rightarrow> trim r) in bounded (if text = [] then fallback else text) label 1 2000)"

definition apply_outcome :: "runtime \<Rightarrow> outcome_input \<Rightarrow> int \<Rightarrow> uuid \<Rightarrow> payout_row \<Rightarrow> ('z payout_db_scheme, unit) tx" where
  "apply_outcome rt inp occurredAt org p =
     (case pv_outcome inp of
        Outcome_success \<Rightarrow>
          andThen (ensureSettlementAccounts rt org (po_currency p))
          (bnd (postJournalInTransaction rt (settlement_journal org p occurredAt)) (\<lambda>journal.
           andThen (update_payouts (\<lambda>r. po_id r = po_id p \<and> in_flight r)
             (\<lambda>_. confirm_payout (pv_transferCode inp) occurredAt (pj_journalId journal))) (ret ())))
      | Outcome_failed \<Rightarrow>
          bnd (lift_sum (given_reason (pv_reason inp) ''Transfer failed at payment provider'' ''Failure reason'')) (\<lambda>reason.
          andThen (update_payouts (\<lambda>r. po_id r = po_id p \<and> in_flight r)
            (\<lambda>_. fail_payout (pv_transferCode inp) occurredAt reason)) (ret ()))
      | Outcome_reversed \<Rightarrow>
          andThen (require (po_status p = Payout_confirmed \<and> po_settlement_journal_id p \<noteq> None \<and> po_confirmed_at p \<noteq> None)
            (payout_error ''conflict'' ''Only a confirmed payout with settlement accounting can be reversed.''))
          (andThen (ensureSettlementAccounts rt org (po_currency p))
          (bnd (postJournalInTransaction rt (reversal_journal org p occurredAt)) (\<lambda>journal.
           bnd (lift_sum (given_reason (pv_reason inp) ''Transfer reversed by payment provider'' ''Reversal reason'')) (\<lambda>reason.
           andThen (update_payouts (\<lambda>r. po_id r = po_id p \<and> po_status r = Payout_confirmed)
             (\<lambda>_. reverse_payout occurredAt reason (pj_journalId journal))) (ret ()))))))"

fun outcome_status :: "payoutOutcome \<Rightarrow> payoutStatus" where
  "outcome_status Outcome_success = Payout_confirmed"
| "outcome_status Outcome_failed = Payout_failed"
| "outcome_status Outcome_reversed = Payout_reversed"

fun outcome_status_text :: "payoutOutcome \<Rightarrow> string" where
  "outcome_status_text Outcome_success = ''confirmed''"
| "outcome_status_text Outcome_failed = ''failed''"
| "outcome_status_text Outcome_reversed = ''reversed''"

text \<open>The join with the funding request, whose foreign key holds.\<close>

definition find_payout :: "string \<Rightarrow> 'z payout_db_scheme \<Rightarrow> (payout_row \<times> uuid) option" where
  "find_payout ref s =
     (case first_row (\<lambda>p. po_reference p = ref) (distribution_payout_instructions s) of
        None \<Rightarrow> None
      | Some p \<Rightarrow> map_option (\<lambda>org. (p, org)) (funding_organization (po_funding_request_id p) s))"

definition settled_already :: "payout_row \<Rightarrow> payoutOutcome \<Rightarrow> bool" where
  "settled_already p outcome \<longleftrightarrow> po_status p \<in> {Payout_reversed, Payout_failed} \<or> (po_status p = Payout_confirmed \<and> outcome \<noteq> Outcome_reversed)"

definition outcome_tx :: "runtime \<Rightarrow> outcome_input \<Rightarrow> int \<Rightarrow> int \<Rightarrow> ('z payout_db_scheme, recorded_outcome) tx" where
  "outcome_tx rt inp amt occurredAt =
     bnd (query (find_payout (pv_reference inp))) (\<lambda>found.
     case found of
       None \<Rightarrow> ret Unhandled
     | Some (p, org) \<Rightarrow>
         andThen (require (case po_provider_transfer_code p of None \<Rightarrow> True | Some c \<Rightarrow> c = [] \<or> c = pv_transferCode inp)
           (payout_error ''conflict'' ''Provider transfer code does not match the governed payout.''))
         (andThen (require (po_amount_minor p = amt \<and> po_currency p = toUpperCase (pv_currency inp))
           (payout_error ''conflict'' ''Provider amount or currency does not match the governed payout.''))
         (bnd (randomUUID rt) (\<lambda>eventId.
          andThen (insert_event \<lparr>pe_id = eventId, pe_payout_instruction_id = po_id p, pe_source = pv_source inp,
            pe_outcome = pv_outcome inp, pe_provider_transfer_code = pv_transferCode inp, pe_amount_minor = amt,
            pe_currency = po_currency p, pe_occurred_at = occurredAt, pe_evidence_sha256 = outcome_evidence rt inp amt occurredAt\<rparr>)
          (if settled_already p (pv_outcome inp) then ret (Handled (po_id p) (po_status p))
           else andThen (require (po_status p \<noteq> Payout_authorized) (payout_error ''conflict''
                ''A provider outcome exists before controlled dispatch; manual reconciliation is required.''))
           (andThen (apply_outcome rt inp occurredAt org p)
           (andThen (note_action rt ((audit_of org None ''provider''
                (''distribution_payout.'' @ outcome_status_text (pv_outcome inp)) ''distribution_payout_instruction'' (po_id p)
                [(''declarationRequestId'', JStr (po_declaration_request_id p)), (''reference'', JStr (po_reference p)),
                 (''source'', JStr (pv_source inp))])
                \<lparr>ai_reason := (if pv_outcome inp = Outcome_success then None else pv_reason inp), ai_occurredAt := Some occurredAt\<rparr>)
              ''distribution_payout_instruction'' (po_id p) (''distribution_payout.'' @ outcome_status_text (pv_outcome inp))
              (\<lambda>auditId. [(''organizationId'', JStr org), (''declarationRequestId'', JStr (po_declaration_request_id p)),
                 (''auditEventId'', JStr auditId)]))
           (ret (Handled (po_id p) (outcome_status (pv_outcome inp)))))))))))"

definition recordDistributionPayoutProviderOutcome ::
    "runtime \<Rightarrow> outcome_input \<Rightarrow> 'z payout_db_scheme \<Rightarrow> (error + recorded_outcome) \<times> 'z payout_db_scheme" where
  "recordDistributionPayoutProviderOutcome rt inp s =
     (let amt = amount_value (NumberAmount (pv_amountMinor inp)) in
      if \<not> isSafeInteger (pv_amountMinor inp) \<or> amt \<le> 0 \<or> PG_BIGINT_MAX < amt
      then (Inl (payout_error ''invalid_input'' ''Provider payout amount is invalid.''), s)
      else withPostgresTransaction payout_constraints
             (outcome_tx rt inp amt (case pv_occurredAt inp of None \<Rightarrow> clock s | Some t \<Rightarrow> t)) s)"

end
