(* ===== verification/Payout_Exceptions.thy ===== *)
theory Payout_Exceptions
  imports Payout_Settlement
begin

text \<open>
  Governed corrections of payouts that are uncertain, failed or reversed
  (\<^verbatim>\<open>src/platform/postgres-distribution-payouts.ts\<close>, second half, and migration 128): the
  policies that authorize corrections, exception cases with their evidence, proposals, decisions
  and fraud holds, and their execution as a replacement instruction, a manual settlement, a
  write-off or nothing. Case and hold statuses move only as the triggers let them.
\<close>

section \<open>Policies\<close>

record policy_input =
  py_organizationId :: uuid
  py_resolutionType :: resolutionType
  py_currency :: string
  py_maximumAmountMinor :: js_number
  py_effectiveFrom :: int
  py_effectiveUntil :: "int option"
  py_policyReference :: string
  py_actorIdentityId :: uuid

definition insert_policy :: "exception_policy \<Rightarrow> ('z payout_db_scheme, unit) tx" where
  "insert_policy row =
     andThen (require (0 < xp_version row \<and> xp_resolution_type row \<noteq> Close_no_action \<and> xp_currency row = ''NGN''
         \<and> 0 < xp_maximum_amount_minor row
         \<and> (case xp_effective_until row of None \<Rightarrow> True | Some t \<Rightarrow> xp_effective_from row < t))
       (CheckViolation ''distribution_payout_exception_policies_check''))
     (checked_insert (\<lambda>s. exists_row (\<lambda>p. xp_id p = xp_id row
          \<or> (xp_organization_id p = xp_organization_id row \<and> xp_version p = xp_version row)) (distribution_payout_exception_policies s))
        ''distribution_payout_exception_policies_organization_id_version_key''
        (\<lambda>s. xp_organization_id row \<in> set (organizations s) \<and> identity_known (xp_prepared_by_identity_id row) s)
        ''distribution_payout_exception_policies_fkey''
        (\<lambda>s. s\<lparr>distribution_payout_exception_policies := distribution_payout_exception_policies s @ [row]\<rparr>))"

definition next_policy_version :: "uuid \<Rightarrow> 'z payout_db_scheme \<Rightarrow> int" where
  "next_policy_version org s =
     foldr max (map xp_version (filter (\<lambda>p. xp_organization_id p = org) (distribution_payout_exception_policies s))) 0 + 1"

definition create_policy_tx :: "runtime \<Rightarrow> policy_input \<Rightarrow> ('z payout_db_scheme, uuid \<times> int) tx" where
  "create_policy_tx rt inp =
     bnd (query (next_policy_version (py_organizationId inp))) (\<lambda>version.
     bnd (randomUUID rt) (\<lambda>i.
     bnd (lift_sum (bounded (py_policyReference inp) ''Policy reference'' 8 1000)) (\<lambda>ref.
     andThen (insert_policy \<lparr>xp_id = i, xp_organization_id = py_organizationId inp, xp_version = version,
       xp_resolution_type = py_resolutionType inp, xp_currency = toUpperCase (py_currency inp),
       xp_maximum_amount_minor = amount_value (NumberAmount (py_maximumAmountMinor inp)), xp_effective_from = py_effectiveFrom inp,
       xp_effective_until = py_effectiveUntil inp, xp_policy_reference = ref, xp_status = ''draft'',
       xp_prepared_by_identity_id = py_actorIdentityId inp, xp_approved_by_identity_id = None\<rparr>)
     (ret (i, version)))))"

definition createDistributionPayoutExceptionPolicy ::
    "runtime \<Rightarrow> policy_input \<Rightarrow> 'z payout_db_scheme \<Rightarrow> (error + uuid \<times> int) \<times> 'z payout_db_scheme" where
  "createDistributionPayoutExceptionPolicy rt inp s =
     (if \<not> isSafeInteger (py_maximumAmountMinor inp) \<or> amount_value (NumberAmount (py_maximumAmountMinor inp)) \<le> 0
      then (Inl (payout_error ''invalid_input'' ''Policy limit is invalid.''), s)
      else withPostgresTransaction payout_constraints (create_policy_tx rt inp) s)"

definition approve_policy_tx :: "uuid \<Rightarrow> uuid \<Rightarrow> ('z payout_db_scheme, unit) tx" where
  "approve_policy_tx policyId actor =
     bnd (query (\<lambda>s. first_row (\<lambda>p. xp_id p = policyId) (distribution_payout_exception_policies s))) (\<lambda>found.
     case found of
       None \<Rightarrow> throw (payout_error ''not_found'' ''Distribution exception policy was not found.'')
     | Some row \<Rightarrow>
         andThen (require (xp_status row = ''draft'') (payout_error ''conflict'' ''Only a draft policy can be approved.''))
         (andThen (require (xp_prepared_by_identity_id row \<noteq> actor)
            (payout_error ''forbidden'' ''A different person must approve this policy.''))
         (bnd (query (identity_known actor)) (\<lambda>known.
          andThen (require known (ForeignKeyViolation ''distribution_payout_exception_policies_approved_by_identity_id_fkey''))
          (andThen (modify (\<lambda>s. s\<lparr>distribution_payout_exception_policies :=
             update_where (\<lambda>p. xp_organization_id p = xp_organization_id row \<and> xp_resolution_type p = xp_resolution_type row
                 \<and> xp_currency p = xp_currency row \<and> xp_status p = ''active'') (\<lambda>p. p\<lparr>xp_status := ''superseded''\<rparr>)
               (distribution_payout_exception_policies s)\<rparr>))
          (modify (\<lambda>s. s\<lparr>distribution_payout_exception_policies :=
             update_where (\<lambda>p. xp_id p = policyId) (\<lambda>p. p\<lparr>xp_status := ''active'', xp_approved_by_identity_id := Some actor\<rparr>)
               (distribution_payout_exception_policies s)\<rparr>)))))))"

definition approveDistributionPayoutExceptionPolicy ::
    "uuid \<Rightarrow> uuid \<Rightarrow> 'z payout_db_scheme \<Rightarrow> (error + unit) \<times> 'z payout_db_scheme" where
  "approveDistributionPayoutExceptionPolicy policyId actor s =
     withPostgresTransaction payout_constraints (approve_policy_tx policyId actor) s"

section \<open>Lifecycle binding\<close>

text \<open>\<^verbatim>\<open>postgres-distribution-lifecycle.ts\<close>, for the record class of payout exceptions.\<close>

definition bindDistributionLifecyclePolicy :: "runtime \<Rightarrow> uuid \<Rightarrow> uuid \<Rightarrow> int \<Rightarrow> ('z payout_db_scheme, uuid) tx" where
  "bindDistributionLifecyclePolicy rt targetId org startedAt =
     bnd (query (\<lambda>s. map_of (organization_jurisdictions s) org)) (\<lambda>jurisdiction.
     case jurisdiction of
       None \<Rightarrow> throw (DistributionLifecyclePolicyError ''Distribution processing is unavailable until the organization has an approved jurisdiction.'')
     | Some jurisdictionCode \<Rightarrow>
         bnd (query lifecycle_configuration) (\<lambda>active.
         case active of
           None \<Rightarrow> throw (DistributionLifecyclePolicyError
             ''Distribution processing is unavailable until an approved lifecycle and privacy-treatment policy is active.'')
         | Some lp \<Rightarrow>
             (case map_of (lp_rules lp) jurisdictionCode of
                None \<Rightarrow> throw (DistributionLifecyclePolicyError
                  (''The active distribution lifecycle policy does not cover '' @ jurisdictionCode @ ''/payout_exception.''))
              | Some (legalBasis, retentionDays) \<Rightarrow>
                  bnd (randomUUID rt) (\<lambda>i.
                  andThen (checked_insert
                    (\<lambda>s. exists_row (\<lambda>b. lb_id b = i \<or> lb_target_id b = targetId) (distribution_lifecycle_policy_bindings s))
                    ''distribution_lifecycle_policy_bindings_target_key''
                    (\<lambda>s. org \<in> set (organizations s)) ''distribution_lifecycle_policy_bindings_fkey''
                    (\<lambda>s. s\<lparr>distribution_lifecycle_policy_bindings := distribution_lifecycle_policy_bindings s
                       @ [\<lparr>lb_id = i, lb_target_id = targetId, lb_organization_id = org, lb_policy_version_id = lp_versionId lp,
                           lb_jurisdiction_code = jurisdictionCode, lb_legal_basis_reference = legalBasis, lb_retention_days = retentionDays,
                           lb_retention_started_at = startedAt, lb_retain_until = startedAt + retentionDays * 86400000\<rparr>]\<rparr>))
                  (ret i)))))"

text \<open>\<open>catch (error)\<close> around the binding: a policy error becomes a conflict.\<close>

definition as_conflict :: "('s, 'a) tx \<Rightarrow> ('s, 'a) tx" where
  "as_conflict m = (\<lambda>s. case m s of
     Inl (DistributionLifecyclePolicyError text) \<Rightarrow> Inl (payout_error ''conflict'' text)
   | Inl e \<Rightarrow> Inl e
   | Inr r \<Rightarrow> Inr r)"

section \<open>Cases\<close>

text \<open>\<open>protect_distribution_exception_case\<close>.\<close>

definition case_moves :: "exception_case \<Rightarrow> exception_case \<Rightarrow> bool" where
  "case_moves c c' \<longleftrightarrow>
     \<not> (xc_held c' \<noteq> xc_held c \<and> xc_status c' \<noteq> xc_status c)
     \<and> ((xc_held c' \<noteq> xc_held c
          \<and> xc_status c' \<in> {Exception_open, Exception_evidence_submitted, Exception_decision_pending, Exception_approved})
        \<or> (xc_status c = Exception_open \<and> xc_status c' = Exception_evidence_submitted)
        \<or> (xc_status c = Exception_evidence_submitted \<and> xc_status c' = Exception_decision_pending)
        \<or> (xc_status c = Exception_decision_pending \<and> xc_status c' \<in> {Exception_approved, Exception_rejected}
            \<and> xc_reviewed_by_identity_id c' \<noteq> xc_prepared_by_identity_id c)
        \<or> (xc_status c = Exception_approved \<and> xc_status c' = Exception_executed \<and> \<not> xc_held c)
        \<or> (xc_status c \<in> {Exception_rejected, Exception_executed} \<and> xc_status c' = Exception_closed))"

definition update_case :: "uuid \<Rightarrow> (exception_case \<Rightarrow> exception_case) \<Rightarrow> ('z payout_db_scheme, unit) tx" where
  "update_case i f = (\<lambda>s.
     if exists_row (\<lambda>c. xc_id c = i \<and> \<not> case_moves c (f c)) (distribution_payout_exception_cases s)
     then Inl (TriggerException ''invalid distribution payout exception transition'')
     else if exists_row (\<lambda>c. xc_id c = i \<and> \<not> list_all (\<lambda>a. case a of None \<Rightarrow> True | Some k \<Rightarrow> identity_known k s)
          [xc_prepared_by_identity_id (f c), xc_reviewed_by_identity_id (f c), xc_executed_by_identity_id (f c)])
          (distribution_payout_exception_cases s)
     then Inl (ForeignKeyViolation ''distribution_payout_exception_cases_fkey'')
     else Inr ((), s\<lparr>distribution_payout_exception_cases := update_where (\<lambda>c. xc_id c = i) f (distribution_payout_exception_cases s)\<rparr>))"

definition insert_exception_case :: "exception_case \<Rightarrow> ('z payout_db_scheme, unit) tx" where
  "insert_exception_case row =
     checked_insert (\<lambda>s. exists_row (\<lambda>c. xc_id c = xc_id row \<or> xc_reference c = xc_reference row
          \<or> (xc_payout_instruction_id c = xc_payout_instruction_id row \<and> xc_status c \<noteq> Exception_closed))
          (distribution_payout_exception_cases s)) ''distribution_payout_exception_one_open_idx''
        (\<lambda>s. exists_row (\<lambda>p. po_id p = xc_payout_instruction_id row) (distribution_payout_instructions s)
           \<and> xc_organization_id row \<in> set (organizations s) \<and> identity_known (xc_opened_by_identity_id row) s)
        ''distribution_payout_exception_cases_fkey''
        (\<lambda>s. s\<lparr>distribution_payout_exception_cases := distribution_payout_exception_cases s @ [row]\<rparr>)"

definition find_case :: "uuid \<Rightarrow> 'z payout_db_scheme \<Rightarrow> exception_case option" where
  "find_case i s = first_row (\<lambda>c. xc_id c = i) (distribution_payout_exception_cases s)"

definition find_instruction :: "uuid \<Rightarrow> 'z payout_db_scheme \<Rightarrow> payout_row option" where
  "find_instruction i s = first_row (\<lambda>p. po_id p = i) (distribution_payout_instructions s)"

definition exceptional :: "payout_row \<Rightarrow> bool" where
  "exceptional p \<longleftrightarrow> po_status p \<in> {Payout_uncertain, Payout_failed, Payout_reversed}"

definition open_exception_tx :: "runtime \<Rightarrow> uuid \<Rightarrow> uuid \<Rightarrow> ('z payout_db_scheme, uuid \<times> bool) tx" where
  "open_exception_tx rt payoutId actor =
     bnd (query (\<lambda>s. case find_instruction payoutId s of None \<Rightarrow> None
        | Some p \<Rightarrow> map_option (\<lambda>org. (p, org)) (funding_organization (po_funding_request_id p) s))) (\<lambda>found.
     case found of
       None \<Rightarrow> throw (payout_error ''not_found'' ''Distribution payout was not found.'')
     | Some (p, org) \<Rightarrow>
         andThen (require (exceptional p)
           (payout_error ''conflict'' ''Only uncertain, failed, or reversed payouts may enter exception handling.''))
         (bnd (query (\<lambda>s. first_row (\<lambda>c. xc_payout_instruction_id c = payoutId \<and> xc_status c \<noteq> Exception_closed)
            (distribution_payout_exception_cases s))) (\<lambda>existing.
          case existing of
            Some c \<Rightarrow> ret (xc_id c, True)
          | None \<Rightarrow>
              bnd (randomUUID rt) (\<lambda>i.
              bnd (randomUUID rt) (\<lambda>token.
              bnd (query clock) (\<lambda>openedAt.
              andThen (insert_exception_case \<lparr>xc_id = i, xc_reference = ''DPE-'' @ take 20 (reference_token token),
                xc_payout_instruction_id = payoutId, xc_organization_id = org, xc_status = Exception_open, xc_resolution_type = None,
                xc_resolution_reason = None, xc_held = False, xc_opened_by_identity_id = actor, xc_prepared_by_identity_id = None,
                xc_reviewed_by_identity_id = None, xc_executed_by_identity_id = None, xc_opened_at = openedAt\<rparr>)
              (andThen (as_conflict (bindDistributionLifecyclePolicy rt i org openedAt))
              (andThen (note_action rt (audit_of org (Some actor) ''user'' ''distribution_payout_exception.opened'' ''distribution_payout_exception'' i
                 [(''payoutInstructionId'', JStr payoutId), (''reference'', JStr (''DPE-'' @ take 20 (reference_token token)))])
                ''distribution_payout_exception'' i ''distribution_payout_exception.opened''
                (\<lambda>auditId. [(''organizationId'', JStr org), (''auditEventId'', JStr auditId)]))
              (ret (i, False))))))))))"

definition openDistributionPayoutException ::
    "runtime \<Rightarrow> uuid \<Rightarrow> uuid \<Rightarrow> 'z payout_db_scheme \<Rightarrow> (error + uuid \<times> bool) \<times> 'z payout_db_scheme" where
  "openDistributionPayoutException rt payoutId actor s = withPostgresTransaction payout_constraints (open_exception_tx rt payoutId actor) s"

record exception_evidence_input =
  ei_exceptionCaseId :: uuid
  ei_evidenceType :: string
  ei_contentSha256 :: string
  ei_storageKey :: string
  ei_filename :: string
  ei_mimeType :: string
  ei_actorIdentityId :: uuid

definition EVIDENCE_TYPES :: "string list" where
  "EVIDENCE_TYPES = [''provider_verification'', ''provider_webhook'', ''bank_confirmation'', ''investor_confirmation'', ''fraud_review'',
     ''accounting_entry'', ''legal_basis'', ''other'']"

definition insert_exception_evidence :: "exception_evidence \<Rightarrow> ('z payout_db_scheme, unit) tx" where
  "insert_exception_evidence row =
     andThen (require (xe_evidence_type row \<in> set EVIDENCE_TYPES) (CheckViolation ''distribution_payout_exception_evidence_evidence_type_check''))
     (checked_insert (\<lambda>s. exists_row (\<lambda>e. xe_id e = xe_id row \<or> (xe_case_id e = xe_case_id row \<and> xe_content_sha256 e = xe_content_sha256 row))
          (distribution_payout_exception_evidence s)) ''distribution_payout_exception_evidence_case_id_content_sha256_key''
        (\<lambda>s. exists_row (\<lambda>c. xc_id c = xe_case_id row) (distribution_payout_exception_cases s) \<and> identity_known (xe_uploaded_by_identity_id row) s)
        ''distribution_payout_exception_evidence_fkey''
        (\<lambda>s. s\<lparr>distribution_payout_exception_evidence := distribution_payout_exception_evidence s @ [row]\<rparr>))"

definition add_evidence_tx :: "runtime \<Rightarrow> exception_evidence_input \<Rightarrow> ('z payout_db_scheme, uuid) tx" where
  "add_evidence_tx rt inp =
     bnd (query (find_case (ei_exceptionCaseId inp))) (\<lambda>found.
     case found of
       None \<Rightarrow> throw (payout_error ''not_found'' ''Distribution exception was not found.'')
     | Some c \<Rightarrow>
         andThen (require (xc_status c \<in> {Exception_open, Exception_evidence_submitted})
           (payout_error ''conflict'' ''This exception is not accepting evidence.''))
         (bnd (randomUUID rt) (\<lambda>i.
          bnd (lift_sum (sha (ei_contentSha256 inp) ''Evidence hash'')) (\<lambda>digest.
          bnd (lift_sum (bounded (ei_storageKey inp) ''Storage key'' 1 1000)) (\<lambda>storageKey.
          bnd (lift_sum (bounded (ei_filename inp) ''Filename'' 1 240)) (\<lambda>filename.
          bnd (lift_sum (bounded (ei_mimeType inp) ''MIME type'' 3 120)) (\<lambda>mimeType.
          andThen (insert_exception_evidence \<lparr>xe_id = i, xe_case_id = ei_exceptionCaseId inp, xe_evidence_type = ei_evidenceType inp,
            xe_content_sha256 = digest, xe_storage_key = storageKey, xe_filename = filename, xe_mime_type = mimeType,
            xe_uploaded_by_identity_id = ei_actorIdentityId inp\<rparr>)
          (andThen (if xc_status c = Exception_open
             then update_case (ei_exceptionCaseId inp) (\<lambda>c. c\<lparr>xc_status := Exception_evidence_submitted\<rparr>) else ret ())
          (ret i)))))))))"

definition addDistributionPayoutExceptionEvidence ::
    "runtime \<Rightarrow> exception_evidence_input \<Rightarrow> 'z payout_db_scheme \<Rightarrow> (error + uuid) \<times> 'z payout_db_scheme" where
  "addDistributionPayoutExceptionEvidence rt inp s = withPostgresTransaction payout_constraints (add_evidence_tx rt inp) s"

section \<open>Proposals and decisions\<close>

definition propose_resolution_tx :: "uuid \<Rightarrow> resolutionType \<Rightarrow> string \<Rightarrow> uuid \<Rightarrow> ('z payout_db_scheme, unit) tx" where
  "propose_resolution_tx caseId resolution reason actor =
     bnd (query (\<lambda>s. case find_case caseId s of None \<Rightarrow> None
        | Some c \<Rightarrow> map_option (\<lambda>p. (c, p)) (find_instruction (xc_payout_instruction_id c) s))) (\<lambda>found.
     andThen (require (case found of None \<Rightarrow> False | Some (c, p) \<Rightarrow> xc_status c = Exception_evidence_submitted)
       (payout_error ''conflict'' ''Exception evidence must be recorded before proposing a resolution.''))
     (case found of
        None \<Rightarrow> ret ()
      | Some (c, p) \<Rightarrow>
          andThen (require (\<not> (resolution = Replacement_payout \<and> po_status p \<notin> {Payout_failed, Payout_reversed}))
            (payout_error ''conflict'' ''An uncertain payout cannot be replaced without provider-confirmed failure or reversal.''))
          (andThen (require (\<not> (resolution = Write_off \<and> po_status p = Payout_uncertain))
            (payout_error ''conflict'' ''An uncertain payout cannot be written off.''))
          (bnd (lift_sum (bounded reason ''Resolution reason'' 20 2000)) (\<lambda>text.
           update_case caseId (\<lambda>c. c\<lparr>xc_status := Exception_decision_pending, xc_resolution_type := Some resolution,
             xc_resolution_reason := Some text, xc_prepared_by_identity_id := Some actor\<rparr>))))))"

definition proposeDistributionPayoutExceptionResolution ::
    "uuid \<Rightarrow> resolutionType \<Rightarrow> string \<Rightarrow> uuid \<Rightarrow> 'z payout_db_scheme \<Rightarrow> (error + unit) \<times> 'z payout_db_scheme" where
  "proposeDistributionPayoutExceptionResolution caseId resolution reason actor s =
     withPostgresTransaction payout_constraints (propose_resolution_tx caseId resolution reason actor) s"

definition decide_resolution_tx :: "uuid \<Rightarrow> bool \<Rightarrow> uuid \<Rightarrow> ('z payout_db_scheme, exceptionStatus) tx" where
  "decide_resolution_tx caseId approve actor =
     bnd (query (find_case caseId)) (\<lambda>found.
     andThen (require (case found of None \<Rightarrow> False | Some c \<Rightarrow> xc_status c = Exception_decision_pending)
       (payout_error ''conflict'' ''Exception is not awaiting an independent decision.''))
     (andThen (require (case found of None \<Rightarrow> False | Some c \<Rightarrow> xc_prepared_by_identity_id c \<noteq> Some actor)
       (payout_error ''forbidden'' ''A different person must decide this resolution.''))
     (andThen (update_case caseId (\<lambda>c. c\<lparr>xc_status := (if approve then Exception_approved else Exception_rejected),
        xc_reviewed_by_identity_id := Some actor\<rparr>))
     (ret (if approve then Exception_approved else Exception_rejected)))))"

definition decideDistributionPayoutExceptionResolution ::
    "uuid \<Rightarrow> bool \<Rightarrow> uuid \<Rightarrow> 'z payout_db_scheme \<Rightarrow> (error + exceptionStatus) \<times> 'z payout_db_scheme" where
  "decideDistributionPayoutExceptionResolution caseId approve actor s =
     withPostgresTransaction payout_constraints (decide_resolution_tx caseId approve actor) s"

definition insert_hold :: "hold_request \<Rightarrow> ('z payout_db_scheme, unit) tx" where
  "insert_hold row =
     checked_insert (\<lambda>s. exists_row (\<lambda>h. xh_id h = xh_id row \<or> (xh_case_id h = xh_case_id row \<and> xh_status h = ''pending''))
          (distribution_payout_exception_hold_requests s)) ''distribution_payout_exception_hold_pending_idx''
        (\<lambda>s. exists_row (\<lambda>c. xc_id c = xh_case_id row) (distribution_payout_exception_cases s) \<and> identity_known (xh_prepared_by_identity_id row) s)
        ''distribution_payout_exception_hold_requests_fkey''
        (\<lambda>s. s\<lparr>distribution_payout_exception_hold_requests := distribution_payout_exception_hold_requests s @ [row]\<rparr>)"

definition propose_hold_tx :: "runtime \<Rightarrow> uuid \<Rightarrow> bool \<Rightarrow> string \<Rightarrow> uuid \<Rightarrow> ('z payout_db_scheme, uuid) tx" where
  "propose_hold_tx rt caseId place reason actor =
     bnd (query (find_case caseId)) (\<lambda>found.
     andThen (require (case found of None \<Rightarrow> False | Some c \<Rightarrow> xc_status c
          \<in> {Exception_open, Exception_evidence_submitted, Exception_decision_pending, Exception_approved})
       (payout_error ''conflict'' ''This exception cannot receive a hold request.''))
     (andThen (require (case found of None \<Rightarrow> False | Some c \<Rightarrow> place \<noteq> xc_held c)
       (payout_error ''conflict'' (''The fraud hold is already '' @ (if place then ''active'' else ''clear'') @ ''.'')))
     (bnd (randomUUID rt) (\<lambda>i.
      bnd (lift_sum (bounded reason ''Hold reason'' 20 2000)) (\<lambda>text.
      andThen (insert_hold \<lparr>xh_id = i, xh_case_id = caseId, xh_place = place, xh_reason = text, xh_status = ''pending'',
        xh_prepared_by_identity_id = actor, xh_reviewed_by_identity_id = None\<rparr>)
      (ret i))))))"

definition proposeDistributionPayoutExceptionHold ::
    "runtime \<Rightarrow> uuid \<Rightarrow> bool \<Rightarrow> string \<Rightarrow> uuid \<Rightarrow> 'z payout_db_scheme \<Rightarrow> (error + uuid) \<times> 'z payout_db_scheme" where
  "proposeDistributionPayoutExceptionHold rt caseId place reason actor s =
     withPostgresTransaction payout_constraints (propose_hold_tx rt caseId place reason actor) s"

definition decide_hold_tx :: "uuid \<Rightarrow> bool \<Rightarrow> uuid \<Rightarrow> ('z payout_db_scheme, string) tx" where
  "decide_hold_tx holdId approve actor =
     bnd (query (\<lambda>s. first_row (\<lambda>h. xh_id h = holdId) (distribution_payout_exception_hold_requests s))) (\<lambda>found.
     case found of
       None \<Rightarrow> throw (payout_error ''conflict'' ''Hold request is not awaiting decision.'')
     | Some h \<Rightarrow>
         andThen (require (xh_status h = ''pending'') (payout_error ''conflict'' ''Hold request is not awaiting decision.''))
         (andThen (require (xh_prepared_by_identity_id h \<noteq> actor)
            (payout_error ''forbidden'' ''A different person must decide this hold request.''))
         (bnd (query (identity_known actor)) (\<lambda>known.
          andThen (require known (ForeignKeyViolation ''distribution_payout_exception_hold_requests_reviewed_by_identity_id_fkey''))
          (andThen (modify (\<lambda>s. s\<lparr>distribution_payout_exception_hold_requests :=
             update_where (\<lambda>h. xh_id h = holdId) (\<lambda>h. h\<lparr>xh_status := (if approve then ''approved'' else ''rejected''),
               xh_reviewed_by_identity_id := Some actor\<rparr>) (distribution_payout_exception_hold_requests s)\<rparr>))
          (andThen (if approve then update_case (xh_case_id h) (\<lambda>c. c\<lparr>xc_held := xh_place h\<rparr>) else ret ())
          (ret (if approve then ''approved'' else ''rejected''))))))))"

definition decideDistributionPayoutExceptionHold ::
    "uuid \<Rightarrow> bool \<Rightarrow> uuid \<Rightarrow> 'z payout_db_scheme \<Rightarrow> (error + string) \<times> 'z payout_db_scheme" where
  "decideDistributionPayoutExceptionHold holdId approve actor s =
     withPostgresTransaction payout_constraints (decide_hold_tx holdId approve actor) s"

section \<open>Execution\<close>

definition effective_policy :: "int \<Rightarrow> exception_policy \<Rightarrow> bool" where
  "effective_policy now p \<longleftrightarrow> xp_status p = ''active'' \<and> xp_effective_from p \<le> now
     \<and> (case xp_effective_until p of None \<Rightarrow> True | Some t \<Rightarrow> now < t)"

definition requireExceptionPolicy :: "uuid \<Rightarrow> resolutionType \<Rightarrow> payout_row \<Rightarrow> ('z payout_db_scheme, uuid) tx" where
  "requireExceptionPolicy org resolution p =
     bnd (query (\<lambda>s. first_row (\<lambda>x. xp_organization_id x = org \<and> xp_resolution_type x = resolution \<and> xp_currency x = po_currency p
         \<and> effective_policy (clock s) x \<and> po_amount_minor p \<le> xp_maximum_amount_minor x)
       (sort_by (\<lambda>a b. xp_effective_from b < xp_effective_from a
           \<or> (xp_effective_from a = xp_effective_from b \<and> xp_version b \<le> xp_version a)) (distribution_payout_exception_policies s)))) (\<lambda>found.
     case found of
       None \<Rightarrow> throw (payout_error ''conflict'' ''No active approval policy authorizes this corrective execution.'')
     | Some x \<Rightarrow> ret (xp_id x))"

definition replacement_instruction :: "uuid \<Rightarrow> uuid \<Rightarrow> int \<Rightarrow> payout_row \<Rightarrow> payout_profile \<Rightarrow> uuid \<Rightarrow> uuid \<Rightarrow> payout_row" where
  "replacement_instruction i token now p profile caseId authorizer =
     p\<lparr>po_id := i, po_reference := dpi_reference token, po_payout_profile_version_id := pp_id profile,
       po_provider_recipient_reference := pp_provider_recipient_reference profile, po_provider_transfer_code := None,
       po_status := Payout_authorized, po_authorized_by_identity_id := authorizer, po_authorized_at := now,
       po_dispatch_started_at := None, po_dispatch_worker_id := None, po_submitted_at := None, po_confirmed_at := None,
       po_failed_at := None, po_failure_reason := None, po_settlement_journal_id := None, po_reversal_journal_id := None,
       po_replaces_instruction_id := Some (po_id p), po_exception_case_id := Some caseId\<rparr>"

definition replace_payout :: "runtime \<Rightarrow> exception_case \<Rightarrow> payout_row \<Rightarrow> uuid \<Rightarrow> ('z payout_db_scheme, uuid) tx" where
  "replace_payout rt c p actor =
     andThen (require (po_status p \<in> {Payout_failed, Payout_reversed})
       (payout_error ''conflict'' ''The source payout is not terminally failed or reversed.''))
     (bnd (query (current_profile (po_investor_identity_id p) (po_currency p))) (\<lambda>found.
      case found of
        None \<Rightarrow> throw (payout_error ''conflict'' ''A current verified investor destination is required.'')
      | Some profile \<Rightarrow>
          bnd (randomUUID rt) (\<lambda>i.
          bnd (randomUUID rt) (\<lambda>token.
          bnd (query clock) (\<lambda>now.
          andThen (insert_payout_instruction (replacement_instruction i token now p profile (xc_id c) actor)) (ret i))))))"

definition correction_code :: "resolutionType \<Rightarrow> string \<Rightarrow> string" where
  "correction_code resolution cur =
     (if resolution = Manual_settlement then ''ASSET.DISTRIBUTION_MANUAL_SETTLEMENT_CLEARING.'' @ cur
      else ''REVENUE.DISTRIBUTION_PAYABLE_RELEASE.'' @ cur)"

definition correction_narrative :: "resolutionType \<Rightarrow> string" where
  "correction_narrative resolution =
     ''Distribution payout '' @ map (\<lambda>c. if c = CHR ''_'' then CHR '' '' else c) (resolution_text resolution)"

definition correction_journal :: "exception_case \<Rightarrow> payout_row \<Rightarrow> resolutionType \<Rightarrow> string \<Rightarrow> int \<Rightarrow> post_journal_input" where
  "correction_journal c p resolution evidenceReference now =
     two_line_journal (xc_organization_id c) (''distribution-exception:'' @ xc_id c) (po_currency p)
       (correction_narrative resolution) evidenceReference now None
       [(''distributionPayoutInstructionId'', JStr (po_id p)), (''distributionPayoutExceptionCaseId'', JStr (xc_id c)),
        (''accountingEvent'', JStr (resolution_text resolution))]
       (payable_code (po_currency p)) (correction_code resolution (po_currency p)) (po_amount_minor p)"

definition correct_ledger ::
    "runtime \<Rightarrow> exception_case \<Rightarrow> payout_row \<Rightarrow> resolutionType \<Rightarrow> string option \<Rightarrow> ('z payout_db_scheme, uuid) tx" where
  "correct_ledger rt c p resolution evidence =
     bnd (lift_sum (bounded (case evidence of None \<Rightarrow> [] | Some e \<Rightarrow> e) ''Evidence reference'' 8 500)) (\<lambda>evidenceReference.
     andThen (ensureSettlementAccounts rt (xc_organization_id c) (po_currency p))
     (andThen (ensureLedgerAccount rt \<lparr>lai_organizationId = Some (xc_organization_id c),
        lai_code = correction_code resolution (po_currency p),
        lai_name = (if resolution = Manual_settlement then ''Distribution manual settlement clearing ('' else ''Distribution payable release ('')
          @ po_currency p @ '')'',
        lai_accountType = (if resolution = Manual_settlement then Asset else Revenue),
        lai_normalBalance = (if resolution = Manual_settlement then Debit else Credit)\<rparr>)
     (bnd (query clock) (\<lambda>now.
      bnd (postJournalInTransaction rt (correction_journal c p resolution evidenceReference now)) (\<lambda>journal.
      ret (pj_journalId journal))))))"

text \<open>The insert guard \<open>validate_distribution_exception_execution\<close> of migration 128.\<close>

definition execution_valid :: "exception_execution \<Rightarrow> 'z payout_db_scheme \<Rightarrow> bool" where
  "execution_valid x s \<longleftrightarrow>
     (case find_case (xx_case_id x) s of
        None \<Rightarrow> False
      | Some c \<Rightarrow>
          (case find_instruction (xc_payout_instruction_id c) s of
             None \<Rightarrow> False
           | Some p \<Rightarrow>
               xc_status c = Exception_approved \<and> \<not> xc_held c \<and> xc_resolution_type c = Some (xx_resolution_type x)
               \<and> Some (xx_executed_by_identity_id x) \<noteq> xc_prepared_by_identity_id c
               \<and> (xx_resolution_type x = Close_no_action \<or> exists_row (\<lambda>y. Some (xp_id y) = xx_approval_policy_id x
                    \<and> effective_policy (clock s) y \<and> xp_organization_id y = xc_organization_id c
                    \<and> xp_resolution_type y = xx_resolution_type x \<and> xp_currency y = po_currency p
                    \<and> po_amount_minor p \<le> xp_maximum_amount_minor y) (distribution_payout_exception_policies s))
               \<and> (case xx_resolution_type x of
                    Replacement_payout \<Rightarrow> po_status p \<in> {Payout_failed, Payout_reversed}
                      \<and> exists_row (\<lambda>r. Some (po_id r) = xx_replacement_payout_instruction_id x
                           \<and> po_replaces_instruction_id r = Some (po_id p) \<and> po_exception_case_id r = Some (xc_id c))
                           (distribution_payout_instructions s)
                  | Close_no_action \<Rightarrow> True
                  | _ \<Rightarrow> (case xx_correction_journal_id x of
                      None \<Rightarrow> False
                    | Some j \<Rightarrow>
                        exists_row (\<lambda>e. je_id e = j \<and> je_organization_id e = Some (xc_organization_id c) \<and> je_currency e = po_currency p
                          \<and> je_reversal_of e = None
                          \<and> get_field ''distributionPayoutInstructionId'' (je_metadata e) = Some (JStr (po_id p))
                          \<and> get_field ''distributionPayoutExceptionCaseId'' (je_metadata e) = Some (JStr (xc_id c))) (journal_entries s)
                        \<and> two_lines j (po_amount_minor p) (payable_code (po_currency p))
                            (correction_code (xx_resolution_type x) (po_currency p)) s))))"

definition execution_shape :: "exception_execution \<Rightarrow> bool" where
  "execution_shape x \<longleftrightarrow>
     (case xx_evidence_reference x of None \<Rightarrow> True | Some e \<Rightarrow> 8 \<le> length e \<and> length e \<le> 500)
     \<and> (case xx_resolution_type x of
          Replacement_payout \<Rightarrow> xx_approval_policy_id x \<noteq> None \<and> xx_replacement_payout_instruction_id x \<noteq> None \<and> xx_correction_journal_id x = None
        | Close_no_action \<Rightarrow> xx_approval_policy_id x = None \<and> xx_replacement_payout_instruction_id x = None \<and> xx_correction_journal_id x = None
        | _ \<Rightarrow> xx_approval_policy_id x \<noteq> None \<and> xx_replacement_payout_instruction_id x = None \<and> xx_correction_journal_id x \<noteq> None
             \<and> xx_evidence_reference x \<noteq> None)"

definition insert_execution :: "exception_execution \<Rightarrow> ('z payout_db_scheme, unit) tx" where
  "insert_execution row =
     andThen (require (execution_shape row) (CheckViolation ''distribution_payout_exception_executions_check''))
     (bnd (query (execution_valid row)) (\<lambda>valid.
      andThen (require valid (TriggerException ''distribution exception execution requires an approved unheld case and separate executor''))
      (checked_insert (\<lambda>s. exists_row (\<lambda>x. xx_id x = xx_id row \<or> xx_case_id x = xx_case_id row
            \<or> (xx_replacement_payout_instruction_id row \<noteq> None \<and> xx_replacement_payout_instruction_id x = xx_replacement_payout_instruction_id row)
            \<or> (xx_correction_journal_id row \<noteq> None \<and> xx_correction_journal_id x = xx_correction_journal_id row))
            (distribution_payout_exception_executions s)) ''distribution_payout_exception_executions_case_id_key''
         (identity_known (xx_executed_by_identity_id row)) ''distribution_payout_exception_executions_fkey''
         (\<lambda>s. s\<lparr>distribution_payout_exception_executions := distribution_payout_exception_executions s @ [row]\<rparr>))))"

definition some_tx :: "('s, 'a) tx \<Rightarrow> ('s, 'a option) tx" where
  "some_tx m = bnd m (\<lambda>a. ret (Some a))"

definition execute_exception_tx :: "runtime \<Rightarrow> uuid \<Rightarrow> string option \<Rightarrow> uuid \<Rightarrow> ('z payout_db_scheme, uuid) tx" where
  "execute_exception_tx rt caseId evidence actor =
     bnd (query (\<lambda>s. case find_case caseId s of None \<Rightarrow> None
        | Some c \<Rightarrow> map_option (\<lambda>p. (c, p)) (find_instruction (xc_payout_instruction_id c) s))) (\<lambda>found.
     case found of
       None \<Rightarrow> throw (payout_error ''conflict'' ''Only an approved, unheld exception can be executed.'')
     | Some (c, p) \<Rightarrow>
         andThen (require (xc_status c = Exception_approved \<and> \<not> xc_held c)
           (payout_error ''conflict'' ''Only an approved, unheld exception can be executed.''))
         (andThen (require (xc_prepared_by_identity_id c \<noteq> Some actor)
           (payout_error ''forbidden'' ''The resolution maker cannot execute the correction.''))
         (case xc_resolution_type c of
            None \<Rightarrow> throw (CheckViolation ''distribution_payout_exception_executions.resolution_type'')
          | Some resolution \<Rightarrow>
              bnd (if resolution = Close_no_action then ret None
                   else some_tx (requireExceptionPolicy (xc_organization_id c) resolution p)) (\<lambda>policyId.
              bnd (if resolution = Replacement_payout then some_tx (replace_payout rt c p actor) else ret None) (\<lambda>replacementId.
              bnd (if resolution \<in> {Manual_settlement, Write_off} then some_tx (correct_ledger rt c p resolution evidence) else ret None) (\<lambda>journalId.
              bnd (randomUUID rt) (\<lambda>executionId.
              andThen (insert_execution \<lparr>xx_id = executionId, xx_case_id = caseId, xx_resolution_type = resolution,
                xx_approval_policy_id = policyId, xx_replacement_payout_instruction_id = replacementId,
                xx_correction_journal_id = journalId, xx_evidence_reference = evidence, xx_executed_by_identity_id = actor\<rparr>)
              (andThen (update_case caseId (\<lambda>c. c\<lparr>xc_status := Exception_executed, xc_executed_by_identity_id := Some actor\<rparr>))
              (andThen (note_action rt (audit_of (xc_organization_id c) (Some actor) ''user''
                   (''distribution_payout_exception.'' @ resolution_text resolution @ ''.executed'')
                   ''distribution_payout_exception_execution'' executionId
                   [(''exceptionCaseId'', JStr caseId), (''payoutInstructionId'', JStr (po_id p)),
                    (''replacementPayoutInstructionId'', json_opt replacementId), (''correctionJournalId'', json_opt journalId),
                    (''approvalPolicyId'', json_opt policyId)])
                 ''distribution_payout_exception'' caseId ''distribution_payout_exception.executed''
                 (\<lambda>auditId. [(''organizationId'', JStr (xc_organization_id c)), (''auditEventId'', JStr auditId)]))
              (ret executionId))))))))))"

definition executeDistributionPayoutException ::
    "runtime \<Rightarrow> uuid \<Rightarrow> string option \<Rightarrow> uuid \<Rightarrow> 'z payout_db_scheme \<Rightarrow> (error + uuid) \<times> 'z payout_db_scheme" where
  "executeDistributionPayoutException rt caseId evidence actor s =
     withPostgresTransaction payout_constraints (execute_exception_tx rt caseId evidence actor) s"

end
