(* ===== verification/Payout_Worker.thy ===== *)
theory Payout_Worker
  imports Payout_Exceptions
begin

text \<open>
  The payout worker (\<^verbatim>\<open>src/services/distribution-payout-worker.ts\<close>): it claims the oldest
  authorized instruction, asks the provider for the transfer once and records what came of it,
  turns dispatches whose lease expired into uncertain ones, and reconciles submitted and uncertain
  instructions against what the provider reports. The provider is a parameter; a requested transfer
  enters the log of the database whether or not the call then fails. A statement outside a
  transaction commits on its own.
\<close>

section \<open>Claiming\<close>

record instruction =
  wi_id :: uuid
  wi_provider_recipient_reference :: string
  wi_amount_minor :: int
  wi_reference :: string
  wi_currency :: string

definition instruction_of :: "payout_row \<Rightarrow> instruction" where
  "instruction_of p = \<lparr>wi_id = po_id p, wi_provider_recipient_reference = po_provider_recipient_reference p,
     wi_amount_minor = po_amount_minor p, wi_reference = po_reference p, wi_currency = po_currency p\<rparr>"

definition is_authorized :: "payout_row \<Rightarrow> bool" where
  "is_authorized p \<longleftrightarrow> po_status p = Payout_authorized"

definition authorized_first :: "payout_row \<Rightarrow> payout_row \<Rightarrow> bool" where
  "authorized_first p q \<longleftrightarrow> po_authorized_at p < po_authorized_at q
     \<or> (po_authorized_at p = po_authorized_at q \<and> str_le (po_id p) (po_id q))"

definition start_dispatch :: "string \<Rightarrow> int \<Rightarrow> payout_row \<Rightarrow> payout_row" where
  "start_dispatch workerId now p =
     p\<lparr>po_status := Payout_dispatching, po_dispatch_started_at := Some now, po_dispatch_worker_id := Some workerId\<rparr>"

text \<open>The claim; \<open>FOR UPDATE SKIP LOCKED\<close> skips rows locked by another transaction, here there are none.\<close>

definition claim_payout :: "string \<Rightarrow> ('z payout_db_scheme, instruction option) tx" where
  "claim_payout workerId =
     bnd (query (\<lambda>s. sort_by authorized_first (filter is_authorized (distribution_payout_instructions s)))) (\<lambda>candidates.
     case candidates of
       [] \<Rightarrow> ret None
     | p # _ \<Rightarrow>
         andThen (update_payouts (\<lambda>r. po_id r = po_id p) (start_dispatch workerId))
         (ret (Some (instruction_of p))))"

section \<open>Dispatching\<close>

definition autocommit :: "('z payout_db_scheme, 'a) tx \<Rightarrow> 'z payout_db_scheme \<Rightarrow> (error + 'a) \<times> 'z payout_db_scheme" where
  "autocommit m s = withPostgresTransaction payout_constraints m s"

definition expire_lease :: "int \<Rightarrow> payout_row \<Rightarrow> payout_row" where
  "expire_lease now p = p\<lparr>po_status := Payout_uncertain, po_failed_at := Some now,
     po_failure_reason := Some ''Dispatch lease expired before the provider outcome was durably recorded''\<rparr>"

definition lease_expired :: "int \<Rightarrow> int \<Rightarrow> payout_row \<Rightarrow> bool" where
  "lease_expired maxAgeSeconds now p \<longleftrightarrow> po_status p = Payout_dispatching
     \<and> (case po_dispatch_started_at p of None \<Rightarrow> False | Some t \<Rightarrow> t < now - maxAgeSeconds * 1000)"

definition recover_stale :: "int \<Rightarrow> ('z payout_db_scheme, nat) tx" where
  "recover_stale maxAgeSeconds = bnd (query clock) (\<lambda>now. update_payouts (lease_expired maxAgeSeconds now) expire_lease)"

definition recoverStaleDistributionPayoutDispatches :: "int \<Rightarrow> 'z payout_db_scheme \<Rightarrow> (error + nat) \<times> 'z payout_db_scheme" where
  "recoverStaleDistributionPayoutDispatches maxAgeSeconds s = autocommit (recover_stale maxAgeSeconds) s"

definition mark_submitted :: "uuid \<Rightarrow> string \<Rightarrow> ('z payout_db_scheme, nat) tx" where
  "mark_submitted i transferCode = update_payouts (\<lambda>r. po_id r = i \<and> po_status r = Payout_dispatching)
     (\<lambda>now r. r\<lparr>po_status := Payout_submitted, po_provider_transfer_code := Some transferCode, po_submitted_at := Some now\<rparr>)"

definition mark_uncertain :: "uuid \<Rightarrow> string \<Rightarrow> ('z payout_db_scheme, nat) tx" where
  "mark_uncertain i reason = update_payouts (\<lambda>r. po_id r = i \<and> po_status r = Payout_dispatching)
     (\<lambda>now r. r\<lparr>po_status := Payout_uncertain, po_failed_at := Some now, po_failure_reason := Some (take 2000 reason)\<rparr>)"

text \<open>The call to the provider returns the transfer code.\<close>

type_synonym initiator = "transfer_request \<Rightarrow> error + string"

definition transfer_of :: "instruction \<Rightarrow> transfer_request" where
  "transfer_of i = \<lparr>tq_recipientCode = wi_provider_recipient_reference i, tq_amountKobo = wi_amount_minor i,
     tq_reference = wi_reference i, tq_reason = ''Investor distribution '' @ wi_reference i\<rparr>"

definition request_transfer :: "transfer_request \<Rightarrow> 'z payout_db_scheme \<Rightarrow> 'z payout_db_scheme" where
  "request_transfer q s = s\<lparr>transfers_requested := transfers_requested s @ [q]\<rparr>"

definition sendable :: "instruction \<Rightarrow> error + unit" where
  "sendable i =
     (if wi_currency i \<noteq> ''NGN'' then Inl (GenericError ''Unsupported distribution payout currency'')
      else if \<not> isSafeInteger (Integral (wi_amount_minor i)) \<or> wi_amount_minor i \<le> 0
      then Inl (GenericError ''Invalid distribution payout amount'')
      else Inr ())"

text \<open>The body of the \<open>try\<close>.\<close>

definition send_payout :: "initiator \<Rightarrow> instruction \<Rightarrow> 'z payout_db_scheme \<Rightarrow> (error + unit) \<times> 'z payout_db_scheme" where
  "send_payout initiate i s =
     (case sendable i of
        Inl e \<Rightarrow> (Inl e, s)
      | Inr u \<Rightarrow>
          let s1 = request_transfer (transfer_of i) s in
          (case initiate (transfer_of i) of
             Inl e \<Rightarrow> (Inl e, s1)
           | Inr transferCode \<Rightarrow>
               (case autocommit (mark_submitted (wi_id i) transferCode) s1 of
                  (Inl e, s2) \<Rightarrow> (Inl e, s2)
                | (Inr n, s2) \<Rightarrow>
                    (if n \<noteq> 1
                     then Inl (GenericError ''Distribution payout outcome could not be durably recorded; reconciliation is required'')
                     else Inr (), s2))))"

definition dispatchOneDistributionPayout ::
    "string \<Rightarrow> initiator \<Rightarrow> 'z payout_db_scheme \<Rightarrow> (error + bool) \<times> 'z payout_db_scheme" where
  "dispatchOneDistributionPayout workerId initiate s =
     (case withPostgresTransaction payout_constraints (claim_payout workerId) s of
        (Inl e, s1) \<Rightarrow> (Inl e, s1)
      | (Inr None, s1) \<Rightarrow> (Inr False, s1)
      | (Inr (Some i), s1) \<Rightarrow>
          (case send_payout initiate i s1 of
             (Inr u, s2) \<Rightarrow> (Inr True, s2)
           | (Inl e, s2) \<Rightarrow>
               (case autocommit (mark_uncertain (wi_id i) (error_message e)) s2 of
                  (Inl e', s3) \<Rightarrow> (Inl e', s3)
                | (Inr n, s3) \<Rightarrow> (Inl e, s3))))"

section \<open>Reconciliation\<close>

record transfer_details =
  td_transfer_code :: string
  td_reference :: string
  td_status :: string
  td_amount :: js_number
  td_currency :: string
  td_failures :: "string option"

definition payout_outcome :: "string \<Rightarrow> payoutOutcome option" where
  "payout_outcome status = (if status = ''success'' then Some Outcome_success else if status = ''failed'' then Some Outcome_failed
     else if status = ''reversed'' then Some Outcome_reversed else None)"

definition last_activity :: "payout_row \<Rightarrow> int" where
  "last_activity p = (case po_submitted_at p of Some t \<Rightarrow> t
     | None \<Rightarrow> (case po_dispatch_started_at p of Some t \<Rightarrow> t | None \<Rightarrow> po_authorized_at p))"

definition reconcilable :: "nat \<Rightarrow> 'z payout_db_scheme \<Rightarrow> string list" where
  "reconcilable lim s =
     map po_reference (take lim (sort_by (\<lambda>p q. last_activity p < last_activity q
         \<or> (last_activity p = last_activity q \<and> str_le (po_id p) (po_id q)))
       (filter (\<lambda>p. po_status p \<in> {Payout_submitted, Payout_uncertain}) (distribution_payout_instructions s))))"

definition reported_outcome :: "transfer_details \<Rightarrow> payoutOutcome \<Rightarrow> outcome_input" where
  "reported_outcome t result =
     \<lparr>pv_reference = td_reference t, pv_outcome = result, pv_transferCode = td_transfer_code t, pv_amountMinor = td_amount t,
      pv_currency = td_currency t, pv_source = ''verification'', pv_occurredAt = None, pv_reason = td_failures t\<rparr>"

definition reconcile_one ::
    "runtime \<Rightarrow> (string \<Rightarrow> error + transfer_details) \<Rightarrow> string \<Rightarrow> nat \<times> 'z payout_db_scheme \<Rightarrow> nat \<times> 'z payout_db_scheme" where
  "reconcile_one rt verify ref acc =
     (case verify ref of
        Inl e \<Rightarrow> acc
      | Inr t \<Rightarrow>
          if td_reference t \<noteq> ref then acc
          else (case payout_outcome (td_status t) of
              None \<Rightarrow> acc
            | Some result \<Rightarrow>
                (case recordDistributionPayoutProviderOutcome rt (reported_outcome t result) (snd acc) of
                   (Inr (Handled i st), s') \<Rightarrow> (Suc (fst acc), s')
                 | (_, s') \<Rightarrow> (fst acc, s'))))"

definition reconcileDistributionPayouts ::
    "runtime \<Rightarrow> nat \<Rightarrow> (string \<Rightarrow> error + transfer_details) \<Rightarrow> 'z payout_db_scheme \<Rightarrow> nat \<times> 'z payout_db_scheme" where
  "reconcileDistributionPayouts rt lim verify s = fold (reconcile_one rt verify) (reconcilable lim s) (0, s)"

section \<open>The dispatch loop\<close>

definition authorized_count :: "'z payout_db_scheme \<Rightarrow> nat" where
  "authorized_count s = count_rows is_authorized (distribution_payout_instructions s)"

lemma update_payouts_Inr:
  "update_payouts p f s = Inr (n, s') \<longleftrightarrow>
     (\<forall>r \<in> set (distribution_payout_instructions s). p r \<longrightarrow> payout_update_ok r (f (clock s) r) s \<and> payout_shape (f (clock s) r))
     \<and> some_distinct po_provider_transfer_code (update_where p (f (clock s)) (distribution_payout_instructions s))
     \<and> some_distinct po_settlement_journal_id (update_where p (f (clock s)) (distribution_payout_instructions s))
     \<and> some_distinct po_reversal_journal_id (update_where p (f (clock s)) (distribution_payout_instructions s))
     \<and> n = count_rows p (distribution_payout_instructions s)
     \<and> s' = s\<lparr>distribution_payout_instructions := update_where p (f (clock s)) (distribution_payout_instructions s)\<rparr>"
  by (auto simp: update_payouts_def Let_def exists_row_def list_ex_iff)

lemma count_rows_update_le:
  "(\<And>r. p r \<Longrightarrow> \<not> q (f r)) \<Longrightarrow> count_rows q (update_where p f rows) \<le> count_rows q rows"
  by (induction rows) (auto simp: count_rows_def)

lemma count_rows_update_less:
  "(\<And>r. p r \<Longrightarrow> \<not> q (f r)) \<Longrightarrow> r \<in> set rows \<Longrightarrow> p r \<Longrightarrow> q r \<Longrightarrow> count_rows q (update_where p f rows) < count_rows q rows"
proof (induction rows)
  case (Cons x rows)
  then show ?case using count_rows_update_le [of p q f rows] by (auto simp: count_rows_def)
qed simp

lemma claim_payout_Some:
  assumes "claim_payout w s = Inr (Some i, s')"
  obtains p where "p \<in> set (distribution_payout_instructions s)" and "is_authorized p" and "i = instruction_of p"
    and "update_payouts (\<lambda>r. po_id r = po_id p) (start_dispatch w) s = Inr (count_rows (\<lambda>r. po_id r = po_id p) (distribution_payout_instructions s), s')"
proof -
  obtain p ps n where sorted: "sort_by authorized_first (filter is_authorized (distribution_payout_instructions s)) = p # ps"
    and up: "update_payouts (\<lambda>r. po_id r = po_id p) (start_dispatch w) s = Inr (n, s')" and i: "i = instruction_of p"
    using assms by (auto simp: claim_payout_def tx_Inr elim!: tx_elims split: list.splits)
  have "p \<in> set (sort_by authorized_first (filter is_authorized (distribution_payout_instructions s)))" by (simp add: sorted)
  then show thesis using that [of p] up i by (auto simp: update_payouts_Inr)
qed

lemma claim_payout_count:
  assumes "claim_payout w s = Inr (Some i, s')"
  shows "authorized_count s' < authorized_count s"
  using assms
  by (rule claim_payout_Some) (auto simp: update_payouts_Inr authorized_count_def is_authorized_def start_dispatch_def
      intro!: count_rows_update_less)

lemma autocommit_count:
  assumes "autocommit m s = (r, s')" and "\<And>n t. m s = Inr (n, t) \<Longrightarrow> authorized_count t \<le> authorized_count s"
  shows "authorized_count s' \<le> authorized_count s"
  using assms by (auto simp: autocommit_def withPostgresTransaction_def split: sum.splits option.splits prod.splits)

lemma mark_submitted_count: "mark_submitted i c s = Inr (n, t) \<Longrightarrow> authorized_count t \<le> authorized_count s"
  by (auto simp: mark_submitted_def update_payouts_Inr authorized_count_def is_authorized_def intro!: count_rows_update_le)

lemma request_transfer_count [simp]: "authorized_count (request_transfer q s) = authorized_count s"
  by (simp add: request_transfer_def authorized_count_def)

lemma send_payout_count:
  assumes "send_payout initiate i s = (r, s')"
  shows "authorized_count s' \<le> authorized_count s"
  using assms
  by (auto simp: send_payout_def Let_def split: sum.splits prod.splits dest!: autocommit_count [OF _ mark_submitted_count])

lemma dispatch_one_count:
  assumes "dispatchOneDistributionPayout w initiate s = (Inr True, s')"
  shows "authorized_count s' < authorized_count s"
proof -
  obtain i s1 where "claim_payout w s = Inr (Some i, s1)" and "send_payout initiate i s1 = (Inr (), s')"
    using assms by (auto simp: dispatchOneDistributionPayout_def withPostgresTransaction_commit split: sum.splits prod.splits option.splits)
  then show ?thesis using claim_payout_count send_payout_count by fastforce
qed

text \<open>\<open>while (await dispatchOneDistributionPayout(workerId))\<close>: every turn takes an authorized
  instruction, so the loop ends.\<close>

function drain_payouts :: "string \<Rightarrow> initiator \<Rightarrow> 'z payout_db_scheme \<Rightarrow> (error + unit) \<times> 'z payout_db_scheme" where
  "drain_payouts workerId initiate s =
     (case dispatchOneDistributionPayout workerId initiate s of
        (Inl e, s') \<Rightarrow> (Inl e, s')
      | (Inr True, s') \<Rightarrow> drain_payouts workerId initiate s'
      | (Inr False, s') \<Rightarrow> (Inr (), s'))"
  by pat_completeness auto
termination
  by (relation "measure (\<lambda>(w, f, s). authorized_count s)") (auto dest!: dispatch_one_count [OF sym])

declare drain_payouts.simps [simp del]

text \<open>One tick of the dispatch timer; errors are logged.\<close>

definition dispatch_tick :: "int \<Rightarrow> string \<Rightarrow> initiator \<Rightarrow> 'z payout_db_scheme \<Rightarrow> 'z payout_db_scheme" where
  "dispatch_tick maxAgeSeconds workerId initiate s =
     (case recoverStaleDistributionPayoutDispatches maxAgeSeconds s of
        (Inl e, s1) \<Rightarrow> s1
      | (Inr n, s1) \<Rightarrow> snd (drain_payouts workerId initiate s1))"

end
