(* ===== verification/Payout_Runs.thy ===== *)
theory Payout_Runs
  imports Payout_Safety
begin

text \<open>
  Histories of payouts: every command of the governed side, and the worker taken apart into its
  claim, its call to the provider and the statements that record what came of it, so that several
  workers interleave and may stop anywhere. The instructions a worker has claimed and not yet sent
  are in its hands.
\<close>

section \<open>Commands and steps\<close>

datatype payout_command =
    Wait nat
  | Verify_profile recipient_service profile_input
  | Submit_funding "error + js_number" funding_input
  | Decide_funding "error + js_number" funding_decision
  | Record_outcome outcome_input
  | Create_policy policy_input
  | Approve_policy uuid uuid
  | Open_exception uuid uuid
  | Add_evidence exception_evidence_input
  | Propose_resolution uuid resolutionType string uuid
  | Decide_resolution uuid bool uuid
  | Propose_hold uuid bool string uuid
  | Decide_hold uuid bool uuid
  | Execute_exception uuid "string option" uuid
  | Recover_dispatches int

fun run_payout_command :: "runtime \<Rightarrow> payout_command \<Rightarrow> 'z payout_db_scheme \<Rightarrow> 'z payout_db_scheme" where
  "run_payout_command rt (Wait n) s = s\<lparr>clock := clock s + int n\<rparr>"
| "run_payout_command rt (Verify_profile svc inp) s = snd (verifyInvestorDistributionPayoutProfile rt svc inp s)"
| "run_payout_command rt (Submit_funding balance inp) s = snd (submitDistributionFundingRequest rt balance inp s)"
| "run_payout_command rt (Decide_funding balance inp) s = snd (decideDistributionFundingRequest rt balance inp s)"
| "run_payout_command rt (Record_outcome inp) s = snd (recordDistributionPayoutProviderOutcome rt inp s)"
| "run_payout_command rt (Create_policy inp) s = snd (createDistributionPayoutExceptionPolicy rt inp s)"
| "run_payout_command rt (Approve_policy i a) s = snd (approveDistributionPayoutExceptionPolicy i a s)"
| "run_payout_command rt (Open_exception i a) s = snd (openDistributionPayoutException rt i a s)"
| "run_payout_command rt (Add_evidence inp) s = snd (addDistributionPayoutExceptionEvidence rt inp s)"
| "run_payout_command rt (Propose_resolution i r t a) s = snd (proposeDistributionPayoutExceptionResolution i r t a s)"
| "run_payout_command rt (Decide_resolution i b a) s = snd (decideDistributionPayoutExceptionResolution i b a s)"
| "run_payout_command rt (Propose_hold i b t a) s = snd (proposeDistributionPayoutExceptionHold rt i b t a s)"
| "run_payout_command rt (Decide_hold i b a) s = snd (decideDistributionPayoutExceptionHold i b a s)"
| "run_payout_command rt (Execute_exception i e a) s = snd (executeDistributionPayoutException rt i e a s)"
| "run_payout_command rt (Recover_dispatches n) s = snd (recoverStaleDistributionPayoutDispatches n s)"

record payout_system =
  ps_db :: payout_db
  ps_hands :: "instruction list"

inductive payout_step :: "runtime \<Rightarrow> payout_system \<Rightarrow> payout_system \<Rightarrow> bool" for rt where
  command: "payout_step rt x (x\<lparr>ps_db := run_payout_command rt c (ps_db x)\<rparr>)"
| claim: "withPostgresTransaction payout_constraints (claim_payout w) (ps_db x) = (Inr (Some i), s') \<Longrightarrow>
    payout_step rt x (x\<lparr>ps_db := s', ps_hands := i # ps_hands x\<rparr>)"
| send: "i \<in> set (ps_hands x) \<Longrightarrow> sendable i = Inr () \<Longrightarrow>
    payout_step rt x (x\<lparr>ps_db := request_transfer (transfer_of i) (ps_db x), ps_hands := remove1 i (ps_hands x)\<rparr>)"
| stop: "payout_step rt x (x\<lparr>ps_hands := remove1 i (ps_hands x)\<rparr>)"
| submitted: "payout_step rt x (x\<lparr>ps_db := snd (autocommit (mark_submitted i transferCode) (ps_db x))\<rparr>)"
| uncertain: "payout_step rt x (x\<lparr>ps_db := snd (autocommit (mark_uncertain i reason) (ps_db x))\<rparr>)"

abbreviation payout_run :: "runtime \<Rightarrow> payout_system \<Rightarrow> payout_system \<Rightarrow> bool" where
  "payout_run rt \<equiv> (payout_step rt)\<^sup>*\<^sup>*"

lemma record_orphan_from [simp]: "payouts_from rows ts (record_orphan rt i r e s) = payouts_from rows ts s"
  by (simp add: record_orphan_def Let_def)

lemma verify_profile_from:
  assumes "payouts_from rows ts s"
  shows "payouts_from rows ts (snd (verifyInvestorDistributionPayoutProfile rt svc inp s))"
proof -
  have "payouts_from rows ts s'" if "withPostgresTransaction deferred_constraints (persist_profile rt inp n r c) s = (q, s')" for n r c q s'
    using payouts_from_transaction [OF from_persist_profile assms, of deferred_constraints rt inp n r c] that by simp
  then show ?thesis
    using assms by (auto simp: verifyInvestorDistributionPayoutProfile_def Let_def split: sum.splits prod.splits)
qed

lemma command_from:
  assumes "payouts_from rows ts s"
  shows "payouts_from rows ts (run_payout_command rt c s)"
proof (cases c)
  case (Submit_funding balance inp)
  then show ?thesis using assms payouts_from_transaction [OF from_submit_funding assms]
    by (simp add: submitDistributionFundingRequest_def split: sum.split option.split)
next
  case (Decide_funding balance inp)
  then show ?thesis using assms payouts_from_transaction [OF from_decide_funding assms]
    by (simp add: decideDistributionFundingRequest_def split: sum.split option.split)
qed (use assms verify_profile_from [OF assms] from_transactions [THEN payouts_from_transaction, OF assms] in
    \<open>simp_all add: recordDistributionPayoutProviderOutcome_def Let_def createDistributionPayoutExceptionPolicy_def
      approveDistributionPayoutExceptionPolicy_def openDistributionPayoutException_def addDistributionPayoutExceptionEvidence_def
      proposeDistributionPayoutExceptionResolution_def decideDistributionPayoutExceptionResolution_def
      proposeDistributionPayoutExceptionHold_def decideDistributionPayoutExceptionHold_def executeDistributionPayoutException_def
      recoverStaleDistributionPayoutDispatches_def autocommit_def\<close>)

text \<open>A command, and each statement of a worker, changes the table by its moves and asks for no
  transfer; a claim moves one instruction.\<close>

lemma command_effect:
  shows "payout_change\<^sup>*\<^sup>* (distribution_payout_instructions s) (distribution_payout_instructions (run_payout_command rt c s))"
    and "transfers_requested (run_payout_command rt c s) = transfers_requested s"
  using command_from [OF payouts_from_refl [of s], of rt c] by (simp_all add: payouts_from_def)

lemma statement_effect:
  assumes "m = mark_submitted i t \<or> m = mark_uncertain i t"
  shows "payout_change\<^sup>*\<^sup>* (distribution_payout_instructions s) (distribution_payout_instructions (snd (autocommit m s)))"
    and "transfers_requested (snd (autocommit m s)) = transfers_requested s"
  using assms payouts_from_transaction [OF from_mark_submitted [of _ _ i t] payouts_from_refl [of s], of payout_constraints]
    payouts_from_transaction [OF from_mark_uncertain [of _ _ i t] payouts_from_refl [of s], of payout_constraints]
  by (auto simp: payouts_from_def autocommit_def)

lemma claim_effect:
  assumes "withPostgresTransaction payout_constraints (claim_payout w) s = (Inr (Some i), s')"
  obtains p where "p \<in> set (distribution_payout_instructions s)" and "is_authorized p" and "i = instruction_of p"
    and "distribution_payout_instructions s' =
      update_where (\<lambda>r. po_id r = po_id p) (start_dispatch w (clock s)) (distribution_payout_instructions s)"
    and "payout_change (distribution_payout_instructions s) (distribution_payout_instructions s')"
    and "transfers_requested s' = transfers_requested s"
proof -
  have "claim_payout w s = Inr (Some i, s')" using assms by (simp add: withPostgresTransaction_commit)
  then obtain p n where p: "p \<in> set (distribution_payout_instructions s)" "is_authorized p" "i = instruction_of p"
    and up: "update_payouts (\<lambda>r. po_id r = po_id p) (start_dispatch w) s = Inr (n, s')"
    by (rule claim_payout_Some)
  have "list_all2 moved (distribution_payout_instructions s)
      (update_where (\<lambda>r. po_id r = po_id p) (start_dispatch w (clock s)) (distribution_payout_instructions s))"
    using up by (intro update_where_moved) (auto simp: update_payouts_Inr payout_update_ok_def same_payout_def start_dispatch_def)
  then show thesis using that [OF p] up by (auto simp: update_payouts_Inr intro: moves)
qed

section \<open>Sent once\<close>

definition taken_references :: "payout_row list \<Rightarrow> string list" where
  "taken_references rows = map po_reference (filter (\<lambda>p. \<not> is_authorized p) rows)"

lemma moves_forward: "payout_moves st st' \<Longrightarrow> st' \<noteq> Payout_authorized"
  by (cases st) auto

lemma taken_references_Cons [simp]:
  "taken_references (p # rows) = (if is_authorized p then [] else [po_reference p]) @ taken_references rows"
  by (simp add: taken_references_def)

lemma moved_references:
  assumes "list_all2 moved rows rows'"
  shows "map po_reference rows' = map po_reference rows \<and> mset (taken_references rows) \<subseteq># mset (taken_references rows')"
  using assms
proof (induction rule: list_all2_induct)
  case (Cons r rows r' rows')
  then show ?case
    by (auto simp: moved_def same_payout_def is_authorized_def dest: moves_forward intro: subset_mset.order_trans)
qed (simp add: taken_references_def)

lemma change_references:
  assumes "payout_change rows rows'"
  shows "(distinct (map po_reference rows) \<longrightarrow> distinct (map po_reference rows'))
     \<and> mset (taken_references rows) \<subseteq># mset (taken_references rows')"
  using assms
proof cases
  case moves
  then show ?thesis using moved_references by metis
qed (auto simp: taken_references_def is_authorized_def)

lemma changes_references:
  "payout_change\<^sup>*\<^sup>* rows rows' \<Longrightarrow> (distinct (map po_reference rows) \<longrightarrow> distinct (map po_reference rows'))
     \<and> mset (taken_references rows) \<subseteq># mset (taken_references rows')"
  by (induction rule: rtranclp_induct) (auto dest!: change_references intro: subset_mset.order_trans)

lemma dispatched [simp]: "\<not> is_authorized (start_dispatch w now r)" "po_reference (start_dispatch w now r) = po_reference r"
  by (simp_all add: start_dispatch_def is_authorized_def)

lemma claim_references:
  assumes "p \<in> set rows" and "is_authorized p"
  shows "add_mset (po_reference p) (mset (taken_references rows))
    \<subseteq># mset (taken_references (update_where (\<lambda>r. po_id r = po_id p) (start_dispatch w now) rows))"
  using assms
proof (induction rows)
  case (Cons r rows)
  let ?up = "update_where (\<lambda>r. po_id r = po_id p) (start_dispatch w now)"
  have keep: "mset (taken_references rows) \<subseteq># mset (taken_references (?up rows))"
    by (induction rows) (auto simp: taken_references_def intro: subset_mset.order_trans)
  show ?case
  proof (cases "r = p")
    case True
    then show ?thesis using keep Cons.prems by simp
  next
    case False
    then show ?thesis using Cons by (auto intro: subset_mset.order_trans)
  qed
qed simp

definition transfers_ok :: "payout_system \<Rightarrow> bool" where
  "transfers_ok x \<longleftrightarrow> distinct (map po_reference (distribution_payout_instructions (ps_db x)))
     \<and> mset (map tq_reference (transfers_requested (ps_db x))) + mset (map wi_reference (ps_hands x))
       \<subseteq># mset (taken_references (distribution_payout_instructions (ps_db x)))"

lemma transfers_ok_change:
  assumes "transfers_ok x" and "payout_change\<^sup>*\<^sup>* (distribution_payout_instructions (ps_db x)) (distribution_payout_instructions s')"
    and "transfers_requested s' = transfers_requested (ps_db x)"
  shows "transfers_ok (x\<lparr>ps_db := s'\<rparr>)"
  using assms changes_references [OF assms(2)] by (auto simp: transfers_ok_def intro: subset_mset.order_trans)

lemma hands_split: "i \<in> set xs \<Longrightarrow> mset (map f xs) = add_mset (f i) (mset (map f (remove1 i xs)))"
  by (induction xs) auto

lemma hands_shrink: "mset (map f (remove1 i xs)) \<subseteq># mset (map f xs)"
  by (cases "i \<in> set xs") (simp_all add: hands_split remove1_idem del: mset_map)

lemma payout_step_transfers_ok:
  assumes "payout_step rt x y" and ok: "transfers_ok x"
  shows "transfers_ok y"
  using assms(1)
proof cases
  case (claim w i s')
  from claim(2) obtain p where p: "p \<in> set (distribution_payout_instructions (ps_db x))" "is_authorized p" "i = instruction_of p"
    and rows: "distribution_payout_instructions s' =
      update_where (\<lambda>r. po_id r = po_id p) (start_dispatch w (clock (ps_db x))) (distribution_payout_instructions (ps_db x))"
    and change: "payout_change (distribution_payout_instructions (ps_db x)) (distribution_payout_instructions s')"
    and same: "transfers_requested s' = transfers_requested (ps_db x)"
    by (rule claim_effect)
  have "add_mset (po_reference p) (mset (map tq_reference (transfers_requested (ps_db x))) + mset (map wi_reference (ps_hands x)))
      \<subseteq># add_mset (po_reference p) (mset (taken_references (distribution_payout_instructions (ps_db x))))"
    using ok by (simp add: transfers_ok_def del: mset_map)
  also have "\<dots> \<subseteq># mset (taken_references (distribution_payout_instructions s'))"
    unfolding rows by (rule claim_references [OF p(1,2)])
  finally show ?thesis
    using ok change_references [OF change] same by (simp add: transfers_ok_def claim(1) p(3) instruction_of_def del: mset_map)
next
  case (send i)
  then show ?thesis using ok hands_split [OF send(2), of wi_reference]
    by (simp add: transfers_ok_def request_transfer_def transfer_of_def del: mset_map)
next
  case (stop i)
  have "mset (map tq_reference (transfers_requested (ps_db x))) + mset (map wi_reference (remove1 i (ps_hands x)))
      \<subseteq># mset (taken_references (distribution_payout_instructions (ps_db x)))"
    using ok hands_shrink [of wi_reference i "ps_hands x"]
    by (metis (no_types) transfers_ok_def subset_mset.add_left_mono subset_mset.order_trans)
  then show ?thesis using ok by (simp add: transfers_ok_def stop)
qed (auto intro!: transfers_ok_change [OF ok] command_effect statement_effect)

lemma payout_run_transfers_ok: "payout_run rt x y \<Longrightarrow> transfers_ok x \<Longrightarrow> transfers_ok y"
  by (induction rule: rtranclp_induct) (auto intro: payout_step_transfers_ok)

lemma distinct_submset:
  assumes "mset xs \<subseteq># mset ys" and "distinct ys"
  shows "distinct xs"
proof -
  have one: "count (mset ys) a \<le> 1" for a
    using spec [OF iffD1 [OF distinct_count_atmost_1 assms(2)], of a] by (metis le_refl zero_le_one)
  have le: "count (mset xs) a \<le> 1" for a
    by (rule le_trans [OF mset_subset_eq_count [OF assms(1)] one])
  have "count (mset xs) a = (if a \<in> set xs then 1 else 0)" for a
    using le [of a] count_greater_zero_iff [of "mset xs" a] by (cases "count (mset xs) a") (auto simp: not_in_iff)
  then show ?thesis by (simp add: distinct_count_atmost_1)
qed

lemma transfers_ok_distinct:
  assumes "transfers_ok x"
  shows "distinct (map tq_reference (transfers_requested (ps_db x)))"
proof (rule distinct_submset)
  show "mset (map tq_reference (transfers_requested (ps_db x))) \<subseteq># mset (taken_references (distribution_payout_instructions (ps_db x)))"
    using assms unfolding transfers_ok_def by (metis mset_subset_eq_add_left subset_mset.order_trans)
  show "distinct (taken_references (distribution_payout_instructions (ps_db x)))"
    using assms by (simp add: transfers_ok_def taken_references_def distinct_map_filter)
qed

end
