(* ===== verification/Payout_Properties.thy ===== *)
theory Payout_Properties
  imports Payout_Runs Dispatch_Protocol
begin

text \<open>
  The properties of payouts: each instruction is sent at most once and exactly as it was
  authorized, an entitlement never has two live instructions, an approved funding is covered by
  the balance the provider reported beside everything already reserved, and the worker as the code
  composes it is a run of the steps of \<open>Payout_Runs\<close>.
\<close>

section \<open>Transfers are what was authorized\<close>

definition transfer_matches :: "transfer_request \<Rightarrow> payout_row \<Rightarrow> bool" where
  "transfer_matches q p \<longleftrightarrow> tq_reference q = po_reference p \<and> tq_amountKobo q = po_amount_minor p
     \<and> tq_recipientCode q = po_provider_recipient_reference p"

definition transfers_backed :: "payout_system \<Rightarrow> bool" where
  "transfers_backed x \<longleftrightarrow> (\<forall>q \<in> set (transfers_requested (ps_db x)) \<union> transfer_of ` set (ps_hands x).
     \<exists>p \<in> set (distribution_payout_instructions (ps_db x)). transfer_matches q p)"

lemma change_backed:
  assumes "payout_change rows rows'" and "p \<in> set rows" and "transfer_matches q p"
  shows "\<exists>p' \<in> set rows'. transfer_matches q p'"
  using assms(1)
proof cases
  case moves
  then show ?thesis using assms(2,3)
    by (induction rule: list_all2_induct) (auto simp: moved_def same_payout_def transfer_matches_def)
qed (use assms in auto)

lemma changes_backed:
  "payout_change\<^sup>*\<^sup>* rows rows' \<Longrightarrow> p \<in> set rows \<Longrightarrow> transfer_matches q p \<Longrightarrow> \<exists>p' \<in> set rows'. transfer_matches q p'"
  by (induction arbitrary: p rule: converse_rtranclp_induct) (auto dest: change_backed)

lemma transfers_backed_change:
  assumes "transfers_backed x" and "payout_change\<^sup>*\<^sup>* (distribution_payout_instructions (ps_db x)) (distribution_payout_instructions s')"
    and "transfers_requested s' = transfers_requested (ps_db x)"
  shows "transfers_backed (x\<lparr>ps_db := s'\<rparr>)"
  using assms changes_backed [OF assms(2)] by (fastforce simp: transfers_backed_def)

lemma payout_step_backed:
  assumes "payout_step rt x y" and ok: "transfers_backed x"
  shows "transfers_backed y"
  using assms(1)
proof cases
  case (claim w i s')
  from claim(2) obtain p where p: "p \<in> set (distribution_payout_instructions (ps_db x))" "i = instruction_of p"
    and change: "payout_change (distribution_payout_instructions (ps_db x)) (distribution_payout_instructions s')"
    and same: "transfers_requested s' = transfers_requested (ps_db x)"
    by (rule claim_effect) blast
  have "transfer_matches (transfer_of i) p" by (simp add: p(2) transfer_matches_def transfer_of_def instruction_of_def)
  from change_backed [OF change p(1) this] transfers_backed_change [OF ok r_into_rtranclp [where r = payout_change, OF change] same]
  show ?thesis by (auto simp: transfers_backed_def claim(1))
next
  case (send i)
  then show ?thesis using ok set_remove1_subset [of i "ps_hands x"] by (auto simp: transfers_backed_def request_transfer_def)
next
  case (stop i)
  then show ?thesis using ok set_remove1_subset [of i "ps_hands x"] by (auto simp: transfers_backed_def)
qed (auto intro!: transfers_backed_change [OF ok] command_effect statement_effect)

lemma payout_run_backed: "payout_run rt x y \<Longrightarrow> transfers_backed x \<Longrightarrow> transfers_backed y"
  by (induction rule: rtranclp_induct) (auto intro: payout_step_backed)

section \<open>One live instruction per entitlement\<close>

definition replaced :: "payout_row list \<Rightarrow> payout_row \<Rightarrow> bool" where
  "replaced rows p \<longleftrightarrow> (\<exists>q \<in> set rows. po_replaces_instruction_id q = Some (po_id p))"

text \<open>The instructions of an entitlement form a chain from its original: what is replaced is failed
  or reversed, and at most one is not replaced.\<close>

definition chains_ok :: "payout_row list \<Rightarrow> bool" where
  "chains_ok rows \<longleftrightarrow> distinct (map po_id rows)
     \<and> (\<forall>p \<in> set rows. \<exists>q \<in> set rows. po_entitlement_id q = po_entitlement_id p \<and> po_replaces_instruction_id q = None)
     \<and> (\<forall>p \<in> set rows. \<forall>i. po_replaces_instruction_id p = Some i \<longrightarrow> i \<in> po_id ` set rows)
     \<and> (\<forall>p \<in> set rows. replaced rows p \<longrightarrow> terminal p)
     \<and> (\<forall>p \<in> set rows. \<forall>q \<in> set rows. po_entitlement_id p = po_entitlement_id q \<and> \<not> replaced rows p \<and> \<not> replaced rows q \<longrightarrow> p = q)"

lemma chains_okD:
  assumes "chains_ok rows" and "p \<in> set rows"
  shows "\<exists>q \<in> set rows. po_entitlement_id q = po_entitlement_id p \<and> po_replaces_instruction_id q = None"
    and "po_replaces_instruction_id p = Some i \<Longrightarrow> i \<in> po_id ` set rows"
    and "replaced rows p \<Longrightarrow> terminal p"
    and "q \<in> set rows \<Longrightarrow> po_entitlement_id p = po_entitlement_id q \<Longrightarrow> \<not> replaced rows p \<Longrightarrow> \<not> replaced rows q \<Longrightarrow> p = q"
  using assms unfolding chains_ok_def by blast+

definition key_of :: "payout_row \<Rightarrow> uuid \<times> uuid \<times> uuid option" where
  "key_of p = (po_id p, po_entitlement_id p, po_replaces_instruction_id p)"

lemma moved_keys: "list_all2 moved rows rows' \<Longrightarrow> map key_of rows' = map key_of rows"
  by (induction rule: list_all2_induct) (auto simp: moved_def same_payout_def key_of_def)

lemma moved_source:
  "list_all2 moved rows rows' \<Longrightarrow> r' \<in> set rows' \<Longrightarrow> \<exists>r \<in> set rows. moved r r'"
  by (induction rule: list_all2_induct) auto

lemma moved_terminal: "moved r r' \<Longrightarrow> terminal r \<Longrightarrow> r' = r"
  by (auto simp: moved_def terminal_def)

lemma same_keys_replaced:
  assumes "map key_of rows' = map key_of rows" and "po_id p' = po_id p"
  shows "replaced rows' p' = replaced rows p"
proof -
  have "(\<lambda>k. snd (snd k)) ` set (map key_of rows') = (\<lambda>k. snd (snd k)) ` set (map key_of rows)" by (simp only: assms(1))
  then have "po_replaces_instruction_id ` set rows' = po_replaces_instruction_id ` set rows"
    by (simp add: image_image key_of_def)
  then show ?thesis using assms(2) unfolding replaced_def by (metis (no_types) image_iff)
qed

lemma chains_ok_moved:
  assumes "list_all2 moved rows rows'" and ok: "chains_ok rows"
  shows "chains_ok rows'"
proof -
  note keys = moved_keys [OF assms(1)]
  have ids: "map po_id rows' = map po_id rows"
    using arg_cong [OF keys, of "map fst"] by (simp add: comp_def key_of_def)
  have source: "\<exists>r \<in> set rows. moved r r' \<and> key_of r' = key_of r \<and> replaced rows' r' = replaced rows r"
    if member: "r' \<in> set rows'" for r'
  proof -
    obtain r where r: "r \<in> set rows" "moved r r'" using moved_source [OF assms(1) member] by blast
    then have "key_of r' = key_of r" by (auto simp: moved_def same_payout_def key_of_def)
    moreover from this have "replaced rows' r' = replaced rows r" by (intro same_keys_replaced [OF keys]) (simp add: key_of_def)
    ultimately show ?thesis using r by blast
  qed
  have fwd: "\<exists>r' \<in> set rows'. key_of r' = key_of r" if "r \<in> set rows" for r
    using map_eq_member [OF keys [symmetric] that] by auto
  show ?thesis
    unfolding chains_ok_def
  proof (intro conjI ballI allI impI)
    show "distinct (map po_id rows')" using ok ids by (simp add: chains_ok_def)
    fix p' assume p': "p' \<in> set rows'"
    then obtain p where p: "p \<in> set rows" "moved p p'" "key_of p' = key_of p" "replaced rows' p' = replaced rows p"
      using source by blast
    show "\<exists>q \<in> set rows'. po_entitlement_id q = po_entitlement_id p' \<and> po_replaces_instruction_id q = None"
    proof -
      obtain q where q: "q \<in> set rows" "po_entitlement_id q = po_entitlement_id p" "po_replaces_instruction_id q = None"
        using chains_okD(1) [OF ok p(1)] by blast
      obtain q' where "q' \<in> set rows'" "key_of q' = key_of q" using fwd [OF q(1)] by blast
      then show ?thesis using q p(3) by (auto simp: key_of_def)
    qed
    show "i \<in> po_id ` set rows'" if "po_replaces_instruction_id p' = Some i" for i
    proof -
      have "po_replaces_instruction_id p = Some i" using p(3) that by (simp add: key_of_def)
      from chains_okD(2) [OF ok p(1) this] show ?thesis using arg_cong [OF ids, of set] by simp
    qed
    show "terminal p'" if "replaced rows' p'"
    proof -
      have "terminal p" using chains_okD(3) [OF ok p(1)] p(4) that by simp
      then show ?thesis using moved_terminal [OF p(2)] by simp
    qed
    fix q' assume "q' \<in> set rows'" and one: "po_entitlement_id p' = po_entitlement_id q' \<and> \<not> replaced rows' p' \<and> \<not> replaced rows' q'"
    then obtain q where q: "q \<in> set rows" "key_of q' = key_of q" "replaced rows' q' = replaced rows q" using source by blast
    have "p = q" using ok p q one by (auto simp: chains_ok_def key_of_def)
    then have "po_id p' = po_id q'" using p q by (simp add: key_of_def)
    then show "p' = q'" using distinct_map_key_eq [of po_id rows' p' q'] p' \<open>q' \<in> set rows'\<close> ok ids by (simp add: chains_ok_def)
  qed
qed

lemma chains_ok_added:
  assumes ok: "chains_ok rows" and adm: "admissible rows row" and fresh: "\<forall>p \<in> set rows. po_id p \<noteq> po_id row"
  shows "chains_ok (rows @ [row])"
proof -
  have new: "\<not> replaced (rows @ [row]) row"
  proof
    assume "replaced (rows @ [row]) row"
    then obtain q where "q \<in> set (rows @ [row])" and q: "po_replaces_instruction_id q = Some (po_id row)"
      unfolding replaced_def by blast
    then consider "q \<in> set rows" | "q = row" by auto
    then have "po_id row \<in> po_id ` set rows"
    proof cases
      case 1
      then show ?thesis using ok q unfolding chains_ok_def by blast
    next
      case 2
      then show ?thesis using adm q by (auto simp: admissible_def intro: rev_image_eqI)
    qed
    then show False using fresh by auto
  qed
  have old: "replaced (rows @ [row]) p \<longleftrightarrow> replaced rows p \<or> po_replaces_instruction_id row = Some (po_id p)" for p
    by (auto simp: replaced_def)
  have gone: "replaced (rows @ [row]) p" if p: "p \<in> set rows" and same: "po_entitlement_id p = po_entitlement_id row" for p
  proof (cases "po_replaces_instruction_id row")
    case None
    then show ?thesis using adm chains_okD(1) [OF ok p] same by (auto simp: admissible_def)
  next
    case (Some i)
    then obtain q where q: "q \<in> set rows" "po_id q = i" "po_entitlement_id q = po_entitlement_id row"
      and "\<not> replaced rows q" using adm by (auto simp: admissible_def replaced_def)
    then have "p = q \<or> replaced rows p" using chains_okD(4) [OF ok p, of q] same by auto
    then show ?thesis using old Some q by auto
  qed
  have dead: "terminal p" if p: "p \<in> set rows" and link: "po_replaces_instruction_id row = Some (po_id p)" for p
  proof -
    obtain q where "q \<in> set rows" "po_id q = po_id p" "terminal q" using adm link by (auto simp: admissible_def)
    then show ?thesis using distinct_map_key_eq [of po_id rows q p] ok p by (simp add: chains_ok_def)
  qed
  have root: "\<exists>q \<in> set (rows @ [row]). po_entitlement_id q = po_entitlement_id row \<and> po_replaces_instruction_id q = None"
    using adm chains_okD(1) [OF ok] by (cases "po_replaces_instruction_id row") (auto simp: admissible_def, metis)
  have link: "i \<in> po_id ` set (rows @ [row])" if "po_replaces_instruction_id row = Some i" for i
    using adm that by (auto simp: admissible_def)
  show ?thesis
    unfolding chains_ok_def
  proof (intro conjI ballI allI impI)
    show "distinct (map po_id (rows @ [row]))" using ok fresh by (auto simp: chains_ok_def)
    fix p assume p: "p \<in> set (rows @ [row])"
    show "\<exists>q \<in> set (rows @ [row]). po_entitlement_id q = po_entitlement_id p \<and> po_replaces_instruction_id q = None"
      using p root ok by (cases "p = row") (auto simp: chains_ok_def)
    show "i \<in> po_id ` set (rows @ [row])" if "po_replaces_instruction_id p = Some i" for i
      using p link ok that by (cases "p = row") (auto simp: chains_ok_def)
    show "terminal p" if "replaced (rows @ [row]) p"
      using p that new dead ok unfolding old by (cases "p = row") (auto simp: chains_ok_def old)
    fix q assume q: "q \<in> set (rows @ [row])"
      and one: "po_entitlement_id p = po_entitlement_id q \<and> \<not> replaced (rows @ [row]) p \<and> \<not> replaced (rows @ [row]) q"
    show "p = q"
    proof (cases "p = row \<or> q = row")
      case True
      then show ?thesis using gone [of p] gone [of q] p q one by auto
    next
      case False
      then show ?thesis using p q one ok unfolding old by (auto simp: chains_ok_def)
    qed
  qed
qed

lemma change_chains_ok: "payout_change rows rows' \<Longrightarrow> chains_ok rows \<Longrightarrow> chains_ok rows'"
  by (induction rule: payout_change.induct) (auto intro: chains_ok_moved chains_ok_added)

lemma changes_chains_ok: "payout_change\<^sup>*\<^sup>* rows rows' \<Longrightarrow> chains_ok rows \<Longrightarrow> chains_ok rows'"
  by (induction rule: rtranclp_induct) (auto intro: change_chains_ok)

lemma payout_step_change:
  "payout_step rt x y \<Longrightarrow> payout_change\<^sup>*\<^sup>* (distribution_payout_instructions (ps_db x)) (distribution_payout_instructions (ps_db y))"
proof (induction rule: payout_step.induct)
  case (claim w x i s')
  then show ?case by (auto elim: claim_effect)
qed (auto simp: request_transfer_def intro: command_effect statement_effect)

text \<open>The contract of any system of commands and workers over the table of instructions: its steps
  change the table only by moves and admissible additions. Chains then survive every run.\<close>

locale payout_history =
  fixes step :: "'s \<Rightarrow> 's \<Rightarrow> bool" and table :: "'s \<Rightarrow> payout_row list"
  assumes changes: "step x y \<Longrightarrow> payout_change\<^sup>*\<^sup>* (table x) (table y)"
begin

lemma run_changes: "step\<^sup>*\<^sup>* x y \<Longrightarrow> payout_change\<^sup>*\<^sup>* (table x) (table y)"
  by (induction rule: rtranclp_induct) (auto dest: changes)

lemma run_chains_ok: "step\<^sup>*\<^sup>* x y \<Longrightarrow> chains_ok (table x) \<Longrightarrow> chains_ok (table y)"
  by (rule changes_chains_ok [OF run_changes])

end

interpretation payouts: payout_history "payout_step rt" "\<lambda>x. distribution_payout_instructions (ps_db x)" for rt
  by unfold_locales (rule payout_step_change)

lemma at_most_one: "distinct xs \<Longrightarrow> (\<And>x y. x \<in> set xs \<Longrightarrow> y \<in> set xs \<Longrightarrow> x = y) \<Longrightarrow> length xs \<le> 1"
proof (cases xs)
  case (Cons x ys)
  assume dist: "distinct xs" and same: "\<And>x y. x \<in> set xs \<Longrightarrow> y \<in> set xs \<Longrightarrow> x = y"
  have "ys = []" using dist Cons same [of x "hd ys"] by (cases ys) auto
  then show ?thesis by (simp add: Cons)
qed simp

lemma chains_ok_live:
  assumes "chains_ok rows"
  shows "length (filter (\<lambda>p. po_entitlement_id p = e \<and> \<not> terminal p) rows) \<le> 1"
proof (rule at_most_one)
  show "distinct (filter (\<lambda>p. po_entitlement_id p = e \<and> \<not> terminal p) rows)"
    using assms by (simp add: chains_ok_def distinct_map)
next
  fix p q
  assume p: "p \<in> set (filter (\<lambda>p. po_entitlement_id p = e \<and> \<not> terminal p) rows)"
    and q: "q \<in> set (filter (\<lambda>p. po_entitlement_id p = e \<and> \<not> terminal p) rows)"
  then show "p = q" using chains_okD(3,4) [OF assms] by simp metis
qed

section \<open>Funding\<close>

definition rows_are :: "payout_row list \<Rightarrow> funding_row list \<Rightarrow> 'z payout_db_scheme \<Rightarrow> bool" where
  "rows_are rows fs s \<longleftrightarrow> distribution_payout_instructions s = rows \<and> distribution_funding_requests s = fs"

lemma rows_are_updates [simp]:
  "rows_are rows fs (s\<lparr>uuids_drawn := k\<rparr>) = rows_are rows fs s"
  "rows_are rows fs (s\<lparr>audit_sequence := n\<rparr>) = rows_are rows fs s"
  "rows_are rows fs (s\<lparr>audit_events := ev\<rparr>) = rows_are rows fs s"
  "rows_are rows fs (s\<lparr>audit_chain_heads := hs\<rparr>) = rows_are rows fs s"
  "rows_are rows fs (s\<lparr>outbox_events := ob\<rparr>) = rows_are rows fs s"
  "rows_are rows fs (s\<lparr>ledger_accounts := la\<rparr>) = rows_are rows fs s"
  "rows_are rows fs (s\<lparr>journal_entries := je\<rparr>) = rows_are rows fs s"
  "rows_are rows fs (s\<lparr>journal_postings := jp\<rparr>) = rows_are rows fs s"
  "rows_are rows fs (s\<lparr>distribution_payout_exception_cases := xc\<rparr>) = rows_are rows fs s"
  "rows_are rows fs (s\<lparr>distribution_payout_exception_executions := xx\<rparr>) = rows_are rows fs s"
  by (simp_all add: rows_are_def)

lemma rows_note_action [hoare_intros]: "preserves (rows_are rows fs) (note_action rt a t i e f)"
  unfolding note_action_def by (intro hoare_intros) simp_all

lemma note_action_rows:
  assumes "note_action rt a t i e f s = Inr (u, s')"
  shows "distribution_payout_instructions s' = distribution_payout_instructions s
     \<and> distribution_funding_requests s' = distribution_funding_requests s"
  using hoareD [OF rows_note_action _ assms, of "distribution_payout_instructions s" "distribution_funding_requests s"]
  by (simp add: rows_are_def)

definition original_of :: "uuid \<Rightarrow> payout_row \<Rightarrow> bool" where
  "original_of i p \<longleftrightarrow> po_funding_request_id p = i \<and> po_replaces_instruction_id p = None"

definition new_original :: "uuid \<Rightarrow> payout_row \<Rightarrow> bool" where
  "new_original i p \<longleftrightarrow> original_of i p \<and> po_status p = Payout_authorized \<and> 0 < po_amount_minor p"

lemma authorized_rows:
  assumes "for_each rows (\<lambda>r. case snd r of None \<Rightarrow> ret () | Some p \<Rightarrow>
      bnd (randomUUID rt) (\<lambda>i. bnd (randomUUID rt) (\<lambda>token. bnd (query clock) (\<lambda>now.
        insert_payout_instruction (authorized_instruction i token now f (fst r) p a))))) s = Inr (u, s')"
    and "list_all (\<lambda>r. snd r \<noteq> None) rows"
  shows "\<exists>new. length new = length rows \<and> list_all (new_original (fu_id f)) new
    \<and> distribution_payout_instructions s' = distribution_payout_instructions s @ new
    \<and> distribution_funding_requests s' = distribution_funding_requests s"
  using assms
proof (induction rows arbitrary: s)
  case Nil
  then show ?case by (simp add: ret_Inr)
next
  case (Cons r rows)
  obtain p where p: "snd r = Some p" using Cons.prems(2) by auto
  obtain i token k now s1 where ins: "insert_payout_instruction (authorized_instruction i token now f (fst r) p a) (s\<lparr>uuids_drawn := k\<rparr>) = Inr ((), s1)"
    and rest: "for_each rows (\<lambda>r. case snd r of None \<Rightarrow> ret () | Some p \<Rightarrow>
      bnd (randomUUID rt) (\<lambda>i. bnd (randomUUID rt) (\<lambda>token. bnd (query clock) (\<lambda>now.
        insert_payout_instruction (authorized_instruction i token now f (fst r) p a))))) s1 = Inr (u, s')"
    using Cons.prems(1) p by (auto simp: randomUUID_Inr tx_Inr elim!: tx_elims)
  let ?row = "authorized_instruction i token now f (fst r) p a"
  obtain new where new: "length new = length rows" "list_all (new_original (fu_id f)) new"
    "distribution_payout_instructions s' = distribution_payout_instructions s1 @ new"
    "distribution_funding_requests s' = distribution_funding_requests s1"
    using Cons.IH [OF rest] Cons.prems(2) by auto
  have "new_original (fu_id f) ?row"
    using instruction_added(2) [OF ins] by (simp add: new_original_def original_of_def authorized_instruction_def)
  then show ?case using new instruction_added(1) [OF ins] by (intro exI [of _ "?row # new"]) simp
qed

lemma authorize_payouts_effect:
  assumes "authorize_payouts rt inp f b s = Inr (n, s')"
  shows "fu_amount_minor f + reserved_balance s \<le> b"
    and "\<exists>new. new \<noteq> [] \<and> list_all (new_original (fu_id f)) new
      \<and> distribution_payout_instructions s' = distribution_payout_instructions s @ new
      \<and> distribution_funding_requests s' = distribution_funding_requests s"
proof -
  let ?rows = "entitled_destinations f s"
  have le: "fu_amount_minor f + reserved_balance s \<le> b" and ne: "?rows \<noteq> []"
    and all: "list_all (\<lambda>r. case snd r of None \<Rightarrow> False | Some p \<Rightarrow> pp_provider_recipient_reference p \<noteq> []) ?rows"
    and loop: "\<exists>u. for_each ?rows (\<lambda>r. case snd r of None \<Rightarrow> ret () | Some p \<Rightarrow>
      bnd (randomUUID rt) (\<lambda>i. bnd (randomUUID rt) (\<lambda>token. bnd (query clock) (\<lambda>now.
        insert_payout_instruction (authorized_instruction i token now f (fst r) p (fd_actorIdentityId inp)))))) s = Inr (u, s')"
    using assms unfolding authorize_payouts_def by (auto simp: tx_Inr elim!: tx_elims)
  show "fu_amount_minor f + reserved_balance s \<le> b" by (rule le)
  have "list_all (\<lambda>r. snd r \<noteq> None) ?rows" using all by (auto simp: list_all_iff split: option.splits)
  then obtain new where "length new = length ?rows" "list_all (new_original (fu_id f)) new"
    "distribution_payout_instructions s' = distribution_payout_instructions s @ new"
    "distribution_funding_requests s' = distribution_funding_requests s"
    using loop authorized_rows by blast
  then show "\<exists>new. new \<noteq> [] \<and> list_all (new_original (fu_id f)) new
      \<and> distribution_payout_instructions s' = distribution_payout_instructions s @ new
      \<and> distribution_funding_requests s' = distribution_funding_requests s"
    using ne by (intro exI [of _ new]) auto
qed

lemma first_row_update:
  "(\<And>r. k (f r) = k r) \<Longrightarrow> first_row (\<lambda>r. k r = i) (update_where (\<lambda>r. k r = i) f rows) = map_option f (first_row (\<lambda>r. k r = i) rows)"
  by (induction rows) (auto simp: first_row_def)

lemma decide_funding_status: "decide_funding_tx rt inp b reason s = Inr (d, s') \<Longrightarrow> df_status d = funding_desired inp"
  unfolding decide_funding_tx_def by (auto simp: tx_Inr elim!: tx_elims split: option.splits if_splits)

text \<open>What a committed approval has done: the balance was enough, the new originals follow the old
  rows, and the projection of the funding holds.\<close>

lemma approved_funding_effect:
  assumes run: "decideDistributionFundingRequest rt balance inp s = (Inr d, s')"
    and "df_status d = Request_approved" and "\<not> df_replayed d"
  obtains f b new where "balance = Inr b" and "first_row (\<lambda>f. fu_id f = fd_requestId inp) (distribution_funding_requests s) = Some f"
    and "fu_amount_minor f + reserved_balance s \<le> amount_value (NumberAmount b)"
    and "list_all (new_original (fu_id f)) new"
    and "distribution_payout_instructions s' = distribution_payout_instructions s @ new"
    and "sum_rows (original_of (fu_id f)) po_amount_minor (distribution_payout_instructions s') = fu_amount_minor f"
proof -
  obtain f b reason where f: "first_row (\<lambda>f. fu_id f = fd_requestId inp) (distribution_funding_requests s) = Some f"
    and b: "balance = Inr b" and approve: "fd_approve inp"
    and tx: "decide_funding_tx rt inp (Some (amount_value (NumberAmount b))) reason s = Inr (d, s')"
    and con: "payout_constraints s s' = None"
    using assms unfolding decideDistributionFundingRequest_def
    by (auto simp: withPostgresTransaction_commit observed_balance_def funding_desired_def
        split: sum.splits option.splits if_splits dest: decide_funding_status)
  have fi: "fu_id f = fd_requestId inp" using f by (auto dest: first_row_Some)
  obtain n s1 s2 where au: "authorize_payouts rt inp f (amount_value (NumberAmount b)) s = Inr (n, s1)"
    and up: "update_funding (fu_id f) (decide_funding_row inp (Some (amount_value (NumberAmount b))) reason) s1 = Inr ((), s2)"
    and keep: "distribution_payout_instructions s' = distribution_payout_instructions s2"
      "distribution_funding_requests s' = distribution_funding_requests s2"
    using tx f assms(3) unfolding decide_funding_tx_def
    by (auto simp: tx_Inr elim!: tx_elims split: if_splits dest!: note_action_rows)
  obtain new where new: "new \<noteq> []" "list_all (new_original (fu_id f)) new"
    "distribution_payout_instructions s1 = distribution_payout_instructions s @ new"
    "distribution_funding_requests s1 = distribution_funding_requests s"
    using authorize_payouts_effect(2) [OF au] by blast
  have rows: "distribution_payout_instructions s' = distribution_payout_instructions s @ new"
    using keep(1) up new(3) by (auto simp: update_funding_def split: if_splits)
  have "first_row (\<lambda>r. fu_id r = fu_id f) (distribution_funding_requests s')
      = Some (decide_funding_row inp (Some (amount_value (NumberAmount b))) reason (clock s1) f)"
    using keep(2) up new(4) f fi first_row_update [of fu_id "decide_funding_row inp (Some (amount_value (NumberAmount b))) reason (clock s1)" "fu_id f"]
    by (auto simp: update_funding_def decide_funding_row_def split: if_splits)
  moreover have "payout_projection s' (fu_id f) = None"
  proof -
    obtain p ps where p: "new = p # ps" using new(1) by (cases new) auto
    then have "po_funding_request_id p = fu_id f" using new(2) by (simp add: new_original_def original_of_def)
    then show ?thesis using con p by (auto simp: payout_constraints_def first_error_None rows split: option.splits)
  qed
  ultimately have "sum_rows (original_of (fu_id f)) po_amount_minor (distribution_payout_instructions s') = fu_amount_minor f"
    using approve by (auto simp: payout_projection_def decide_funding_row_def funding_desired_def original_of_def [abs_def] Let_def split: if_splits)
  then show thesis using that [OF b f authorize_payouts_effect(1) [OF au] new(2) rows] by simp
qed

lemma new_originals_sum:
  assumes "list_all (new_original i) new"
  shows "sum_rows unsettled po_amount_minor new = sum_rows (original_of i) po_amount_minor new"
  using assms by (induction new) (auto simp: sum_rows_def new_original_def unsettled_def)

end
