(* ===== verification/Payout_Theorems.thy ===== *)
theory Payout_Theorems
  imports Payout_Properties
begin

text \<open>
  The worker as the code composes it is a run of the steps of \<open>Payout_Runs\<close>, its loop ends with
  no authorized instruction left, and the properties of payouts with their witnesses on a small
  database: one organization, one approved declaration with one entitlement and its funding.
\<close>

section \<open>The worker is a run of the steps\<close>

lemma run_statement:
  "payout_run rt x (x\<lparr>ps_db := snd (autocommit (mark_submitted i t) (ps_db x))\<rparr>)"
  "payout_run rt x (x\<lparr>ps_db := snd (autocommit (mark_uncertain i t) (ps_db x))\<rparr>)"
  by (auto intro: payout_step.submitted payout_step.uncertain)

lemma run_on_db:
  assumes "payout_run rt x y" and "payout_run rt y (y\<lparr>ps_db := s\<rparr>)" and "y = x\<lparr>ps_db := s0\<rparr>"
  shows "payout_run rt x (x\<lparr>ps_db := s\<rparr>)"
  using rtranclp_trans [OF assms(1,2)] assms(3) by simp

lemma run_send:
  assumes "i \<in> set (ps_hands x)"
  shows "payout_run rt x (x\<lparr>ps_db := snd (send_payout initiate i (ps_db x)), ps_hands := remove1 i (ps_hands x)\<rparr>)"
proof (cases "sendable i")
  case (Inl e)
  then show ?thesis using payout_step.stop [of rt x i] by (auto simp: send_payout_def)
next
  case (Inr u)
  let ?y = "x\<lparr>ps_db := request_transfer (transfer_of i) (ps_db x), ps_hands := remove1 i (ps_hands x)\<rparr>"
  have sent: "payout_step rt x ?y" using assms Inr by (intro payout_step.send) simp_all
  show ?thesis
  proof (cases "initiate (transfer_of i)")
    case (Inl e)
    then show ?thesis using sent Inr by (auto simp: send_payout_def)
  next
    case code: (Inr transferCode)
    have "snd (send_payout initiate i (ps_db x)) = snd (autocommit (mark_submitted (wi_id i) transferCode) (ps_db ?y))"
      using Inr code by (simp add: send_payout_def Let_def split: prod.split sum.split)
    then show ?thesis using converse_rtranclp_into_rtranclp [where r = "payout_step rt", OF sent run_statement(1) [of rt ?y "wi_id i" transferCode]] by (cases x) simp
  qed
qed

lemma claim_payout_None:
  assumes "claim_payout w s = Inr (None, s')"
  shows "s' = s" and "authorized_count s = 0"
proof -
  have "sort_by authorized_first (filter is_authorized (distribution_payout_instructions s)) = []"
    using assms by (auto simp: claim_payout_def tx_Inr elim!: tx_elims split: list.splits)
  then have "set (sort_by authorized_first (filter is_authorized (distribution_payout_instructions s))) = {}" by simp
  then show "authorized_count s = 0" by (simp add: authorized_count_def count_rows_def filter_empty_conv)
  show "s' = s" using assms by (auto simp: claim_payout_def tx_Inr elim!: tx_elims split: list.splits)
qed

lemma run_dispatch_one: "payout_run rt x (x\<lparr>ps_db := snd (dispatchOneDistributionPayout w initiate (ps_db x))\<rparr>)"
proof -
  obtain r s1 where claim: "withPostgresTransaction payout_constraints (claim_payout w) (ps_db x) = (r, s1)" by fastforce
  show ?thesis
  proof (cases r)
    case (Inl e)
    then show ?thesis using claim withPostgresTransaction_rollback [of payout_constraints "claim_payout w" "ps_db x" e s1]
      by (simp add: dispatchOneDistributionPayout_def)
  next
    case (Inr found)
    show ?thesis
    proof (cases found)
      case None
      then show ?thesis using claim Inr claim_payout_None(1) [of w "ps_db x" s1]
          withPostgresTransaction_commit [of payout_constraints "claim_payout w" "ps_db x" None s1]
        by (simp add: dispatchOneDistributionPayout_def)
    next
      case (Some i)
      let ?y = "x\<lparr>ps_db := s1, ps_hands := i # ps_hands x\<rparr>"
      have "payout_step rt x ?y" using claim Inr Some by (intro payout_step.claim) simp
      then have sent: "payout_run rt x (x\<lparr>ps_db := snd (send_payout initiate i s1)\<rparr>)"
        using run_send [of i ?y rt initiate] by (simp add: converse_rtranclp_into_rtranclp)
      obtain r2 s2 where s2: "send_payout initiate i s1 = (r2, s2)" by fastforce
      show ?thesis
      proof (cases r2)
        case (Inr u)
        then show ?thesis using sent claim \<open>r = Inr found\<close> Some s2 by (simp add: dispatchOneDistributionPayout_def)
      next
        case (Inl e)
        have "snd (dispatchOneDistributionPayout w initiate (ps_db x)) = snd (autocommit (mark_uncertain (wi_id i) (error_message e)) s2)"
          using claim \<open>r = Inr found\<close> Some s2 Inl by (simp add: dispatchOneDistributionPayout_def split: prod.split sum.split)
        then show ?thesis using sent s2 rtranclp_trans [OF sent run_statement(2) [of rt _ "wi_id i" "error_message e"]] by simp
      qed
    qed
  qed
qed

lemma run_drain: "payout_run rt (x\<lparr>ps_db := s\<rparr>) (x\<lparr>ps_db := snd (drain_payouts w initiate s)\<rparr>)"
proof (induction w initiate s rule: drain_payouts.induct)
  case (1 w initiate s)
  obtain r s1 where one: "dispatchOneDistributionPayout w initiate s = (r, s1)" by fastforce
  have first: "payout_run rt (x\<lparr>ps_db := s\<rparr>) (x\<lparr>ps_db := s1\<rparr>)" using run_dispatch_one [of rt "x\<lparr>ps_db := s\<rparr>" w initiate] one by simp
  show ?case
  proof (cases "r = Inr True")
    case True
    then have "payout_run rt (x\<lparr>ps_db := s1\<rparr>) (x\<lparr>ps_db := snd (drain_payouts w initiate s1)\<rparr>)" using 1 one by simp
    with first show ?thesis using one True by (simp add: drain_payouts.simps [of w initiate s])
  next
    case False
    then have "snd (drain_payouts w initiate s) = s1"
      using one by (cases r) (auto simp: drain_payouts.simps [of w initiate s] split: bool.split)
    then show ?thesis using first by simp
  qed
qed

lemma run_recover: "payout_run rt x (x\<lparr>ps_db := snd (recoverStaleDistributionPayoutDispatches n (ps_db x))\<rparr>)"
  using payout_step.command [of rt x "Recover_dispatches n"] by simp

lemma run_tick: "payout_run rt x (x\<lparr>ps_db := dispatch_tick n w initiate (ps_db x)\<rparr>)"
proof -
  obtain r s1 where one: "recoverStaleDistributionPayoutDispatches n (ps_db x) = (r, s1)" by fastforce
  have first: "payout_run rt x (x\<lparr>ps_db := s1\<rparr>)" using run_recover [of rt x n] one by simp
  show ?thesis
  proof (cases r)
    case (Inr k)
    then show ?thesis using rtranclp_trans [OF first run_drain [where w = w and initiate = initiate]] one by (simp add: dispatch_tick_def)
  qed (use first one in \<open>simp add: dispatch_tick_def\<close>)
qed

lemma run_reconcile_one: "payout_run rt x (x\<lparr>ps_db := snd (reconcile_one rt verify ref (n, ps_db x))\<rparr>)"
proof -
  have "payout_run rt x (x\<lparr>ps_db := snd (recordDistributionPayoutProviderOutcome rt inp (ps_db x))\<rparr>)" for inp
    using payout_step.command [of rt x "Record_outcome inp"] by simp
  note recorded = this
  show ?thesis
  proof (cases "snd (reconcile_one rt verify ref (n, ps_db x)) = ps_db x")
    case False
    then obtain t result where t: "verify ref = Inr t" "td_reference t = ref" "payout_outcome (td_status t) = Some result"
      by (auto simp: reconcile_one_def split: sum.splits option.splits if_splits)
    then have "snd (reconcile_one rt verify ref (n, ps_db x))
        = snd (recordDistributionPayoutProviderOutcome rt (reported_outcome t result) (ps_db x))"
      by (simp add: reconcile_one_def split: prod.split sum.split recorded_outcome.split)
    then show ?thesis using recorded by simp
  qed simp
qed

lemma run_reconcile_all: "payout_run rt x (x\<lparr>ps_db := snd (fold (reconcile_one rt verify) refs (n, ps_db x))\<rparr>)"
proof (induction refs arbitrary: n x)
  case (Cons ref refs)
  obtain m s1 where one: "reconcile_one rt verify ref (n, ps_db x) = (m, s1)" by fastforce
  have "payout_run rt x (x\<lparr>ps_db := s1\<rparr>)" using run_reconcile_one [of rt x verify ref n] one by simp
  from rtranclp_trans [OF this Cons.IH, of m] show ?case using one by simp
qed simp

text \<open>C38: The payout worker as the code composes it does nothing the steps do not: a tick of the dispatch
  timer (recovering expired leases, then claiming, sending and recording until nothing is
  authorized) and a reconciliation pass are runs of the interleaved steps of claims, provider
  calls, statements and commands, from any state and for any behaviour of the provider.\<close>

theorem payout_worker_runs_steps:
  "payout_run rt x (x\<lparr>ps_db := dispatch_tick maxAge w initiate (ps_db x)\<rparr>)
   \<and> payout_run rt x (x\<lparr>ps_db := snd (reconcileDistributionPayouts rt lim verify (ps_db x))\<rparr>)"
  unfolding reconcileDistributionPayouts_def using run_tick run_reconcile_all by blast

section \<open>A small database\<close>

definition payout_person :: "string \<Rightarrow> identity_row" where
  "payout_person i = \<lparr>idn_id = i, idn_legacy_mongo_id = None, idn_email = i @ ''@example.com'', idn_active = True\<rparr>"

definition sample_destination :: payout_profile where
  "sample_destination = \<lparr>pp_id = ''profile'', pp_investor_identity_id = sample_uuid 903, pp_version = 1, pp_currency = ''NGN'',
     pp_account_holder_name = ''Ada Obi'', pp_account_last4 = ''6789'', pp_provider_recipient_reference = ''RCP_1'',
     pp_verified = True, pp_verified_at = 1690000000000, pp_superseded_at = None\<rparr>"

definition sample_funding :: funding_row where
  "sample_funding = \<lparr>fu_id = ''funding'', fu_reference = ''DFR-1'', fu_organization_id = ''org'',
     fu_declaration_request_id = ''declaration'', fu_currency = ''NGN'', fu_amount_minor = 500, fu_evidence_reference = ''bank letter'',
     fu_evidence_sha256 = [], fu_submission_observed_balance = 700, fu_approval_observed_balance = None,
     fu_status = Request_submitted, fu_command_key = ''key'', fu_request_hash = [], fu_submitted_by_identity_id = sample_uuid 901,
     fu_submitted_at = 1690000000000, fu_reviewed_by_identity_id = None, fu_reviewed_at = None, fu_decision_reason = None\<rparr>"

definition sample_payout_row :: payout_row where
  "sample_payout_row = \<lparr>po_id = ''payout'', po_reference = ''DPI-1'', po_funding_request_id = ''funding'',
     po_declaration_request_id = ''declaration'', po_entitlement_id = ''entitlement'', po_investor_identity_id = sample_uuid 903,
     po_payout_profile_version_id = ''profile'', po_provider_recipient_reference = ''RCP_1'', po_provider_transfer_code = None,
     po_currency = ''NGN'', po_amount_minor = 500, po_status = Payout_authorized, po_authorized_by_identity_id = sample_uuid 902,
     po_authorized_at = 1690000000000, po_dispatch_started_at = None, po_dispatch_worker_id = None, po_submitted_at = None,
     po_confirmed_at = None, po_failed_at = None, po_failure_reason = None, po_settlement_journal_id = None,
     po_reversal_journal_id = None, po_replaces_instruction_id = None, po_exception_case_id = None\<rparr>"

definition sample_payout_db :: "payout_row list \<Rightarrow> payout_db" where
  "sample_payout_db rows =
     \<lparr>clock = 1700000000000, uuids_drawn = 0, identities = map payout_person [sample_uuid 901, sample_uuid 902, sample_uuid 903],
      audit_sequence = 0, audit_events = [], audit_chain_heads = [], outbox_events = [], organizations = [''org''],
      ledger_accounts = [], journal_entries = [], journal_postings = [], email_verified = [], organization_jurisdictions = [],
      distribution_declaration_requests = [\<lparr>dcl_id = ''declaration'', dcl_organization_id = ''org'', dcl_currency = ''NGN'',
        dcl_net_amount_minor = 500, dcl_entitlement_count = 1, dcl_status = Request_approved\<rparr>],
      distribution_entitlements = [\<lparr>ent_id = ''entitlement'', ent_declaration_request_id = ''declaration'',
        ent_investor_identity_id = sample_uuid 903, ent_net_amount_minor = 500\<rparr>],
      investor_distribution_payout_profiles = [sample_destination], distribution_payout_recipient_recovery_cases = [],
      distribution_funding_requests = [sample_funding], distribution_payout_instructions = rows,
      distribution_payout_provider_events = [], distribution_payout_exception_policies = [],
      distribution_payout_exception_cases = [], distribution_payout_exception_evidence = [],
      distribution_payout_exception_hold_requests = [], distribution_payout_exception_executions = [],
      lifecycle_configuration = None, distribution_lifecycle_policy_bindings = [], transfers_requested = []\<rparr>"

lemma sample_payout_fields [simp]:
  "distribution_payout_instructions (sample_payout_db rows) = rows" "transfers_requested (sample_payout_db rows) = []"
  "clock (sample_payout_db rows) = 1700000000000" "journal_entries (sample_payout_db rows) = []" "journal_postings (sample_payout_db rows) = []"
  "distribution_funding_requests (sample_payout_db rows) = [sample_funding]"
  by (simp_all add: sample_payout_db_def)

definition sample_payouts :: payout_system where
  "sample_payouts = \<lparr>ps_db = sample_payout_db [sample_payout_row], ps_hands = []\<rparr>"

definition sample_transferred :: payout_system where
  "sample_transferred = \<lparr>ps_db = request_transfer (transfer_of (instruction_of sample_payout_row))
     (sample_payout_db [start_dispatch ''worker'' 1700000000000 sample_payout_row]), ps_hands = []\<rparr>"

lemma sample_payout_rows: "sample_payout_db rows\<lparr>distribution_payout_instructions := rows'\<rparr> = sample_payout_db rows'"
  by (simp add: sample_payout_db_def)

lemma sample_claim:
  "withPostgresTransaction payout_constraints (claim_payout ''worker'') (sample_payout_db [sample_payout_row])
   = (Inr (Some (instruction_of sample_payout_row)), sample_payout_db [start_dispatch ''worker'' 1700000000000 sample_payout_row])"
proof -
  have "claim_payout ''worker'' (sample_payout_db [sample_payout_row])
      = Inr (Some (instruction_of sample_payout_row), sample_payout_db [start_dispatch ''worker'' 1700000000000 sample_payout_row])"
    by (simp add: claim_payout_def tx_simps is_authorized_def update_payouts_def Let_def exists_row_def payout_update_ok_def
        sample_payout_rows some_distinct_def) (simp add: sample_payout_row_def start_dispatch_def payout_shape_def)
  then show ?thesis
    by (simp add: withPostgresTransaction_commit payout_constraints_def deferred_constraints_def)
qed

lemma sample_payout_run: "payout_run plain_runtime sample_payouts sample_transferred"
proof -
  let ?s = "sample_payout_db [start_dispatch ''worker'' 1700000000000 sample_payout_row]"
  have "payout_step plain_runtime sample_payouts \<lparr>ps_db = ?s, ps_hands = [instruction_of sample_payout_row]\<rparr>"
    using payout_step.claim [of "''worker''" sample_payouts _ ?s plain_runtime] sample_claim by (simp add: sample_payouts_def)
  moreover have "payout_step plain_runtime \<lparr>ps_db = ?s, ps_hands = [instruction_of sample_payout_row]\<rparr> sample_transferred"
    using payout_step.send [of "instruction_of sample_payout_row" "\<lparr>ps_db = ?s, ps_hands = [instruction_of sample_payout_row]\<rparr>" plain_runtime]
    by (simp add: sample_transferred_def sendable_def instruction_of_def sample_payout_row_def MAX_SAFE_INTEGER_def)
  ultimately show ?thesis by auto
qed

definition sample_submitted :: payout_db where
  "sample_submitted = request_transfer (transfer_of (instruction_of sample_payout_row)) (sample_payout_db
     [(start_dispatch ''worker'' 1700000000000 sample_payout_row)\<lparr>po_status := Payout_submitted,
       po_provider_transfer_code := Some ''TRF_1'', po_submitted_at := Some 1700000000000\<rparr>])"

lemma request_transfer_rows:
  "request_transfer q s\<lparr>distribution_payout_instructions := rows\<rparr> = request_transfer q (s\<lparr>distribution_payout_instructions := rows\<rparr>)"
  "distribution_payout_instructions (request_transfer q s) = distribution_payout_instructions s"
  "clock (request_transfer q s) = clock s" "journal_postings (request_transfer q s) = journal_postings s"
  "journal_entries (request_transfer q s) = journal_entries s"
  "distribution_funding_requests (request_transfer q s) = distribution_funding_requests s"
  by (simp_all add: request_transfer_def)

lemma sample_dispatch:
  "dispatchOneDistributionPayout ''worker'' (\<lambda>_. Inr ''TRF_1'') (sample_payout_db [sample_payout_row]) = (Inr True, sample_submitted)"
proof -
  let ?i = "instruction_of sample_payout_row" and ?row = "start_dispatch ''worker'' 1700000000000 sample_payout_row"
  have i: "wi_id ?i = po_id ?row" "po_status ?row = Payout_dispatching" by (simp_all add: instruction_of_def start_dispatch_def)
  have "mark_submitted (wi_id ?i) ''TRF_1'' (request_transfer (transfer_of ?i) (sample_payout_db [?row])) = Inr (1, sample_submitted)"
    unfolding i by (simp add: mark_submitted_def update_payouts_def Let_def exists_row_def payout_update_ok_def i request_transfer_rows
      sample_payout_rows some_distinct_def count_rows_def sample_submitted_def)
      (simp add: sample_payout_row_def start_dispatch_def payout_shape_def)
  then have "autocommit (mark_submitted (wi_id ?i) ''TRF_1'') (request_transfer (transfer_of ?i) (sample_payout_db [?row])) = (Inr 1, sample_submitted)"
    by (simp add: autocommit_def withPostgresTransaction_commit payout_constraints_def deferred_constraints_def sample_submitted_def request_transfer_rows)
  then show ?thesis
    by (simp add: dispatchOneDistributionPayout_def sample_claim send_payout_def)
      (simp add: sendable_def instruction_of_def sample_payout_row_def MAX_SAFE_INTEGER_def)
qed

lemma sample_idle: "dispatchOneDistributionPayout ''worker'' initiate sample_submitted = (Inr False, sample_submitted)"
proof -
  have "claim_payout ''worker'' sample_submitted = Inr (None, sample_submitted)"
    by (simp add: claim_payout_def tx_simps is_authorized_def sample_submitted_def request_transfer_rows)
  then show ?thesis
    by (simp add: dispatchOneDistributionPayout_def withPostgresTransaction_def payout_constraints_def deferred_constraints_def)
qed

lemma sample_drained: "drain_payouts ''worker'' (\<lambda>_. Inr ''TRF_1'') (sample_payout_db [sample_payout_row]) = (Inr (), sample_submitted)"
  by (simp add: drain_payouts.simps sample_dispatch sample_idle)

section \<open>Properties\<close>

text \<open>C39: The dispatch loop always ends, and when it ends without an error no authorized payout
  instruction is left, of those the loop can see: the claim skips rows that another worker has locked
  (\<open>FOR UPDATE SKIP LOCKED\<close>), which that worker is about to claim, and here no row is locked by
  another. An error ends the loop early, which leaves the rest for the next tick.\<close>

theorem dispatch_drains_authorized:
  assumes "drain_payouts w initiate s = (Inr u, s')"
  shows "authorized_count s' = 0"
  using assms
proof (induction w initiate s rule: drain_payouts.induct)
  case (1 w initiate s)
  obtain r s1 where one: "dispatchOneDistributionPayout w initiate s = (r, s1)" by fastforce
  show ?case
  proof (cases "r = Inr True")
    case True
    then show ?thesis using 1 one by (simp add: drain_payouts.simps [of w initiate s])
  next
    case False
    then have "r = Inr False" "s' = s1"
      using 1(2) one by (cases r; auto simp: drain_payouts.simps [of w initiate s] split: bool.splits)+
    then have "claim_payout w s = Inr (None, s1)"
      using one by (auto simp: dispatchOneDistributionPayout_def withPostgresTransaction_commit split: sum.splits prod.splits option.splits)
    then show ?thesis using claim_payout_None [of w s s1] \<open>s' = s1\<close> by simp
  qed
qed

theorem dispatch_drains_authorized_witness:
  "drain_payouts ''worker'' (\<lambda>_. Inr ''TRF_1'') (sample_payout_db [sample_payout_row]) = (Inr (), sample_submitted)
   \<and> authorized_count (sample_payout_db [sample_payout_row]) = 1 \<and> authorized_count sample_submitted = 0"
  using dispatch_drains_authorized [OF sample_drained] sample_drained
  by (simp add: authorized_count_def count_rows_def is_authorized_def sample_payout_row_def)

text \<open>C15: Under any interleaving of governed commands, payout workers, provider calls and crashes, no
  payout reference is ever sent to the provider twice, and every transfer that was requested has
  the recipient and the amount of an authorized instruction. A worker that stops after a claim
  leaves the instruction to reconciliation; it is not sent again.\<close>

theorem payout_sent_once:
  assumes "payout_run rt x y" and "ps_hands x = []" and "transfers_requested (ps_db x) = []"
    and "distinct (map po_reference (distribution_payout_instructions (ps_db x)))"
  shows "distinct (map tq_reference (transfers_requested (ps_db y)))
    \<and> list_all (\<lambda>q. list_ex (transfer_matches q) (distribution_payout_instructions (ps_db y))) (transfers_requested (ps_db y))"
proof -
  have "transfers_ok y" by (rule payout_run_transfers_ok [OF assms(1)]) (simp add: transfers_ok_def assms)
  moreover have "transfers_backed y" by (rule payout_run_backed [OF assms(1)]) (simp add: transfers_backed_def assms)
  ultimately show ?thesis by (auto simp: transfers_ok_distinct transfers_backed_def list_all_iff list_ex_iff)
qed

theorem payout_sent_once_witness:
  "payout_run plain_runtime sample_payouts sample_transferred \<and> map tq_reference (transfers_requested (ps_db sample_transferred)) = [''DPI-1'']
   \<and> distinct (map tq_reference (transfers_requested (ps_db sample_transferred)))"
proof -
  have "distinct (map tq_reference (transfers_requested (ps_db sample_transferred)))"
    using payout_sent_once [OF sample_payout_run] by (simp add: sample_payouts_def)
  then show ?thesis using sample_payout_run
    by (simp add: sample_transferred_def request_transfer_def transfer_of_def instruction_of_def sample_payout_row_def)
qed

text \<open>C16: Whatever commands and workers do, of all payout instructions of one entitlement, originals
  and replacements together, at most one is not failed or reversed: a replacement exists only for
  an instruction whose transfer is known not to stand.\<close>

theorem entitlement_one_live_payout:
  assumes "payout_run rt x y" and "chains_ok (distribution_payout_instructions (ps_db x))"
  shows "length (filter (\<lambda>p. po_entitlement_id p = e \<and> \<not> terminal p) (distribution_payout_instructions (ps_db y))) \<le> 1"
  by (rule chains_ok_live [OF payouts.run_chains_ok [OF assms]])

theorem entitlement_one_live_payout_witness:
  "payout_run plain_runtime sample_payouts sample_transferred
   \<and> length (filter (\<lambda>p. po_entitlement_id p = ''entitlement'' \<and> \<not> terminal p) (distribution_payout_instructions (ps_db sample_transferred))) \<le> 1"
  using sample_payout_run entitlement_one_live_payout [OF sample_payout_run]
  by (simp add: sample_payouts_def chains_ok_def replaced_def sample_payout_row_def)

text \<open>C18: A funding approval is covered: when it commits, the amounts of all payouts that are not yet
  settled, the new ones included, add up to no more than the balance the provider reported for
  this decision, and the original instructions of the funding add up to its amount exactly.\<close>

theorem approved_funding_covered:
  assumes "decideDistributionFundingRequest rt balance inp s = (Inr d, s')"
    and "df_status d = Request_approved" and "\<not> df_replayed d"
    and "list_all (\<lambda>p. 0 < po_amount_minor p) (distribution_payout_instructions s)"
  shows "\<exists>b f. balance = Inr b \<and> first_row (\<lambda>f. fu_id f = fd_requestId inp) (distribution_funding_requests s) = Some f
    \<and> reserved_balance s' \<le> amount_value (NumberAmount b)
    \<and> sum_rows (original_of (fu_id f)) po_amount_minor (distribution_payout_instructions s') = fu_amount_minor f"
proof -
  obtain f b new where f: "balance = Inr b" "first_row (\<lambda>f. fu_id f = fd_requestId inp) (distribution_funding_requests s) = Some f"
    and le: "fu_amount_minor f + reserved_balance s \<le> amount_value (NumberAmount b)" and new: "list_all (new_original (fu_id f)) new"
    and rows: "distribution_payout_instructions s' = distribution_payout_instructions s @ new"
    and sum: "sum_rows (original_of (fu_id f)) po_amount_minor (distribution_payout_instructions s') = fu_amount_minor f"
    by (rule approved_funding_effect [OF assms(1-3)])
  have "0 \<le> sum_rows (original_of (fu_id f)) po_amount_minor (distribution_payout_instructions s)"
    using assms(4) by (intro sum_rows_nonneg) (auto simp: list_all_iff)
  then have "reserved_balance s' \<le> amount_value (NumberAmount b)"
    using le sum new_originals_sum [OF new] by (simp add: reserved_balance_def rows sum_rows_append)
  then show ?thesis using f sum by blast
qed

definition sample_approval :: funding_decision where
  "sample_approval = \<lparr>fd_requestId = ''funding'', fd_actorIdentityId = sample_uuid 902, fd_approve = True,
     fd_decisionReason = ''Bank letter and balance verified.''\<rparr>"

theorem approved_funding_covered_witness:
  "fst (decideDistributionFundingRequest plain_runtime (Inr (Integral 600)) sample_approval (sample_payout_db []))
     = Inr \<lparr>df_status = Request_approved, df_instructionCount = 1, df_replayed = False\<rparr>
   \<and> reserved_balance (snd (decideDistributionFundingRequest plain_runtime (Inr (Integral 600)) sample_approval (sample_payout_db []))) \<le> 600"
proof -
  have ok: "fst (decideDistributionFundingRequest plain_runtime (Inr (Integral 600)) sample_approval (sample_payout_db []))
      = Inr \<lparr>df_status = Request_approved, df_instructionCount = 1, df_replayed = False\<rparr>"
    unfolding decideDistributionFundingRequest_def decide_funding_tx_def authorize_payouts_def insert_payout_instruction_def
      note_action_def tx_defs tx_eval
    by code_simp
  then show ?thesis
    using approved_funding_covered [OF prod.collapse [symmetric, THEN trans], of plain_runtime "Inr (Integral 600)" sample_approval "sample_payout_db []"]
    by auto
qed

section \<open>Manual settlement\<close>

lemma rows_ensure_account [hoare_intros]: "preserves (rows_are rows fs) (ensureLedgerAccount rt inp)"
  by (rule hoareI) (auto dest!: ensure_account_frame)

lemma rows_post_journal [hoare_intros]: "preserves (rows_are rows fs) (postJournalInTransaction rt inp)"
  by (rule hoareI) (auto elim!: post_journal_effect)

lemma rows_correct_ledger [hoare_intros]: "preserves (rows_are rows fs) (correct_ledger rt c p r e)"
  unfolding correct_ledger_def ensureSettlementAccounts_def by (intro hoare_intros) simp_all

lemma rows_policy [hoare_intros]: "preserves (rows_are rows fs) (requireExceptionPolicy org r p)"
  unfolding requireExceptionPolicy_def by (intro hoare_intros) simp_all

lemma rows_some_tx [hoare_intros]: "preserves (rows_are rows fs) m \<Longrightarrow> preserves (rows_are rows fs) (some_tx m)"
  unfolding some_tx_def by (intro hoare_intros) simp_all

lemma rows_update_case [hoare_intros]: "preserves (rows_are rows fs) (update_case i f)"
  by (auto simp: hoare_def update_case_def split: if_splits)

lemma rows_insert_execution [hoare_intros]: "preserves (rows_are rows fs) (insert_execution row)"
  unfolding insert_execution_def by (intro hoare_intros) simp_all

lemma rows_kept:
  assumes "\<And>rows fs. preserves (rows_are rows fs) m" and "m s = Inr (a, s')"
  shows "distribution_payout_instructions s' = distribution_payout_instructions s"
  using hoareD [OF assms(1) _ assms(2), of "distribution_payout_instructions s" "distribution_funding_requests s"]
  by (simp add: rows_are_def)

text \<open>The code asks for a failed or reversed payout only before a replacement and refuses a write-off
  of an uncertain one. Executing a manual settlement debits the liability and leaves the instruction
  as it is; one that was uncertain is still reconciled, and a later success debits the liability a
  second time.\<close>

lemma manual_settlement_keeps_instructions:
  assumes "executeDistributionPayoutException rt caseId evidence actor s = (Inr executionId, s')"
    and "find_case caseId s = Some c" and "xc_resolution_type c = Some Manual_settlement"
  shows "distribution_payout_instructions s' = distribution_payout_instructions s"
proof -
  have run: "execute_exception_tx rt caseId evidence actor s = Inr (executionId, s')"
    using assms(1) by (simp add: executeDistributionPayoutException_def withPostgresTransaction_commit)
  show ?thesis
    using run assms(2,3) unfolding execute_exception_tx_def
    by (auto simp: tx_Inr randomUUID_Inr elim!: tx_elims split: option.splits dest!: rows_kept [OF rows_some_tx [OF rows_policy]]
        rows_kept [OF rows_some_tx [OF rows_correct_ledger]] rows_kept [OF rows_insert_execution] rows_kept [OF rows_update_case]
        rows_kept [OF rows_note_action])
qed

end
