(* ===== verification/Spec2Isabelle.thy ===== *)
theory Spec2Isabelle
  imports State_Machine Ledger_Spec Provider_Events Totp_Factors Issuance_Races Distribution_Shares Payout_Theorems
begin

text \<open>
  A verification library for the Fractal backend, a TypeScript service over PostgreSQL that sells
  units of offerings to investors, keeps their money in an accounting journal, issues units on a
  chain and pays distributions out. The model follows the sources under \<^verbatim>\<open>src/src\<close>; paths below are
  relative to it.

  \<^bold>\<open>Parts and how they meet.\<close> Every write runs inside \<open>withPostgresTransaction\<close>
  (\<^verbatim>\<open>db/postgres.ts\<close>), and nearly every command appends an audit event to the hash chain of its scope
  and an event to the transactional outbox, whose dispatcher publishes it later. An investor checks
  out (\<^verbatim>\<open>platform/postgres-offering-checkout.ts\<close>), which reserves capacity and creates a commitment
  with a payment intent; the outbox turns the intent into a provider instruction; the provider's
  receipt arrives through the inbox, is recorded (\<^verbatim>\<open>platform/postgres-payments.ts\<close>) and posted to
  the journal (\<^verbatim>\<open>platform/postgres-journal.ts\<close>). A confirmed reservation may be allocated units
  under approved issuance terms; deployments and mints are sent to the chain by two executors.
  Distributions are divided among holders, funded, and paid out by a worker. Beside this stand
  sessions, step-up grants, TOTP factors and the signing keys of access tokens.

  \<^bold>\<open>Theories.\<close>
  \<^item> \<open>Prelude\<close>: text, JavaScript numbers, errors (one constructor per error class), transactions as
    functions from a state to an error or a result with a state, triples for them, tables as lists
    of rows with SQL's row operations. \<open>Json\<close>: \<^verbatim>\<open>utils/idempotency.ts\<close>.
  \<^item> \<open>State_Machine\<close>: \<^verbatim>\<open>utils/state-machine.ts\<close> and \<^verbatim>\<open>utils/constants.ts\<close>.
  \<^item> \<open>Audit_Chain\<close>, \<open>Lease_Queue\<close>, \<open>Outbox\<close>, \<open>Inbox\<close>: \<^verbatim>\<open>platform/postgres-audit.ts\<close>,
    \<^verbatim>\<open>postgres-audit-verification.ts\<close>, \<^verbatim>\<open>postgres-outbox.ts\<close>, \<^verbatim>\<open>postgres-inbox.ts\<close> and their dispatchers.
  \<^item> \<open>Journal\<close>, \<open>Ledger_Spec\<close>, \<open>Escrow\<close>: the journal with its deferred balance check, an abstract
    book it refines, and the reconciliation of escrow with recorded receipts.
  \<^item> \<open>Market\<close>, \<open>Payments\<close>, \<open>Checkout\<close>, \<open>Payment_Instructions\<close>, \<open>Market_History\<close>,
    \<open>Market_Frame\<close>: tables and triggers of migrations 012 to 017, checkout, receipts, provider
    instructions, expiry, the payment status view, and histories of all these commands.
    \<open>Provider_Events\<close>: \<^verbatim>\<open>modules/webhooks/routes/paystack-webhook.routes.ts\<close>, over inbox and payments.
  \<^item> \<open>Jwt_Keyring\<close>, \<open>Auth_Sessions\<close>, \<open>Totp\<close>, \<open>Totp_Codes\<close>, \<open>Totp_Factors\<close>:
    \<^verbatim>\<open>services/jwt-keyring.ts\<close>, \<^verbatim>\<open>platform/auth-sessions.ts\<close>, \<^verbatim>\<open>auth-step-up.ts\<close>, \<^verbatim>\<open>totp-factors.ts\<close>.
  \<^item> \<open>Issuance\<close>, \<open>Issuance_Terms\<close>, \<open>Wallets\<close>, \<open>Allocations\<close>, \<open>Chain_Deployments\<close>,
    \<open>Chain_Operations\<close>, \<open>Allocation_Executor\<close>, \<open>Deployment_Executor\<close>: terms and evidence, wallet
    links, allocations, deployments, chain operations and the two executors. \<open>Issuance_System\<close>,
    \<open>Issuance_Supply\<close>, \<open>Dispatch_Protocol\<close>, \<open>Executor_Steps\<close>, \<open>Executor_Safety\<close>,
    \<open>Executor_Runs\<close>, \<open>Stranded_Mints\<close>, \<open>Issuance_Governance\<close>, \<open>Issuance_Properties\<close>: all commands
    together, the supply invariant, the abstract dispatch protocol, the executors cut into
    interleaved steps, and the properties. \<open>Issuance_Overlaps\<close>, \<open>Issuance_Races\<close>: submissions of
    allocations cut into their check and their insertion.
  \<^item> \<open>Distribution_Shares\<close>: \<open>allocate\<close> and the withholding projection of
    \<^verbatim>\<open>platform/postgres-distributions.ts\<close>. \<open>Distribution_Payouts\<close>, \<open>Payout_Settlement\<close>,
    \<open>Payout_Exceptions\<close>: \<^verbatim>\<open>platform/postgres-distribution-payouts.ts\<close> under migrations 127 and 128,
    with \<^verbatim>\<open>postgres-distribution-lifecycle.ts\<close>. \<open>Payout_Worker\<close>:
    \<^verbatim>\<open>services/distribution-payout-worker.ts\<close>. \<open>Payout_Safety\<close>, \<open>Payout_Runs\<close>,
    \<open>Payout_Properties\<close>, \<open>Payout_Theorems\<close>: how every transaction changes the table of
    instructions, interleaved histories, and the properties.

  State and operations correspond by name: a table is a field of the database record with the
  table's name, a row is a record whose fields are its columns under a short prefix, an exported
  function keeps its name, and the body of its transaction is a definition ending in \<open>_tx\<close> or
  \<open>InTransaction\<close>. Constraints, unique indexes, foreign keys and triggers of the migrations are
  checked where the statement runs; deferred constraint triggers run at commit. An error leaves
  the database as it was.

  \<^bold>\<open>What is shown.\<close> Money: the journal balances after any history, refines a book of accounts, and
  escrow equals the receipts recorded; capacity is respected by checkouts. Audit: an honest chain
  verifies, and a changed row is detected. Queues: a lease holder is not overtaken within its lease, and a
  dispatch round settles what it claims. Identity: reuse of a refresh token ends its family, codes
  and recovery codes work once. Issuance: no operation is sent twice, mints follow approval,
  deployments carry the approved cap, decisions take two people; allocations and mints stay under
  the cap as long as submissions under the same terms are written one by one, which the code does not
  enforce. Distributions: shares add up to the last unit,
  a payout is sent at most once, an entitlement has one live instruction, a funding is covered.
  Error theorems record behaviour that departs from what comments or guards intend.

  \<^bold>\<open>Interfaces.\<close> \<open>lifecycle\<close> (seven interpretations, one per entity), \<open>leased_queue\<close> with its
  sublocale from \<open>row_queue\<close> (outbox, inbox, payment instructions), \<open>simulation\<close> (the journal and
  its book), \<open>stable_history\<close> (used TOTP codes and recovery codes), \<open>dispatch_system\<close> (both chain
  executors), \<open>governed_requests\<close> (terms, allocations, deployments), \<open>payout_history\<close> (payout
  commands and workers). Each is interpreted on the model's own definitions.

  \<^bold>\<open>Abstractions.\<close> One clock instant per operation; a command advances it. Text is a list of 8-bit
  characters with ASCII letter case; identifiers are canonical lower-case UUID text, ordered by code
  unit. Numbers are unbounded integers, with the safe-integer and BIGINT tests written out where the
  code makes them, and machine words in the TOTP computation. Transactions run one after
  another, except where interleaving is the subject: executor steps and payout steps interleave, and
  so do the check and the insertion of an allocation (\<open>Issuance_Overlaps\<close>). The other
  commands the properties rest on decide on rows they hold by \<open>FOR UPDATE\<close> or an advisory lock, or
  on a unique index; \<open>submitInvestmentAllocation\<close> does not (it holds the terms \<open>FOR SHARE\<close> and sums
  at READ COMMITTED), and what rests on its check carries the condition in its statement. Workers that skip locked rows
  see every row. Random draws are numbered; draws of
  aborted operations are not counted. Rows returned by \<open>RETURNING\<close> keep table order. Hashes, HMAC,
  signature checks, the payment provider, the chain, object storage and parsed configuration
  are parameters. All loops are total functions by structural recursion or a measure; no fuel is used.

  \<^bold>\<open>Not modelled.\<close> Privacy packages, rights and external snapshots; the routes over the legacy
  document store; ownership snapshots, declarations with their approval journal, tax remittance and
  privacy treatments of distributions; organizations and administration; support cases and work
  orders; storage, mail and provider clients; HTTP middleware; timers and logging of the workers;
  read-only listings that only format rows. They are input and output around the cores above, or
  domains of their own that share the same transactional pattern.
\<close>

end
